(* ===== verification/Prelude.thy ===== *)
theory Prelude
  imports Main "HOL-Library.Word"
begin

text \<open>
  The prelude of the development: names for the machine types of the C sources, congruence of
  integers modulo a fixed modulus, and signed readings of machine words that do not wrap.
\<close>

unbundle bit_operations_syntax

section \<open>Machine types\<close>

text \<open>
  C's \<open>unsigned char\<close>, \<open>int32_t\<close> and \<open>int64_t\<close>.  The type only fixes the width: \<open>uint\<close> reads
  a word as unsigned, \<open>sint\<close> as two's complement.  \<open>+\<close>, \<open>-\<close>, \<open>*\<close> wrap around, \<open>push_bit\<close> is
  \<open><<\<close>, \<open>signed_drop_bit\<close> is \<open>>>\<close> on a signed operand and \<open>drop_bit\<close> is \<open>>>\<close> on an unsigned
  one.
\<close>

type_synonym byte = "8 word"
type_synonym i32 = "32 word"
type_synonym i64 = "64 word"

named_theorems eqm_intros \<open>congruence rules for \<open>eqm\<close>\<close>

section \<open>Congruence modulo an integer\<close>

definition eqm :: "int \<Rightarrow> int \<Rightarrow> int \<Rightarrow> bool" where
  "eqm m a b \<longleftrightarrow> a mod m = b mod m"

lemma eqm_refl [simp, intro, eqm_intros]: "eqm m a a"
  by (simp add: eqm_def)

lemma eqm_sym: "eqm m a b \<Longrightarrow> eqm m b a"
  by (simp add: eqm_def)

lemma eqm_trans [trans]: "eqm m a b \<Longrightarrow> eqm m b c \<Longrightarrow> eqm m a c"
  by (simp add: eqm_def)

lemma eqm_eq_trans [trans]: "eqm m a b \<Longrightarrow> b = c \<Longrightarrow> eqm m a c"
  by simp

lemma eq_eqm_trans [trans]: "a = b \<Longrightarrow> eqm m b c \<Longrightarrow> eqm m a c"
  by simp

lemma eqm_add [eqm_intros]: "eqm m a b \<Longrightarrow> eqm m c d \<Longrightarrow> eqm m (a + c) (b + d)"
  unfolding eqm_def by (rule mod_add_cong)

lemma eqm_diff [eqm_intros]: "eqm m a b \<Longrightarrow> eqm m c d \<Longrightarrow> eqm m (a - c) (b - d)"
  unfolding eqm_def by (rule mod_diff_cong)

lemma eqm_mult [eqm_intros]: "eqm m a b \<Longrightarrow> eqm m c d \<Longrightarrow> eqm m (a * c) (b * d)"
  unfolding eqm_def by (rule mod_mult_cong)

lemma eqm_minus [eqm_intros]: "eqm m a b \<Longrightarrow> eqm m (- a) (- b)"
  unfolding eqm_def by (metis mod_minus_eq)

lemma eqm_power [eqm_intros]: "eqm m a b \<Longrightarrow> eqm m (a ^ n) (b ^ n)"
  unfolding eqm_def by (metis power_mod)

lemma eqm_dvd: "eqm m a b \<longleftrightarrow> m dvd (a - b)"
  by (simp add: eqm_def mod_eq_dvd_iff)

lemma eqm_multiple: "a = b + m * k \<Longrightarrow> eqm m a b"
  by (simp add: eqm_def)

lemma eqm_mod [simp]: "eqm m (a mod m) b \<longleftrightarrow> eqm m a b" "eqm m a (b mod m) \<longleftrightarrow> eqm m a b"
  by (simp_all add: eqm_def)

lemma eqm_unique: "eqm m a b \<Longrightarrow> 0 \<le> a \<Longrightarrow> a < m \<Longrightarrow> a = b mod m"
  by (simp add: eqm_def)

lemma eqm_cong_left: "eqm m a b \<Longrightarrow> eqm m a c \<longleftrightarrow> eqm m b c"
  by (simp add: eqm_def)

lemma eqm_cong_right: "eqm m b c \<Longrightarrow> eqm m a b \<longleftrightarrow> eqm m a c"
  by (simp add: eqm_def)

section \<open>Signed readings that do not wrap\<close>

lemma sint_word_of_int_i64: "\<bar>k\<bar> < 2 ^ 63 \<Longrightarrow> sint (word_of_int k :: i64) = k"
  by (simp add: sint_sbintrunc' signed_take_bit_int_eq_self)

lemma sint_word_of_int_i32: "\<bar>k\<bar> < 2 ^ 31 \<Longrightarrow> sint (word_of_int k :: i32) = k"
  by (simp add: sint_sbintrunc' signed_take_bit_int_eq_self)

lemma word_of_int_sint [simp]: "word_of_int (sint w) = (w :: 'a::len word)"
  by (metis scast_eq scast_id)

lemma sint_i64_eqI: "w = word_of_int k \<Longrightarrow> \<bar>k\<bar> < 2 ^ 63 \<Longrightarrow> sint (w :: i64) = k"
  by (simp add: sint_word_of_int_i64)

lemma sint_i32_eqI: "w = word_of_int k \<Longrightarrow> \<bar>k\<bar> < 2 ^ 31 \<Longrightarrow> sint (w :: i32) = k"
  by (simp add: sint_word_of_int_i32)

lemma sint_scast_up [simp]: "sint (scast (x :: i32) :: i64) = sint x"
  by (rule sint_up_scast) (simp add: is_up)

lemma push_bit_mult_word: "push_bit n (w :: 'a::len word) = w * 2 ^ n"
  by (simp add: push_bit_eq_mult)

lemma sint_add_i64: "\<bar>sint x + sint y\<bar> < 2 ^ 63 \<Longrightarrow> sint (x + y :: i64) = sint x + sint y"
  by (rule sint_i64_eqI) simp_all

lemma sint_diff_i64: "\<bar>sint x - sint y\<bar> < 2 ^ 63 \<Longrightarrow> sint (x - y :: i64) = sint x - sint y"
  by (rule sint_i64_eqI) simp_all

lemma sint_mult_i64: "\<bar>sint x * sint y\<bar> < 2 ^ 63 \<Longrightarrow> sint (x * y :: i64) = sint x * sint y"
  by (rule sint_i64_eqI) simp_all

lemma sint_add_i32: "\<bar>sint x + sint y\<bar> < 2 ^ 31 \<Longrightarrow> sint (x + y :: i32) = sint x + sint y"
  by (rule sint_i32_eqI) simp_all

lemma sint_diff_i32: "\<bar>sint x - sint y\<bar> < 2 ^ 31 \<Longrightarrow> sint (x - y :: i32) = sint x - sint y"
  by (rule sint_i32_eqI) simp_all

lemma sint_mult_i32: "\<bar>sint x * sint y\<bar> < 2 ^ 31 \<Longrightarrow> sint (x * y :: i32) = sint x * sint y"
  by (rule sint_i32_eqI) simp_all

lemma sint_minus_i32: "\<bar>sint x\<bar> < 2 ^ 31 \<Longrightarrow> sint (- x :: i32) = - sint x"
  by (rule sint_i32_eqI) simp_all

lemma sint_shift_right: "sint (signed_drop_bit n (w :: 'a::len word)) = sint w div 2 ^ n"
  by (simp add: sint_signed_drop_bit_eq drop_bit_eq_div)

lemma sint_ucast_i32: "\<bar>sint x\<bar> < 2 ^ 31 \<Longrightarrow> sint (ucast (x :: i64) :: i32) = sint x"
proof (rule sint_i32_eqI)
  show "ucast x = (word_of_int (sint x) :: i32)"
    by transfer (simp add: take_bit_signed_take_bit)
qed

lemma uint_drop_bit_div: "uint (drop_bit r (w :: 'a::len word)) = uint w div 2 ^ r"
proof -
  have "uint (drop_bit r w) = drop_bit r (uint w)"
    unfolding unsigned_drop_bit_eq by (simp add: take_bit_int_eq_self uint_lt2p [THEN order_less_le_trans])
  then show ?thesis
    by (simp only: drop_bit_eq_div [of r "uint w"])
qed

lemma div_bounds:
  assumes "0 < (m :: int)"
  shows "m * (x div m) \<le> x" "x < m * (x div m) + m"
proof -
  have "0 \<le> x mod m" "x mod m < m"
    using assms by simp_all
  then show "m * (x div m) \<le> x" "x < m * (x div m) + m"
    using mult_div_mod_eq [of m x] by linarith+
qed


section \<open>Digit strings\<close>

text \<open>The value of a list of digits, the least significant one first.\<close>

fun base_val :: "int \<Rightarrow> int list \<Rightarrow> int" where
  "base_val b [] = 0"
| "base_val b (x # xs) = x + b * base_val b xs"

lemma base_val_append: "base_val b (xs @ ys) = base_val b xs + b ^ length xs * base_val b ys"
  by (induction xs) (simp_all add: algebra_simps)

lemma base_val_sum: "base_val b xs = (\<Sum>i<length xs. xs ! i * b ^ i)"
proof (induction xs)
  case (Cons x xs)
  have "(\<Sum>i<length (x # xs). (x # xs) ! i * b ^ i) = x + (\<Sum>i<length xs. xs ! i * b ^ Suc i)"
    unfolding length_Cons sum.lessThan_Suc_shift by (simp del: sum.lessThan_Suc)
  then show ?case
    using Cons by (simp add: sum_distrib_left mult_ac)
qed simp

lemma base_val_update:
  assumes "j < length xs"
  shows "base_val b (xs[j := x]) = base_val b xs + (x - xs ! j) * b ^ j"
proof -
  have "base_val b (xs[j := x]) = (\<Sum>i<length xs. xs ! i * b ^ i + (if i = j then (x - xs ! j) * b ^ j else 0))"
    unfolding base_val_sum by (intro sum.cong) (auto simp: nth_list_update algebra_simps)
  then show ?thesis
    using assms by (simp add: base_val_sum sum.distrib)
qed

end
