(* ===== verification/Limbs.thy ===== *)
theory Limbs
  imports Prelude
begin

text \<open>
  Vectors of signed machine limbs: the carry and the multiply-accumulate of the C code, the number
  a vector stands for, limbwise bounds, the effect of one update when it does not overflow, and
  the chains of carries without rounding that leave the digits of the number.
\<close>

unbundle bit_operations_syntax

section \<open>Vectors of signed 64-bit limbs\<close>

text \<open>
  The C code keeps a big number as local variables \<open>h0, h1, \<dots>\<close> of type \<open>int64_t\<close> (or
  \<open>int32_t\<close>, for the carries of \<open>fe_tobytes\<close>); here they are one list.  \<open>limb_carry w r i j m\<close> is the statement group
  \<^verbatim>\<open>carry = (hi + r) >> w; hj += carry * m; hi -= carry << w;\<close> and \<open>limb_mac i j m\<close> is
  \<^verbatim>\<open>hj += hi * m;\<close>.
\<close>

definition limb_carry ::
    "nat \<Rightarrow> 'a::len word \<Rightarrow> nat \<Rightarrow> nat \<Rightarrow> 'a word \<Rightarrow> 'a word list \<Rightarrow> 'a word list" where
  "limb_carry w r i j m s =
     (let carry = signed_drop_bit w (s ! i + r)
      in s[j := s ! j + carry * m, i := s ! i - push_bit w carry])"

definition limb_mac :: "nat \<Rightarrow> nat \<Rightarrow> i64 \<Rightarrow> i64 list \<Rightarrow> i64 list" where
  "limb_mac i j m s = s[j := s ! j + s ! i * m]"

lemma length_limb_carry [simp]: "length (limb_carry w r i j m s) = length s"
  by (simp add: limb_carry_def Let_def)

lemma length_limb_mac [simp]: "length (limb_mac i j m s) = length s"
  by (simp add: limb_mac_def)

text \<open>The number a vector stands for, with the bit position of each limb.\<close>

definition limb_val :: "nat list \<Rightarrow> i64 list \<Rightarrow> int" where
  "limb_val es s = (\<Sum>i<length es. sint (s ! i) * 2 ^ (es ! i))"

lemma limb_val_update:
  assumes "j < length es" "length es \<le> length s"
  shows "limb_val es (s[j := x]) = limb_val es s + (sint x - sint (s ! j)) * 2 ^ (es ! j)"
proof -
  have "limb_val es (s[j := x]) = (\<Sum>i<length es. sint (s ! i) * 2 ^ (es ! i)
      + (if i = j then (sint x - sint (s ! j)) * 2 ^ (es ! j) else 0))"
    unfolding limb_val_def using assms by (intro sum.cong) (auto simp: nth_list_update algebra_simps)
  also have "\<dots> = limb_val es s + (sint x - sint (s ! j)) * 2 ^ (es ! j)"
    using assms by (simp add: limb_val_def sum.distrib)
  finally show ?thesis .
qed

text \<open>Limbwise absolute bounds.\<close>

definition limb_bounded :: "int list \<Rightarrow> i64 list \<Rightarrow> bool" where
  "limb_bounded B s \<longleftrightarrow> length s = length B \<and> (\<forall>i<length B. \<bar>sint (s ! i)\<bar> \<le> B ! i)"

lemma limb_boundedD: "limb_bounded B s \<Longrightarrow> i < length B \<Longrightarrow> \<bar>sint (s ! i)\<bar> \<le> B ! i"
  by (simp add: limb_bounded_def)

lemma limb_bounded_length: "limb_bounded B s \<Longrightarrow> length s = length B"
  by (simp add: limb_bounded_def)

lemma limb_bounded_update:
  assumes "limb_bounded B s" "\<bar>sint x\<bar> \<le> b"
  shows "limb_bounded (B[j := b]) (s[j := x])"
  using assms by (cases "j < length B") (auto simp: limb_bounded_def nth_list_update)

lemma limb_bounded_mono:
  assumes "limb_bounded B s" "list_all2 (\<le>) B B'"
  shows "limb_bounded B' s"
  using assms unfolding limb_bounded_def list_all2_conv_all_nth by (metis order_trans)

subsection \<open>The arithmetic of one carry\<close>

lemma carry_div_bound:
  fixes h :: int
  assumes "\<bar>h\<bar> \<le> b" "0 \<le> r" "r < 2 ^ w"
  shows "\<bar>(h + r) div 2 ^ w\<bar> \<le> (b + 2 ^ w - 1) div 2 ^ w"
proof -
  have up: "(h + r) div 2 ^ w \<le> (b + 2 ^ w - 1) div 2 ^ w"
    by (rule zdiv_mono1) (use assms in auto)
  have "- ((b + 2 ^ w - 1) div 2 ^ w) \<le> (- b) div 2 ^ w"
  proof -
    have "(b + 2 ^ w - 1) mod 2 ^ w < 2 ^ w"
      by simp
    then have "b \<le> ((b + 2 ^ w - 1) div 2 ^ w) * 2 ^ w"
      using div_mult_mod_eq [of "b + 2 ^ w - 1" "2 ^ w"] by linarith
    then have "(- ((b + 2 ^ w - 1) div 2 ^ w) * 2 ^ w) div 2 ^ w \<le> (- b) div 2 ^ w"
      by (intro zdiv_mono1) auto
    then show ?thesis
      by (subst (asm) nonzero_mult_div_cancel_right) auto
  qed
  also have "\<dots> \<le> (h + r) div 2 ^ w"
    by (rule zdiv_mono1) (use assms in auto)
  finally show ?thesis using up by linarith
qed

lemma carry_rest: "(h :: int) - ((h + r) div 2 ^ w) * 2 ^ w = (h + r) mod 2 ^ w - r"
  by (simp add: minus_div_mult_eq_mod [symmetric])

text \<open>
  A carry out of limb \<open>i\<close> moves \<open>k = (s\<^sub>i + r) div 2\<^sup>w\<close> into limb \<open>j\<close> and leaves a remainder of
  \<open>w\<close> bits, whatever happens to the intermediate \<open>carry << w\<close>.
\<close>

lemma limb_carry_step:
  fixes s :: "i64 list"
  assumes B: "limb_bounded B s" and ij: "i < length B" "j < length B" "i \<noteq> j"
    and r: "sint r = \<rho>" "0 \<le> \<rho>" "\<rho> < 2 ^ w" and w: "w < 63" and m: "sint m = \<mu>" "0 \<le> \<mu>"
    and c: "c = (B ! i + 2 ^ w - 1) div 2 ^ w"
    and range: "B ! i + 2 ^ w \<le> 2 ^ 63" "B ! j + c * \<mu> < 2 ^ 63"
  defines "k \<equiv> (sint (s ! i) + \<rho>) div 2 ^ w"
  shows "sint (limb_carry w r i j m s ! j) = sint (s ! j) + k * \<mu>"
    and "sint (limb_carry w r i j m s ! i) = (sint (s ! i) + \<rho>) mod 2 ^ w - \<rho>"
    and "\<bar>k\<bar> \<le> c"
    and "limb_carry w r i j m s = s[j := word_of_int (sint (s ! j) + k * \<mu>),
           i := word_of_int ((sint (s ! i) + \<rho>) mod 2 ^ w - \<rho>)]"
proof -
  have len: "length s = length B" and bi: "\<bar>sint (s ! i)\<bar> \<le> B ! i" and bj: "\<bar>sint (s ! j)\<bar> \<le> B ! j"
    using B ij by (auto simp: limb_bounded_def)
  have "sint (s ! i + r) = sint (s ! i) + \<rho>"
    using sint_add_i64 [of "s ! i" r] bi r range by linarith
  then have carry: "sint (signed_drop_bit w (s ! i + r)) = k"
    by (simp add: sint_shift_right k_def)
  show kc: "\<bar>k\<bar> \<le> c"
    unfolding k_def c by (rule carry_div_bound [OF bi r(2,3)])
  have wj: "s ! j + signed_drop_bit w (s ! i + r) * m = word_of_int (sint (s ! j) + k * \<mu>)"
    by (simp flip: carry m(1))
  have wi: "s ! i - push_bit w (signed_drop_bit w (s ! i + r))
      = word_of_int ((sint (s ! i) + \<rho>) mod 2 ^ w - \<rho>)"
    unfolding push_bit_mult_word carry_rest [symmetric] k_def [symmetric] by (simp flip: carry)
  show eq: "limb_carry w r i j m s = s[j := word_of_int (sint (s ! j) + k * \<mu>),
           i := word_of_int ((sint (s ! i) + \<rho>) mod 2 ^ w - \<rho>)]"
    by (simp add: limb_carry_def Let_def wi wj)
  have "\<bar>k * \<mu>\<bar> \<le> c * \<mu>"
    using kc m(2) by (simp add: abs_mult mult_right_mono)
  then have "\<bar>sint (s ! j) + k * \<mu>\<bar> < 2 ^ 63"
    using bj range(2) by linarith
  then show "sint (limb_carry w r i j m s ! j) = sint (s ! j) + k * \<mu>"
    using ij len by (simp add: eq sint_word_of_int_i64 del: of_int_add of_int_mult of_int_diff)
  have "0 \<le> (sint (s ! i) + \<rho>) mod 2 ^ w" "(sint (s ! i) + \<rho>) mod 2 ^ w < 2 ^ w"
    by simp_all
  moreover have "(2::int) ^ w * 2 \<le> 2 ^ 63"
    using power_increasing [of "Suc w" 63 "2::int"] w by simp
  ultimately have "\<bar>(sint (s ! i) + \<rho>) mod 2 ^ w - \<rho>\<bar> < 2 ^ 63"
    using r(2,3) by linarith
  then show "sint (limb_carry w r i j m s ! i) = (sint (s ! i) + \<rho>) mod 2 ^ w - \<rho>"
    using ij len by (simp add: eq sint_word_of_int_i64 del: of_int_add of_int_mult of_int_diff)
qed

lemma limb_carry_bounded:
  assumes B: "limb_bounded B s" and ij: "i < length B" "j < length B" "i \<noteq> j"
    and r: "sint r = \<rho>" "0 \<le> \<rho>" "\<rho> < 2 ^ w" and w: "w < 63" and m: "sint m = \<mu>" "0 \<le> \<mu>"
    and c: "c = (B ! i + 2 ^ w - 1) div 2 ^ w"
    and range: "B ! i + 2 ^ w \<le> 2 ^ 63" "B ! j + c * \<mu> < 2 ^ 63"
  shows "limb_bounded (B[j := B ! j + c * \<mu>, i := max \<rho> (2 ^ w - 1 - \<rho>)]) (limb_carry w r i j m s)"
proof -
  note step = limb_carry_step [OF B ij r w m c range]
  let ?k = "(sint (s ! i) + \<rho>) div 2 ^ w" and ?t = "limb_carry w r i j m s"
  have "\<bar>?k * \<mu>\<bar> \<le> c * \<mu>"
    using step(3) m(2) by (simp add: abs_mult mult_right_mono)
  then have j: "\<bar>sint (?t ! j)\<bar> \<le> B ! j + c * \<mu>"
    using step(1) limb_boundedD [OF B ij(2)] by linarith
  have "0 \<le> (sint (s ! i) + \<rho>) mod 2 ^ w" "(sint (s ! i) + \<rho>) mod 2 ^ w < 2 ^ w"
    by simp_all
  then have i: "\<bar>sint (?t ! i)\<bar> \<le> max \<rho> (2 ^ w - 1 - \<rho>)"
    using step(2) by linarith
  have "?t = s[j := ?t ! j, i := ?t ! i]"
    using ij B by (simp add: limb_carry_def Let_def limb_bounded_def list_eq_iff_nth_eq nth_list_update)
  then show ?thesis
    using limb_bounded_update [OF limb_bounded_update [OF B j] i] by metis
qed

lemma limb_carry_val:
  assumes B: "limb_bounded B s" and ij: "i < length B" "j < length B" "i \<noteq> j"
    and r: "sint r = \<rho>" "0 \<le> \<rho>" "\<rho> < 2 ^ w" and w: "w < 63" and m: "sint m = \<mu>" "0 \<le> \<mu>"
    and c: "c = (B ! i + 2 ^ w - 1) div 2 ^ w"
    and range: "B ! i + 2 ^ w \<le> 2 ^ 63" "B ! j + c * \<mu> < 2 ^ 63"
    and es: "i < length es" "j < length es" "length es \<le> length B"
  shows "limb_val es (limb_carry w r i j m s) = limb_val es s
      + ((sint (s ! i) + \<rho>) div 2 ^ w) * (\<mu> * 2 ^ (es ! j) - 2 ^ w * 2 ^ (es ! i))"
proof -
  note step = limb_carry_step [OF B ij r w m c range]
  let ?k = "(sint (s ! i) + \<rho>) div 2 ^ w" and ?t = "limb_carry w r i j m s"
  have len: "length s = length B"
    using B by (rule limb_bounded_length)
  have "?t = s[j := ?t ! j, i := ?t ! i]"
    using ij len by (simp add: limb_carry_def Let_def list_eq_iff_nth_eq nth_list_update)
  then have "limb_val es ?t = limb_val es (s[j := ?t ! j, i := ?t ! i])"
    by simp
  also have "\<dots> = limb_val es s + (?k * \<mu>) * 2 ^ (es ! j)
      + ((sint (s ! i) + \<rho>) mod 2 ^ w - \<rho> - sint (s ! i)) * 2 ^ (es ! i)"
    using es ij len step(1,2) by (simp add: limb_val_update)
  also have "(sint (s ! i) + \<rho>) mod 2 ^ w - \<rho> - sint (s ! i) = - (?k * 2 ^ w)"
    using div_mult_mod_eq [of "sint (s ! i) + \<rho>" "2 ^ w"] by linarith
  finally show ?thesis
    by (simp add: algebra_simps)
qed

lemma limb_mac_step:
  assumes B: "limb_bounded B s" and ij: "i < length B" "j < length B"
    and m: "sint m = \<mu>" and range: "B ! j + B ! i * \<bar>\<mu>\<bar> < 2 ^ 63"
  shows "sint (limb_mac i j m s ! j) = sint (s ! j) + sint (s ! i) * \<mu>"
    and "limb_bounded (B[j := B ! j + B ! i * \<bar>\<mu>\<bar>]) (limb_mac i j m s)"
proof -
  have len: "length s = length B" and bi: "\<bar>sint (s ! i)\<bar> \<le> B ! i" and bj: "\<bar>sint (s ! j)\<bar> \<le> B ! j"
    using B ij by (auto simp: limb_bounded_def)
  have prod: "\<bar>sint (s ! i) * \<mu>\<bar> \<le> B ! i * \<bar>\<mu>\<bar>"
    using bi by (simp add: abs_mult mult_right_mono)
  have "s ! j + s ! i * m = word_of_int (sint (s ! j) + sint (s ! i) * \<mu>)"
    by (simp flip: m)
  moreover have "\<bar>sint (s ! j) + sint (s ! i) * \<mu>\<bar> < 2 ^ 63"
    using prod bj range by linarith
  ultimately have v: "sint (s ! j + s ! i * m) = sint (s ! j) + sint (s ! i) * \<mu>"
    by (rule sint_i64_eqI)
  then show "sint (limb_mac i j m s ! j) = sint (s ! j) + sint (s ! i) * \<mu>"
    using ij len by (simp add: limb_mac_def)
  have "\<bar>sint (s ! j + s ! i * m)\<bar> \<le> B ! j + B ! i * \<bar>\<mu>\<bar>"
    using v prod bj by linarith
  then show "limb_bounded (B[j := B ! j + B ! i * \<bar>\<mu>\<bar>]) (limb_mac i j m s)"
    unfolding limb_mac_def by (rule limb_bounded_update [OF B])
qed

subsection \<open>Vectors given by their integers\<close>

lemma sint_of_ints:
  assumes "list_all2 (\<lambda>b x. \<bar>x\<bar> \<le> b) B xs" "\<forall>b\<in>set B. b < 2 ^ 63" "i < length xs"
  shows "sint (map word_of_int xs ! i :: i64) = xs ! i"
proof -
  have "\<bar>xs ! i\<bar> \<le> B ! i" "B ! i \<in> set B"
    using assms by (auto simp: list_all2_conv_all_nth)
  then show ?thesis
    using assms by (auto simp: sint_word_of_int_i64 intro: order_le_less_trans)
qed

lemma limb_bounded_of_ints:
  assumes "list_all2 (\<lambda>b x. \<bar>x\<bar> \<le> b) B xs" "\<forall>b\<in>set B. b < 2 ^ 63"
  shows "limb_bounded B (map word_of_int xs)"
  unfolding limb_bounded_def
  using assms(1) sint_of_ints [OF assms] by (simp add: list_all2_conv_all_nth)

lemma limb_val_of_ints:
  assumes "list_all2 (\<lambda>b x. \<bar>x\<bar> \<le> b) B xs" "\<forall>b\<in>set B. b < 2 ^ 63" "length es \<le> length xs"
  shows "limb_val es (map word_of_int xs) = (\<Sum>i<length es. xs ! i * 2 ^ (es ! i))"
  unfolding limb_val_def using sint_of_ints [OF assms(1,2)] assms(3)
  by (intro sum.cong refl) (simp del: nth_map)

section \<open>Chains of carries without rounding\<close>

text \<open>
  Running \<^verbatim>\<open>carry = si >> wi; s(i+1) += carry; si -= carry << wi;\<close> for
  \<open>i = 0, \<dots>, k - 1\<close> leaves in the first \<open>k\<close> limbs the digits of the number and in limb \<open>k\<close>
  what lies above them.
\<close>

definition floor_carries :: "nat list \<Rightarrow> nat \<Rightarrow> 'a::len word list \<Rightarrow> 'a word list" where
  "floor_carries ws k s = fold (\<lambda>i. limb_carry (ws ! i) 0 i (i + 1) 1) [0..<k] s"

lemma length_floor_carries [simp]: "length (floor_carries ws k s) = length s"
  unfolding floor_carries_def by (induction k) simp_all

lemma floor_carries_Suc:
  "floor_carries ws (Suc k) s = limb_carry (ws ! k) 0 k (k + 1) 1 (floor_carries ws k s)"
  by (simp add: floor_carries_def)

lemma floor_carries_above: "k < j \<Longrightarrow> floor_carries ws k s ! j = s ! j"
  by (induction k arbitrary: j) (simp_all add: floor_carries_Suc limb_carry_def Let_def,
      simp add: floor_carries_def)

definition wpos :: "nat list \<Rightarrow> nat \<Rightarrow> nat" where
  "wpos ws i = (\<Sum>j<i. ws ! j)"

lemma wpos_simps [simp]: "wpos ws 0 = 0" "wpos ws (Suc i) = wpos ws i + ws ! i"
  by (simp_all add: wpos_def)

definition wval :: "nat list \<Rightarrow> nat \<Rightarrow> 'a::len word list \<Rightarrow> int" where
  "wval ws n s = (\<Sum>j<n. sint (s ! j) * 2 ^ wpos ws j)"

lemma wval_simps [simp]: "wval ws 0 s = 0"
  "wval ws (Suc n) s = wval ws n s + sint (s ! n) * 2 ^ wpos ws n"
  by (simp_all add: wval_def)

lemma sint_word_of_int:
  "- (2 ^ (LENGTH('a) - 1)) \<le> k \<Longrightarrow> k < 2 ^ (LENGTH('a) - 1) \<Longrightarrow> sint (word_of_int k :: 'a::len word) = k"
  by (simp add: sint_sbintrunc' signed_take_bit_int_eq_self)

lemma floor_carry_limbs:
  fixes s :: "'a::len word list"
  assumes "i < length s" "j < length s" "i \<noteq> j" "w < LENGTH('a)"
    and range: "- (2 ^ (LENGTH('a) - 1)) \<le> sint (s ! j) + sint (s ! i) div 2 ^ w"
      "sint (s ! j) + sint (s ! i) div 2 ^ w < 2 ^ (LENGTH('a) - 1)"
  shows "sint (limb_carry w 0 i j 1 s ! j) = sint (s ! j) + sint (s ! i) div 2 ^ w"
    and "sint (limb_carry w 0 i j 1 s ! i) = sint (s ! i) mod 2 ^ w"
proof -
  let ?c = "signed_drop_bit w (s ! i)"
  have c: "sint ?c = sint (s ! i) div 2 ^ w"
    by (rule sint_shift_right)
  have "s ! j + ?c = word_of_int (sint (s ! j) + sint (s ! i) div 2 ^ w)"
    by (simp flip: c)
  then show "sint (limb_carry w 0 i j 1 s ! j) = sint (s ! j) + sint (s ! i) div 2 ^ w"
    using assms by (simp add: limb_carry_def Let_def sint_word_of_int del: of_int_add)
  have "s ! i - push_bit w ?c = word_of_int (sint (s ! i) - sint (s ! i) div 2 ^ w * 2 ^ w)"
    unfolding push_bit_mult_word c [symmetric] by simp
  also have "sint (s ! i) - sint (s ! i) div 2 ^ w * 2 ^ w = sint (s ! i) mod 2 ^ w"
    by (simp add: minus_div_mult_eq_mod)
  finally have i: "s ! i - push_bit w ?c = word_of_int (sint (s ! i) mod 2 ^ w)" .
  have "sint (s ! i) mod 2 ^ w < 2 ^ w"
    by simp
  also have "(2::int) ^ w \<le> 2 ^ (LENGTH('a) - 1)"
    using assms(4) by (intro power_increasing) auto
  finally have "sint (word_of_int (sint (s ! i) mod 2 ^ w) :: 'a word) = sint (s ! i) mod 2 ^ w"
    by (intro sint_word_of_int) (auto intro: order_trans [of _ 0])
  then show "sint (limb_carry w 0 i j 1 s ! i) = sint (s ! i) mod 2 ^ w"
    using assms(1-3) i by (simp add: limb_carry_def Let_def)
qed

lemma div_pow2_abs_le:
  fixes t :: int
  assumes "\<bar>t\<bar> \<le> 2 * M" "1 \<le> M" "1 \<le> w"
  shows "\<bar>t div 2 ^ w\<bar> \<le> M"
proof -
  have "(2::int) ^ 1 \<le> 2 ^ w"
    using assms(3) by (intro power_increasing) auto
  then have p: "2 \<le> (2::int) ^ w" by simp
  then have "2 * M \<le> M * 2 ^ w"
    using assms(2) mult_left_mono [OF p, of M] by (simp add: mult.commute)
  then have "t div 2 ^ w \<le> (M * 2 ^ w) div 2 ^ w" "(- M * 2 ^ w) div 2 ^ w \<le> t div 2 ^ w"
    using assms(1) by (intro zdiv_mono1; simp)+
  moreover have "(- M * 2 ^ w) div 2 ^ w = - M" "(M * 2 ^ w) div 2 ^ w = M"
    by (rule nonzero_mult_div_cancel_right, simp)+
  ultimately show ?thesis
    by linarith
qed

lemma floor_carries_limbs:
  fixes s :: "'a::len word list"
  assumes k: "k < length s" and bound: "\<forall>i\<le>k. \<bar>sint (s ! i)\<bar> \<le> M" and M: "1 \<le> M"
    and range: "2 * M < 2 ^ (LENGTH('a) - 1)"
    and ws: "\<forall>i<k. 1 \<le> ws ! i \<and> ws ! i < LENGTH('a)"
  shows "sint (floor_carries ws k s ! k) = wval ws (Suc k) s div 2 ^ wpos ws k
    \<and> \<bar>sint (floor_carries ws k s ! k)\<bar> \<le> 2 * M
    \<and> (\<forall>j<k. sint (floor_carries ws k s ! j)
          = (wval ws (Suc j) s div 2 ^ wpos ws j) mod 2 ^ (ws ! j))"
  using k bound ws
proof (induction k)
  case 0
  then show ?case
    using M by (auto simp: floor_carries_def)
next
  case (Suc k)
  let ?t = "floor_carries ws k s"
  have IH: "sint (?t ! k) = wval ws (Suc k) s div 2 ^ wpos ws k" "\<bar>sint (?t ! k)\<bar> \<le> 2 * M"
    "\<forall>j<k. sint (?t ! j) = (wval ws (Suc j) s div 2 ^ wpos ws j) mod 2 ^ (ws ! j)"
    using Suc by auto
  have w: "1 \<le> ws ! k" "ws ! k < LENGTH('a)" and b: "\<bar>sint (s ! Suc k)\<bar> \<le> M"
    using Suc.prems by auto
  have c: "\<bar>sint (?t ! k) div 2 ^ (ws ! k)\<bar> \<le> M"
    by (rule div_pow2_abs_le [OF IH(2) M w(1)])
  have above: "?t ! Suc k = s ! Suc k"
    by (rule floor_carries_above) simp
  note step = floor_carry_limbs [of k ?t "Suc k" "ws ! k"]
  have new: "sint (floor_carries ws (Suc k) s ! Suc k) = sint (s ! Suc k) + sint (?t ! k) div 2 ^ (ws ! k)"
    "sint (floor_carries ws (Suc k) s ! k) = sint (?t ! k) mod 2 ^ (ws ! k)"
    using step Suc.prems(1) w(2) above b c range by (simp_all add: floor_carries_Suc)
  have "sint (s ! Suc k) + sint (?t ! k) div 2 ^ (ws ! k)
      = wval ws (Suc (Suc k)) s div 2 ^ wpos ws (Suc k)"
    unfolding IH(1) wval_simps(2) [of ws "Suc k"] wpos_simps(2) power_add
    by (simp add: zdiv_zmult2_eq [symmetric] del: wval_simps(2))
  moreover have "\<forall>j<Suc k. sint (floor_carries ws (Suc k) s ! j)
      = (wval ws (Suc j) s div 2 ^ wpos ws j) mod 2 ^ (ws ! j)"
    using IH(1,3) new(2) by (auto simp: less_Suc_eq floor_carries_Suc limb_carry_def Let_def)
  ultimately show ?case
    using new(1) b c by auto
qed

lemma wval_split: "j \<le> n \<Longrightarrow> \<exists>t. wval ws n s = wval ws j s + 2 ^ wpos ws j * t"
proof (induction n)
  case (Suc n)
  show ?case
  proof (cases "j = Suc n")
    case False
    then obtain t where t: "wval ws n s = wval ws j s + 2 ^ wpos ws j * t"
      using Suc by auto
    have "j \<le> n" using False Suc.prems by simp
    then have "(\<Sum>i<n. ws ! i) = (\<Sum>i<j. ws ! i) + (\<Sum>i=j..<n. ws ! i)"
      by (metis lessThan_atLeast0 sum.atLeastLessThan_concat zero_le)
    then have "(2::int) ^ wpos ws n = 2 ^ wpos ws j * 2 ^ (\<Sum>i=j..<n. ws ! i)"
      by (simp add: wpos_def power_add)
    then have "wval ws (Suc n) s
        = wval ws j s + 2 ^ wpos ws j * (t + sint (s ! n) * 2 ^ (\<Sum>i=j..<n. ws ! i))"
      by (simp add: t algebra_simps)
    then show ?thesis by blast
  qed (auto intro: exI [of _ 0])
qed (auto intro: exI [of _ 0])

lemma wval_digit:
  assumes "j < n"
  shows "(wval ws (Suc j) s div 2 ^ wpos ws j) mod 2 ^ (ws ! j) = (wval ws n s div 2 ^ wpos ws j) mod 2 ^ (ws ! j)"
proof -
  obtain t where "wval ws n s = wval ws (Suc j) s + 2 ^ wpos ws (Suc j) * t"
    using wval_split [of "Suc j" n ws s] assms by auto
  then have "wval ws n s = wval ws (Suc j) s + (2 ^ (ws ! j) * t) * 2 ^ wpos ws j"
    by (simp add: power_add algebra_simps del: wval_simps)
  then show ?thesis
    by (simp del: wval_simps)
qed

text \<open>The limbs after the chain, as digits of the number held before it.\<close>

lemma floor_carries_digits:
  fixes s :: "'a::len word list"
  assumes k: "k < length s" and bound: "\<forall>i\<le>k. \<bar>sint (s ! i)\<bar> \<le> M" and M: "1 \<le> M"
    and range: "2 * M < 2 ^ (LENGTH('a) - 1)"
    and ws: "\<forall>i<k. 1 \<le> ws ! i \<and> ws ! i < LENGTH('a)"
    and V: "V = wval ws (Suc k) s"
  shows "sint (floor_carries ws k s ! k) = V div 2 ^ wpos ws k"
    and "j < k \<Longrightarrow> sint (floor_carries ws k s ! j) = (V div 2 ^ wpos ws j) mod 2 ^ (ws ! j)"
  using floor_carries_limbs [OF k bound M range ws] wval_digit [of j "Suc k" ws s] V
  by (auto simp del: wval_simps)

end
