(* ===== verification/Bytes.thy ===== *)
theory Bytes
  imports Limbs
begin

text \<open>
  Little-endian byte strings: the number a byte string stands for and its inverse, the loads
  \<open>load_3\<close> and \<open>load_4\<close> of \<^verbatim>\<open>src/base/tools/cryptonote/crypto-ops.c\<close>, and the stores that
  cut a number kept in limbs into bytes.
\<close>

unbundle bit_operations_syntax

section \<open>Numbers as byte strings\<close>

fun le_val :: "byte list \<Rightarrow> int" where
  "le_val [] = 0"
| "le_val (b # bs) = uint b + 2 ^ 8 * le_val bs"

definition le_bytes :: "nat \<Rightarrow> int \<Rightarrow> byte list" where
  "le_bytes n V = map (\<lambda>j. word_of_int (V div 2 ^ (8 * j))) [0..<n]"

lemma length_le_bytes [simp]: "length (le_bytes n V) = n"
  by (simp add: le_bytes_def)

lemma nth_le_bytes: "j < n \<Longrightarrow> le_bytes n V ! j = word_of_int (V div 2 ^ (8 * j))"
  by (simp add: le_bytes_def)

lemma uint_byte_range: "0 \<le> uint (b :: byte)" "uint (b :: byte) < 256"
  using uint_lt2p [of b] by simp_all

lemma le_val_nonneg [simp]: "0 \<le> le_val bs"
  by (induction bs) (simp_all add: uint_byte_range)

lemma le_val_less: "le_val bs < 2 ^ (8 * length bs)"
proof (induction bs)
  case (Cons b bs)
  then have "le_val bs + 1 \<le> 2 ^ (8 * length bs)" by simp
  then have "2 ^ 8 * (le_val bs + 1) \<le> (2 ^ 8 * 2 ^ (8 * length bs) :: int)"
    by (intro mult_left_mono) simp_all
  then show ?case
    using uint_byte_range [of b] by (simp add: power_add)
qed simp

lemma le_val_append: "le_val (xs @ ys) = le_val xs + 2 ^ (8 * length xs) * le_val ys"
  by (induction xs) (simp_all add: algebra_simps power_add)

lemma le_val_drop: "n \<le> length bs \<Longrightarrow> le_val (drop n bs) = le_val bs div 2 ^ (8 * n)"
proof -
  assume n: "n \<le> length bs"
  have "le_val bs = le_val (take n bs) + 2 ^ (8 * n) * le_val (drop n bs)"
    using le_val_append [of "take n bs" "drop n bs"] n by simp
  moreover have "le_val (take n bs) < 2 ^ (8 * n)"
    using le_val_less [of "take n bs"] n by simp
  ultimately show ?thesis
    by (simp add: div_pos_pos_trivial)
qed

lemma le_val_take: "n \<le> length bs \<Longrightarrow> le_val (take n bs) = le_val bs mod 2 ^ (8 * n)"
proof -
  assume n: "n \<le> length bs"
  have "le_val bs = le_val (take n bs) + 2 ^ (8 * n) * le_val (drop n bs)"
    using le_val_append [of "take n bs" "drop n bs"] n by simp
  moreover have "le_val (take n bs) < 2 ^ (8 * n)"
    using le_val_less [of "take n bs"] n by simp
  ultimately show ?thesis
    by (simp add: mod_pos_pos_trivial)
qed

lemma le_bytes_Suc: "le_bytes (Suc n) V = word_of_int V # le_bytes n (V div 2 ^ 8)"
proof (rule nth_equalityI)
  fix i assume "i < length (le_bytes (Suc n) V)"
  then show "le_bytes (Suc n) V ! i = (word_of_int V # le_bytes n (V div 2 ^ 8)) ! i"
    by (cases i) (simp_all add: nth_le_bytes power_add zdiv_zmult2_eq [symmetric] mult.commute)
qed simp

lemma uint_word_of_int_byte: "uint (word_of_int V :: byte) = V mod 2 ^ 8"
  by (simp add: uint_word_of_int)

lemma le_val_le_bytes: "le_val (le_bytes n V) = V mod 2 ^ (8 * n)"
proof (induction n arbitrary: V)
  case 0
  then show ?case by (simp add: le_bytes_def)
next
  case (Suc n)
  have "V mod 2 ^ (8 * Suc n) = V mod (2 ^ 8 * 2 ^ (8 * n))"
    by (simp add: power_add)
  also have "\<dots> = 2 ^ 8 * ((V div 2 ^ 8) mod 2 ^ (8 * n)) + V mod 2 ^ 8"
    by (rule zmod_zmult2_eq) simp
  finally show ?case
    by (simp add: le_bytes_Suc Suc.IH uint_word_of_int_byte)
qed

lemma le_val_replicate_0: "le_val (replicate n 0) = 0"
  by (induction n) simp_all

lemma le_bytes_le_val: "le_bytes (length bs) (le_val bs) = bs"
proof (induction bs)
  case Nil
  then show ?case by (simp add: le_bytes_def)
next
  case (Cons b bs)
  have "(uint b + 2 ^ 8 * le_val bs) div 2 ^ 8 = le_val bs"
    using uint_byte_range [of b] by simp
  moreover have "(word_of_int (uint b + 2 ^ 8 * le_val bs) :: byte) = b"
  proof -
    have "uint (word_of_int (uint b + 2 ^ 8 * le_val bs) :: byte) = uint b"
      unfolding uint_word_of_int_byte using uint_byte_range [of b] by simp
    then show ?thesis by (rule word_uint_eqI)
  qed
  ultimately show ?case
    using Cons by (simp add: le_bytes_Suc del: of_int_add of_int_mult)
qed

lemma le_val_inj: "length bs = length cs \<Longrightarrow> le_val bs = le_val cs \<Longrightarrow> bs = cs"
  by (metis le_bytes_le_val)

lemma mod_pow2_div: "((V :: int) mod 2 ^ (a + b)) div 2 ^ a = V div 2 ^ a mod 2 ^ b"
proof -
  have "V mod 2 ^ (a + b) = 2 ^ a * (V div 2 ^ a mod 2 ^ b) + V mod 2 ^ a"
    unfolding power_add by (rule zmod_zmult2_eq) simp
  moreover have "V mod 2 ^ a div 2 ^ a = 0"
    by (simp add: div_pos_pos_trivial)
  ultimately show ?thesis
    by simp
qed

lemma mod_pow2_digit:
  assumes "a + b \<le> c"
  shows "((V :: int) mod 2 ^ c) div 2 ^ a mod 2 ^ b = V div 2 ^ a mod 2 ^ b"
proof -
  have "(V mod 2 ^ (a + (c - a))) div 2 ^ a mod 2 ^ b = V div 2 ^ a mod 2 ^ (c - a) mod 2 ^ b"
    by (simp only: mod_pow2_div)
  also have "\<dots> = V div 2 ^ a mod 2 ^ b"
    using assms by (intro mod_mod_cancel le_imp_power_dvd) simp
  finally show ?thesis
    using assms by simp
qed

lemma digits_sum: "(\<Sum>i<n. ((V :: int) div 2 ^ (w * i) mod 2 ^ w) * 2 ^ (w * i)) = V mod 2 ^ (w * n)"
proof (induction n)
  case (Suc n)
  have "V mod 2 ^ (w * Suc n) = V mod (2 ^ (w * n) * 2 ^ w)"
    by (simp add: power_add mult.commute)
  also have "\<dots> = 2 ^ (w * n) * (V div 2 ^ (w * n) mod 2 ^ w) + V mod 2 ^ (w * n)"
    by (rule zmod_zmult2_eq) simp
  finally show ?case
    using Suc by (simp add: mult.commute)
qed simp

section \<open>Bitwise or of disjoint parts\<close>

lemma or_shifted_int:
  assumes "0 \<le> a" "a < 2 ^ n"
  shows "a OR (2 ^ n * b) = a + 2 ^ n * (b :: int)"
proof -
  have "a = take_bit n a"
    using assms by (simp add: take_bit_int_eq_self)
  then have "\<not> bit a m" if "n \<le> m" for m
    using that by (metis bit_take_bit_iff linorder_not_le)
  then have "a + push_bit n b = a OR push_bit n b"
    by (intro disjunctive_add) (auto simp: bit_push_bit_iff)
  then show ?thesis
    by (simp add: push_bit_eq_mult mult.commute)
qed

lemma or_shifted_byte:
  assumes "0 \<le> a" "a < 2 ^ n"
  shows "(word_of_int a OR word_of_int (2 ^ n * b) :: byte) = word_of_int (a + 2 ^ n * b)"
  using or_shifted_int [OF assms, of b] by (metis of_int_or_eq)

section \<open>Loads\<close>

definition load_3 :: "byte list \<Rightarrow> i64" where
  "load_3 buf = (ucast (buf ! 0) OR push_bit 8 (ucast (buf ! 1))) OR push_bit 16 (ucast (buf ! 2))"

definition load_4 :: "byte list \<Rightarrow> i64" where
  "load_4 buf = ((ucast (buf ! 0) OR push_bit 8 (ucast (buf ! 1))) OR push_bit 16 (ucast (buf ! 2)))
     OR push_bit 24 (ucast (buf ! 3))"

lemma ucast_byte_i64: "(ucast (b :: byte) :: i64) = word_of_int (uint b)"
  by (rule ucast_eq)

lemma push_ucast_byte: "push_bit n (ucast (b :: byte) :: i64) = word_of_int (2 ^ n * uint b)"
  by (simp add: push_bit_mult_word mult.commute)

lemma load_3_word:
  "load_3 buf = word_of_int (uint (buf ! 0) + 2 ^ 8 * (uint (buf ! 1) + 2 ^ 8 * uint (buf ! 2)))"
proof -
  have "load_3 buf = word_of_int ((uint (buf ! 0) OR 2 ^ 8 * uint (buf ! 1)) OR 2 ^ 16 * uint (buf ! 2))"
    by (simp only: load_3_def push_ucast_byte) (simp only: ucast_byte_i64 of_int_or_eq)
  also have "(uint (buf ! 0) OR 2 ^ 8 * uint (buf ! 1)) = uint (buf ! 0) + 2 ^ 8 * uint (buf ! 1)"
    using uint_byte_range by (intro or_shifted_int) simp_all
  also have "(uint (buf ! 0) + 2 ^ 8 * uint (buf ! 1)) OR 2 ^ 16 * uint (buf ! 2)
      = (uint (buf ! 0) + 2 ^ 8 * uint (buf ! 1)) + 2 ^ 16 * uint (buf ! 2)"
    using uint_byte_range [of "buf ! 0"] uint_byte_range [of "buf ! 1"]
    by (intro or_shifted_int) simp_all
  finally show ?thesis by (simp add: algebra_simps)
qed

lemma load_4_word:
  "load_4 buf = word_of_int (uint (buf ! 0) + 2 ^ 8 * (uint (buf ! 1)
     + 2 ^ 8 * (uint (buf ! 2) + 2 ^ 8 * uint (buf ! 3))))"
proof -
  have "load_4 buf = load_3 buf OR push_bit 24 (ucast (buf ! 3))"
    by (simp add: load_4_def load_3_def)
  also have "\<dots> = word_of_int ((uint (buf ! 0) + 2 ^ 8 * (uint (buf ! 1) + 2 ^ 8 * uint (buf ! 2)))
      OR 2 ^ 24 * uint (buf ! 3))"
    by (simp only: load_3_word push_ucast_byte of_int_or_eq)
  also have "(uint (buf ! 0) + 2 ^ 8 * (uint (buf ! 1) + 2 ^ 8 * uint (buf ! 2))) OR 2 ^ 24 * uint (buf ! 3)
      = (uint (buf ! 0) + 2 ^ 8 * (uint (buf ! 1) + 2 ^ 8 * uint (buf ! 2))) + 2 ^ 24 * uint (buf ! 3)"
    using uint_byte_range [of "buf ! 0"] uint_byte_range [of "buf ! 1"] uint_byte_range [of "buf ! 2"]
    by (intro or_shifted_int) simp_all
  finally show ?thesis by (simp add: algebra_simps)
qed

lemma take_drop_nth:
  "o' + 3 \<le> length bs \<Longrightarrow> take 3 (drop o' bs) = [drop o' bs ! 0, drop o' bs ! 1, drop o' bs ! 2]"
  "o' + 4 \<le> length bs \<Longrightarrow>
     take 4 (drop o' bs) = [drop o' bs ! 0, drop o' bs ! 1, drop o' bs ! 2, drop o' bs ! 3]"
  by (simp_all add: list_eq_iff_nth_eq numeral_eq_Suc less_Suc_eq all_conj_distrib)

lemma load_3_val:
  assumes "o' + 3 \<le> length bs"
  shows "load_3 (drop o' bs) = word_of_int (le_val bs div 2 ^ (8 * o') mod 2 ^ 24)"
proof -
  have "le_val bs div 2 ^ (8 * o') mod 2 ^ 24 = le_val (take 3 (drop o' bs))"
    using assms by (simp add: le_val_take le_val_drop)
  then show ?thesis
    using assms by (simp add: load_3_word take_drop_nth del: of_int_add of_int_mult nth_drop)
qed

lemma load_4_val:
  assumes "o' + 4 \<le> length bs"
  shows "load_4 (drop o' bs) = word_of_int (le_val bs div 2 ^ (8 * o') mod 2 ^ 32)"
proof -
  have "le_val bs div 2 ^ (8 * o') mod 2 ^ 32 = le_val (take 4 (drop o' bs))"
    using assms by (simp add: le_val_take le_val_drop)
  then show ?thesis
    using assms by (simp add: load_4_word take_drop_nth del: of_int_add of_int_mult nth_drop)
qed

section \<open>Stores\<close>

text \<open>
  An assignment to an \<open>unsigned char\<close> keeps the low eight bits.  The three lemmas are for a number
  \<open>V\<close> held in digits: a byte inside one digit, a byte that straddles two digits, and a byte of the
  topmost digit.
\<close>

lemma ucast_byte_sint:
  assumes "8 \<le> LENGTH('a)"
  shows "(ucast (w :: 'a::len word) :: byte) = word_of_int (sint w)"
  using assms by transfer (simp add: take_bit_signed_take_bit)

lemma word_of_int_byte_eqI: "a mod 2 ^ 8 = b mod 2 ^ 8 \<Longrightarrow> (word_of_int a :: byte) = word_of_int b"
  by (simp add: word_of_int_eq_iff take_bit_eq_mod)

lemma digit_div_eq:
  fixes X :: int
  assumes "r \<le> w"
  shows "X div 2 ^ r = (X mod 2 ^ w) div 2 ^ r + 2 ^ (w - r) * (X div 2 ^ w)"
proof -
  have w: "(2::int) ^ w = 2 ^ (w - r) * 2 ^ r"
    using assms by (simp add: power_add [symmetric])
  have "X = X mod 2 ^ w + (2 ^ (w - r) * (X div 2 ^ w)) * 2 ^ r"
    using div_mult_mod_eq [of X "2 ^ w"] w by (simp add: algebra_simps)
  then have "X div 2 ^ r = (X mod 2 ^ w + (2 ^ (w - r) * (X div 2 ^ w)) * 2 ^ r) div 2 ^ r"
    by simp
  then show ?thesis
    by simp
qed

lemma store_byte_inside:
  fixes h :: "'a::len word"
  assumes "sint h = (V div 2 ^ e) mod 2 ^ w" "r + 8 \<le> w" "8 \<le> LENGTH('a)"
  shows "(ucast (signed_drop_bit r h) :: byte) = word_of_int (V div 2 ^ (e + r))"
proof -
  have "V div 2 ^ (e + r) = sint h div 2 ^ r + 2 ^ (w - r) * (V div 2 ^ e div 2 ^ w)"
    using digit_div_eq [of r w "V div 2 ^ e"] assms
    by (simp add: power_add zdiv_zmult2_eq)
  moreover have "(2::int) ^ (w - r) = 2 ^ 8 * 2 ^ (w - r - 8)"
    using assms(2) by (simp only: power_add [symmetric]) simp
  ultimately have "(sint h div 2 ^ r) mod 2 ^ 8 = (V div 2 ^ (e + r)) mod 2 ^ 8"
    by (simp add: mult.assoc)
  then have "(word_of_int (sint h div 2 ^ r) :: byte) = word_of_int (V div 2 ^ (e + r))"
    by (rule word_of_int_byte_eqI)
  then show ?thesis
    using assms(3) by (simp add: ucast_byte_sint sint_shift_right)
qed

lemma store_byte_top:
  fixes h :: "'a::len word"
  assumes "sint h = V div 2 ^ e" "8 \<le> LENGTH('a)"
  shows "(ucast (signed_drop_bit r h) :: byte) = word_of_int (V div 2 ^ (e + r))"
  using assms by (simp add: ucast_byte_sint sint_shift_right power_add zdiv_zmult2_eq)

lemma int_div_less_pow2: "(h :: int) < 2 ^ n * 2 ^ r \<Longrightarrow> h div 2 ^ r < 2 ^ n"
proof -
  assume "h < 2 ^ n * 2 ^ r"
  moreover have "h div 2 ^ r * 2 ^ r \<le> h"
  proof -
    have "0 \<le> h mod 2 ^ r" by simp
    then show ?thesis
      using div_mult_mod_eq [of h "2 ^ r"] by linarith
  qed
  ultimately have "h div 2 ^ r * 2 ^ r < 2 ^ n * 2 ^ r"
    by linarith
  then show ?thesis
    by simp
qed

lemma store_byte_or:
  fixes h h' :: "'a::len word"
  assumes "0 \<le> sint h" "sint h < 2 ^ w" "r \<le> w" "8 \<le> LENGTH('a)"
  shows "(ucast (signed_drop_bit r h OR push_bit (w - r) h') :: byte)
    = word_of_int (sint h div 2 ^ r + 2 ^ (w - r) * sint h')"
proof -
  have "(2::int) ^ w = 2 ^ (w - r) * 2 ^ r"
    using assms(3) by (simp add: power_add [symmetric])
  then have "0 \<le> sint h div 2 ^ r" "sint h div 2 ^ r < 2 ^ (w - r)"
    using assms(1,2) by (simp_all add: pos_imp_zdiv_nonneg_iff int_div_less_pow2)
  note or_shifted_byte [OF this, of "sint h'"]
  moreover have "(ucast (push_bit (w - r) h') :: byte) = word_of_int (2 ^ (w - r) * sint h')"
  proof -
    have "push_bit (w - r) h' = word_of_int (2 ^ (w - r) * sint h')"
      by (simp add: push_bit_mult_word mult.commute)
    then show ?thesis
      using assms(4) by (simp add: ucast_down_wi is_down del: of_int_mult)
  qed
  ultimately show ?thesis
    using assms(4) by (simp add: unsigned_or_eq ucast_byte_sint sint_shift_right)
qed

lemma store_byte_straddle:
  fixes h h' :: "'a::len word"
  assumes h: "sint h = (V div 2 ^ e) mod 2 ^ w"
    and h': "sint h' = (V div 2 ^ (e + w)) mod 2 ^ w' \<or> sint h' = V div 2 ^ (e + w)"
    and n: "r \<le> w" "n = w - r" "8 \<le> n + w'" and L: "8 \<le> LENGTH('a)"
  shows "(ucast (signed_drop_bit r h OR push_bit n h') :: byte) = word_of_int (V div 2 ^ (e + r))"
proof -
  let ?Q = "V div 2 ^ (e + w)"
  have Q: "?Q = V div 2 ^ e div 2 ^ w"
    by (simp add: power_add zdiv_zmult2_eq)
  have "V div 2 ^ (e + r) = sint h div 2 ^ r + 2 ^ n * ?Q"
    using digit_div_eq [of r w "V div 2 ^ e"] n h Q by (simp add: power_add zdiv_zmult2_eq)
  moreover have "(2 ^ n * sint h') mod 2 ^ 8 = (2 ^ n * ?Q) mod 2 ^ 8"
    using h'
  proof
    assume mod: "sint h' = ?Q mod 2 ^ w'"
    have split: "2 ^ n * (q mod 2 ^ w') + 2 ^ (n + w') * (q div 2 ^ w') = 2 ^ n * q" for q :: int
      using mod_mult_div_eq [of q "2 ^ w'"] by (simp only: power_add mult.assoc distrib_left [symmetric])
    have "2 ^ n * ?Q = 2 ^ n * sint h' + 2 ^ (n + w') * (?Q div 2 ^ w')"
      unfolding mod by (rule split [symmetric])
    moreover have "(2::int) ^ (n + w') = 2 ^ 8 * 2 ^ (n + w' - 8)"
      using n(3) by (simp only: power_add [symmetric]) simp
    ultimately show ?thesis
      by (simp only: mult.assoc) simp
  qed simp
  ultimately have "(sint h div 2 ^ r + 2 ^ n * sint h') mod 2 ^ 8 = (V div 2 ^ (e + r)) mod 2 ^ 8"
    by (metis mod_add_right_eq)
  then have "(word_of_int (sint h div 2 ^ r + 2 ^ n * sint h') :: byte) = word_of_int (V div 2 ^ (e + r))"
    by (rule word_of_int_byte_eqI)
  then show ?thesis
    using store_byte_or [of h w r h'] h n(1,2) L by simp
qed


section \<open>A number in limbs, stored as a byte string\<close>

text \<open>
  A sequence of stores \<^verbatim>\<open>s[j] = hi >> r;\<close> and \<^verbatim>\<open>s[j] = (hi >> r) | (h(i+1) << n);\<close>, one per byte and in
  order, is a list of triples \<open>(i, r, None)\<close> and \<open>(i, r, Some n)\<close>.
\<close>

type_synonym store = "nat \<times> nat \<times> nat option"

fun limb_byte :: "'a::len word list \<Rightarrow> store \<Rightarrow> byte" where
  "limb_byte h (i, r, None) = ucast (signed_drop_bit r (h ! i))"
| "limb_byte h (i, r, Some n) = ucast (signed_drop_bit r (h ! i) OR push_bit n (h ! Suc i))"

text \<open>
  What makes such a sequence right for limbs of the widths \<open>ws\<close>: store \<open>j\<close> starts at bit \<open>8 * j\<close>
  of the number and its limb, or the two limbs it joins, cover eight bits.  The last limb is the
  rest of the number.
\<close>

fun store_ok :: "nat list \<Rightarrow> nat \<Rightarrow> nat \<Rightarrow> store \<Rightarrow> bool" where
  "store_ok ws k j (i, r, None) \<longleftrightarrow> wpos ws i + r = 8 * j \<and> (i < k \<and> r + 8 \<le> ws ! i \<or> i = k)"
| "store_ok ws k j (i, r, Some n) \<longleftrightarrow> wpos ws i + r = 8 * j \<and> i < k \<and> r \<le> ws ! i \<and> n = ws ! i - r
     \<and> (Suc i = k \<or> 8 \<le> n + ws ! Suc i)"

lemma limb_byte_ok:
  fixes h :: "'a::len word list"
  assumes ok: "store_ok ws k j st" and L: "8 \<le> LENGTH('a)"
    and digit: "\<And>i. i < k \<Longrightarrow> sint (h ! i) = (V div 2 ^ wpos ws i) mod 2 ^ (ws ! i)"
    and top: "sint (h ! k) = V div 2 ^ wpos ws k"
  shows "limb_byte h st = word_of_int (V div 2 ^ (8 * j))"
proof -
  obtain i r o' where st: "st = (i, r, o')"
    by (rule prod_cases3)
  show ?thesis
  proof (cases o')
    case None
    then have pos: "wpos ws i + r = 8 * j" and "i < k \<and> r + 8 \<le> ws ! i \<or> i = k"
      using ok by (simp_all add: st)
    then consider "i < k" "r + 8 \<le> ws ! i" | "i = k"
      by blast
    then show ?thesis
    proof cases
      case 1
      then show ?thesis
        using store_byte_inside [OF digit _ L] by (simp add: st None pos)
    next
      case 2
      then show ?thesis
        using store_byte_top [OF top L, of r] pos by (simp add: st None)
    qed
  next
    case (Some n)
    then have i: "wpos ws i + r = 8 * j" "i < k" "r \<le> ws ! i" "n = ws ! i - r"
      and next': "Suc i = k \<or> 8 \<le> n + ws ! Suc i"
      using ok unfolding st Some by auto
    have "\<exists>w'. (sint (h ! Suc i) = (V div 2 ^ (wpos ws i + ws ! i)) mod 2 ^ w'
        \<or> sint (h ! Suc i) = V div 2 ^ (wpos ws i + ws ! i)) \<and> 8 \<le> n + w'"
    proof (cases "Suc i = k")
      case True
      then show ?thesis using top by (intro exI [of _ 8]) auto
    next
      case False
      then show ?thesis
        using digit [of "Suc i"] i(2) next' by (intro exI [of _ "ws ! Suc i"]) auto
    qed
    then show ?thesis
      using store_byte_straddle [OF digit [OF i(2)] _ i(3,4) _ L] i(1) by (auto simp: st Some)
  qed
qed

lemma limb_bytes_eq:
  fixes h :: "'a::len word list"
  assumes ok: "list_all (\<lambda>(j, st). store_ok ws k j st) (zip [0..<n] sts)" and n: "length sts = n"
    and L: "8 \<le> LENGTH('a)"
    and digit: "\<And>i. i < k \<Longrightarrow> sint (h ! i) = (V div 2 ^ wpos ws i) mod 2 ^ (ws ! i)"
    and top: "sint (h ! k) = V div 2 ^ wpos ws k"
  shows "map (limb_byte h) sts = le_bytes n V"
proof (rule nth_equalityI)
  fix j assume j: "j < length (map (limb_byte h) sts)"
  then have "store_ok ws k j (sts ! j)"
    using ok n by (auto simp: list_all_length)
  from limb_byte_ok [OF this L digit top] show "map (limb_byte h) sts ! j = le_bytes n V ! j"
    using j n by (simp add: nth_le_bytes)
qed (simp add: n)


section \<open>Test for a non-zero string\<close>

text \<open>\<^verbatim>\<open>(((int) (s[0] | \<dots> | s[31]) - 1) >> 8) + 1\<close>, without a branch.\<close>

definition bytes_isnonzero :: "byte list \<Rightarrow> i32" where
  "bytes_isnonzero s = signed_drop_bit 8 (ucast (foldl (OR) (s ! 0) (map (\<lambda>i. s ! i) [1..<32])) - 1) + 1"

lemma foldl_or_eq_0: "foldl (OR) (a :: byte) xs = 0 \<longleftrightarrow> a = 0 \<and> (\<forall>x\<in>set xs. x = 0)"
  by (induction xs arbitrary: a) (auto simp: or_eq_0_iff)

lemma le_val_eq_0: "le_val s = 0 \<longleftrightarrow> (\<forall>x\<in>set s. x = 0)"
proof (induction s)
  case (Cons b s)
  have "uint b + 2 ^ 8 * le_val s = 0 \<longleftrightarrow> uint b = 0 \<and> le_val s = 0"
    using uint_byte_range(1) [of b] le_val_nonneg [of s] by (simp add: add_nonneg_eq_0_iff)
  then show ?case
    using Cons by (simp add: uint_0_iff)
qed simp

lemma isnonzero_byte: "signed_drop_bit 8 (ucast (x :: byte) - 1 :: i32) + 1 = (if x = 0 then 0 else 1)"
proof (cases "x = 0")
  case True
  have "signed_drop_bit 8 (- 1 :: i32) = - 1"
    by simp
  then show ?thesis
    using True by simp
next
  case False
  have ux: "sint (ucast x :: i32) = uint x"
    using uint_byte_range [of x] by (simp add: ucast_eq sint_word_of_int_i32 del: of_int_uint)
  have "uint x \<noteq> 0"
    using False by (simp add: uint_0_iff)
  then have x: "1 \<le> uint x" "uint x \<le> 255"
    using uint_byte_range [of x] by linarith+
  have "sint (ucast x - 1 :: i32) = uint x - 1"
    using sint_diff_i32 [of "ucast x" 1] x by (simp add: ux)
  then have "sint (signed_drop_bit 8 (ucast x - 1 :: i32)) = 0"
    using x by (simp add: sint_shift_right)
  then have "signed_drop_bit 8 (ucast x - 1 :: i32) = 0"
    by (metis sint_0 signed_word_eqI)
  then show ?thesis
    using False by simp
qed

lemma bytes_isnonzero_eq:
  assumes "length s = 32"
  shows "bytes_isnonzero s = (if le_val s = 0 then 0 else 1)"
proof -
  have "s = s ! 0 # map ((!) s) [1..<32]"
    using assms by (intro nth_equalityI) (auto simp: nth_Cons split: nat.splits)
  then have "set s = insert (s ! 0) (set (map ((!) s) [1..<32]))"
    by (metis list.simps(15))
  then have "foldl (OR) (s ! 0) (map ((!) s) [1..<32]) = 0 \<longleftrightarrow> le_val s = 0"
    unfolding foldl_or_eq_0 le_val_eq_0 by simp
  then show ?thesis
    by (simp add: bytes_isnonzero_def isnonzero_byte)
qed

end
