(* ===== verification/Keccak.thy ===== *)
theory Keccak
  imports Bytes
begin

text \<open>
  The hash function Keccak of \<^verbatim>\<open>src/base/crypto/keccak.cpp\<close>.  The state is a list of 25 words of 64 bits, which the
  permutation \<open>keccakf\<close> updates in place; each step of a round is one definition, in the order of the
  code.  The second part of the file states the permutation Keccak-p[1600] of FIPS 202 and its sponge on lanes indexed
  by two coordinates, with the rotation offsets and round constants given by their generating rules, and shows that
  the code computes them.
\<close>

unbundle bit_operations_syntax

section \<open>The permutation\<close>

definition keccakf_rndc :: "i64 list" where
  "keccakf_rndc =
    [0x0000000000000001, 0x0000000000008082, 0x800000000000808a, 0x8000000080008000, 0x000000000000808b, 0x0000000080000001,
     0x8000000080008081, 0x8000000000008009, 0x000000000000008a, 0x0000000000000088, 0x0000000080008009, 0x000000008000000a,
     0x000000008000808b, 0x800000000000008b, 0x8000000000008089, 0x8000000000008003, 0x8000000000008002, 0x8000000000000080,
     0x000000000000800a, 0x800000008000000a, 0x8000000080008081, 0x8000000000008080, 0x0000000080000001, 0x8000000080008008]"

definition ROTL64 :: "i64 \<Rightarrow> nat \<Rightarrow> i64" where
  "ROTL64 x y = push_bit y x OR drop_bit (64 - y) x"

text \<open>The macro \<open>X(i)\<close>: one column receives the parities of its neighbours.\<close>

definition theta_X :: "i64 list \<Rightarrow> nat \<Rightarrow> i64 list \<Rightarrow> i64 list" where
  "theta_X bc i st =
     (let t = bc ! ((i + 4) mod 5) XOR ROTL64 (bc ! ((i + 1) mod 5)) 1;
          st = st[i := st ! i XOR t];
          st = st[i + 5 := st ! (i + 5) XOR t];
          st = st[i + 10 := st ! (i + 10) XOR t];
          st = st[i + 15 := st ! (i + 15) XOR t]
      in st[i + 20 := st ! (i + 20) XOR t])"

definition keccak_theta :: "i64 list \<Rightarrow> i64 list" where
  "keccak_theta st =
     (let bc = [st ! 0 XOR st ! 5 XOR st ! 10 XOR st ! 15 XOR st ! 20,
                st ! 1 XOR st ! 6 XOR st ! 11 XOR st ! 16 XOR st ! 21,
                st ! 2 XOR st ! 7 XOR st ! 12 XOR st ! 17 XOR st ! 22,
                st ! 3 XOR st ! 8 XOR st ! 13 XOR st ! 18 XOR st ! 23,
                st ! 4 XOR st ! 9 XOR st ! 14 XOR st ! 19 XOR st ! 24]
      in theta_X bc 4 (theta_X bc 3 (theta_X bc 2 (theta_X bc 1 (theta_X bc 0 st)))))"

definition keccak_rho_pi :: "i64 list \<Rightarrow> i64 list" where
  "keccak_rho_pi st =
     (let t = st ! 1;
          st = st[1 := ROTL64 (st ! 6) 44];
          st = st[6 := ROTL64 (st ! 9) 20];
          st = st[9 := ROTL64 (st ! 22) 61];
          st = st[22 := ROTL64 (st ! 14) 39];
          st = st[14 := ROTL64 (st ! 20) 18];
          st = st[20 := ROTL64 (st ! 2) 62];
          st = st[2 := ROTL64 (st ! 12) 43];
          st = st[12 := ROTL64 (st ! 13) 25];
          st = st[13 := ROTL64 (st ! 19) 8];
          st = st[19 := ROTL64 (st ! 23) 56];
          st = st[23 := ROTL64 (st ! 15) 41];
          st = st[15 := ROTL64 (st ! 4) 27];
          st = st[4 := ROTL64 (st ! 24) 14];
          st = st[24 := ROTL64 (st ! 21) 2];
          st = st[21 := ROTL64 (st ! 8) 55];
          st = st[8 := ROTL64 (st ! 16) 45];
          st = st[16 := ROTL64 (st ! 5) 36];
          st = st[5 := ROTL64 (st ! 3) 28];
          st = st[3 := ROTL64 (st ! 18) 21];
          st = st[18 := ROTL64 (st ! 17) 15];
          st = st[17 := ROTL64 (st ! 11) 10];
          st = st[11 := ROTL64 (st ! 7) 6];
          st = st[7 := ROTL64 (st ! 10) 3]
      in st[10 := ROTL64 t 1])"

definition chi_row :: "nat \<Rightarrow> i64 list \<Rightarrow> i64 list" where
  "chi_row j st =
     (let bc0 = st ! j;
          bc1 = st ! (j + 1);
          st = st[j := st ! j XOR (NOT (st ! (j + 1)) AND st ! (j + 2))];
          st = st[j + 1 := st ! (j + 1) XOR (NOT (st ! (j + 2)) AND st ! (j + 3))];
          st = st[j + 2 := st ! (j + 2) XOR (NOT (st ! (j + 3)) AND st ! (j + 4))];
          st = st[j + 3 := st ! (j + 3) XOR (NOT (st ! (j + 4)) AND bc0)]
      in st[j + 4 := st ! (j + 4) XOR (NOT bc0 AND bc1)])"

definition chi_last :: "nat \<Rightarrow> i64 list \<Rightarrow> i64 list" where
  "chi_last j st =
     (let bc0 = st ! j; bc1 = st ! (j + 1); bc2 = st ! (j + 2); bc3 = st ! (j + 3); bc4 = st ! (j + 4);
          st = st[j := st ! j XOR (NOT bc1 AND bc2)];
          st = st[j + 1 := st ! (j + 1) XOR (NOT bc2 AND bc3)];
          st = st[j + 2 := st ! (j + 2) XOR (NOT bc3 AND bc4)];
          st = st[j + 3 := st ! (j + 3) XOR (NOT bc4 AND bc0)]
      in st[j + 4 := st ! (j + 4) XOR (NOT bc0 AND bc1)])"

definition keccak_chi :: "i64 list \<Rightarrow> i64 list" where
  "keccak_chi st = chi_last 20 (chi_row 15 (chi_row 10 (chi_row 5 (chi_row 0 st))))"

definition keccakf_round :: "nat \<Rightarrow> i64 list \<Rightarrow> i64 list" where
  "keccakf_round round st =
     (let st = keccak_theta st;
          st = keccak_rho_pi st;
          st = keccak_chi st
      in st[0 := st ! 0 XOR keccakf_rndc ! round])"

definition keccakf :: "i64 list \<Rightarrow> nat \<Rightarrow> i64 list" where
  "keccakf st rounds = fold keccakf_round [0..<rounds] st"

section \<open>The sponge\<close>

text \<open>
  A word of the input is read and the state is written as little-endian bytes.  The first loop of \<open>keccak\<close> keeps the
  position \<open>pos\<close> of the pointer \<^verbatim>\<open>in\<close> and the \<^verbatim>\<open>int\<close> \<open>inlen\<close>; it is a partial function, whose value is \<open>None\<close> when it does
  not end.  What C leaves undefined is an error: moving \<^verbatim>\<open>in\<close> out of the input, and writing outside the array
  \<^verbatim>\<open>temp\<close>.  This array is not initialised, so that its contents are an argument.  The length of the message is that of
  the list, where the code has an \<^verbatim>\<open>int\<close> below \<open>2\<^sup>3\<^sup>1\<close>.
\<close>

abbreviation KECCAK_ROUNDS :: nat where "KECCAK_ROUNDS \<equiv> 24"
abbreviation HASH_DATA_AREA :: int where "HASH_DATA_AREA \<equiv> 136"

definition word_at :: "byte list \<Rightarrow> nat \<Rightarrow> i64" where
  "word_at p i = word_of_int (le_val (take 8 (drop (8 * i) p)))"

definition xor_words :: "nat \<Rightarrow> byte list \<Rightarrow> i64 list \<Rightarrow> i64 list" where
  "xor_words rsizw p st = fold (\<lambda>i st. st[i := st ! i XOR word_at p i]) [0..<rsizw] st"

datatype keccak_error = InputRange | TempRange

partial_function (option) keccak_absorb ::
    "byte list \<Rightarrow> int \<Rightarrow> i64 list \<Rightarrow> int \<Rightarrow> int \<Rightarrow> (keccak_error + i64 list \<times> int \<times> int) option" where
  "keccak_absorb m rsiz st pos inlen =
     (if rsiz \<le> inlen
      then let st = keccakf (xor_words (nat (rsiz div 8)) (drop (nat pos) m) st) KECCAK_ROUNDS
           in if 0 \<le> pos + rsiz \<and> pos + rsiz \<le> int (length m)
              then keccak_absorb m rsiz st (pos + rsiz) (inlen - rsiz)
              else Some (Inl InputRange)
      else Some (Inr (st, pos, inlen)))"

text \<open>Copying bytes into an array, and the last block: the rest of the message, a one, zeros and the last bit.\<close>

definition temp_write :: "nat \<Rightarrow> byte list \<Rightarrow> byte list \<Rightarrow> keccak_error + byte list" where
  "temp_write k bs temp =
     (if k + length bs \<le> length temp then Inr (take k temp @ bs @ drop (k + length bs) temp) else Inl TempRange)"

definition keccak_last :: "byte list \<Rightarrow> nat \<Rightarrow> byte list \<Rightarrow> keccak_error + byte list" where
  "keccak_last temp rsiz m =
     (case temp_write 0 m temp of Inl e \<Rightarrow> Inl e | Inr temp \<Rightarrow>
      case temp_write (length m) [1] temp of Inl e \<Rightarrow> Inl e | Inr temp \<Rightarrow>
      case temp_write (length m + 1) (replicate (rsiz - (length m + 1)) 0) temp of Inl e \<Rightarrow> Inl e | Inr temp \<Rightarrow>
      temp_write (rsiz - 1) [temp ! (rsiz - 1) OR 0x80] temp)"

definition state_bytes :: "i64 list \<Rightarrow> byte list" where
  "state_bytes st = concat (map (\<lambda>w. le_bytes 8 (uint w)) st)"

definition keccak :: "byte list \<Rightarrow> byte list \<Rightarrow> nat \<Rightarrow> (keccak_error + byte list) option" where
  "keccak temp m mdlen =
     (let rsiz = if mdlen = 200 then HASH_DATA_AREA else 200 - 2 * int mdlen
      in case keccak_absorb m rsiz (replicate 25 0) 0 (int (length m)) of None \<Rightarrow> None
         | Some (Inl e) \<Rightarrow> Some (Inl e)
         | Some (Inr (st, pos, inlen)) \<Rightarrow>
             (case keccak_last temp (nat rsiz) (take (nat inlen) (drop (nat pos) m)) of Inl e \<Rightarrow> Some (Inl e)
              | Inr temp \<Rightarrow>
                  let st = xor_words (nat (rsiz div 8)) temp st;
                      st = keccakf st KECCAK_ROUNDS
                  in Some (Inr (take mdlen (state_bytes st)))))"

section \<open>The standard\<close>

text \<open>
  The state as lanes \<open>A x y\<close>.  The offsets of \<open>\<rho>\<close> come from a walk over the 24 lanes other than \<open>(0, 0)\<close>, the bits of
  the round constants from a shift register.
\<close>

type_synonym lanes = "nat \<Rightarrow> nat \<Rightarrow> i64"

definition lanes_of :: "i64 list \<Rightarrow> lanes" where
  "lanes_of st x y = st ! (x + 5 * y)"

definition of_lanes :: "lanes \<Rightarrow> i64 list" where
  "of_lanes A = map (\<lambda>i. A (i mod 5) (i div 5)) [0..<25]"

definition std_theta :: "lanes \<Rightarrow> lanes" where
  "std_theta A x y =
     (let C = \<lambda>x. A x 0 XOR A x 1 XOR A x 2 XOR A x 3 XOR A x 4
      in A x y XOR (C ((x + 4) mod 5) XOR word_rotl 1 (C ((x + 1) mod 5))))"

fun rho_walk :: "nat \<Rightarrow> nat \<times> nat" where
  "rho_walk 0 = (1, 0)"
| "rho_walk (Suc t) = (let (x, y) = rho_walk t in (y, (2 * x + 3 * y) mod 5))"

definition rho_offset :: "nat \<Rightarrow> nat \<Rightarrow> nat" where
  "rho_offset x y =
     (case find (\<lambda>t. rho_walk t = (x, y)) [0..<24] of
        Some t \<Rightarrow> (t + 1) * (t + 2) div 2
      | None \<Rightarrow> 0)"

definition std_rho :: "lanes \<Rightarrow> lanes" where
  "std_rho A x y = word_rotl (rho_offset x y) (A x y)"

definition std_pi :: "lanes \<Rightarrow> lanes" where
  "std_pi A x y = A ((x + 3 * y) mod 5) x"

definition std_chi :: "lanes \<Rightarrow> lanes" where
  "std_chi A x y = A x y XOR (NOT (A ((x + 1) mod 5) y) AND A ((x + 2) mod 5) y)"

definition rc_step :: "bool list \<Rightarrow> bool list" where
  "rc_step R =
     (let R = False # R; c = R ! 8
      in take 8 (R[0 := (R ! 0 \<noteq> c), 4 := (R ! 4 \<noteq> c), 5 := (R ! 5 \<noteq> c), 6 := (R ! 6 \<noteq> c)]))"

fun rc_register :: "nat \<Rightarrow> bool list" where
  "rc_register 0 = [True, False, False, False, False, False, False, False]"
| "rc_register (Suc t) = rc_step (rc_register t)"

definition rc_word :: "nat \<Rightarrow> i64" where
  "rc_word ir = word_of_int (\<Sum>j\<leftarrow>[0..<7]. if rc_register ((j + 7 * ir) mod 255) ! 0 then 2 ^ (2 ^ j - 1) else 0)"

definition std_iota :: "nat \<Rightarrow> lanes \<Rightarrow> lanes" where
  "std_iota ir A x y = (if x = 0 \<and> y = 0 then A x y XOR rc_word ir else A x y)"

definition std_round :: "nat \<Rightarrow> lanes \<Rightarrow> lanes" where
  "std_round ir A = std_iota ir (std_chi (std_pi (std_rho (std_theta A))))"

text \<open>Keccak-p[1600, \<open>nr\<close>] has the last \<open>nr\<close> of the rounds 0 to 23; Keccak-f[1600] is Keccak-p[1600, 24].\<close>

definition keccak_p :: "nat \<Rightarrow> lanes \<Rightarrow> lanes" where
  "keccak_p nr A = fold std_round [24 - nr..<24] A"

section \<open>The code computes the permutation of the standard\<close>

lemma rotl_by_shifts:
  fixes x :: "'a::len word"
  assumes "y < LENGTH('a)"
  shows "push_bit y x OR drop_bit (LENGTH('a) - y) x = word_rotl y x"
proof (rule bit_word_eqI)
  fix n assume n: "n < LENGTH('a)"
  obtain m where m: "LENGTH('a) = y + m" "LENGTH('a) - y = m"
    using assms by (metis le_add_diff_inverse less_imp_le_nat)
  have "(n + m) mod LENGTH('a) = (if y \<le> n then n - y else n + m)"
    using assms n m by (auto simp: mod_if)
  then show "bit (push_bit y x OR drop_bit (LENGTH('a) - y) x) n = bit (word_rotl y x) n"
    using assms n bit_imp_le_length [of x "n + m"]
    by (auto simp: bit_word_rotl_iff bit_push_bit_iff bit_drop_bit_eq bit_or_iff m(2) add.commute m(1))
qed

lemma ROTL64_rotl: "y < 64 \<Longrightarrow> ROTL64 x y = word_rotl y x"
  using rotl_by_shifts [of y x] by (simp add: ROTL64_def)

lemma list_25_cases:
  assumes "length st = 25"
  obtains a0 a1 a2 a3 a4 a5 a6 a7 a8 a9 a10 a11 a12 a13 a14 a15 a16 a17 a18 a19 a20 a21 a22 a23 a24
  where "st = [a0, a1, a2, a3, a4, a5, a6, a7, a8, a9, a10, a11, a12, a13, a14, a15, a16, a17, a18, a19, a20, a21, a22,
    a23, a24]"
  using assms by (auto simp: length_Suc_conv numeral_eq_Suc)

lemma upt_25: "[0..<25] = [0, 1, 2, 3, 4, 5, 6, 7, 8, 9, 10, 11, 12, 13, 14, 15, 16, 17, 18, 19, 20, 21, 22, 23, 24]"
  by code_simp

fun rc_iter :: "nat \<Rightarrow> bool list \<Rightarrow> bool list" where
  "rc_iter 0 R = []"
| "rc_iter (Suc n) R = (R ! 0) # rc_iter n (rc_step R)"

lemma rc_iter_register: "rc_iter n (rc_register a) = map (\<lambda>t. rc_register t ! 0) [a..<a + n]"
proof (induction n arbitrary: a)
  case (Suc n)
  have "[a..<a + Suc n] = a # [Suc a..<Suc a + n]"
    by (simp add: upt_conv_Cons del: upt_Suc)
  then show ?case
    using Suc [of "Suc a"] by simp
qed simp

lemma rc_bits: "rc_iter 168 (rc_register 0) =
  [True, False, False, False, False, False, False, False, True, False, True, True, False, False, False, True, True, True, True, False, True, False, False, False,
    False, True, True, True, True, True, True, True, True, False, False, True, False, False, False, False, True, False, True, False, False, True, True, True,
    True, True, False, True, False, True, False, True, False, True, True, True, False, False, False, False, False, True, True, False, False, False, True, False,
    True, False, True, True, False, False, True, True, False, False, True, False, True, True, True, True, True, True, False, True, True, True, True, False,
    False, True, True, False, True, True, True, False, True, True, True, False, False, True, False, True, False, True, False, False, True, False, True, False,
    False, False, True, False, False, True, False, True, True, False, True, False, False, False, True, True, False, False, True, True, True, False, False, True,
    True, True, True, False, False, False, True, True, False, True, True, False, False, False, False, True, False, False, False, True, False, True, True, True]"
  by code_simp

lemma rc_register_bit: "t < 168 \<Longrightarrow> rc_register t ! 0 = rc_iter 168 (rc_register 0) ! t"
  by (simp only: rc_iter_register) simp

definition rc_value :: "bool list \<Rightarrow> nat \<Rightarrow> int" where
  "rc_value bs ir = (\<Sum>j\<leftarrow>[0..<7]. if bs ! (j + 7 * ir) then 2 ^ (2 ^ j - 1) else 0)"

lemma rc_word_bits: "ir < 24 \<Longrightarrow> rc_word ir = word_of_int (rc_value (rc_iter 168 (rc_register 0)) ir)"
  unfolding rc_word_def rc_value_def
  by (intro arg_cong [where f = word_of_int] arg_cong [where f = sum_list] map_cong) (simp_all add: rc_register_bit)

lemma rc_values: "map (rc_value (rc_iter 168 (rc_register 0))) [0..<24] =
  [0x1, 0x8082, 0x800000000000808a, 0x8000000080008000, 0x808b, 0x80000001,
   0x8000000080008081, 0x8000000000008009, 0x8a, 0x88, 0x80008009, 0x8000000a,
   0x8000808b, 0x800000000000008b, 0x8000000000008089, 0x8000000000008003, 0x8000000000008002, 0x8000000000000080,
   0x800a, 0x800000008000000a, 0x8000000080008081, 0x8000000000008080, 0x80000001, 0x8000000080008008]"
  unfolding rc_bits by code_simp

lemma keccakf_rndc_rule:
  assumes "ir < 24"
  shows "keccakf_rndc ! ir = rc_word ir"
proof -
  have eq: "keccakf_rndc = map word_of_int (map (rc_value (rc_iter 168 (rc_register 0))) [0..<24])"
    unfolding rc_values keccakf_rndc_def by (simp only: list.map word_of_int_numeral of_int_1)
  have "keccakf_rndc ! ir = word_of_int (map (rc_value (rc_iter 168 (rc_register 0))) [0..<24] ! ir)"
    unfolding eq using assms by (intro nth_map) simp
  also have "\<dots> = word_of_int (rc_value (rc_iter 168 (rc_register 0)) ir)"
    using assms by (subst nth_map) (simp_all del: upt_rec_numeral)
  finally show ?thesis
    by (simp only: rc_word_bits [OF assms])
qed

lemma mod_5_columns:
  assumes "k < (25::nat)" "i < (5::nat)"
  shows "k mod 5 = i \<longleftrightarrow> k = i \<or> k = i + 5 \<or> k = i + 10 \<or> k = i + 15 \<or> k = i + 20"
proof -
  have "list_all (\<lambda>k. list_all (\<lambda>i. k mod 5 = i \<longleftrightarrow> k = i \<or> k = i + 5 \<or> k = i + 10 \<or> k = i + 15 \<or> k = i + 20) [0..<5])
      [0..<(25::nat)]"
    by code_simp
  then show ?thesis
    using assms by (simp add: list_all_iff)
qed

lemma length_theta_X [simp]: "length (theta_X bc i st) = length st"
  by (simp add: theta_X_def Let_def)

lemma theta_X_nth:
  assumes "length st = 25" "i < 5" "k < 25"
  shows "theta_X bc i st ! k =
    (if k mod 5 = i then st ! k XOR (bc ! ((i + 4) mod 5) XOR word_rotl 1 (bc ! ((i + 1) mod 5))) else st ! k)"
  unfolding mod_5_columns [OF assms(3,2)]
  using assms by (auto simp: theta_X_def Let_def nth_list_update ROTL64_rotl)

lemma theta_std:
  assumes "length st = 25"
  shows "keccak_theta st = of_lanes (std_theta (lanes_of st))"
proof (rule nth_equalityI)
  fix k assume "k < length (keccak_theta st)"
  then have k: "k < 25"
    using assms by (simp add: keccak_theta_def Let_def)
  have "k mod 5 < 5"
    by simp
  then have "k mod 5 = 0 \<or> k mod 5 = 1 \<or> k mod 5 = 2 \<or> k mod 5 = 3 \<or> k mod 5 = 4"
    by arith
  then show "keccak_theta st ! k = of_lanes (std_theta (lanes_of st)) ! k"
    using k assms div_mult_mod_eq [of k 5]
    by (elim disjE) (simp_all add: keccak_theta_def of_lanes_def lanes_of_def std_theta_def theta_X_nth Let_def numeral_2_eq_2 [symmetric]
      add.commute mult.commute)
qed (simp add: keccak_theta_def of_lanes_def Let_def assms)

lemma rho_offset_table:
  "map (\<lambda>i. rho_offset (i mod 5) (i div 5)) [0..<25] =
    [0, 1, 190, 28, 91, 36, 300, 6, 55, 276, 3, 10, 171, 153, 231, 105, 45, 15, 21, 136, 210, 66, 253, 120, 78]"
  by code_simp

lemma rotl_ROTL64: "word_rotl n x = ROTL64 x (n mod 64)"
proof -
  have "word_rotl n x = word_rotl (n mod 64) x"
    by (rule bit_word_eqI) (simp add: bit_word_rotl_iff)
  then show ?thesis
    using ROTL64_rotl [of "n mod 64"] by simp
qed

lemma ROTL64_0 [simp]: "ROTL64 x 0 = x"
  by (rule bit_word_eqI) (auto simp: ROTL64_def bit_or_iff bit_drop_bit_eq dest: bit_imp_le_length)

lemma rho_pi_std: "length st = 25 \<Longrightarrow> keccak_rho_pi st = of_lanes (std_pi (std_rho (lanes_of st)))"
  using rho_offset_table [unfolded upt_25, simplified]
  by (erule_tac list_25_cases)
    (simp add: of_lanes_def std_pi_def std_rho_def upt_25 lanes_of_def, simp add: keccak_rho_pi_def Let_def rotl_ROTL64)

lemma chi_std: "length st = 25 \<Longrightarrow> keccak_chi st = of_lanes (std_chi (lanes_of st))"
  by (erule list_25_cases)
    (simp add: keccak_chi_def chi_row_def chi_last_def of_lanes_def lanes_of_def std_chi_def upt_25 Let_def)

lemma length_of_lanes [simp]: "length (of_lanes A) = 25"
  by (simp add: of_lanes_def)

lemma of_lanes_nth: "i < 25 \<Longrightarrow> of_lanes A ! i = A (i mod 5) (i div 5)"
  by (simp add: of_lanes_def)

definition lanes_eq :: "lanes \<Rightarrow> lanes \<Rightarrow> bool" where
  "lanes_eq A B \<longleftrightarrow> (\<forall>x<5. \<forall>y<5. A x y = B x y)"

lemma of_lanes_cong: "of_lanes A = of_lanes B \<longleftrightarrow> lanes_eq A B"
proof
  assume eq: "of_lanes A = of_lanes B"
  show "lanes_eq A B"
    unfolding lanes_eq_def
  proof (intro allI impI)
    fix x y :: nat assume "x < 5" "y < 5"
    then show "A x y = B x y"
      using arg_cong [OF eq, of "\<lambda>l. l ! (x + 5 * y)"] by (simp add: of_lanes_nth)
  qed
next
  assume "lanes_eq A B"
  then show "of_lanes A = of_lanes B"
    by (auto simp: of_lanes_def lanes_eq_def)
qed

lemma lanes_of_lanes: "lanes_eq (lanes_of (of_lanes A)) A"
  by (simp add: lanes_eq_def lanes_of_def of_lanes_nth)

lemma steps_cong:
  assumes "lanes_eq A B"
  shows "lanes_eq (std_theta A) (std_theta B)" "lanes_eq (std_pi (std_rho A)) (std_pi (std_rho B))"
    "lanes_eq (std_chi A) (std_chi B)" "lanes_eq (std_iota ir A) (std_iota ir B)"
  using assms by (simp_all add: lanes_eq_def std_theta_def std_pi_def std_rho_def std_chi_def std_iota_def Let_def)

lemma iota_std:
  assumes "ir < 24"
  shows "(of_lanes A)[0 := of_lanes A ! 0 XOR keccakf_rndc ! ir] = of_lanes (std_iota ir A)"
proof (rule nth_equalityI)
  fix k assume "k < length ((of_lanes A)[0 := of_lanes A ! 0 XOR keccakf_rndc ! ir])"
  then have k: "k < 25" by simp
  have "k mod 5 = 0 \<and> k div 5 = 0 \<longleftrightarrow> k = 0"
    using div_mult_mod_eq [of k 5] by auto
  with k show "(of_lanes A)[0 := of_lanes A ! 0 XOR keccakf_rndc ! ir] ! k = of_lanes (std_iota ir A) ! k"
    by (auto simp: nth_list_update of_lanes_nth std_iota_def keccakf_rndc_rule [OF assms])
qed simp

lemma round_std:
  assumes "ir < 24" "length st = 25"
  shows "keccakf_round ir st = of_lanes (std_round ir (lanes_of st))"
proof -
  let ?t = "std_theta (lanes_of st)" and ?r = "std_pi (std_rho (std_theta (lanes_of st)))"
  have "keccak_rho_pi (of_lanes ?t) = of_lanes ?r"
    using steps_cong(2) [OF lanes_of_lanes] by (simp add: rho_pi_std of_lanes_cong)
  moreover have "keccak_chi (of_lanes ?r) = of_lanes (std_chi ?r)"
    using steps_cong(3) [OF lanes_of_lanes] by (simp add: chi_std of_lanes_cong)
  ultimately show ?thesis
    by (simp add: keccakf_round_def std_round_def theta_std [OF assms(2)] iota_std [OF assms(1)])
qed

lemma length_keccakf_round [simp]: "length st = 25 \<Longrightarrow> ir < 24 \<Longrightarrow> length (keccakf_round ir st) = 25"
  by (simp add: round_std)

lemma round_cong: "lanes_eq A B \<Longrightarrow> lanes_eq (std_round ir A) (std_round ir B)"
  unfolding std_round_def by (intro steps_cong)

lemma of_lanes_of: "length st = 25 \<Longrightarrow> of_lanes (lanes_of st) = st"
  by (rule nth_equalityI) (simp_all add: of_lanes_nth lanes_of_def)

lemma keccakf_rounds:
  assumes "rounds \<le> 24" "length st = 25"
  shows "keccakf st rounds = of_lanes (fold std_round [0..<rounds] (lanes_of st))"
  using assms(1)
proof (induction rounds)
  case 0
  then show ?case
    by (simp add: keccakf_def of_lanes_of assms(2))
next
  case (Suc n)
  let ?A = "fold std_round [0..<n] (lanes_of st)"
  have "keccakf st (Suc n) = keccakf_round n (of_lanes ?A)"
    using Suc by (simp add: keccakf_def)
  also have "\<dots> = of_lanes (std_round n ?A)"
    using Suc.prems round_cong [OF lanes_of_lanes] by (simp add: round_std of_lanes_cong)
  finally show ?case
    by simp
qed

lemma keccakf_std: "length st = 25 \<Longrightarrow> keccakf st 24 = of_lanes (keccak_p 24 (lanes_of st))"
  by (simp add: keccakf_rounds keccak_p_def)

lemma rounds_cong: "lanes_eq A B \<Longrightarrow> lanes_eq (fold std_round rs A) (fold std_round rs B)"
  by (induction rs arbitrary: A B) (simp_all add: round_cong)

lemma keccak_p_cong: "lanes_eq A B \<Longrightarrow> lanes_eq (keccak_p n A) (keccak_p n B)"
  unfolding keccak_p_def by (rule rounds_cong)

lemma length_keccakf [simp]: "length st = 25 \<Longrightarrow> length (keccakf st 24) = 25"
  by (simp add: keccakf_std)

section \<open>The code computes the sponge\<close>

text \<open>
  The sponge of the standard with the original padding \<open>1\<close>, zeros, \<open>1\<close> of bits, here on whole bytes: each block of the
  padded message, filled with zeros to the width of the state, is added to the state, which is then permuted.
\<close>

definition pad101 :: "nat \<Rightarrow> nat \<Rightarrow> byte list" where
  "pad101 r n = (let q = r - n mod r in if q = 1 then [0x81] else 0x01 # replicate (q - 2) 0 @ [0x80])"

function chunks :: "nat \<Rightarrow> 'a list \<Rightarrow> 'a list list" where
  "chunks r m = (if 0 < r \<and> m \<noteq> [] then take r m # chunks r (drop r m) else [])"
  by pat_completeness auto

termination
  by (relation "measure (\<lambda>(r, m). length m)") auto

declare chunks.simps [simp del]

definition std_absorb :: "lanes \<Rightarrow> byte list \<Rightarrow> lanes" where
  "std_absorb A P =
     keccak_p 24 (\<lambda>x y. A x y XOR word_at (P @ replicate (200 - length P) 0) (x + 5 * y))"

definition std_sponge :: "nat \<Rightarrow> byte list \<Rightarrow> lanes" where
  "std_sponge r m = foldl std_absorb (\<lambda>x y. 0) (chunks r (m @ pad101 r (length m)))"

lemma xor_words_nth:
  "length st = 25 \<Longrightarrow> n \<le> 25 \<Longrightarrow> length (xor_words n p st) = 25
    \<and> (\<forall>i<25. xor_words n p st ! i = (if i < n then st ! i XOR word_at p i else st ! i))"
proof (induction n)
  case (Suc n)
  have "xor_words (Suc n) p st = (xor_words n p st)[n := xor_words n p st ! n XOR word_at p n]"
    by (simp add: xor_words_def)
  with Suc show ?case
    by (auto simp: nth_list_update)
qed (simp add: xor_words_def)

lemma word_at_take: "8 * i + 8 \<le> r \<Longrightarrow> word_at (take r p) i = word_at p i"
  by (simp add: word_at_def drop_take min_absorb1)

lemma word_at_zeros:
  assumes "length P = 8 * n"
  shows "word_at (P @ replicate k 0) i = (if i < n then word_at P i else 0)"
proof (cases "i < n")
  case True
  then have "8 * i + 8 \<le> length P"
    using assms by simp
  then show ?thesis
    using True by (simp add: word_at_def)
next
  case False
  then show ?thesis
    using assms by (simp add: word_at_def le_val_replicate_0 drop_replicate take_replicate)
qed

definition absorb_step :: "nat \<Rightarrow> i64 list \<Rightarrow> byte list \<Rightarrow> i64 list" where
  "absorb_step r st p = keccakf (xor_words (r div 8) p st) KECCAK_ROUNDS"

lemma length_absorb_step [simp]: "length st = 25 \<Longrightarrow> r \<le> 200 \<Longrightarrow> length (absorb_step r st p) = 25"
  using xor_words_nth [of st "r div 8" p] by (simp add: absorb_step_def div_le_mono)

lemma absorb_step_take:
  assumes "length st = 25" "r \<le> 200" "8 dvd r"
  shows "absorb_step r st (take r p) = absorb_step r st p"
proof -
  have "xor_words (r div 8) (take r p) st = xor_words (r div 8) p st"
  proof (rule nth_equalityI)
    fix i assume "i < length (xor_words (r div 8) (take r p) st)"
    moreover have "i < r div 8 \<Longrightarrow> word_at (take r p) i = word_at p i"
      using assms(3) by (intro word_at_take) (auto elim!: dvdE)
    ultimately show "xor_words (r div 8) (take r p) st ! i = xor_words (r div 8) p st ! i"
      using assms xor_words_nth [of st "r div 8"] by simp
  qed (use assms xor_words_nth [of st "r div 8"] in simp)
  then show ?thesis
    by (simp add: absorb_step_def)
qed

lemma absorb_step_std:
  assumes "length P = r" "r \<le> 200" "8 dvd r"
  shows "absorb_step r (of_lanes A) P = of_lanes (std_absorb A P)"
proof -
  let ?B = "\<lambda>x y. A x y XOR word_at (P @ replicate (200 - length P) 0) (x + 5 * y)"
  have "xor_words (r div 8) P (of_lanes A) = of_lanes ?B"
  proof (rule nth_equalityI)
    fix i assume "i < length (xor_words (r div 8) P (of_lanes A))"
    then have i: "i < 25"
      using assms xor_words_nth [of "of_lanes A" "r div 8"] by simp
    have "length P = 8 * (r div 8)" "i mod 5 + 5 * (i div 5) = i"
      using assms by simp_all
    then show "xor_words (r div 8) P (of_lanes A) ! i = of_lanes ?B ! i"
      using i assms(2) xor_words_nth [of "of_lanes A" "r div 8" P] word_at_zeros [of P "r div 8"]
      by (simp add: of_lanes_nth)
  qed (use assms xor_words_nth [of "of_lanes A" "r div 8"] in simp)
  moreover have "lanes_eq (keccak_p 24 (lanes_of (of_lanes ?B))) (keccak_p 24 ?B)"
    by (rule keccak_p_cong [OF lanes_of_lanes])
  ultimately show ?thesis
    by (simp add: absorb_step_def keccakf_std std_absorb_def of_lanes_cong)
qed

lemma foldl_absorb_std:
  assumes "\<forall>P\<in>set Ps. length P = r" "r \<le> 200" "8 dvd r"
  shows "foldl (absorb_step r) (of_lanes A) Ps = of_lanes (foldl std_absorb A Ps)"
  using assms(1) by (induction Ps arbitrary: A) (simp_all add: absorb_step_std assms(2,3))

text \<open>For a positive rate the loop ends; it is a recursion over the rest of the message.\<close>

function absorb_rest :: "nat \<Rightarrow> i64 list \<Rightarrow> byte list \<Rightarrow> i64 list \<times> byte list" where
  "absorb_rest r st m = (if 0 < r \<and> r \<le> length m then absorb_rest r (absorb_step r st m) (drop r m) else (st, m))"
  by pat_completeness auto

termination
  by (relation "measure (\<lambda>(r, st, m). length m)") auto

declare absorb_rest.simps [simp del]

lemma absorb_ends:
  assumes "0 < r" "k \<le> length m" "absorb_rest r st (drop k m) = (st', m')"
  shows "keccak_absorb m (int r) st (int k) (int (length m - k)) = Some (Inr (st', int (length m - length m'), int (length m')))
    \<and> length m' \<le> length m \<and> length m' < r \<and> drop (length m - length m') m = m'"
  using assms
proof (induction "length m - k" arbitrary: k st rule: less_induct)
  case less
  show ?case
  proof (cases "r \<le> length m - k")
    case True
    then have eq: "k + r \<le> length m" "int (length m - k) - int r = int (length m - (k + r))"
        "length m - (k + r) < length m - k" "int k + int r = int (k + r)"
      using less.prems(1) by simp_all
    have "absorb_rest r (absorb_step r st (drop k m)) (drop (k + r) m) = (st', m')"
      using less.prems(1,3) True by (simp add: absorb_rest.simps [of r st] add.commute)
    from less.hyps [OF eq(3) less.prems(1) eq(1) this] show ?thesis
      using True eq(1) by (subst keccak_absorb.simps)
        (simp add: eq(2,4) absorb_step_def zdiv_int [symmetric] nat_div_distrib del: of_nat_add of_nat_diff)
  next
    case False
    then have "st' = st" "m' = drop k m"
      using less.prems(3) by (simp_all add: absorb_rest.simps [of r st])
    moreover have "\<not> int r \<le> int (length m - k)"
      using False by simp
    ultimately show ?thesis
      using False less.prems(2) by (subst keccak_absorb.simps) simp
  qed
qed

text \<open>For the rate 0 it does not end, and for a negative rate the pointer leaves the input at once.\<close>

lemma absorb_zero_rate:
  assumes "0 \<le> pos" "pos \<le> int (length m)" "0 \<le> inlen"
  shows "keccak_absorb m 0 st pos inlen = None"
proof (rule ccontr)
  assume "keccak_absorb m 0 st pos inlen \<noteq> None"
  then obtain r where ret: "keccak_absorb m 0 st pos inlen = Some r"
    by blast
  have "\<not> ((0 :: int) = 0 \<and> 0 \<le> pos \<and> pos \<le> int (length m) \<and> 0 \<le> inlen)"
    by (rule keccak_absorb.raw_induct [where P = "\<lambda>m rsiz st pos inlen r. \<not> (rsiz = 0 \<and> 0 \<le> pos \<and> pos \<le> int (length m) \<and> 0 \<le> inlen)",
          OF _ ret]) (auto simp: Let_def split: if_splits)
  with assms show False
    by simp
qed

lemma absorb_negative_rate: "rsiz < 0 \<Longrightarrow> keccak_absorb m rsiz st 0 (int (length m)) = Some (Inl InputRange)"
  by (subst keccak_absorb.simps) simp

text \<open>The last block.\<close>

lemma temp_write_prefix:
  "length pre = k \<Longrightarrow> temp_write k bs (pre @ rest) = (if length bs \<le> length rest then Inr (pre @ bs @ drop (length bs) rest) else Inl TempRange)"
  by (simp add: temp_write_def)

lemma temp_write_one: "k < length temp \<Longrightarrow> temp_write k [b] temp = Inr (temp[k := b])"
  by (simp add: temp_write_def upd_conv_take_nth_drop)

lemma padding_bit:
  assumes "length m < r"
  defines "X \<equiv> m @ [1] @ replicate (r - (length m + 1)) 0"
  shows "X[r - 1 := X ! (r - 1) OR 0x80] = m @ pad101 r (length m)"
proof -
  define q where "q = r - length m - 1"
  have r: "r = length m + Suc q" "r - (length m + 1) = q" "r - length m = Suc q"
    using assms(1) by (simp_all add: q_def)
  show ?thesis
  proof (cases q)
    case 0
    then show ?thesis
      using r by (simp add: X_def pad101_def Let_def list_update_append nth_append)
  next
    case (Suc k)
    have "replicate (Suc k) (0::byte) = replicate k 0 @ [0]"
      by (simp add: replicate_append_same)
    with Suc show ?thesis
      using r by (simp add: X_def pad101_def Let_def list_update_append nth_append del: replicate_Suc)
  qed
qed

lemma keccak_last_pad:
  assumes "length m < r"
  shows "keccak_last temp r m = (if r \<le> length temp then Inr (m @ pad101 r (length m) @ drop r temp) else Inl TempRange)"
proof (cases "length m < length temp")
  case True
  let ?X = "m @ [1] @ replicate (r - (length m + 1)) 0"
  have 1: "temp_write 0 m temp = Inr (m @ drop (length m) temp)"
    using True by (simp add: temp_write_def)
  have 2: "temp_write (length m) [1] (m @ drop (length m) temp) = Inr ((m @ [1]) @ drop (length m + 1) temp)"
    using True by (simp add: temp_write_prefix)
  have 3: "temp_write (length m + 1) (replicate (r - (length m + 1)) 0) ((m @ [1]) @ drop (length m + 1) temp)
      = (if r \<le> length temp then Inr (?X @ drop r temp) else Inl TempRange)"
    using True assms by (subst temp_write_prefix) auto
  have len: "length ?X = r"
    using assms by simp
  have "temp_write (r - 1) [(?X @ drop r temp) ! (r - 1) OR 0x80] (?X @ drop r temp)
      = Inr (m @ pad101 r (length m) @ drop r temp)"
    using padding_bit [OF assms] assms len
    by (subst temp_write_one) (auto simp: list_update_append nth_append simp del: append_assoc)
  with 3 show ?thesis
    unfolding keccak_last_def by (simp only: 1 2 sum.case if_split) simp
next
  case False
  then have "temp_write 0 m temp = Inl TempRange \<or> temp_write 0 m temp = Inr m \<and> length m = length temp"
    by (auto simp: temp_write_def)
  moreover have "\<not> r \<le> length temp"
    using False assms by simp
  ultimately show ?thesis
    by (auto simp: keccak_last_def temp_write_def)
qed

lemma length_pad101: "0 < r \<Longrightarrow> length (pad101 r n) = r - n mod r"
proof -
  assume "0 < r"
  then have "0 < r - n mod r"
    by simp
  then show ?thesis
    by (auto simp: pad101_def Let_def simp del: zero_less_diff)
qed

lemma pad101_mod: "r \<le> n \<Longrightarrow> pad101 r (n - r) = pad101 r n"
  by (simp add: pad101_def le_mod_geq)

lemma absorb_chunks:
  assumes "0 < r" "r \<le> 200" "8 dvd r" "length st = 25" "absorb_rest r st m = (st', m')"
  shows "absorb_step r st' (m' @ pad101 r (length m')) = foldl (absorb_step r) st (chunks r (m @ pad101 r (length m)))
    \<and> length m' < r \<and> length st' = 25"
  using assms
proof (induction r st m rule: absorb_rest.induct)
  case (1 r st m)
  show ?case
  proof (cases "r \<le> length m")
    case True
    have "foldl (absorb_step r) st (chunks r (m @ pad101 r (length m)))
        = foldl (absorb_step r) (absorb_step r st m) (chunks r (drop r m @ pad101 r (length (drop r m))))"
      using True 1(2-5) by (subst chunks.simps) (auto simp: pad101_mod absorb_step_take)
    with 1 True show ?thesis
      by (simp add: absorb_rest.simps [of r st m])
  next
    case False
    then have eq: "st' = st" "m' = m"
      using 1(6) by (simp_all add: absorb_rest.simps [of r st m])
    have "length (m @ pad101 r (length m)) = r"
      using False 1(2) by (simp add: length_pad101)
    then have "chunks r (m @ pad101 r (length m)) = [m @ pad101 r (length m)]"
      using 1(2) by (subst chunks.simps) (auto simp: chunks.simps [of r "[]"])
    then show ?thesis
      using eq False 1(5) by simp
  qed
qed

lemma chunks_lengths: "r dvd length m \<Longrightarrow> P \<in> set (chunks r m) \<Longrightarrow> length P = r"
proof (induction r m rule: chunks.induct)
  case (1 r m)
  show ?case
  proof (cases "0 < r \<and> m \<noteq> []")
    case True
    then have "r \<le> length m"
      using 1(2) by (simp add: dvd_imp_le)
    then show ?thesis
      using 1 True by (auto simp: chunks.simps [of r m] dvd_diff_nat)
  next
    case False
    then have "chunks r m = []"
      by (auto simp: chunks.simps [of r m])
    then show ?thesis
      using 1(3) by simp
  qed
qed

lemma padded_dvd: "0 < r \<Longrightarrow> r dvd length (m @ pad101 r (length m))"
proof -
  assume "0 < r"
  then have "length (m @ pad101 r (length m)) = r * (length m div r) + r"
    using less_imp_le [OF mod_less_divisor [of r "length m"]] mult_div_mod_eq [of r "length m"]
    unfolding length_append length_pad101 [OF \<open>0 < r\<close>] by linarith
  then show ?thesis
    by simp
qed

definition keccak_rate :: "nat \<Rightarrow> nat" where
  "keccak_rate mdlen = (if mdlen = 200 then 136 else 200 - 2 * mdlen)"

lemma keccak_positive_rate:
  assumes "0 < keccak_rate mdlen" "mdlen \<noteq> 200 \<longrightarrow> mdlen \<le> 100" "absorb_rest (keccak_rate mdlen) (replicate 25 0) m = (st', m')"
  shows "keccak temp m mdlen = (case keccak_last temp (keccak_rate mdlen) m' of Inl e \<Rightarrow> Some (Inl e)
    | Inr t \<Rightarrow> Some (Inr (take mdlen (state_bytes (absorb_step (keccak_rate mdlen) st' t)))))" "length m' < keccak_rate mdlen"
proof -
  have r: "(if mdlen = 200 then 136 else 200 - 2 * int mdlen) = int (keccak_rate mdlen)"
    using assms(2) by (auto simp: keccak_rate_def)
  have a: "keccak_absorb m (int (keccak_rate mdlen)) (replicate 25 0) 0 (int (length m))
      = Some (Inr (st', int (length m - length m'), int (length m')))" "drop (length m - length m') m = m'" "length m' < keccak_rate mdlen"
    using absorb_ends [OF assms(1), of 0 m "replicate 25 0" st' m'] assms(3) by simp_all
  show "keccak temp m mdlen = (case keccak_last temp (keccak_rate mdlen) m' of Inl e \<Rightarrow> Some (Inl e)
    | Inr t \<Rightarrow> Some (Inr (take mdlen (state_bytes (absorb_step (keccak_rate mdlen) st' t)))))"
    unfolding keccak_def r Let_def a(1)
    by (simp add: a(2) absorb_step_def zdiv_int [symmetric] nat_div_distrib del: of_nat_diff cong: sum.case_cong)
  show "length m' < keccak_rate mdlen"
    by (rule a(3))
qed

lemma keccak_sponge_eq:
  assumes "length temp = 144" "mdlen = 200 \<or> 28 \<le> mdlen \<and> mdlen < 100" "4 dvd mdlen"
  shows "keccak temp m mdlen = Some (Inr (take mdlen (state_bytes (of_lanes (std_sponge (keccak_rate mdlen) m)))))"
proof -
  let ?r = "keccak_rate mdlen"
  have r: "0 < ?r" "?r \<le> 144" "8 dvd ?r" "mdlen \<noteq> 200 \<longrightarrow> mdlen \<le> 100"
    using assms(2,3) by (auto simp: keccak_rate_def elim!: dvdE)
  obtain st' m' where a: "absorb_rest ?r (replicate 25 0) m = (st', m')"
    by fastforce
  have z: "replicate 25 0 = of_lanes (\<lambda>x y. 0)"
    by (simp add: of_lanes_def map_replicate_const)
  note m' = keccak_positive_rate [OF r(1,4) a]
  have len: "length (m' @ pad101 ?r (length m')) = ?r" "length st' = 25"
    using m'(2) r(1,2) absorb_chunks [OF r(1) _ r(3) _ a] by (simp_all add: length_pad101)
  have "absorb_step ?r st' (m' @ pad101 ?r (length m') @ drop ?r temp) = absorb_step ?r st' (m' @ pad101 ?r (length m'))"
    using absorb_step_take [OF len(2) _ r(3), of "m' @ pad101 ?r (length m') @ drop ?r temp"] len(1) r(2) by simp
  also have "\<dots> = of_lanes (std_sponge ?r m)"
    using absorb_chunks [OF r(1) _ r(3) _ a] r(2) chunks_lengths [OF padded_dvd [OF r(1)]]
      foldl_absorb_std [of "chunks ?r (m @ pad101 ?r (length m))" ?r "\<lambda>x y. 0"]
    by (simp add: std_sponge_def z r(3))
  finally show ?thesis
    using keccak_last_pad [OF m'(2), of temp] r(2) by (simp add: m'(1) assms(1))
qed

lemma keccak_short_digest:
  assumes "length temp = 144" "mdlen < 28"
  shows "keccak temp m mdlen = Some (Inl TempRange)"
proof -
  obtain st' m' where a: "absorb_rest (keccak_rate mdlen) (replicate 25 0) m = (st', m')"
    by fastforce
  have r: "0 < keccak_rate mdlen" "mdlen \<noteq> 200 \<longrightarrow> mdlen \<le> 100" "144 < keccak_rate mdlen"
    using assms(2) by (auto simp: keccak_rate_def)
  show ?thesis
    using keccak_last_pad [OF keccak_positive_rate(2) [OF r(1,2) a], of temp] r(3)
    by (simp add: keccak_positive_rate(1) [OF r(1,2) a] assms(1))
qed

lemma keccak_long_digest:
  "keccak temp m 100 = None"
  "100 < mdlen \<Longrightarrow> mdlen \<noteq> 200 \<Longrightarrow> keccak temp m mdlen = Some (Inl InputRange)"
  by (simp_all add: keccak_def Let_def absorb_zero_rate absorb_negative_rate)

lemma length_state_bytes: "length (state_bytes st) = 8 * length st"
  by (induction st) (simp_all add: state_bytes_def)

lemma keccak_32: "length temp = 144 \<Longrightarrow> \<exists>h. keccak temp m 32 = Some (Inr h) \<and> length h = 32"
  using keccak_sponge_eq [of temp 32 m] by (simp add: length_state_bytes)

section \<open>Properties\<close>

text \<open>
  C11. \<open>keccakf\<close> with its 24 rounds is the permutation Keccak-f[1600], which is Keccak-p[1600, 24] of FIPS 202: the unrolled
  steps in place are \<open>\<theta>\<close>, \<open>\<rho>\<close>, \<open>\<pi>\<close>, \<open>\<chi>\<close> and \<open>\<iota>\<close> on lanes, the rotations those of the walk over the lanes, and the 24 constants
  those of the shift register.  With fewer rounds it makes the first ones, \<open>0\<close> to \<open>rounds - 1\<close> (and not the last ones, as
  Keccak-p with that number of rounds does).
\<close>

theorem keccak_permutation:
  assumes "rounds \<le> 24" "length st = 25" "x < 5" "y < 5"
  shows "keccakf st 24 ! (x + 5 * y) = keccak_p 24 (lanes_of st) x y
    \<and> length (keccakf st rounds) = 25 \<and> keccakf st rounds ! (x + 5 * y) = fold std_round [0..<rounds] (lanes_of st) x y"
  using assms by (simp add: keccakf_rounds keccak_p_def of_lanes_nth)

theorem keccak_permutation_witness:
  "keccakf (replicate 25 0) 24 ! (2 + 5 * 3) = keccak_p 24 (lanes_of (replicate 25 0)) 2 3"
  using keccak_permutation [of 24 "replicate 25 0" 2 3] by simp

text \<open>
  C12. \<open>keccak\<close> absorbs the padded message block by block and returns the first \<open>mdlen\<close> bytes of the state: it is the
  sponge of the standard, with the original padding, for every message and every digest length that is a multiple of 4 between 28
  and 96, and for the length 200, which asks for the whole state.  What the array \<open>temp\<close> holds before does not matter.  For a
  length below 28 the last block is written past the end of \<open>temp\<close>, for the length 100 the first loop
  does not end, and for a longer one other than 200 its first round moves the pointer to before the input.
\<close>

theorem keccak_sponge:
  assumes "length temp = 144" "mdlen = 200 \<or> 28 \<le> mdlen \<and> mdlen < 100" "4 dvd mdlen"
  shows "keccak temp m mdlen = Some (Inr (take mdlen (state_bytes (of_lanes (std_sponge (keccak_rate mdlen) m)))))
    \<and> (\<forall>n<28. keccak temp m n = Some (Inl TempRange)) \<and> keccak temp m 100 = None
    \<and> (\<forall>n>100. n \<noteq> 200 \<longrightarrow> keccak temp m n = Some (Inl InputRange))"
  using keccak_sponge_eq [OF assms] keccak_short_digest [OF assms(1)] keccak_long_digest by simp

theorem keccak_sponge_witness:
  "keccak (replicate 144 7) [1, 2, 3] 32 = Some (Inr (take 32 (state_bytes (of_lanes (std_sponge (keccak_rate 32) [1, 2, 3])))))"
  using keccak_sponge [of "replicate 144 7" 32 "[1, 2, 3]"] by simp

end
