(* ===== verification/HexArith.thy ===== *)
theory HexArith
  imports Main
begin

text \<open>
  Arithmetic on large literals, sixteen digits at a time instead of two.  A number is a list of
  hexadecimal digits, the lowest first; addition and multiplication are proved correct in general, and their
  equations for concrete digits are a table of rewrite rules.  The certificates of the following theories are
  checked with these rules.
\<close>

section \<open>Digits\<close>

datatype hx = X0 | X1 | X2 | X3 | X4 | X5 | X6 | X7 | X8 | X9 | XA | XB | XC | XD | XE | XF

primrec hxv :: "hx \<Rightarrow> int" where
  "hxv X0 = 0"
| "hxv X1 = 1"
| "hxv X2 = 2"
| "hxv X3 = 3"
| "hxv X4 = 4"
| "hxv X5 = 5"
| "hxv X6 = 6"
| "hxv X7 = 7"
| "hxv X8 = 8"
| "hxv X9 = 9"
| "hxv XA = 10"
| "hxv XB = 11"
| "hxv XC = 12"
| "hxv XD = 13"
| "hxv XE = 14"
| "hxv XF = 15"

definition hxd :: "int \<Rightarrow> hx" where
  "hxd i = [X0, X1, X2, X3, X4, X5, X6, X7, X8, X9, XA, XB, XC, XD, XE, XF] ! nat i"

lemma hxv_range: "0 \<le> hxv x" "hxv x < 16"
  by (cases x; simp)+

lemma hxv_hxd:
  assumes "0 \<le> i" "i < 16"
  shows "hxv (hxd i) = i"
proof -
  have "\<forall>n<16. hxv ([X0, X1, X2, X3, X4, X5, X6, X7, X8, X9, XA, XB, XC, XD, XE, XF] ! n) = int n"
    by (simp add: numeral_eq_Suc less_Suc_eq all_conj_distrib)
  then show ?thesis
    using assms unfolding hxd_def by (simp only: nat_less_iff of_nat_numeral nat_0_le)
qed

fun hv :: "hx list \<Rightarrow> int" where
  "hv [] = 0"
| "hv (x # xs) = hxv x + 16 * hv xs"

section \<open>Addition\<close>

fun hadd :: "int \<Rightarrow> hx list \<Rightarrow> hx list \<Rightarrow> hx list" where
  "hadd c (x # xs) (y # ys) = hxd ((hxv x + hxv y + c) mod 16) # hadd ((hxv x + hxv y + c) div 16) xs ys"
| "hadd c [] (y # ys) = hxd ((hxv y + c) mod 16) # hadd ((hxv y + c) div 16) [] ys"
| "hadd c (x # xs) [] = hxd ((hxv x + c) mod 16) # hadd ((hxv x + c) div 16) xs []"
| "hadd c [] [] = (if c = 0 then [] else [hxd c])"

lemma hxv_hxd_mod: "hxv (hxd (i mod 16)) = i mod 16"
  by (rule hxv_hxd) simp_all

lemma hv_hadd: "0 \<le> c \<Longrightarrow> c \<le> 1 \<Longrightarrow> hv (hadd c xs ys) = c + hv xs + hv ys"
proof (induction c xs ys rule: hadd.induct)
  case (1 c x xs y ys)
  let ?s = "hxv x + hxv y + c"
  have "0 \<le> ?s div 16" "?s div 16 \<le> 1"
    using hxv_range [of x] hxv_range [of y] 1(2,3) by linarith+
  with 1(1) show ?case
    using mod_mult_div_eq [of ?s 16] by (simp add: hxv_hxd_mod algebra_simps)
next
  case (2 c y ys)
  let ?s = "hxv y + c"
  have "0 \<le> ?s div 16" "?s div 16 \<le> 1"
    using hxv_range [of y] 2(2,3) by linarith+
  with 2(1) show ?case
    using mod_mult_div_eq [of ?s 16] by (simp add: hxv_hxd_mod algebra_simps)
next
  case (3 c x xs)
  let ?s = "hxv x + c"
  have "0 \<le> ?s div 16" "?s div 16 \<le> 1"
    using hxv_range [of x] 3(2,3) by linarith+
  with 3(1) show ?case
    using mod_mult_div_eq [of ?s 16] by (simp add: hxv_hxd_mod algebra_simps)
next
  case (4 c)
  then show ?case
    using hxv_hxd [of c] by simp
qed

lemma hadd_nil: "hadd 0 [] ys = ys" "hadd 0 ys [] = ys"
proof -
  have d: "hxd (hxv y mod 16) = y" "hxv y div 16 = 0" for y
    by (cases y; simp add: hxd_def)+
  show "hadd 0 [] ys = ys" "hadd 0 ys [] = ys"
    by (induction ys) (simp_all add: d)
qed

lemmas hadd_eval = hadd.simps hxd_def hxv.simps

lemma hadd_0_0:
  "hadd 0 (X0 # xs) (X0 # ys) = X0 # hadd 0 xs ys"
  "hadd 0 (X0 # xs) (X1 # ys) = X1 # hadd 0 xs ys"
  "hadd 0 (X0 # xs) (X2 # ys) = X2 # hadd 0 xs ys"
  "hadd 0 (X0 # xs) (X3 # ys) = X3 # hadd 0 xs ys"
  "hadd 0 (X0 # xs) (X4 # ys) = X4 # hadd 0 xs ys"
  "hadd 0 (X0 # xs) (X5 # ys) = X5 # hadd 0 xs ys"
  "hadd 0 (X0 # xs) (X6 # ys) = X6 # hadd 0 xs ys"
  "hadd 0 (X0 # xs) (X7 # ys) = X7 # hadd 0 xs ys"
  "hadd 0 (X0 # xs) (X8 # ys) = X8 # hadd 0 xs ys"
  "hadd 0 (X0 # xs) (X9 # ys) = X9 # hadd 0 xs ys"
  "hadd 0 (X0 # xs) (XA # ys) = XA # hadd 0 xs ys"
  "hadd 0 (X0 # xs) (XB # ys) = XB # hadd 0 xs ys"
  "hadd 0 (X0 # xs) (XC # ys) = XC # hadd 0 xs ys"
  "hadd 0 (X0 # xs) (XD # ys) = XD # hadd 0 xs ys"
  "hadd 0 (X0 # xs) (XE # ys) = XE # hadd 0 xs ys"
  "hadd 0 (X0 # xs) (XF # ys) = XF # hadd 0 xs ys"
  by (simp_all add: hadd_eval)

lemma hadd_1_0:
  "hadd 1 (X0 # xs) (X0 # ys) = X1 # hadd 0 xs ys"
  "hadd 1 (X0 # xs) (X1 # ys) = X2 # hadd 0 xs ys"
  "hadd 1 (X0 # xs) (X2 # ys) = X3 # hadd 0 xs ys"
  "hadd 1 (X0 # xs) (X3 # ys) = X4 # hadd 0 xs ys"
  "hadd 1 (X0 # xs) (X4 # ys) = X5 # hadd 0 xs ys"
  "hadd 1 (X0 # xs) (X5 # ys) = X6 # hadd 0 xs ys"
  "hadd 1 (X0 # xs) (X6 # ys) = X7 # hadd 0 xs ys"
  "hadd 1 (X0 # xs) (X7 # ys) = X8 # hadd 0 xs ys"
  "hadd 1 (X0 # xs) (X8 # ys) = X9 # hadd 0 xs ys"
  "hadd 1 (X0 # xs) (X9 # ys) = XA # hadd 0 xs ys"
  "hadd 1 (X0 # xs) (XA # ys) = XB # hadd 0 xs ys"
  "hadd 1 (X0 # xs) (XB # ys) = XC # hadd 0 xs ys"
  "hadd 1 (X0 # xs) (XC # ys) = XD # hadd 0 xs ys"
  "hadd 1 (X0 # xs) (XD # ys) = XE # hadd 0 xs ys"
  "hadd 1 (X0 # xs) (XE # ys) = XF # hadd 0 xs ys"
  "hadd 1 (X0 # xs) (XF # ys) = X0 # hadd 1 xs ys"
  by (simp_all add: hadd_eval)

lemma hadd_0_1:
  "hadd 0 (X1 # xs) (X0 # ys) = X1 # hadd 0 xs ys"
  "hadd 0 (X1 # xs) (X1 # ys) = X2 # hadd 0 xs ys"
  "hadd 0 (X1 # xs) (X2 # ys) = X3 # hadd 0 xs ys"
  "hadd 0 (X1 # xs) (X3 # ys) = X4 # hadd 0 xs ys"
  "hadd 0 (X1 # xs) (X4 # ys) = X5 # hadd 0 xs ys"
  "hadd 0 (X1 # xs) (X5 # ys) = X6 # hadd 0 xs ys"
  "hadd 0 (X1 # xs) (X6 # ys) = X7 # hadd 0 xs ys"
  "hadd 0 (X1 # xs) (X7 # ys) = X8 # hadd 0 xs ys"
  "hadd 0 (X1 # xs) (X8 # ys) = X9 # hadd 0 xs ys"
  "hadd 0 (X1 # xs) (X9 # ys) = XA # hadd 0 xs ys"
  "hadd 0 (X1 # xs) (XA # ys) = XB # hadd 0 xs ys"
  "hadd 0 (X1 # xs) (XB # ys) = XC # hadd 0 xs ys"
  "hadd 0 (X1 # xs) (XC # ys) = XD # hadd 0 xs ys"
  "hadd 0 (X1 # xs) (XD # ys) = XE # hadd 0 xs ys"
  "hadd 0 (X1 # xs) (XE # ys) = XF # hadd 0 xs ys"
  "hadd 0 (X1 # xs) (XF # ys) = X0 # hadd 1 xs ys"
  by (simp_all add: hadd_eval)

lemma hadd_1_1:
  "hadd 1 (X1 # xs) (X0 # ys) = X2 # hadd 0 xs ys"
  "hadd 1 (X1 # xs) (X1 # ys) = X3 # hadd 0 xs ys"
  "hadd 1 (X1 # xs) (X2 # ys) = X4 # hadd 0 xs ys"
  "hadd 1 (X1 # xs) (X3 # ys) = X5 # hadd 0 xs ys"
  "hadd 1 (X1 # xs) (X4 # ys) = X6 # hadd 0 xs ys"
  "hadd 1 (X1 # xs) (X5 # ys) = X7 # hadd 0 xs ys"
  "hadd 1 (X1 # xs) (X6 # ys) = X8 # hadd 0 xs ys"
  "hadd 1 (X1 # xs) (X7 # ys) = X9 # hadd 0 xs ys"
  "hadd 1 (X1 # xs) (X8 # ys) = XA # hadd 0 xs ys"
  "hadd 1 (X1 # xs) (X9 # ys) = XB # hadd 0 xs ys"
  "hadd 1 (X1 # xs) (XA # ys) = XC # hadd 0 xs ys"
  "hadd 1 (X1 # xs) (XB # ys) = XD # hadd 0 xs ys"
  "hadd 1 (X1 # xs) (XC # ys) = XE # hadd 0 xs ys"
  "hadd 1 (X1 # xs) (XD # ys) = XF # hadd 0 xs ys"
  "hadd 1 (X1 # xs) (XE # ys) = X0 # hadd 1 xs ys"
  "hadd 1 (X1 # xs) (XF # ys) = X1 # hadd 1 xs ys"
  by (simp_all add: hadd_eval)

lemma hadd_0_2:
  "hadd 0 (X2 # xs) (X0 # ys) = X2 # hadd 0 xs ys"
  "hadd 0 (X2 # xs) (X1 # ys) = X3 # hadd 0 xs ys"
  "hadd 0 (X2 # xs) (X2 # ys) = X4 # hadd 0 xs ys"
  "hadd 0 (X2 # xs) (X3 # ys) = X5 # hadd 0 xs ys"
  "hadd 0 (X2 # xs) (X4 # ys) = X6 # hadd 0 xs ys"
  "hadd 0 (X2 # xs) (X5 # ys) = X7 # hadd 0 xs ys"
  "hadd 0 (X2 # xs) (X6 # ys) = X8 # hadd 0 xs ys"
  "hadd 0 (X2 # xs) (X7 # ys) = X9 # hadd 0 xs ys"
  "hadd 0 (X2 # xs) (X8 # ys) = XA # hadd 0 xs ys"
  "hadd 0 (X2 # xs) (X9 # ys) = XB # hadd 0 xs ys"
  "hadd 0 (X2 # xs) (XA # ys) = XC # hadd 0 xs ys"
  "hadd 0 (X2 # xs) (XB # ys) = XD # hadd 0 xs ys"
  "hadd 0 (X2 # xs) (XC # ys) = XE # hadd 0 xs ys"
  "hadd 0 (X2 # xs) (XD # ys) = XF # hadd 0 xs ys"
  "hadd 0 (X2 # xs) (XE # ys) = X0 # hadd 1 xs ys"
  "hadd 0 (X2 # xs) (XF # ys) = X1 # hadd 1 xs ys"
  by (simp_all add: hadd_eval)

lemma hadd_1_2:
  "hadd 1 (X2 # xs) (X0 # ys) = X3 # hadd 0 xs ys"
  "hadd 1 (X2 # xs) (X1 # ys) = X4 # hadd 0 xs ys"
  "hadd 1 (X2 # xs) (X2 # ys) = X5 # hadd 0 xs ys"
  "hadd 1 (X2 # xs) (X3 # ys) = X6 # hadd 0 xs ys"
  "hadd 1 (X2 # xs) (X4 # ys) = X7 # hadd 0 xs ys"
  "hadd 1 (X2 # xs) (X5 # ys) = X8 # hadd 0 xs ys"
  "hadd 1 (X2 # xs) (X6 # ys) = X9 # hadd 0 xs ys"
  "hadd 1 (X2 # xs) (X7 # ys) = XA # hadd 0 xs ys"
  "hadd 1 (X2 # xs) (X8 # ys) = XB # hadd 0 xs ys"
  "hadd 1 (X2 # xs) (X9 # ys) = XC # hadd 0 xs ys"
  "hadd 1 (X2 # xs) (XA # ys) = XD # hadd 0 xs ys"
  "hadd 1 (X2 # xs) (XB # ys) = XE # hadd 0 xs ys"
  "hadd 1 (X2 # xs) (XC # ys) = XF # hadd 0 xs ys"
  "hadd 1 (X2 # xs) (XD # ys) = X0 # hadd 1 xs ys"
  "hadd 1 (X2 # xs) (XE # ys) = X1 # hadd 1 xs ys"
  "hadd 1 (X2 # xs) (XF # ys) = X2 # hadd 1 xs ys"
  by (simp_all add: hadd_eval)

lemma hadd_0_3:
  "hadd 0 (X3 # xs) (X0 # ys) = X3 # hadd 0 xs ys"
  "hadd 0 (X3 # xs) (X1 # ys) = X4 # hadd 0 xs ys"
  "hadd 0 (X3 # xs) (X2 # ys) = X5 # hadd 0 xs ys"
  "hadd 0 (X3 # xs) (X3 # ys) = X6 # hadd 0 xs ys"
  "hadd 0 (X3 # xs) (X4 # ys) = X7 # hadd 0 xs ys"
  "hadd 0 (X3 # xs) (X5 # ys) = X8 # hadd 0 xs ys"
  "hadd 0 (X3 # xs) (X6 # ys) = X9 # hadd 0 xs ys"
  "hadd 0 (X3 # xs) (X7 # ys) = XA # hadd 0 xs ys"
  "hadd 0 (X3 # xs) (X8 # ys) = XB # hadd 0 xs ys"
  "hadd 0 (X3 # xs) (X9 # ys) = XC # hadd 0 xs ys"
  "hadd 0 (X3 # xs) (XA # ys) = XD # hadd 0 xs ys"
  "hadd 0 (X3 # xs) (XB # ys) = XE # hadd 0 xs ys"
  "hadd 0 (X3 # xs) (XC # ys) = XF # hadd 0 xs ys"
  "hadd 0 (X3 # xs) (XD # ys) = X0 # hadd 1 xs ys"
  "hadd 0 (X3 # xs) (XE # ys) = X1 # hadd 1 xs ys"
  "hadd 0 (X3 # xs) (XF # ys) = X2 # hadd 1 xs ys"
  by (simp_all add: hadd_eval)

lemma hadd_1_3:
  "hadd 1 (X3 # xs) (X0 # ys) = X4 # hadd 0 xs ys"
  "hadd 1 (X3 # xs) (X1 # ys) = X5 # hadd 0 xs ys"
  "hadd 1 (X3 # xs) (X2 # ys) = X6 # hadd 0 xs ys"
  "hadd 1 (X3 # xs) (X3 # ys) = X7 # hadd 0 xs ys"
  "hadd 1 (X3 # xs) (X4 # ys) = X8 # hadd 0 xs ys"
  "hadd 1 (X3 # xs) (X5 # ys) = X9 # hadd 0 xs ys"
  "hadd 1 (X3 # xs) (X6 # ys) = XA # hadd 0 xs ys"
  "hadd 1 (X3 # xs) (X7 # ys) = XB # hadd 0 xs ys"
  "hadd 1 (X3 # xs) (X8 # ys) = XC # hadd 0 xs ys"
  "hadd 1 (X3 # xs) (X9 # ys) = XD # hadd 0 xs ys"
  "hadd 1 (X3 # xs) (XA # ys) = XE # hadd 0 xs ys"
  "hadd 1 (X3 # xs) (XB # ys) = XF # hadd 0 xs ys"
  "hadd 1 (X3 # xs) (XC # ys) = X0 # hadd 1 xs ys"
  "hadd 1 (X3 # xs) (XD # ys) = X1 # hadd 1 xs ys"
  "hadd 1 (X3 # xs) (XE # ys) = X2 # hadd 1 xs ys"
  "hadd 1 (X3 # xs) (XF # ys) = X3 # hadd 1 xs ys"
  by (simp_all add: hadd_eval)

lemma hadd_0_4:
  "hadd 0 (X4 # xs) (X0 # ys) = X4 # hadd 0 xs ys"
  "hadd 0 (X4 # xs) (X1 # ys) = X5 # hadd 0 xs ys"
  "hadd 0 (X4 # xs) (X2 # ys) = X6 # hadd 0 xs ys"
  "hadd 0 (X4 # xs) (X3 # ys) = X7 # hadd 0 xs ys"
  "hadd 0 (X4 # xs) (X4 # ys) = X8 # hadd 0 xs ys"
  "hadd 0 (X4 # xs) (X5 # ys) = X9 # hadd 0 xs ys"
  "hadd 0 (X4 # xs) (X6 # ys) = XA # hadd 0 xs ys"
  "hadd 0 (X4 # xs) (X7 # ys) = XB # hadd 0 xs ys"
  "hadd 0 (X4 # xs) (X8 # ys) = XC # hadd 0 xs ys"
  "hadd 0 (X4 # xs) (X9 # ys) = XD # hadd 0 xs ys"
  "hadd 0 (X4 # xs) (XA # ys) = XE # hadd 0 xs ys"
  "hadd 0 (X4 # xs) (XB # ys) = XF # hadd 0 xs ys"
  "hadd 0 (X4 # xs) (XC # ys) = X0 # hadd 1 xs ys"
  "hadd 0 (X4 # xs) (XD # ys) = X1 # hadd 1 xs ys"
  "hadd 0 (X4 # xs) (XE # ys) = X2 # hadd 1 xs ys"
  "hadd 0 (X4 # xs) (XF # ys) = X3 # hadd 1 xs ys"
  by (simp_all add: hadd_eval)

lemma hadd_1_4:
  "hadd 1 (X4 # xs) (X0 # ys) = X5 # hadd 0 xs ys"
  "hadd 1 (X4 # xs) (X1 # ys) = X6 # hadd 0 xs ys"
  "hadd 1 (X4 # xs) (X2 # ys) = X7 # hadd 0 xs ys"
  "hadd 1 (X4 # xs) (X3 # ys) = X8 # hadd 0 xs ys"
  "hadd 1 (X4 # xs) (X4 # ys) = X9 # hadd 0 xs ys"
  "hadd 1 (X4 # xs) (X5 # ys) = XA # hadd 0 xs ys"
  "hadd 1 (X4 # xs) (X6 # ys) = XB # hadd 0 xs ys"
  "hadd 1 (X4 # xs) (X7 # ys) = XC # hadd 0 xs ys"
  "hadd 1 (X4 # xs) (X8 # ys) = XD # hadd 0 xs ys"
  "hadd 1 (X4 # xs) (X9 # ys) = XE # hadd 0 xs ys"
  "hadd 1 (X4 # xs) (XA # ys) = XF # hadd 0 xs ys"
  "hadd 1 (X4 # xs) (XB # ys) = X0 # hadd 1 xs ys"
  "hadd 1 (X4 # xs) (XC # ys) = X1 # hadd 1 xs ys"
  "hadd 1 (X4 # xs) (XD # ys) = X2 # hadd 1 xs ys"
  "hadd 1 (X4 # xs) (XE # ys) = X3 # hadd 1 xs ys"
  "hadd 1 (X4 # xs) (XF # ys) = X4 # hadd 1 xs ys"
  by (simp_all add: hadd_eval)

lemma hadd_0_5:
  "hadd 0 (X5 # xs) (X0 # ys) = X5 # hadd 0 xs ys"
  "hadd 0 (X5 # xs) (X1 # ys) = X6 # hadd 0 xs ys"
  "hadd 0 (X5 # xs) (X2 # ys) = X7 # hadd 0 xs ys"
  "hadd 0 (X5 # xs) (X3 # ys) = X8 # hadd 0 xs ys"
  "hadd 0 (X5 # xs) (X4 # ys) = X9 # hadd 0 xs ys"
  "hadd 0 (X5 # xs) (X5 # ys) = XA # hadd 0 xs ys"
  "hadd 0 (X5 # xs) (X6 # ys) = XB # hadd 0 xs ys"
  "hadd 0 (X5 # xs) (X7 # ys) = XC # hadd 0 xs ys"
  "hadd 0 (X5 # xs) (X8 # ys) = XD # hadd 0 xs ys"
  "hadd 0 (X5 # xs) (X9 # ys) = XE # hadd 0 xs ys"
  "hadd 0 (X5 # xs) (XA # ys) = XF # hadd 0 xs ys"
  "hadd 0 (X5 # xs) (XB # ys) = X0 # hadd 1 xs ys"
  "hadd 0 (X5 # xs) (XC # ys) = X1 # hadd 1 xs ys"
  "hadd 0 (X5 # xs) (XD # ys) = X2 # hadd 1 xs ys"
  "hadd 0 (X5 # xs) (XE # ys) = X3 # hadd 1 xs ys"
  "hadd 0 (X5 # xs) (XF # ys) = X4 # hadd 1 xs ys"
  by (simp_all add: hadd_eval)

lemma hadd_1_5:
  "hadd 1 (X5 # xs) (X0 # ys) = X6 # hadd 0 xs ys"
  "hadd 1 (X5 # xs) (X1 # ys) = X7 # hadd 0 xs ys"
  "hadd 1 (X5 # xs) (X2 # ys) = X8 # hadd 0 xs ys"
  "hadd 1 (X5 # xs) (X3 # ys) = X9 # hadd 0 xs ys"
  "hadd 1 (X5 # xs) (X4 # ys) = XA # hadd 0 xs ys"
  "hadd 1 (X5 # xs) (X5 # ys) = XB # hadd 0 xs ys"
  "hadd 1 (X5 # xs) (X6 # ys) = XC # hadd 0 xs ys"
  "hadd 1 (X5 # xs) (X7 # ys) = XD # hadd 0 xs ys"
  "hadd 1 (X5 # xs) (X8 # ys) = XE # hadd 0 xs ys"
  "hadd 1 (X5 # xs) (X9 # ys) = XF # hadd 0 xs ys"
  "hadd 1 (X5 # xs) (XA # ys) = X0 # hadd 1 xs ys"
  "hadd 1 (X5 # xs) (XB # ys) = X1 # hadd 1 xs ys"
  "hadd 1 (X5 # xs) (XC # ys) = X2 # hadd 1 xs ys"
  "hadd 1 (X5 # xs) (XD # ys) = X3 # hadd 1 xs ys"
  "hadd 1 (X5 # xs) (XE # ys) = X4 # hadd 1 xs ys"
  "hadd 1 (X5 # xs) (XF # ys) = X5 # hadd 1 xs ys"
  by (simp_all add: hadd_eval)

lemma hadd_0_6:
  "hadd 0 (X6 # xs) (X0 # ys) = X6 # hadd 0 xs ys"
  "hadd 0 (X6 # xs) (X1 # ys) = X7 # hadd 0 xs ys"
  "hadd 0 (X6 # xs) (X2 # ys) = X8 # hadd 0 xs ys"
  "hadd 0 (X6 # xs) (X3 # ys) = X9 # hadd 0 xs ys"
  "hadd 0 (X6 # xs) (X4 # ys) = XA # hadd 0 xs ys"
  "hadd 0 (X6 # xs) (X5 # ys) = XB # hadd 0 xs ys"
  "hadd 0 (X6 # xs) (X6 # ys) = XC # hadd 0 xs ys"
  "hadd 0 (X6 # xs) (X7 # ys) = XD # hadd 0 xs ys"
  "hadd 0 (X6 # xs) (X8 # ys) = XE # hadd 0 xs ys"
  "hadd 0 (X6 # xs) (X9 # ys) = XF # hadd 0 xs ys"
  "hadd 0 (X6 # xs) (XA # ys) = X0 # hadd 1 xs ys"
  "hadd 0 (X6 # xs) (XB # ys) = X1 # hadd 1 xs ys"
  "hadd 0 (X6 # xs) (XC # ys) = X2 # hadd 1 xs ys"
  "hadd 0 (X6 # xs) (XD # ys) = X3 # hadd 1 xs ys"
  "hadd 0 (X6 # xs) (XE # ys) = X4 # hadd 1 xs ys"
  "hadd 0 (X6 # xs) (XF # ys) = X5 # hadd 1 xs ys"
  by (simp_all add: hadd_eval)

lemma hadd_1_6:
  "hadd 1 (X6 # xs) (X0 # ys) = X7 # hadd 0 xs ys"
  "hadd 1 (X6 # xs) (X1 # ys) = X8 # hadd 0 xs ys"
  "hadd 1 (X6 # xs) (X2 # ys) = X9 # hadd 0 xs ys"
  "hadd 1 (X6 # xs) (X3 # ys) = XA # hadd 0 xs ys"
  "hadd 1 (X6 # xs) (X4 # ys) = XB # hadd 0 xs ys"
  "hadd 1 (X6 # xs) (X5 # ys) = XC # hadd 0 xs ys"
  "hadd 1 (X6 # xs) (X6 # ys) = XD # hadd 0 xs ys"
  "hadd 1 (X6 # xs) (X7 # ys) = XE # hadd 0 xs ys"
  "hadd 1 (X6 # xs) (X8 # ys) = XF # hadd 0 xs ys"
  "hadd 1 (X6 # xs) (X9 # ys) = X0 # hadd 1 xs ys"
  "hadd 1 (X6 # xs) (XA # ys) = X1 # hadd 1 xs ys"
  "hadd 1 (X6 # xs) (XB # ys) = X2 # hadd 1 xs ys"
  "hadd 1 (X6 # xs) (XC # ys) = X3 # hadd 1 xs ys"
  "hadd 1 (X6 # xs) (XD # ys) = X4 # hadd 1 xs ys"
  "hadd 1 (X6 # xs) (XE # ys) = X5 # hadd 1 xs ys"
  "hadd 1 (X6 # xs) (XF # ys) = X6 # hadd 1 xs ys"
  by (simp_all add: hadd_eval)

lemma hadd_0_7:
  "hadd 0 (X7 # xs) (X0 # ys) = X7 # hadd 0 xs ys"
  "hadd 0 (X7 # xs) (X1 # ys) = X8 # hadd 0 xs ys"
  "hadd 0 (X7 # xs) (X2 # ys) = X9 # hadd 0 xs ys"
  "hadd 0 (X7 # xs) (X3 # ys) = XA # hadd 0 xs ys"
  "hadd 0 (X7 # xs) (X4 # ys) = XB # hadd 0 xs ys"
  "hadd 0 (X7 # xs) (X5 # ys) = XC # hadd 0 xs ys"
  "hadd 0 (X7 # xs) (X6 # ys) = XD # hadd 0 xs ys"
  "hadd 0 (X7 # xs) (X7 # ys) = XE # hadd 0 xs ys"
  "hadd 0 (X7 # xs) (X8 # ys) = XF # hadd 0 xs ys"
  "hadd 0 (X7 # xs) (X9 # ys) = X0 # hadd 1 xs ys"
  "hadd 0 (X7 # xs) (XA # ys) = X1 # hadd 1 xs ys"
  "hadd 0 (X7 # xs) (XB # ys) = X2 # hadd 1 xs ys"
  "hadd 0 (X7 # xs) (XC # ys) = X3 # hadd 1 xs ys"
  "hadd 0 (X7 # xs) (XD # ys) = X4 # hadd 1 xs ys"
  "hadd 0 (X7 # xs) (XE # ys) = X5 # hadd 1 xs ys"
  "hadd 0 (X7 # xs) (XF # ys) = X6 # hadd 1 xs ys"
  by (simp_all add: hadd_eval)

lemma hadd_1_7:
  "hadd 1 (X7 # xs) (X0 # ys) = X8 # hadd 0 xs ys"
  "hadd 1 (X7 # xs) (X1 # ys) = X9 # hadd 0 xs ys"
  "hadd 1 (X7 # xs) (X2 # ys) = XA # hadd 0 xs ys"
  "hadd 1 (X7 # xs) (X3 # ys) = XB # hadd 0 xs ys"
  "hadd 1 (X7 # xs) (X4 # ys) = XC # hadd 0 xs ys"
  "hadd 1 (X7 # xs) (X5 # ys) = XD # hadd 0 xs ys"
  "hadd 1 (X7 # xs) (X6 # ys) = XE # hadd 0 xs ys"
  "hadd 1 (X7 # xs) (X7 # ys) = XF # hadd 0 xs ys"
  "hadd 1 (X7 # xs) (X8 # ys) = X0 # hadd 1 xs ys"
  "hadd 1 (X7 # xs) (X9 # ys) = X1 # hadd 1 xs ys"
  "hadd 1 (X7 # xs) (XA # ys) = X2 # hadd 1 xs ys"
  "hadd 1 (X7 # xs) (XB # ys) = X3 # hadd 1 xs ys"
  "hadd 1 (X7 # xs) (XC # ys) = X4 # hadd 1 xs ys"
  "hadd 1 (X7 # xs) (XD # ys) = X5 # hadd 1 xs ys"
  "hadd 1 (X7 # xs) (XE # ys) = X6 # hadd 1 xs ys"
  "hadd 1 (X7 # xs) (XF # ys) = X7 # hadd 1 xs ys"
  by (simp_all add: hadd_eval)

lemma hadd_0_8:
  "hadd 0 (X8 # xs) (X0 # ys) = X8 # hadd 0 xs ys"
  "hadd 0 (X8 # xs) (X1 # ys) = X9 # hadd 0 xs ys"
  "hadd 0 (X8 # xs) (X2 # ys) = XA # hadd 0 xs ys"
  "hadd 0 (X8 # xs) (X3 # ys) = XB # hadd 0 xs ys"
  "hadd 0 (X8 # xs) (X4 # ys) = XC # hadd 0 xs ys"
  "hadd 0 (X8 # xs) (X5 # ys) = XD # hadd 0 xs ys"
  "hadd 0 (X8 # xs) (X6 # ys) = XE # hadd 0 xs ys"
  "hadd 0 (X8 # xs) (X7 # ys) = XF # hadd 0 xs ys"
  "hadd 0 (X8 # xs) (X8 # ys) = X0 # hadd 1 xs ys"
  "hadd 0 (X8 # xs) (X9 # ys) = X1 # hadd 1 xs ys"
  "hadd 0 (X8 # xs) (XA # ys) = X2 # hadd 1 xs ys"
  "hadd 0 (X8 # xs) (XB # ys) = X3 # hadd 1 xs ys"
  "hadd 0 (X8 # xs) (XC # ys) = X4 # hadd 1 xs ys"
  "hadd 0 (X8 # xs) (XD # ys) = X5 # hadd 1 xs ys"
  "hadd 0 (X8 # xs) (XE # ys) = X6 # hadd 1 xs ys"
  "hadd 0 (X8 # xs) (XF # ys) = X7 # hadd 1 xs ys"
  by (simp_all add: hadd_eval)

lemma hadd_1_8:
  "hadd 1 (X8 # xs) (X0 # ys) = X9 # hadd 0 xs ys"
  "hadd 1 (X8 # xs) (X1 # ys) = XA # hadd 0 xs ys"
  "hadd 1 (X8 # xs) (X2 # ys) = XB # hadd 0 xs ys"
  "hadd 1 (X8 # xs) (X3 # ys) = XC # hadd 0 xs ys"
  "hadd 1 (X8 # xs) (X4 # ys) = XD # hadd 0 xs ys"
  "hadd 1 (X8 # xs) (X5 # ys) = XE # hadd 0 xs ys"
  "hadd 1 (X8 # xs) (X6 # ys) = XF # hadd 0 xs ys"
  "hadd 1 (X8 # xs) (X7 # ys) = X0 # hadd 1 xs ys"
  "hadd 1 (X8 # xs) (X8 # ys) = X1 # hadd 1 xs ys"
  "hadd 1 (X8 # xs) (X9 # ys) = X2 # hadd 1 xs ys"
  "hadd 1 (X8 # xs) (XA # ys) = X3 # hadd 1 xs ys"
  "hadd 1 (X8 # xs) (XB # ys) = X4 # hadd 1 xs ys"
  "hadd 1 (X8 # xs) (XC # ys) = X5 # hadd 1 xs ys"
  "hadd 1 (X8 # xs) (XD # ys) = X6 # hadd 1 xs ys"
  "hadd 1 (X8 # xs) (XE # ys) = X7 # hadd 1 xs ys"
  "hadd 1 (X8 # xs) (XF # ys) = X8 # hadd 1 xs ys"
  by (simp_all add: hadd_eval)

lemma hadd_0_9:
  "hadd 0 (X9 # xs) (X0 # ys) = X9 # hadd 0 xs ys"
  "hadd 0 (X9 # xs) (X1 # ys) = XA # hadd 0 xs ys"
  "hadd 0 (X9 # xs) (X2 # ys) = XB # hadd 0 xs ys"
  "hadd 0 (X9 # xs) (X3 # ys) = XC # hadd 0 xs ys"
  "hadd 0 (X9 # xs) (X4 # ys) = XD # hadd 0 xs ys"
  "hadd 0 (X9 # xs) (X5 # ys) = XE # hadd 0 xs ys"
  "hadd 0 (X9 # xs) (X6 # ys) = XF # hadd 0 xs ys"
  "hadd 0 (X9 # xs) (X7 # ys) = X0 # hadd 1 xs ys"
  "hadd 0 (X9 # xs) (X8 # ys) = X1 # hadd 1 xs ys"
  "hadd 0 (X9 # xs) (X9 # ys) = X2 # hadd 1 xs ys"
  "hadd 0 (X9 # xs) (XA # ys) = X3 # hadd 1 xs ys"
  "hadd 0 (X9 # xs) (XB # ys) = X4 # hadd 1 xs ys"
  "hadd 0 (X9 # xs) (XC # ys) = X5 # hadd 1 xs ys"
  "hadd 0 (X9 # xs) (XD # ys) = X6 # hadd 1 xs ys"
  "hadd 0 (X9 # xs) (XE # ys) = X7 # hadd 1 xs ys"
  "hadd 0 (X9 # xs) (XF # ys) = X8 # hadd 1 xs ys"
  by (simp_all add: hadd_eval)

lemma hadd_1_9:
  "hadd 1 (X9 # xs) (X0 # ys) = XA # hadd 0 xs ys"
  "hadd 1 (X9 # xs) (X1 # ys) = XB # hadd 0 xs ys"
  "hadd 1 (X9 # xs) (X2 # ys) = XC # hadd 0 xs ys"
  "hadd 1 (X9 # xs) (X3 # ys) = XD # hadd 0 xs ys"
  "hadd 1 (X9 # xs) (X4 # ys) = XE # hadd 0 xs ys"
  "hadd 1 (X9 # xs) (X5 # ys) = XF # hadd 0 xs ys"
  "hadd 1 (X9 # xs) (X6 # ys) = X0 # hadd 1 xs ys"
  "hadd 1 (X9 # xs) (X7 # ys) = X1 # hadd 1 xs ys"
  "hadd 1 (X9 # xs) (X8 # ys) = X2 # hadd 1 xs ys"
  "hadd 1 (X9 # xs) (X9 # ys) = X3 # hadd 1 xs ys"
  "hadd 1 (X9 # xs) (XA # ys) = X4 # hadd 1 xs ys"
  "hadd 1 (X9 # xs) (XB # ys) = X5 # hadd 1 xs ys"
  "hadd 1 (X9 # xs) (XC # ys) = X6 # hadd 1 xs ys"
  "hadd 1 (X9 # xs) (XD # ys) = X7 # hadd 1 xs ys"
  "hadd 1 (X9 # xs) (XE # ys) = X8 # hadd 1 xs ys"
  "hadd 1 (X9 # xs) (XF # ys) = X9 # hadd 1 xs ys"
  by (simp_all add: hadd_eval)

lemma hadd_0_A:
  "hadd 0 (XA # xs) (X0 # ys) = XA # hadd 0 xs ys"
  "hadd 0 (XA # xs) (X1 # ys) = XB # hadd 0 xs ys"
  "hadd 0 (XA # xs) (X2 # ys) = XC # hadd 0 xs ys"
  "hadd 0 (XA # xs) (X3 # ys) = XD # hadd 0 xs ys"
  "hadd 0 (XA # xs) (X4 # ys) = XE # hadd 0 xs ys"
  "hadd 0 (XA # xs) (X5 # ys) = XF # hadd 0 xs ys"
  "hadd 0 (XA # xs) (X6 # ys) = X0 # hadd 1 xs ys"
  "hadd 0 (XA # xs) (X7 # ys) = X1 # hadd 1 xs ys"
  "hadd 0 (XA # xs) (X8 # ys) = X2 # hadd 1 xs ys"
  "hadd 0 (XA # xs) (X9 # ys) = X3 # hadd 1 xs ys"
  "hadd 0 (XA # xs) (XA # ys) = X4 # hadd 1 xs ys"
  "hadd 0 (XA # xs) (XB # ys) = X5 # hadd 1 xs ys"
  "hadd 0 (XA # xs) (XC # ys) = X6 # hadd 1 xs ys"
  "hadd 0 (XA # xs) (XD # ys) = X7 # hadd 1 xs ys"
  "hadd 0 (XA # xs) (XE # ys) = X8 # hadd 1 xs ys"
  "hadd 0 (XA # xs) (XF # ys) = X9 # hadd 1 xs ys"
  by (simp_all add: hadd_eval)

lemma hadd_1_A:
  "hadd 1 (XA # xs) (X0 # ys) = XB # hadd 0 xs ys"
  "hadd 1 (XA # xs) (X1 # ys) = XC # hadd 0 xs ys"
  "hadd 1 (XA # xs) (X2 # ys) = XD # hadd 0 xs ys"
  "hadd 1 (XA # xs) (X3 # ys) = XE # hadd 0 xs ys"
  "hadd 1 (XA # xs) (X4 # ys) = XF # hadd 0 xs ys"
  "hadd 1 (XA # xs) (X5 # ys) = X0 # hadd 1 xs ys"
  "hadd 1 (XA # xs) (X6 # ys) = X1 # hadd 1 xs ys"
  "hadd 1 (XA # xs) (X7 # ys) = X2 # hadd 1 xs ys"
  "hadd 1 (XA # xs) (X8 # ys) = X3 # hadd 1 xs ys"
  "hadd 1 (XA # xs) (X9 # ys) = X4 # hadd 1 xs ys"
  "hadd 1 (XA # xs) (XA # ys) = X5 # hadd 1 xs ys"
  "hadd 1 (XA # xs) (XB # ys) = X6 # hadd 1 xs ys"
  "hadd 1 (XA # xs) (XC # ys) = X7 # hadd 1 xs ys"
  "hadd 1 (XA # xs) (XD # ys) = X8 # hadd 1 xs ys"
  "hadd 1 (XA # xs) (XE # ys) = X9 # hadd 1 xs ys"
  "hadd 1 (XA # xs) (XF # ys) = XA # hadd 1 xs ys"
  by (simp_all add: hadd_eval)

lemma hadd_0_B:
  "hadd 0 (XB # xs) (X0 # ys) = XB # hadd 0 xs ys"
  "hadd 0 (XB # xs) (X1 # ys) = XC # hadd 0 xs ys"
  "hadd 0 (XB # xs) (X2 # ys) = XD # hadd 0 xs ys"
  "hadd 0 (XB # xs) (X3 # ys) = XE # hadd 0 xs ys"
  "hadd 0 (XB # xs) (X4 # ys) = XF # hadd 0 xs ys"
  "hadd 0 (XB # xs) (X5 # ys) = X0 # hadd 1 xs ys"
  "hadd 0 (XB # xs) (X6 # ys) = X1 # hadd 1 xs ys"
  "hadd 0 (XB # xs) (X7 # ys) = X2 # hadd 1 xs ys"
  "hadd 0 (XB # xs) (X8 # ys) = X3 # hadd 1 xs ys"
  "hadd 0 (XB # xs) (X9 # ys) = X4 # hadd 1 xs ys"
  "hadd 0 (XB # xs) (XA # ys) = X5 # hadd 1 xs ys"
  "hadd 0 (XB # xs) (XB # ys) = X6 # hadd 1 xs ys"
  "hadd 0 (XB # xs) (XC # ys) = X7 # hadd 1 xs ys"
  "hadd 0 (XB # xs) (XD # ys) = X8 # hadd 1 xs ys"
  "hadd 0 (XB # xs) (XE # ys) = X9 # hadd 1 xs ys"
  "hadd 0 (XB # xs) (XF # ys) = XA # hadd 1 xs ys"
  by (simp_all add: hadd_eval)

lemma hadd_1_B:
  "hadd 1 (XB # xs) (X0 # ys) = XC # hadd 0 xs ys"
  "hadd 1 (XB # xs) (X1 # ys) = XD # hadd 0 xs ys"
  "hadd 1 (XB # xs) (X2 # ys) = XE # hadd 0 xs ys"
  "hadd 1 (XB # xs) (X3 # ys) = XF # hadd 0 xs ys"
  "hadd 1 (XB # xs) (X4 # ys) = X0 # hadd 1 xs ys"
  "hadd 1 (XB # xs) (X5 # ys) = X1 # hadd 1 xs ys"
  "hadd 1 (XB # xs) (X6 # ys) = X2 # hadd 1 xs ys"
  "hadd 1 (XB # xs) (X7 # ys) = X3 # hadd 1 xs ys"
  "hadd 1 (XB # xs) (X8 # ys) = X4 # hadd 1 xs ys"
  "hadd 1 (XB # xs) (X9 # ys) = X5 # hadd 1 xs ys"
  "hadd 1 (XB # xs) (XA # ys) = X6 # hadd 1 xs ys"
  "hadd 1 (XB # xs) (XB # ys) = X7 # hadd 1 xs ys"
  "hadd 1 (XB # xs) (XC # ys) = X8 # hadd 1 xs ys"
  "hadd 1 (XB # xs) (XD # ys) = X9 # hadd 1 xs ys"
  "hadd 1 (XB # xs) (XE # ys) = XA # hadd 1 xs ys"
  "hadd 1 (XB # xs) (XF # ys) = XB # hadd 1 xs ys"
  by (simp_all add: hadd_eval)

lemma hadd_0_C:
  "hadd 0 (XC # xs) (X0 # ys) = XC # hadd 0 xs ys"
  "hadd 0 (XC # xs) (X1 # ys) = XD # hadd 0 xs ys"
  "hadd 0 (XC # xs) (X2 # ys) = XE # hadd 0 xs ys"
  "hadd 0 (XC # xs) (X3 # ys) = XF # hadd 0 xs ys"
  "hadd 0 (XC # xs) (X4 # ys) = X0 # hadd 1 xs ys"
  "hadd 0 (XC # xs) (X5 # ys) = X1 # hadd 1 xs ys"
  "hadd 0 (XC # xs) (X6 # ys) = X2 # hadd 1 xs ys"
  "hadd 0 (XC # xs) (X7 # ys) = X3 # hadd 1 xs ys"
  "hadd 0 (XC # xs) (X8 # ys) = X4 # hadd 1 xs ys"
  "hadd 0 (XC # xs) (X9 # ys) = X5 # hadd 1 xs ys"
  "hadd 0 (XC # xs) (XA # ys) = X6 # hadd 1 xs ys"
  "hadd 0 (XC # xs) (XB # ys) = X7 # hadd 1 xs ys"
  "hadd 0 (XC # xs) (XC # ys) = X8 # hadd 1 xs ys"
  "hadd 0 (XC # xs) (XD # ys) = X9 # hadd 1 xs ys"
  "hadd 0 (XC # xs) (XE # ys) = XA # hadd 1 xs ys"
  "hadd 0 (XC # xs) (XF # ys) = XB # hadd 1 xs ys"
  by (simp_all add: hadd_eval)

lemma hadd_1_C:
  "hadd 1 (XC # xs) (X0 # ys) = XD # hadd 0 xs ys"
  "hadd 1 (XC # xs) (X1 # ys) = XE # hadd 0 xs ys"
  "hadd 1 (XC # xs) (X2 # ys) = XF # hadd 0 xs ys"
  "hadd 1 (XC # xs) (X3 # ys) = X0 # hadd 1 xs ys"
  "hadd 1 (XC # xs) (X4 # ys) = X1 # hadd 1 xs ys"
  "hadd 1 (XC # xs) (X5 # ys) = X2 # hadd 1 xs ys"
  "hadd 1 (XC # xs) (X6 # ys) = X3 # hadd 1 xs ys"
  "hadd 1 (XC # xs) (X7 # ys) = X4 # hadd 1 xs ys"
  "hadd 1 (XC # xs) (X8 # ys) = X5 # hadd 1 xs ys"
  "hadd 1 (XC # xs) (X9 # ys) = X6 # hadd 1 xs ys"
  "hadd 1 (XC # xs) (XA # ys) = X7 # hadd 1 xs ys"
  "hadd 1 (XC # xs) (XB # ys) = X8 # hadd 1 xs ys"
  "hadd 1 (XC # xs) (XC # ys) = X9 # hadd 1 xs ys"
  "hadd 1 (XC # xs) (XD # ys) = XA # hadd 1 xs ys"
  "hadd 1 (XC # xs) (XE # ys) = XB # hadd 1 xs ys"
  "hadd 1 (XC # xs) (XF # ys) = XC # hadd 1 xs ys"
  by (simp_all add: hadd_eval)

lemma hadd_0_D:
  "hadd 0 (XD # xs) (X0 # ys) = XD # hadd 0 xs ys"
  "hadd 0 (XD # xs) (X1 # ys) = XE # hadd 0 xs ys"
  "hadd 0 (XD # xs) (X2 # ys) = XF # hadd 0 xs ys"
  "hadd 0 (XD # xs) (X3 # ys) = X0 # hadd 1 xs ys"
  "hadd 0 (XD # xs) (X4 # ys) = X1 # hadd 1 xs ys"
  "hadd 0 (XD # xs) (X5 # ys) = X2 # hadd 1 xs ys"
  "hadd 0 (XD # xs) (X6 # ys) = X3 # hadd 1 xs ys"
  "hadd 0 (XD # xs) (X7 # ys) = X4 # hadd 1 xs ys"
  "hadd 0 (XD # xs) (X8 # ys) = X5 # hadd 1 xs ys"
  "hadd 0 (XD # xs) (X9 # ys) = X6 # hadd 1 xs ys"
  "hadd 0 (XD # xs) (XA # ys) = X7 # hadd 1 xs ys"
  "hadd 0 (XD # xs) (XB # ys) = X8 # hadd 1 xs ys"
  "hadd 0 (XD # xs) (XC # ys) = X9 # hadd 1 xs ys"
  "hadd 0 (XD # xs) (XD # ys) = XA # hadd 1 xs ys"
  "hadd 0 (XD # xs) (XE # ys) = XB # hadd 1 xs ys"
  "hadd 0 (XD # xs) (XF # ys) = XC # hadd 1 xs ys"
  by (simp_all add: hadd_eval)

lemma hadd_1_D:
  "hadd 1 (XD # xs) (X0 # ys) = XE # hadd 0 xs ys"
  "hadd 1 (XD # xs) (X1 # ys) = XF # hadd 0 xs ys"
  "hadd 1 (XD # xs) (X2 # ys) = X0 # hadd 1 xs ys"
  "hadd 1 (XD # xs) (X3 # ys) = X1 # hadd 1 xs ys"
  "hadd 1 (XD # xs) (X4 # ys) = X2 # hadd 1 xs ys"
  "hadd 1 (XD # xs) (X5 # ys) = X3 # hadd 1 xs ys"
  "hadd 1 (XD # xs) (X6 # ys) = X4 # hadd 1 xs ys"
  "hadd 1 (XD # xs) (X7 # ys) = X5 # hadd 1 xs ys"
  "hadd 1 (XD # xs) (X8 # ys) = X6 # hadd 1 xs ys"
  "hadd 1 (XD # xs) (X9 # ys) = X7 # hadd 1 xs ys"
  "hadd 1 (XD # xs) (XA # ys) = X8 # hadd 1 xs ys"
  "hadd 1 (XD # xs) (XB # ys) = X9 # hadd 1 xs ys"
  "hadd 1 (XD # xs) (XC # ys) = XA # hadd 1 xs ys"
  "hadd 1 (XD # xs) (XD # ys) = XB # hadd 1 xs ys"
  "hadd 1 (XD # xs) (XE # ys) = XC # hadd 1 xs ys"
  "hadd 1 (XD # xs) (XF # ys) = XD # hadd 1 xs ys"
  by (simp_all add: hadd_eval)

lemma hadd_0_E:
  "hadd 0 (XE # xs) (X0 # ys) = XE # hadd 0 xs ys"
  "hadd 0 (XE # xs) (X1 # ys) = XF # hadd 0 xs ys"
  "hadd 0 (XE # xs) (X2 # ys) = X0 # hadd 1 xs ys"
  "hadd 0 (XE # xs) (X3 # ys) = X1 # hadd 1 xs ys"
  "hadd 0 (XE # xs) (X4 # ys) = X2 # hadd 1 xs ys"
  "hadd 0 (XE # xs) (X5 # ys) = X3 # hadd 1 xs ys"
  "hadd 0 (XE # xs) (X6 # ys) = X4 # hadd 1 xs ys"
  "hadd 0 (XE # xs) (X7 # ys) = X5 # hadd 1 xs ys"
  "hadd 0 (XE # xs) (X8 # ys) = X6 # hadd 1 xs ys"
  "hadd 0 (XE # xs) (X9 # ys) = X7 # hadd 1 xs ys"
  "hadd 0 (XE # xs) (XA # ys) = X8 # hadd 1 xs ys"
  "hadd 0 (XE # xs) (XB # ys) = X9 # hadd 1 xs ys"
  "hadd 0 (XE # xs) (XC # ys) = XA # hadd 1 xs ys"
  "hadd 0 (XE # xs) (XD # ys) = XB # hadd 1 xs ys"
  "hadd 0 (XE # xs) (XE # ys) = XC # hadd 1 xs ys"
  "hadd 0 (XE # xs) (XF # ys) = XD # hadd 1 xs ys"
  by (simp_all add: hadd_eval)

lemma hadd_1_E:
  "hadd 1 (XE # xs) (X0 # ys) = XF # hadd 0 xs ys"
  "hadd 1 (XE # xs) (X1 # ys) = X0 # hadd 1 xs ys"
  "hadd 1 (XE # xs) (X2 # ys) = X1 # hadd 1 xs ys"
  "hadd 1 (XE # xs) (X3 # ys) = X2 # hadd 1 xs ys"
  "hadd 1 (XE # xs) (X4 # ys) = X3 # hadd 1 xs ys"
  "hadd 1 (XE # xs) (X5 # ys) = X4 # hadd 1 xs ys"
  "hadd 1 (XE # xs) (X6 # ys) = X5 # hadd 1 xs ys"
  "hadd 1 (XE # xs) (X7 # ys) = X6 # hadd 1 xs ys"
  "hadd 1 (XE # xs) (X8 # ys) = X7 # hadd 1 xs ys"
  "hadd 1 (XE # xs) (X9 # ys) = X8 # hadd 1 xs ys"
  "hadd 1 (XE # xs) (XA # ys) = X9 # hadd 1 xs ys"
  "hadd 1 (XE # xs) (XB # ys) = XA # hadd 1 xs ys"
  "hadd 1 (XE # xs) (XC # ys) = XB # hadd 1 xs ys"
  "hadd 1 (XE # xs) (XD # ys) = XC # hadd 1 xs ys"
  "hadd 1 (XE # xs) (XE # ys) = XD # hadd 1 xs ys"
  "hadd 1 (XE # xs) (XF # ys) = XE # hadd 1 xs ys"
  by (simp_all add: hadd_eval)

lemma hadd_0_F:
  "hadd 0 (XF # xs) (X0 # ys) = XF # hadd 0 xs ys"
  "hadd 0 (XF # xs) (X1 # ys) = X0 # hadd 1 xs ys"
  "hadd 0 (XF # xs) (X2 # ys) = X1 # hadd 1 xs ys"
  "hadd 0 (XF # xs) (X3 # ys) = X2 # hadd 1 xs ys"
  "hadd 0 (XF # xs) (X4 # ys) = X3 # hadd 1 xs ys"
  "hadd 0 (XF # xs) (X5 # ys) = X4 # hadd 1 xs ys"
  "hadd 0 (XF # xs) (X6 # ys) = X5 # hadd 1 xs ys"
  "hadd 0 (XF # xs) (X7 # ys) = X6 # hadd 1 xs ys"
  "hadd 0 (XF # xs) (X8 # ys) = X7 # hadd 1 xs ys"
  "hadd 0 (XF # xs) (X9 # ys) = X8 # hadd 1 xs ys"
  "hadd 0 (XF # xs) (XA # ys) = X9 # hadd 1 xs ys"
  "hadd 0 (XF # xs) (XB # ys) = XA # hadd 1 xs ys"
  "hadd 0 (XF # xs) (XC # ys) = XB # hadd 1 xs ys"
  "hadd 0 (XF # xs) (XD # ys) = XC # hadd 1 xs ys"
  "hadd 0 (XF # xs) (XE # ys) = XD # hadd 1 xs ys"
  "hadd 0 (XF # xs) (XF # ys) = XE # hadd 1 xs ys"
  by (simp_all add: hadd_eval)

lemma hadd_1_F:
  "hadd 1 (XF # xs) (X0 # ys) = X0 # hadd 1 xs ys"
  "hadd 1 (XF # xs) (X1 # ys) = X1 # hadd 1 xs ys"
  "hadd 1 (XF # xs) (X2 # ys) = X2 # hadd 1 xs ys"
  "hadd 1 (XF # xs) (X3 # ys) = X3 # hadd 1 xs ys"
  "hadd 1 (XF # xs) (X4 # ys) = X4 # hadd 1 xs ys"
  "hadd 1 (XF # xs) (X5 # ys) = X5 # hadd 1 xs ys"
  "hadd 1 (XF # xs) (X6 # ys) = X6 # hadd 1 xs ys"
  "hadd 1 (XF # xs) (X7 # ys) = X7 # hadd 1 xs ys"
  "hadd 1 (XF # xs) (X8 # ys) = X8 # hadd 1 xs ys"
  "hadd 1 (XF # xs) (X9 # ys) = X9 # hadd 1 xs ys"
  "hadd 1 (XF # xs) (XA # ys) = XA # hadd 1 xs ys"
  "hadd 1 (XF # xs) (XB # ys) = XB # hadd 1 xs ys"
  "hadd 1 (XF # xs) (XC # ys) = XC # hadd 1 xs ys"
  "hadd 1 (XF # xs) (XD # ys) = XD # hadd 1 xs ys"
  "hadd 1 (XF # xs) (XE # ys) = XE # hadd 1 xs ys"
  "hadd 1 (XF # xs) (XF # ys) = XF # hadd 1 xs ys"
  by (simp_all add: hadd_eval)

lemma hadd_1_nil:
  "hadd 1 (X0 # xs) [] = X1 # hadd 0 xs []"
  "hadd 1 [] (X0 # xs) = X1 # hadd 0 [] xs"
  "hadd 1 (X1 # xs) [] = X2 # hadd 0 xs []"
  "hadd 1 [] (X1 # xs) = X2 # hadd 0 [] xs"
  "hadd 1 (X2 # xs) [] = X3 # hadd 0 xs []"
  "hadd 1 [] (X2 # xs) = X3 # hadd 0 [] xs"
  "hadd 1 (X3 # xs) [] = X4 # hadd 0 xs []"
  "hadd 1 [] (X3 # xs) = X4 # hadd 0 [] xs"
  "hadd 1 (X4 # xs) [] = X5 # hadd 0 xs []"
  "hadd 1 [] (X4 # xs) = X5 # hadd 0 [] xs"
  "hadd 1 (X5 # xs) [] = X6 # hadd 0 xs []"
  "hadd 1 [] (X5 # xs) = X6 # hadd 0 [] xs"
  "hadd 1 (X6 # xs) [] = X7 # hadd 0 xs []"
  "hadd 1 [] (X6 # xs) = X7 # hadd 0 [] xs"
  "hadd 1 (X7 # xs) [] = X8 # hadd 0 xs []"
  "hadd 1 [] (X7 # xs) = X8 # hadd 0 [] xs"
  "hadd 1 (X8 # xs) [] = X9 # hadd 0 xs []"
  "hadd 1 [] (X8 # xs) = X9 # hadd 0 [] xs"
  "hadd 1 (X9 # xs) [] = XA # hadd 0 xs []"
  "hadd 1 [] (X9 # xs) = XA # hadd 0 [] xs"
  "hadd 1 (XA # xs) [] = XB # hadd 0 xs []"
  "hadd 1 [] (XA # xs) = XB # hadd 0 [] xs"
  "hadd 1 (XB # xs) [] = XC # hadd 0 xs []"
  "hadd 1 [] (XB # xs) = XC # hadd 0 [] xs"
  "hadd 1 (XC # xs) [] = XD # hadd 0 xs []"
  "hadd 1 [] (XC # xs) = XD # hadd 0 [] xs"
  "hadd 1 (XD # xs) [] = XE # hadd 0 xs []"
  "hadd 1 [] (XD # xs) = XE # hadd 0 [] xs"
  "hadd 1 (XE # xs) [] = XF # hadd 0 xs []"
  "hadd 1 [] (XE # xs) = XF # hadd 0 [] xs"
  "hadd 1 (XF # xs) [] = X0 # hadd 1 xs []"
  "hadd 1 [] (XF # xs) = X0 # hadd 1 [] xs"
  "hadd 1 [] [] = [X1]"
  by (simp_all add: hadd_eval)

lemmas hadd_rules = hadd_nil hadd_1_nil
  hadd_0_0 hadd_1_0
  hadd_0_1 hadd_1_1
  hadd_0_2 hadd_1_2
  hadd_0_3 hadd_1_3
  hadd_0_4 hadd_1_4
  hadd_0_5 hadd_1_5
  hadd_0_6 hadd_1_6
  hadd_0_7 hadd_1_7
  hadd_0_8 hadd_1_8
  hadd_0_9 hadd_1_9
  hadd_0_A hadd_1_A
  hadd_0_B hadd_1_B
  hadd_0_C hadd_1_C
  hadd_0_D hadd_1_D
  hadd_0_E hadd_1_E
  hadd_0_F hadd_1_F

section \<open>Multiplication\<close>

text \<open>\<open>ms\<close> holds the sixteen multiples of the first factor.\<close>

fun hmulr :: "hx list list \<Rightarrow> hx list \<Rightarrow> hx list" where
  "hmulr ms [] = []"
| "hmulr ms (y # ys) = hadd 0 (ms ! nat (hxv y)) (X0 # hmulr ms ys)"

fun hgrow :: "nat \<Rightarrow> hx list \<Rightarrow> hx list list \<Rightarrow> hx list list" where
  "hgrow 0 xs ms = ms"
| "hgrow (Suc n) xs ms = hgrow n xs (ms @ [hadd 0 xs (last ms)])"

definition hmt :: "hx list \<Rightarrow> hx list list \<Rightarrow> hx list \<Rightarrow> hx list" where
  "hmt xs ms ys = hmulr (hgrow (16 - length ms) xs ms) ys"

definition hmult :: "hx list \<Rightarrow> hx list \<Rightarrow> hx list" where
  "hmult xs ys = hmt xs [[], xs] ys"

lemma hv_hmulr:
  assumes "\<forall>k<16. hv (ms ! k) = int k * m"
  shows "hv (hmulr ms ys) = m * hv ys"
proof (induction ys)
  case (Cons y ys)
  have "nat (hxv y) < 16" "int (nat (hxv y)) = hxv y"
    using hxv_range [of y] by linarith+
  then show ?case
    using assms Cons by (simp add: hv_hadd algebra_simps)
qed simp

lemma hgrow_multiples:
  assumes "ms \<noteq> []" "\<forall>k<length ms. hv (ms ! k) = int k * hv xs"
  shows "\<forall>k<length ms + n. hv (hgrow n xs ms ! k) = int k * hv xs"
  using assms
proof (induction n arbitrary: ms)
  case (Suc n)
  have "last ms = ms ! (length ms - 1)" "length ms - 1 < length ms" "int (length ms - 1) = int (length ms) - 1"
    using Suc(2) by (simp_all add: last_conv_nth Suc_leI of_nat_diff)
  then have "hv (last ms) = (int (length ms) - 1) * hv xs"
    using Suc(3) by metis
  then have "hv (hadd 0 xs (last ms)) = int (length ms) * hv xs"
    by (simp add: hv_hadd algebra_simps)
  then have "\<forall>k<length (ms @ [hadd 0 xs (last ms)]). hv ((ms @ [hadd 0 xs (last ms)]) ! k) = int k * hv xs"
    using Suc(3) by (auto simp: nth_append less_Suc_eq)
  from Suc(1) [OF _ this] show ?case
    by simp
qed simp

lemma hv_hmult: "hv (hmult xs ys) = hv xs * hv ys"
proof -
  have "\<forall>k<length [[], xs]. hv ([[], xs] ! k) = int k * hv xs"
    by (auto simp: less_Suc_eq)
  from hgrow_multiples [OF _ this, of 14] show ?thesis
    unfolding hmult_def hmt_def by (intro hv_hmulr) simp
qed

lemma hmt_rules:
  "hmt xs [m0, m1] ys = hmt xs [m0, m1, hadd 0 xs m1] ys"
  "hmt xs [m0, m1, m2] ys = hmt xs [m0, m1, m2, hadd 0 xs m2] ys"
  "hmt xs [m0, m1, m2, m3] ys = hmt xs [m0, m1, m2, m3, hadd 0 xs m3] ys"
  "hmt xs [m0, m1, m2, m3, m4] ys = hmt xs [m0, m1, m2, m3, m4, hadd 0 xs m4] ys"
  "hmt xs [m0, m1, m2, m3, m4, m5] ys = hmt xs [m0, m1, m2, m3, m4, m5, hadd 0 xs m5] ys"
  "hmt xs [m0, m1, m2, m3, m4, m5, m6] ys = hmt xs [m0, m1, m2, m3, m4, m5, m6, hadd 0 xs m6] ys"
  "hmt xs [m0, m1, m2, m3, m4, m5, m6, m7] ys = hmt xs [m0, m1, m2, m3, m4, m5, m6, m7, hadd 0 xs m7] ys"
  "hmt xs [m0, m1, m2, m3, m4, m5, m6, m7, m8] ys = hmt xs [m0, m1, m2, m3, m4, m5, m6, m7, m8, hadd 0 xs m8] ys"
  "hmt xs [m0, m1, m2, m3, m4, m5, m6, m7, m8, m9] ys = hmt xs [m0, m1, m2, m3, m4, m5, m6, m7, m8, m9, hadd 0 xs m9] ys"
  "hmt xs [m0, m1, m2, m3, m4, m5, m6, m7, m8, m9, m10] ys = hmt xs [m0, m1, m2, m3, m4, m5, m6, m7, m8, m9, m10, hadd 0 xs m10] ys"
  "hmt xs [m0, m1, m2, m3, m4, m5, m6, m7, m8, m9, m10, m11] ys = hmt xs [m0, m1, m2, m3, m4, m5, m6, m7, m8, m9, m10, m11, hadd 0 xs m11] ys"
  "hmt xs [m0, m1, m2, m3, m4, m5, m6, m7, m8, m9, m10, m11, m12] ys = hmt xs [m0, m1, m2, m3, m4, m5, m6, m7, m8, m9, m10, m11, m12, hadd 0 xs m12] ys"
  "hmt xs [m0, m1, m2, m3, m4, m5, m6, m7, m8, m9, m10, m11, m12, m13] ys = hmt xs [m0, m1, m2, m3, m4, m5, m6, m7, m8, m9, m10, m11, m12, m13, hadd 0 xs m13] ys"
  "hmt xs [m0, m1, m2, m3, m4, m5, m6, m7, m8, m9, m10, m11, m12, m13, m14] ys = hmt xs [m0, m1, m2, m3, m4, m5, m6, m7, m8, m9, m10, m11, m12, m13, m14, hadd 0 xs m14] ys"
  by (simp_all add: hmt_def numeral_eq_Suc)

lemma hmt_digit:
  "hmt xs [m0, m1, m2, m3, m4, m5, m6, m7, m8, m9, m10, m11, m12, m13, m14, m15] [] = []"
  "hmt xs [m0, m1, m2, m3, m4, m5, m6, m7, m8, m9, m10, m11, m12, m13, m14, m15] (X0 # ys) = hadd 0 m0 (X0 # hmt xs [m0, m1, m2, m3, m4, m5, m6, m7, m8, m9, m10, m11, m12, m13, m14, m15] ys)"
  "hmt xs [m0, m1, m2, m3, m4, m5, m6, m7, m8, m9, m10, m11, m12, m13, m14, m15] (X1 # ys) = hadd 0 m1 (X0 # hmt xs [m0, m1, m2, m3, m4, m5, m6, m7, m8, m9, m10, m11, m12, m13, m14, m15] ys)"
  "hmt xs [m0, m1, m2, m3, m4, m5, m6, m7, m8, m9, m10, m11, m12, m13, m14, m15] (X2 # ys) = hadd 0 m2 (X0 # hmt xs [m0, m1, m2, m3, m4, m5, m6, m7, m8, m9, m10, m11, m12, m13, m14, m15] ys)"
  "hmt xs [m0, m1, m2, m3, m4, m5, m6, m7, m8, m9, m10, m11, m12, m13, m14, m15] (X3 # ys) = hadd 0 m3 (X0 # hmt xs [m0, m1, m2, m3, m4, m5, m6, m7, m8, m9, m10, m11, m12, m13, m14, m15] ys)"
  "hmt xs [m0, m1, m2, m3, m4, m5, m6, m7, m8, m9, m10, m11, m12, m13, m14, m15] (X4 # ys) = hadd 0 m4 (X0 # hmt xs [m0, m1, m2, m3, m4, m5, m6, m7, m8, m9, m10, m11, m12, m13, m14, m15] ys)"
  "hmt xs [m0, m1, m2, m3, m4, m5, m6, m7, m8, m9, m10, m11, m12, m13, m14, m15] (X5 # ys) = hadd 0 m5 (X0 # hmt xs [m0, m1, m2, m3, m4, m5, m6, m7, m8, m9, m10, m11, m12, m13, m14, m15] ys)"
  "hmt xs [m0, m1, m2, m3, m4, m5, m6, m7, m8, m9, m10, m11, m12, m13, m14, m15] (X6 # ys) = hadd 0 m6 (X0 # hmt xs [m0, m1, m2, m3, m4, m5, m6, m7, m8, m9, m10, m11, m12, m13, m14, m15] ys)"
  "hmt xs [m0, m1, m2, m3, m4, m5, m6, m7, m8, m9, m10, m11, m12, m13, m14, m15] (X7 # ys) = hadd 0 m7 (X0 # hmt xs [m0, m1, m2, m3, m4, m5, m6, m7, m8, m9, m10, m11, m12, m13, m14, m15] ys)"
  "hmt xs [m0, m1, m2, m3, m4, m5, m6, m7, m8, m9, m10, m11, m12, m13, m14, m15] (X8 # ys) = hadd 0 m8 (X0 # hmt xs [m0, m1, m2, m3, m4, m5, m6, m7, m8, m9, m10, m11, m12, m13, m14, m15] ys)"
  "hmt xs [m0, m1, m2, m3, m4, m5, m6, m7, m8, m9, m10, m11, m12, m13, m14, m15] (X9 # ys) = hadd 0 m9 (X0 # hmt xs [m0, m1, m2, m3, m4, m5, m6, m7, m8, m9, m10, m11, m12, m13, m14, m15] ys)"
  "hmt xs [m0, m1, m2, m3, m4, m5, m6, m7, m8, m9, m10, m11, m12, m13, m14, m15] (XA # ys) = hadd 0 m10 (X0 # hmt xs [m0, m1, m2, m3, m4, m5, m6, m7, m8, m9, m10, m11, m12, m13, m14, m15] ys)"
  "hmt xs [m0, m1, m2, m3, m4, m5, m6, m7, m8, m9, m10, m11, m12, m13, m14, m15] (XB # ys) = hadd 0 m11 (X0 # hmt xs [m0, m1, m2, m3, m4, m5, m6, m7, m8, m9, m10, m11, m12, m13, m14, m15] ys)"
  "hmt xs [m0, m1, m2, m3, m4, m5, m6, m7, m8, m9, m10, m11, m12, m13, m14, m15] (XC # ys) = hadd 0 m12 (X0 # hmt xs [m0, m1, m2, m3, m4, m5, m6, m7, m8, m9, m10, m11, m12, m13, m14, m15] ys)"
  "hmt xs [m0, m1, m2, m3, m4, m5, m6, m7, m8, m9, m10, m11, m12, m13, m14, m15] (XD # ys) = hadd 0 m13 (X0 # hmt xs [m0, m1, m2, m3, m4, m5, m6, m7, m8, m9, m10, m11, m12, m13, m14, m15] ys)"
  "hmt xs [m0, m1, m2, m3, m4, m5, m6, m7, m8, m9, m10, m11, m12, m13, m14, m15] (XE # ys) = hadd 0 m14 (X0 # hmt xs [m0, m1, m2, m3, m4, m5, m6, m7, m8, m9, m10, m11, m12, m13, m14, m15] ys)"
  "hmt xs [m0, m1, m2, m3, m4, m5, m6, m7, m8, m9, m10, m11, m12, m13, m14, m15] (XF # ys) = hadd 0 m15 (X0 # hmt xs [m0, m1, m2, m3, m4, m5, m6, m7, m8, m9, m10, m11, m12, m13, m14, m15] ys)"
  by (simp_all add: hmt_def nth_Cons')

section \<open>Literals\<close>

text \<open>The digits of a literal, and equality of numbers with leading zeros.\<close>

definition hexn :: "num \<Rightarrow> hx list \<Rightarrow> bool" where
  "hexn n xs \<longleftrightarrow> hv xs = numeral n"

fun hx_num :: "num \<Rightarrow> hx list" where

  "hx_num num.One = [X1]"
| "hx_num (num.Bit0 num.One) = [X2]"
| "hx_num (num.Bit1 num.One) = [X3]"
| "hx_num (num.Bit0 (num.Bit0 num.One)) = [X4]"
| "hx_num (num.Bit1 (num.Bit0 num.One)) = [X5]"
| "hx_num (num.Bit0 (num.Bit1 num.One)) = [X6]"
| "hx_num (num.Bit1 (num.Bit1 num.One)) = [X7]"
| "hx_num (num.Bit0 (num.Bit0 (num.Bit0 num.One))) = [X8]"
| "hx_num (num.Bit1 (num.Bit0 (num.Bit0 num.One))) = [X9]"
| "hx_num (num.Bit0 (num.Bit1 (num.Bit0 num.One))) = [XA]"
| "hx_num (num.Bit1 (num.Bit1 (num.Bit0 num.One))) = [XB]"
| "hx_num (num.Bit0 (num.Bit0 (num.Bit1 num.One))) = [XC]"
| "hx_num (num.Bit1 (num.Bit0 (num.Bit1 num.One))) = [XD]"
| "hx_num (num.Bit0 (num.Bit1 (num.Bit1 num.One))) = [XE]"
| "hx_num (num.Bit1 (num.Bit1 (num.Bit1 num.One))) = [XF]"
| "hx_num (num.Bit0 (num.Bit0 (num.Bit0 (num.Bit0 n)))) = X0 # hx_num n"
| "hx_num (num.Bit1 (num.Bit0 (num.Bit0 (num.Bit0 n)))) = X1 # hx_num n"
| "hx_num (num.Bit0 (num.Bit1 (num.Bit0 (num.Bit0 n)))) = X2 # hx_num n"
| "hx_num (num.Bit1 (num.Bit1 (num.Bit0 (num.Bit0 n)))) = X3 # hx_num n"
| "hx_num (num.Bit0 (num.Bit0 (num.Bit1 (num.Bit0 n)))) = X4 # hx_num n"
| "hx_num (num.Bit1 (num.Bit0 (num.Bit1 (num.Bit0 n)))) = X5 # hx_num n"
| "hx_num (num.Bit0 (num.Bit1 (num.Bit1 (num.Bit0 n)))) = X6 # hx_num n"
| "hx_num (num.Bit1 (num.Bit1 (num.Bit1 (num.Bit0 n)))) = X7 # hx_num n"
| "hx_num (num.Bit0 (num.Bit0 (num.Bit0 (num.Bit1 n)))) = X8 # hx_num n"
| "hx_num (num.Bit1 (num.Bit0 (num.Bit0 (num.Bit1 n)))) = X9 # hx_num n"
| "hx_num (num.Bit0 (num.Bit1 (num.Bit0 (num.Bit1 n)))) = XA # hx_num n"
| "hx_num (num.Bit1 (num.Bit1 (num.Bit0 (num.Bit1 n)))) = XB # hx_num n"
| "hx_num (num.Bit0 (num.Bit0 (num.Bit1 (num.Bit1 n)))) = XC # hx_num n"
| "hx_num (num.Bit1 (num.Bit0 (num.Bit1 (num.Bit1 n)))) = XD # hx_num n"
| "hx_num (num.Bit0 (num.Bit1 (num.Bit1 (num.Bit1 n)))) = XE # hx_num n"
| "hx_num (num.Bit1 (num.Bit1 (num.Bit1 (num.Bit1 n)))) = XF # hx_num n"

lemma hv_hx_num: "hv (hx_num n) = numeral n"
  by (induction n rule: hx_num.induct) (simp_all add: num_eq_iff nat_of_num_mult nat_of_num_add)

fun heq :: "hx list \<Rightarrow> hx list \<Rightarrow> bool" where
  "heq (x # xs) (y # ys) \<longleftrightarrow> x = y \<and> heq xs ys"
| "heq [] (y # ys) \<longleftrightarrow> y = X0 \<and> heq [] ys"
| "heq (x # xs) [] \<longleftrightarrow> x = X0 \<and> heq xs []"
| "heq [] [] \<longleftrightarrow> True"

lemma heq_hv: "heq xs ys \<Longrightarrow> hv xs = hv ys"
  by (induction xs ys rule: heq.induct) simp_all

lemma heq_same: "heq (x # xs) (x # ys) \<longleftrightarrow> heq xs ys"
  by simp

lemma heq_nil: "heq [] (X0 # ys) \<longleftrightarrow> heq [] ys" "heq (X0 # xs) [] \<longleftrightarrow> heq xs []" "heq [] [] \<longleftrightarrow> True"
  by simp_all

lemma heq_distinct:
  "heq (X0 # xs) (X1 # ys) \<longleftrightarrow> False"
  "heq (X0 # xs) (X2 # ys) \<longleftrightarrow> False"
  "heq (X0 # xs) (X3 # ys) \<longleftrightarrow> False"
  "heq (X0 # xs) (X4 # ys) \<longleftrightarrow> False"
  "heq (X0 # xs) (X5 # ys) \<longleftrightarrow> False"
  "heq (X0 # xs) (X6 # ys) \<longleftrightarrow> False"
  "heq (X0 # xs) (X7 # ys) \<longleftrightarrow> False"
  "heq (X0 # xs) (X8 # ys) \<longleftrightarrow> False"
  "heq (X0 # xs) (X9 # ys) \<longleftrightarrow> False"
  "heq (X0 # xs) (XA # ys) \<longleftrightarrow> False"
  "heq (X0 # xs) (XB # ys) \<longleftrightarrow> False"
  "heq (X0 # xs) (XC # ys) \<longleftrightarrow> False"
  "heq (X0 # xs) (XD # ys) \<longleftrightarrow> False"
  "heq (X0 # xs) (XE # ys) \<longleftrightarrow> False"
  "heq (X0 # xs) (XF # ys) \<longleftrightarrow> False"
  "heq (X1 # xs) (X0 # ys) \<longleftrightarrow> False"
  "heq (X1 # xs) (X2 # ys) \<longleftrightarrow> False"
  "heq (X1 # xs) (X3 # ys) \<longleftrightarrow> False"
  "heq (X1 # xs) (X4 # ys) \<longleftrightarrow> False"
  "heq (X1 # xs) (X5 # ys) \<longleftrightarrow> False"
  "heq (X1 # xs) (X6 # ys) \<longleftrightarrow> False"
  "heq (X1 # xs) (X7 # ys) \<longleftrightarrow> False"
  "heq (X1 # xs) (X8 # ys) \<longleftrightarrow> False"
  "heq (X1 # xs) (X9 # ys) \<longleftrightarrow> False"
  "heq (X1 # xs) (XA # ys) \<longleftrightarrow> False"
  "heq (X1 # xs) (XB # ys) \<longleftrightarrow> False"
  "heq (X1 # xs) (XC # ys) \<longleftrightarrow> False"
  "heq (X1 # xs) (XD # ys) \<longleftrightarrow> False"
  "heq (X1 # xs) (XE # ys) \<longleftrightarrow> False"
  "heq (X1 # xs) (XF # ys) \<longleftrightarrow> False"
  "heq (X2 # xs) (X0 # ys) \<longleftrightarrow> False"
  "heq (X2 # xs) (X1 # ys) \<longleftrightarrow> False"
  "heq (X2 # xs) (X3 # ys) \<longleftrightarrow> False"
  "heq (X2 # xs) (X4 # ys) \<longleftrightarrow> False"
  "heq (X2 # xs) (X5 # ys) \<longleftrightarrow> False"
  "heq (X2 # xs) (X6 # ys) \<longleftrightarrow> False"
  "heq (X2 # xs) (X7 # ys) \<longleftrightarrow> False"
  "heq (X2 # xs) (X8 # ys) \<longleftrightarrow> False"
  "heq (X2 # xs) (X9 # ys) \<longleftrightarrow> False"
  "heq (X2 # xs) (XA # ys) \<longleftrightarrow> False"
  "heq (X2 # xs) (XB # ys) \<longleftrightarrow> False"
  "heq (X2 # xs) (XC # ys) \<longleftrightarrow> False"
  "heq (X2 # xs) (XD # ys) \<longleftrightarrow> False"
  "heq (X2 # xs) (XE # ys) \<longleftrightarrow> False"
  "heq (X2 # xs) (XF # ys) \<longleftrightarrow> False"
  "heq (X3 # xs) (X0 # ys) \<longleftrightarrow> False"
  "heq (X3 # xs) (X1 # ys) \<longleftrightarrow> False"
  "heq (X3 # xs) (X2 # ys) \<longleftrightarrow> False"
  "heq (X3 # xs) (X4 # ys) \<longleftrightarrow> False"
  "heq (X3 # xs) (X5 # ys) \<longleftrightarrow> False"
  "heq (X3 # xs) (X6 # ys) \<longleftrightarrow> False"
  "heq (X3 # xs) (X7 # ys) \<longleftrightarrow> False"
  "heq (X3 # xs) (X8 # ys) \<longleftrightarrow> False"
  "heq (X3 # xs) (X9 # ys) \<longleftrightarrow> False"
  "heq (X3 # xs) (XA # ys) \<longleftrightarrow> False"
  "heq (X3 # xs) (XB # ys) \<longleftrightarrow> False"
  "heq (X3 # xs) (XC # ys) \<longleftrightarrow> False"
  "heq (X3 # xs) (XD # ys) \<longleftrightarrow> False"
  "heq (X3 # xs) (XE # ys) \<longleftrightarrow> False"
  "heq (X3 # xs) (XF # ys) \<longleftrightarrow> False"
  "heq (X4 # xs) (X0 # ys) \<longleftrightarrow> False"
  "heq (X4 # xs) (X1 # ys) \<longleftrightarrow> False"
  "heq (X4 # xs) (X2 # ys) \<longleftrightarrow> False"
  "heq (X4 # xs) (X3 # ys) \<longleftrightarrow> False"
  "heq (X4 # xs) (X5 # ys) \<longleftrightarrow> False"
  "heq (X4 # xs) (X6 # ys) \<longleftrightarrow> False"
  "heq (X4 # xs) (X7 # ys) \<longleftrightarrow> False"
  "heq (X4 # xs) (X8 # ys) \<longleftrightarrow> False"
  "heq (X4 # xs) (X9 # ys) \<longleftrightarrow> False"
  "heq (X4 # xs) (XA # ys) \<longleftrightarrow> False"
  "heq (X4 # xs) (XB # ys) \<longleftrightarrow> False"
  "heq (X4 # xs) (XC # ys) \<longleftrightarrow> False"
  "heq (X4 # xs) (XD # ys) \<longleftrightarrow> False"
  "heq (X4 # xs) (XE # ys) \<longleftrightarrow> False"
  "heq (X4 # xs) (XF # ys) \<longleftrightarrow> False"
  "heq (X5 # xs) (X0 # ys) \<longleftrightarrow> False"
  "heq (X5 # xs) (X1 # ys) \<longleftrightarrow> False"
  "heq (X5 # xs) (X2 # ys) \<longleftrightarrow> False"
  "heq (X5 # xs) (X3 # ys) \<longleftrightarrow> False"
  "heq (X5 # xs) (X4 # ys) \<longleftrightarrow> False"
  "heq (X5 # xs) (X6 # ys) \<longleftrightarrow> False"
  "heq (X5 # xs) (X7 # ys) \<longleftrightarrow> False"
  "heq (X5 # xs) (X8 # ys) \<longleftrightarrow> False"
  "heq (X5 # xs) (X9 # ys) \<longleftrightarrow> False"
  "heq (X5 # xs) (XA # ys) \<longleftrightarrow> False"
  "heq (X5 # xs) (XB # ys) \<longleftrightarrow> False"
  "heq (X5 # xs) (XC # ys) \<longleftrightarrow> False"
  "heq (X5 # xs) (XD # ys) \<longleftrightarrow> False"
  "heq (X5 # xs) (XE # ys) \<longleftrightarrow> False"
  "heq (X5 # xs) (XF # ys) \<longleftrightarrow> False"
  "heq (X6 # xs) (X0 # ys) \<longleftrightarrow> False"
  "heq (X6 # xs) (X1 # ys) \<longleftrightarrow> False"
  "heq (X6 # xs) (X2 # ys) \<longleftrightarrow> False"
  "heq (X6 # xs) (X3 # ys) \<longleftrightarrow> False"
  "heq (X6 # xs) (X4 # ys) \<longleftrightarrow> False"
  "heq (X6 # xs) (X5 # ys) \<longleftrightarrow> False"
  "heq (X6 # xs) (X7 # ys) \<longleftrightarrow> False"
  "heq (X6 # xs) (X8 # ys) \<longleftrightarrow> False"
  "heq (X6 # xs) (X9 # ys) \<longleftrightarrow> False"
  "heq (X6 # xs) (XA # ys) \<longleftrightarrow> False"
  "heq (X6 # xs) (XB # ys) \<longleftrightarrow> False"
  "heq (X6 # xs) (XC # ys) \<longleftrightarrow> False"
  "heq (X6 # xs) (XD # ys) \<longleftrightarrow> False"
  "heq (X6 # xs) (XE # ys) \<longleftrightarrow> False"
  "heq (X6 # xs) (XF # ys) \<longleftrightarrow> False"
  "heq (X7 # xs) (X0 # ys) \<longleftrightarrow> False"
  "heq (X7 # xs) (X1 # ys) \<longleftrightarrow> False"
  "heq (X7 # xs) (X2 # ys) \<longleftrightarrow> False"
  "heq (X7 # xs) (X3 # ys) \<longleftrightarrow> False"
  "heq (X7 # xs) (X4 # ys) \<longleftrightarrow> False"
  "heq (X7 # xs) (X5 # ys) \<longleftrightarrow> False"
  "heq (X7 # xs) (X6 # ys) \<longleftrightarrow> False"
  "heq (X7 # xs) (X8 # ys) \<longleftrightarrow> False"
  "heq (X7 # xs) (X9 # ys) \<longleftrightarrow> False"
  "heq (X7 # xs) (XA # ys) \<longleftrightarrow> False"
  "heq (X7 # xs) (XB # ys) \<longleftrightarrow> False"
  "heq (X7 # xs) (XC # ys) \<longleftrightarrow> False"
  "heq (X7 # xs) (XD # ys) \<longleftrightarrow> False"
  "heq (X7 # xs) (XE # ys) \<longleftrightarrow> False"
  "heq (X7 # xs) (XF # ys) \<longleftrightarrow> False"
  "heq (X8 # xs) (X0 # ys) \<longleftrightarrow> False"
  "heq (X8 # xs) (X1 # ys) \<longleftrightarrow> False"
  "heq (X8 # xs) (X2 # ys) \<longleftrightarrow> False"
  "heq (X8 # xs) (X3 # ys) \<longleftrightarrow> False"
  "heq (X8 # xs) (X4 # ys) \<longleftrightarrow> False"
  "heq (X8 # xs) (X5 # ys) \<longleftrightarrow> False"
  "heq (X8 # xs) (X6 # ys) \<longleftrightarrow> False"
  "heq (X8 # xs) (X7 # ys) \<longleftrightarrow> False"
  "heq (X8 # xs) (X9 # ys) \<longleftrightarrow> False"
  "heq (X8 # xs) (XA # ys) \<longleftrightarrow> False"
  "heq (X8 # xs) (XB # ys) \<longleftrightarrow> False"
  "heq (X8 # xs) (XC # ys) \<longleftrightarrow> False"
  "heq (X8 # xs) (XD # ys) \<longleftrightarrow> False"
  "heq (X8 # xs) (XE # ys) \<longleftrightarrow> False"
  "heq (X8 # xs) (XF # ys) \<longleftrightarrow> False"
  "heq (X9 # xs) (X0 # ys) \<longleftrightarrow> False"
  "heq (X9 # xs) (X1 # ys) \<longleftrightarrow> False"
  "heq (X9 # xs) (X2 # ys) \<longleftrightarrow> False"
  "heq (X9 # xs) (X3 # ys) \<longleftrightarrow> False"
  "heq (X9 # xs) (X4 # ys) \<longleftrightarrow> False"
  "heq (X9 # xs) (X5 # ys) \<longleftrightarrow> False"
  "heq (X9 # xs) (X6 # ys) \<longleftrightarrow> False"
  "heq (X9 # xs) (X7 # ys) \<longleftrightarrow> False"
  "heq (X9 # xs) (X8 # ys) \<longleftrightarrow> False"
  "heq (X9 # xs) (XA # ys) \<longleftrightarrow> False"
  "heq (X9 # xs) (XB # ys) \<longleftrightarrow> False"
  "heq (X9 # xs) (XC # ys) \<longleftrightarrow> False"
  "heq (X9 # xs) (XD # ys) \<longleftrightarrow> False"
  "heq (X9 # xs) (XE # ys) \<longleftrightarrow> False"
  "heq (X9 # xs) (XF # ys) \<longleftrightarrow> False"
  "heq (XA # xs) (X0 # ys) \<longleftrightarrow> False"
  "heq (XA # xs) (X1 # ys) \<longleftrightarrow> False"
  "heq (XA # xs) (X2 # ys) \<longleftrightarrow> False"
  "heq (XA # xs) (X3 # ys) \<longleftrightarrow> False"
  "heq (XA # xs) (X4 # ys) \<longleftrightarrow> False"
  "heq (XA # xs) (X5 # ys) \<longleftrightarrow> False"
  "heq (XA # xs) (X6 # ys) \<longleftrightarrow> False"
  "heq (XA # xs) (X7 # ys) \<longleftrightarrow> False"
  "heq (XA # xs) (X8 # ys) \<longleftrightarrow> False"
  "heq (XA # xs) (X9 # ys) \<longleftrightarrow> False"
  "heq (XA # xs) (XB # ys) \<longleftrightarrow> False"
  "heq (XA # xs) (XC # ys) \<longleftrightarrow> False"
  "heq (XA # xs) (XD # ys) \<longleftrightarrow> False"
  "heq (XA # xs) (XE # ys) \<longleftrightarrow> False"
  "heq (XA # xs) (XF # ys) \<longleftrightarrow> False"
  "heq (XB # xs) (X0 # ys) \<longleftrightarrow> False"
  "heq (XB # xs) (X1 # ys) \<longleftrightarrow> False"
  "heq (XB # xs) (X2 # ys) \<longleftrightarrow> False"
  "heq (XB # xs) (X3 # ys) \<longleftrightarrow> False"
  "heq (XB # xs) (X4 # ys) \<longleftrightarrow> False"
  "heq (XB # xs) (X5 # ys) \<longleftrightarrow> False"
  "heq (XB # xs) (X6 # ys) \<longleftrightarrow> False"
  "heq (XB # xs) (X7 # ys) \<longleftrightarrow> False"
  "heq (XB # xs) (X8 # ys) \<longleftrightarrow> False"
  "heq (XB # xs) (X9 # ys) \<longleftrightarrow> False"
  "heq (XB # xs) (XA # ys) \<longleftrightarrow> False"
  "heq (XB # xs) (XC # ys) \<longleftrightarrow> False"
  "heq (XB # xs) (XD # ys) \<longleftrightarrow> False"
  "heq (XB # xs) (XE # ys) \<longleftrightarrow> False"
  "heq (XB # xs) (XF # ys) \<longleftrightarrow> False"
  "heq (XC # xs) (X0 # ys) \<longleftrightarrow> False"
  "heq (XC # xs) (X1 # ys) \<longleftrightarrow> False"
  "heq (XC # xs) (X2 # ys) \<longleftrightarrow> False"
  "heq (XC # xs) (X3 # ys) \<longleftrightarrow> False"
  "heq (XC # xs) (X4 # ys) \<longleftrightarrow> False"
  "heq (XC # xs) (X5 # ys) \<longleftrightarrow> False"
  "heq (XC # xs) (X6 # ys) \<longleftrightarrow> False"
  "heq (XC # xs) (X7 # ys) \<longleftrightarrow> False"
  "heq (XC # xs) (X8 # ys) \<longleftrightarrow> False"
  "heq (XC # xs) (X9 # ys) \<longleftrightarrow> False"
  "heq (XC # xs) (XA # ys) \<longleftrightarrow> False"
  "heq (XC # xs) (XB # ys) \<longleftrightarrow> False"
  "heq (XC # xs) (XD # ys) \<longleftrightarrow> False"
  "heq (XC # xs) (XE # ys) \<longleftrightarrow> False"
  "heq (XC # xs) (XF # ys) \<longleftrightarrow> False"
  "heq (XD # xs) (X0 # ys) \<longleftrightarrow> False"
  "heq (XD # xs) (X1 # ys) \<longleftrightarrow> False"
  "heq (XD # xs) (X2 # ys) \<longleftrightarrow> False"
  "heq (XD # xs) (X3 # ys) \<longleftrightarrow> False"
  "heq (XD # xs) (X4 # ys) \<longleftrightarrow> False"
  "heq (XD # xs) (X5 # ys) \<longleftrightarrow> False"
  "heq (XD # xs) (X6 # ys) \<longleftrightarrow> False"
  "heq (XD # xs) (X7 # ys) \<longleftrightarrow> False"
  "heq (XD # xs) (X8 # ys) \<longleftrightarrow> False"
  "heq (XD # xs) (X9 # ys) \<longleftrightarrow> False"
  "heq (XD # xs) (XA # ys) \<longleftrightarrow> False"
  "heq (XD # xs) (XB # ys) \<longleftrightarrow> False"
  "heq (XD # xs) (XC # ys) \<longleftrightarrow> False"
  "heq (XD # xs) (XE # ys) \<longleftrightarrow> False"
  "heq (XD # xs) (XF # ys) \<longleftrightarrow> False"
  "heq (XE # xs) (X0 # ys) \<longleftrightarrow> False"
  "heq (XE # xs) (X1 # ys) \<longleftrightarrow> False"
  "heq (XE # xs) (X2 # ys) \<longleftrightarrow> False"
  "heq (XE # xs) (X3 # ys) \<longleftrightarrow> False"
  "heq (XE # xs) (X4 # ys) \<longleftrightarrow> False"
  "heq (XE # xs) (X5 # ys) \<longleftrightarrow> False"
  "heq (XE # xs) (X6 # ys) \<longleftrightarrow> False"
  "heq (XE # xs) (X7 # ys) \<longleftrightarrow> False"
  "heq (XE # xs) (X8 # ys) \<longleftrightarrow> False"
  "heq (XE # xs) (X9 # ys) \<longleftrightarrow> False"
  "heq (XE # xs) (XA # ys) \<longleftrightarrow> False"
  "heq (XE # xs) (XB # ys) \<longleftrightarrow> False"
  "heq (XE # xs) (XC # ys) \<longleftrightarrow> False"
  "heq (XE # xs) (XD # ys) \<longleftrightarrow> False"
  "heq (XE # xs) (XF # ys) \<longleftrightarrow> False"
  "heq (XF # xs) (X0 # ys) \<longleftrightarrow> False"
  "heq (XF # xs) (X1 # ys) \<longleftrightarrow> False"
  "heq (XF # xs) (X2 # ys) \<longleftrightarrow> False"
  "heq (XF # xs) (X3 # ys) \<longleftrightarrow> False"
  "heq (XF # xs) (X4 # ys) \<longleftrightarrow> False"
  "heq (XF # xs) (X5 # ys) \<longleftrightarrow> False"
  "heq (XF # xs) (X6 # ys) \<longleftrightarrow> False"
  "heq (XF # xs) (X7 # ys) \<longleftrightarrow> False"
  "heq (XF # xs) (X8 # ys) \<longleftrightarrow> False"
  "heq (XF # xs) (X9 # ys) \<longleftrightarrow> False"
  "heq (XF # xs) (XA # ys) \<longleftrightarrow> False"
  "heq (XF # xs) (XB # ys) \<longleftrightarrow> False"
  "heq (XF # xs) (XC # ys) \<longleftrightarrow> False"
  "heq (XF # xs) (XD # ys) \<longleftrightarrow> False"
  "heq (XF # xs) (XE # ys) \<longleftrightarrow> False"
  by simp_all

lemma heq_nil_distinct:
  "heq [] (X1 # ys) \<longleftrightarrow> False"
  "heq (X1 # xs) [] \<longleftrightarrow> False"
  "heq [] (X2 # ys) \<longleftrightarrow> False"
  "heq (X2 # xs) [] \<longleftrightarrow> False"
  "heq [] (X3 # ys) \<longleftrightarrow> False"
  "heq (X3 # xs) [] \<longleftrightarrow> False"
  "heq [] (X4 # ys) \<longleftrightarrow> False"
  "heq (X4 # xs) [] \<longleftrightarrow> False"
  "heq [] (X5 # ys) \<longleftrightarrow> False"
  "heq (X5 # xs) [] \<longleftrightarrow> False"
  "heq [] (X6 # ys) \<longleftrightarrow> False"
  "heq (X6 # xs) [] \<longleftrightarrow> False"
  "heq [] (X7 # ys) \<longleftrightarrow> False"
  "heq (X7 # xs) [] \<longleftrightarrow> False"
  "heq [] (X8 # ys) \<longleftrightarrow> False"
  "heq (X8 # xs) [] \<longleftrightarrow> False"
  "heq [] (X9 # ys) \<longleftrightarrow> False"
  "heq (X9 # xs) [] \<longleftrightarrow> False"
  "heq [] (XA # ys) \<longleftrightarrow> False"
  "heq (XA # xs) [] \<longleftrightarrow> False"
  "heq [] (XB # ys) \<longleftrightarrow> False"
  "heq (XB # xs) [] \<longleftrightarrow> False"
  "heq [] (XC # ys) \<longleftrightarrow> False"
  "heq (XC # xs) [] \<longleftrightarrow> False"
  "heq [] (XD # ys) \<longleftrightarrow> False"
  "heq (XD # xs) [] \<longleftrightarrow> False"
  "heq [] (XE # ys) \<longleftrightarrow> False"
  "heq (XE # xs) [] \<longleftrightarrow> False"
  "heq [] (XF # ys) \<longleftrightarrow> False"
  "heq (XF # xs) [] \<longleftrightarrow> False"
  by simp_all

lemmas heq_rules = heq_same heq_nil heq_distinct heq_nil_distinct

text \<open>The digits of an integer that is not negative.\<close>

definition hx_int :: "int \<Rightarrow> hx list" where
  "hx_int i = (if i \<le> 0 then [] else hx_num (num_of_nat (nat i)))"

lemma hx_int_simps: "hx_int 0 = []" "hx_int 1 = [X1]" "hx_int (numeral n) = hx_num n"
proof -
  have "num_of_nat (nat 1) = num.One"
    by (simp add: num_of_nat.simps)
  then show "hx_int 0 = []" "hx_int 1 = [X1]"
    by (simp_all add: hx_int_def)
  have "num_of_nat (nat (numeral n)) = n"
    using nat_of_num_inverse [of n] by (simp add: nat_of_num_numeral)
  then show "hx_int (numeral n) = hx_num n"
    by (simp add: hx_int_def not_le)
qed

lemma hv_hx_int:
  assumes "0 \<le> i"
  shows "hv (hx_int i) = i"
proof (cases "i = 0")
  case False
  then have "0 < nat i" "int (nat i) = i"
    using assms by simp_all
  then have "(numeral (num_of_nat (nat i)) :: int) = i"
    by (metis num_of_nat_inverse nat_of_num_numeral of_nat_numeral)
  then show ?thesis
    using False assms by (simp add: hx_int_def hv_hx_num)
qed (simp add: hx_int_simps)

lemmas hx_literal = hx_int_simps hx_num.simps hmult_def hmt_rules hmt_digit hadd_rules heq_rules simp_thms

end
