(* ===== verification/FieldElem.thy ===== *)
theory FieldElem
  imports Limbs
begin

text \<open>
  Arithmetic in the field of \<open>2\<^sup>255 - 19\<close> elements, \<^verbatim>\<open>fe_*\<close> of
  \<^verbatim>\<open>src/base/tools/cryptonote/crypto-ops.c\<close>.  An \<open>fe\<close> is the C array \<open>int32_t[10]\<close>: limb
  \<open>i\<close> has weight \<open>2\<close> to the power \<open>0, 26, 51, 77, 102, 128, 153, 179, 204, 230\<close> and is signed.
  Every operation is given on the machine words of the source; the lemmas read the words as
  integers and show that the bounds stated in the comments of the source are enough for no
  operation to leave its type, that the results obey the bounds the comments promise, and that
  they are the right field elements.
\<close>

unbundle bit_operations_syntax

section \<open>Field elements\<close>

type_synonym fe = "i32 list"

definition fe_exps :: "nat list" where
  "fe_exps = [0, 26, 51, 77, 102, 128, 153, 179, 204, 230]"

definition p25519 :: int where
  "p25519 = 2 ^ 255 - 19"

definition fe_val :: "fe \<Rightarrow> int" where
  "fe_val f = (\<Sum>i<10. sint (f ! i) * 2 ^ (fe_exps ! i))"

text \<open>
  \<open>fe_bounded k e\<close> is the comments' ``\<open>|f|\<close> bounded by \<open>k/100 * 2^e, k/100 * 2^(e-1)\<close>,
  \<open>k/100 * 2^e, \<dots>\<close>''.
\<close>

definition fe_bounded :: "int \<Rightarrow> nat \<Rightarrow> fe \<Rightarrow> bool" where
  "fe_bounded k e f \<longleftrightarrow> length f = 10 \<and>
     (\<forall>i<10. 100 * \<bar>sint (f ! i)\<bar> \<le> k * 2 ^ (if even i then e else e - 1))"

section \<open>Operations\<close>

definition fe_0 :: fe where
  "fe_0 = [0, 0, 0, 0, 0, 0, 0, 0, 0, 0]"

definition fe_1 :: fe where
  "fe_1 = [1, 0, 0, 0, 0, 0, 0, 0, 0, 0]"

definition fe_add :: "fe \<Rightarrow> fe \<Rightarrow> fe" where
  "fe_add f g = map (\<lambda>i. f ! i + g ! i) [0..<10]"

text \<open>\<open>b\<close> is an \<open>unsigned int\<close>; \<open>b = -b\<close> turns 1 into a mask of ones.  The code asserts that \<open>b\<close> is 0 or 1, and every caller
  passes one of them.\<close>

definition fe_cmov :: "fe \<Rightarrow> fe \<Rightarrow> i32 \<Rightarrow> fe" where
  "fe_cmov f g b = map (\<lambda>i. let x = f ! i XOR g ! i in f ! i XOR (x AND (- b))) [0..<10]"

definition fe_copy :: "fe \<Rightarrow> fe" where
  "fe_copy f = map (\<lambda>i. f ! i) [0..<10]"

definition fe_neg :: "fe \<Rightarrow> fe" where
  "fe_neg f = map (\<lambda>i. - (f ! i)) [0..<10]"

definition fe_sub :: "fe \<Rightarrow> fe \<Rightarrow> fe" where
  "fe_sub f g = map (\<lambda>i. f ! i - g ! i) [0..<10]"

text \<open>
  One line of the carry chains of \<open>fe_mul\<close>, \<open>fe_sq\<close>, \<open>fe_sq2\<close> and of the byte decoders: from an
  even limb 26 bits, from an odd one 25 bits are kept; limb 9 carries into limb 0 with a factor 19.
\<close>

definition fe_carry :: "nat \<Rightarrow> i64 list \<Rightarrow> i64 list" where
  "fe_carry i h =
     (if i = 9 then limb_carry 25 (push_bit 24 1) 9 0 19 h
      else if even i then limb_carry 26 (push_bit 25 1) i (i + 1) 1 h
      else limb_carry 25 (push_bit 24 1) i (i + 1) 1 h)"

definition fe_mul_carries :: "nat list" where
  "fe_mul_carries = [0, 4, 1, 5, 2, 6, 3, 7, 4, 8, 9, 0]"

text \<open>The stores \<^verbatim>\<open>h[i] = hi;\<close> that end the operations truncate to 32 bits.\<close>

definition fe_store :: "i64 list \<Rightarrow> fe" where
  "fe_store h = map (\<lambda>i. ucast (h ! i)) [0..<10]"

definition fe_mul_prods :: "fe \<Rightarrow> fe \<Rightarrow> i64 list" where
  "fe_mul_prods f g =
     (let f0 = f ! 0; f1 = f ! 1; f2 = f ! 2; f3 = f ! 3; f4 = f ! 4; f5 = f ! 5; f6 = f ! 6;
          f7 = f ! 7; f8 = f ! 8; f9 = f ! 9; g0 = g ! 0; g1 = g ! 1; g2 = g ! 2; g3 = g ! 3;
          g4 = g ! 4; g5 = g ! 5; g6 = g ! 6; g7 = g ! 7; g8 = g ! 8; g9 = g ! 9; g1_19 = 19 * g1;
          g2_19 = 19 * g2; g3_19 = 19 * g3; g4_19 = 19 * g4; g5_19 = 19 * g5; g6_19 = 19 * g6;
          g7_19 = 19 * g7; g8_19 = 19 * g8; g9_19 = 19 * g9; f1_2 = 2 * f1; f3_2 = 2 * f3;
          f5_2 = 2 * f5; f7_2 = 2 * f7; f9_2 = 2 * f9; f0g0 = scast f0 * scast g0;
          f0g1 = scast f0 * scast g1; f0g2 = scast f0 * scast g2; f0g3 = scast f0 * scast g3;
          f0g4 = scast f0 * scast g4; f0g5 = scast f0 * scast g5; f0g6 = scast f0 * scast g6;
          f0g7 = scast f0 * scast g7; f0g8 = scast f0 * scast g8; f0g9 = scast f0 * scast g9;
          f1g0 = scast f1 * scast g0; f1g1_2 = scast f1_2 * scast g1; f1g2 = scast f1 * scast g2;
          f1g3_2 = scast f1_2 * scast g3; f1g4 = scast f1 * scast g4;
          f1g5_2 = scast f1_2 * scast g5; f1g6 = scast f1 * scast g6;
          f1g7_2 = scast f1_2 * scast g7; f1g8 = scast f1 * scast g8;
          f1g9_38 = scast f1_2 * scast g9_19; f2g0 = scast f2 * scast g0;
          f2g1 = scast f2 * scast g1; f2g2 = scast f2 * scast g2; f2g3 = scast f2 * scast g3;
          f2g4 = scast f2 * scast g4; f2g5 = scast f2 * scast g5; f2g6 = scast f2 * scast g6;
          f2g7 = scast f2 * scast g7; f2g8_19 = scast f2 * scast g8_19;
          f2g9_19 = scast f2 * scast g9_19; f3g0 = scast f3 * scast g0;
          f3g1_2 = scast f3_2 * scast g1; f3g2 = scast f3 * scast g2;
          f3g3_2 = scast f3_2 * scast g3; f3g4 = scast f3 * scast g4;
          f3g5_2 = scast f3_2 * scast g5; f3g6 = scast f3 * scast g6;
          f3g7_38 = scast f3_2 * scast g7_19; f3g8_19 = scast f3 * scast g8_19;
          f3g9_38 = scast f3_2 * scast g9_19; f4g0 = scast f4 * scast g0;
          f4g1 = scast f4 * scast g1; f4g2 = scast f4 * scast g2; f4g3 = scast f4 * scast g3;
          f4g4 = scast f4 * scast g4; f4g5 = scast f4 * scast g5;
          f4g6_19 = scast f4 * scast g6_19; f4g7_19 = scast f4 * scast g7_19;
          f4g8_19 = scast f4 * scast g8_19; f4g9_19 = scast f4 * scast g9_19;
          f5g0 = scast f5 * scast g0; f5g1_2 = scast f5_2 * scast g1; f5g2 = scast f5 * scast g2;
          f5g3_2 = scast f5_2 * scast g3; f5g4 = scast f5 * scast g4;
          f5g5_38 = scast f5_2 * scast g5_19; f5g6_19 = scast f5 * scast g6_19;
          f5g7_38 = scast f5_2 * scast g7_19; f5g8_19 = scast f5 * scast g8_19;
          f5g9_38 = scast f5_2 * scast g9_19; f6g0 = scast f6 * scast g0;
          f6g1 = scast f6 * scast g1; f6g2 = scast f6 * scast g2; f6g3 = scast f6 * scast g3;
          f6g4_19 = scast f6 * scast g4_19; f6g5_19 = scast f6 * scast g5_19;
          f6g6_19 = scast f6 * scast g6_19; f6g7_19 = scast f6 * scast g7_19;
          f6g8_19 = scast f6 * scast g8_19; f6g9_19 = scast f6 * scast g9_19;
          f7g0 = scast f7 * scast g0; f7g1_2 = scast f7_2 * scast g1; f7g2 = scast f7 * scast g2;
          f7g3_38 = scast f7_2 * scast g3_19; f7g4_19 = scast f7 * scast g4_19;
          f7g5_38 = scast f7_2 * scast g5_19; f7g6_19 = scast f7 * scast g6_19;
          f7g7_38 = scast f7_2 * scast g7_19; f7g8_19 = scast f7 * scast g8_19;
          f7g9_38 = scast f7_2 * scast g9_19; f8g0 = scast f8 * scast g0;
          f8g1 = scast f8 * scast g1; f8g2_19 = scast f8 * scast g2_19;
          f8g3_19 = scast f8 * scast g3_19; f8g4_19 = scast f8 * scast g4_19;
          f8g5_19 = scast f8 * scast g5_19; f8g6_19 = scast f8 * scast g6_19;
          f8g7_19 = scast f8 * scast g7_19; f8g8_19 = scast f8 * scast g8_19;
          f8g9_19 = scast f8 * scast g9_19; f9g0 = scast f9 * scast g0;
          f9g1_38 = scast f9_2 * scast g1_19; f9g2_19 = scast f9 * scast g2_19;
          f9g3_38 = scast f9_2 * scast g3_19; f9g4_19 = scast f9 * scast g4_19;
          f9g5_38 = scast f9_2 * scast g5_19; f9g6_19 = scast f9 * scast g6_19;
          f9g7_38 = scast f9_2 * scast g7_19; f9g8_19 = scast f9 * scast g8_19;
          f9g9_38 = scast f9_2 * scast g9_19;
          h0 = f0g0 + f1g9_38 + f2g8_19 + f3g7_38 + f4g6_19 + f5g5_38 + f6g4_19 + f7g3_38 + f8g2_19 + f9g1_38;
          h1 = f0g1 + f1g0 + f2g9_19 + f3g8_19 + f4g7_19 + f5g6_19 + f6g5_19 + f7g4_19 + f8g3_19 + f9g2_19;
          h2 = f0g2 + f1g1_2 + f2g0 + f3g9_38 + f4g8_19 + f5g7_38 + f6g6_19 + f7g5_38 + f8g4_19 + f9g3_38;
          h3 = f0g3 + f1g2 + f2g1 + f3g0 + f4g9_19 + f5g8_19 + f6g7_19 + f7g6_19 + f8g5_19 + f9g4_19;
          h4 = f0g4 + f1g3_2 + f2g2 + f3g1_2 + f4g0 + f5g9_38 + f6g8_19 + f7g7_38 + f8g6_19 + f9g5_38;
          h5 = f0g5 + f1g4 + f2g3 + f3g2 + f4g1 + f5g0 + f6g9_19 + f7g8_19 + f8g7_19 + f9g6_19;
          h6 = f0g6 + f1g5_2 + f2g4 + f3g3_2 + f4g2 + f5g1_2 + f6g0 + f7g9_38 + f8g8_19 + f9g7_38;
          h7 = f0g7 + f1g6 + f2g5 + f3g4 + f4g3 + f5g2 + f6g1 + f7g0 + f8g9_19 + f9g8_19;
          h8 = f0g8 + f1g7_2 + f2g6 + f3g5_2 + f4g4 + f5g3_2 + f6g2 + f7g1_2 + f8g0 + f9g9_38;
          h9 = f0g9 + f1g8 + f2g7 + f3g6 + f4g5 + f5g4 + f6g3 + f7g2 + f8g1 + f9g0
      in [h0, h1, h2, h3, h4, h5, h6, h7, h8, h9])"

definition fe_mul :: "fe \<Rightarrow> fe \<Rightarrow> fe" where
  "fe_mul f g = fe_store (fold fe_carry fe_mul_carries (fe_mul_prods f g))"

definition fe_sq_prods :: "fe \<Rightarrow> i64 list" where
  "fe_sq_prods f =
     (let f0 = f ! 0; f1 = f ! 1; f2 = f ! 2; f3 = f ! 3; f4 = f ! 4; f5 = f ! 5; f6 = f ! 6;
          f7 = f ! 7; f8 = f ! 8; f9 = f ! 9; f0_2 = 2 * f0; f1_2 = 2 * f1; f2_2 = 2 * f2;
          f3_2 = 2 * f3; f4_2 = 2 * f4; f5_2 = 2 * f5; f6_2 = 2 * f6; f7_2 = 2 * f7;
          f5_38 = 38 * f5; f6_19 = 19 * f6; f7_38 = 38 * f7; f8_19 = 19 * f8; f9_38 = 38 * f9;
          f0f0 = scast f0 * scast f0; f0f1_2 = scast f0_2 * scast f1;
          f0f2_2 = scast f0_2 * scast f2; f0f3_2 = scast f0_2 * scast f3;
          f0f4_2 = scast f0_2 * scast f4; f0f5_2 = scast f0_2 * scast f5;
          f0f6_2 = scast f0_2 * scast f6; f0f7_2 = scast f0_2 * scast f7;
          f0f8_2 = scast f0_2 * scast f8; f0f9_2 = scast f0_2 * scast f9;
          f1f1_2 = scast f1_2 * scast f1; f1f2_2 = scast f1_2 * scast f2;
          f1f3_4 = scast f1_2 * scast f3_2; f1f4_2 = scast f1_2 * scast f4;
          f1f5_4 = scast f1_2 * scast f5_2; f1f6_2 = scast f1_2 * scast f6;
          f1f7_4 = scast f1_2 * scast f7_2; f1f8_2 = scast f1_2 * scast f8;
          f1f9_76 = scast f1_2 * scast f9_38; f2f2 = scast f2 * scast f2;
          f2f3_2 = scast f2_2 * scast f3; f2f4_2 = scast f2_2 * scast f4;
          f2f5_2 = scast f2_2 * scast f5; f2f6_2 = scast f2_2 * scast f6;
          f2f7_2 = scast f2_2 * scast f7; f2f8_38 = scast f2_2 * scast f8_19;
          f2f9_38 = scast f2 * scast f9_38; f3f3_2 = scast f3_2 * scast f3;
          f3f4_2 = scast f3_2 * scast f4; f3f5_4 = scast f3_2 * scast f5_2;
          f3f6_2 = scast f3_2 * scast f6; f3f7_76 = scast f3_2 * scast f7_38;
          f3f8_38 = scast f3_2 * scast f8_19; f3f9_76 = scast f3_2 * scast f9_38;
          f4f4 = scast f4 * scast f4; f4f5_2 = scast f4_2 * scast f5;
          f4f6_38 = scast f4_2 * scast f6_19; f4f7_38 = scast f4 * scast f7_38;
          f4f8_38 = scast f4_2 * scast f8_19; f4f9_38 = scast f4 * scast f9_38;
          f5f5_38 = scast f5 * scast f5_38; f5f6_38 = scast f5_2 * scast f6_19;
          f5f7_76 = scast f5_2 * scast f7_38; f5f8_38 = scast f5_2 * scast f8_19;
          f5f9_76 = scast f5_2 * scast f9_38; f6f6_19 = scast f6 * scast f6_19;
          f6f7_38 = scast f6 * scast f7_38; f6f8_38 = scast f6_2 * scast f8_19;
          f6f9_38 = scast f6 * scast f9_38; f7f7_38 = scast f7 * scast f7_38;
          f7f8_38 = scast f7_2 * scast f8_19; f7f9_76 = scast f7_2 * scast f9_38;
          f8f8_19 = scast f8 * scast f8_19; f8f9_38 = scast f8 * scast f9_38;
          f9f9_38 = scast f9 * scast f9_38;
          h0 = f0f0 + f1f9_76 + f2f8_38 + f3f7_76 + f4f6_38 + f5f5_38;
          h1 = f0f1_2 + f2f9_38 + f3f8_38 + f4f7_38 + f5f6_38;
          h2 = f0f2_2 + f1f1_2 + f3f9_76 + f4f8_38 + f5f7_76 + f6f6_19;
          h3 = f0f3_2 + f1f2_2 + f4f9_38 + f5f8_38 + f6f7_38;
          h4 = f0f4_2 + f1f3_4 + f2f2 + f5f9_76 + f6f8_38 + f7f7_38;
          h5 = f0f5_2 + f1f4_2 + f2f3_2 + f6f9_38 + f7f8_38;
          h6 = f0f6_2 + f1f5_4 + f2f4_2 + f3f3_2 + f7f9_76 + f8f8_19;
          h7 = f0f7_2 + f1f6_2 + f2f5_2 + f3f4_2 + f8f9_38;
          h8 = f0f8_2 + f1f7_4 + f2f6_2 + f3f5_4 + f4f4 + f9f9_38;
          h9 = f0f9_2 + f1f8_2 + f2f7_2 + f3f6_2 + f4f5_2
      in [h0, h1, h2, h3, h4, h5, h6, h7, h8, h9])"

definition fe_sq :: "fe \<Rightarrow> fe" where
  "fe_sq f = fe_store (fold fe_carry fe_mul_carries (fe_sq_prods f))"

text \<open>\<open>fe_sq2\<close> repeats the product lines of \<open>fe_sq\<close> and then doubles each \<open>h\<close>.\<close>

definition fe_sq2_prods :: "fe \<Rightarrow> i64 list" where
  "fe_sq2_prods f = map (\<lambda>h. h + h) (fe_sq_prods f)"

definition fe_sq2 :: "fe \<Rightarrow> fe" where
  "fe_sq2 f = fe_store (fold fe_carry fe_mul_carries (fe_sq2_prods f))"

section \<open>Values and bounds of the linear operations\<close>

lemma p25519_pos [simp]: "0 < p25519"
  by (simp add: p25519_def)

lemma less_10: "(i :: nat) < 10 \<longleftrightarrow> i \<in> {0, 1, 2, 3, 4, 5, 6, 7, 8, 9}"
  by (simp only: insert_iff empty_iff) presburger

lemma all_less_10: "(\<forall>i<10. P (i :: nat)) \<longleftrightarrow>
    P 0 \<and> P 1 \<and> P 2 \<and> P 3 \<and> P 4 \<and> P 5 \<and> P 6 \<and> P 7 \<and> P 8 \<and> P 9"
  by (simp add: numeral_eq_Suc All_less_Suc conj_ac)

lemma sum_less_10: "(\<Sum>i<10. (f :: nat \<Rightarrow> int) i) =
    f 0 + f 1 + f 2 + f 3 + f 4 + f 5 + f 6 + f 7 + f 8 + f 9"
  by (simp add: eval_nat_numeral lessThan_Suc add_ac)

lemma length_fe_ops [simp]:
  "length fe_0 = 10" "length fe_1 = 10" "length (fe_add f g) = 10" "length (fe_sub f g) = 10"
  "length (fe_neg f) = 10" "length (fe_copy f) = 10" "length (fe_cmov f g b) = 10"
  "length (fe_store h) = 10"
  by (simp_all add: fe_0_def fe_1_def fe_add_def fe_sub_def fe_neg_def fe_copy_def fe_cmov_def
      fe_store_def)

lemma fe_bounded_length: "fe_bounded k e f \<Longrightarrow> length f = 10"
  by (simp add: fe_bounded_def)

lemma fe_boundedD:
  "fe_bounded k e f \<Longrightarrow> i < 10 \<Longrightarrow> 100 * \<bar>sint (f ! i)\<bar> \<le> k * 2 ^ (if even i then e else e - 1)"
  by (simp add: fe_bounded_def)

lemma fe_bounded_mono: "fe_bounded k e f \<Longrightarrow> k \<le> k' \<Longrightarrow> fe_bounded k' e f"
  unfolding fe_bounded_def by (meson mult_right_mono order_trans zero_le_numeral zero_le_power)

lemma fe_bounded_double: "fe_bounded (2 * k) e f \<Longrightarrow> 0 < e \<Longrightarrow> fe_bounded k (Suc e) f"
  by (cases e) (auto simp: fe_bounded_def algebra_simps)

lemma fe_bounded_nonneg:
  assumes "fe_bounded k e f" shows "0 \<le> k"
proof -
  have "100 * \<bar>sint (f ! 0)\<bar> \<le> k * 2 ^ e"
    using fe_boundedD [OF assms, of 0] by simp
  then have "0 \<le> k * 2 ^ e" by linarith
  then show ?thesis by (simp add: zero_le_mult_iff)
qed

lemma fe_limb_small:
  assumes "fe_bounded k e f" "k * 2 ^ e < 100 * 2 ^ 31" "i < 10"
  shows "\<bar>sint (f ! i)\<bar> < 2 ^ 31"
proof -
  have "k * 2 ^ (if even i then e else e - 1) \<le> k * 2 ^ e"
    using fe_bounded_nonneg [OF assms(1)] by (intro mult_left_mono power_increasing) auto
  then show ?thesis
    using fe_boundedD [OF assms(1,3)] assms(2) by linarith
qed

lemma fe_limb_sum_small:
  assumes "fe_bounded a e f" "fe_bounded b e g" "(a + b) * 2 ^ e < 100 * 2 ^ 31" "i < 10"
  shows "\<bar>sint (f ! i)\<bar> + \<bar>sint (g ! i)\<bar> < 2 ^ 31"
proof -
  have "(a + b) * 2 ^ (if even i then e else e - 1) \<le> (a + b) * 2 ^ e"
    using fe_bounded_nonneg [OF assms(1)] fe_bounded_nonneg [OF assms(2)]
    by (intro mult_left_mono power_increasing) auto
  then show ?thesis
    using fe_boundedD [OF assms(1,4)] fe_boundedD [OF assms(2,4)] assms(3)
    by (simp add: distrib_right)
qed

lemma fe_add_limb:
  assumes "fe_bounded a e f" "fe_bounded b e g" "(a + b) * 2 ^ e < 100 * 2 ^ 31" "i < 10"
  shows "sint (fe_add f g ! i) = sint (f ! i) + sint (g ! i)"
  using fe_limb_sum_small [OF assms] assms(4) by (simp add: fe_add_def sint_add_i32)

lemma fe_sub_limb:
  assumes "fe_bounded a e f" "fe_bounded b e g" "(a + b) * 2 ^ e < 100 * 2 ^ 31" "i < 10"
  shows "sint (fe_sub f g ! i) = sint (f ! i) - sint (g ! i)"
  using fe_limb_sum_small [OF assms] assms(4) by (simp add: fe_sub_def sint_diff_i32)

lemma fe_neg_limb:
  assumes "fe_bounded a e f" "a * 2 ^ e < 100 * 2 ^ 31" "i < 10"
  shows "sint (fe_neg f ! i) = - sint (f ! i)"
  using fe_limb_small [OF assms] assms(3) by (simp add: fe_neg_def sint_minus_i32)

lemma fe_add_val:
  assumes "fe_bounded a e f" "fe_bounded b e g" "(a + b) * 2 ^ e < 100 * 2 ^ 31"
  shows "fe_val (fe_add f g) = fe_val f + fe_val g"
  unfolding fe_val_def by (simp add: fe_add_limb [OF assms] distrib_right sum.distrib)

lemma fe_sub_val:
  assumes "fe_bounded a e f" "fe_bounded b e g" "(a + b) * 2 ^ e < 100 * 2 ^ 31"
  shows "fe_val (fe_sub f g) = fe_val f - fe_val g"
  unfolding fe_val_def by (simp add: fe_sub_limb [OF assms] left_diff_distrib sum_subtractf)

lemma fe_neg_val:
  assumes "fe_bounded a e f" "a * 2 ^ e < 100 * 2 ^ 31"
  shows "fe_val (fe_neg f) = - fe_val f"
  unfolding fe_val_def by (simp add: fe_neg_limb [OF assms] sum_negf)

lemma scaled_sum_le: "(z :: int) \<le> u + v \<Longrightarrow> 100 * u \<le> a \<Longrightarrow> 100 * v \<le> b \<Longrightarrow> 100 * z \<le> a + b"
  by linarith

lemmas abs_add_100 = scaled_sum_le [OF abs_triangle_ineq]

lemmas abs_diff_100 = scaled_sum_le [OF abs_triangle_ineq4]

lemma fe_add_bounded:
  assumes "fe_bounded a e f" "fe_bounded b e g" "(a + b) * 2 ^ e < 100 * 2 ^ 31"
  shows "fe_bounded (a + b) e (fe_add f g)"
  unfolding fe_bounded_def
proof (intro conjI allI impI)
  fix i :: nat assume i: "i < 10"
  show "100 * \<bar>sint (fe_add f g ! i)\<bar> \<le> (a + b) * 2 ^ (if even i then e else e - 1)"
    unfolding distrib_right fe_add_limb [OF assms i]
    by (rule abs_add_100 [OF fe_boundedD [OF assms(1) i] fe_boundedD [OF assms(2) i]])
qed simp

lemma fe_sub_bounded:
  assumes "fe_bounded a e f" "fe_bounded b e g" "(a + b) * 2 ^ e < 100 * 2 ^ 31"
  shows "fe_bounded (a + b) e (fe_sub f g)"
  unfolding fe_bounded_def
proof (intro conjI allI impI)
  fix i :: nat assume i: "i < 10"
  show "100 * \<bar>sint (fe_sub f g ! i)\<bar> \<le> (a + b) * 2 ^ (if even i then e else e - 1)"
    unfolding distrib_right fe_sub_limb [OF assms i]
    by (rule abs_diff_100 [OF fe_boundedD [OF assms(1) i] fe_boundedD [OF assms(2) i]])
qed simp

lemma fe_neg_bounded:
  assumes "fe_bounded a e f" "a * 2 ^ e < 100 * 2 ^ 31"
  shows "fe_bounded a e (fe_neg f)"
  using fe_boundedD [OF assms(1)] by (simp add: fe_bounded_def fe_neg_limb [OF assms])

lemma fe_copy_id: "length f = 10 \<Longrightarrow> fe_copy f = f"
  by (simp add: fe_copy_def list_eq_iff_nth_eq)

lemma fe_cmov_0: "length f = 10 \<Longrightarrow> fe_cmov f g 0 = f"
  by (simp add: fe_cmov_def list_eq_iff_nth_eq)

lemma fe_cmov_1: "length g = 10 \<Longrightarrow> fe_cmov f g 1 = g"
  by (simp add: fe_cmov_def list_eq_iff_nth_eq xor.assoc [symmetric])

lemma fe_val_0 [simp]: "fe_val fe_0 = 0" and fe_val_1 [simp]: "fe_val fe_1 = 1"
  by (simp_all add: fe_val_def sum_less_10 fe_0_def fe_1_def fe_exps_def)

lemma fe_bounded_0: "0 \<le> k \<Longrightarrow> fe_bounded k e fe_0"
  unfolding fe_bounded_def all_less_10 by (simp add: fe_0_def)

lemma fe_bounded_1: "1 \<le> k \<Longrightarrow> 7 \<le> e \<Longrightarrow> fe_bounded k e fe_1"
proof -
  assume k: "1 \<le> k" and e: "7 \<le> e"
  have "(2::int) ^ 7 \<le> 2 ^ e"
    by (rule power_increasing [OF e]) simp
  then have "100 \<le> k * 2 ^ e"
    using k mult_mono [of 1 k 128 "2 ^ e"] by simp
  then show ?thesis
    using k unfolding fe_bounded_def all_less_10 by (simp add: fe_1_def)
qed

section \<open>The carry chains\<close>

text \<open>The bounds after one carry, \<open>None\<close> when it could leave \<open>int64_t\<close>.\<close>

definition fe_carry_bd :: "nat \<Rightarrow> int list \<Rightarrow> int list option" where
  "fe_carry_bd i B =
     (let w = (if even i then 26 else 25); j = (if i = 9 then 0 else i + 1);
          m = (if i = 9 then 19 else 1); c = (B ! i + 2 ^ w - 1) div 2 ^ w
      in if i < 10 \<and> B ! i + 2 ^ w \<le> 2 ^ 63 \<and> B ! j + c * m < 2 ^ 63
         then Some (B[j := B ! j + c * m, i := 2 ^ (w - 1)]) else None)"

fun fe_carries_bd :: "nat list \<Rightarrow> int list \<Rightarrow> int list option" where
  "fe_carries_bd [] B = Some B"
| "fe_carries_bd (i # is) B = Option.bind (fe_carry_bd i B) (fe_carries_bd is)"

lemma fe_exps_carry: "i < 9 \<Longrightarrow> fe_exps ! (i + 1) = fe_exps ! i + (if even i then 26 else 25)"
proof -
  assume "i < 9"
  then have "i \<in> {0, 1, 2, 3, 4, 5, 6, 7, 8}"
    by (simp only: insert_iff empty_iff) presburger
  then show ?thesis
    by (auto simp: fe_exps_def)
qed

lemma length_fe_exps [simp]: "length fe_exps = 10"
  by (simp add: fe_exps_def)

lemma sint_push_bit_one [simp]: "sint (push_bit 24 1 :: i64) = 2 ^ 24" "sint (push_bit 25 1 :: i64) = 2 ^ 25"
  by (simp_all add: push_bit_mult_word)

lemma fe_carry_sound:
  assumes B: "limb_bounded B h" "length B = 10" and ok: "fe_carry_bd i B = Some B'"
  shows "limb_bounded B' (fe_carry i h)"
    and "eqm p25519 (limb_val fe_exps (fe_carry i h)) (limb_val fe_exps h)"
proof -
  have i: "i < 10"
    using ok by (simp add: fe_carry_bd_def Let_def split: if_splits)
  consider (wrap) "i = 9" | (even) "even i" "i < 9" | (odd) "odd i" "i < 9"
    using i by (cases "i = 9"; cases "even i") auto
  then have "limb_bounded B' (fe_carry i h)
      \<and> eqm p25519 (limb_val fe_exps (fe_carry i h)) (limb_val fe_exps h)"
  proof cases
    case wrap
    note c = limb_carry_bounded [OF B(1), of 9 0 "push_bit 24 1" "2 ^ 24" 25 19 19]
      limb_carry_val [OF B(1), of 9 0 "push_bit 24 1" "2 ^ 24" 25 19 19 _ fe_exps]
    let ?k = "(sint (h ! 9) + 2 ^ 24) div 2 ^ 25"
    have "limb_val fe_exps (fe_carry i h)
        = limb_val fe_exps h + p25519 * (- ?k)"
      using ok B(2) c(2) wrap by (simp add: fe_carry_bd_def fe_carry_def Let_def p25519_def
          fe_exps_def split: if_splits)
    then have "eqm p25519 (limb_val fe_exps (fe_carry i h)) (limb_val fe_exps h)"
      by (rule eqm_multiple)
    then show ?thesis
      using ok B(2) c(1) wrap
      by (auto simp add: fe_carry_bd_def fe_carry_def Let_def split: if_splits)
  next
    case even
    note c = limb_carry_bounded [OF B(1), of i "i + 1" "push_bit 25 1" "2 ^ 25" 26 1 1]
      limb_carry_val [OF B(1), of i "i + 1" "push_bit 25 1" "2 ^ 25" 26 1 1 _ fe_exps]
    show ?thesis
      using ok B(2) c even fe_exps_carry [of i]
      by (auto simp add: fe_carry_bd_def fe_carry_def Let_def power_add split: if_splits)
  next
    case odd
    note c = limb_carry_bounded [OF B(1), of i "i + 1" "push_bit 24 1" "2 ^ 24" 25 1 1]
      limb_carry_val [OF B(1), of i "i + 1" "push_bit 24 1" "2 ^ 24" 25 1 1 _ fe_exps]
    show ?thesis
      using ok B(2) c odd fe_exps_carry [of i]
      by (auto simp add: fe_carry_bd_def fe_carry_def Let_def power_add split: if_splits)
  qed
  then show "limb_bounded B' (fe_carry i h)"
    and "eqm p25519 (limb_val fe_exps (fe_carry i h)) (limb_val fe_exps h)" by auto
qed

lemma fe_carry_bd_length: "fe_carry_bd i B = Some B' \<Longrightarrow> length B' = length B"
  by (auto simp: fe_carry_bd_def Let_def split: if_splits)

lemma fold_fe_carry_length [simp]: "length (fold fe_carry is h) = length h"
  by (induction "is" arbitrary: h) (simp_all add: fe_carry_def)

lemma fe_carries_sound:
  assumes "limb_bounded B h" "length B = 10" "fe_carries_bd is B = Some B'"
  shows "limb_bounded B' (fold fe_carry is h)
      \<and> eqm p25519 (limb_val fe_exps (fold fe_carry is h)) (limb_val fe_exps h)"
  using assms
proof (induction "is" arbitrary: B h)
  case (Cons i "is")
  then obtain B1 where B1: "fe_carry_bd i B = Some B1" "fe_carries_bd is B1 = Some B'"
    by (auto simp: bind_eq_Some_conv)
  note step = fe_carry_sound [OF Cons.prems(1,2) B1(1)]
  have "length B1 = 10"
    using fe_carry_bd_length [OF B1(1)] Cons.prems(2) by simp
  from Cons.IH [OF step(1) this B1(2)] step(2) show ?case
    by (auto intro: eqm_trans)
qed simp

section \<open>The products\<close>

text \<open>
  Under the precondition of the comments (limbs below \<open>1.65 * 2^26\<close> and \<open>1.65 * 2^25\<close>) the 32-bit
  premultiplications by 2, 19 and 38 and the 64-bit sums of ten products are exact.
\<close>

lemma sint_numeral_mult_i32:
  "\<bar>numeral n * sint x\<bar> < 2 ^ 31 \<Longrightarrow> \<bar>numeral n :: int\<bar> < 2 ^ 31 \<Longrightarrow>
   sint (numeral n * x :: i32) = numeral n * sint x"
  by (rule sint_i32_eqI) simp_all

lemma abs_add_le: "\<bar>x :: int\<bar> \<le> a \<Longrightarrow> \<bar>y\<bar> \<le> b \<Longrightarrow> \<bar>x + y\<bar> \<le> a + b"
  by linarith

lemma abs_mult_le: "\<bar>x :: int\<bar> \<le> a \<Longrightarrow> \<bar>y\<bar> \<le> b \<Longrightarrow> \<bar>x * y\<bar> \<le> a * b"
  unfolding abs_mult by (rule mult_mono) auto

lemma abs_numeral_le: "\<bar>numeral n :: int\<bar> \<le> numeral n"
  by simp

lemmas abs_le_intros = abs_add_le abs_mult_le abs_numeral_le

definition fe_limb_bd :: "nat \<Rightarrow> int" where
  "fe_limb_bd i = (if even i then 110729625 else 55364812)"

lemma fe_limb_165:
  assumes "fe_bounded 165 26 f" "i < 10"
  shows "\<bar>sint (f ! i)\<bar> \<le> fe_limb_bd i"
  using fe_boundedD [OF assms] by (simp add: fe_limb_bd_def split: if_splits)

definition fe_mul_ints :: "(nat \<Rightarrow> int) \<Rightarrow> (nat \<Rightarrow> int) \<Rightarrow> int list" where
  "fe_mul_ints F G =
     [F 0 * G 0 + 2 * F 1 * (19 * G 9) + F 2 * (19 * G 8) + 2 * F 3 * (19 * G 7) + F 4 * (19 * G 6)
        + 2 * F 5 * (19 * G 5) + F 6 * (19 * G 4) + 2 * F 7 * (19 * G 3) + F 8 * (19 * G 2) + 2 * F 9 * (19 * G 1),
      F 0 * G 1 + F 1 * G 0 + F 2 * (19 * G 9) + F 3 * (19 * G 8) + F 4 * (19 * G 7)
        + F 5 * (19 * G 6) + F 6 * (19 * G 5) + F 7 * (19 * G 4) + F 8 * (19 * G 3) + F 9 * (19 * G 2),
      F 0 * G 2 + 2 * F 1 * G 1 + F 2 * G 0 + 2 * F 3 * (19 * G 9) + F 4 * (19 * G 8)
        + 2 * F 5 * (19 * G 7) + F 6 * (19 * G 6) + 2 * F 7 * (19 * G 5) + F 8 * (19 * G 4) + 2 * F 9 * (19 * G 3),
      F 0 * G 3 + F 1 * G 2 + F 2 * G 1 + F 3 * G 0 + F 4 * (19 * G 9)
        + F 5 * (19 * G 8) + F 6 * (19 * G 7) + F 7 * (19 * G 6) + F 8 * (19 * G 5) + F 9 * (19 * G 4),
      F 0 * G 4 + 2 * F 1 * G 3 + F 2 * G 2 + 2 * F 3 * G 1 + F 4 * G 0
        + 2 * F 5 * (19 * G 9) + F 6 * (19 * G 8) + 2 * F 7 * (19 * G 7) + F 8 * (19 * G 6) + 2 * F 9 * (19 * G 5),
      F 0 * G 5 + F 1 * G 4 + F 2 * G 3 + F 3 * G 2 + F 4 * G 1
        + F 5 * G 0 + F 6 * (19 * G 9) + F 7 * (19 * G 8) + F 8 * (19 * G 7) + F 9 * (19 * G 6),
      F 0 * G 6 + 2 * F 1 * G 5 + F 2 * G 4 + 2 * F 3 * G 3 + F 4 * G 2
        + 2 * F 5 * G 1 + F 6 * G 0 + 2 * F 7 * (19 * G 9) + F 8 * (19 * G 8) + 2 * F 9 * (19 * G 7),
      F 0 * G 7 + F 1 * G 6 + F 2 * G 5 + F 3 * G 4 + F 4 * G 3
        + F 5 * G 2 + F 6 * G 1 + F 7 * G 0 + F 8 * (19 * G 9) + F 9 * (19 * G 8),
      F 0 * G 8 + 2 * F 1 * G 7 + F 2 * G 6 + 2 * F 3 * G 5 + F 4 * G 4
        + 2 * F 5 * G 3 + F 6 * G 2 + 2 * F 7 * G 1 + F 8 * G 0 + 2 * F 9 * (19 * G 9),
      F 0 * G 9 + F 1 * G 8 + F 2 * G 7 + F 3 * G 6 + F 4 * G 5
        + F 5 * G 4 + F 6 * G 3 + F 7 * G 2 + F 8 * G 1 + F 9 * G 0]"

definition fe_mul_bd :: "int list" where
  "fe_mul_bd =
     [1526500696134443485,
      944100830127147000,
      1195452352106279851,
      723401934772749000,
      864404008078116217,
      502703039418351000,
      533355664049952583,
      282004144063953000,
      202307320021788949,
      61305248709555000]"

lemma fe_mul_prods_eq:
  assumes f: "fe_bounded 165 26 f" and g: "fe_bounded 165 26 g"
  shows "fe_mul_prods f g = map word_of_int (fe_mul_ints (\<lambda>i. sint (f ! i)) (\<lambda>i. sint (g ! i)))"
proof -
  have two: "sint (2 * f ! i) = 2 * sint (f ! i)" if "i < 10" for i
    by (rule sint_numeral_mult_i32) (use fe_limb_165 [OF f that] in \<open>simp_all add: fe_limb_bd_def split: if_splits\<close>)
  have nineteen: "sint (19 * g ! i) = 19 * sint (g ! i)" if "i < 10" for i
    by (rule sint_numeral_mult_i32) (use fe_limb_165 [OF g that] in \<open>simp_all add: fe_limb_bd_def split: if_splits\<close>)
  show ?thesis
    unfolding fe_mul_prods_def fe_mul_ints_def Let_def scast_eq by (simp add: two nineteen)
qed

text \<open>
  The limb weights are \<open>2\<close> to the power \<open>\<lceil>25.5 i\<rceil>\<close>: a product of two limbs lands on limb
  \<open>i + j\<close> or, past \<open>2\<^sup>255\<close>, on limb \<open>i + j - 10\<close>, and is doubled when both positions are odd.
\<close>

definition fe_coeff :: "nat \<Rightarrow> nat \<Rightarrow> int" where
  "fe_coeff i j = (if 10 \<le> i + j then 19 else 1) * (if odd i \<and> odd j then 2 else 1)"

lemma fe_exps_add:
  assumes "i < 10" "j < 10"
  shows "fe_exps ! i + fe_exps ! j = fe_exps ! ((i + j) mod 10)
    + (if 10 \<le> i + j then 255 else 0) + (if odd i \<and> odd j then 1 else 0)"
proof -
  have "list_all (\<lambda>i. list_all (\<lambda>j. fe_exps ! i + fe_exps ! j = fe_exps ! ((i + j) mod 10)
    + (if 10 \<le> i + j then 255 else 0) + (if odd i \<and> odd j then 1 else 0)) [0..<10]) [0..<10]"
    by code_simp
  then show ?thesis
    using assms by (simp add: list_all_iff)
qed

lemma fe_coeff_eqm:
  assumes "i < 10" "j < 10"
  shows "eqm p25519 (2 ^ (fe_exps ! i) * 2 ^ (fe_exps ! j))
    (fe_coeff i j * 2 ^ (fe_exps ! ((i + j) mod 10)))"
proof -
  have "eqm p25519 (2 ^ 255) 19"
    by (simp add: eqm_multiple [of _ _ _ 1] p25519_def)
  then have wrap: "eqm p25519 (2 ^ 255 * x) (19 * x)" for x
    by (intro eqm_mult) simp_all
  have "2 ^ (fe_exps ! i) * 2 ^ (fe_exps ! j) = (2::int) ^ (fe_exps ! i + fe_exps ! j)"
    by (simp add: power_add)
  also have "eqm p25519 \<dots> (fe_coeff i j * 2 ^ (fe_exps ! ((i + j) mod 10)))"
    using wrap [of "2 * 2 ^ (fe_exps ! ((i + j) mod 10))"] wrap [of "2 ^ (fe_exps ! ((i + j) mod 10))"]
    unfolding fe_exps_add [OF assms] fe_coeff_def by (simp add: power_add mult_ac)
  finally show ?thesis .
qed

lemma fe_mul_ints_nth:
  assumes "k < 10"
  shows "fe_mul_ints F G ! k =
    (\<Sum>i<10. fe_coeff i ((k + 10 - i) mod 10) * F i * G ((k + 10 - i) mod 10))"
  using assms unfolding less_10 fe_mul_ints_def sum_less_10
  by (elim insertE emptyE; simp add: fe_coeff_def)

lemma fe_mul_bd_nth:
  assumes "k < 10"
  shows "fe_mul_bd ! k = (\<Sum>i<10. fe_coeff i ((k + 10 - i) mod 10) * fe_limb_bd i
    * fe_limb_bd ((k + 10 - i) mod 10))"
  using assms unfolding less_10 fe_mul_bd_def sum_less_10
  by (elim insertE emptyE; simp add: fe_coeff_def fe_limb_bd_def)

lemma length_fe_mul_ints [simp]: "length (fe_mul_ints F G) = 10" "length fe_mul_bd = 10"
  by (simp_all add: fe_mul_ints_def fe_mul_bd_def)

lemma fe_mul_ints_bound:
  assumes F: "\<And>i. i < 10 \<Longrightarrow> \<bar>F i\<bar> \<le> fe_limb_bd i" and G: "\<And>i. i < 10 \<Longrightarrow> \<bar>G i\<bar> \<le> fe_limb_bd i"
  shows "list_all2 (\<lambda>b x. \<bar>x\<bar> \<le> b) fe_mul_bd (fe_mul_ints F G)"
  unfolding list_all2_conv_all_nth
proof (intro conjI allI impI)
  fix k assume "k < length fe_mul_bd"
  then have k: "k < 10" by simp
  have "\<bar>fe_mul_ints F G ! k\<bar>
      \<le> (\<Sum>i<10. \<bar>fe_coeff i ((k + 10 - i) mod 10) * F i * G ((k + 10 - i) mod 10)\<bar>)"
    unfolding fe_mul_ints_nth [OF k] by (rule sum_abs)
  also have "\<dots> \<le> fe_mul_bd ! k"
    unfolding fe_mul_bd_nth [OF k]
    by (intro sum_mono abs_mult_le F G) (auto simp: fe_coeff_def)
  finally show "\<bar>fe_mul_ints F G ! k\<bar> \<le> fe_mul_bd ! k" .
qed simp

lemma rotate_10:
  assumes "i < 10" "k < (10::nat)"
  shows "(i + (k + 10 - i) mod 10) mod 10 = k" and "((i + k) mod 10 + 10 - i) mod 10 = k"
proof -
  show "(i + (k + 10 - i) mod 10) mod 10 = k"
    using assms by (simp add: mod_add_right_eq)
  show "((i + k) mod 10 + 10 - i) mod 10 = k"
    using assms by (cases "i + k < 10") (simp_all add: mod_if)
qed

lemma sum_rotate_10:
  assumes "i < 10"
  shows "(\<Sum>k<10. g k ((k + 10 - i) mod 10)) = (\<Sum>j<10. (g :: nat \<Rightarrow> nat \<Rightarrow> int) ((i + j) mod 10) j)"
  by (rule sum.reindex_bij_witness [of _ "\<lambda>j. (i + j) mod 10" "\<lambda>k. (k + 10 - i) mod 10"])
     (simp_all add: rotate_10 assms)

lemma eqm_sum: "(\<And>i. i \<in> A \<Longrightarrow> eqm m (f i) (g i)) \<Longrightarrow> eqm m (\<Sum>i\<in>A. f i) (\<Sum>i\<in>A. g i)"
  by (induction A rule: infinite_finite_induct) (auto intro: eqm_add)

lemma fe_mul_ints_val:
  "eqm p25519 (\<Sum>k<10. fe_mul_ints F G ! k * 2 ^ (fe_exps ! k))
     ((\<Sum>i<10. F i * 2 ^ (fe_exps ! i)) * (\<Sum>j<10. G j * 2 ^ (fe_exps ! j)))"
proof -
  let ?t = "\<lambda>i k j. fe_coeff i j * F i * G j * 2 ^ (fe_exps ! k)"
  have "(\<Sum>k<10. fe_mul_ints F G ! k * 2 ^ (fe_exps ! k))
      = (\<Sum>k<10. \<Sum>i<10. ?t i k ((k + 10 - i) mod 10))"
    by (intro sum.cong refl) (simp add: fe_mul_ints_nth sum_distrib_right)
  also have "\<dots> = (\<Sum>i<10. \<Sum>k<10. ?t i k ((k + 10 - i) mod 10))"
    by (rule sum.swap)
  also have "\<dots> = (\<Sum>i<10. \<Sum>j<10. ?t i ((i + j) mod 10) j)"
    by (intro sum.cong refl sum_rotate_10) simp
  also have "eqm p25519 \<dots> (\<Sum>i<10. \<Sum>j<10. (F i * G j) * (2 ^ (fe_exps ! i) * 2 ^ (fe_exps ! j)))"
  proof (intro eqm_sum)
    fix i j :: nat assume "i \<in> {..<10}" "j \<in> {..<10}"
    then have "eqm p25519 ((F i * G j) * (fe_coeff i j * 2 ^ (fe_exps ! ((i + j) mod 10))))
        ((F i * G j) * (2 ^ (fe_exps ! i) * 2 ^ (fe_exps ! j)))"
      by (intro eqm_mult eqm_refl eqm_sym [OF fe_coeff_eqm]) auto
    then show "eqm p25519 (?t i ((i + j) mod 10) j) ((F i * G j) * (2 ^ (fe_exps ! i) * 2 ^ (fe_exps ! j)))"
      by (simp add: mult_ac)
  qed
  also have "(\<Sum>i<10. \<Sum>j<10. (F i * G j) * (2 ^ (fe_exps ! i) * 2 ^ (fe_exps ! j)))
      = (\<Sum>i<10. F i * 2 ^ (fe_exps ! i)) * (\<Sum>j<10. G j * 2 ^ (fe_exps ! j))"
    by (simp add: sum_product mult_ac)
  finally show ?thesis .
qed

section \<open>Multiplication and squaring\<close>

lemma fe_store_limb:
  assumes "limb_bounded B h" "length B = 10" "\<forall>b\<in>set B. b < 2 ^ 31" "i < 10"
  shows "sint (fe_store h ! i) = sint (h ! i)"
proof -
  have "\<bar>sint (h ! i)\<bar> < 2 ^ 31"
    using limb_boundedD [OF assms(1), of i] assms(2-4) by (auto intro: order_le_less_trans)
  then show ?thesis
    using assms(4) by (simp add: fe_store_def sint_ucast_i32)
qed

lemma fe_store_val:
  assumes "limb_bounded B h" "length B = 10" "\<forall>b\<in>set B. b < 2 ^ 31"
  shows "fe_val (fe_store h) = limb_val fe_exps h"
  by (simp add: fe_val_def limb_val_def fe_store_limb [OF assms])

lemma fe_store_bounded:
  assumes "limb_bounded B h" "length B = 10" "\<forall>b\<in>set B. b < 2 ^ 31"
    and "\<forall>i<10. 100 * B ! i \<le> k * 2 ^ (if even i then e else e - 1)"
  shows "fe_bounded k e (fe_store h)"
  unfolding fe_bounded_def
proof (intro conjI allI impI)
  fix i :: nat assume i: "i < 10"
  have "100 * \<bar>sint (fe_store h ! i)\<bar> \<le> 100 * B ! i"
    using limb_boundedD [OF assms(1), of i] assms(2) i by (simp add: fe_store_limb [OF assms(1-3) i])
  also have "\<dots> \<le> k * 2 ^ (if even i then e else e - 1)"
    using assms(4) i by blast
  finally show "100 * \<bar>sint (fe_store h ! i)\<bar> \<le> k * 2 ^ (if even i then e else e - 1)" .
qed simp

lemma fe_mul_bd_carried:
  "fe_carries_bd fe_mul_carries fe_mul_bd = Some
    [33554432, 16777734, 33554432, 16777216, 33554432, 16777538, 33554432, 16777216, 33554432, 16777216]"
  by code_simp

lemma fe_mul_bd_doubled_carried:
  "fe_carries_bd fe_mul_carries (map ((*) 2) fe_mul_bd) = Some
    [33554432, 16778252, 33554432, 16777216, 33554432, 16777860, 33554432, 16777216, 33554432, 16777216]"
  by code_simp

text \<open>The common end of the three routines, once the products are known as integers.\<close>

lemma fe_carried_store:
  assumes B: "limb_bounded B h" "length B = 10"
    and ok: "fe_carries_bd cs B = Some B'"
    and s: "\<forall>b\<in>set B'. b < 2 ^ 31"
      "\<forall>i<10. 100 * B' ! i \<le> 101 * 2 ^ (if even i then 25 else 25 - 1)"
  shows "eqm p25519 (fe_val (fe_store (fold fe_carry cs h))) (limb_val fe_exps h)"
    and "fe_bounded 101 25 (fe_store (fold fe_carry cs h))"
proof -
  note c = fe_carries_sound [OF B ok]
  have len: "length B' = 10"
    using c limb_bounded_length B by (metis fold_fe_carry_length limb_bounded_length)
  show "eqm p25519 (fe_val (fe_store (fold fe_carry cs h))) (limb_val fe_exps h)"
    using c fe_store_val [of B'] len s(1) by simp
  show "fe_bounded 101 25 (fe_store (fold fe_carry cs h))"
    using fe_store_bounded [OF _ len s] c by blast
qed

lemma fe_prods_ints:
  assumes f: "fe_bounded 165 26 f" and g: "fe_bounded 165 26 g"
  shows "limb_bounded fe_mul_bd (fe_mul_prods f g)"
    and "eqm p25519 (limb_val fe_exps (fe_mul_prods f g)) (fe_val f * fe_val g)"
proof -
  have ints: "list_all2 (\<lambda>b x. \<bar>x\<bar> \<le> b) fe_mul_bd
      (fe_mul_ints (\<lambda>i. sint (f ! i)) (\<lambda>i. sint (g ! i)))"
    by (intro fe_mul_ints_bound fe_limb_165 f g)
  have small: "\<forall>b\<in>set fe_mul_bd. b < 2 ^ 63"
    by (simp add: fe_mul_bd_def)
  show "limb_bounded fe_mul_bd (fe_mul_prods f g)"
    unfolding fe_mul_prods_eq [OF f g] by (rule limb_bounded_of_ints [OF ints small])
  show "eqm p25519 (limb_val fe_exps (fe_mul_prods f g)) (fe_val f * fe_val g)"
    unfolding fe_mul_prods_eq [OF f g] fe_val_def
    by (subst limb_val_of_ints [OF ints small]) (simp_all add: fe_mul_ints_val)
qed

lemma fe_mul_val:
  assumes "fe_bounded 165 26 f" "fe_bounded 165 26 g"
  shows "eqm p25519 (fe_val (fe_mul f g)) (fe_val f * fe_val g)"
  unfolding fe_mul_def using fe_prods_ints [OF assms]
  by (intro eqm_trans [OF fe_carried_store(1) [OF _ _ fe_mul_bd_carried]]) (simp_all add: all_less_10)

lemma fe_mul_bounded:
  assumes "fe_bounded 165 26 f" "fe_bounded 165 26 g"
  shows "fe_bounded 101 25 (fe_mul f g)"
  unfolding fe_mul_def using fe_prods_ints [OF assms]
  by (intro fe_carried_store(2) [OF _ _ fe_mul_bd_carried]) (simp_all add: all_less_10)

text \<open>
  The squarings: their regrouped products are those of a multiplication of \<open>f\<close> by itself.
\<close>

definition fe_sq_ints :: "(nat \<Rightarrow> int) \<Rightarrow> int list" where
  "fe_sq_ints F =
     [F 0 * F 0 + (2 * F 1) * (38 * F 9) + (2 * F 2) * (19 * F 8) + (2 * F 3) * (38 * F 7) + (2 * F 4) * (19 * F 6) + F 5 * (38 * F 5),
      (2 * F 0) * F 1 + F 2 * (38 * F 9) + (2 * F 3) * (19 * F 8) + F 4 * (38 * F 7) + (2 * F 5) * (19 * F 6),
      (2 * F 0) * F 2 + (2 * F 1) * F 1 + (2 * F 3) * (38 * F 9) + (2 * F 4) * (19 * F 8) + (2 * F 5) * (38 * F 7) + F 6 * (19 * F 6),
      (2 * F 0) * F 3 + (2 * F 1) * F 2 + F 4 * (38 * F 9) + (2 * F 5) * (19 * F 8) + F 6 * (38 * F 7),
      (2 * F 0) * F 4 + (2 * F 1) * (2 * F 3) + F 2 * F 2 + (2 * F 5) * (38 * F 9) + (2 * F 6) * (19 * F 8) + F 7 * (38 * F 7),
      (2 * F 0) * F 5 + (2 * F 1) * F 4 + (2 * F 2) * F 3 + F 6 * (38 * F 9) + (2 * F 7) * (19 * F 8),
      (2 * F 0) * F 6 + (2 * F 1) * (2 * F 5) + (2 * F 2) * F 4 + (2 * F 3) * F 3 + (2 * F 7) * (38 * F 9) + F 8 * (19 * F 8),
      (2 * F 0) * F 7 + (2 * F 1) * F 6 + (2 * F 2) * F 5 + (2 * F 3) * F 4 + F 8 * (38 * F 9),
      (2 * F 0) * F 8 + (2 * F 1) * (2 * F 7) + (2 * F 2) * F 6 + (2 * F 3) * (2 * F 5) + F 4 * F 4 + F 9 * (38 * F 9),
      (2 * F 0) * F 9 + (2 * F 1) * F 8 + (2 * F 2) * F 7 + (2 * F 3) * F 6 + (2 * F 4) * F 5]"

lemma fe_sq_ints_eq: "fe_sq_ints F = fe_mul_ints F F"
  unfolding fe_sq_ints_def fe_mul_ints_def by (simp add: algebra_simps)

lemma fe_sq_prods_eq:
  assumes f: "fe_bounded 165 26 f"
  shows "fe_sq_prods f = fe_mul_prods f f"
proof -
  have two: "sint (2 * f ! i) = 2 * sint (f ! i)" if "i < 10" for i
    by (rule sint_numeral_mult_i32)
      (use fe_limb_165 [OF f that] in \<open>simp_all add: fe_limb_bd_def split: if_splits\<close>)
  have nineteen: "sint (19 * f ! i) = 19 * sint (f ! i)" if "i < 10" for i
    by (rule sint_numeral_mult_i32)
      (use fe_limb_165 [OF f that] in \<open>simp_all add: fe_limb_bd_def split: if_splits\<close>)
  have thirtyeight: "sint (38 * f ! i) = 38 * sint (f ! i)" if "i < 10" "odd i" for i
    by (rule sint_numeral_mult_i32)
      (use fe_limb_165 [OF f that(1)] that(2) in \<open>simp_all add: fe_limb_bd_def split: if_splits\<close>)
  have "fe_sq_prods f = map word_of_int (fe_sq_ints (\<lambda>i. sint (f ! i)))"
    unfolding fe_sq_prods_def fe_sq_ints_def Let_def scast_eq
    by (simp add: two nineteen thirtyeight)
  then show ?thesis
    by (simp only: fe_sq_ints_eq fe_mul_prods_eq [OF f f])
qed

lemma fe_sq_eq_mul: "fe_bounded 165 26 f \<Longrightarrow> fe_sq f = fe_mul f f"
  by (simp add: fe_sq_def fe_mul_def fe_sq_prods_eq)

lemma fe_sq_val: "fe_bounded 165 26 f \<Longrightarrow> eqm p25519 (fe_val (fe_sq f)) (fe_val f ^ 2)"
  by (simp add: fe_sq_eq_mul power2_eq_square fe_mul_val)

lemma fe_sq_bounded: "fe_bounded 165 26 f \<Longrightarrow> fe_bounded 101 25 (fe_sq f)"
  by (simp add: fe_sq_eq_mul fe_mul_bounded)

lemma fe_sq2_prods_ints:
  assumes f: "fe_bounded 165 26 f"
  shows "limb_bounded (map ((*) 2) fe_mul_bd) (fe_sq2_prods f)"
    and "limb_val fe_exps (fe_sq2_prods f) = 2 * limb_val fe_exps (fe_mul_prods f f)"
proof -
  note B = fe_prods_ints(1) [OF f f]
  have small: "fe_mul_bd ! i < 2 ^ 62" if "i < 10" for i
  proof -
    have "list_all (\<lambda>b. b < 2 ^ 62) fe_mul_bd"
      by (simp add: fe_mul_bd_def)
    then show ?thesis using that by (simp add: list_all_length)
  qed
  have len: "length (fe_mul_prods f f) = 10"
    using limb_bounded_length [OF B] by simp
  have limb: "sint (fe_sq2_prods f ! i) = 2 * sint (fe_mul_prods f f ! i)" if "i < 10" for i
  proof -
    have "fe_sq2_prods f ! i = fe_mul_prods f f ! i + fe_mul_prods f f ! i"
      using that len by (simp add: fe_sq2_prods_def fe_sq_prods_eq [OF f])
    also have "sint \<dots> = sint (fe_mul_prods f f ! i) + sint (fe_mul_prods f f ! i)"
      using limb_boundedD [OF B, of i] small [OF that] that by (intro sint_add_i64) simp
    finally show ?thesis by simp
  qed
  show "limb_bounded (map ((*) 2) fe_mul_bd) (fe_sq2_prods f)"
    unfolding limb_bounded_def
  proof (intro conjI allI impI)
    show "length (fe_sq2_prods f) = length (map ((*) 2) fe_mul_bd)"
      using len by (simp add: fe_sq2_prods_def fe_sq_prods_eq [OF f])
    fix i assume "i < length (map ((*) 2) fe_mul_bd)"
    then show "\<bar>sint (fe_sq2_prods f ! i)\<bar> \<le> map ((*) 2) fe_mul_bd ! i"
      using limb [of i] limb_boundedD [OF B, of i] by (simp add: abs_mult)
  qed
  show "limb_val fe_exps (fe_sq2_prods f) = 2 * limb_val fe_exps (fe_mul_prods f f)"
    by (simp add: limb_val_def limb sum_distrib_left mult.assoc)
qed

lemma fe_sq2_val:
  assumes "fe_bounded 165 26 f"
  shows "eqm p25519 (fe_val (fe_sq2 f)) (2 * fe_val f ^ 2)"
proof -
  have "eqm p25519 (fe_val (fe_sq2 f)) (limb_val fe_exps (fe_sq2_prods f))"
    unfolding fe_sq2_def using fe_sq2_prods_ints(1) [OF assms]
    by (intro fe_carried_store(1) [OF _ _ fe_mul_bd_doubled_carried]) (simp_all add: all_less_10)
  also have "limb_val fe_exps (fe_sq2_prods f) = 2 * limb_val fe_exps (fe_mul_prods f f)"
    by (rule fe_sq2_prods_ints(2) [OF assms])
  also have "eqm p25519 \<dots> (2 * (fe_val f * fe_val f))"
    by (intro eqm_mult eqm_refl fe_prods_ints(2) assms)
  finally show ?thesis by (simp add: power2_eq_square)
qed

lemma fe_sq2_bounded:
  assumes "fe_bounded 165 26 f"
  shows "fe_bounded 101 25 (fe_sq2 f)"
  unfolding fe_sq2_def using fe_sq2_prods_ints(1) [OF assms]
  by (intro fe_carried_store(2) [OF _ _ fe_mul_bd_doubled_carried]) (simp_all add: all_less_10)

end
