(* ===== verification/FieldBytes.thy ===== *)
theory FieldBytes
  imports FieldElem Bytes
begin

text \<open>
  Field elements as byte strings: \<open>fe_tobytes\<close>, \<open>fe_isnegative\<close>, \<open>fe_isnonzero\<close> and the decoder
  \<^verbatim>\<open>fe_frombytes\<close> that \<open>ge_frombytes_vartime\<close> and \<open>ge_fromfe_frombytes_vartime\<close> inline
  (\<^verbatim>\<open>src/base/tools/cryptonote/crypto-ops.c\<close>).  The encoder writes the unique representative
  below \<open>p25519\<close>; the tests read the encoding; the decoder is exact on every 32-byte string and its
  rejection of non-canonical strings is characterised.
\<close>

unbundle bit_operations_syntax

section \<open>The encoder\<close>

definition fe_widths :: "nat list" where
  "fe_widths = [26, 25, 26, 25, 26, 25, 26, 25, 26, 25]"

text \<open>The chain of assignments \<^verbatim>\<open>q = (h0 + q) >> 26; \<dots> q = (h9 + q) >> 25;\<close>.\<close>

definition fe_tobytes_q :: "fe \<Rightarrow> i32" where
  "fe_tobytes_q h = fold (\<lambda>i q. signed_drop_bit (fe_widths ! i) (h ! i + q)) [0..<10]
     (signed_drop_bit 25 (19 * h ! 9 + push_bit 24 1))"

text \<open>The carries in place; \<^verbatim>\<open>carry9\<close> is only taken out of \<^verbatim>\<open>h9\<close>.\<close>

definition fe_tobytes_limbs :: "fe \<Rightarrow> fe" where
  "fe_tobytes_limbs h =
     (let h = h[0 := h ! 0 + 19 * fe_tobytes_q h];
          h = floor_carries fe_widths 9 h;
          carry9 = signed_drop_bit 25 (h ! 9)
      in h[9 := h ! 9 - push_bit 25 carry9])"

text \<open>The stores \<^verbatim>\<open>s[0] = h0 >> 0; \<dots> s[3] = (h0 >> 24) | (h1 << 2); \<dots> s[31] = h9 >> 18;\<close>.\<close>

definition fe_stores :: "store list" where
  "fe_stores =
    [(0, 0, None), (0, 8, None), (0, 16, None), (0, 24, Some 2), (1, 6, None),
     (1, 14, None), (1, 22, Some 3), (2, 5, None), (2, 13, None), (2, 21, Some 5),
     (3, 3, None), (3, 11, None), (3, 19, Some 6), (4, 2, None), (4, 10, None),
     (4, 18, None), (5, 0, None), (5, 8, None), (5, 16, None), (5, 24, Some 1),
     (6, 7, None), (6, 15, None), (6, 23, Some 3), (7, 5, None), (7, 13, None),
     (7, 21, Some 4), (8, 4, None), (8, 12, None), (8, 20, Some 6), (9, 2, None),
     (9, 10, None), (9, 18, None)]"

definition fe_tobytes :: "fe \<Rightarrow> byte list" where
  "fe_tobytes h = map (limb_byte (fe_tobytes_limbs h)) fe_stores"

definition fe_isnegative :: "fe \<Rightarrow> i32" where
  "fe_isnegative f = ucast (fe_tobytes f ! 0 AND 1)"

definition fe_isnonzero :: "fe \<Rightarrow> i32" where
  "fe_isnonzero f = bytes_isnonzero (fe_tobytes f)"

section \<open>The quotient\<close>

lemma length_fe_widths [simp]: "length fe_widths = 10"
  by (simp add: fe_widths_def)

lemma wpos_fe_widths: "i < 10 \<Longrightarrow> wpos fe_widths i = fe_exps ! i"
  unfolding less_10 wpos_def fe_widths_def fe_exps_def
  by (elim insertE emptyE; simp add: eval_nat_numeral lessThan_Suc)

lemma wpos_fe_widths_10: "wpos fe_widths 10 = 255"
  unfolding wpos_def fe_widths_def by (simp add: eval_nat_numeral lessThan_Suc)

lemma wval_fe_widths: "wval fe_widths 10 h = fe_val h"
  by (simp add: wval_def fe_val_def wpos_fe_widths)

lemma fe_top_limb: "wpos fe_widths 9 = 230" "fe_exps ! 9 = 230" "fe_widths ! 9 = 25"
  by (simp_all add: wpos_fe_widths) (simp_all add: fe_exps_def fe_widths_def)

lemma fe_widths_range: "i < 10 \<Longrightarrow> 1 \<le> fe_widths ! i \<and> fe_widths ! i < 32"
  unfolding less_10 fe_widths_def by (elim insertE emptyE; simp)

lemma fe_tobytes_limb:
  assumes "fe_bounded 165 26 h" "i < 10"
  shows "\<bar>sint (h ! i)\<bar> \<le> (if even i then 110729626 else 55364813)"
  using fe_boundedD [OF assms] by (simp split: if_splits)

lemma fold_q_chain:
  fixes h :: fe
  assumes h: "\<forall>i<n. \<bar>sint (h ! i)\<bar> \<le> M" and ws: "\<forall>i<n. 1 \<le> ws ! i"
    and c: "\<bar>sint q\<bar> \<le> M" "1 \<le> M" "2 * M < 2 ^ 31"
  shows "sint (fold (\<lambda>i q. signed_drop_bit (ws ! i) (h ! i + q)) [0..<n] q)
      = (sint q + wval ws n h) div 2 ^ wpos ws n
    \<and> \<bar>sint (fold (\<lambda>i q. signed_drop_bit (ws ! i) (h ! i + q)) [0..<n] q)\<bar> \<le> M"
  using h ws
proof (induction n)
  case 0
  then show ?case using c by simp
next
  case (Suc n)
  let ?q = "fold (\<lambda>i q. signed_drop_bit (ws ! i) (h ! i + q)) [0..<n] q"
  have IH: "sint ?q = (sint q + wval ws n h) div 2 ^ wpos ws n" "\<bar>sint ?q\<bar> \<le> M"
    using Suc by auto
  have hn: "\<bar>sint (h ! n)\<bar> \<le> M" and wn: "1 \<le> ws ! n"
    using Suc.prems by auto
  have add: "sint (h ! n + ?q) = sint (h ! n) + sint ?q"
    using hn IH(2) c(3) by (intro sint_add_i32) linarith
  have "\<bar>(sint (h ! n) + sint ?q) div 2 ^ (ws ! n)\<bar> \<le> M"
    using hn IH(2) c(2) wn by (intro div_pow2_abs_le) auto
  moreover have "(sint (h ! n) + sint ?q) div 2 ^ (ws ! n)
      = (sint q + wval ws (Suc n) h) div 2 ^ wpos ws (Suc n)"
  proof -
    have "sint (h ! n) + sint ?q = (sint q + wval ws (Suc n) h) div 2 ^ wpos ws n"
      by (simp add: IH(1) add.assoc [symmetric])
    then show ?thesis
      by (simp add: power_add zdiv_zmult2_eq)
  qed
  ultimately show ?case
    by (simp add: sint_shift_right add)
qed

text \<open>
  The claim of the comment above \<open>fe_tobytes\<close>: \<open>q\<close> is the quotient of the element by \<open>p25519\<close>.  The
  comment argues from \<open>|h| \<le> p\<close>, which its own precondition does not give (the limbs may reach
  \<open>1.1 * 2\<^sup>255\<close>); the estimate below does not need it.
\<close>

lemma quotient_estimate:
  fixes H h9 L c :: int
  assumes H: "H = L + h9 * 2 ^ 230" and L: "\<bar>L\<bar> \<le> 2 ^ 231" and h9: "\<bar>h9\<bar> \<le> 2 ^ 26"
    and c: "c = (19 * h9 + 2 ^ 24) div 2 ^ 25"
  shows "(c + H) div 2 ^ 255 = H div p25519"
proof -
  define q r where "q = H div p25519" and "r = H mod p25519"
  have Hqr: "H = p25519 * q + r" and r: "0 \<le> r" "r < p25519"
    by (simp_all add: q_def r_def)
  have c': "2 ^ 25 * c \<le> 19 * h9 + 2 ^ 24" "19 * h9 + 2 ^ 24 < 2 ^ 25 * c + 2 ^ 25"
    unfolding c by (rule div_bounds, simp)+
  have X: "p25519 * (c - 19 * q + r) = 2 ^ 255 * c - 19 * c - 19 * L - 19 * h9 * 2 ^ 230 + 2 ^ 255 * r"
    using H Hqr unfolding p25519_def by (simp add: algebra_simps)
  have lo: "- p25519 < p25519 * (c - 19 * q + r)"
    unfolding X using c' L h9 r(1) unfolding p25519_def by (simp add: abs_le_iff)
  have hi: "p25519 * (c - 19 * q + r) < p25519 * 2 ^ 255"
    unfolding X using c' L h9 r unfolding p25519_def by (simp add: abs_le_iff)
  have "0 \<le> c - 19 * q + r"
    using lo by (simp add: zero_le_mult_iff p25519_def)
  moreover have "c - 19 * q + r < 2 ^ 255"
    using hi by (simp add: p25519_def)
  moreover have "c + H = 2 ^ 255 * q + (c - 19 * q + r)"
    using Hqr by (simp add: p25519_def algebra_simps)
  ultimately show ?thesis
    unfolding q_def [symmetric] by simp
qed

lemma sum_less_9: "(\<Sum>i<(9::nat). f i) = f 0 + f 1 + f 2 + f 3 + f 4 + f 5 + f 6 + f 7 + (f 8 :: int)"
  by (simp add: numeral_eq_Suc)

lemma fe_val_split:
  assumes "fe_bounded 165 26 h"
  shows "\<exists>L. fe_val h = L + sint (h ! 9) * 2 ^ 230 \<and> \<bar>L\<bar> \<le> 2 ^ 231"
proof -
  let ?L = "\<Sum>i<9. sint (h ! i) * 2 ^ (fe_exps ! i)"
  have "(10::nat) = Suc 9" "fe_exps ! 9 = 230"
    by (simp_all add: fe_exps_def)
  then have "fe_val h = ?L + sint (h ! 9) * 2 ^ 230"
    unfolding fe_val_def by (simp only: sum.lessThan_Suc)
  moreover have "\<bar>?L\<bar> \<le> (\<Sum>i<9. (if even i then 110729626 else 55364813) * 2 ^ (fe_exps ! i))"
  proof (rule order_trans [OF sum_abs], rule sum_mono)
    fix i :: nat assume "i \<in> {..<9}"
    then show "\<bar>sint (h ! i) * 2 ^ (fe_exps ! i)\<bar> \<le> (if even i then 110729626 else 55364813) * 2 ^ (fe_exps ! i)"
      using fe_tobytes_limb [OF assms, of i] by (simp add: abs_mult mult_right_mono)
  qed
  moreover have "(\<Sum>i<9. (if even i then 110729626 else 55364813) * 2 ^ (fe_exps ! i)) \<le> (2 ^ 231 :: int)"
    unfolding sum_less_9 by (simp add: fe_exps_def)
  ultimately show ?thesis
    by (intro exI [of _ ?L]) linarith
qed

lemma fe_tobytes_q_val:
  assumes "fe_bounded 165 26 h"
  shows "sint (fe_tobytes_q h) = fe_val h div p25519" and "\<bar>sint (fe_tobytes_q h)\<bar> \<le> 110729626"
proof -
  have h9: "\<bar>sint (h ! 9)\<bar> \<le> 55364813"
    using fe_tobytes_limb [OF assms, of 9] by simp
  let ?c = "signed_drop_bit 25 (19 * h ! 9 + push_bit 24 1) :: i32"
  have "sint (19 * h ! 9) = 19 * sint (h ! 9)"
    using h9 by (intro sint_numeral_mult_i32) simp_all
  then have "sint (19 * h ! 9 + push_bit 24 1) = 19 * sint (h ! 9) + 2 ^ 24"
    using h9 sint_add_i32 [of "19 * h ! 9" "push_bit 24 1"] by (simp add: push_bit_mult_word)
  then have c: "sint ?c = (19 * sint (h ! 9) + 2 ^ 24) div 2 ^ 25"
    by (simp add: sint_shift_right)
  have "\<bar>sint ?c\<bar> \<le> 110729626"
  proof -
    have "\<bar>(19 * sint (h ! 9) + 2 ^ 24) div 2 ^ 25\<bar> \<le> (19 * 55364813 + 2 ^ 25 - 1) div 2 ^ 25"
      using h9 by (intro carry_div_bound) (simp_all add: abs_mult)
    then show ?thesis unfolding c by simp
  qed
  note chain = fold_q_chain [of 10 h 110729626 fe_widths ?c, OF _ _ this]
  have limbs: "\<forall>i<10. \<bar>sint (h ! i)\<bar> \<le> 110729626"
  proof (intro allI impI)
    fix i :: nat assume "i < 10"
    then show "\<bar>sint (h ! i)\<bar> \<le> 110729626"
      using fe_tobytes_limb [OF assms, of i] by (simp split: if_splits)
  qed
  have ws: "\<forall>i<10. 1 \<le> fe_widths ! i"
    using fe_widths_range by blast
  have "sint (fe_tobytes_q h) = (sint ?c + fe_val h) div 2 ^ 255 \<and> \<bar>sint (fe_tobytes_q h)\<bar> \<le> 110729626"
    unfolding fe_tobytes_q_def wval_fe_widths [symmetric] wpos_fe_widths_10 [symmetric]
    by (rule chain [OF limbs ws]) simp_all
  then have q: "sint (fe_tobytes_q h) = (sint ?c + fe_val h) div 2 ^ 255"
    "\<bar>sint (fe_tobytes_q h)\<bar> \<le> 110729626"
    by blast+
  show "\<bar>sint (fe_tobytes_q h)\<bar> \<le> 110729626"
    by (rule q(2))
  obtain L where L: "fe_val h = L + sint (h ! 9) * 2 ^ 230" "\<bar>L\<bar> \<le> 2 ^ 231"
    using fe_val_split [OF assms] by blast
  have "\<bar>sint (h ! 9)\<bar> \<le> 2 ^ 26"
    using h9 by simp
  from quotient_estimate [OF L this c] show "sint (fe_tobytes_q h) = fe_val h div p25519"
    by (simp add: q(1))
qed

lemma fe_val_quotient_small:
  assumes "fe_bounded 165 26 h"
  shows "\<bar>fe_val h div p25519\<bar> \<le> 2"
proof -
  have "\<bar>sint (h ! 9)\<bar> \<le> 55364813"
    using fe_tobytes_limb [OF assms, of 9] by simp
  then have "\<bar>fe_val h\<bar> \<le> 2 * p25519"
    using fe_val_split [OF assms] by (auto simp: p25519_def abs_le_iff)
  then have "fe_val h div p25519 \<le> (2 * p25519) div p25519" "(- 2 * p25519) div p25519 \<le> fe_val h div p25519"
    by (intro zdiv_mono1; simp)+
  then show ?thesis
    by (simp add: p25519_def)
qed

section \<open>The digits and the bytes\<close>

text \<open>After the carries the limbs are the digits of the representative below \<open>p25519\<close>.\<close>

lemma fe_tobytes_limbs_digits:
  assumes "fe_bounded 165 26 h" "i < 10"
  shows "sint (fe_tobytes_limbs h ! i) = ((fe_val h mod p25519) div 2 ^ (fe_exps ! i)) mod 2 ^ (fe_widths ! i)"
proof -
  define q where "q = fe_val h div p25519"
  define h' where "h' = h[0 := h ! 0 + 19 * fe_tobytes_q h]"
  have len: "length h = 10"
    using assms(1) by (rule fe_bounded_length)
  have q: "sint (fe_tobytes_q h) = q" "\<bar>q\<bar> \<le> 2"
    using fe_tobytes_q_val(1) [OF assms(1)] fe_val_quotient_small [OF assms(1)] by (simp_all add: q_def)
  have h0: "\<bar>sint (h ! 0)\<bar> \<le> 110729626"
    using fe_tobytes_limb [OF assms(1), of 0] by simp
  have "sint (19 * fe_tobytes_q h) = 19 * q"
    using q by (subst sint_numeral_mult_i32) simp_all
  then have h'0: "sint (h' ! 0) = sint (h ! 0) + 19 * q"
    using q h0 len sint_add_i32 [of "h ! 0" "19 * fe_tobytes_q h"] by (simp add: h'_def)
  have h'i: "h' ! j = h ! j" if "j \<noteq> 0" for j
    using that by (simp add: h'_def)
  have V: "wval fe_widths 10 h' = fe_val h + 19 * q"
  proof -
    have "wval fe_widths 10 h' = (\<Sum>j<10. sint (h ! j) * 2 ^ (fe_exps ! j) + (if j = 0 then 19 * q else 0))"
      unfolding wval_def by (intro sum.cong refl) (auto simp: h'0 h'i wpos_fe_widths fe_exps_def)
    then show ?thesis by (simp add: sum.distrib fe_val_def)
  qed
  also have "fe_val h + 19 * q = fe_val h mod p25519 + 2 ^ 255 * q"
  proof -
    have "p25519 * q + fe_val h mod p25519 = fe_val h"
      unfolding q_def by (rule mult_div_mod_eq)
    moreover have "(2::int) ^ 255 = p25519 + 19"
      by (simp add: p25519_def)
    ultimately show ?thesis by (simp add: distrib_right)
  qed
  finally have Vr: "wval fe_widths 10 h' = fe_val h mod p25519 + 2 ^ 255 * q" .
  have bound: "\<forall>j\<le>9. \<bar>sint (h' ! j)\<bar> \<le> 110729664"
  proof (intro allI impI)
    fix j :: nat assume "j \<le> 9"
    then show "\<bar>sint (h' ! j)\<bar> \<le> 110729664"
      using fe_tobytes_limb [OF assms(1), of j] h'0 h'i [of j] q(2) by (cases "j = 0") (auto split: if_splits)
  qed
  have ws: "\<forall>j<9. 1 \<le> fe_widths ! j \<and> fe_widths ! j < LENGTH(32)"
    using fe_widths_range by simp
  have V9: "wval fe_widths 10 h' = wval fe_widths (Suc 9) h'"
    by (rule arg_cong [of _ _ "\<lambda>n. wval fe_widths n h'"]) simp
  note digits = floor_carries_digits [of 9 h' 110729664 fe_widths, OF _ bound _ _ ws V9]
  have len': "length h' = 10"
    by (simp add: h'_def len)
  have chain9: "sint (floor_carries fe_widths 9 h' ! 9) = wval fe_widths 10 h' div 2 ^ 230"
    using digits(1) len' fe_top_limb(1) by simp
  have chain: "sint (floor_carries fe_widths 9 h' ! j)
       = (wval fe_widths 10 h' div 2 ^ (fe_exps ! j)) mod 2 ^ (fe_widths ! j)" if "j < 9" for j
    using digits(2) [OF _ _ _ that] that len' by (simp add: wpos_fe_widths)
  have red: "((fe_val h mod p25519 + 2 ^ 255 * q) div 2 ^ e) mod 2 ^ w = ((fe_val h mod p25519) div 2 ^ e) mod 2 ^ w"
    if "e + w \<le> 255" for e w
  proof -
    have "(2::int) ^ 255 = 2 ^ (255 - e - w) * 2 ^ w * 2 ^ e"
      using that by (simp only: power_add [symmetric]) simp
    then have "fe_val h mod p25519 + 2 ^ 255 * q = fe_val h mod p25519 + (2 ^ (255 - e - w) * q * 2 ^ w) * 2 ^ e"
      by (simp only: mult_ac)
    then show ?thesis by (simp only: div_mult_self1 mod_mult_self1 power_not_zero) simp
  qed
  have limbs: "fe_tobytes_limbs h = (floor_carries fe_widths 9 h')[9 := floor_carries fe_widths 9 h' ! 9
      - push_bit 25 (signed_drop_bit 25 (floor_carries fe_widths 9 h' ! 9))]"
    by (simp add: fe_tobytes_limbs_def h'_def Let_def)
  have top: "sint (x - push_bit 25 (signed_drop_bit 25 x)) = sint x mod 2 ^ 25" for x :: i32
  proof -
    have "x - push_bit 25 (signed_drop_bit 25 x) = word_of_int (sint x - sint x div 2 ^ 25 * 2 ^ 25)"
      unfolding push_bit_mult_word sint_shift_right [symmetric] by simp
    also have "sint x - sint x div 2 ^ 25 * 2 ^ 25 = sint x mod 2 ^ 25"
      by (rule minus_div_mult_eq_mod)
    finally have "x - push_bit 25 (signed_drop_bit 25 x) = word_of_int (sint x mod 2 ^ 25)" .
    moreover have "\<bar>sint x mod 2 ^ 25\<bar> < 2 ^ 31"
    proof -
      have "0 \<le> sint x mod 2 ^ 25" "sint x mod 2 ^ 25 < 2 ^ 25" by simp_all
      then show ?thesis by simp
    qed
    ultimately show ?thesis by (rule sint_i32_eqI)
  qed
  have fit: "fe_exps ! i + fe_widths ! i \<le> 255"
    using assms(2) unfolding less_10 fe_exps_def fe_widths_def by (elim insertE emptyE; simp)
  show ?thesis
  proof (cases "i = 9")
    case True
    have "length (floor_carries fe_widths 9 h') = 10"
      by (simp add: len')
    then have "sint (fe_tobytes_limbs h ! 9) = (wval fe_widths 10 h' div 2 ^ 230) mod 2 ^ 25"
      by (simp add: limbs top chain9)
    then show ?thesis
      using red [OF fit] True by (simp only: Vr fe_top_limb)
  next
    case False
    then have "i < 9" using assms(2) by simp
    then have "sint (fe_tobytes_limbs h ! i)
        = (wval fe_widths 10 h' div 2 ^ (fe_exps ! i)) mod 2 ^ (fe_widths ! i)"
      using False by (simp add: limbs chain)
    then show ?thesis
      using red [OF fit] by (simp only: Vr)
  qed
qed

lemma fe_stores_ok: "list_all (\<lambda>(j, st). store_ok fe_widths 9 j st) (zip [0..<32] fe_stores)"
  unfolding fe_stores_def fe_widths_def by (simp add: upt_rec wpos_def numeral_eq_Suc)

text \<open>The encoder writes the representative below \<open>p25519\<close>, for every input in its documented range.\<close>

lemma fe_tobytes_eq:
  assumes "fe_bounded 165 26 h"
  shows "fe_tobytes h = le_bytes 32 (fe_val h mod p25519)"
  unfolding fe_tobytes_def
proof (rule limb_bytes_eq [OF fe_stores_ok])
  let ?V = "fe_val h mod p25519"
  have V: "0 \<le> ?V" "?V < p25519"
    by (simp_all add: p25519_def)
  show "sint (fe_tobytes_limbs h ! i) = (?V div 2 ^ wpos fe_widths i) mod 2 ^ (fe_widths ! i)" if "i < 9" for i
    using fe_tobytes_limbs_digits [OF assms, of i] that by (simp add: wpos_fe_widths)
  have "?V div 2 ^ 230 < 2 ^ 25" "0 \<le> ?V div 2 ^ 230"
    using V by (simp_all add: p25519_def pos_imp_zdiv_nonneg_iff int_div_less_pow2)
  then show "sint (fe_tobytes_limbs h ! 9) = ?V div 2 ^ wpos fe_widths 9"
    using fe_tobytes_limbs_digits [OF assms, of 9] by (simp add: fe_top_limb)
qed (simp_all add: fe_stores_def)

section \<open>Sign and zero test\<close>

lemma odd_word_of_int_byte: "odd (word_of_int V :: byte) \<longleftrightarrow> odd V"
  by transfer (simp add: even_take_bit_eq)

lemma fe_isnegative_eq:
  assumes "fe_bounded 165 26 f"
  shows "fe_isnegative f = (if odd (fe_val f mod p25519) then 1 else 0)"
  unfolding fe_isnegative_def fe_tobytes_eq [OF assms]
  by (simp add: nth_le_bytes and_one_eq mod_2_eq_odd odd_word_of_int_byte)

lemma fe_isnonzero_eq:
  assumes "fe_bounded 165 26 f"
  shows "fe_isnonzero f = (if eqm p25519 (fe_val f) 0 then 0 else 1)"
proof -
  have "0 \<le> fe_val f mod p25519" "fe_val f mod p25519 < p25519"
    by simp_all
  then have "fe_val f mod p25519 mod 2 ^ 256 = fe_val f mod p25519"
    by (simp add: p25519_def)
  then show ?thesis
    unfolding fe_isnonzero_def fe_tobytes_eq [OF assms]
    by (simp add: bytes_isnonzero_eq le_val_le_bytes eqm_def del: power_numeral)
qed

section \<open>The decoder\<close>

text \<open>
  \<open>fe_loads\<close> are the initial values of \<^verbatim>\<open>h0, \<dots>, h9\<close>, with all 24 bits of \<^verbatim>\<open>load_3(s + 29)\<close> as in
  \<open>ge_fromfe_frombytes_vartime\<close>; \<open>fe_loads_255\<close> drops the sign bit as \<open>ge_frombytes_vartime\<close> does.
  \<open>fe_noncanonical\<close> is the test that makes the latter return \<open>-1\<close>.
\<close>

definition fe_loads :: "byte list \<Rightarrow> i64 list" where
  "fe_loads s =
     [load_4 s, push_bit 6 (load_3 (drop 4 s)), push_bit 5 (load_3 (drop 7 s)),
      push_bit 3 (load_3 (drop 10 s)), push_bit 2 (load_3 (drop 13 s)), load_4 (drop 16 s),
      push_bit 7 (load_3 (drop 20 s)), push_bit 5 (load_3 (drop 23 s)),
      push_bit 4 (load_3 (drop 26 s)), push_bit 2 (load_3 (drop 29 s))]"

definition fe_loads_255 :: "byte list \<Rightarrow> i64 list" where
  "fe_loads_255 s = (fe_loads s)[9 := push_bit 2 (load_3 (drop 29 s) AND 8388607)]"

definition fe_noncanonical :: "i64 list \<Rightarrow> bool" where
  "fe_noncanonical h \<longleftrightarrow> h ! 9 = 33554428 \<and> h ! 8 = 268435440 \<and> h ! 7 = 536870880 \<and>
     h ! 6 = 2147483520 \<and> h ! 5 = 4294967295 \<and> h ! 4 = 67108860 \<and> h ! 3 = 134217720 \<and>
     h ! 2 = 536870880 \<and> h ! 1 = 1073741760 \<and> sint (4294967277 :: i64) \<le> sint (h ! 0)"

definition fe_frombytes_carries :: "nat list" where
  "fe_frombytes_carries = [9, 1, 3, 5, 7, 0, 2, 4, 6, 8]"

definition fe_frombytes :: "i64 list \<Rightarrow> fe" where
  "fe_frombytes h = fe_store (fold fe_carry fe_frombytes_carries h)"

text \<open>The pieces of a number the loads pick out, and the number they make up.\<close>

definition fe_chunks :: "int \<Rightarrow> int list" where
  "fe_chunks V = [V mod 2 ^ 32, V div 2 ^ 32 mod 2 ^ 24, V div 2 ^ 56 mod 2 ^ 24, V div 2 ^ 80 mod 2 ^ 24,
     V div 2 ^ 104 mod 2 ^ 24, V div 2 ^ 128 mod 2 ^ 32, V div 2 ^ 160 mod 2 ^ 24,
     V div 2 ^ 184 mod 2 ^ 24, V div 2 ^ 208 mod 2 ^ 24, V div 2 ^ 232]"

definition fe_chunk_shift :: "nat list" where
  "fe_chunk_shift = [0, 6, 5, 3, 2, 0, 7, 5, 4, 2]"

lemma div_pow2_split: "(V :: int) div 2 ^ a = V div 2 ^ a mod 2 ^ b + 2 ^ b * (V div 2 ^ (a + b))"
  by (simp add: power_add zdiv_zmult2_eq)

lemma horner_chunks:
  fixes V :: int
  assumes "V = c0 + 2 ^ 32 * q1" "q1 = c1 + 2 ^ 24 * q2" "q2 = c2 + 2 ^ 24 * q3" "q3 = c3 + 2 ^ 24 * q4"
    "q4 = c4 + 2 ^ 24 * q5" "q5 = c5 + 2 ^ 32 * q6" "q6 = c6 + 2 ^ 24 * q7" "q7 = c7 + 2 ^ 24 * q8"
    "q8 = c8 + 2 ^ 24 * q9"
  shows "c0 * 2 ^ 0 * 2 ^ 0 + c1 * 2 ^ 6 * 2 ^ 26 + c2 * 2 ^ 5 * 2 ^ 51 + c3 * 2 ^ 3 * 2 ^ 77
    + c4 * 2 ^ 2 * 2 ^ 102 + c5 * 2 ^ 0 * 2 ^ 128 + c6 * 2 ^ 7 * 2 ^ 153 + c7 * 2 ^ 5 * 2 ^ 179
    + c8 * 2 ^ 4 * 2 ^ 204 + q9 * 2 ^ 2 * 2 ^ 230 = V"
  unfolding assms by (simp add: algebra_simps)

lemma fe_chunks_sum:
  "(\<Sum>i<10. fe_chunks V ! i * 2 ^ (fe_chunk_shift ! i) * 2 ^ (fe_exps ! i)) = V"
proof -
  have s: "V div 2 ^ a = V div 2 ^ a mod 2 ^ b + 2 ^ b * (V div 2 ^ c)" if "c = a + b" for a b c
    unfolding that by (rule div_pow2_split)
  have "V = V mod 2 ^ 32 + 2 ^ 32 * (V div 2 ^ 32)"
    by simp
  from horner_chunks [OF this s s s s s s s s] show ?thesis
    unfolding sum_less_10 by (simp add: fe_chunks_def fe_chunk_shift_def fe_exps_def del: power_numeral)
qed

lemma upt_10: "[0..<10] = [0, 1, 2, 3, 4, 5, 6, 7, 8, 9]"
  by (simp add: upt_rec)

lemma push_bit_word_of_int: "push_bit n (word_of_int k :: i64) = word_of_int (k * 2 ^ n)"
  by (simp add: push_bit_mult_word)

lemma fe_chunks_nth:
  "fe_chunks V ! 0 = V div 2 ^ (8 * 0) mod 2 ^ 32" "fe_chunks V ! 1 = V div 2 ^ (8 * 4) mod 2 ^ 24"
  "fe_chunks V ! 2 = V div 2 ^ (8 * 7) mod 2 ^ 24" "fe_chunks V ! 3 = V div 2 ^ (8 * 10) mod 2 ^ 24"
  "fe_chunks V ! 4 = V div 2 ^ (8 * 13) mod 2 ^ 24" "fe_chunks V ! 5 = V div 2 ^ (8 * 16) mod 2 ^ 32"
  "fe_chunks V ! 6 = V div 2 ^ (8 * 20) mod 2 ^ 24" "fe_chunks V ! 7 = V div 2 ^ (8 * 23) mod 2 ^ 24"
  "fe_chunks V ! 8 = V div 2 ^ (8 * 26) mod 2 ^ 24" "fe_chunks V ! 9 = V div 2 ^ 232"
  by (simp_all add: fe_chunks_def)

lemma fe_chunk_shift_nth:
  "fe_chunk_shift ! 0 = 0" "fe_chunk_shift ! 1 = 6" "fe_chunk_shift ! 2 = 5" "fe_chunk_shift ! 3 = 3"
  "fe_chunk_shift ! 4 = 2" "fe_chunk_shift ! 5 = 0" "fe_chunk_shift ! 6 = 7" "fe_chunk_shift ! 7 = 5"
  "fe_chunk_shift ! 8 = 4" "fe_chunk_shift ! 9 = 2"
  by (simp_all add: fe_chunk_shift_def)

lemma fe_chunks_range:
  assumes "0 \<le> V" "V < 2 ^ 256"
  shows "\<forall>i<10. 0 \<le> fe_chunks V ! i" "\<forall>i<10. fe_chunks V ! i < (if i = 0 \<or> i = 5 then 2 ^ 32 else 2 ^ 24)"
proof -
  have "0 \<le> V div 2 ^ 232" "V div 2 ^ 232 < 2 ^ 24"
    using assms int_div_less_pow2 [of V 24 232] by (simp_all add: pos_imp_zdiv_nonneg_iff)
  moreover have "0 \<le> x mod 2 ^ n" "x mod 2 ^ n < 2 ^ n" for x :: int and n
    by simp_all
  ultimately show "\<forall>i<10. 0 \<le> fe_chunks V ! i" "\<forall>i<10. fe_chunks V ! i < (if i = 0 \<or> i = 5 then 2 ^ 32 else 2 ^ 24)"
    unfolding all_less_10 fe_chunks_nth by (simp_all del: power_numeral)
qed

lemma fe_loads_words:
  assumes "length s = 32"
  shows "fe_loads s = map (\<lambda>i. word_of_int (fe_chunks (le_val s) ! i * 2 ^ (fe_chunk_shift ! i))) [0..<10]"
proof -
  have l3: "load_3 (drop k s) = word_of_int (le_val s div 2 ^ (8 * k) mod 2 ^ 24)" if "k \<le> 29" for k
    using load_3_val [of k s] that assms by simp
  have l4: "load_4 (drop k s) = word_of_int (le_val s div 2 ^ (8 * k) mod 2 ^ 32)" if "k \<le> 28" for k
    using load_4_val [of k s] that assms by simp
  have l4': "load_4 s = word_of_int (le_val s div 2 ^ (8 * 0) mod 2 ^ 32)"
    using l4 [of 0] by (simp only: drop_0)
  have "le_val s < 2 ^ 24 * 2 ^ 232"
    using le_val_less [of s] assms by simp
  then have "le_val s div 2 ^ 232 < 2 ^ 24"
    by (rule int_div_less_pow2)
  then have top: "le_val s div 2 ^ (8 * 29) mod 2 ^ 24 = le_val s div 2 ^ 232"
    by (simp add: pos_imp_zdiv_nonneg_iff)
  have p: "(29::nat) \<le> 29" "(26::nat) \<le> 29" "(23::nat) \<le> 29" "(20::nat) \<le> 29" "(16::nat) \<le> 28" "(13::nat) \<le> 29"
     "(10::nat) \<le> 29" "(7::nat) \<le> 29" "(4::nat) \<le> 29"
    by simp_all
  show ?thesis
    unfolding fe_loads_def l4' l3 [OF p(1)] l3 [OF p(2)] l3 [OF p(3)] l3 [OF p(4)] l4 [OF p(5)] l3 [OF p(6)]
      l3 [OF p(7)] l3 [OF p(8)] l3 [OF p(9)] upt_10 list.map fe_chunks_nth fe_chunk_shift_nth top
      push_bit_word_of_int
    by (simp only: power_0 mult_1_right)
qed

lemma fe_loads_sint:
  assumes "length s = 32" "i < 10"
  shows "sint (fe_loads s ! i) = fe_chunks (le_val s) ! i * 2 ^ (fe_chunk_shift ! i)"
proof -
  have V: "0 \<le> le_val s" "le_val s < 2 ^ 256"
    using le_val_less [of s] assms by simp_all
  have c: "0 \<le> fe_chunks (le_val s) ! i" "fe_chunks (le_val s) ! i < 2 ^ 32"
    using fe_chunks_range [OF V] assms(2) by (auto split: if_splits intro: order_less_trans)
  have "(2::int) ^ (fe_chunk_shift ! i) \<le> 2 ^ 7"
    using assms(2) unfolding less_10 fe_chunk_shift_def by (elim insertE emptyE) simp_all
  then have "fe_chunks (le_val s) ! i * 2 ^ (fe_chunk_shift ! i) \<le> 2 ^ 32 * 2 ^ 7"
    using c by (intro mult_mono) simp_all
  then have "\<bar>fe_chunks (le_val s) ! i * 2 ^ (fe_chunk_shift ! i)\<bar> < 2 ^ 63"
    using c by simp
  then show ?thesis
    unfolding fe_loads_words [OF assms(1)] using assms(2)
    by (simp add: sint_word_of_int_i64 del: of_int_mult)
qed

lemma fe_chunks_255:
  "i < 9 \<Longrightarrow> fe_chunks (V mod 2 ^ 255) ! i = fe_chunks V ! i"
  "fe_chunks (V mod 2 ^ 255) ! 9 = V div 2 ^ 232 mod 2 ^ 23"
proof -
  assume "i < 9"
  then have "i \<in> {0, 1, 2, 3, 4, 5, 6, 7, 8}"
    by (simp only: insert_iff empty_iff) presburger
  then show "fe_chunks (V mod 2 ^ 255) ! i = fe_chunks V ! i"
    by (elim insertE emptyE; simp only: fe_chunks_nth; intro mod_pow2_digit; simp)
next
  show "fe_chunks (V mod 2 ^ 255) ! 9 = V div 2 ^ 232 mod 2 ^ 23"
    using mod_pow2_div [of V 232 23] by (simp only: fe_chunks_nth) simp
qed

lemma and_mask_23: "word_of_int k AND 8388607 = (word_of_int (k mod 2 ^ 23) :: i64)"
proof -
  have "(8388607 :: i64) = mask 23"
    by (simp add: mask_eq_exp_minus_1)
  then have "word_of_int k AND 8388607 = take_bit 23 (word_of_int k :: i64)"
    by (simp add: take_bit_eq_mask)
  also have "\<dots> = word_of_int (take_bit 23 k)"
    by (rule of_int_take_bit [symmetric])
  finally show ?thesis
    by (simp only: take_bit_eq_mod [of _ k])
qed

lemma fe_loads_255_sint:
  assumes "length s = 32" "i < 10"
  shows "sint (fe_loads_255 s ! i) = fe_chunks (le_val s mod 2 ^ 255) ! i * 2 ^ (fe_chunk_shift ! i)"
proof (cases "i = 9")
  case True
  have "le_val s < 2 ^ 24 * 2 ^ 232"
    using le_val_less [of s] assms(1) by simp
  then have "le_val s div 2 ^ 232 < 2 ^ 24"
    by (rule int_div_less_pow2)
  then have "load_3 (drop 29 s) = word_of_int (le_val s div 2 ^ 232)"
    using load_3_val [of 29 s] assms(1) by (simp add: pos_imp_zdiv_nonneg_iff)
  then have "fe_loads_255 s ! 9 = word_of_int ((le_val s div 2 ^ 232 mod 2 ^ 23) * 2 ^ 2)"
    by (simp only: fe_loads_255_def and_mask_23 push_bit_word_of_int) (simp add: fe_loads_def)
  moreover have "\<bar>(le_val s div 2 ^ 232 mod 2 ^ 23) * 2 ^ 2\<bar> < 2 ^ 63"
  proof -
    have "0 \<le> le_val s div 2 ^ 232 mod 2 ^ 23" "le_val s div 2 ^ 232 mod 2 ^ 23 < 2 ^ 23"
      by simp_all
    then show ?thesis by simp
  qed
  ultimately have "sint (fe_loads_255 s ! 9) = (le_val s div 2 ^ 232 mod 2 ^ 23) * 2 ^ 2"
    by (rule sint_i64_eqI)
  then show ?thesis
    unfolding True fe_chunks_255(2) fe_chunk_shift_nth .
next
  case False
  then have i: "i < 9" using assms(2) by simp
  show ?thesis
    using fe_loads_sint [OF assms] False by (simp add: fe_loads_255_def fe_chunks_255(1) [OF i] del: power_numeral)
qed

text \<open>Bounds on the loaded limbs, and what the carries make of them.\<close>

definition fe_loads_bd :: "int list" where
  "fe_loads_bd = map (\<lambda>i. (if i = 0 \<or> i = 5 then 2 ^ 32 else 2 ^ 24) * 2 ^ (fe_chunk_shift ! i)) [0..<10]"

lemma fe_loads_bounded:
  assumes h: "\<And>i. i < 10 \<Longrightarrow> sint (h ! i) = fe_chunks V ! i * 2 ^ (fe_chunk_shift ! i)"
    and len: "length h = 10" and V: "0 \<le> V" "V < 2 ^ 256"
  shows "limb_bounded fe_loads_bd h"
  unfolding limb_bounded_def
proof (intro conjI allI impI)
  show "length h = length fe_loads_bd"
    by (simp add: len fe_loads_bd_def)
  fix i assume "i < length fe_loads_bd"
  then have i: "i < 10" by (simp add: fe_loads_bd_def)
  let ?M = "if i = 0 \<or> i = 5 then 2 ^ 32 else 2 ^ 24 :: int"
  have c: "0 \<le> fe_chunks V ! i" "fe_chunks V ! i < ?M"
    using fe_chunks_range [OF V] i by blast+
  then have "fe_chunks V ! i * 2 ^ (fe_chunk_shift ! i) \<le> ?M * 2 ^ (fe_chunk_shift ! i)"
    by (intro mult_right_mono) simp_all
  then show "\<bar>sint (h ! i)\<bar> \<le> fe_loads_bd ! i"
    using c i by (simp add: h fe_loads_bd_def abs_mult)
qed

lemma fe_loads_bd_carried:
  "fe_carries_bd fe_frombytes_carries fe_loads_bd = Some
     [33554432, 16777281, 33554432, 16777225, 33554432, 16777218, 33554432, 16777249, 33554432, 16777221]"
  by (simp add: fe_frombytes_carries_def fe_loads_bd_def fe_carry_bd_def fe_chunk_shift_def upt_10)

lemma fe_frombytes_sound:
  assumes h: "\<And>i. i < 10 \<Longrightarrow> sint (h ! i) = fe_chunks V ! i * 2 ^ (fe_chunk_shift ! i)"
    and len: "length h = 10" and V: "0 \<le> V" "V < 2 ^ 256"
  shows "eqm p25519 (fe_val (fe_frombytes h)) V" "fe_bounded 101 25 (fe_frombytes h)"
proof -
  note B = fe_loads_bounded [OF h len V, simplified]
  have "limb_val fe_exps h = V"
    using fe_chunks_sum [of V] h by (simp add: limb_val_def)
  moreover have "eqm p25519 (fe_val (fe_frombytes h)) (limb_val fe_exps h)"
    unfolding fe_frombytes_def
    by (rule fe_carried_store(1) [OF B _ fe_loads_bd_carried]) (simp_all add: fe_loads_bd_def all_less_10)
  ultimately show "eqm p25519 (fe_val (fe_frombytes h)) V"
    by simp
  show "fe_bounded 101 25 (fe_frombytes h)"
    unfolding fe_frombytes_def
    by (rule fe_carried_store(2) [OF B _ fe_loads_bd_carried]) (simp_all add: fe_loads_bd_def all_less_10)
qed

lemma length_fe_loads [simp]: "length (fe_loads s) = 10" "length (fe_loads_255 s) = 10"
  by (simp_all add: fe_loads_def fe_loads_255_def)

text \<open>The test for non-canonical strings, over the pieces.\<close>

lemma top_chunks:
  fixes W :: int
  assumes "W = c0 + 2 ^ 32 * q1" "q1 = c1 + 2 ^ 24 * q2" "q2 = c2 + 2 ^ 24 * q3" "q3 = c3 + 2 ^ 24 * q4"
    "q4 = c4 + 2 ^ 24 * q5" "q5 = c5 + 2 ^ 32 * q6" "q6 = c6 + 2 ^ 24 * q7" "q7 = c7 + 2 ^ 24 * q8"
    "q8 = c8 + 2 ^ 24 * c9"
    and "c0 < 2 ^ 32" "c1 < 2 ^ 24" "c2 < 2 ^ 24" "c3 < 2 ^ 24" "c4 < 2 ^ 24" "c5 < 2 ^ 32" "c6 < 2 ^ 24"
    "c7 < 2 ^ 24" "c8 < 2 ^ 24" "c9 < 2 ^ 23"
  shows "2 ^ 255 - 19 \<le> W \<longleftrightarrow> c9 = 2 ^ 23 - 1 \<and> c8 = 2 ^ 24 - 1 \<and> c7 = 2 ^ 24 - 1 \<and> c6 = 2 ^ 24 - 1
    \<and> c5 = 2 ^ 32 - 1 \<and> c4 = 2 ^ 24 - 1 \<and> c3 = 2 ^ 24 - 1 \<and> c2 = 2 ^ 24 - 1 \<and> c1 = 2 ^ 24 - 1
    \<and> 2 ^ 32 - 19 \<le> c0" (is "?L \<longleftrightarrow> ?R")
proof
  assume ?R
  then show ?L using assms(1-9) by simp
next
  assume L: ?L
  have q1: "2 ^ 223 - 1 \<le> q1" using assms(1,10) L by simp
  have q2: "2 ^ 199 - 1 \<le> q2" using assms(2,11) q1 by simp
  have q3: "2 ^ 175 - 1 \<le> q3" using assms(3,12) q2 by simp
  have q4: "2 ^ 151 - 1 \<le> q4" using assms(4,13) q3 by simp
  have q5: "2 ^ 127 - 1 \<le> q5" using assms(5,14) q4 by simp
  have q6: "2 ^ 95 - 1 \<le> q6" using assms(6,15) q5 by simp
  have q7: "2 ^ 71 - 1 \<le> q7" using assms(7,16) q6 by simp
  have q8: "2 ^ 47 - 1 \<le> q8" using assms(8,17) q7 by simp
  have c9: "c9 = 2 ^ 23 - 1" using assms(9,18,19) q8 by simp
  have c8: "c8 = 2 ^ 24 - 1" "q8 = 2 ^ 47 - 1" using assms(9,18) c9 q8 by simp_all
  have c7: "c7 = 2 ^ 24 - 1" "q7 = 2 ^ 71 - 1" using assms(8,17) c8(2) q7 by simp_all
  have c6: "c6 = 2 ^ 24 - 1" "q6 = 2 ^ 95 - 1" using assms(7,16) c7(2) q6 by simp_all
  have c5: "c5 = 2 ^ 32 - 1" "q5 = 2 ^ 127 - 1" using assms(6,15) c6(2) q5 by simp_all
  have c4: "c4 = 2 ^ 24 - 1" "q4 = 2 ^ 151 - 1" using assms(5,14) c5(2) q4 by simp_all
  have c3: "c3 = 2 ^ 24 - 1" "q3 = 2 ^ 175 - 1" using assms(4,13) c4(2) q3 by simp_all
  have c2: "c2 = 2 ^ 24 - 1" "q2 = 2 ^ 199 - 1" using assms(3,12) c3(2) q2 by simp_all
  have c1: "c1 = 2 ^ 24 - 1" "q1 = 2 ^ 223 - 1" using assms(2,11) c2(2) q1 by simp_all
  have "2 ^ 32 - 19 \<le> c0" using assms(1) c1(2) L by simp
  then show ?R using c1 c2 c3 c4 c5 c6 c7 c8 c9 by blast
qed

lemma i64_eq_iff_sint: "(w :: i64) = v \<longleftrightarrow> sint w = sint v"
  by (metis word_of_int_sint)

text \<open>The decoder refuses exactly the strings whose low 255 bits are not below \<open>p25519\<close>.\<close>

lemma fe_noncanonical_eq:
  assumes "length s = 32"
  shows "fe_noncanonical (fe_loads_255 s) \<longleftrightarrow> p25519 \<le> le_val s mod 2 ^ 255"
proof -
  define W where "W = le_val s mod 2 ^ 255"
  have W: "0 \<le> W" "W < 2 ^ 255" "W < 2 ^ 256"
    unfolding W_def by (simp_all add: order_less_trans [of _ "2 ^ 255"])
  have c9: "fe_chunks W ! 9 < 2 ^ 23"
    unfolding W_def fe_chunks_255(2) by simp
  have sp: "W div 2 ^ a = W div 2 ^ a mod 2 ^ b + 2 ^ b * (W div 2 ^ c)" if "c = a + b" for a b c
    unfolding that by (rule div_pow2_split)
  have W0: "W = W mod 2 ^ 32 + 2 ^ 32 * (W div 2 ^ 32)"
    by simp
  have "2 ^ 255 - 19 \<le> W \<longleftrightarrow> fe_chunks W ! 9 = 2 ^ 23 - 1 \<and> fe_chunks W ! 8 = 2 ^ 24 - 1
      \<and> fe_chunks W ! 7 = 2 ^ 24 - 1 \<and> fe_chunks W ! 6 = 2 ^ 24 - 1 \<and> fe_chunks W ! 5 = 2 ^ 32 - 1
      \<and> fe_chunks W ! 4 = 2 ^ 24 - 1 \<and> fe_chunks W ! 3 = 2 ^ 24 - 1 \<and> fe_chunks W ! 2 = 2 ^ 24 - 1
      \<and> fe_chunks W ! 1 = 2 ^ 24 - 1 \<and> 2 ^ 32 - 19 \<le> fe_chunks W ! 0"
    using top_chunks [OF W0 sp sp sp sp sp sp sp sp] c9
    by (simp add: fe_chunks_def)
  then show ?thesis
    unfolding fe_noncanonical_def i64_eq_iff_sint W_def [symmetric] p25519_def
    using fe_loads_255_sint [OF assms, unfolded W_def [symmetric]]
    by (simp add: fe_chunk_shift_nth del: One_nat_def)
qed


lemma fe_frombytes_255:
  assumes "length s = 32"
  shows "eqm p25519 (fe_val (fe_frombytes (fe_loads_255 s))) (le_val s mod 2 ^ 255)"
    and "fe_bounded 101 25 (fe_frombytes (fe_loads_255 s))"
proof -
  have "le_val s mod 2 ^ 255 < 2 ^ 255"
    by simp
  then have V: "0 \<le> le_val s mod 2 ^ 255" "le_val s mod 2 ^ 255 < 2 ^ 256"
    by simp_all
  show "eqm p25519 (fe_val (fe_frombytes (fe_loads_255 s))) (le_val s mod 2 ^ 255)"
    by (rule fe_frombytes_sound(1) [OF fe_loads_255_sint [OF assms] _ V]) simp_all
  show "fe_bounded 101 25 (fe_frombytes (fe_loads_255 s))"
    by (rule fe_frombytes_sound(2) [OF fe_loads_255_sint [OF assms] _ V]) simp_all
qed

lemma fe_frombytes_256:
  assumes "length s = 32"
  shows "eqm p25519 (fe_val (fe_frombytes (fe_loads s))) (le_val s)"
    and "fe_bounded 101 25 (fe_frombytes (fe_loads s))"
proof -
  have V: "0 \<le> le_val s" "le_val s < 2 ^ 256"
    using le_val_less [of s] assms by simp_all
  show "eqm p25519 (fe_val (fe_frombytes (fe_loads s))) (le_val s)"
    by (rule fe_frombytes_sound(1) [OF fe_loads_sint [OF assms] _ V]) simp_all
  show "fe_bounded 101 25 (fe_frombytes (fe_loads s))"
    by (rule fe_frombytes_sound(2) [OF fe_loads_sint [OF assms] _ V]) simp_all
qed

lemma fe_bounded_101_165: "fe_bounded 101 25 f \<Longrightarrow> fe_bounded 165 26 f"
  using fe_bounded_double [of 51 25 f] fe_bounded_mono [of 101 25 f 102] fe_bounded_mono [of 51 26 f 165]
  by simp

lemma fe_tobytes_range: "0 \<le> fe_val h mod p25519" "fe_val h mod p25519 < 2 ^ 255"
    "fe_val h mod p25519 mod 2 ^ 255 = fe_val h mod p25519" "fe_val h mod p25519 mod 2 ^ 256 = fe_val h mod p25519"
proof -
  have V: "0 \<le> fe_val h mod p25519" "fe_val h mod p25519 < p25519"
    by simp_all
  then have "fe_val h mod p25519 < 2 ^ 255" "fe_val h mod p25519 < 2 ^ 256"
    by (simp_all add: p25519_def)
  then show "0 \<le> fe_val h mod p25519" "fe_val h mod p25519 < 2 ^ 255"
    "fe_val h mod p25519 mod 2 ^ 255 = fe_val h mod p25519" "fe_val h mod p25519 mod 2 ^ 256 = fe_val h mod p25519"
    using V(1) by simp_all
qed

lemma le_val_fe_tobytes:
  assumes "fe_bounded 165 26 h"
  shows "le_val (fe_tobytes h) = fe_val h mod p25519"
  unfolding fe_tobytes_eq [OF assms] le_val_le_bytes
  using fe_tobytes_range(4) [of h] by simp

lemma length_fe_tobytes [simp]: "length (fe_tobytes h) = 32"
  by (simp add: fe_tobytes_def fe_stores_def)

text \<open>Encoding and decoding are inverse to each other.\<close>

lemma fe_roundtrip_decode:
  assumes "fe_bounded 165 26 h"
  shows "\<not> fe_noncanonical (fe_loads_255 (fe_tobytes h))"
    and "eqm p25519 (fe_val (fe_frombytes (fe_loads_255 (fe_tobytes h)))) (fe_val h)"
proof -
  have W: "le_val (fe_tobytes h) mod 2 ^ 255 = fe_val h mod p25519"
    unfolding le_val_fe_tobytes [OF assms] by (rule fe_tobytes_range)
  have "fe_val h mod p25519 < p25519"
    by simp
  then show "\<not> fe_noncanonical (fe_loads_255 (fe_tobytes h))"
    by (simp only: fe_noncanonical_eq length_fe_tobytes W linorder_not_le)
  show "eqm p25519 (fe_val (fe_frombytes (fe_loads_255 (fe_tobytes h)))) (fe_val h)"
    using fe_frombytes_255(1) [of "fe_tobytes h"] unfolding W by simp
qed

lemma fe_roundtrip_encode:
  assumes "length s = 32" "\<not> fe_noncanonical (fe_loads_255 s)"
  shows "fe_tobytes (fe_frombytes (fe_loads_255 s)) = le_bytes 32 (le_val s mod 2 ^ 255)"
proof -
  have "fe_val (fe_frombytes (fe_loads_255 s)) mod p25519 = le_val s mod 2 ^ 255 mod p25519"
    using fe_frombytes_255(1) [OF assms(1)] by (simp only: eqm_def)
  also have "\<dots> = le_val s mod 2 ^ 255"
    using assms fe_noncanonical_eq [OF assms(1)] by (intro mod_pos_pos_trivial) simp_all
  finally show ?thesis
    using fe_tobytes_eq [OF fe_bounded_101_165 [OF fe_frombytes_255(2) [OF assms(1)]]] by (simp only:)
qed

end
