(* ===== verification/FieldRep.thy ===== *)
theory FieldRep
  imports FieldBytes
begin

text \<open>
  What a field element stands for, as one relation: \<open>fe_rep k f x\<close> holds when \<open>f\<close> is within
  \<open>k/100\<close> times \<open>2^25, 2^24, 2^25, \<dots>\<close> and its value is \<open>x\<close> modulo \<open>p25519\<close>.  The rules of this
  theory give every field operation a contract over \<open>fe_rep\<close>, in which the bounds say that no limb
  overflows.  The locale \<open>square_multiply\<close> derives the powers that sequences of squarings and
  multiplications compute; its interpretation gives \<open>fe_invert\<close> and \<open>fe_divpowm1\<close>
  (\<^verbatim>\<open>src/base/tools/cryptonote/crypto-ops.c\<close>).
\<close>

section \<open>The representation relation\<close>

definition fe_rep :: "int \<Rightarrow> fe \<Rightarrow> int \<Rightarrow> bool" where
  "fe_rep k f x \<longleftrightarrow> fe_bounded k 25 f \<and> eqm p25519 (fe_val f) x"

lemma fe_repD: "fe_rep k f x \<Longrightarrow> fe_bounded k 25 f" "fe_rep k f x \<Longrightarrow> eqm p25519 (fe_val f) x"
    "fe_rep k f x \<Longrightarrow> length f = 10"
  by (auto simp: fe_rep_def dest: fe_bounded_length)

lemma fe_rep_mono: "fe_rep k f x \<Longrightarrow> k \<le> k' \<Longrightarrow> fe_rep k' f x"
  by (auto simp: fe_rep_def intro: fe_bounded_mono)

lemma fe_rep_cong: "fe_rep k f x \<Longrightarrow> eqm p25519 x y \<Longrightarrow> fe_rep k f y"
  by (auto simp: fe_rep_def intro: eqm_trans)

lemma fe_rep_unique: "fe_rep k f x \<Longrightarrow> fe_rep k' f y \<Longrightarrow> eqm p25519 x y"
  by (auto simp: fe_rep_def intro: eqm_trans eqm_sym)

lemma fe_rep_self: "fe_bounded k 25 f \<Longrightarrow> fe_rep k f (fe_val f)"
  by (simp add: fe_rep_def)

lemma fe_rep_26:
  assumes "fe_rep k f x" "k \<le> 2 * k'"
  shows "fe_bounded k' 26 f"
  using fe_bounded_double [of k' 25 f] fe_bounded_mono [OF fe_repD(1) [OF assms(1)] assms(2)] by simp

named_theorems fe_rep_intros \<open>contracts of the field operations\<close>

lemma fe_rep_0 [fe_rep_intros]: "0 \<le> k \<Longrightarrow> fe_rep k fe_0 0"
  by (simp add: fe_rep_def fe_bounded_0)

lemma fe_rep_1 [fe_rep_intros]: "1 \<le> k \<Longrightarrow> fe_rep k fe_1 1"
  by (simp add: fe_rep_def fe_bounded_1)

lemma fe_rep_copy: "fe_rep k f x \<Longrightarrow> fe_copy f = f"
  by (simp add: fe_repD(3) fe_copy_id)

lemma fe_rep_add:
  assumes "fe_rep a f x" "fe_rep b g y" "a + b < 6400"
  shows "fe_rep (a + b) (fe_add f g) (x + y)"
  using assms fe_add_bounded [of a 25 f b g] fe_add_val [of a 25 f b g]
  by (simp add: fe_rep_def eqm_add)

lemma fe_rep_sub:
  assumes "fe_rep a f x" "fe_rep b g y" "a + b < 6400"
  shows "fe_rep (a + b) (fe_sub f g) (x - y)"
  using assms fe_sub_bounded [of a 25 f b g] fe_sub_val [of a 25 f b g]
  by (simp add: fe_rep_def eqm_diff)

lemma fe_rep_neg:
  assumes "fe_rep a f x" "a < 6400"
  shows "fe_rep a (fe_neg f) (- x)"
  using assms fe_neg_bounded [of a 25 f] fe_neg_val [of a 25 f]
  by (simp add: fe_rep_def eqm_minus)

lemma fe_rep_mul:
  assumes "fe_rep a f x" "fe_rep b g y" "a \<le> 330" "b \<le> 330"
  shows "fe_rep 101 (fe_mul f g) (x * y)"
proof -
  have fg: "fe_bounded 165 26 f" "fe_bounded 165 26 g"
    using fe_rep_26 assms by simp_all
  have "eqm p25519 (fe_val f * fe_val g) (x * y)"
    using assms by (intro eqm_mult) (auto dest: fe_repD)
  then show ?thesis
    using fe_mul_val [OF fg] fe_mul_bounded [OF fg] by (auto simp: fe_rep_def intro: eqm_trans)
qed

lemma fe_rep_sq:
  assumes "fe_rep a f x" "a \<le> 330"
  shows "fe_rep 101 (fe_sq f) (x ^ 2)"
proof -
  have f: "fe_bounded 165 26 f"
    using fe_rep_26 assms by simp
  have "eqm p25519 (fe_val f ^ 2) (x ^ 2)"
    using assms by (intro eqm_power) (auto dest: fe_repD)
  then show ?thesis
    using fe_sq_val [OF f] fe_sq_bounded [OF f] by (auto simp: fe_rep_def intro: eqm_trans)
qed

lemma fe_rep_sq2:
  assumes "fe_rep a f x" "a \<le> 330"
  shows "fe_rep 101 (fe_sq2 f) (2 * x ^ 2)"
proof -
  have f: "fe_bounded 165 26 f"
    using fe_rep_26 assms by simp
  have "eqm p25519 (2 * fe_val f ^ 2) (2 * x ^ 2)"
    using assms by (intro eqm_power eqm_mult eqm_refl) (auto dest: fe_repD)
  then show ?thesis
    using fe_sq2_val [OF f] fe_sq2_bounded [OF f] by (auto simp: fe_rep_def intro: eqm_trans)
qed

lemma fe_rep_cmov:
  assumes "fe_rep k f x" "fe_rep k g y"
  shows "fe_rep k (fe_cmov f g (if b then 1 else 0)) (if b then y else x)"
  using assms by (simp add: fe_repD(3) fe_cmov_0 fe_cmov_1)

lemma fe_rep_tobytes: "fe_rep k f x \<Longrightarrow> k \<le> 330 \<Longrightarrow> fe_tobytes f = le_bytes 32 (x mod p25519)"
  using fe_tobytes_eq [OF fe_rep_26 [of k f x 165]] by (simp add: fe_rep_def eqm_def)

lemma fe_rep_isnegative:
  "fe_rep k f x \<Longrightarrow> k \<le> 330 \<Longrightarrow> fe_isnegative f = (if odd (x mod p25519) then 1 else 0)"
  using fe_isnegative_eq [OF fe_rep_26 [of k f x 165]] by (simp add: fe_rep_def eqm_def)

lemma fe_rep_isnonzero:
  "fe_rep k f x \<Longrightarrow> k \<le> 330 \<Longrightarrow> fe_isnonzero f = (if eqm p25519 x 0 then 0 else 1)"
  using fe_isnonzero_eq [OF fe_rep_26 [of k f x 165]] by (simp add: fe_rep_def eqm_def)

section \<open>Powers by squarings and multiplications\<close>

text \<open>
  \<open>rep\<close> is what the operations accept, \<open>res\<close> what they deliver.  A variable assigned by one
  operation of a straight-line program is a \<open>let\<close>; the rules walk through the program and add up
  the exponent.
\<close>

locale square_multiply =
  fixes rep res :: "'a \<Rightarrow> int \<Rightarrow> bool" and mul :: "'a \<Rightarrow> 'a \<Rightarrow> 'a" and sq :: "'a \<Rightarrow> 'a"
  assumes res_rep: "res f x \<Longrightarrow> rep f x"
    and mul_res: "rep f x \<Longrightarrow> rep g y \<Longrightarrow> res (mul f g) (x * y)"
    and sq_res: "rep f x \<Longrightarrow> res (sq f) (x ^ 2)"
begin

lemma pow_mul: "rep f (x ^ a) \<Longrightarrow> rep g (x ^ b) \<Longrightarrow> res (mul f g) (x ^ (a + b))"
  using mul_res [of f "x ^ a" g "x ^ b"] by (simp add: power_add)

lemma pow_sq: "rep f (x ^ a) \<Longrightarrow> res (sq f) (x ^ (2 * a))"
  using sq_res [of f "x ^ a"] by (simp add: power_mult [symmetric] mult.commute)

lemma pow_iter: "rep f (x ^ a) \<Longrightarrow> rep ((sq ^^ n) f) (x ^ (2 ^ n * a))"
proof (induction n)
  case (Suc n)
  then show ?case
    using res_rep [OF pow_sq [OF Suc.IH]] by (simp add: mult.assoc)
qed simp

lemma let_res: "res f y \<Longrightarrow> (\<And>t. rep t y \<Longrightarrow> res (b t) z) \<Longrightarrow> res (Let f b) z"
  using res_rep by (simp add: Let_def)

lemma let_rep: "rep f y \<Longrightarrow> (\<And>t. rep t y \<Longrightarrow> res (b t) z) \<Longrightarrow> res (Let f b) z"
  by (simp add: Let_def)

lemma res_eq: "res f (x ^ a) \<Longrightarrow> a = b \<Longrightarrow> res f (x ^ b)"
  by simp

end

interpretation fe: square_multiply "fe_rep 330" "fe_rep 101" fe_mul fe_sq
  by unfold_locales (auto intro: fe_rep_mul fe_rep_sq fe_rep_mono)

section \<open>Inversion and the square root candidate\<close>

definition fe_invert :: "fe \<Rightarrow> fe" where
  "fe_invert z =
     (let t0 = fe_sq z;
          t1 = fe_sq t0;
          t1 = fe_sq t1;
          t1 = fe_mul z t1;
          t0 = fe_mul t0 t1;
          t2 = fe_sq t0;
          t1 = fe_mul t1 t2;
          t2 = fe_sq t1;
          t2 = (fe_sq ^^ 4) t2;
          t1 = fe_mul t2 t1;
          t2 = fe_sq t1;
          t2 = (fe_sq ^^ 9) t2;
          t2 = fe_mul t2 t1;
          t3 = fe_sq t2;
          t3 = (fe_sq ^^ 19) t3;
          t2 = fe_mul t3 t2;
          t2 = fe_sq t2;
          t2 = (fe_sq ^^ 9) t2;
          t1 = fe_mul t2 t1;
          t2 = fe_sq t1;
          t2 = (fe_sq ^^ 49) t2;
          t2 = fe_mul t2 t1;
          t3 = fe_sq t2;
          t3 = (fe_sq ^^ 99) t3;
          t2 = fe_mul t3 t2;
          t2 = fe_sq t2;
          t2 = (fe_sq ^^ 49) t2;
          t1 = fe_mul t2 t1;
          t1 = fe_sq t1;
          t1 = (fe_sq ^^ 4) t1
      in fe_mul t1 t0)"

text \<open>The part of \<open>fe_divpowm1\<close> between ``From'' and ``End \<open>fe_pow22523.c\<close>''.\<close>

definition fe_pow22523 :: "fe \<Rightarrow> fe" where
  "fe_pow22523 uv7 =
     (let t0 = fe_sq uv7;
          t1 = fe_sq t0;
          t1 = fe_sq t1;
          t1 = fe_mul uv7 t1;
          t0 = fe_mul t0 t1;
          t0 = fe_sq t0;
          t0 = fe_mul t1 t0;
          t1 = fe_sq t0;
          t1 = (fe_sq ^^ 4) t1;
          t0 = fe_mul t1 t0;
          t1 = fe_sq t0;
          t1 = (fe_sq ^^ 9) t1;
          t1 = fe_mul t1 t0;
          t2 = fe_sq t1;
          t2 = (fe_sq ^^ 19) t2;
          t1 = fe_mul t2 t1;
          t1 = (fe_sq ^^ 10) t1;
          t0 = fe_mul t1 t0;
          t1 = fe_sq t0;
          t1 = (fe_sq ^^ 49) t1;
          t1 = fe_mul t1 t0;
          t2 = fe_sq t1;
          t2 = (fe_sq ^^ 99) t2;
          t1 = fe_mul t2 t1;
          t1 = (fe_sq ^^ 50) t1;
          t0 = fe_mul t1 t0;
          t0 = fe_sq t0;
          t0 = fe_sq t0
      in fe_mul t0 uv7)"

definition fe_divpowm1 :: "fe \<Rightarrow> fe \<Rightarrow> fe" where
  "fe_divpowm1 u v =
     (let v3 = fe_sq v;
          v3 = fe_mul v3 v;
          uv7 = fe_sq v3;
          uv7 = fe_mul uv7 v;
          uv7 = fe_mul uv7 u;
          t0 = fe_pow22523 uv7;
          t0 = fe_mul t0 v3
      in fe_mul t0 u)"

lemma fe_rep_invert:
  assumes "fe_rep 330 z x"
  shows "fe_rep 101 (fe_invert z) (x ^ (2 ^ 255 - 21))"
proof -
  have z: "fe_rep 330 z (x ^ 1)" using assms by simp
  show ?thesis
    by (rule fe.res_eq, unfold fe_invert_def, insert z,
        ((rule fe.let_res, rule fe.pow_mul fe.pow_sq, assumption+)
          | (rule fe.let_rep, rule fe.pow_iter, assumption)
          | (rule fe.pow_mul, assumption, assumption))+) simp
qed

lemma fe_rep_pow22523:
  assumes "fe_rep 330 z x"
  shows "fe_rep 101 (fe_pow22523 z) (x ^ (2 ^ 252 - 3))"
proof -
  have z: "fe_rep 330 z (x ^ 1)" using assms by simp
  show ?thesis
    by (rule fe.res_eq, unfold fe_pow22523_def, insert z,
        ((rule fe.let_res, rule fe.pow_mul fe.pow_sq, assumption+)
          | (rule fe.let_rep, rule fe.pow_iter, assumption)
          | (rule fe.pow_mul, assumption, assumption))+) simp
qed

text \<open>
  With \<open>m = (p25519 - 5) div 8\<close> this is \<open>u^(m+1) v^(7m+3)\<close>, which the comment writes as
  \<open>u^(m+1) v^(-(m+1))\<close>.
\<close>

lemma fe_rep_divpowm1:
  assumes "fe_rep 330 u x" "fe_rep 330 v y"
  shows "fe_rep 101 (fe_divpowm1 u v) ((x * y ^ 7) ^ (2 ^ 252 - 3) * y ^ 3 * x)"
proof -
  define v3 where "v3 = fe_mul (fe_sq v) v"
  define uv7 where "uv7 = fe_mul (fe_mul (fe_sq v3) v) u"
  have v3: "fe_rep 330 v3 (y ^ 2 * y)"
    unfolding v3_def by (intro fe.res_rep fe.mul_res fe.sq_res assms)
  have "fe_rep 330 uv7 ((y ^ 2 * y) ^ 2 * y * x)"
    unfolding uv7_def by (intro fe.res_rep fe.mul_res fe.sq_res assms v3)
  then have "fe_rep 330 (fe_pow22523 uv7) (((y ^ 2 * y) ^ 2 * y * x) ^ (2 ^ 252 - 3))"
    by (rule fe.res_rep [OF fe_rep_pow22523])
  then have "fe_rep 101 (fe_divpowm1 u v) (((y ^ 2 * y) ^ 2 * y * x) ^ (2 ^ 252 - 3) * (y ^ 2 * y) * x)"
    unfolding fe_divpowm1_def Let_def v3_def [symmetric] uv7_def [symmetric]
    by (intro fe.mul_res fe.res_rep [OF fe.mul_res] v3 assms)
  moreover have "(y ^ 2 * y) ^ 2 * y * x = x * y ^ 7" "y ^ 2 * y = y ^ 3"
    by algebra+
  ultimately show ?thesis
    by (simp only:)
qed

end
