(* ===== verification/Group.thy ===== *)
theory Group
  imports FieldRep
begin

text \<open>
  Points of the curve \<open>y\<^sup>2 - x\<^sup>2 = 1 + d x\<^sup>2 y\<^sup>2\<close> in the coordinate systems of
  \<^verbatim>\<open>src/base/tools/cryptonote/crypto-ops.c\<close> and the operations between them.  A point
  \<open>(x, y)\<close> is \<open>(xz : yz : z)\<close> in \<open>ge_p2\<close>, with \<open>T = xyz\<close> in \<open>ge_p3\<close>; \<open>ge_p1p1\<close> keeps the two
  fractions \<open>X/Z\<close> and \<open>Y/T\<close> apart.  The lemmas show that each operation computes the affine
  Edwards law on the represented points, and that all limbs stay in range.
\<close>

unbundle bit_operations_syntax

section \<open>Coordinates\<close>

record ge_p2 =
  p2X :: fe
  p2Y :: fe
  p2Z :: fe

record ge_p3 =
  p3X :: fe
  p3Y :: fe
  p3Z :: fe
  p3T :: fe

record ge_p1p1 =
  p1X :: fe
  p1Y :: fe
  p1Z :: fe
  p1T :: fe

record ge_precomp =
  yplusx :: fe
  yminusx :: fe
  xy2d :: fe

record ge_cached =
  YplusX :: fe
  YminusX :: fe
  cZ :: fe
  T2d :: fe

section \<open>Constants\<close>

definition fe_d :: fe where
  "fe_d = [-10913610, 13857413, -15372611, 6949391, 114729, -8787816, -6275908, -3247719, -18696448, -12055116]"

definition fe_sqrtm1 :: fe where
  "fe_sqrtm1 = [-32595792, -7943725, 9377950, 3500415, 12389472, -272473, -25146209, -2005654, 326686, 11406482]"

definition fe_d2 :: fe where
  "fe_d2 = [-21827239, -5839606, -30745221, 13898782, 229458, 15978800, -12551817, -6495438, 29715968, 9444199]"

section \<open>Operations\<close>

definition ge_add :: "ge_p3 \<Rightarrow> ge_cached \<Rightarrow> ge_p1p1" where
  "ge_add p q =
     (let rX = fe_add (p3Y p) (p3X p);
          rY = fe_sub (p3Y p) (p3X p);
          rZ = fe_mul rX (YplusX q);
          rY = fe_mul rY (YminusX q);
          rT = fe_mul (T2d q) (p3T p);
          rX = fe_mul (p3Z p) (cZ q);
          t0 = fe_add rX rX;
          rX = fe_sub rZ rY;
          rY = fe_add rZ rY;
          rZ = fe_add t0 rT;
          rT = fe_sub t0 rT
      in \<lparr>p1X = rX, p1Y = rY, p1Z = rZ, p1T = rT\<rparr>)"

definition ge_sub :: "ge_p3 \<Rightarrow> ge_cached \<Rightarrow> ge_p1p1" where
  "ge_sub p q =
     (let rX = fe_add (p3Y p) (p3X p);
          rY = fe_sub (p3Y p) (p3X p);
          rZ = fe_mul rX (YminusX q);
          rY = fe_mul rY (YplusX q);
          rT = fe_mul (T2d q) (p3T p);
          rX = fe_mul (p3Z p) (cZ q);
          t0 = fe_add rX rX;
          rX = fe_sub rZ rY;
          rY = fe_add rZ rY;
          rZ = fe_sub t0 rT;
          rT = fe_add t0 rT
      in \<lparr>p1X = rX, p1Y = rY, p1Z = rZ, p1T = rT\<rparr>)"

definition ge_madd :: "ge_p3 \<Rightarrow> ge_precomp \<Rightarrow> ge_p1p1" where
  "ge_madd p q =
     (let rX = fe_add (p3Y p) (p3X p);
          rY = fe_sub (p3Y p) (p3X p);
          rZ = fe_mul rX (yplusx q);
          rY = fe_mul rY (yminusx q);
          rT = fe_mul (xy2d q) (p3T p);
          t0 = fe_add (p3Z p) (p3Z p);
          rX = fe_sub rZ rY;
          rY = fe_add rZ rY;
          rZ = fe_add t0 rT;
          rT = fe_sub t0 rT
      in \<lparr>p1X = rX, p1Y = rY, p1Z = rZ, p1T = rT\<rparr>)"

definition ge_msub :: "ge_p3 \<Rightarrow> ge_precomp \<Rightarrow> ge_p1p1" where
  "ge_msub p q =
     (let rX = fe_add (p3Y p) (p3X p);
          rY = fe_sub (p3Y p) (p3X p);
          rZ = fe_mul rX (yminusx q);
          rY = fe_mul rY (yplusx q);
          rT = fe_mul (xy2d q) (p3T p);
          t0 = fe_add (p3Z p) (p3Z p);
          rX = fe_sub rZ rY;
          rY = fe_add rZ rY;
          rZ = fe_sub t0 rT;
          rT = fe_add t0 rT
      in \<lparr>p1X = rX, p1Y = rY, p1Z = rZ, p1T = rT\<rparr>)"

definition ge_p1p1_to_p2 :: "ge_p1p1 \<Rightarrow> ge_p2" where
  "ge_p1p1_to_p2 p =
     \<lparr>p2X = fe_mul (p1X p) (p1T p), p2Y = fe_mul (p1Y p) (p1Z p), p2Z = fe_mul (p1Z p) (p1T p)\<rparr>"

definition ge_p1p1_to_p3 :: "ge_p1p1 \<Rightarrow> ge_p3" where
  "ge_p1p1_to_p3 p =
     \<lparr>p3X = fe_mul (p1X p) (p1T p), p3Y = fe_mul (p1Y p) (p1Z p), p3Z = fe_mul (p1Z p) (p1T p),
      p3T = fe_mul (p1X p) (p1Y p)\<rparr>"

definition ge_p2_0 :: ge_p2 where
  "ge_p2_0 = \<lparr>p2X = fe_0, p2Y = fe_1, p2Z = fe_1\<rparr>"

definition ge_p3_0 :: ge_p3 where
  "ge_p3_0 = \<lparr>p3X = fe_0, p3Y = fe_1, p3Z = fe_1, p3T = fe_0\<rparr>"

definition ge_precomp_0 :: ge_precomp where
  "ge_precomp_0 = \<lparr>yplusx = fe_1, yminusx = fe_1, xy2d = fe_0\<rparr>"

definition ge_cached_0 :: ge_cached where
  "ge_cached_0 = \<lparr>YplusX = fe_1, YminusX = fe_1, cZ = fe_1, T2d = fe_0\<rparr>"

definition ge_p2_dbl :: "ge_p2 \<Rightarrow> ge_p1p1" where
  "ge_p2_dbl p =
     (let rX = fe_sq (p2X p);
          rZ = fe_sq (p2Y p);
          rT = fe_sq2 (p2Z p);
          rY = fe_add (p2X p) (p2Y p);
          t0 = fe_sq rY;
          rY = fe_add rZ rX;
          rZ = fe_sub rZ rX;
          rX = fe_sub t0 rY;
          rT = fe_sub rT rZ
      in \<lparr>p1X = rX, p1Y = rY, p1Z = rZ, p1T = rT\<rparr>)"

definition ge_p3_to_p2 :: "ge_p3 \<Rightarrow> ge_p2" where
  "ge_p3_to_p2 p = \<lparr>p2X = fe_copy (p3X p), p2Y = fe_copy (p3Y p), p2Z = fe_copy (p3Z p)\<rparr>"

definition ge_p3_dbl :: "ge_p3 \<Rightarrow> ge_p1p1" where
  "ge_p3_dbl p = ge_p2_dbl (ge_p3_to_p2 p)"

definition ge_p3_to_cached :: "ge_p3 \<Rightarrow> ge_cached" where
  "ge_p3_to_cached p =
     \<lparr>YplusX = fe_add (p3Y p) (p3X p), YminusX = fe_sub (p3Y p) (p3X p), cZ = fe_copy (p3Z p),
      T2d = fe_mul (p3T p) fe_d2\<rparr>"

definition ge_precomp_cmov :: "ge_precomp \<Rightarrow> ge_precomp \<Rightarrow> byte \<Rightarrow> ge_precomp" where
  "ge_precomp_cmov t u b =
     \<lparr>yplusx = fe_cmov (yplusx t) (yplusx u) (ucast b), yminusx = fe_cmov (yminusx t) (yminusx u) (ucast b),
      xy2d = fe_cmov (xy2d t) (xy2d u) (ucast b)\<rparr>"

definition ge_cached_cmov :: "ge_cached \<Rightarrow> ge_cached \<Rightarrow> byte \<Rightarrow> ge_cached" where
  "ge_cached_cmov t u b =
     \<lparr>YplusX = fe_cmov (YplusX t) (YplusX u) (ucast b), YminusX = fe_cmov (YminusX t) (YminusX u) (ucast b),
      cZ = fe_cmov (cZ t) (cZ u) (ucast b), T2d = fe_cmov (T2d t) (T2d u) (ucast b)\<rparr>"

definition ge_mul8 :: "ge_p2 \<Rightarrow> ge_p1p1" where
  "ge_mul8 t =
     (let r = ge_p2_dbl t;
          u = ge_p1p1_to_p2 r;
          r = ge_p2_dbl u;
          u = ge_p1p1_to_p2 r
      in ge_p2_dbl u)"

text \<open>The comparison is of the limbs, one index at a time.\<close>

definition ge_p3_is_point_at_infinity :: "ge_p3 \<Rightarrow> i32" where
  "ge_p3_is_point_at_infinity p =
     (if list_all (\<lambda>n. p3X p ! n OR p3T p ! n = 0 \<and> p3Y p ! n = p3Z p ! n) [0..<10] then 1 else 0)"

section \<open>The affine law\<close>

definition ed_d :: int where
  "ed_d = 37095705934669439343138083508754565189542113879843219016388785533085940283555"

definition on_curve :: "int \<Rightarrow> int \<Rightarrow> bool" where
  "on_curve x y \<longleftrightarrow> eqm p25519 (y\<^sup>2 - x\<^sup>2) (1 + ed_d * x\<^sup>2 * y\<^sup>2)"

text \<open>\<open>(x\<^sub>3, y\<^sub>3)\<close> is a sum of the two points, by the Edwards formulas with the denominators multiplied out.\<close>

definition ed_add :: "int \<Rightarrow> int \<Rightarrow> int \<Rightarrow> int \<Rightarrow> int \<Rightarrow> int \<Rightarrow> bool" where
  "ed_add x1 y1 x2 y2 x3 y3 \<longleftrightarrow>
     eqm p25519 (x3 * (1 + ed_d * x1 * x2 * y1 * y2)) (x1 * y2 + x2 * y1) \<and>
     eqm p25519 (y3 * (1 - ed_d * x1 * x2 * y1 * y2)) (y1 * y2 + x1 * x2)"

lemma fe_rep_const:
  assumes "length f = 10" "list_all (\<lambda>i. \<bar>sint (f ! i)\<bar> \<le> (if even i then 33554432 else 16777216)) [0..<10]"
    "eqm p25519 (\<Sum>i\<leftarrow>[0..<10]. sint (f ! i) * 2 ^ (fe_exps ! i)) x"
  shows "fe_rep 101 f x"
proof -
  have "fe_val f = (\<Sum>i\<leftarrow>[0..<10]. sint (f ! i) * 2 ^ (fe_exps ! i))"
    by (simp add: fe_val_def interv_sum_list_conv_sum_set_nat atLeast0LessThan del: upt_rec_numeral)
  moreover have "fe_bounded 101 25 f"
    unfolding fe_bounded_def
  proof (intro conjI allI impI)
    fix i :: nat assume "i < 10"
    then have "\<bar>sint (f ! i)\<bar> \<le> (if even i then 33554432 else 16777216)"
      using assms(2) by (auto simp: list_all_iff simp del: upt_rec_numeral)
    then show "100 * \<bar>sint (f ! i)\<bar> \<le> 101 * 2 ^ (if even i then 25 else 25 - 1)"
      by (simp split: if_splits)
  qed (rule assms(1))
  ultimately show ?thesis
    using assms(3) by (simp add: fe_rep_def)
qed

lemma fe_d_rep: "fe_rep 101 fe_d ed_d"
  by (rule fe_rep_const; code_simp)

lemma fe_d2_rep: "fe_rep 101 fe_d2 (2 * ed_d)"
  by (rule fe_rep_const; code_simp)

definition sqrtm1 :: int where
  "sqrtm1 = 19681161376707505956807079304988542015446066515923890162744021073123829784752"

lemma fe_sqrtm1_rep: "fe_rep 101 fe_sqrtm1 sqrtm1"
  by (rule fe_rep_const; code_simp)

lemma sqrtm1_sq: "eqm p25519 (sqrtm1 ^ 2) (- 1)"
  by code_simp

lemma ed_d_value: "eqm p25519 (ed_d * 121666) (- 121665)"
  by code_simp

section \<open>Represented points\<close>

definition p2_rep :: "ge_p2 \<Rightarrow> int \<Rightarrow> int \<Rightarrow> int \<Rightarrow> bool" where
  "p2_rep p x y z \<longleftrightarrow> fe_rep 101 (p2X p) (x * z) \<and> fe_rep 101 (p2Y p) (y * z) \<and> fe_rep 101 (p2Z p) z"

text \<open>The wider bounds that \<open>ge_p2_dbl\<close> and \<open>ge_tobytes\<close> accept, which a hash to a point needs.\<close>

definition p2_wide :: "ge_p2 \<Rightarrow> int \<Rightarrow> int \<Rightarrow> int \<Rightarrow> bool" where
  "p2_wide p x y z \<longleftrightarrow> fe_rep 101 (p2X p) (x * z) \<and> fe_rep 220 (p2Y p) (y * z) \<and> fe_rep 220 (p2Z p) z"

lemma p2_rep_wide: "p2_rep p x y z \<Longrightarrow> p2_wide p x y z"
  by (auto simp: p2_rep_def p2_wide_def intro: fe_rep_mono)

definition p3_rep :: "ge_p3 \<Rightarrow> int \<Rightarrow> int \<Rightarrow> int \<Rightarrow> bool" where
  "p3_rep p x y z \<longleftrightarrow> fe_rep 101 (p3X p) (x * z) \<and> fe_rep 101 (p3Y p) (y * z) \<and> fe_rep 101 (p3Z p) z
     \<and> fe_rep 101 (p3T p) (x * y * z)"

text \<open>The fractions \<open>xn / xd\<close> and \<open>yn / yd\<close>, with a common factor \<open>k\<close>.\<close>

definition p1p1_rep :: "ge_p1p1 \<Rightarrow> int \<Rightarrow> int \<Rightarrow> int \<Rightarrow> int \<Rightarrow> int \<Rightarrow> bool" where
  "p1p1_rep r k xn xd yn yd \<longleftrightarrow> fe_rep 330 (p1X r) (k * xn) \<and> fe_rep 330 (p1Z r) (k * xd)
     \<and> fe_rep 330 (p1Y r) (k * yn) \<and> fe_rep 330 (p1T r) (k * yd)"

definition cached_rep :: "ge_cached \<Rightarrow> int \<Rightarrow> int \<Rightarrow> int \<Rightarrow> bool" where
  "cached_rep q x y z \<longleftrightarrow> fe_rep 202 (YplusX q) ((y + x) * z) \<and> fe_rep 202 (YminusX q) ((y - x) * z)
     \<and> fe_rep 101 (cZ q) z \<and> fe_rep 101 (T2d q) (2 * ed_d * (x * y * z))"

definition precomp_rep :: "ge_precomp \<Rightarrow> int \<Rightarrow> int \<Rightarrow> bool" where
  "precomp_rep q x y \<longleftrightarrow> fe_rep 101 (yplusx q) (y + x) \<and> fe_rep 101 (yminusx q) (y - x)
     \<and> fe_rep 101 (xy2d q) (2 * ed_d * (x * y))"

lemmas point_rep_defs = p2_rep_def p3_rep_def p1p1_rep_def cached_rep_def precomp_rep_def

text \<open>Contracts of the field operations with the bounds the point operations need.\<close>

lemma fe_rep_add_202: "fe_rep 101 f x \<Longrightarrow> fe_rep 101 g y \<Longrightarrow> fe_rep 202 (fe_add f g) (x + y)"
  and fe_rep_sub_202: "fe_rep 101 f x \<Longrightarrow> fe_rep 101 g y \<Longrightarrow> fe_rep 202 (fe_sub f g) (x - y)"
  and fe_rep_add_303: "fe_rep 202 f x \<Longrightarrow> fe_rep 101 g y \<Longrightarrow> fe_rep 303 (fe_add f g) (x + y)"
  and fe_rep_sub_303: "fe_rep 202 f x \<Longrightarrow> fe_rep 101 g y \<Longrightarrow> fe_rep 303 (fe_sub f g) (x - y)"
  and fe_rep_sub_303': "fe_rep 101 f x \<Longrightarrow> fe_rep 202 g y \<Longrightarrow> fe_rep 303 (fe_sub f g) (x - y)"
  using fe_rep_add [of 101 f x 101 g y] fe_rep_sub [of 101 f x 101 g y] fe_rep_add [of 202 f x 101 g y]
    fe_rep_sub [of 202 f x 101 g y] fe_rep_sub [of 101 f x 202 g y]
  by simp_all

lemma fe_rep_330: "fe_rep 101 f x \<Longrightarrow> fe_rep 330 f x" "fe_rep 202 f x \<Longrightarrow> fe_rep 330 f x"
    "fe_rep 303 f x \<Longrightarrow> fe_rep 330 f x"
  by (auto intro: fe_rep_mono)

lemma fe_rep_eq: "fe_rep k f x \<Longrightarrow> x = y \<Longrightarrow> fe_rep k f y"
  by simp

section \<open>The operations on represented points\<close>

lemma ge_p3_to_cached_rep:
  assumes "p3_rep p x y z"
  shows "cached_rep (ge_p3_to_cached p) x y z"
proof -
  have p: "fe_rep 101 (p3X p) (x * z)" "fe_rep 101 (p3Y p) (y * z)" "fe_rep 101 (p3Z p) z"
    "fe_rep 101 (p3T p) (x * y * z)"
    using assms by (simp_all add: p3_rep_def)
  have "fe_rep 101 (fe_mul (p3T p) fe_d2) (x * y * z * (2 * ed_d))"
    by (rule fe_rep_mul [OF p(4) fe_d2_rep]) simp_all
  then show ?thesis
    unfolding cached_rep_def ge_p3_to_cached_def
    using fe_rep_add_202 [OF p(2,1)] fe_rep_sub_202 [OF p(2,1)] p(3) fe_rep_copy [OF p(3)]
    by (auto simp: algebra_simps)
qed

text \<open>
  The two halves of the addition formulas.  The subtractions use them with \<open>- x\<^sub>2\<close>, the mixed
  additions with \<open>z\<^sub>2 = 1\<close>.
\<close>

lemma edwards_XY:
  assumes "p3_rep p x1 y1 z1" "fe_rep 330 u ((y2 + x2) * z2)" "fe_rep 330 v ((y2 - x2) * z2)"
  defines "B \<equiv> fe_mul (fe_add (p3Y p) (p3X p)) u" and "A \<equiv> fe_mul (fe_sub (p3Y p) (p3X p)) v"
  shows "fe_rep 330 (fe_sub B A) (2 * z1 * z2 * (x1 * y2 + x2 * y1))"
    and "fe_rep 330 (fe_add B A) (2 * z1 * z2 * (y1 * y2 + x1 * x2))"
proof -
  have p: "fe_rep 101 (p3X p) (x1 * z1)" "fe_rep 101 (p3Y p) (y1 * z1)"
    using assms(1) by (simp_all add: p3_rep_def)
  note b = fe.mul_res [OF fe_rep_330(2) [OF fe_rep_add_202 [OF p(2,1)]] assms(2), folded B_def]
  note a = fe.mul_res [OF fe_rep_330(2) [OF fe_rep_sub_202 [OF p(2,1)]] assms(3), folded A_def]
  show "fe_rep 330 (fe_sub B A) (2 * z1 * z2 * (x1 * y2 + x2 * y1))"
    by (rule fe_rep_eq [OF fe_rep_330(2) [OF fe_rep_sub_202 [OF b a]]]) algebra
  show "fe_rep 330 (fe_add B A) (2 * z1 * z2 * (y1 * y2 + x1 * x2))"
    by (rule fe_rep_eq [OF fe_rep_330(2) [OF fe_rep_add_202 [OF b a]]]) algebra
qed

lemma edwards_ZT:
  assumes "p3_rep p x1 y1 z1" "fe_rep 202 D (2 * z1 * z2)" "fe_rep 330 t (2 * ed_d * (x2 * y2 * z2))"
  defines "C \<equiv> fe_mul t (p3T p)"
  shows "fe_rep 330 (fe_add D C) (2 * z1 * z2 * (1 + ed_d * x1 * x2 * y1 * y2))"
    and "fe_rep 330 (fe_sub D C) (2 * z1 * z2 * (1 - ed_d * x1 * x2 * y1 * y2))"
proof -
  have "fe_rep 101 (p3T p) (x1 * y1 * z1)"
    using assms(1) by (simp add: p3_rep_def)
  note c = fe.mul_res [OF assms(3) fe_rep_330(1) [OF this], folded C_def]
  show "fe_rep 330 (fe_add D C) (2 * z1 * z2 * (1 + ed_d * x1 * x2 * y1 * y2))"
    by (rule fe_rep_eq [OF fe_rep_330(3) [OF fe_rep_add_303 [OF assms(2) c]]]) algebra
  show "fe_rep 330 (fe_sub D C) (2 * z1 * z2 * (1 - ed_d * x1 * x2 * y1 * y2))"
    by (rule fe_rep_eq [OF fe_rep_330(3) [OF fe_rep_sub_303 [OF assms(2) c]]]) algebra
qed

lemma double_Z_rep:
  assumes "p3_rep p x1 y1 z1"
  shows "fe_rep 330 w z2 \<Longrightarrow> fe_rep 202 (fe_add (fe_mul (p3Z p) w) (fe_mul (p3Z p) w)) (2 * z1 * z2)"
    and "fe_rep 202 (fe_add (p3Z p) (p3Z p)) (2 * z1 * 1)"
proof -
  have z: "fe_rep 101 (p3Z p) z1"
    using assms by (simp add: p3_rep_def)
  show "fe_rep 202 (fe_add (p3Z p) (p3Z p)) (2 * z1 * 1)"
    by (rule fe_rep_eq [OF fe_rep_add_202 [OF z z]]) simp
  assume "fe_rep 330 w z2"
  note zw = fe.mul_res [OF fe_rep_330(1) [OF z] this]
  show "fe_rep 202 (fe_add (fe_mul (p3Z p) w) (fe_mul (p3Z p) w)) (2 * z1 * z2)"
    by (rule fe_rep_eq [OF fe_rep_add_202 [OF zw zw]]) simp
qed

definition ed_sum_rep :: "ge_p1p1 \<Rightarrow> int \<Rightarrow> int \<Rightarrow> int \<Rightarrow> int \<Rightarrow> int \<Rightarrow> bool" where
  "ed_sum_rep r k x1 y1 x2 y2 \<longleftrightarrow> p1p1_rep r k (x1 * y2 + x2 * y1) (1 + ed_d * x1 * x2 * y1 * y2)
     (y1 * y2 + x1 * x2) (1 - ed_d * x1 * x2 * y1 * y2)"

lemma cached_repD:
  assumes "cached_rep q x y z"
  shows "fe_rep 330 (YplusX q) ((y + x) * z)" "fe_rep 330 (YminusX q) ((y - x) * z)"
    "fe_rep 330 (cZ q) z" "fe_rep 330 (T2d q) (2 * ed_d * (x * y * z))"
  using assms by (auto simp: cached_rep_def intro: fe_rep_330)

lemma precomp_repD:
  assumes "precomp_rep q x y"
  shows "fe_rep 330 (yplusx q) ((y + x) * 1)" "fe_rep 330 (yminusx q) ((y - x) * 1)"
    "fe_rep 330 (xy2d q) (2 * ed_d * (x * y * 1))"
  using assms by (auto simp: precomp_rep_def intro: fe_rep_330)

lemma ge_add_sum:
  assumes "p3_rep p x1 y1 z1" "cached_rep q x2 y2 z2"
  shows "ed_sum_rep (ge_add p q) (2 * z1 * z2) x1 y1 x2 y2"
  using edwards_XY [OF assms(1) cached_repD(1,2) [OF assms(2)]]
    edwards_ZT [OF assms(1) double_Z_rep(1) [OF assms(1) cached_repD(3) [OF assms(2)]] cached_repD(4) [OF assms(2)]]
  by (simp add: ed_sum_rep_def p1p1_rep_def ge_add_def Let_def)

lemma ge_sub_sum:
  assumes "p3_rep p x1 y1 z1" "cached_rep q x2 y2 z2"
  shows "ed_sum_rep (ge_sub p q) (2 * z1 * z2) x1 y1 (- x2) y2"
  using edwards_XY [of p x1 y1 z1 "YminusX q" y2 "- x2" z2 "YplusX q"] assms(1) cached_repD(1,2) [OF assms(2)]
    edwards_ZT [OF assms(1) double_Z_rep(1) [OF assms(1) cached_repD(3) [OF assms(2)]] cached_repD(4) [OF assms(2)]]
  by (simp add: ed_sum_rep_def p1p1_rep_def ge_sub_def Let_def)

lemma ge_madd_sum:
  assumes "p3_rep p x1 y1 z1" "precomp_rep q x2 y2"
  shows "ed_sum_rep (ge_madd p q) (2 * z1) x1 y1 x2 y2"
  using edwards_XY [OF assms(1) precomp_repD(1,2) [OF assms(2)]]
    edwards_ZT [OF assms(1) double_Z_rep(2) [OF assms(1)] precomp_repD(3) [OF assms(2)]]
  by (simp add: ed_sum_rep_def p1p1_rep_def ge_madd_def Let_def)

lemma ge_msub_sum:
  assumes "p3_rep p x1 y1 z1" "precomp_rep q x2 y2"
  shows "ed_sum_rep (ge_msub p q) (2 * z1) x1 y1 (- x2) y2"
  using edwards_XY [of p x1 y1 z1 "yminusx q" y2 "- x2" 1 "yplusx q"] assms(1) precomp_repD(1,2) [OF assms(2)]
    edwards_ZT [OF assms(1) double_Z_rep(2) [OF assms(1)] precomp_repD(3) [OF assms(2)]]
  by (simp add: ed_sum_rep_def p1p1_rep_def ge_msub_def Let_def)

text \<open>Back to one denominator.\<close>

lemma ge_p1p1_to_p3_rep:
  assumes "p1p1_rep r k xn xd yn yd" "eqm p25519 (x * xd) xn" "eqm p25519 (y * yd) yn"
  shows "p3_rep (ge_p1p1_to_p3 r) x y (k * xd * (k * yd))"
proof -
  have r: "fe_rep 330 (p1X r) (k * xn)" "fe_rep 330 (p1Z r) (k * xd)" "fe_rep 330 (p1Y r) (k * yn)"
    "fe_rep 330 (p1T r) (k * yd)"
    using assms(1) by (simp_all add: p1p1_rep_def)
  have kx: "eqm p25519 (k * xn) (k * (x * xd))" and ky: "eqm p25519 (k * yn) (k * (y * yd))"
    using assms(2,3) by (auto intro!: eqm_mult simp: eqm_sym)
  note X = fe_rep_cong [OF r(1) kx] and Y = fe_rep_cong [OF r(3) ky]
  show ?thesis
    unfolding p3_rep_def ge_p1p1_to_p3_def ge_p3.select_convs
    by (intro conjI fe_rep_eq [OF fe.mul_res [OF X r(4)]] fe_rep_eq [OF fe.mul_res [OF Y r(2)]]
        fe.mul_res [OF r(2,4)] fe_rep_eq [OF fe.mul_res [OF X Y]]) (simp_all add: mult_ac)
qed

lemma p3_rep_p2: "p3_rep p x y z \<Longrightarrow> p2_rep (ge_p3_to_p2 p) x y z"
  unfolding p3_rep_def p2_rep_def ge_p3_to_p2_def by (auto simp: fe_rep_copy)

lemma ge_p1p1_to_p2_rep:
  assumes "p1p1_rep r k xn xd yn yd" "eqm p25519 (x * xd) xn" "eqm p25519 (y * yd) yn"
  shows "p2_rep (ge_p1p1_to_p2 r) x y (k * xd * (k * yd))"
  using ge_p1p1_to_p3_rep [OF assms]
  by (simp add: p3_rep_def p2_rep_def ge_p1p1_to_p2_def ge_p1p1_to_p3_def)

lemma ed_sum_rep_to_p3:
  assumes "ed_sum_rep r k x1 y1 x2 y2" "ed_add x1 y1 x2 y2 x y"
  defines "e \<equiv> ed_d * x1 * x2 * y1 * y2"
  shows "p3_rep (ge_p1p1_to_p3 r) x y (k * (1 + e) * (k * (1 - e)))"
    and "p2_rep (ge_p1p1_to_p2 r) x y (k * (1 + e) * (k * (1 - e)))"
  using ge_p1p1_to_p3_rep ge_p1p1_to_p2_rep assms(1,2) unfolding ed_sum_rep_def ed_add_def e_def by blast+

text \<open>Doubling; on the curve its fractions are those of the addition of a point to itself.\<close>

lemma ge_p2_dbl_values:
  assumes "p2_wide p x y z"
  shows "p1p1_rep (ge_p2_dbl p) (z\<^sup>2) (2 * (x * y)) (y\<^sup>2 - x\<^sup>2) (y\<^sup>2 + x\<^sup>2) (2 - (y\<^sup>2 - x\<^sup>2))"
proof -
  have p: "fe_rep 101 (p2X p) (x * z)" "fe_rep 220 (p2Y p) (y * z)" "fe_rep 330 (p2Z p) z"
    using assms by (auto simp: p2_wide_def intro: fe_rep_mono)
  have Y: "fe_rep 330 (p2Y p) (y * z)" and XY: "fe_rep 330 (fe_add (p2X p) (p2Y p)) (x * z + y * z)"
    using fe_rep_mono [OF p(2)] fe_rep_mono [OF fe_rep_add [OF p(1,2)]] by simp_all
  note X2 = fe.sq_res [OF fe_rep_330(1) [OF p(1)]] and Y2 = fe.sq_res [OF Y]
  have Z2: "fe_rep 101 (fe_sq2 (p2Z p)) (2 * z\<^sup>2)"
    using fe_rep_sq2 [OF p(3)] by simp
  note XY2 = fe.sq_res [OF XY]
  note rY = fe_rep_add_202 [OF Y2 X2] and rZ = fe_rep_sub_202 [OF Y2 X2]
  note rX = fe_rep_sub_303' [OF XY2 rY] and rT = fe_rep_sub_303' [OF Z2 rZ]
  show ?thesis
    unfolding p1p1_rep_def ge_p2_dbl_def Let_def ge_p1p1.select_convs
    by (intro conjI fe_rep_eq [OF fe_rep_330(3) [OF rX]] fe_rep_eq [OF fe_rep_330(2) [OF rZ]]
        fe_rep_eq [OF fe_rep_330(2) [OF rY]] fe_rep_eq [OF fe_rep_330(3) [OF rT]]) algebra+
qed

lemma p1p1_rep_cong:
  assumes "p1p1_rep r k xn xd yn yd" "eqm p25519 xn xn'" "eqm p25519 xd xd'" "eqm p25519 yn yn'" "eqm p25519 yd yd'"
  shows "p1p1_rep r k xn' xd' yn' yd'"
  using assms unfolding p1p1_rep_def by (auto intro: fe_rep_cong eqm_mult)

lemma ge_p2_dbl_sum:
  assumes "p2_wide p x y z" "on_curve x y"
  shows "ed_sum_rep (ge_p2_dbl p) (z\<^sup>2) x y x y"
  unfolding ed_sum_rep_def
proof (rule p1p1_rep_cong [OF ge_p2_dbl_values [OF assms(1)]])
  have c: "eqm p25519 (y\<^sup>2 - x\<^sup>2) (1 + ed_d * x\<^sup>2 * y\<^sup>2)"
    using assms(2) by (simp add: on_curve_def)
  then show "eqm p25519 (y\<^sup>2 - x\<^sup>2) (1 + ed_d * x * x * y * y)"
    by (simp add: power2_eq_square mult_ac)
  have "eqm p25519 (2 - (y\<^sup>2 - x\<^sup>2)) (2 - (1 + ed_d * x\<^sup>2 * y\<^sup>2))"
    by (intro eqm_diff eqm_refl c)
  then show "eqm p25519 (2 - (y\<^sup>2 - x\<^sup>2)) (1 - ed_d * x * x * y * y)"
    by (simp add: power2_eq_square mult_ac)
qed (simp_all add: power2_eq_square mult_ac)

lemma ge_p3_dbl_sum:
  "p3_rep p x y z \<Longrightarrow> on_curve x y \<Longrightarrow> ed_sum_rep (ge_p3_dbl p) (z\<^sup>2) x y x y"
  unfolding ge_p3_dbl_def by (rule ge_p2_dbl_sum [OF p2_rep_wide [OF p3_rep_p2]])

section \<open>Neutral elements and selection\<close>

lemma ge_0_rep: "p2_rep ge_p2_0 0 1 1" "p3_rep ge_p3_0 0 1 1" "cached_rep ge_cached_0 0 1 1"
    "precomp_rep ge_precomp_0 0 1"
  by (simp_all add: point_rep_defs ge_p2_0_def ge_p3_0_def ge_cached_0_def ge_precomp_0_def fe_rep_0 fe_rep_1)

lemma on_curve_0: "on_curve 0 1"
  by (simp add: on_curve_def)

lemma ed_add_0: "ed_add x y 0 1 x y"
  by (simp add: ed_add_def)

text \<open>The limbs of a conditional move are the old or the new ones.\<close>

definition cached_wf :: "ge_cached \<Rightarrow> bool" where
  "cached_wf q \<longleftrightarrow> length (YplusX q) = 10 \<and> length (YminusX q) = 10 \<and> length (cZ q) = 10 \<and> length (T2d q) = 10"

definition precomp_wf :: "ge_precomp \<Rightarrow> bool" where
  "precomp_wf q \<longleftrightarrow> length (yplusx q) = 10 \<and> length (yminusx q) = 10 \<and> length (xy2d q) = 10"

lemma ge_cached_cmov_eq:
  "cached_wf t \<Longrightarrow> ge_cached_cmov t u 0 = t" "cached_wf u \<Longrightarrow> ge_cached_cmov t u 1 = u"
  by (simp_all add: ge_cached_cmov_def cached_wf_def fe_cmov_0 fe_cmov_1)

lemma ge_precomp_cmov_eq:
  "precomp_wf t \<Longrightarrow> ge_precomp_cmov t u 0 = t" "precomp_wf u \<Longrightarrow> ge_precomp_cmov t u 1 = u"
  by (simp_all add: ge_precomp_cmov_def precomp_wf_def fe_cmov_0 fe_cmov_1)

end
