(* ===== verification/Recode.thy ===== *)
theory Recode
  imports Bytes
begin

text \<open>
  The recodings of a scalar that drive the scalar multiplications of
  \<^verbatim>\<open>src/base/tools/cryptonote/crypto-ops.c\<close>: signed digits to the base 16 in \<open>ge_scalarmult\<close>,
  \<open>ge_scalarmult_p3\<close> and \<open>ge_scalarmult_base\<close>, and the sliding windows of \<open>slide\<close>.  The digits are
  integers here; the lemmas bound them, and they fit the \<open>signed char\<close> of the code.
\<close>

unbundle bit_operations_syntax

section \<open>Signed digits to the base 16\<close>

text \<open>
  The loop of \<open>ge_scalarmult\<close> over \<^verbatim>\<open>a[0], \<dots>, a[30]\<close> with its variable \<^verbatim>\<open>carry\<close>, and the
  statements for \<^verbatim>\<open>a[31]\<close>.
\<close>

fun sm_digits :: "int \<Rightarrow> byte list \<Rightarrow> int list" where
  "sm_digits carry [] = []"
| "sm_digits carry [a] =
     (let carry = carry + uint a;
          carry2 = (carry + 8) div 2 ^ 4
      in [carry - carry2 * 2 ^ 4, carry2])"
| "sm_digits carry (a # as) =
     (let carry = carry + uint a;
          carry2 = (carry + 8) div 2 ^ 4;
          carry' = (carry2 + 8) div 2 ^ 4
      in (carry - carry2 * 2 ^ 4) # (carry2 - carry' * 2 ^ 4) # sm_digits carry' as)"

text \<open>The two loops of \<open>ge_scalarmult_base\<close>.\<close>

fun sb_nibbles :: "byte list \<Rightarrow> int list" where
  "sb_nibbles [] = []"
| "sb_nibbles (a # as) = uint (drop_bit 0 a AND 15) # uint (drop_bit 4 a AND 15) # sb_nibbles as"

fun sb_carries :: "int \<Rightarrow> int list \<Rightarrow> int list" where
  "sb_carries carry [] = []"
| "sb_carries carry [e] = [e + carry]"
| "sb_carries carry (e # es) =
     (let e = e + carry;
          carry = (e + 8) div 2 ^ 4
      in (e - carry * 2 ^ 4) # sb_carries carry es)"

definition sb_digits :: "byte list \<Rightarrow> int list" where
  "sb_digits a = sb_carries 0 (sb_nibbles a)"

lemma sm_digits_length: "a \<noteq> [] \<Longrightarrow> length (sm_digits c a) = 2 * length a"
  by (induction c a rule: sm_digits.induct) (auto simp: Let_def)

lemma sm_digits_val: "a \<noteq> [] \<Longrightarrow> base_val 16 (sm_digits c a) = c + le_val a"
proof (induction c a rule: sm_digits.induct)
  case (3 c a b as)
  then show ?case by (simp add: Let_def algebra_simps)
qed (simp_all add: Let_def)

text \<open>Every digit but the last is in \<open>{-8..7}\<close>; the last is at most 8 if the top byte is below 128.\<close>

lemma div_16_range:
  fixes x :: int
  shows "- 8 \<le> x - (x + 8) div 16 * 16" "x - (x + 8) div 16 * 16 \<le> 7"
proof -
  have "0 \<le> (x + 8) mod 16" "(x + 8) mod 16 < 16" "(x + 8) div 16 * 16 + (x + 8) mod 16 = x + 8"
    by simp_all
  then show "- 8 \<le> x - (x + 8) div 16 * 16" "x - (x + 8) div 16 * 16 \<le> 7"
    by linarith+
qed

lemma sm_digits_range:
  assumes "a \<noteq> []" "0 \<le> c" "c \<le> 1" "uint (last a) \<le> 127"
  shows "\<forall>e\<in>set (sm_digits c a). - 8 \<le> e \<and> e \<le> 8"
  using assms
proof (induction c a rule: sm_digits.induct)
  case (2 c a)
  have "0 \<le> (c + uint a + 8) div 16" "(c + uint a + 8) div 16 \<le> 136 div 16"
    using 2 by (auto simp: pos_imp_zdiv_nonneg_iff intro: zdiv_mono1)
  then show ?case
    using div_16_range [of "c + uint a"] by (simp add: Let_def)
next
  case (3 c a b as)
  let ?c2 = "(c + uint a + 8) div 16"
  have "0 \<le> ?c2" "?c2 \<le> 264 div 16"
    using 3(3,4) uint_byte_range [of a] by (auto simp: pos_imp_zdiv_nonneg_iff intro: zdiv_mono1)
  then have "0 \<le> (?c2 + 8) div 16" "(?c2 + 8) div 16 \<le> 24 div 16"
    by (auto simp: pos_imp_zdiv_nonneg_iff intro: zdiv_mono1)
  then have c': "0 \<le> (?c2 + 8) div 16" "(?c2 + 8) div 16 \<le> 1"
    by simp_all
  have "\<forall>e\<in>set (sm_digits ((?c2 + 8) div 16) (b # as)). - 8 \<le> e \<and> e \<le> 8"
    using 3(1) [OF refl refl refl] c' 3(5) by simp
  then show ?case
    using div_16_range [of "c + uint a"] div_16_range [of ?c2] by (simp add: Let_def)
qed simp

lemma uint_and_15: "uint (a AND 15 :: byte) = uint a mod 16"
proof -
  have "(15 :: byte) = mask 4"
    by (simp add: mask_eq_exp_minus_1)
  then have "a AND 15 = take_bit 4 a"
    by (simp only: take_bit_eq_mask)
  then have "a AND 15 = a mod 16"
    by (simp add: take_bit_eq_mod)
  then show ?thesis
    by (simp add: uint_mod_distrib)
qed

lemma nibbles_byte: "uint (drop_bit 0 a AND 15 :: byte) = uint a mod 16" "uint (drop_bit 4 a AND 15 :: byte) = uint a div 16"
proof -
  show "uint (drop_bit 0 a AND 15 :: byte) = uint a mod 16"
    by (simp add: uint_and_15)
  have "uint a < 16 * 16" using uint_byte_range [of a] by simp
  then have "0 \<le> uint a div 16" "uint a div 16 < 16"
    using int_div_less_pow2 [of "uint a" 4 4] by (simp_all add: pos_imp_zdiv_nonneg_iff)
  then show "uint (drop_bit 4 a AND 15 :: byte) = uint a div 16"
    unfolding uint_and_15 uint_drop_bit_div by simp
qed

lemma sb_nibbles_val: "base_val 16 (sb_nibbles a) = le_val a"
  by (induction a) (simp_all only: sb_nibbles.simps nibbles_byte, simp_all)

lemma sb_nibbles_length: "length (sb_nibbles a) = 2 * length a"
  by (induction a) simp_all

lemma sb_nibbles_range: "\<forall>e\<in>set (sb_nibbles a). 0 \<le> e \<and> e \<le> 15"
proof (induction a)
  case (Cons a as)
  have "0 \<le> uint a mod 16" "uint a mod 16 < 16" "uint a < 16 * 16"
    using uint_byte_range [of a] by simp_all
  moreover have "0 \<le> uint a div 16" "uint a div 16 < 16"
    using int_div_less_pow2 [of "uint a" 4 4] uint_byte_range [of a] by (simp_all add: pos_imp_zdiv_nonneg_iff)
  ultimately show ?case
    using Cons by (simp only: sb_nibbles.simps nibbles_byte) auto
qed simp

lemma sb_carries_val: "es \<noteq> [] \<Longrightarrow> base_val 16 (sb_carries c es) = c + base_val 16 es"
  by (induction c es rule: sb_carries.induct) (simp_all add: Let_def algebra_simps)

lemma sb_carries_length: "length (sb_carries c es) = length es"
  by (induction c es rule: sb_carries.induct) (simp_all add: Let_def)

lemma sb_carries_range:
  assumes "\<forall>e\<in>set es. 0 \<le> e \<and> e \<le> 15" "es \<noteq> []" "last es \<le> 7" "0 \<le> c" "c \<le> 1"
  shows "\<forall>e\<in>set (sb_carries c es). - 8 \<le> e \<and> e \<le> 8"
  using assms
proof (induction c es rule: sb_carries.induct)
  case (3 c e e' es)
  let ?c = "(e + c + 8) div 16"
  have "0 \<le> ?c" "?c \<le> 24 div 16"
    using 3(2,5,6) by (auto simp: pos_imp_zdiv_nonneg_iff intro: zdiv_mono1)
  then have "\<forall>e\<in>set (sb_carries ?c (e' # es)). - 8 \<le> e \<and> e \<le> 8"
    using 3 by (simp add: Let_def)
  then show ?case
    using div_16_range [of "e + c"] by (simp add: Let_def)
qed auto

lemma sb_nibbles_Nil [simp]: "sb_nibbles a = [] \<longleftrightarrow> a = []"
  by (cases a) simp_all

lemma sb_digits_val: "length a = 32 \<Longrightarrow> base_val 16 (sb_digits a) = le_val a"
  using sb_carries_val [of "sb_nibbles a" 0] by (cases a) (auto simp: sb_digits_def sb_nibbles_val simp del: sb_nibbles.simps)

lemma sb_nibbles_last: "a \<noteq> [] \<Longrightarrow> last (sb_nibbles a) = uint (last a) div 16"
proof (induction a)
  case (Cons a as)
  then show ?case
    by (simp only: sb_nibbles.simps nibbles_byte) auto
qed simp

lemma sb_digits_range:
  assumes "length a = 32" "uint (a ! 31) \<le> 127"
  shows "\<forall>e\<in>set (sb_digits a). - 8 \<le> e \<and> e \<le> 8" "length (sb_digits a) = 64"
proof -
  have ne: "a \<noteq> []" "sb_nibbles a \<noteq> []"
    using assms(1) sb_nibbles_length [of a] by auto
  have "uint (last a) div 16 \<le> 127 div 16"
    using assms ne by (intro zdiv_mono1) (simp_all add: last_conv_nth)
  then show "\<forall>e\<in>set (sb_digits a). - 8 \<le> e \<and> e \<le> 8"
    unfolding sb_digits_def by (intro sb_carries_range sb_nibbles_range ne) (simp_all add: sb_nibbles_last ne)
  show "length (sb_digits a) = 64"
    by (simp add: sb_digits_def sb_carries_length sb_nibbles_length assms)
qed

section \<open>Sliding windows\<close>

text \<open>The bits of the scalar: \<^verbatim>\<open>r[i] = 1 & (a[i >> 3] >> (i & 7));\<close>.\<close>

definition slide_bits :: "byte list \<Rightarrow> int list" where
  "slide_bits a = map (\<lambda>i. uint (1 AND drop_bit (i mod 8) (a ! (i div 8)))) [0..<256]"

text \<open>The loop over \<^verbatim>\<open>k\<close>: the first zero becomes one, the ones before it become zeros.\<close>

function slide_carry :: "nat \<Rightarrow> int list \<Rightarrow> int list" where
  "slide_carry k r =
     (if k < 256
      then if r ! k = 0 then r[k := 1] else slide_carry (k + 1) (r[k := 0])
      else r)"
  by pat_completeness auto
termination
  by (relation "measure (\<lambda>(k, r). 256 - k)") auto

text \<open>The loop over \<^verbatim>\<open>b\<close>, with its \<^verbatim>\<open>break\<close>.\<close>

function slide_window :: "nat \<Rightarrow> nat \<Rightarrow> int list \<Rightarrow> int list" where
  "slide_window i b r =
     (if b \<le> 6 \<and> i + b < 256
      then if r ! (i + b) \<noteq> 0
           then if r ! i + r ! (i + b) * 2 ^ b \<le> 15
                then slide_window i (b + 1) (r[i := r ! i + r ! (i + b) * 2 ^ b, i + b := 0])
                else if - 15 \<le> r ! i - r ! (i + b) * 2 ^ b
                then slide_window i (b + 1) (slide_carry (i + b) (r[i := r ! i - r ! (i + b) * 2 ^ b]))
                else r
           else slide_window i (b + 1) r
      else r)"
  by pat_completeness auto
termination
  by (relation "measure (\<lambda>(i, b, r). 7 - b)") auto

declare slide_carry.simps [simp del] slide_window.simps [simp del]

definition slide_step :: "nat \<Rightarrow> int list \<Rightarrow> int list" where
  "slide_step i r = (if r ! i \<noteq> 0 then slide_window i 1 r else r)"

definition slide :: "byte list \<Rightarrow> int list" where
  "slide a = fold slide_step [0..<256] (slide_bits a)"

subsection \<open>The value is kept\<close>

lemma slide_carry_props:
  assumes "length r = 256" "\<forall>j. k \<le> j \<and> j < 256 \<longrightarrow> r ! j = 0 \<or> r ! j = 1" "\<exists>j. k \<le> j \<and> j < 256 \<and> r ! j = 0"
  shows "length (slide_carry k r) = 256 \<and> base_val 2 (slide_carry k r) = base_val 2 r + 2 ^ k
    \<and> (\<forall>j<k. slide_carry k r ! j = r ! j)
    \<and> (\<forall>j. k \<le> j \<and> j < 256 \<longrightarrow> slide_carry k r ! j = 0 \<or> slide_carry k r ! j = 1)
    \<and> (r ! k = 1 \<longrightarrow> slide_carry k r ! k = 0)"
  using assms
proof (induction k r rule: slide_carry.induct)
  case (1 k r)
  have k: "k < 256" using 1(4) by auto
  show ?case
  proof (cases "r ! k = 0")
    case True
    then show ?thesis
      using k 1(2,3) by (auto simp: slide_carry.simps [of k] base_val_update nth_list_update)
  next
    case False
    then have rk: "r ! k = 1" using 1(3) k by auto
    let ?r = "r[k := 0]"
    have "\<exists>j. k + 1 \<le> j \<and> j < 256 \<and> ?r ! j = 0"
      using 1(4) False by (metis Suc_eq_plus1 le_antisym not_less_eq_eq nth_list_update_neq)
    moreover have "\<forall>j. k + 1 \<le> j \<and> j < 256 \<longrightarrow> ?r ! j = 0 \<or> ?r ! j = 1"
      using 1(3) by auto
    ultimately have IH: "length (slide_carry (k + 1) ?r) = 256"
      "base_val 2 (slide_carry (k + 1) ?r) = base_val 2 ?r + 2 ^ (k + 1)"
      "\<forall>j<k + 1. slide_carry (k + 1) ?r ! j = ?r ! j"
      "\<forall>j. k + 1 \<le> j \<and> j < 256 \<longrightarrow> slide_carry (k + 1) ?r ! j = 0 \<or> slide_carry (k + 1) ?r ! j = 1"
      using 1(1) [OF k False] 1(2) by auto
    have "slide_carry k r = slide_carry (k + 1) ?r"
      using k False by (subst slide_carry.simps) simp
    moreover have "slide_carry (k + 1) ?r ! k = 0"
      using IH(3) 1(2) k by simp
    moreover have "base_val 2 ?r + 2 ^ (k + 1) = base_val 2 r + 2 ^ k"
      using 1(2) k rk by (simp add: base_val_update)
    moreover have "\<forall>j. k \<le> j \<and> j < 256 \<longrightarrow> slide_carry (k + 1) ?r ! j = 0 \<or> slide_carry (k + 1) ?r ! j = 1"
    proof (intro allI impI)
      fix j assume "k \<le> j \<and> j < 256"
      then show "slide_carry (k + 1) ?r ! j = 0 \<or> slide_carry (k + 1) ?r ! j = 1"
        using IH(4) \<open>slide_carry (k + 1) ?r ! k = 0\<close> by (cases "j = k") auto
    qed
    ultimately show ?thesis
      using IH(1-3) by simp
  qed
qed

text \<open>
  The state of the loop over \<^verbatim>\<open>b\<close>: the window up to \<open>i + b\<close> is emptied into the odd digit \<open>r\<^sub>i\<close>, the
  entries above are still bits, and the entries below \<open>i\<close> are not touched.
\<close>

definition window_inv :: "nat \<Rightarrow> nat \<Rightarrow> int \<Rightarrow> int list \<Rightarrow> int list \<Rightarrow> bool" where
  "window_inv i b V L r \<longleftrightarrow> length r = 256 \<and> take i r = L \<and> odd (r ! i) \<and> - 15 \<le> r ! i \<and> r ! i \<le> 15
     \<and> (\<forall>j. i < j \<and> j < i + b \<and> j < 256 \<longrightarrow> r ! j = 0)
     \<and> (\<forall>j. i + b \<le> j \<and> j < 256 \<longrightarrow> r ! j = 0 \<or> r ! j = 1) \<and> base_val 2 r = V"

lemma base_val_ones: "base_val 2 (replicate n 1) = 2 ^ n - 1"
  by (induction n) simp_all

lemma base_val_zeros: "base_val b (replicate n 0) = 0"
  by (induction n) simp_all

lemma window_ones:
  assumes w: "window_inv i b V L r" and b: "0 < b" "i + b < 256"
    and ones: "\<forall>j. i + b \<le> j \<and> j < 256 \<longrightarrow> r ! j = 1"
  shows "V = base_val 2 L + 2 ^ i * r ! i + (2 ^ 256 - 2 ^ (i + b))"
proof -
  have len: "length r = 256" and L: "take i r = L" and z: "\<forall>j. i < j \<and> j < i + b \<longrightarrow> r ! j = 0"
    using w b by (auto simp: window_inv_def)
  have "r = L @ [r ! i] @ replicate (b - 1) 0 @ replicate (256 - (i + b)) 1"
  proof (rule nth_equalityI)
    show "length r = length (L @ [r ! i] @ replicate (b - 1) 0 @ replicate (256 - (i + b)) 1)"
      using len b L by auto
    fix j assume "j < length r"
    then consider "j < i" | "j = i" | "i < j" "j < i + b" | "i + b \<le> j" "j < 256"
      using len by linarith
    then show "r ! j = (L @ [r ! i] @ replicate (b - 1) 0 @ replicate (256 - (i + b)) 1) ! j"
      using z ones len b L by cases (auto simp: nth_append nth_Cons' min_def)
  qed
  then have "V = base_val 2 (L @ [r ! i] @ replicate (b - 1) 0 @ replicate (256 - (i + b)) 1)"
    using w by (simp add: window_inv_def)
  moreover have "length L = i" using L len b by auto
  moreover have "(2::int) ^ i * (2 * (2 ^ (b - 1) * (2 ^ (256 - (i + b)) - 1))) = 2 ^ 256 - 2 ^ (i + b)"
  proof -
    have "(2::int) ^ i * (2 * 2 ^ (b - 1)) = 2 ^ (i + b)" "(2::int) ^ (i + b) * 2 ^ (256 - (i + b)) = 2 ^ 256"
      using b by (simp_all only: power_add [symmetric] power_Suc [symmetric]) (simp_all add: power_add)
    moreover have "(2::int) ^ i * (2 * (2 ^ (b - 1) * (X - 1))) = 2 ^ i * (2 * 2 ^ (b - 1)) * X - 2 ^ i * (2 * 2 ^ (b - 1))" for X
      by (simp add: algebra_simps)
    ultimately show ?thesis by (simp only:)
  qed
  ultimately show ?thesis
    by (simp add: base_val_append base_val_ones base_val_zeros algebra_simps del: power_numeral)
qed

lemma window_zero_exists:
  assumes w: "window_inv i b V L r" and b: "0 < b" "i + b < 256" and pos: "1 \<le> r ! i"
    and L: "- (2 ^ i) < base_val 2 L" and V: "V < 2 ^ 255"
  shows "\<exists>j. i + b \<le> j \<and> j < 256 \<and> r ! j = 0"
proof (rule ccontr)
  assume "\<not> ?thesis"
  then have "\<forall>j. i + b \<le> j \<and> j < 256 \<longrightarrow> r ! j = 1"
    using w by (auto simp: window_inv_def)
  note eq = window_ones [OF w b this]
  have "(2::int) ^ (i + b) \<le> 2 ^ 255"
    using b by (intro power_increasing) simp_all
  moreover have "(2::int) ^ i * 1 \<le> 2 ^ i * r ! i"
    using pos by (intro mult_left_mono) simp_all
  moreover have "(2::int) ^ 256 = 2 ^ 255 + 2 ^ 255"
    by simp
  ultimately show False
    using eq L V by linarith
qed

text \<open>One round of the loop over \<^verbatim>\<open>b\<close>: the three ways to go on.\<close>

lemma window_skip:
  assumes "window_inv i b V L r" "i + b < 256" "r ! (i + b) = 0"
  shows "window_inv i (b + 1) V L r"
  using assms unfolding window_inv_def
  by (auto simp: less_Suc_eq)

lemma window_merge:
  assumes w: "window_inv i b V L r" and b: "0 < b" "i + b < 256"
    and le: "r ! (i + b) = 1" "r ! i + 2 ^ b \<le> 15"
  shows "window_inv i (b + 1) V L (r[i := r ! i + 2 ^ b, i + b := 0])"
proof -
  have len: "length r = 256" and old: "odd (r ! i)" "- 15 \<le> r ! i"
    using w by (auto simp: window_inv_def)
  have "base_val 2 (r[i := r ! i + 2 ^ b, i + b := 0]) = base_val 2 r"
    using len b le by (simp add: base_val_update power_add)
  moreover have "even ((2::int) ^ b)" using b by simp
  moreover have "- 15 \<le> r ! i + 2 ^ b"
  proof -
    have "(0::int) \<le> 2 ^ b" by simp
    then show ?thesis using old(2) by linarith
  qed
  ultimately show ?thesis
    using w b le old unfolding window_inv_def
    by (auto simp: nth_list_update take_update_cancel less_Suc_eq)
qed

lemma window_borrow:
  assumes w: "window_inv i b V L r" and b: "0 < b" "i + b < 256"
    and ge: "r ! (i + b) = 1" "15 < r ! i + 2 ^ b" "- 15 \<le> r ! i - 2 ^ b"
    and L: "- (2 ^ i) < base_val 2 L" and V: "V < 2 ^ 255"
  shows "window_inv i (b + 1) V L (slide_carry (i + b) (r[i := r ! i - 2 ^ b]))"
proof -
  let ?r = "r[i := r ! i - 2 ^ b]" and ?t = "slide_carry (i + b) (r[i := r ! i - 2 ^ b])"
  have len: "length r = 256" and old: "odd (r ! i)" "r ! i \<le> 15"
    using w by (auto simp: window_inv_def)
  have pos: "1 \<le> r ! i" using ge(2,3) by linarith
  have bits: "\<forall>j. i + b \<le> j \<and> j < 256 \<longrightarrow> ?r ! j = 0 \<or> ?r ! j = 1"
    using w b by (auto simp: window_inv_def)
  have zero: "\<exists>j. i + b \<le> j \<and> j < 256 \<and> ?r ! j = 0"
    using window_zero_exists [OF w b pos L V] b by auto
  have c: "length ?t = 256" "base_val 2 ?t = base_val 2 ?r + 2 ^ (i + b)" "\<forall>j<i + b. ?t ! j = ?r ! j"
    "\<forall>j. i + b \<le> j \<and> j < 256 \<longrightarrow> ?t ! j = 0 \<or> ?t ! j = 1" "?t ! (i + b) = 0"
    using slide_carry_props [OF _ bits zero] len ge(1) b by auto
  have "base_val 2 ?t = V"
    using w c(2) len b by (simp add: window_inv_def base_val_update power_add algebra_simps)
  moreover have "take i ?t = L"
    using w c(1,3) len by (auto simp: window_inv_def intro!: nth_equalityI)
  moreover have "?t ! i = r ! i - 2 ^ b"
    using c(3) b len by simp
  moreover have "even ((2::int) ^ b)" using b by simp
  moreover have "r ! i - 2 ^ b \<le> 15"
  proof -
    have "(0::int) \<le> 2 ^ b" by simp
    then show ?thesis using old(2) by linarith
  qed
  ultimately show ?thesis
    using w c b ge(3) old unfolding window_inv_def by (auto simp: less_Suc_eq)
qed

text \<open>
  The loop never breaks within the first four rounds, so it leaves at least four zeros above the
  digit.
\<close>

lemma window_break_late:
  fixes x :: int
  assumes "15 < x + 2 ^ b" "x - 2 ^ b < - 15" "- 15 \<le> x" "x \<le> 15" "odd x" "1 \<le> b"
  shows "5 \<le> b"
proof (rule ccontr)
  assume "\<not> 5 \<le> b"
  then have "b = 1 \<or> b = 2 \<or> b = 3 \<or> b = 4" using assms(6) by auto
  then have "x = 0" using assms(1-4) by auto
  then show False using assms(5) by simp
qed

lemma slide_window_inv:
  assumes "window_inv i b V L r" "1 \<le> b" "- (2 ^ i) < base_val 2 L" "V < 2 ^ 255"
  shows "\<exists>b'. window_inv i b' V L (slide_window i b r) \<and> 1 \<le> b' \<and> (5 \<le> b' \<or> 256 \<le> i + b')"
  using assms(1-3)
proof (induction i b r rule: slide_window.induct)
  case (1 i b r)
  show ?case
  proof (cases "b \<le> 6 \<and> i + b < 256")
    case False
    then have "slide_window i b r = r"
      by (subst slide_window.simps) (simp only: False if_False)
    then show ?thesis
      using False 1(4,5) by (intro exI [of _ b]) auto
  next
    case True
    then have b: "0 < b" "i + b < 256" using 1(5) by auto
    have w: "odd (r ! i)" "- 15 \<le> r ! i" "r ! i \<le> 15" "r ! (i + b) = 0 \<or> r ! (i + b) = 1"
      using 1(4) b by (auto simp: window_inv_def)
    consider (skip) "r ! (i + b) = 0" | (merge) "r ! (i + b) = 1" "r ! i + 2 ^ b \<le> 15"
      | (borrow) "r ! (i + b) = 1" "15 < r ! i + 2 ^ b" "- 15 \<le> r ! i - 2 ^ b"
      | (stop) "r ! (i + b) = 1" "15 < r ! i + 2 ^ b" "r ! i - 2 ^ b < - 15"
      using w(4) by linarith
    then show ?thesis
    proof cases
      case skip
      then show ?thesis
        using 1(3) [OF True] window_skip [OF 1(4) b(2)] 1(6) True by (simp add: slide_window.simps [of i b])
    next
      case merge
      then show ?thesis
        using 1(1) [OF True] window_merge [OF 1(4) b] 1(6) True by (simp add: slide_window.simps [of i b])
    next
      case borrow
      then show ?thesis
        using 1(2) [OF True] window_borrow [OF 1(4) b _ _ _ 1(6) assms(4)] 1(6) True
        by (simp add: slide_window.simps [of i b])
    next
      case stop
      then have "slide_window i b r = r"
        using True by (simp add: slide_window.simps [of i b])
      moreover have "5 \<le> b"
        using window_break_late [OF stop(2,3) w(2,3,1)] 1(5) by simp
      ultimately show ?thesis
        using 1(4,5) by auto
    qed
  qed
qed

text \<open>
  The loop over \<^verbatim>\<open>i\<close>.  Below \<open>i\<close> the digits are zero or odd; the number they make up is below
  \<open>2\<^sup>i\<^sup>+\<^sup>c\<close> when the next \<open>c\<close> entries are zero.
\<close>

definition slide_inv :: "nat \<Rightarrow> int \<Rightarrow> int list \<Rightarrow> bool" where
  "slide_inv i V r \<longleftrightarrow> length r = 256 \<and> base_val 2 r = V
     \<and> (\<forall>j<i. r ! j = 0 \<or> odd (r ! j) \<and> - 15 \<le> r ! j \<and> r ! j \<le> 15)
     \<and> (\<forall>j. i \<le> j \<and> j < 256 \<longrightarrow> r ! j = 0 \<or> r ! j = 1)
     \<and> (\<exists>c. (\<forall>j. i \<le> j \<and> j < i + c \<and> j < 256 \<longrightarrow> r ! j = 0) \<and> \<bar>base_val 2 (take i r)\<bar> < 2 ^ (i + c))"

lemma base_val_take_Suc: "i < length r \<Longrightarrow> base_val 2 (take (Suc i) r) = base_val 2 (take i r) + 2 ^ i * r ! i"
  by (simp add: take_Suc_conv_app_nth base_val_append)

lemma slide_step_zero:
  assumes inv: "slide_inv i V r" and i: "i < 256" "r ! i = 0"
  shows "slide_inv (Suc i) V r"
proof -
  obtain c where c: "\<forall>j. i \<le> j \<and> j < i + c \<and> j < 256 \<longrightarrow> r ! j = 0" "\<bar>base_val 2 (take i r)\<bar> < 2 ^ (i + c)"
    using inv by (auto simp: slide_inv_def)
  have "length r = 256" using inv by (simp add: slide_inv_def)
  then have same: "base_val 2 (take (Suc i) r) = base_val 2 (take i r)"
    using i by (simp add: base_val_take_Suc)
  have "(2::int) ^ (i + c) \<le> 2 ^ (Suc i + (c - 1))"
    by (intro power_increasing) simp_all
  then have "\<bar>base_val 2 (take (Suc i) r)\<bar> < 2 ^ (Suc i + (c - 1))"
    using c(2) same by linarith
  moreover have "\<forall>j. Suc i \<le> j \<and> j < Suc i + (c - 1) \<and> j < 256 \<longrightarrow> r ! j = 0"
    using c(1) by (cases c) auto
  ultimately show ?thesis
    using inv i(2) unfolding slide_inv_def by (auto simp: less_Suc_eq)
qed

lemma slide_step_digit:
  assumes inv: "slide_inv i V r" and i: "i < 256" "r ! i \<noteq> 0" and V: "V < 2 ^ 255"
  shows "slide_inv (Suc i) V (slide_window i 1 r)"
proof -
  let ?t = "slide_window i 1 r" and ?L = "take i r"
  obtain c where c: "\<forall>j. i \<le> j \<and> j < i + c \<and> j < 256 \<longrightarrow> r ! j = 0" "\<bar>base_val 2 ?L\<bar> < 2 ^ (i + c)"
    using inv by (auto simp: slide_inv_def)
  have "c = 0" using c(1) i by (metis add.right_neutral gr_zeroI le_refl nat_add_left_cancel_less)
  then have P: "\<bar>base_val 2 ?L\<bar> < 2 ^ i" using c(2) by simp
  have "r ! i = 1" using inv i by (auto simp: slide_inv_def)
  then have "window_inv i 1 V ?L r"
    using inv i by (auto simp: slide_inv_def window_inv_def)
  moreover have "- (2 ^ i) < base_val 2 ?L" using P by linarith
  ultimately obtain b where t: "window_inv i b V ?L ?t" "1 \<le> b" "5 \<le> b \<or> 256 \<le> i + b"
    using slide_window_inv V by blast
  have len: "length ?t = 256" and ti: "- 15 \<le> ?t ! i" "?t ! i \<le> 15" "odd (?t ! i)" and L: "take i ?t = ?L"
    using t(1) by (auto simp: window_inv_def)
  have "\<bar>2 ^ i * ?t ! i\<bar> \<le> 2 ^ i * 15"
    unfolding abs_mult using ti by (intro mult_mono) auto
  then have "\<bar>base_val 2 ?L + 2 ^ i * ?t ! i\<bar> < 2 ^ (Suc i + 3)"
    using P by (simp add: power_add)
  then have small: "\<bar>base_val 2 (take (Suc i) ?t)\<bar> < 2 ^ (Suc i + 3)"
    using len i(1) L by (simp add: base_val_take_Suc)
  have zeros: "\<forall>j. Suc i \<le> j \<and> j < Suc i + 3 \<and> j < 256 \<longrightarrow> ?t ! j = 0"
    using t by (auto simp: window_inv_def)
  have low: "\<forall>j<i. ?t ! j = r ! j"
    using L by (metis nth_take)
  have digits: "\<forall>j<Suc i. ?t ! j = 0 \<or> odd (?t ! j) \<and> - 15 \<le> ?t ! j \<and> ?t ! j \<le> 15"
    using inv low ti by (auto simp: slide_inv_def less_Suc_eq)
  have bits: "\<forall>j. Suc i \<le> j \<and> j < 256 \<longrightarrow> ?t ! j = 0 \<or> ?t ! j = 1"
    using t(1,2) by (auto simp: window_inv_def) (metis not_le_imp_less Suc_le_eq)
  show ?thesis
    unfolding slide_inv_def
  proof (intro conjI exI [of _ "3::nat"] len digits bits zeros small)
    show "base_val 2 ?t = V" using t(1) by (simp add: window_inv_def)
  qed
qed

lemma slide_step_inv: "slide_inv n V t \<Longrightarrow> n < 256 \<Longrightarrow> V < 2 ^ 255 \<Longrightarrow> slide_inv (Suc n) V (slide_step n t)"
  using slide_step_zero slide_step_digit by (auto simp: slide_step_def simp del: One_nat_def power_numeral)

lemma slide_inv_steps:
  assumes "slide_inv 0 V r" "V < 2 ^ 255" "n \<le> 256"
  shows "slide_inv n V (fold slide_step [0..<n] r)"
  using assms(3) by (induction n) (simp_all add: assms(1) slide_step_inv [OF _ _ assms(2)])

lemma nth_byte_digit:
  assumes "k < length a"
  shows "uint (a ! k) = le_val a div 2 ^ (8 * k) mod 2 ^ 8"
proof -
  have "le_val (drop k a) = uint (a ! k) + 2 ^ 8 * le_val (drop (Suc k) a)"
    using assms by (simp add: Cons_nth_drop_Suc [symmetric])
  then show ?thesis
    using le_val_drop [of k a] assms uint_byte_range [of "a ! k"] by simp
qed

lemma slide_bits_digit:
  assumes "length a = 32" "i < 256"
  shows "slide_bits a ! i = le_val a div 2 ^ (1 * i) mod 2 ^ 1"
proof -
  have "uint (1 AND w) = uint w mod 2" for w :: byte
    by (simp add: one_and_eq uint_mod_distrib)
  then have "slide_bits a ! i = uint (a ! (i div 8)) div 2 ^ (i mod 8) mod 2"
    using assms(2) by (simp add: slide_bits_def uint_drop_bit_div)
  also have "\<dots> = le_val a div 2 ^ (8 * (i div 8)) mod 2 ^ 8 div 2 ^ (i mod 8) mod 2 ^ 1"
    using nth_byte_digit [of "i div 8" a] assms by simp
  also have "\<dots> = le_val a div 2 ^ (8 * (i div 8)) div 2 ^ (i mod 8) mod 2 ^ 1"
    by (rule mod_pow2_digit) simp
  also have "le_val a div 2 ^ (8 * (i div 8)) div 2 ^ (i mod 8) = le_val a div 2 ^ i"
    by (simp add: zdiv_zmult2_eq [symmetric] power_add [symmetric])
  finally show ?thesis by simp
qed

lemma slide_bits_val: "length a = 32 \<Longrightarrow> base_val 2 (slide_bits a) = le_val a"
proof -
  assume a: "length a = 32"
  have "base_val 2 (slide_bits a) = (\<Sum>i<256. (le_val a div 2 ^ (1 * i) mod 2 ^ 1) * 2 ^ (1 * i))"
    unfolding base_val_sum using slide_bits_digit [OF a] by (intro sum.cong) (simp_all add: slide_bits_def)
  also have "\<dots> = le_val a mod 2 ^ (1 * 256)"
    by (rule digits_sum)
  finally show ?thesis
    using le_val_less [of a] a by simp
qed

lemma slide_correct:
  assumes "length a = 32" "le_val a < 2 ^ 255"
  shows "base_val 2 (slide a) = le_val a" "length (slide a) = 256"
    and "\<And>i. i < 256 \<Longrightarrow> slide a ! i = 0 \<or> odd (slide a ! i) \<and> - 15 \<le> slide a ! i \<and> slide a ! i \<le> 15"
proof -
  have "\<forall>j. 0 \<le> j \<and> j < 256 \<longrightarrow> slide_bits a ! j = 0 \<or> slide_bits a ! j = 1"
    using slide_bits_digit [OF assms(1)] by (simp add: mod_2_eq_odd)
  then have "slide_inv 0 (le_val a) (slide_bits a)"
    using slide_bits_val [OF assms(1)] by (auto simp: slide_inv_def slide_bits_def intro: exI [of _ 0])
  from slide_inv_steps [OF this assms(2), of 256] have "slide_inv 256 (le_val a) (slide a)"
    by (simp add: slide_def del: upt_rec_numeral)
  then show "base_val 2 (slide a) = le_val a" "length (slide a) = 256"
    "\<And>i. i < 256 \<Longrightarrow> slide a ! i = 0 \<or> odd (slide a ! i) \<and> - 15 \<le> slide a ! i \<and> slide a ! i \<le> 15"
    by (auto simp: slide_inv_def)
qed

end
