(* ===== verification/ScalarMult.thy ===== *)
theory ScalarMult
  imports BaseTable Recode
begin

text \<open>
  The scalar multiplications of \<^verbatim>\<open>src/base/tools/cryptonote/crypto-ops.c\<close>: with a fixed window
  (\<open>ge_scalarmult\<close>, \<open>ge_scalarmult_p3\<close>), with the table of multiples of the base point
  (\<open>ge_scalarmult_base\<close>) and with sliding windows (\<open>ge_dsm_precomp\<close> and the double and triple
  products), and what the branch-free selection of a table entry yields.
\<close>

unbundle bit_operations_syntax

section \<open>Selection without branches\<close>

text \<open>A \<open>signed char\<close> and an \<open>unsigned char\<close> are both a byte.\<close>

definition equal_ct :: "byte \<Rightarrow> byte \<Rightarrow> byte" where
  "equal_ct b c =
     (let x = b XOR c;
          y = ucast x :: i32;
          y = y - 1;
          y = drop_bit 31 y
      in ucast y)"

definition negative_ct :: "byte \<Rightarrow> byte" where
  "negative_ct b = ucast (drop_bit 63 (scast b :: i64))"

definition babs_ct :: "byte \<Rightarrow> byte" where
  "babs_ct b = b - push_bit 1 ((- negative_ct b) AND b)"

text \<open>The body of \<open>select\<close> after its table row \<^verbatim>\<open>ge_base[pos]\<close> has been picked.\<close>

definition select_row :: "ge_precomp list \<Rightarrow> byte \<Rightarrow> ge_precomp" where
  "select_row row b =
     (let bnegative = negative_ct b;
          babs = babs_ct b;
          t = ge_precomp_0;
          t = ge_precomp_cmov t (row ! 0) (equal_ct babs 1);
          t = ge_precomp_cmov t (row ! 1) (equal_ct babs 2);
          t = ge_precomp_cmov t (row ! 2) (equal_ct babs 3);
          t = ge_precomp_cmov t (row ! 3) (equal_ct babs 4);
          t = ge_precomp_cmov t (row ! 4) (equal_ct babs 5);
          t = ge_precomp_cmov t (row ! 5) (equal_ct babs 6);
          t = ge_precomp_cmov t (row ! 6) (equal_ct babs 7);
          t = ge_precomp_cmov t (row ! 7) (equal_ct babs 8);
          minust = \<lparr>yplusx = fe_copy (yminusx t), yminusx = fe_copy (yplusx t), xy2d = fe_neg (xy2d t)\<rparr>
      in ge_precomp_cmov t minust bnegative)"

definition select_cached :: "ge_cached list \<Rightarrow> byte \<Rightarrow> ge_cached" where
  "select_cached Ai b =
     (let bnegative = negative_ct b;
          babs = babs_ct b;
          cur = ge_cached_0;
          cur = ge_cached_cmov cur (Ai ! 0) (equal_ct babs 1);
          cur = ge_cached_cmov cur (Ai ! 1) (equal_ct babs 2);
          cur = ge_cached_cmov cur (Ai ! 2) (equal_ct babs 3);
          cur = ge_cached_cmov cur (Ai ! 3) (equal_ct babs 4);
          cur = ge_cached_cmov cur (Ai ! 4) (equal_ct babs 5);
          cur = ge_cached_cmov cur (Ai ! 5) (equal_ct babs 6);
          cur = ge_cached_cmov cur (Ai ! 6) (equal_ct babs 7);
          cur = ge_cached_cmov cur (Ai ! 7) (equal_ct babs 8);
          minuscur = \<lparr>YplusX = fe_copy (YminusX cur), YminusX = fe_copy (YplusX cur), cZ = fe_copy (cZ cur),
                      T2d = fe_neg (T2d cur)\<rparr>
      in ge_cached_cmov cur minuscur bnegative)"

section \<open>Fixed windows\<close>

text \<open>\<^verbatim>\<open>Ai[8]\<close> holds \<^verbatim>\<open>1 * A, 2 * A, \<dots>, 8 * A\<close>.\<close>

fun sm_table :: "ge_p3 \<Rightarrow> nat \<Rightarrow> ge_cached list" where
  "sm_table A 0 = [ge_p3_to_cached A]"
| "sm_table A (Suc i) =
     (let Ai = sm_table A i;
          t = ge_add A (Ai ! i);
          u = ge_p1p1_to_p3 t
      in Ai @ [ge_p3_to_cached u])"

text \<open>The body of the loop, up to the conversion of \<^verbatim>\<open>t\<close> that ends it.\<close>

definition sm_step :: "ge_cached list \<Rightarrow> int \<Rightarrow> ge_p2 \<Rightarrow> ge_p1p1" where
  "sm_step Ai e r =
     (let b = word_of_int e;
          t = ge_p2_dbl r;
          r = ge_p1p1_to_p2 t;
          t = ge_p2_dbl r;
          r = ge_p1p1_to_p2 t;
          t = ge_p2_dbl r;
          r = ge_p1p1_to_p2 t;
          t = ge_p2_dbl r;
          u = ge_p1p1_to_p3 t;
          cur = select_cached Ai b
      in ge_add u cur)"

definition ge_scalarmult :: "byte list \<Rightarrow> ge_p3 \<Rightarrow> ge_p2" where
  "ge_scalarmult a A =
     (let e = sm_digits 0 a;
          Ai = sm_table A 7
      in fold (\<lambda>i r. ge_p1p1_to_p2 (sm_step Ai (e ! i) r)) (rev [0..<64]) ge_p2_0)"

text \<open>The last round, \<^verbatim>\<open>i == 0\<close>, ends in \<open>ge_p3\<close>.\<close>

definition ge_scalarmult_p3 :: "byte list \<Rightarrow> ge_p3 \<Rightarrow> ge_p3" where
  "ge_scalarmult_p3 a A =
     (let e = sm_digits 0 a;
          Ai = sm_table A 7;
          r = fold (\<lambda>i r. ge_p1p1_to_p2 (sm_step Ai (e ! i) r)) (rev [1..<64]) ge_p2_0
      in ge_p1p1_to_p3 (sm_step Ai (e ! 0) r))"

text \<open>The multiplication of the base point; \<open>base\<close> is the table \<^verbatim>\<open>ge_base\<close>.\<close>

definition sb_step :: "ge_precomp list list \<Rightarrow> int list \<Rightarrow> nat \<Rightarrow> ge_p3 \<Rightarrow> ge_p3" where
  "sb_step base e i h =
     (let t = select_row (base ! (i div 2)) (word_of_int (e ! i));
          r = ge_madd h t
      in ge_p1p1_to_p3 r)"

definition sb_dbl4 :: "ge_p3 \<Rightarrow> ge_p3" where
  "sb_dbl4 h =
     (let r = ge_p3_dbl h; s = ge_p1p1_to_p2 r;
          r = ge_p2_dbl s; s = ge_p1p1_to_p2 r;
          r = ge_p2_dbl s; s = ge_p1p1_to_p2 r;
          r = ge_p2_dbl s
      in ge_p1p1_to_p3 r)"

definition scalarmult_base :: "ge_precomp list list \<Rightarrow> byte list \<Rightarrow> ge_p3" where
  "scalarmult_base base a =
     (let e = sb_digits a;
          h = ge_p3_0;
          h = fold (\<lambda>i. sb_step base e (2 * i + 1)) [0..<32] h;
          h = sb_dbl4 h
      in fold (\<lambda>i. sb_step base e (2 * i)) [0..<32] h)"

section \<open>Sliding windows\<close>

text \<open>\<^verbatim>\<open>A, 3A, 5A, 7A, 9A, 11A, 13A, 15A\<close>.\<close>

fun dsm_rest :: "ge_p3 \<Rightarrow> ge_cached list \<Rightarrow> nat \<Rightarrow> ge_cached list" where
  "dsm_rest s2 r 0 = r"
| "dsm_rest s2 r (Suc n) =
     (let t = ge_add s2 (last r);
          u = ge_p1p1_to_p3 t
      in dsm_rest s2 (r @ [ge_p3_to_cached u]) n)"

definition ge_dsm_precomp :: "ge_p3 \<Rightarrow> ge_cached list" where
  "ge_dsm_precomp s =
     (let r0 = ge_p3_to_cached s;
          t = ge_p3_dbl s;
          s2 = ge_p1p1_to_p3 t
      in dsm_rest s2 [r0] 7)"

text \<open>The two kinds of \<^verbatim>\<open>if \<dots> else if\<close> in the loops.\<close>

definition dsm_cached :: "ge_cached list \<Rightarrow> int \<Rightarrow> ge_p1p1 \<Rightarrow> ge_p1p1" where
  "dsm_cached Ai s t =
     (if 0 < s then ge_add (ge_p1p1_to_p3 t) (Ai ! nat (s div 2))
      else if s < 0 then ge_sub (ge_p1p1_to_p3 t) (Ai ! nat (- s div 2))
      else t)"

definition dsm_precomp :: "ge_precomp list \<Rightarrow> int \<Rightarrow> ge_p1p1 \<Rightarrow> ge_p1p1" where
  "dsm_precomp Bi s t =
     (if 0 < s then ge_madd (ge_p1p1_to_p3 t) (Bi ! nat (s div 2))
      else if s < 0 then ge_msub (ge_p1p1_to_p3 t) (Bi ! nat (- s div 2))
      else t)"

text \<open>
  The loops: from the highest index at which a digit is not zero down to 0.  \<open>body i t\<close> is what
  follows \<open>ge_p2_dbl\<close> in round \<open>i\<close>, and \<open>used i\<close> the condition under which the first loop breaks.
\<close>

definition dsm_rounds :: "(nat \<Rightarrow> bool) \<Rightarrow> nat list" where
  "dsm_rounds used = dropWhile (\<lambda>i. \<not> used i) (rev [0..<256])"

definition dsm_loop :: "(nat \<Rightarrow> ge_p1p1 \<Rightarrow> ge_p1p1) \<Rightarrow> nat list \<Rightarrow> ge_p2 \<Rightarrow> ge_p2" where
  "dsm_loop body is r = fold (\<lambda>i r. ge_p1p1_to_p2 (body i (ge_p2_dbl r))) is r"

text \<open>
  The loops of the \<^verbatim>\<open>_p3\<close> variants write their result in round 0; without a round they write
  nothing, which is \<open>None\<close>.
\<close>

definition dsm_loop_p3 :: "(nat \<Rightarrow> ge_p1p1 \<Rightarrow> ge_p1p1) \<Rightarrow> nat list \<Rightarrow> ge_p2 \<Rightarrow> ge_p3 option" where
  "dsm_loop_p3 body is r =
     (if is = [] then None
      else Some (ge_p1p1_to_p3 (body (last is) (ge_p2_dbl (dsm_loop body (butlast is) r)))))"

definition double_scalarmult_base_vartime :: "ge_precomp list \<Rightarrow> byte list \<Rightarrow> ge_p3 \<Rightarrow> byte list \<Rightarrow> ge_p2" where
  "double_scalarmult_base_vartime Bi a A b =
     (let aslide = slide a;
          bslide = slide b;
          Ai = ge_dsm_precomp A;
          body = \<lambda>i t. dsm_precomp Bi (bslide ! i) (dsm_cached Ai (aslide ! i) t)
      in dsm_loop body (dsm_rounds (\<lambda>i. aslide ! i \<noteq> 0 \<or> bslide ! i \<noteq> 0)) ge_p2_0)"

definition double_scalarmult_base_vartime_p3 ::
    "ge_precomp list \<Rightarrow> byte list \<Rightarrow> ge_p3 \<Rightarrow> byte list \<Rightarrow> ge_p3 option" where
  "double_scalarmult_base_vartime_p3 Bi a A b =
     (let aslide = slide a;
          bslide = slide b;
          Ai = ge_dsm_precomp A;
          body = \<lambda>i t. dsm_precomp Bi (bslide ! i) (dsm_cached Ai (aslide ! i) t)
      in dsm_loop_p3 body (dsm_rounds (\<lambda>i. aslide ! i \<noteq> 0 \<or> bslide ! i \<noteq> 0)) ge_p2_0)"

definition triple_scalarmult_base_vartime ::
    "ge_precomp list \<Rightarrow> byte list \<Rightarrow> byte list \<Rightarrow> ge_cached list \<Rightarrow> byte list \<Rightarrow> ge_cached list \<Rightarrow> ge_p2" where
  "triple_scalarmult_base_vartime Gi a b Bi c Ci =
     (let aslide = slide a;
          bslide = slide b;
          cslide = slide c;
          body = \<lambda>i t. dsm_cached Ci (cslide ! i) (dsm_cached Bi (bslide ! i) (dsm_precomp Gi (aslide ! i) t))
      in dsm_loop body (dsm_rounds (\<lambda>i. aslide ! i \<noteq> 0 \<or> bslide ! i \<noteq> 0 \<or> cslide ! i \<noteq> 0)) ge_p2_0)"

definition ge_double_scalarmult_precomp_vartime2 ::
    "byte list \<Rightarrow> ge_cached list \<Rightarrow> byte list \<Rightarrow> ge_cached list \<Rightarrow> ge_p2" where
  "ge_double_scalarmult_precomp_vartime2 a Ai b Bi =
     (let aslide = slide a;
          bslide = slide b;
          body = \<lambda>i t. dsm_cached Bi (bslide ! i) (dsm_cached Ai (aslide ! i) t)
      in dsm_loop body (dsm_rounds (\<lambda>i. aslide ! i \<noteq> 0 \<or> bslide ! i \<noteq> 0)) ge_p2_0)"

definition ge_double_scalarmult_precomp_vartime2_p3 ::
    "byte list \<Rightarrow> ge_cached list \<Rightarrow> byte list \<Rightarrow> ge_cached list \<Rightarrow> ge_p3 option" where
  "ge_double_scalarmult_precomp_vartime2_p3 a Ai b Bi =
     (let aslide = slide a;
          bslide = slide b;
          body = \<lambda>i t. dsm_cached Bi (bslide ! i) (dsm_cached Ai (aslide ! i) t)
      in dsm_loop_p3 body (dsm_rounds (\<lambda>i. aslide ! i \<noteq> 0 \<or> bslide ! i \<noteq> 0)) ge_p2_0)"

definition ge_triple_scalarmult_precomp_vartime ::
    "byte list \<Rightarrow> ge_cached list \<Rightarrow> byte list \<Rightarrow> ge_cached list \<Rightarrow> byte list \<Rightarrow> ge_cached list \<Rightarrow> ge_p2" where
  "ge_triple_scalarmult_precomp_vartime a Ai b Bi c Ci =
     (let aslide = slide a;
          bslide = slide b;
          cslide = slide c;
          body = \<lambda>i t. dsm_cached Ci (cslide ! i) (dsm_cached Bi (bslide ! i) (dsm_cached Ai (aslide ! i) t))
      in dsm_loop body (dsm_rounds (\<lambda>i. aslide ! i \<noteq> 0 \<or> bslide ! i \<noteq> 0 \<or> cslide ! i \<noteq> 0)) ge_p2_0)"

definition ge_double_scalarmult_precomp_vartime ::
    "byte list \<Rightarrow> ge_p3 \<Rightarrow> byte list \<Rightarrow> ge_cached list \<Rightarrow> ge_p2" where
  "ge_double_scalarmult_precomp_vartime a A b Bi =
     (let Ai = ge_dsm_precomp A
      in ge_double_scalarmult_precomp_vartime2 a Ai b Bi)"

text \<open>The entry points that use the tables of the program.\<close>

definition ge_scalarmult_base :: "byte list \<Rightarrow> ge_p3" where
  "ge_scalarmult_base = scalarmult_base ge_base"

definition ge_double_scalarmult_base_vartime :: "byte list \<Rightarrow> ge_p3 \<Rightarrow> byte list \<Rightarrow> ge_p2" where
  "ge_double_scalarmult_base_vartime = double_scalarmult_base_vartime ge_Bi"

definition ge_double_scalarmult_base_vartime_p3 :: "byte list \<Rightarrow> ge_p3 \<Rightarrow> byte list \<Rightarrow> ge_p3 option" where
  "ge_double_scalarmult_base_vartime_p3 = double_scalarmult_base_vartime_p3 ge_Bi"

definition ge_triple_scalarmult_base_vartime ::
    "byte list \<Rightarrow> byte list \<Rightarrow> ge_cached list \<Rightarrow> byte list \<Rightarrow> ge_cached list \<Rightarrow> ge_p2" where
  "ge_triple_scalarmult_base_vartime = triple_scalarmult_base_vartime ge_Bi"

section \<open>The selected entry\<close>

lemma equal_ct_eq: "equal_ct b c = (if b = c then 1 else 0)"
proof (cases "b = c")
  case True
  have "drop_bit 31 (- 1 :: i32) = 1"
    by code_simp
  then show ?thesis
    using True by (simp add: equal_ct_def)
next
  case False
  let ?x = "b XOR c"
  have "b = ?x XOR c"
    by (simp add: xor.assoc)
  then have "?x \<noteq> 0"
    using False by auto
  then have "0 < uint ?x" "uint ?x < 256"
    using uint_byte_range [of ?x] by (simp_all add: word_neq_0_conv word_less_def)
  moreover have "uint (ucast ?x :: i32) = uint ?x"
    by (rule uint_up_ucast) (simp add: is_up)
  ultimately have "uint (ucast ?x - 1 :: i32) = uint ?x - 1"
    by (simp add: uint_sub_if')
  then have "uint (drop_bit 31 (ucast ?x - 1 :: i32)) = 0"
    using \<open>uint ?x < 256\<close> \<open>0 < uint ?x\<close> by (simp add: uint_drop_bit_div)
  then have "drop_bit 31 (ucast ?x - 1 :: i32) = 0"
    by (simp only: uint_0_iff)
  then show ?thesis
    using False by (simp add: equal_ct_def Let_def)
qed

lemma digit_cases:
  fixes e :: int
  assumes "- 8 \<le> e" "e \<le> 8"
  shows "e \<in> {- 8, - 7, - 6, - 5, - 4, - 3, - 2, - 1, 0, 1, 2, 3, 4, 5, 6, 7, 8}"
  using assms by (simp only: insert_iff empty_iff) presburger

lemma negative_digit:
  assumes "- 8 \<le> e" "e \<le> 8"
  shows "negative_ct (word_of_int e) = (if e < 0 then 1 else 0)"
    and "babs_ct (word_of_int e) = word_of_int \<bar>e\<bar>"
  using digit_cases [OF assms] by (elim insertE emptyE; hypsubst; code_simp)+

definition cached_neg :: "ge_cached \<Rightarrow> ge_cached" where
  "cached_neg q = \<lparr>YplusX = fe_copy (YminusX q), YminusX = fe_copy (YplusX q), cZ = fe_copy (cZ q),
     T2d = fe_neg (T2d q)\<rparr>"

definition precomp_neg :: "ge_precomp \<Rightarrow> ge_precomp" where
  "precomp_neg q = \<lparr>yplusx = fe_copy (yminusx q), yminusx = fe_copy (yplusx q), xy2d = fe_neg (xy2d q)\<rparr>"

lemma wf_neg [simp]: "cached_wf (cached_neg q)" "precomp_wf (precomp_neg q')" "cached_wf ge_cached_0"
    "precomp_wf ge_precomp_0" "cached_wf (ge_p3_to_cached p)"
  by (simp_all add: cached_wf_def precomp_wf_def cached_neg_def precomp_neg_def ge_cached_0_def ge_precomp_0_def
      ge_p3_to_cached_def fe_mul_def)

text \<open>Conditional moves of which at most one is taken.\<close>

lemma select_cached_eq:
  assumes e: "- 8 \<le> e" "e \<le> 8" and wf: "length Ai = 8" "\<forall>q\<in>set Ai. cached_wf q"
  shows "select_cached Ai (word_of_int e) =
    (let cur = (if e = 0 then ge_cached_0 else Ai ! nat (\<bar>e\<bar> - 1)) in if e < 0 then cached_neg cur else cur)"
proof -
  have w: "cached_wf (Ai ! 0)" "cached_wf (Ai ! 1)" "cached_wf (Ai ! 2)" "cached_wf (Ai ! 3)" "cached_wf (Ai ! 4)"
    "cached_wf (Ai ! 5)" "cached_wf (Ai ! 6)" "cached_wf (Ai ! 7)"
    using wf by simp_all
  show ?thesis
    unfolding select_cached_def equal_ct_eq negative_digit [OF e] cached_neg_def [symmetric] Let_def
    using digit_cases [OF e] w [simplified]
    by (elim insertE emptyE; simp add: ge_cached_cmov_eq)
qed

lemma select_row_eq:
  assumes e: "- 8 \<le> e" "e \<le> 8" and wf: "length row = 8" "\<forall>q\<in>set row. precomp_wf q"
  shows "select_row row (word_of_int e) =
    (let t = (if e = 0 then ge_precomp_0 else row ! nat (\<bar>e\<bar> - 1)) in if e < 0 then precomp_neg t else t)"
proof -
  have w: "precomp_wf (row ! 0)" "precomp_wf (row ! 1)" "precomp_wf (row ! 2)" "precomp_wf (row ! 3)"
    "precomp_wf (row ! 4)" "precomp_wf (row ! 5)" "precomp_wf (row ! 6)" "precomp_wf (row ! 7)"
    using wf by simp_all
  show ?thesis
    unfolding select_row_def equal_ct_eq negative_digit [OF e] precomp_neg_def [symmetric] Let_def
    using digit_cases [OF e] w [simplified]
    by (elim insertE emptyE; simp add: ge_precomp_cmov_eq)
qed

end
