(* ===== verification/IntAction.thy ===== *)
theory IntAction
  imports Main
begin

text \<open>
  Integer multiples in a commutative group.  A point times a scalar, as the program computes it, is
  \<open>imult n g\<close> in the group of the curve.
\<close>

definition imult :: "int \<Rightarrow> 'g :: ab_group_add \<Rightarrow> 'g" where
  "imult n g = (if n < 0 then - (((+) g ^^ nat (- n)) 0) else ((+) g ^^ nat n) 0)"

lemma imult_0 [simp]: "imult 0 g = 0"
  by (simp add: imult_def)

lemma imult_succ: "imult (n + 1) g = g + imult n g"
proof (cases "n < - 1")
  case True
  then have "nat (- n) = Suc (nat (- (n + 1)))"
    by simp
  with True show ?thesis
    by (simp add: imult_def)
next
  case False
  then show ?thesis
    by (cases "n = - 1") (simp_all add: imult_def nat_add_distrib)
qed

lemma imult_pred: "imult (n - 1) g = imult n g - g"
  using imult_succ [of "n - 1" g] by simp

lemma imult_1 [simp]: "imult 1 g = g"
  using imult_succ [of 0 g] by simp

lemma imult_add: "imult (m + n) g = imult m g + imult n g"
proof (induction m rule: int_induct [where k = 0])
  case (step1 i)
  have "imult (i + 1 + n) g = imult (i + n + 1) g"
    by (simp add: ac_simps)
  then show ?case
    unfolding imult_succ step1(2) by (simp add: add.assoc)
next
  case (step2 i)
  have "i - 1 + n = i + n - 1"
    by simp
  then show ?case
    by (simp only: imult_pred step2(2) diff_add_eq)
qed simp

lemma imult_minus: "imult (- n) g = - imult n g"
  using imult_add [of n "- n" g] by (simp add: eq_neg_iff_add_eq_0 add.commute)

lemma imult_diff: "imult (m - n) g = imult m g - imult n g"
  using imult_add [of m "- n" g] by (simp add: imult_minus)

lemma imult_mult: "imult (m * n) g = imult m (imult n g)"
proof (induction m rule: int_induct [where k = 0])
  case (step1 i)
  then show ?case
    by (simp add: imult_succ imult_add distrib_right add.commute)
next
  case (step2 i)
  then show ?case
    by (simp add: imult_pred imult_diff left_diff_distrib)
qed simp

lemma imult_plus: "imult n (g + h) = imult n g + imult n h"
proof (induction n rule: int_induct [where k = 0])
  case (step1 i)
  then show ?case
    unfolding imult_succ by (simp only: ac_simps)
next
  case (step2 i)
  then show ?case
    unfolding imult_pred by (simp add: algebra_simps)
qed simp

lemma imult_zero [simp]: "imult n 0 = 0"
  using imult_plus [of n 0 0] by simp

lemma imult_numeral_add: "g + g = imult 2 g"
  using imult_add [of 1 1 g] by simp

end
