(* ===== verification/MultLaws.thy ===== *)
theory MultLaws
  imports ScalarMult IntAction
begin

text \<open>
  The locale \<open>point_ops\<close> states what the scalar multiplications use of the point operations: each
  operation adds the group elements its arguments hold.  Inside it every routine of theory \<open>ScalarMult\<close> is
  shown to deliver the multiple, or the sum of multiples, given by its scalars.
\<close>

section \<open>Loops as Horner schemes\<close>

text \<open>\<open>base_comb b [g\<^sub>0, g\<^sub>1, \<dots>]\<close> is \<open>g\<^sub>0 + b g\<^sub>1 + b\<^sup>2 g\<^sub>2 + \<dots>\<close> in a group.\<close>

fun base_comb :: "int \<Rightarrow> 'g :: ab_group_add list \<Rightarrow> 'g" where
  "base_comb b [] = 0"
| "base_comb b (g # gs) = g + imult b (base_comb b gs)"

lemma horner_fold:
  assumes step: "\<And>i n r. k \<le> i \<Longrightarrow> i < N \<Longrightarrow> R n r \<Longrightarrow> R (imult b n + c i) (f i r)"
    and "R 0 r" "k \<le> N"
  shows "R (base_comb b (map c [k..<N])) (fold f (rev [k..<N]) r)"
  using \<open>k \<le> N\<close>
proof (induction rule: inc_induct)
  case base
  then show ?case using \<open>R 0 r\<close> by simp
next
  case (step i)
  have "R (imult b (base_comb b (map c [Suc i..<N])) + c i) (f i (fold f (rev [Suc i..<N]) r))"
    by (rule assms(1) [OF step(1,2,3)])
  then show ?case
    using step(2) by (simp add: upt_conv_Cons add.commute del: upt_Suc)
qed

lemma base_comb_imult: "base_comb b (map (\<lambda>i. imult (f i) g) xs) = imult (base_val b (map f xs)) g"
  by (induction xs) (simp_all add: imult_add imult_mult)

lemma base_comb_plus: "base_comb b (map (\<lambda>i. f i + g i) xs) = base_comb b (map f xs) + base_comb b (map g xs)"
  by (induction xs) (simp_all add: imult_plus algebra_simps)

lemma base_comb_map_0: "\<forall>i\<in>set xs. f i = 0 \<Longrightarrow> base_comb b (map f xs) = 0"
  by (induction xs) simp_all

lemma base_comb_append_0: "base_comb b ys = 0 \<Longrightarrow> base_comb b (xs @ ys) = base_comb b xs"
  by (induction xs) simp_all

lemma base_val_nth: "length e = n \<Longrightarrow> base_val b (map ((!) e) [0..<n]) = base_val b e"
  by (metis map_nth)

lemma sum_even_odd:
  fixes f :: "nat \<Rightarrow> int"
  shows "(\<Sum>i<2 * n. f i) = (\<Sum>i<n. f (2 * i)) + (\<Sum>i<n. f (2 * i + 1))"
  by (induction n) simp_all

text \<open>The rounds of the sliding windows: all indices up to the last one that is used.\<close>

lemma dsm_rounds_rev:
  obtains K where "K \<le> 256" "dsm_rounds used = rev [0..<K]" "\<forall>i. K \<le> i \<and> i < 256 \<longrightarrow> \<not> used i" "K = 0 \<or> used (K - 1)"
proof -
  have "\<exists>K\<le>n. dropWhile (\<lambda>i. \<not> used i) (rev [0..<n]) = rev [0..<K] \<and> (\<forall>i. K \<le> i \<and> i < n \<longrightarrow> \<not> used i)
      \<and> (K = 0 \<or> used (K - 1))" for n
  proof (induction n)
    case (Suc n)
    show ?case
    proof (cases "used n")
      case True
      then show ?thesis by (intro exI [of _ "Suc n"]) auto
    next
      case False
      obtain K where K: "K \<le> n" "dropWhile (\<lambda>i. \<not> used i) (rev [0..<n]) = rev [0..<K]"
          "\<forall>i. K \<le> i \<and> i < n \<longrightarrow> \<not> used i" "K = 0 \<or> used (K - 1)"
        using Suc.IH by blast
      then show ?thesis
        using False by (intro exI [of _ K]) (auto simp: less_Suc_eq)
    qed
  qed simp
  from this [of 256] show ?thesis
    using that unfolding dsm_rounds_def by metis
qed

text \<open>A scalar that is not zero has a digit that is not zero.\<close>

lemma slide_used:
  assumes "length a = 32" "le_val a < 2 ^ 255" "length b = 32" "le_val b < 2 ^ 255" "le_val a \<noteq> 0 \<or> le_val b \<noteq> 0"
  shows "\<exists>i<256. slide a ! i \<noteq> 0 \<or> slide b ! i \<noteq> 0"
proof (rule ccontr)
  assume z: "\<not> ?thesis"
  have "le_val c = 0" if "length c = 32" "le_val c < 2 ^ 255" "\<forall>i<256. slide c ! i = 0" for c
    using slide_correct(1,2) [OF that(1,2)] that(3) by (simp add: base_val_sum)
  then show False
    using z assms by blast
qed

lemma slide_zero:
  assumes "length a = 32" "le_val a = 0" "i < 256"
  shows "slide a ! i = 0"
proof -
  have bits: "slide_bits a ! j = 0" if "j < 256" for j
    using slide_bits_digit [OF assms(1) that] assms(2) by simp
  have "fold slide_step xs r = r" if "\<forall>j\<in>set xs. r ! j = 0" for xs r
    using that by (induction xs) (simp_all add: slide_step_def)
  then have "slide a = slide_bits a"
    unfolding slide_def using bits by simp
  then show ?thesis
    using bits [OF assms(3)] by simp
qed

text \<open>The \<^verbatim>\<open>_p3\<close> loops leave their result unwritten exactly if there is no round.\<close>

lemma dsm_loop_p3_None: "dsm_loop_p3 body (dsm_rounds used) r = None \<longleftrightarrow> (\<forall>i<256. \<not> used i)"
  by (auto simp: dsm_loop_p3_def dsm_rounds_def dropWhile_eq_Nil_conv simp del: upt_rec_numeral)

lemma p3_unwritten:
  assumes "length a = 32" "le_val a < 2 ^ 255" "length b = 32" "le_val b < 2 ^ 255"
  shows "dsm_loop_p3 body (dsm_rounds (\<lambda>i. slide a ! i \<noteq> 0 \<or> slide b ! i \<noteq> 0)) r = None
    \<longleftrightarrow> le_val a = 0 \<and> le_val b = 0"
  using slide_used [OF assms] slide_zero [OF assms(1)] slide_zero [OF assms(3)]
  unfolding dsm_loop_p3_None by blast

section \<open>The interface of the point operations\<close>

text \<open>
  \<open>r2 g p\<close>, \<open>r3 g p\<close>, \<open>r1 g r\<close>, \<open>rc g q\<close>, \<open>rm g q\<close>: the value holds the element \<open>g\<close> of a commutative
  group, in the five coordinate systems.
\<close>

locale point_ops =
  fixes r2 :: "'g :: ab_group_add \<Rightarrow> ge_p2 \<Rightarrow> bool" and r3 :: "'g \<Rightarrow> ge_p3 \<Rightarrow> bool" and r1 :: "'g \<Rightarrow> ge_p1p1 \<Rightarrow> bool"
    and rc :: "'g \<Rightarrow> ge_cached \<Rightarrow> bool" and rm :: "'g \<Rightarrow> ge_precomp \<Rightarrow> bool"
  assumes p2_0: "r2 0 ge_p2_0" and p3_0: "r3 0 ge_p3_0"
    and cached_0: "rc 0 ge_cached_0" and precomp_0: "rm 0 ge_precomp_0"
    and dbl: "r2 m p \<Longrightarrow> r1 (m + m) (ge_p2_dbl p)"
    and add: "r3 m u \<Longrightarrow> rc n q \<Longrightarrow> r1 (m + n) (ge_add u q)"
    and sub: "r3 m u \<Longrightarrow> rc n q \<Longrightarrow> r1 (m - n) (ge_sub u q)"
    and madd: "r3 m u \<Longrightarrow> rm n t \<Longrightarrow> r1 (m + n) (ge_madd u t)"
    and msub: "r3 m u \<Longrightarrow> rm n t \<Longrightarrow> r1 (m - n) (ge_msub u t)"
    and to_p2: "r1 m r \<Longrightarrow> r2 m (ge_p1p1_to_p2 r)"
    and to_p3: "r1 m r \<Longrightarrow> r3 m (ge_p1p1_to_p3 r)"
    and p3_to_p2: "r3 m u \<Longrightarrow> r2 m (ge_p3_to_p2 u)"
    and to_cached: "r3 m u \<Longrightarrow> rc m (ge_p3_to_cached u)"
    and neg_cached: "rc m q \<Longrightarrow> rc (- m) (cached_neg q)"
    and neg_precomp: "rm m t \<Longrightarrow> rm (- m) (precomp_neg t)"
    and wf_cached: "rc m q \<Longrightarrow> cached_wf q"
    and wf_precomp: "rm m t \<Longrightarrow> precomp_wf t"
begin

lemma dbl2: "r2 m p \<Longrightarrow> r1 (imult 2 m) (ge_p2_dbl p)"
  using dbl by (simp add: imult_numeral_add)

lemma p3_dbl: "r3 m u \<Longrightarrow> r1 (imult 2 m) (ge_p3_dbl u)"
  unfolding ge_p3_dbl_def by (intro dbl2 p3_to_p2)

lemma mul8: "r2 m p \<Longrightarrow> r1 (imult 8 m) (ge_mul8 p)"
proof -
  assume "r2 m p"
  then have "r1 (imult 2 (imult 2 (imult 2 m))) (ge_mul8 p)"
    unfolding ge_mul8_def Let_def by (intro dbl2 to_p2)
  then show ?thesis
    by (simp add: imult_mult [symmetric])
qed

lemma imult_16: "imult 2 (imult 2 (imult 2 (imult 2 g))) = imult 16 g"
  by (simp add: imult_mult [symmetric])

lemma sm_table:
  assumes "r3 m A"
  shows "length (sm_table A n) = Suc n \<and> (\<forall>i\<le>n. rc (imult (int (Suc i)) m) (sm_table A n ! i))"
proof (induction n)
  case 0
  then show ?case using to_cached [OF assms] by simp
next
  case (Suc n)
  then have "rc (imult (int (Suc n)) m) (sm_table A n ! n)" by simp
  then have "rc (m + imult (int (Suc n)) m) (ge_p3_to_cached (ge_p1p1_to_p3 (ge_add A (sm_table A n ! n))))"
    by (intro to_cached to_p3 add assms)
  then have "rc (imult (int (Suc (Suc n))) m) (ge_p3_to_cached (ge_p1p1_to_p3 (ge_add A (sm_table A n ! n))))"
    using imult_succ [of "int (Suc n)" m] by (simp add: add.commute)
  then show ?case
    using Suc by (auto simp: Let_def nth_append le_Suc_eq)
qed

lemma select_cached:
  assumes "- 8 \<le> e" "e \<le> 8" "length Ai = 8" "\<forall>i<8. rc (imult (int (Suc i)) m) (Ai ! i)"
  shows "rc (imult e m) (select_cached Ai (word_of_int e))"
proof -
  have "\<forall>q\<in>set Ai. cached_wf q"
    using assms(3,4) wf_cached by (metis in_set_conv_nth)
  note sel = select_cached_eq [OF assms(1-3) this]
  show ?thesis
  proof (cases "e = 0")
    case True
    then show ?thesis using sel cached_0 by (simp add: Let_def)
  next
    case False
    let ?q = "Ai ! nat (\<bar>e\<bar> - 1)"
    have "nat (\<bar>e\<bar> - 1) < 8" "int (Suc (nat (\<bar>e\<bar> - 1))) = \<bar>e\<bar>"
      using assms(1,2) False by auto
    then have q: "rc (imult \<bar>e\<bar> m) ?q"
      using assms(4) by metis
    show ?thesis
      using sel q neg_cached [OF q] False by (cases "e < 0") (simp_all add: Let_def imult_minus)
  qed
qed

lemma sm_step:
  assumes "r2 n r" "- 8 \<le> e" "e \<le> 8" "length Ai = 8" "\<forall>i<8. rc (imult (int (Suc i)) m) (Ai ! i)"
  shows "r1 (imult 16 n + imult e m) (sm_step Ai e r)"
proof -
  let ?d = "\<lambda>p. ge_p1p1_to_p2 (ge_p2_dbl p)"
  have d: "r2 k p \<Longrightarrow> r2 (imult 2 k) (?d p)" for k p
    by (intro to_p2 dbl2)
  have "r3 (imult 2 (imult 2 (imult 2 (imult 2 n)))) (ge_p1p1_to_p3 (ge_p2_dbl (?d (?d (?d r)))))"
    by (intro to_p3 dbl2 d assms(1))
  from add [OF this select_cached [OF assms(2-5)]] show ?thesis
    by (simp add: sm_step_def Let_def imult_16)
qed

lemma sm_rounds:
  assumes "\<forall>i<64. - 8 \<le> e ! i \<and> e ! i \<le> 8" "k \<le> 64" "length Ai = 8" "\<forall>i<8. rc (imult (int (Suc i)) m) (Ai ! i)"
  shows "r2 (imult (base_val 16 (map ((!) e) [k..<64])) m)
    (fold (\<lambda>i r. ge_p1p1_to_p2 (sm_step Ai (e ! i) r)) (rev [k..<64]) ge_p2_0)"
  unfolding base_comb_imult [symmetric]
proof (rule horner_fold [where R = r2])
  fix i :: nat and n r assume "i < 64" "r2 n r"
  then show "r2 (imult 16 n + imult (e ! i) m) (ge_p1p1_to_p2 (sm_step Ai (e ! i) r))"
    using assms by (intro to_p2 sm_step) blast+
qed (rule p2_0 assms(2))+

lemma sm_table_8:
  assumes "r3 m A"
  shows "length (sm_table A 7) = 8" "\<forall>i<8. rc (imult (int (Suc i)) m) (sm_table A 7 ! i)"
proof -
  show "length (sm_table A 7) = 8"
    using sm_table [OF assms, of 7] by simp
  have "\<forall>i\<le>7. rc (imult (int (Suc i)) m) (sm_table A 7 ! i)"
    using sm_table [OF assms, of 7] by blast
  moreover have "i < 8 \<Longrightarrow> i \<le> 7" for i :: nat
    by simp
  ultimately show "\<forall>i<8. rc (imult (int (Suc i)) m) (sm_table A 7 ! i)"
    by blast
qed

lemma sm_digits_ok:
  assumes "length a = 32" "uint (a ! 31) \<le> 127"
  shows "\<forall>i<64. - 8 \<le> sm_digits 0 a ! i \<and> sm_digits 0 a ! i \<le> 8" "length (sm_digits 0 a) = 64"
    "base_val 16 (sm_digits 0 a) = le_val a"
proof -
  have ne: "a \<noteq> []" using assms(1) by auto
  show len: "length (sm_digits 0 a) = 64" and "base_val 16 (sm_digits 0 a) = le_val a"
    using sm_digits_length [OF ne] sm_digits_val [OF ne] assms(1) by simp_all
  have "uint (last a) \<le> 127" using assms ne by (simp add: last_conv_nth)
  then show "\<forall>i<64. - 8 \<le> sm_digits 0 a ! i \<and> sm_digits 0 a ! i \<le> 8"
    using sm_digits_range [OF ne, of 0] len by (metis nth_mem order_refl zero_le_one)
qed

lemma scalarmult:
  assumes "r3 m A" "length a = 32" "uint (a ! 31) \<le> 127"
  shows "r2 (imult (le_val a) m) (ge_scalarmult a A)"
  using sm_rounds [OF sm_digits_ok(1) [OF assms(2,3)] _ sm_table_8 [OF assms(1)], of 0]
    base_val_nth [OF sm_digits_ok(2) [OF assms(2,3)], of 16] sm_digits_ok(3) [OF assms(2,3)]
  by (simp add: ge_scalarmult_def Let_def del: upt_rec_numeral)

lemma scalarmult_p3:
  assumes "r3 m A" "length a = 32" "uint (a ! 31) \<le> 127"
  shows "r3 (imult (le_val a) m) (ge_scalarmult_p3 a A)"
proof -
  let ?e = "sm_digits 0 a" and ?Ai = "sm_table A 7"
  note e = sm_digits_ok [OF assms(2,3)] and Ai = sm_table_8 [OF assms(1)]
  let ?v = "imult (base_val 16 (map ((!) ?e) [1..<64])) m"
    and ?r = "fold (\<lambda>i r. ge_p1p1_to_p2 (sm_step ?Ai (?e ! i) r)) (rev [1..<64]) ge_p2_0"
  have "r2 ?v ?r"
    by (rule sm_rounds [OF e(1) _ Ai]) simp
  then have "r3 (imult 16 ?v + imult (?e ! 0) m) (ge_p1p1_to_p3 (sm_step ?Ai (?e ! 0) ?r))"
    using e(1) Ai by (intro to_p3 sm_step) simp_all
  moreover have "[0..<64] = 0 # [1..<64]"
    by (simp only: upt_conv_Cons One_nat_def zero_less_numeral)
  then have "base_val 16 ?e = ?e ! 0 + 16 * base_val 16 (map ((!) ?e) [1..<64])"
    using base_val_nth [OF e(2), of 16] by (metis base_val.simps(2) list.simps(9))
  ultimately show ?thesis
    unfolding ge_scalarmult_p3_def Let_def using e(3) by (simp add: imult_add imult_mult add.commute del: upt_rec_numeral)
qed

text \<open>The table of multiples of the base point: row \<open>i\<close> holds \<open>1, \<dots>, 8\<close> times \<open>256 ^ i\<close>.\<close>

lemma select_row:
  assumes "- 8 \<le> e" "e \<le> 8" "length row = 8" "\<forall>i<8. rm (imult (int (Suc i)) m) (row ! i)"
  shows "rm (imult e m) (select_row row (word_of_int e))"
proof -
  have "\<forall>q\<in>set row. precomp_wf q"
    using assms(3,4) wf_precomp by (metis in_set_conv_nth)
  note sel = select_row_eq [OF assms(1-3) this]
  show ?thesis
  proof (cases "e = 0")
    case True
    then show ?thesis using sel precomp_0 by (simp add: Let_def)
  next
    case False
    let ?q = "row ! nat (\<bar>e\<bar> - 1)"
    have "nat (\<bar>e\<bar> - 1) < 8" "int (Suc (nat (\<bar>e\<bar> - 1))) = \<bar>e\<bar>"
      using assms(1,2) False by auto
    then have q: "rm (imult \<bar>e\<bar> m) ?q"
      using assms(4) by metis
    show ?thesis
      using sel q neg_precomp [OF q] False by (cases "e < 0") (simp_all add: Let_def imult_minus)
  qed
qed

lemma sb_rounds:
  assumes "r3 n h" "\<forall>i<64. - 8 \<le> e ! i \<and> e ! i \<le> 8" "K \<le> 32" "p < 2"
    "\<forall>i<32. length (base ! i) = 8 \<and> (\<forall>j<8. rm (imult (int (Suc j)) (imult (256 ^ i) m)) (base ! i ! j))"
  shows "r3 (n + imult (\<Sum>i<K. e ! (2 * i + p) * 256 ^ i) m) (fold (\<lambda>i. sb_step base e (2 * i + p)) [0..<K] h)"
  using assms(3)
proof (induction K)
  case 0
  then show ?case using assms(1) by simp
next
  case (Suc K)
  let ?i = "2 * K + p"
  have i: "?i div 2 = K" "?i < 64"
    using assms(4) Suc(2) by auto
  have "rm (imult (e ! ?i) (imult (256 ^ K) m)) (select_row (base ! K) (word_of_int (e ! ?i)))"
    using assms(2,5) i(2) Suc(2) by (intro select_row) auto
  from to_p3 [OF madd [OF Suc(1) this]] Suc(2) show ?case
    by (simp add: sb_step_def [of _ _ ?i] Let_def i(1) imult_add imult_mult add.assoc)
qed

lemma sb_dbl4: "r3 n h \<Longrightarrow> r3 (imult 16 n) (sb_dbl4 h)"
proof -
  assume "r3 n h"
  then have "r3 (imult 2 (imult 2 (imult 2 (imult 2 n)))) (sb_dbl4 h)"
    unfolding sb_dbl4_def Let_def by (intro to_p3 dbl2 to_p2 p3_dbl)
  then show ?thesis
    by (simp only: imult_16)
qed

lemma scalarmult_base:
  assumes "length a = 32" "uint (a ! 31) \<le> 127"
    "\<forall>i<32. length (base ! i) = 8 \<and> (\<forall>j<8. rm (imult (int (Suc j)) (imult (256 ^ i) m)) (base ! i ! j))"
  shows "r3 (imult (le_val a) m) (scalarmult_base base a)"
proof -
  let ?e = "sb_digits a"
  have e: "\<forall>i<64. - 8 \<le> ?e ! i \<and> ?e ! i \<le> 8" and len: "length ?e = 64"
    using sb_digits_range [OF assms(1,2)] by (metis nth_mem)+
  let ?h = "fold (\<lambda>i. sb_step base ?e (2 * i + 1)) [0..<32] ge_p3_0"
  have "r3 (imult (\<Sum>i<32. ?e ! (2 * i + 1) * 256 ^ i) m) ?h"
    using sb_rounds [OF p3_0 e _ _ assms(3), of 32 1] by simp
  from sb_rounds [OF sb_dbl4 [OF this] e _ _ assms(3), of 32 0]
  have "r3 (imult (16 * (\<Sum>i<32. ?e ! (2 * i + 1) * 256 ^ i) + (\<Sum>i<32. ?e ! (2 * i) * 256 ^ i)) m) (scalarmult_base base a)"
    by (simp add: scalarmult_base_def Let_def imult_add imult_mult del: upt_rec_numeral)
  moreover have p: "(16::int) ^ (i * 2) = 256 ^ i" for i
    by (simp add: power_mult mult.commute [of i])
  have "16 * (\<Sum>i<32. ?e ! (2 * i + 1) * 256 ^ i) + (\<Sum>i<32. ?e ! (2 * i) * 256 ^ i) = base_val 16 ?e"
    unfolding base_val_sum len using sum_even_odd [of "\<lambda>i. ?e ! i * 16 ^ i" 32]
    by (simp add: sum_distrib_left p mult_ac)
  ultimately show ?thesis
    using sb_digits_val [OF assms(1)] by simp
qed

text \<open>The table of odd multiples and the steps that use it.\<close>

lemma dsm_rest:
  assumes "r3 (imult 2 m) s2" "r \<noteq> []" "\<forall>i<length r. rc (imult (2 * int i + 1) m) (r ! i)"
  shows "length (dsm_rest s2 r n) = length r + n
    \<and> (\<forall>i<length r + n. rc (imult (2 * int i + 1) m) (dsm_rest s2 r n ! i))"
  using assms(2,3)
proof (induction n arbitrary: r)
  case (Suc n)
  let ?q = "ge_p3_to_cached (ge_p1p1_to_p3 (ge_add s2 (last r)))"
  have l: "length r - 1 < length r" "int (length r - 1) = int (length r) - 1" "last r = r ! (length r - 1)"
    using Suc(2) by (simp_all add: last_conv_nth Suc_leI of_nat_diff)
  then have "rc (imult (2 * (int (length r) - 1) + 1) m) (last r)"
    using Suc(3) by metis
  from to_cached [OF to_p3 [OF add [OF assms(1) this]]]
  have "rc (imult (2 * int (length r) + 1) m) ?q"
    by (simp add: imult_add [symmetric] add.commute)
  then have "\<forall>i<length (r @ [?q]). rc (imult (2 * int i + 1) m) ((r @ [?q]) ! i)"
    using Suc(3) by (simp add: nth_append less_Suc_eq)
  from Suc(1) [OF _ this] show ?case
    by (simp add: Let_def)
qed simp

definition odd_table :: "'g \<Rightarrow> ge_cached list \<Rightarrow> bool" where
  "odd_table m Ai \<longleftrightarrow> (\<forall>i<8. rc (imult (2 * int i + 1) m) (Ai ! i))"

lemma dsm_table:
  assumes "r3 m A"
  shows "odd_table m (ge_dsm_precomp A)"
proof -
  have "r3 (imult 2 m) (ge_p1p1_to_p3 (ge_p3_dbl A))"
    by (rule to_p3 [OF p3_dbl [OF assms]])
  from dsm_rest [OF this, of "[ge_p3_to_cached A]" 7] show ?thesis
    using to_cached [OF assms] by (simp add: odd_table_def ge_dsm_precomp_def Let_def)
qed

lemma odd_index:
  fixes s :: int
  assumes "odd s" "s \<le> 15" "0 < s"
  shows "nat (s div 2) < 8" "2 * int (nat (s div 2)) + 1 = s"
  using assms by auto

lemma dsm_cached:
  assumes "r1 n t" "odd_table m Ai" "s = 0 \<or> odd s \<and> - 15 \<le> s \<and> s \<le> 15"
  shows "r1 (n + imult s m) (dsm_cached Ai s t)"
proof -
  have q: "rc (imult u m) (Ai ! nat (u div 2))" if "odd u" "u \<le> 15" "0 < u" for u
    using odd_index [OF that] assms(2) unfolding odd_table_def by metis
  consider "s = 0" | "0 < s" | "s < 0"
    by linarith
  then show ?thesis
  proof cases
    case 2
    then show ?thesis using add [OF to_p3 [OF assms(1)] q [of s]] assms(3) by (simp add: dsm_cached_def)
  next
    case 3
    then show ?thesis using sub [OF to_p3 [OF assms(1)] q [of "- s"]] assms(3) by (simp add: dsm_cached_def imult_minus)
  qed (simp add: dsm_cached_def assms(1))
qed

lemma dsm_precomp:
  assumes "r1 n t" "\<forall>i<8. rm (imult (2 * int i + 1) m) (Bi ! i)" "s = 0 \<or> odd s \<and> - 15 \<le> s \<and> s \<le> 15"
  shows "r1 (n + imult s m) (dsm_precomp Bi s t)"
proof -
  have q: "rm (imult u m) (Bi ! nat (u div 2))" if "odd u" "u \<le> 15" "0 < u" for u
    using odd_index [OF that] assms(2) by metis
  consider "s = 0" | "0 < s" | "s < 0"
    by linarith
  then show ?thesis
  proof cases
    case 2
    then show ?thesis using madd [OF to_p3 [OF assms(1)] q [of s]] assms(3) by (simp add: dsm_precomp_def)
  next
    case 3
    then show ?thesis using msub [OF to_p3 [OF assms(1)] q [of "- s"]] assms(3) by (simp add: dsm_precomp_def imult_minus)
  qed (simp add: dsm_precomp_def assms(1))
qed

text \<open>The loops; \<open>c i\<close> is the multiple that round \<open>i\<close> adds.\<close>

lemma dsm_loop_rev:
  assumes "\<And>i n t. i < K \<Longrightarrow> r1 n t \<Longrightarrow> r1 (n + c i) (body i t)" "k \<le> K"
  shows "r2 (base_comb 2 (map c [k..<K])) (dsm_loop body (rev [k..<K]) ge_p2_0)"
  unfolding dsm_loop_def
proof (rule horner_fold [where R = r2])
  fix i :: nat and n r assume "i < K" "r2 n r"
  then show "r2 (imult 2 n + c i) (ge_p1p1_to_p2 (body i (ge_p2_dbl r)))"
    by (intro to_p2 assms(1) dbl2)
qed (rule p2_0 assms(2))+

lemma unused_rounds:
  assumes "K \<le> 256" "\<And>i. K \<le> i \<Longrightarrow> i < 256 \<Longrightarrow> c i = 0"
  shows "base_comb 2 (map c [0..<K]) = base_comb 2 (map c [0..<256])"
proof -
  have "map c [0..<256] = map c [0..<K] @ map c [K..<256]"
    using assms(1) by (metis map_append upt_add_eq_append le_add_diff_inverse zero_le)
  then show ?thesis
    using base_comb_map_0 [of "[K..<256]" c] assms(2) by (simp add: base_comb_append_0)
qed

lemma dsm_loop:
  assumes "\<And>i n t. i < 256 \<Longrightarrow> r1 n t \<Longrightarrow> r1 (n + c i) (body i t)"
    and "\<And>i. i < 256 \<Longrightarrow> \<not> used i \<Longrightarrow> c i = 0"
  shows "r2 (base_comb 2 (map c [0..<256])) (dsm_loop body (dsm_rounds used) ge_p2_0)"
proof -
  obtain K where K: "K \<le> 256" "dsm_rounds used = rev [0..<K]" "\<forall>i. K \<le> i \<and> i < 256 \<longrightarrow> \<not> used i"
    "K = 0 \<or> used (K - 1)"
    by (rule dsm_rounds_rev [where used = used])
  have "r2 (base_comb 2 (map c [0..<K])) (dsm_loop body (rev [0..<K]) ge_p2_0)"
    by (rule dsm_loop_rev [OF assms(1)]) (use K(1) in linarith, assumption, simp)
  then show ?thesis
    using unused_rounds [of K c] K assms(2) by (simp add: K(2))
qed

lemma dsm_loop_p3:
  assumes "\<And>i n t. i < 256 \<Longrightarrow> r1 n t \<Longrightarrow> r1 (n + c i) (body i t)"
    and "\<And>i. i < 256 \<Longrightarrow> \<not> used i \<Longrightarrow> c i = 0" and "i < 256" "used i"
  shows "\<exists>r. dsm_loop_p3 body (dsm_rounds used) ge_p2_0 = Some r \<and> r3 (base_comb 2 (map c [0..<256])) r"
proof -
  obtain K where K: "K \<le> 256" "dsm_rounds used = rev [0..<K]" "\<forall>i. K \<le> i \<and> i < 256 \<longrightarrow> \<not> used i"
    "K = 0 \<or> used (K - 1)"
    by (rule dsm_rounds_rev [where used = used])
  have "0 < K" using K(3) assms(3,4) by (cases K) auto
  then have up: "[0..<K] = 0 # [1..<K]" by (simp add: upt_conv_Cons)
  have "r2 (base_comb 2 (map c [1..<K])) (dsm_loop body (rev [1..<K]) ge_p2_0)"
    by (rule dsm_loop_rev [OF assms(1)]) (use K(1) in linarith, assumption, use \<open>0 < K\<close> in simp)
  from to_p3 [OF assms(1) [OF zero_less_numeral dbl2 [OF this]]]
  have "r3 (base_comb 2 (map c [0..<K])) (ge_p1p1_to_p3 (body 0 (ge_p2_dbl (dsm_loop body (rev [1..<K]) ge_p2_0))))"
    by (simp add: up add.commute del: One_nat_def)
  then show ?thesis
    using unused_rounds [of K c] K assms(2) by (simp add: dsm_loop_p3_def up K(2) del: One_nat_def)
qed

text \<open>The products; scalars below \<open>2 ^ 255\<close>.\<close>

definition odd_base :: "'g \<Rightarrow> ge_precomp list \<Rightarrow> bool" where
  "odd_base m Bi \<longleftrightarrow> (\<forall>i<8. rm (imult (2 * int i + 1) m) (Bi ! i))"

lemma dsm_two:
  assumes a: "length a = 32" "le_val a < 2 ^ 255" and b: "length b = 32" "le_val b < 2 ^ 255"
    and f: "\<And>s n t. r1 n t \<Longrightarrow> s = 0 \<or> odd s \<and> - 15 \<le> s \<and> s \<le> 15 \<Longrightarrow> r1 (n + imult s m1) (f s t)"
    and g: "\<And>s n t. r1 n t \<Longrightarrow> s = 0 \<or> odd s \<and> - 15 \<le> s \<and> s \<le> 15 \<Longrightarrow> r1 (n + imult s m2) (g s t)"
  defines "body \<equiv> \<lambda>i t. g (slide b ! i) (f (slide a ! i) t)"
    and "used \<equiv> \<lambda>i. slide a ! i \<noteq> 0 \<or> slide b ! i \<noteq> 0"
  shows "r2 (imult (le_val a) m1 + imult (le_val b) m2) (dsm_loop body (dsm_rounds used) ge_p2_0)"
    and "\<exists>i<256. used i \<Longrightarrow>
      \<exists>r. dsm_loop_p3 body (dsm_rounds used) ge_p2_0 = Some r \<and> r3 (imult (le_val a) m1 + imult (le_val b) m2) r"
proof -
  note sa = slide_correct [OF a] and sb = slide_correct [OF b]
  let ?c = "\<lambda>i. imult (slide a ! i) m1 + imult (slide b ! i) m2"
  have step: "r1 (n + ?c i) (body i t)" if "i < 256" "r1 n t" for i n t
    using g [OF f [OF that(2) sa(3) [OF that(1)]] sb(3) [OF that(1)]] by (simp add: body_def add.assoc)
  have zero: "?c i = 0" if "\<not> used i" for i
    using that by (simp add: used_def)
  have val: "base_comb 2 (map ?c [0..<256]) = imult (le_val a) m1 + imult (le_val b) m2"
    by (simp only: base_comb_plus base_comb_imult base_val_nth [OF sa(2)] base_val_nth [OF sb(2)] sa(1) sb(1))
  show "r2 (imult (le_val a) m1 + imult (le_val b) m2) (dsm_loop body (dsm_rounds used) ge_p2_0)"
    using dsm_loop [where c = ?c and body = body and used = used, OF step zero] unfolding val .
  show "\<exists>i<256. used i \<Longrightarrow>
      \<exists>r. dsm_loop_p3 body (dsm_rounds used) ge_p2_0 = Some r \<and> r3 (imult (le_val a) m1 + imult (le_val b) m2) r"
    using dsm_loop_p3 [where c = ?c and body = body and used = used, OF step zero] unfolding val by blast
qed

lemma dsm_three:
  assumes a: "length a = 32" "le_val a < 2 ^ 255" and b: "length b = 32" "le_val b < 2 ^ 255"
    and c: "length c = 32" "le_val c < 2 ^ 255"
    and f: "\<And>s n t. r1 n t \<Longrightarrow> s = 0 \<or> odd s \<and> - 15 \<le> s \<and> s \<le> 15 \<Longrightarrow> r1 (n + imult s m1) (f s t)"
    and g: "\<And>s n t. r1 n t \<Longrightarrow> s = 0 \<or> odd s \<and> - 15 \<le> s \<and> s \<le> 15 \<Longrightarrow> r1 (n + imult s m2) (g s t)"
    and h: "\<And>s n t. r1 n t \<Longrightarrow> s = 0 \<or> odd s \<and> - 15 \<le> s \<and> s \<le> 15 \<Longrightarrow> r1 (n + imult s m3) (h s t)"
  defines "body \<equiv> \<lambda>i t. h (slide c ! i) (g (slide b ! i) (f (slide a ! i) t))"
    and "used \<equiv> \<lambda>i. slide a ! i \<noteq> 0 \<or> slide b ! i \<noteq> 0 \<or> slide c ! i \<noteq> 0"
  shows "r2 (imult (le_val a) m1 + imult (le_val b) m2 + imult (le_val c) m3) (dsm_loop body (dsm_rounds used) ge_p2_0)"
proof -
  note sa = slide_correct [OF a] and sb = slide_correct [OF b] and sc = slide_correct [OF c]
  let ?c = "\<lambda>i. imult (slide a ! i) m1 + imult (slide b ! i) m2 + imult (slide c ! i) m3"
  have step: "r1 (n + ?c i) (body i t)" if "i < 256" "r1 n t" for i n t
    using h [OF g [OF f [OF that(2) sa(3) [OF that(1)]] sb(3) [OF that(1)]] sc(3) [OF that(1)]]
    by (simp add: body_def add.assoc)
  have zero: "?c i = 0" if "\<not> used i" for i
    using that by (simp add: used_def)
  have val: "base_comb 2 (map ?c [0..<256]) = imult (le_val a) m1 + imult (le_val b) m2 + imult (le_val c) m3"
    by (simp only: base_comb_plus base_comb_imult base_val_nth [OF sa(2)] base_val_nth [OF sb(2)]
        base_val_nth [OF sc(2)] sa(1) sb(1) sc(1))
  show ?thesis
    using dsm_loop [where c = ?c and body = body and used = used, OF step zero] unfolding val .
qed

lemma odd_base_step: "odd_base m Bi \<Longrightarrow> r1 n t \<Longrightarrow> s = 0 \<or> odd s \<and> - 15 \<le> s \<and> s \<le> 15 \<Longrightarrow>
    r1 (n + imult s m) (dsm_precomp Bi s t)"
  unfolding odd_base_def by (rule dsm_precomp)

lemma double_base:
  assumes "r3 m A" "odd_base k Bi" "length a = 32" "le_val a < 2 ^ 255" "length b = 32" "le_val b < 2 ^ 255"
  shows "r2 (imult (le_val a) m + imult (le_val b) k) (double_scalarmult_base_vartime Bi a A b)"
  using dsm_two(1) [OF assms(3-6) dsm_cached [OF _ dsm_table [OF assms(1)]] odd_base_step [OF assms(2)]]
  by (simp add: double_scalarmult_base_vartime_def Let_def)

lemma double_base_p3:
  assumes "r3 m A" "odd_base k Bi" "length a = 32" "le_val a < 2 ^ 255" "length b = 32" "le_val b < 2 ^ 255"
    "le_val a \<noteq> 0 \<or> le_val b \<noteq> 0"
  shows "\<exists>r. double_scalarmult_base_vartime_p3 Bi a A b = Some r \<and> r3 (imult (le_val a) m + imult (le_val b) k) r"
  using dsm_two(2) [OF assms(3-6) dsm_cached [OF _ dsm_table [OF assms(1)]] odd_base_step [OF assms(2)]]
    slide_used [OF assms(3-7)]
  by (simp add: double_scalarmult_base_vartime_p3_def Let_def)

lemma double_precomp:
  assumes "odd_table m Ai" "odd_table k Bi" "length a = 32" "le_val a < 2 ^ 255" "length b = 32" "le_val b < 2 ^ 255"
  shows "r2 (imult (le_val a) m + imult (le_val b) k) (ge_double_scalarmult_precomp_vartime2 a Ai b Bi)"
  using dsm_two(1) [OF assms(3-6) dsm_cached [OF _ assms(1)] dsm_cached [OF _ assms(2)]]
  by (simp add: ge_double_scalarmult_precomp_vartime2_def Let_def)

lemma double_precomp_p3:
  assumes "odd_table m Ai" "odd_table k Bi" "length a = 32" "le_val a < 2 ^ 255" "length b = 32" "le_val b < 2 ^ 255"
    "le_val a \<noteq> 0 \<or> le_val b \<noteq> 0"
  shows "\<exists>r. ge_double_scalarmult_precomp_vartime2_p3 a Ai b Bi = Some r \<and> r3 (imult (le_val a) m + imult (le_val b) k) r"
  using dsm_two(2) [OF assms(3-6) dsm_cached [OF _ assms(1)] dsm_cached [OF _ assms(2)]] slide_used [OF assms(3-7)]
  by (simp add: ge_double_scalarmult_precomp_vartime2_p3_def Let_def)

lemma triple_base:
  assumes "odd_base k Gi" "odd_table m Bi" "odd_table n Ci" "length a = 32" "le_val a < 2 ^ 255"
    "length b = 32" "le_val b < 2 ^ 255" "length c = 32" "le_val c < 2 ^ 255"
  shows "r2 (imult (le_val a) k + imult (le_val b) m + imult (le_val c) n) (triple_scalarmult_base_vartime Gi a b Bi c Ci)"
  using dsm_three [OF assms(4-9) odd_base_step [OF assms(1)] dsm_cached [OF _ assms(2)] dsm_cached [OF _ assms(3)]]
  by (simp add: triple_scalarmult_base_vartime_def Let_def)

lemma triple_precomp:
  assumes "odd_table k Ai" "odd_table m Bi" "odd_table n Ci" "length a = 32" "le_val a < 2 ^ 255"
    "length b = 32" "le_val b < 2 ^ 255" "length c = 32" "le_val c < 2 ^ 255"
  shows "r2 (imult (le_val a) k + imult (le_val b) m + imult (le_val c) n) (ge_triple_scalarmult_precomp_vartime a Ai b Bi c Ci)"
  using dsm_three [OF assms(4-9) dsm_cached [OF _ assms(1)] dsm_cached [OF _ assms(2)] dsm_cached [OF _ assms(3)]]
  by (simp add: ge_triple_scalarmult_precomp_vartime_def Let_def)

end

end
