(* ===== verification/PrimeCert.thy ===== *)
theory PrimeCert
  imports Prelude
begin

text \<open>
  Prime numbers, as far as the correctness of the field operations rests on them: Euclid's lemma, Fermat's little
  theorem and Pocklington's criterion, by which a prime is certified from a prime factor of its predecessor.
\<close>

section \<open>Prime numbers\<close>

definition prime_num :: "int \<Rightarrow> bool" where
  "prime_num p \<longleftrightarrow> 1 < p \<and> (\<forall>d. 0 < d \<and> d dvd p \<longrightarrow> d = 1 \<or> d = p)"

lemma prime_coprime:
  assumes "prime_num p"
  shows "coprime a p \<longleftrightarrow> \<not> p dvd a"
proof -
  have "0 < gcd a p" "gcd a p dvd p"
    using assms by (auto simp: prime_num_def intro: gcd_pos_int [THEN iffD2])
  then have "gcd a p = 1 \<or> gcd a p = p"
    using assms by (simp add: prime_num_def)
  moreover have "p dvd a \<Longrightarrow> gcd a p \<noteq> 1"
    using assms gcd_proj2_if_dvd_int [of p a] by (simp add: prime_num_def)
  ultimately show ?thesis
    by (metis coprime_iff_gcd_eq_1 gcd_dvd1)
qed

lemma prime_dvd_mult:
  assumes "prime_num p" "p dvd a * b"
  shows "p dvd a \<or> p dvd b"
  using assms prime_coprime [OF assms(1), of a] by (metis coprime_commute coprime_dvd_mult_right_iff)

lemma least_divisor:
  assumes "1 < (n :: int)"
  obtains r where "prime_num r" "r dvd n" "r = n \<or> r * r \<le> n"
proof -
  define m where "m = (LEAST m. 1 < m \<and> int m dvd n)"
  have "1 < nat n \<and> int (nat n) dvd n"
    using assms by simp
  then have m: "1 < m" "int m dvd n" and least: "\<And>k. 1 < k \<and> int k dvd n \<Longrightarrow> m \<le> k"
    unfolding m_def using LeastI [of "\<lambda>m. 1 < m \<and> int m dvd n"] Least_le [of "\<lambda>m. 1 < m \<and> int m dvd n"] by blast+
  have "d = 1 \<or> d = int m" if "0 < d" "d dvd int m" for d
  proof -
    have "d \<le> int m" using that m(1) by (intro zdvd_imp_le) simp_all
    moreover have "d dvd n" using that(2) m(2) by (rule dvd_trans)
    then have "1 < d \<Longrightarrow> m \<le> nat d" using that by (intro least) simp
    ultimately show ?thesis using that(1) by linarith
  qed
  then have prime: "prime_num (int m)"
    using m(1) by (simp add: prime_num_def)
  obtain k where k: "n = int m * k" using m(2) by blast
  have "0 < int m * k" using assms k by simp
  then have "0 < k" using m(1) by (simp add: zero_less_mult_iff)
  then have "k = 1 \<or> m \<le> nat k"
    using least [of "nat k"] k by (cases "k = 1") auto
  then have "int m = n \<or> int m * int m \<le> n"
  proof
    assume "m \<le> nat k"
    then have "int m \<le> k" using \<open>0 < k\<close> by linarith
    then show ?thesis using k by (simp add: mult_left_mono)
  qed (simp add: k)
  then show thesis
    using that prime m(2) by blast
qed

lemma prime_by_divisors:
  assumes "1 < n" "\<And>r. prime_num r \<Longrightarrow> r dvd n \<Longrightarrow> r * r \<le> n \<Longrightarrow> False"
  shows "prime_num n"
  using least_divisor [OF assms(1)] assms(2) by metis

section \<open>Fermat's little theorem\<close>

lemma prime_dvd_prod:
  assumes p: "prime_num p" and "finite J" "p dvd (\<Prod>i\<in>J. i)"
  shows "\<exists>i\<in>J. p dvd i"
  using assms(2,3)
proof (induction J rule: finite_induct)
  case empty
  then show ?case using p by (simp add: prime_num_def zdvd1_eq)
next
  case (insert j J)
  then show ?case using prime_dvd_mult [OF p, of j "\<Prod>i\<in>J. i"] by auto
qed

lemma prime_fermat:
  assumes p: "prime_num p" and a: "\<not> p dvd a"
  shows "eqm p (a ^ nat (p - 1)) 1"
proof -
  have p1: "1 < p" using p by (simp add: prime_num_def)
  let ?I = "{1..p - 1}" and ?f = "\<lambda>i. a * i mod p"
  have nd: "\<not> p dvd i" if "i \<in> ?I" for i
    using that zdvd_imp_le [of p i] by auto
  have into: "?f i \<in> ?I" if "i \<in> ?I" for i
  proof -
    have "\<not> p dvd a * i" using prime_dvd_mult [OF p, of a i] a nd [OF that] by blast
    then have "a * i mod p \<noteq> 0" by (simp add: dvd_eq_mod_eq_0)
    then show ?thesis using p1 pos_mod_sign [of p "a * i"] pos_mod_bound [of p "a * i"]
      by (simp only: atLeastAtMost_iff) linarith
  qed
  have inj: "inj_on ?f ?I"
  proof (rule inj_onI)
    fix i j assume ij: "i \<in> ?I" "j \<in> ?I" "a * i mod p = a * j mod p"
    then have "p dvd a * (i - j)" by (simp add: mod_eq_dvd_iff right_diff_distrib)
    then have "p dvd i - j" using prime_dvd_mult [OF p] a by blast
    then have "i mod p = j mod p" by (simp add: mod_eq_dvd_iff)
    then show "i = j" using ij(1,2) p1 by simp
  qed
  have "?f ` ?I = ?I"
    using inj into by (intro endo_inj_surj) auto
  then have "(\<Prod>i\<in>?I. i) = (\<Prod>i\<in>?I. a * i mod p)"
    using prod.reindex [OF inj, of "\<lambda>i. i"] by (simp add: comp_def)
  moreover have "eqm p (\<Prod>i\<in>?I. a * i mod p) (\<Prod>i\<in>?I. a * i)"
    unfolding eqm_def by (rule mod_prod_eq)
  moreover have "(\<Prod>i\<in>?I. a * i) = a ^ nat (p - 1) * (\<Prod>i\<in>?I. i)"
    by (simp add: prod.distrib)
  ultimately have "eqm p (a ^ nat (p - 1) * (\<Prod>i\<in>?I. i)) (1 * (\<Prod>i\<in>?I. i))"
    by (simp add: eqm_sym)
  then have "p dvd (a ^ nat (p - 1) - 1) * (\<Prod>i\<in>?I. i)"
    by (simp add: eqm_dvd left_diff_distrib)
  moreover have "\<not> p dvd (\<Prod>i\<in>?I. i)"
    using prime_dvd_prod [OF p, of ?I] nd by auto
  ultimately have "p dvd a ^ nat (p - 1) - 1"
    using prime_dvd_mult [OF p] by blast
  then show ?thesis by (simp add: eqm_dvd)
qed

section \<open>Pocklington's criterion\<close>

lemma eqm_power_gcd:
  assumes "eqm r (a ^ m) 1" "eqm r (a ^ n) 1" "0 < m"
  shows "eqm r (a ^ gcd m n) 1"
proof -
  obtain x y where xy: "m * x = n * y + gcd m n"
    using bezout_nat [of m n] assms(3) by auto
  have one: "eqm r (a ^ (k * z)) 1" if "eqm r (a ^ k) 1" for k z
    using eqm_power [OF that, of z] by (simp add: power_mult)
  have "eqm r (a ^ (n * y) * a ^ gcd m n) (1 * a ^ gcd m n)"
    by (intro eqm_mult one assms(2) eqm_refl)
  then have "eqm r (a ^ (m * x)) (a ^ gcd m n)"
    by (simp add: xy power_add)
  then show ?thesis
    using one [OF assms(1), of x] by (meson eqm_sym eqm_trans)
qed

text \<open>\<open>q\<close> is a prime factor of \<open>n - 1\<close>: every prime factor of \<open>n\<close> is 1 modulo \<open>q\<close>.\<close>

lemma pocklington_factor:
  assumes q: "prime_num (int q)" and n: "n = int (q * R) + 1" "0 < R"
    and power: "eqm n (a ^ (q * R)) 1" and unit: "coprime (a ^ R - 1) n"
    and r: "prime_num r" "r dvd n"
  shows "int q dvd r - 1"
proof (rule ccontr)
  assume nd: "\<not> int q dvd r - 1"
  have r1: "1 < r" using r(1) by (simp add: prime_num_def)
  have pr: "eqm r (a ^ (q * R)) 1"
    using power r(2) by (auto simp: eqm_dvd intro: dvd_trans)
  have "0 < q" using q by (cases q) (auto simp: prime_num_def)
  have ra: "\<not> r dvd a"
  proof
    assume "r dvd a"
    then have "r dvd a ^ (q * R)"
      using \<open>0 < q\<close> n(2) by (metis dvd_power dvd_trans nat_0_less_mult_iff)
    moreover have "r dvd a ^ (q * R) - 1" using pr by (simp add: eqm_dvd)
    ultimately have "r dvd 1" by (metis dvd_diff_right_iff)
    then show False using r1 by (simp add: zdvd1_eq)
  qed
  have "coprime (r - 1) (int q)"
    using prime_coprime [OF q] nd by blast
  then have "coprime (nat (r - 1)) q"
    using r1 by (metis coprime_int_iff int_nat_eq less_le diff_ge_0_iff_ge zless_imp_add1_zle add.commute)
  then have "gcd (q * R) (nat (r - 1)) dvd R"
    by (metis coprime_commute coprime_dvd_mult_right_iff dvd_trans gcd_dvd1 gcd_dvd2 coprime_divisors dvd_refl)
  then obtain t where t: "R = gcd (q * R) (nat (r - 1)) * t" by blast
  have "eqm r (a ^ gcd (q * R) (nat (r - 1))) 1"
    using pr prime_fermat [OF r(1) ra] \<open>0 < q\<close> n(2) by (intro eqm_power_gcd) simp_all
  then have "eqm r (a ^ R) 1"
    using eqm_power [of r "a ^ gcd (q * R) (nat (r - 1))" 1 t] t by (metis power_mult power_one)
  then have "r dvd a ^ R - 1" by (simp add: eqm_dvd)
  then have "r dvd 1" using unit r(2) by (meson coprime_common_divisor is_unit_right_imp_coprime dvd_refl)
  then show False using r1 by (simp add: zdvd1_eq)
qed

lemma pocklington:
  assumes q: "prime_num (int q)" and n: "n = int (q * R) + 1" "0 < R"
    and power: "eqm n (a ^ (q * R)) 1" and unit: "coprime (a ^ R - 1) n"
    and small: "\<And>k. 0 < k \<Longrightarrow> (k * int q + 1) * (k * int q + 1) \<le> n \<Longrightarrow> \<not> (k * int q + 1) dvd n"
  shows "prime_num n"
proof (rule prime_by_divisors)
  have "0 < q" using q by (cases q) (auto simp: prime_num_def)
  then show "1 < n" using n by simp
  fix r assume r: "prime_num r" "r dvd n" "r * r \<le> n"
  obtain k where k: "r - 1 = int q * k"
    using pocklington_factor [OF q n power unit r(1,2)] by blast
  have "0 < int q * k"
    using k r(1) by (simp add: prime_num_def)
  then have "0 < k"
    using \<open>0 < q\<close> by (simp add: zero_less_mult_iff)
  moreover have "r = k * int q + 1" using k by (simp add: mult.commute)
  ultimately show False using small r(2,3) by blast
qed

end
