(* ===== verification/PrimeChains.thy ===== *)
theory PrimeChains
  imports PrimeCert HexArith
begin

text \<open>
  Powers of 2 modulo a large number by certified squarings: each step of a chain gives the quotient and the remainder
  of a square, or of a doubled square, so that checking it, on hexadecimal digits, takes two multiplications and no
  division.
\<close>

definition pw :: "int \<Rightarrow> nat \<Rightarrow> int \<Rightarrow> bool" where
  "pw n e a \<longleftrightarrow> eqm n (2 ^ e) a"

datatype sq_step = Sq int int | Sq2 int int

definition hsq_ok :: "hx list \<Rightarrow> hx list \<Rightarrow> hx list \<Rightarrow> hx list \<Rightarrow> bool" where
  "hsq_ok h a k r \<longleftrightarrow> heq (hmult a a) (hadd 0 (hmult k h) r)"

definition hsq2_ok :: "hx list \<Rightarrow> hx list \<Rightarrow> hx list \<Rightarrow> hx list \<Rightarrow> bool" where
  "hsq2_ok h a k r \<longleftrightarrow> heq (hmult (hadd 0 a a) a) (hadd 0 (hmult k h) r)"

fun hsqs :: "hx list \<Rightarrow> hx list \<Rightarrow> sq_step list \<Rightarrow> hx list \<Rightarrow> bool" where
  "hsqs h a [] z \<longleftrightarrow> heq a z"
| "hsqs h a (Sq k r # cs) z \<longleftrightarrow> 0 \<le> k \<and> 0 \<le> r \<and> hsq_ok h a (hx_int k) (hx_int r) \<and> hsqs h (hx_int r) cs z"
| "hsqs h a (Sq2 k r # cs) z \<longleftrightarrow> 0 \<le> k \<and> 0 \<le> r \<and> hsq2_ok h a (hx_int k) (hx_int r) \<and> hsqs h (hx_int r) cs z"

fun sq_exp :: "nat \<Rightarrow> sq_step list \<Rightarrow> nat" where
  "sq_exp e [] = e"
| "sq_exp e (Sq k r # cs) = sq_exp (2 * e) cs"
| "sq_exp e (Sq2 k r # cs) = sq_exp (2 * e + 1) cs"

lemma pw_square:
  assumes "pw n e a" "a * a = k * n + r"
  shows "pw n (2 * e) r"
proof -
  have "eqm n ((2 ^ e) ^ 2) (a ^ 2)"
    using assms(1) unfolding pw_def by (rule eqm_power)
  moreover have "a ^ 2 = r + n * k"
    using assms(2) by (simp add: power2_eq_square algebra_simps)
  ultimately show ?thesis
    unfolding pw_def power_even_eq by (metis eqm_multiple eqm_trans)
qed

lemma pw_square_double:
  assumes "pw n e a" "2 * (a * a) = k * n + r"
  shows "pw n (2 * e + 1) r"
proof -
  have "eqm n (2 * (2 ^ e) ^ 2) (2 * a ^ 2)"
    using assms(1) unfolding pw_def by (intro eqm_mult eqm_refl eqm_power)
  moreover have "2 * a ^ 2 = r + n * k"
    using assms(2) by (simp add: power2_eq_square algebra_simps)
  ultimately have "eqm n (2 * (2 ^ e) ^ 2) r"
    by (metis eqm_multiple eqm_trans)
  moreover have "2 ^ (2 * e + 1) = 2 * ((2::int) ^ e) ^ 2"
    by (simp add: power_even_eq)
  ultimately show ?thesis
    by (simp only: pw_def)
qed

lemma hsqs_sound: "pw (hv h) e (hv a) \<Longrightarrow> hsqs h a cs z \<Longrightarrow> pw (hv h) (sq_exp e cs) (hv z)"
proof (induction h a cs z arbitrary: e rule: hsqs.induct)
  case (2 h a k r cs z)
  then have "hv a * hv a = k * hv h + r"
    using heq_hv [of "hmult a a"] by (fastforce simp: hsq_ok_def hv_hmult hv_hadd hv_hx_int)
  from pw_square [OF 2(2) this] 2(1,3) show ?case
    by (simp add: hv_hx_int)
next
  case (3 h a k r cs z)
  then have "2 * (hv a * hv a) = k * hv h + r"
    using heq_hv [of "hmult (hadd 0 a a) a"]
    by (fastforce simp: hsq2_ok_def hv_hmult hv_hadd hv_hx_int mult_2 [symmetric] mult.assoc)
  from pw_square_double [OF 3(2) this] 3(1,3) show ?case
    by (simp add: hv_hx_int)
qed (simp add: heq_hv)

lemma hsqs_pw:
  assumes "pw n e a" "0 \<le> n" "0 \<le> a" "0 \<le> z" "hsqs (hx_int n) (hx_int a) cs (hx_int z)" "sq_exp e cs = f"
  shows "pw n f z"
  using hsqs_sound [OF _ assms(5), of e] assms(1-4,6) by (simp add: hv_hx_int)

lemmas hsqs_simps = hsqs.simps hsq_ok_def hsq2_ok_def hx_literal sq_exp.simps arith_simps rel_simps mult_1_right mult_1_left
  one_add_one numeral_plus_one one_plus_numeral

lemmas cert_simps = power_numeral pow.simps sqr.simps arith_simps rel_simps simp_thms
  mult_1_right mult_1_left diff_zero one_add_one power_one numeral_plus_one one_plus_numeral

lemma pw_start: "pw n 1 2"
  by (simp add: pw_def)

section \<open>Certificates\<close>

lemma pw_unit:
  assumes "pw n R a" "c * (a - 1) = m * n + 1"
  shows "coprime (2 ^ R - 1) n"
proof (rule coprimeI)
  fix d assume d: "d dvd 2 ^ R - 1" "d dvd n"
  have "n dvd 2 ^ R - 1 - (a - 1)"
    using assms(1) by (simp add: pw_def eqm_dvd)
  then have "d dvd a - 1"
    using d dvd_trans [OF d(2)] by (metis dvd_diff_right_iff)
  then have "d dvd c * (a - 1) - m * n"
    by (rule dvd_diff [OF dvd_mult dvd_mult [OF d(2)]])
  then show "is_unit d"
    using assms(2) by simp
qed

text \<open>
  \<open>n\<close> is prime: \<open>q\<close> is a prime factor of \<open>n - 1 = q * R\<close>, and all candidates \<open>k * q + 1\<close> for a small divisor have
  been tried, those with \<open>k > K\<close> being too large.
\<close>

lemma prime_certificate:
  assumes q: "prime_num (int q)" and n: "n = int E + 1" "q * R = E" "0 < R"
    and power: "pw n E 1" and unit: "pw n R a" "c * (a - 1) = m * n + 1"
    and K: "0 \<le> K" "n < ((K + 1) * int q + 1) * ((K + 1) * int q + 1)" "list_all (\<lambda>k. n mod (k * int q + 1) \<noteq> 0) [1..K]"
  shows "prime_num n"
proof (rule pocklington [OF q _ n(3)])
  show "n = int (q * R) + 1" using n by simp
  show "eqm n (2 ^ (q * R)) 1" using power n(2) by (simp add: pw_def)
  show "coprime (2 ^ R - 1) n" using unit by (rule pw_unit)
  fix k assume k: "0 < k" "(k * int q + 1) * (k * int q + 1) \<le> n"
  have "k \<le> K"
  proof (rule ccontr)
    assume "\<not> k \<le> K"
    then have "(K + 1) * int q + 1 \<le> k * int q + 1"
      by (simp add: mult_right_mono)
    moreover have "0 \<le> (K + 1) * int q + 1"
      using K(1) by simp
    ultimately have "((K + 1) * int q + 1) * ((K + 1) * int q + 1) \<le> (k * int q + 1) * (k * int q + 1)"
      by (intro mult_mono) linarith+
    then show False
      using K(2) k(2) by linarith
  qed
  then have "n mod (k * int q + 1) \<noteq> 0"
    using K(3) k(1) by (auto simp: list_all_iff)
  then show "\<not> (k * int q + 1) dvd n"
    by (simp add: dvd_eq_mod_eq_0)
qed

end
