(* ===== verification/PrimeSmall.thy ===== *)
theory PrimeSmall
  imports PrimeChains
begin

text \<open>
  The small primes of the certificate for the field: 991, and three primes each of which is certified by the one before.
\<close>

lemma prime_991: "prime_num 991"
proof (rule prime_by_divisors)
  fix r :: int assume r: "prime_num r" "r dvd 991" "r * r \<le> 991"
  have "r < 32"
  proof (rule ccontr)
    assume "\<not> r < 32"
    then have "32 * 32 \<le> r * r"
      by (intro mult_mono) simp_all
    then show False using r(3) by simp
  qed
  have "\<forall>d\<in>set [2..31]. 991 mod d \<noteq> (0 :: int)"
    unfolding list_all_iff [symmetric] by code_simp
  moreover have "r \<in> set [2..31]"
    using r(1) \<open>r < 32\<close> by (simp add: prime_num_def del: upto_rec_numeral)
  ultimately have "991 mod r \<noteq> 0"
    by (rule bspec)
  then show False using r(2) by (simp add: dvd_eq_mod_eq_0)
qed simp

lemma w_power_0: "pw 8574133 1 2 \<Longrightarrow> pw 8574133 66985 165492"
  by (rule hsqs_pw [where cs = "[
      Sq 0 4,
      Sq 0 16,
      Sq 0 256,
      Sq 0 65536,
      Sq 500 7900796,
      Sq2 14560673 7995723,
      Sq 7456332 4032573,
      Sq2 3793187 168787,
      Sq2 6645 2988953,
      Sq 1041952 5008593,
      Sq2 5851554 5426616,
      Sq 3434535 1328301,
      Sq2 411559 5489855,
      Sq 3515050 1719375,
      Sq 344787 795954,
      Sq2 147780 165492]"])
    (assumption, simp_all only: hsqs_simps)

lemma w_power_1: "pw 8574133 66985 165492 \<Longrightarrow> pw 8574133 8574132 1"
  by (rule hsqs_pw [where cs = "[
      Sq 3194 1821262,
      Sq2 773721 3786395,
      Sq2 3344195 1484115,
      Sq 256888 5455121,
      Sq2 6941423 6238023,
      Sq 4538409 8574132,
      Sq 8574131 1]"])
    (assumption, simp_all only: hsqs_simps)

lemma w_power: "pw 8574133 8574132 1"
  by (rule w_power_1 [OF w_power_0 [OF pw_start]])

lemma w_cofactor_0: "pw 8574133 1 2 \<Longrightarrow> pw 8574133 8652 3435729"
  by (rule hsqs_pw [where cs = "[
      Sq 0 4,
      Sq 0 16,
      Sq 0 256,
      Sq 0 65536,
      Sq2 1001 7227459,
      Sq2 12184593 6260493,
      Sq2 9142329 430341,
      Sq 21599 677614,
      Sq 53551 7336713,
      Sq2 12555755 2003323,
      Sq2 936142 69772,
      Sq 567 6598573,
      Sq 5078200 3435729]"])
    (assumption, simp_all only: hsqs_simps)

lemma w_cofactor: "pw 8574133 8652 3435729"
  by (rule w_cofactor_0 [OF pw_start])

lemma w_inverse: "1014251 * (3435729 - 1) = 406419 * 8574133 + (1 :: int)"
  by simp

lemma prime_w: "prime_num 8574133"
proof (rule prime_certificate [OF _ _ _ _ w_power w_cofactor w_inverse, where q = 991 and K = 2])
  show "prime_num (int 991)"
    using prime_991 by simp
qed (simp_all only: cert_simps of_nat_numeral, code_simp)

lemma u_power_0: "pw 1919519569386763 1 2 \<Longrightarrow> pw 1919519569386763 111730 1337673856271569"
  by (rule hsqs_pw [where cs = "[
      Sq2 0 8,
      Sq 0 64,
      Sq2 0 8192,
      Sq2 0 134217728,
      Sq 9 738722385001117,
      Sq2 568590985791386 727545914671860,
      Sq 275758094055179 1707982561664023,
      Sq 1519757588030409 1883053606468462,
      Sq 1847280403589061 1218399375645901,
      Sq2 1546738113275479 1048428561119125,
      Sq2 1145289128905818 983029438644116,
      Sq2 1006863272094369 1276865007405365,
      Sq 849370995293977 1782700633356774,
      Sq 1655633836119701 155115138769213,
      Sq2 25069508703241 1540151232679855,
      Sq 1235760164864112 1337673856271569]"])
    (assumption, simp_all only: hsqs_simps)

lemma u_power_1: "pw 1919519569386763 111730 1337673856271569 \<Longrightarrow> pw 1919519569386763 7322386052 1304919163493228"
  by (rule hsqs_pw [where cs = "[
      Sq2 1864395002051589 1240524135727115,
      Sq 801711092642386 1605194465086707,
      Sq2 2684681429497665 1584898865799303,
      Sq2 2617221991244825 1234761903320143,
      Sq2 1588560994330330 1236775547659108,
      Sq2 1593746455813585 663762456135973,
      Sq2 459052989302332 319119283482142,
      Sq 53053440409930 583227397151574,
      Sq2 354415971801600 1285925159134152,
      Sq 861467390729690 1288133935665634,
      Sq 864429340901971 982476880612083,
      Sq 502865840146461 1576128850903146,
      Sq 1294168704642539 102480519386059,
      Sq2 10942588990631 478332744685509,
      Sq 119197646269096 1487279716212833,
      Sq 1152372181839647 1304919163493228]"])
    (assumption, simp_all only: hsqs_simps)

lemma u_power_2: "pw 1919519569386763 7322386052 1304919163493228 \<Longrightarrow> pw 1919519569386763 479879892346690 828224193213505"
  by (rule hsqs_pw [where cs = "[
      Sq2 1774208557608892 1547425167823372,
      Sq 1247460400092810 1260964203976354,
      Sq2 1656696549561819 1320395793464735,
      Sq 908271569201220 1801342537169365,
      Sq 1690441185370361 570314888571782,
      Sq2 338896333555542 1457759193220502,
      Sq2 2214160146434757 904421507342417,
      Sq2 852273950199791 980872974037245,
      Sq 501225309989436 913994118954357,
      Sq2 870410766116893 1653595313679539,
      Sq 1424511375154407 54183760337980,
      Sq 1529486821174 1009058406760638,
      Sq 530444640676211 404389713772051,
      Sq 85193734522271 1499052552647828,
      Sq2 2341376031209599 636366037097131,
      Sq 210970359265512 828224193213505]"])
    (assumption, simp_all only: hsqs_simps)

lemma u_power_3: "pw 1919519569386763 479879892346690 828224193213505 \<Longrightarrow> pw 1919519569386763 1919519569386762 1"
  by (rule hsqs_pw [where cs = "[
      Sq2 714715624851176 1919519569386762,
      Sq 1919519569386761 1]"])
    (assumption, simp_all only: hsqs_simps)

lemma u_power: "pw 1919519569386763 1919519569386762 1"
  by (rule u_power_3 [OF u_power_2 [OF u_power_1 [OF u_power_0 [OF pw_start]]]])

lemma u_cofactor_0: "pw 1919519569386763 1 2 \<Longrightarrow> pw 1919519569386763 109313 708183098878551"
  by (rule hsqs_pw [where cs = "[
      Sq2 0 8,
      Sq 0 64,
      Sq2 0 8192,
      Sq 0 67108864,
      Sq2 4 1329120977193940,
      Sq 920314958071172 1050703024027364,
      Sq2 1150263703800570 1672969091722082,
      Sq2 2916173011720386 925947007178930,
      Sq 446662734664136 1131232746713132,
      Sq 666670737639295 1867384059597339,
      Sq 1816664587145774 439825148891359,
      Sq 100778426374213 1175992818124362,
      Sq 720471481685335 1417188017686439,
      Sq 1046314874568149 230433742489034,
      Sq 27663020749752 1384618485920380,
      Sq2 1997550201756923 708183098878551]"])
    (assumption, simp_all only: hsqs_simps)

lemma u_cofactor_1: "pw 1919519569386763 109313 708183098878551 \<Longrightarrow> pw 1919519569386763 223873314 1059928654987441"
  by (rule hsqs_pw [where cs = "[
      Sq 261275430339817 821990456217230,
      Sq 351998656793099 1538409348524363,
      Sq2 2465932998415072 1639521232619602,
      Sq 1400365964004865 1373123636036409,
      Sq 982260639543366 280066608751023,
      Sq2 81725976216389 1337932286834251,
      Sq 932557725746660 661679051269421,
      Sq 228087889215254 1001669444392439,
      Sq 522704582871222 1817493499934335,
      Sq2 3441780615301434 364420849266308,
      Sq 69185309437821 1059928654987441]"])
    (assumption, simp_all only: hsqs_simps)

lemma u_cofactor: "pw 1919519569386763 223873314 1059928654987441"
  by (rule u_cofactor_1 [OF u_cofactor_0 [OF pw_start]])

lemma u_inverse: "1290547218147893 * (1059928654987441 - 1) = 712619969572013 * 1919519569386763 + (1 :: int)"
  by simp

lemma prime_u: "prime_num 1919519569386763"
proof (rule prime_certificate [OF _ _ _ _ u_power u_cofactor u_inverse, where q = 8574133 and K = 5])
  show "prime_num (int 8574133)"
    using prime_w by simp
qed (simp_all only: cert_simps of_nat_numeral, code_simp)

lemma s_power_0: "pw 75445702479781427272750846543864801 1 2 \<Longrightarrow> pw 75445702479781427272750846543864801 119032 45310555848504975522005669435514283"
  by (rule hsqs_pw [where cs = "[
      Sq2 0 8,
      Sq2 0 128,
      Sq 0 16384,
      Sq2 0 536870912,
      Sq 0 288230376151711744,
      Sq 1 7631047256775814783737094723656735,
      Sq 771851547816808051379443778815459 22009193676612644322150778486101566,
      Sq 6420572549171516046176593860100809 33022602890864803253515466140928347,
      Sq2 28908003129270132855419763652819504 70920670989751728757172309344426114,
      Sq2 133334077576771846642839878728962976 3666131857123157179898322131674216,
      Sq2 356296577592744755834612203261588 25401643620139515029795923209865324,
      Sq2 17104844342260377155191118617761288 53020601934196140453117330471626264,
      Sq2 74522050615615866528901395825227785 28575338561705314560517295720499607,
      Sq 10823015056886887261668044373608357 48331021020716018721794112955412492,
      Sq 30961174939432559984738738584029315 848533773164639574462622689008749,
      Sq 9543413879590745612390818824318 45310555848504975522005669435514283]"])
    (assumption, simp_all only: hsqs_simps)

lemma s_power_1: "pw 75445702479781427272750846543864801 119032 45310555848504975522005669435514283 \<Longrightarrow> pw 75445702479781427272750846543864801 7800902798 671042825854817169564334903710094"
  by (rule hsqs_pw [where cs = "[
      Sq 27212238786572118819693610976292909 72659396762334320014469372026007980,
      Sq2 139951985715319802782717575504616292 75115654692204849562303423817422908,
      Sq 74787050744880317833576541907568545 16253006180525765547641381402891919,
      Sq2 7002657572841888628464483393536952 17986039111192952197589181705378570,
      Sq 4287820144507981290238773629741760 27776406887544879715908757031455140,
      Sq2 20452557381627174631868233265512926 8878805395285718583017608002921474,
      Sq 1044899611988915660444025085319451 15425342777689016851465101770788425,
      Sq 3153807201582730232094456086824652 67408165950774277419106926032106373,
      Sq2 120453801541971900053355372750195147 10005173418326397981809162040109511,
      Sq 1326828326074791530425417056591862 11328494954179109637847746107809659,
      Sq 1701021976185506177894356976435511 2653889685712704246275783694347970,
      Sq 93353633572697574796185448788719 8917658717885293657369277093140981,
      Sq2 2108129009203334261133622343411113 72164657861411213226753396050351209,
      Sq2 138052604007502018451222615905547201 72558332017281532167041635227551361,
      Sq2 139562927299694608715632413544391673 45958847638036517107644543883702569,
      Sq 27996500884623667420435143924148067 671042825854817169564334903710094]"])
    (assumption, simp_all only: hsqs_simps)

lemma s_power_2: "pw 75445702479781427272750846543864801 7800902798 671042825854817169564334903710094 \<Longrightarrow> pw 75445702479781427272750846543864801 511239965832962 58443280288287018208066001403042123"
  by (rule hsqs_pw [where cs = "[
      Sq2 11937021177631509171511817293558 72730494059566331181901874714725714,
      Sq2 140226006048951515550643993067215071 62579464969018112921471466292003721,
      Sq2 103814778233606042352647539079357791 29585290492468826343356455945677091,
      Sq2 23203161605085027457686910115065657 73885246701094968368169048238205305,
      Sq 72357066083977699180045520576918136 41118096192318202911291004101212089,
      Sq2 44818930142079864549256404367283342 33981126060794659516081780212042900,
      Sq2 30610542162267458784582308358080773 40288467135992077388000188531248827,
      Sq2 43028576335488475641251044159569169 36330444707391624204415264033831489,
      Sq 17494716985245889738608394253763934 17328165532291647471499732182069987,
      Sq 3979886340046577149477472973859038 33422583774579774592479576262258731,
      Sq 14806265558573926326230418156236496 18214631634308223648371789179753065,
      Sq 4397504359674470949521980787952437 64511884726821717771000457030424188,
      Sq 55162628674867767836158767029343180 1568420735889759100484093464052164,
      Sq 32605483465784016117553503132009 31025647283008206690781557961567687,
      Sq2 25517445200741491635749351223738569 373269120475705429462412059850169,
      Sq 1846756431727114921091744224038 58443280288287018208066001403042123]"])
    (assumption, simp_all only: hsqs_simps)

lemma s_power_3: "pw 75445702479781427272750846543864801 511239965832962 58443280288287018208066001403042123 \<Longrightarrow> pw 75445702479781427272750846543864801 33504622400829043759 39222906842721171021682631194850055"
  by (rule hsqs_pw [where cs = "[
      Sq2 90545038314690585729151912632905452 39403710217996611059649496120899206,
      Sq 20579732548185144847843165374966669 18955090873233773816598658194112567,
      Sq2 9524610632629136865444052036528022 42633892693946410887213151918705356,
      Sq2 48184290065455906893236368133099501 50883925065132556536787338661609171,
      Sq 34318373942212199395003219355572734 60096831411452045530469413933371307,
      Sq2 95741149647704955959868512600149897 53089291438676901358685779159701001,
      Sq 37357633010522906255630588371906398 51886847680512235165321472581505203,
      Sq 35684537007819210446477302226859212 49840655314755229486864938926674397,
      Sq 32925545664710938880561163616926857 45520326194272497356190822741453152,
      Sq 27464786312888658465645388256308953 12912471922656530731785220892871751,
      Sq2 4419918581792659853936465172959736 54300938652674903527848974066959466,
      Sq 39082304778748024630635265073521629 42251550788399836408018112961724327,
      Sq2 47323929272264168801660546544978889 63923979436728860874743583272019769,
      Sq2 108323602610033582017702304908250862 47120619430889036148662387133918260,
      Sq2 58859622286523375400773844436846332 23801074297811254038167421302095268,
      Sq2 15017187702155587466082072505627193 39222906842721171021682631194850055]"])
    (assumption, simp_all only: hsqs_simps)

lemma s_power_4: "pw 75445702479781427272750846543864801 33504622400829043759 39222906842721171021682631194850055 \<Longrightarrow> pw 75445702479781427272750846543864801 2195758933660732211799792 12652077428391528779183729931260781"
  by (rule hsqs_pw [where cs = "[
      Sq 20391306206010426744923801599057214 27744432708764247686018176453778611,
      Sq 10202748745529044120012868028398902 31767803252733235124306576616240819,
      Sq2 26752837877672897617525915342998659 74062341163093794085330143583279663,
      Sq 72704344956274686391157189808741468 4776198761470204658446448715125701,
      Sq 302364135520944856992216994587885 18710024028905304295913796078205516,
      Sq2 9279918872941165399340898018341428 10169410796074325407272506376376684,
      Sq2 2741492557963194209676007709349556 42122498252050953737874994404293356,
      Sq 23517639847936053940406944463800117 115754809044341432461161369761019,
      Sq2 355200505170795452952356421100 43065186470477596355140615720135622,
      Sq2 49164106762317459954868940441862303 38510769545584726525888116656157065,
      Sq2 39315145124152939114948633505931618 59466506355214148198268088155650432,
      Sq2 93743321670108453423228119801881632 31186897834198124570994992750338016,
      Sq 12891689845175253577576619877130907 23092477347457125080713115068311749,
      Sq 7068162831219294747801995350537192 18698798374500036049255497881260209,
      Sq 4634393333986200328317558958439351 21869121206656224245178971064539530,
      Sq 6339108082128186258628870511208919 12652077428391528779183729931260781]"])
    (assumption, simp_all only: hsqs_simps)

lemma s_power_5: "pw 75445702479781427272750846543864801 2195758933660732211799792 12652077428391528779183729931260781 \<Longrightarrow> pw 75445702479781427272750846543864801 143901257476389746232511227691 69745012537714770577004439339093758"
  by (rule hsqs_pw [where cs = "[
      Sq2 4243450799518041716040183281473006 28598385840957074477577761062398116,
      Sq2 21680961163491933049892391326433752 71375989008579367626260943189535560,
      Sq2 135051610350320963652278521676015308 43061262500733731668528957050653492,
      Sq 24577573900302943555059758083120298 32672444468793351880644993920963366,
      Sq 14149097860841839966656012334961331 70209680790526841665283081887039825,
      Sq2 130674090496504969134018827651768795 52503834489303885292749499281376455,
      Sq2 73076465470487655495873936216625714 17400049045635351684533718020641136,
      Sq2 8025949705263923730563316570232921 64908780416863095875975808887427271,
      Sq 55843469365715368362468480707808829 69878509489605860253502975384379412,
      Sq 64722123699458232616333721538099691 42111761612063696322752344005589253,
      Sq2 47011305025532297537912876921461014 49087257122501680141152876489827804,
      Sq 31937654930793781474880405364272074 60893762817002960278746117535595142,
      Sq2 98297191970798516002569059625159782 43505566370828698512508536837366946,
      Sq 25087370692238060902812612345126444 67404298166118396548341553467469272,
      Sq2 120439979003033448417266417710996846 23086303469702392307886813367002322,
      Sq2 14128767852298133961808644817361610 69745012537714770577004439339093758]"])
    (assumption, simp_all only: hsqs_simps)

lemma s_power_6: "pw 75445702479781427272750846543864801 143901257476389746232511227691 69745012537714770577004439339093758 \<Longrightarrow> pw 75445702479781427272750846543864801 9430712809972678409093855817983100 75445702479781427272750846543864800"
  by (rule hsqs_pw [where cs = "[
      Sq 64475067684465982501133245190500532 47172212163931318384902249787988432,
      Sq2 58988584566106527512851937131785000 16904542676557169922233050131852248,
      Sq2 7575343689857589041504428760550448 46920499357148902318201176553326160,
      Sq 29180366642012458176251648635799663 10454444063557555172302156146983537,
      Sq 1448663039585902268113875523803170 37698059884210767352741902333811199,
      Sq2 37673284821342637999663428757360586 40901371546101489892846476765501816,
      Sq 22173856685880343095672505025355721 27768446176039279899917307143421335,
      Sq 10220417832788193175143522916513345 21857673977610154683191029340912880,
      Sq 6332473500919813117686273409683965 3778066346658827974554880652278435,
      Sq2 378385642935227281731222357250068 47402446319426680179615426392041982,
      Sq2 59565802775003540489587975525891621 50973463510006534321207876498244227,
      Sq2 68878515191830318193214070706977873 10766594200423649952741019267106785,
      Sq2 3072926538331623821743296868229081 66188423355148447244671870825594569,
      Sq2 116134047195448747364847061652810939 47449036182200125127963758294733383,
      Sq 29841474870263003462022108898837555 68050878837970674823646249073223134,
      Sq 61380860120709968955617829202648356 75445702479781427272750846543864800]"])
    (assumption, simp_all only: hsqs_simps)

lemma s_power_7: "pw 75445702479781427272750846543864801 9430712809972678409093855817983100 75445702479781427272750846543864800 \<Longrightarrow> pw 75445702479781427272750846543864801 75445702479781427272750846543864800 1"
  by (rule hsqs_pw [where cs = "[
      Sq 75445702479781427272750846543864799 1,
      Sq 0 1,
      Sq 0 1]"])
    (assumption, simp_all only: hsqs_simps)

lemma s_power: "pw 75445702479781427272750846543864801 75445702479781427272750846543864800 1"
  by (rule s_power_7 [OF s_power_6 [OF s_power_5 [OF s_power_4 [OF s_power_3 [OF s_power_2 [OF s_power_1 [OF s_power_0 [OF pw_start]]]]]]]])

lemma s_cofactor_0: "pw 75445702479781427272750846543864801 1 2 \<Longrightarrow> pw 75445702479781427272750846543864801 69818 38671091502185017926787332828197155"
  by (rule hsqs_pw [where cs = "[
      Sq 0 4,
      Sq 0 16,
      Sq 0 256,
      Sq2 0 131072,
      Sq 0 17179869184,
      Sq 0 295147905179352825856,
      Sq 1154635 37249017818367551225803357327630101,
      Sq 18390568088419540713180144552603353 102469992448,
      Sq2 0 21000198704586354065408,
      Sq 5845373972 57540172156127493524011025089846892,
      Sq2 87768323520986892609440763078941370 54651969301387637110966512518401958,
      Sq2 79178472738596464028603992035732427 61606591580989321780200720816865501,
      Sq2 100612016363528196112949330697066484 51294626676562810936092654843532318,
      Sq 34874600400109785010110741815565865 70907221727050507061373817639835259,
      Sq2 133283511924261151466384833446453474 32799974849867834837920162526425488,
      Sq 14259769805182405020291244956113789 38671091502185017926787332828197155]"])
    (assumption, simp_all only: hsqs_simps)

lemma s_cofactor_1: "pw 75445702479781427272750846543864801 69818 38671091502185017926787332828197155 \<Longrightarrow> pw 75445702479781427272750846543864801 4575642715 36992927490348523016874968511124417"
  by (rule hsqs_pw [where cs = "[
      Sq2 39643167703849810160785550627061568 64134687226725695320034102205120082,
      Sq2 109038897391729833739089875975893259 49129946330668696747602969976096989,
      Sq 31993228866829677464604812351954812 52731668160668534429276816145493709,
      Sq 36856026726665311569831140646019472 53232007837694667884745803777171609,
      Sq 37558755042300401026910323427360228 6815899006979597721589967479114253,
      Sq2 1231520888437489561043967924920373 27351563169514572318976779253005245,
      Sq 9915846538991804092978480448020986 36418643877802785581023883602796239,
      Sq 17579763701632442834351678143176982 25515915370493845880933608929334539,
      Sq 8629543046122224655388998502785386 57793553327652931187992881475744335,
      Sq2 88543010309470439154820839753932743 62153849922490962393205786330105307,
      Sq 51203725768512740208766088776196223 61109090482572984699313167350717626,
      Sq2 98993602468160378399605572779308692 74425325943528844932868703682001460,
      Sq2 146837499280623176155056190186076751 12989690226474060391927371730921649,
      Sq 2236470025910010689164230430725332 9010903371459702397200566003040269,
      Sq2 2152445451523061074391132479695943 41483535797710063532135253890982379,
      Sq2 45619132322111234617260342837222865 36992927490348523016874968511124417]"])
    (assumption, simp_all only: hsqs_simps)

lemma s_cofactor_2: "pw 75445702479781427272750846543864801 4575642715 36992927490348523016874968511124417 \<Longrightarrow> pw 75445702479781427272750846543864801 299869320993403 14314454708794176124149993472713247"
  by (rule hsqs_pw [where cs = "[
      Sq 18138563752825011389988221154025764 513309348704093895960925166856925,
      Sq2 6984797776589922606771900453178 25107384053856714034524019378123672,
      Sq 8355422685563742011965376336700514 48786791113838861753548469283555870,
      Sq2 63095733990234880993683556426399714 23550372780047042618185787221846886,
      Sq2 14702495698222504060133497094678883 34192708828629508492652582794096709,
      Sq 15496460349782741374426957909312839 23725588849222751655399262015150642,
      Sq2 14922084300115426627936480004087657 74284037970676428699992465145163071,
      Sq 73140260026178284946026360103387949 1679490236568257179254066873467892,
      Sq 37386986428869317886938646893687 57875049575816904056842656006512377,
      Sq2 88792900146987093422421437432117938 69140185463195222053869748749479920,
      Sq2 126723327870560004734161261178324345 12685289843374237635476675559532455,
      Sq2 4265758634921249914798644829340890 13171760403748371563029534295641160,
      Sq2 4599208872904276656265734953986787 38784832849308944787944580903906813,
      Sq 19938355793717465847682208159383547 3782964574628778339320135515987822,
      Sq2 379367425910877502586785532538328 38877602689008559621761620122014640,
      Sq2 40067702762777282563722963685911553 14314454708794176124149993472713247]"])
    (assumption, simp_all only: hsqs_simps)

lemma s_cofactor_3: "pw 75445702479781427272750846543864801 299869320993403 14314454708794176124149993472713247 \<Longrightarrow> pw 75445702479781427272750846543864801 19652235820623694800 2709456275567807824939095492976299"
  by (rule hsqs_pw [where cs = "[
      Sq2 5431816707254639246062512913804549 72466306610823254233320016583786269,
      Sq 69604568864888641168444927591077276 52923723913192322483970867785578285,
      Sq 37124984734424324294785152761527766 43675134191290428119386496951976659,
      Sq 25283313481485823676523318387740688 11400356044965588482423009162079193,
      Sq2 3445341846656232865445853964758427 18935679146042012693248632693634471,
      Sq 4752556248222889451123733574281160 60679732404325505920101321558000681,
      Sq2 97607413110038762878864400532412072 41712449112149596090570426404649850,
      Sq2 46123989935674606507037057687651255 6531672565481006475695702252069745,
      Sq2 1130952329964462953850246691678513 13823227504923762148479631860009137,
      Sq2 5065407634161494487114558160920292 72088510220800202732826346861527646,
      Sq 68880706720798111363682571039351209 1888738652562569663194994370406907,
      Sq2 94566915819754618137492420024240 67921444504051573029934253803837058,
      Sq 61147586567349870743199647966593842 44692679468887818587537417286939922,
      Sq 26475140829181573416469200498415960 25373835843271755692855209936742124,
      Sq 8533707345012022015661890767769502 65810772782638593774538249456932274,
      Sq 57406289184049389055471778293765177 2709456275567807824939095492976299]"])
    (assumption, simp_all only: hsqs_simps)

lemma s_cofactor_4: "pw 75445702479781427272750846543864801 19652235820623694800 2709456275567807824939095492976299 \<Longrightarrow> pw 75445702479781427272750846543864801 39304471641247389600 56747016255153332959347766392083459"
  by (rule hsqs_pw [where cs = "[
      Sq 97303796875390224746540460292342 56747016255153332959347766392083459]"])
    (assumption, simp_all only: hsqs_simps)

lemma s_cofactor: "pw 75445702479781427272750846543864801 39304471641247389600 56747016255153332959347766392083459"
  by (rule s_cofactor_4 [OF s_cofactor_3 [OF s_cofactor_2 [OF s_cofactor_1 [OF s_cofactor_0 [OF pw_start]]]]])

lemma s_inverse: "74602835786463724888147869570305675 * (56747016255153332959347766392083459 - 1) = 56113048138023733339996598108928949 * 75445702479781427272750846543864801 + (1 :: int)"
  by simp

lemma prime_s: "prime_num 75445702479781427272750846543864801"
proof (rule prime_certificate [OF _ _ _ _ s_power s_cofactor s_inverse, where q = 1919519569386763 and K = 143])
  show "prime_num (int 1919519569386763)"
    using prime_u by simp
qed (simp_all only: cert_simps of_nat_numeral, code_simp)

end
