(* ===== verification/PrimeQ.thy ===== *)
theory PrimeQ
  imports PrimeSmall
begin

text \<open>
  The prime factor of 236 bits of \<open>2 ^ 255 - 20\<close>.
\<close>

lemma q_power_0: "pw 74058212732561358302231226437062788676166966415465897661863160754340907 1 2 \<Longrightarrow> pw 74058212732561358302231226437062788676166966415465897661863160754340907 87903 30154185761289111773970318579344453837419843928642106479836178173134025"
  by (rule hsqs_pw [where cs = "[
      Sq 0 4,
      Sq2 0 32,
      Sq 0 1024,
      Sq2 0 2097152,
      Sq 0 4398046511104,
      Sq2 0 38685626227668133590597632,
      Sq2 0 2993155353253689176481146537402947624255349848014848,
      Sq2 241944239217974006306559737462784 6189700196426901374495621120,
      Sq 0 38312388521647221458958675678757729590468478054590054400,
      Sq2 39640144153472861193266747385902530560000 1014120480182583521197362564300800000,
      Sq 13 65683582802456118417849795416527812824039352619930744988659550193568209,
      Sq2 116511940825442459782292841703638125063030228513369450879955054967226566 730750818665451459101842416358141509827966271488000000000000000000000,
      Sq2 14421000434039473909530624000000000000000000000000000000000000000000 368934881474191032320000000000000000000000000000000000000000000,
      Sq2 3675836662704939085518685401140046680296925041297496916 48809625924748483731799561722316200977022350985513074122619159554857188,
      Sq2 64338025318464444342955632505924485856417067396673730327657275284651864 67081965265659839634802011309121912357716721342572711216089355881534040,
      Sq2 121525753805416138346706430465419786222643613467622023455459269458319525 30154185761289111773970318579344453837419843928642106479836178173134025]"])
    (assumption, simp_all only: hsqs_simps)

lemma q_power_1: "pw 74058212732561358302231226437062788676166966415465897661863160754340907 87903 30154185761289111773970318579344453837419843928642106479836178173134025 \<Longrightarrow> pw 74058212732561358302231226437062788676166966415465897661863160754340907 5760817366 71193885456389275711222123659939371302120480839112041332913070883067580"
  by (rule hsqs_pw [where cs = "[
      Sq 12277840436278147552078235941909291386797414739826283931274334589850559 55979714146881556420759296722019659924749169523733696577652506942183612,
      Sq 42314394046789586056170298750879232160358089862891485603888972641663161 40097780151135862601136023226120261922348134251869195310714167864139517,
      Sq 21710380438899056550880882523674926494225350295417576107727986598290590 1210888236669141735186113147451254750685152564225750524109014530828159,
      Sq2 39597237567658272342972383747201565209443028065569145797417347431752 28520090902772294742046987392738656069000542015245104328082450850379498,
      Sq2 21966384418152920108892035586816546868272827355371715526077605686746527 41710527951791149713114816387363791986883722089053417275356928181184019,
      Sq 23491900193430169338230511734225025668169639839191002159248911146484986 34746133445292654476404191408099243906648796514322579982377258539870059,
      Sq 16301956864093628504845736357669873534101208890285929289259442799565959 37168282550746136069562020480225900979641675608676994072986479886278668,
      Sq 18653990918750600808612360746129714363898173638984590966165350393279350 30180817980606422945931729257869200279483962493746904484364669768483774,
      Sq2 24599075250920990965964699924108170285272263897712958188511692950423425 49776262735654995675949713078166983576478491690678278633806933354019677,
      Sq2 66911588614117068699398198904270071263095738967568361097386900839281259 31511304206676897539353435348422870797651826956634285735201501264206745,
      Sq 13407861953022192525515360583100287614807282997531869052634610591277547 27071408473785301719267339466455760447765971657451334478969063010779896,
      Sq2 19791489146545815957710465607018317600638300961522000315343557077080252 24391468614948384584822873476414723340324948636000652721214898110073068,
      Sq 8033460695878117978682157814213164973805128294136129073486315269504367 67991436203480062011377816698281207040786449478338401343544614655691755,
      Sq2 124843288176717387873822850524755294937458186777864783524456997656225301 880828378382020692075198874285136798836540666071079671388607397272043,
      Sq2 20952669623958573490256909832744100882436509587586334947770868543999 22906709256919254590005944459787451047742989873516294463124058323720605,
      Sq 7085201081963547004621310899972178859872023860771231827852045034468135 71193885456389275711222123659939371302120480839112041332913070883067580]"])
    (assumption, simp_all only: hsqs_simps)

lemma q_power_2: "pw 74058212732561358302231226437062788676166966415465897661863160754340907 5760817366 71193885456389275711222123659939371302120480839112041332913070883067580 \<Longrightarrow> pw 74058212732561358302231226437062788676166966415465897661863160754340907 377540926902943 6795530159490208196831931101530331812181693444406796752822567498436894"
  by (rule hsqs_pw [where cs = "[
      Sq 68440340906970955918417931053723558575222049878558585240858522205423169 29596813727301841531266856669040513952004016718050767059676957224782117,
      Sq 11828146406555963407498340128829463776682417463180776224064809712746281 60136936040100778026256873057448037088452343450894865905279539052584822,
      Sq 48832545950722327106968703327736863850574969650003431199148506143721019 52248726147229723934982818896812307170100359754709075293969653677347451,
      Sq2 73723879723279689681075846441963043174047828067315577063571933055945487 5841746583726320904423855299782584688288008460993874986493030346258093,
      Sq 460799712676213109078599451342233557917315491938000279079920491277712 61225978126980705145234224568666104933462598634206971520310012109031865,
      Sq 50617213936049451760329835836911741592497795996980314558122623020134983 65844596459662995620483832892725162873656939931473157843798725246728644,
      Sq2 117083864785995837582446063901718310733878952819052637374389001523679883 20269069502620816045826404259086698194222588945148611863458302620283591,
      Sq 5547462777500169565927641909138379308051443465979013509197324566949899 588689268238225880525105826480755253714375946370781501769488228636888,
      Sq2 9358990495499417880797574914767462389414660853306623862857812540087 54208291038285986846608731172563448427404381397389132408824583907210179,
      Sq 39678770373559422596579463319250590625830746047139749136302791641803688 1903373312369808671736401335508154227937402110727764556046729759347025,
      Sq 48918679408647929858807711168237769945938890480377818395390656076058 38744820234148713509762808072501451283394866837178441210523335723646019,
      Sq2 40540030324455300949257782296521158712512606539462195184941912757687639 37798037297565389228397042573846662626704094872312706911312376803148149,
      Sq2 38582935526878786759394025651029532941714226794487982930667748980889568 25891268270107415469466517377151780355649291799369648101454552092294226,
      Sq2 18103536337163944864326810218785880679831479395602015558143254185273641 15908287438488163818480650177431493194381694457278569326087031910745765,
      Sq2 6834450897146503842002265860324869196607242540210851113752294300488154 40729185305644356602471113997308306873711468525915510672642752299754772,
      Sq2 44798989185764085087805109285957930200207618363493558989041277163666182 6795530159490208196831931101530331812181693444406796752822567498436894]"])
    (assumption, simp_all only: hsqs_simps)

lemma q_power_3: "pw 74058212732561358302231226437062788676166966415465897661863160754340907 377540926902943 6795530159490208196831931101530331812181693444406796752822567498436894 \<Longrightarrow> pw 74058212732561358302231226437062788676166966415465897661863160754340907 24742522185511313894 5169004220268844479662039395953943080061671322545161257583638790714313"
  by (rule hsqs_pw [where cs = "[
      Sq2 1247106254516382020535322853340860581486120327131864668180951923576370 55802762359278333881226989276906773914815768748406544547543072971166882,
      Sq 42047305383552329065389796056815762550943742864003237672220601269223990 1663190257379797455312707478216743777890029539443109098327944890842994,
      Sq2 74703445578206725337880371510212540465338717546293321598425402665503 14162800904931526615012748995142333227296089548240445547911808167136851,
      Sq 2708476508838804249589949099719298802085741610587571089441447117111464 57211532943859799763179490378765801052502680223075031480627305988338353,
      Sq 44197117119290633377031165494278981764515687475426588704837601782045038 72907279837916971497300275126577552617498010984657512108897279730983143,
      Sq 71774233501415137551310396610848049247142192561497618457390729234601608 32328679742323808219068828510519929470394330636680182913290076587779993,
      Sq 14112459581707092939640859692748710450068367064333981774987523091351578 69154356490087322061631554050411007707958335379094549133504182966678803,
      Sq2 129150430319672724259410128078734413569652292497152383744766518651813647 18402770134385423725185354813800355047402070047756377956366356666067789,
      Sq2 9145830992222359328933659404161580131060258617162843878388149887352589 42126851920915005625171105633964786856854733728541705473121395271638819,
      Sq2 47926397013532734275927932079572006001817621927189168052086288634883675 69857631736146941638172888169435319112487008579276313494290372736436297,
      Sq2 131790615293568477940479791101471756477023285259219933120635646576137086 54971131539354450080167780782426534409394490757801049490480321068567416,
      Sq 40803378737067416663211678580442507687233016445292123198127626149838996 66585474824006023019233591479211333526341719200781927828928736390307684,
      Sq 59866762833570203175434000515249822549601329942551312020519837418097231 64974567623958624928939173270096282043509708696028124184384972742715339,
      Sq2 114010162604537429603397092469945552629739612186302982646856991095907394 45143829606920028129673909172889586166806093048832988822411433993803484,
      Sq2 55036849429194826205394413004231651025399103326518522442242498154493620 26596996121627577852081410249423876413661278861323620857775274184563172,
      Sq 9551948076959842891510470332262714253283633962413599332716018210125653 5169004220268844479662039395953943080061671322545161257583638790714313]"])
    (assumption, simp_all only: hsqs_simps)

lemma q_power_4: "pw 74058212732561358302231226437062788676166966415465897661863160754340907 24742522185511313894 5169004220268844479662039395953943080061671322545161257583638790714313 \<Longrightarrow> pw 74058212732561358302231226437062788676166966415465897661863160754340907 1621525933949669467379801 24043902206389682617894133330407712169336764096622551039823516468113324"
  by (rule hsqs_pw [where cs = "[
      Sq 360778415293969005705801296163636098162236537781129035199499132306740 26426925306653506511956028880989540477808333972575967220542133529248789,
      Sq2 18860362825266616604738181723031978496623246290742695436994668586214886 69686016781411071573556506425205506628386200024346879272626804513791440,
      Sq 65571943416938469255479411601748511730792281704222321973416381770238343 14842155056088000237117729575040584202820008981654614719133426552476499,
      Sq2 5949092169006755644280529959686782227817844531137311494779797567746566 27378136373781835887380960678823690592405020921155290137443961352018640,
      Sq2 20242517977262340111082808093030316287576662699776115335757052434066608 73897920342445066099554659736840845329445322776616809871444763037765744,
      Sq 73737974890897518168223147532165808207476750093432879294464560515998955 11507059938801480943257649702941781109380472083653630088630755694121351,
      Sq 1787950634365658153654330154255912436475972925692615714648232989906020 11575481651535816289095526060707621436894830536713696523528230942505061,
      Sq 1809276385711774710218255692895462635366600511830705055316713858574302 73160989648500722026522734601311851100744409331112055870209121313041807,
      Sq 72274636517047210161838838299878735250120768525623608106380555677685718 19677919667653376163205777550172168859062839113855364850020142752759023,
      Sq2 10457193285097180032197860381909360352689418158927263166073390181877596 61493201761240616122836949448005318528848131214881558422131556686209486,
      Sq 51060020534171794685584282432167144672638554553072715014847489029349633 66895820984520153930884558881655022791892265993191813421871458899047065,
      Sq2 120852251224404994312558357178129885501973565583621168084549210292802628 41646374919127363639626962706346082991126921242761601502463380192724854,
      Sq2 46839384314278590109111690303226737369832740128019584227836963478867183 63771197083703303638928520175010618730578834685447334638218992541887651,
      Sq 54913093733093612969366581165866566352462485209116707759985417376257652 4344743331522370801808607581166885845277142061742932513297732830927437,
      Sq 254891306720780509869741426372090695606780670421430349920818474074129 42504708377583645764111761142422646144110649251708338747683099104293966,
      Sq2 48790003636398720844135427358060673647845485752811357259749186790958484 24043902206389682617894133330407712169336764096622551039823516468113324]"])
    (assumption, simp_all only: hsqs_simps)

lemma q_power_5: "pw 74058212732561358302231226437062788676166966415465897661863160754340907 1621525933949669467379801 24043902206389682617894133330407712169336764096622551039823516468113324 \<Longrightarrow> pw 74058212732561358302231226437062788676166966415465897661863160754340907 106268323607325538214202676597 12847847765631538722781430775144455135845590792712512921539177732557038"
  by (rule hsqs_pw [where cs = "[
      Sq2 15612292330037609068830135758322590335544423211108801601280396480629957 17278778333687914028586444848967849751467247669258324457566774517906953,
      Sq 4031371669511758950850958966633089684386084544731198578557291190533331 60233265726770213189450582006011692329433240180509170371870873245472992,
      Sq 48989114998133881404416340281097052230269767171664267672630033427453814 60820270238998972862249066232796158277396963384580032146982953048062766,
      Sq2 99897233148281726614189953888924404808250238257670667348407642724567184 70640098909694273413588329749586013261595645984561894855608650190145624,
      Sq 67379746146336772436161749568212698472383248773092431963790485755510136 4406678748180705506302781773185306899880917534396269136478702088416024,
      Sq2 524420368063501753393595530269143180099376963496812007390816474711527 56180952915245190993788456698826427684794825039644019230068422759402163,
      Sq 42619168813363208511569771229344720368800878184356190234174802364346600 51664660411505319543700658924188458532239555282771118362962258462712369,
      Sq2 72084838046937497703549266037183389428045118085910027509566679020829845 1685424981771679104233551395510540837314303998250209591721423681214907,
      Sq 38357087814665907553205985506817556556466234281380663820675817697685 12334987667742760053084921955351810396442917290110794341299433164318354,
      Sq2 4108981709100008086870218149571624456683889633849458626552593310246090 31304862361337566926401003864563934971240609838502601234876602998735002,
      Sq2 26465516012416888691440439724500514468257624100928562686629143586206419 67188599152476500874689596276645233373323937881120211430759801642197975,
      Sq2 121912416989435366864920496114246600011202502113319428907221013424149238 1724346344410183833957087761184970646040264191300951389144386291922384,
      Sq 40149096309118127213997439922872975442417757512317783437807047646245 33984562432935311328468307985087061856833307323228393623644465611799241,
      Sq2 31190341790419095539225854271449784415807002908531881436062815287881633 43359525697595373534492882811674932240875324754652609195426505430491031,
      Sq 25386090203252069367653233068459727876966959837785149403798707608172487 47187004159082483081724448004954366680502756479244549016220283315417252,
      Sq2 60131436591644532903439796264455364036932917185970612363417097872066710 12847847765631538722781430775144455135845590792712512921539177732557038]"])
    (assumption, simp_all only: hsqs_simps)

lemma q_power_6: "pw 74058212732561358302231226437062788676166966415465897661863160754340907 106268323607325538214202676597 12847847765631538722781430775144455135845590792712512921539177732557038 \<Longrightarrow> pw 74058212732561358302231226437062788676166966415465897661863160754340907 6964400855929686472405986613489865 11307252466868823978123244758450966712904123045199138913613301800191810"
  by (rule hsqs_pw [where cs = "[
      Sq 2228884361616086093427613451569548708055730289760187099865727586139650 41526555005473071820040659994934019140970310808736237868957761713670894,
      Sq2 46570250806616760940766832329998068584441785963827448536924460390587801 17601061033416049584635823575318794839593260508838009914252889816042965,
      Sq2 8366319900826542236336784451892163702131654462900497894741003212049942 33035755916368915456977716356087298747415237788201918946351394874405056,
      Sq2 29473062573276557771440180389483045446662140050962056101569171998843657 34608180838089270840823085441893908061873628475607798697337812744149373,
      Sq 16172766486373524657696927765600885080963931174646428545869017745296365 6522968632259737771027378940987292260324457273851785467142686378390074,
      Sq 574536141333813163093391742950352521009870550124385731868085988789261 49421921693561797025135452013156968248492409362363954542714533127125749,
      Sq 32981167837590044084749169926450407903106652686916958552151924181896775 3719270902293315676913879590351825470894680919292685433305143824936076,
      Sq 186785172558772210274367252790679558487493390513009926834740015802412 26872085030823407601232587488278887734386583979467138670025759685410092,
      Sq2 19501117492842546605525661584242433135700908834319973712863105630934657 20797523938062385107636473558487426179008764296274767909801124011783029,
      Sq2 11681000283283998875297055350928677822014479865972912473336535167562533 53949796156249671765111839220045754263671811973865112270055265422392251,
      Sq 39301252324459481579418729155774110222894688396232575053438175285137182 44155466570178235231746793219378044927823704343159774808887758215542927,
      Sq 26326657855907126762020450004385027141326385110646539089919402024375804 67541925131790651374026940477084915069041771127582919051088165281513101,
      Sq2 123197994717543772830557617818868253102064282042263959139607067999260492 63655470315081472835443801685947839736590627812400790976250357204726158,
      Sq 54713970963177961893633941986720736359083196720595683613558171200480570 59032841656826355744827068436173139724069086490056196771956619759763974,
      Sq 47055907312596119670687956905079191347877163758466819765741958644092488 17003456201910042268455537999865231696299265181341204739845810598466060,
      Sq2 7807844994972611886501010124359647896759955000000232346571103040751770 11307252466868823978123244758450966712904123045199138913613301800191810]"])
    (assumption, simp_all only: hsqs_simps)

lemma q_power_7: "pw 74058212732561358302231226437062788676166966415465897661863160754340907 6964400855929686472405986613489865 11307252466868823978123244758450966712904123045199138913613301800191810 \<Longrightarrow> pw 74058212732561358302231226437062788676166966415465897661863160754340907 456418974494207932655598738701671839705 39420382232380275937187141601225203597660591858650231537001623207997713"
  by (rule hsqs_pw [where cs = "[
      Sq2 3452796216166238587215439921043093960653830186536296899860945722354308 39731388950274938964332675378663441351547410625853272247101306710074844,
      Sq 21315438351430399708104930606656756798581526204128113964567988105612710 22210738863175814643719246656298956898501988172999921136982108629496366,
      Sq2 13322409565287567448862009401331391087826501265899296601740410454314156 12555930738284717605221800068936190903814989045768415641056879114432420,
      Sq2 4257499361317641753417502945323102616946903552967095840097525410606720 53738843327677809785806468536116422374192007739281846609530456909017760,
      Sq 38994504129141477862489263227002511310986404755292057633218480429288697 27485025906527658478771401216277066778545321415554191951216502935589421,
      Sq2 20400887928810526748954386339043582748115609265398149939882103380027958 29380218613773937568925503763498610646666484153405066650971161851152576,
      Sq2 23311317244728064496052928125977837543162480976322105295795709476086436 72885410000590038761575123319085450629785042909541386059367062320234100,
      Sq2 143462360079841510390250664117972286220343782210688328026862213385906085 25137699770428729501672369570826265739588416154349410591076020429900905,
      Sq2 17065060752414885677817200105951939088729424245318239522682946198373942 61060179921610788803594550077734425072989128526755825234331654906192656,
      Sq2 100686890339178556989077209929243914080430182440261307014888864026888982 43224207947713978688801966697801691685727988192724080544956128506481998,
      Sq 25227886061119674363874196504779428799854682813747659235477659153368279 43610344547510440350454762450190574342242188659447340553401182612182951,
      Sq2 51361275984894978142385904015726653108585354843345728720458736657162185 60770911049761636692668892298401719223478869677737745221485788311135007,
      Sq2 99735154105178261957482352426424680572112358220488747964896996707969553 4173928215597823069758775732405228258212734161951505802098802423375527,
      Sq 235243008251855847210610737157342683541303875517121181365280221614701 46175009929261682961633605127717391311692518097554279897886990305653922,
      Sq 28789940552129682194269331551976940047273675348116793676043142061951660 66267797832674393404470501047122165242061726151100426696985814639426464,
      Sq2 118593762057166633253663353951989434575567328401308381388121387221598797 39420382232380275937187141601225203597660591858650231537001623207997713]"])
    (assumption, simp_all only: hsqs_simps)

lemma q_power_8: "pw 74058212732561358302231226437062788676166966415465897661863160754340907 456418974494207932655598738701671839705 39420382232380275937187141601225203597660591858650231537001623207997713 \<Longrightarrow> pw 74058212732561358302231226437062788676166966415465897661863160754340907 29911873912452411074517318939552765686952738 12053259378776376607547404775574758213399343703264929587730561021082929"
  by (rule hsqs_pw [where cs = "[
      Sq2 41966082572331001496877800834194476917951773222383841389551992737893816 48257209805730229101842072778521561073615999246804312603900098795329626,
      Sq 31444970278230530831318274809572508353950366721436080287693528769385449 67100145689033418875040802211365771840091768724170831836868256562037633,
      Sq2 121591634077064777060720356863116366221170097948256022629398995259021921 31883895717314731501400458372106407226583725821538212481175137996463031,
      Sq2 27453614355606429318163204060816016781305848672615527195827185278716237 65572332690103799341317212542260920768975289175863125890785358285206963,
      Sq 58058798015404739050734018980819848464408754805656062743531556660894685 60202360900183063175843834734374262996203530227822534885432731629304074,
      Sq 48938856667308888942624355463717991815067154273228352113491315633618401 30873770386263388028027379186981350911836767754537063046821661250767769,
      Sq2 25741633849735692324168196468275902870614685345190193116394524727193260 19511929459557011745494177265406429735818009226034392658299692625787902,
      Sq2 10281517125171958111582099330815074638707691759463214586733857873771233 28664853416633696533245297446176271618923221953557438452339769167394877,
      Sq 11094972334321931806445148125206173209973747906146395544921359416067551 50083665339571999901453157528322324678974241789743124432037324051236372,
      Sq 33870295289254028506715422887161685532169888246151617792962910941976914 54420459838678711313062262204705926895975264192147026698902892135901386,
      Sq2 79979960082161542122551288975516606357422513753806340547176808768144168 66831750851970837154095734385505919531577486724420426262193317037561616,
      Sq 60310433605375343872067667957542336166875856200022022268674156070877818 60993710531500889557467619745590608863780307348793147209901009480230530,
      Sq 50233898269122535370812160634506104455075601846484111811164957678358469 25312200468660705119087111941185186638056780823555767023019320167489517,
      Sq 8651403658354365950512056765192429737825676794868618449442577376825401 1632428298284055903792939127788568055920755048753152468010304533914582,
      Sq2 71965607883673099319684998261430341864345641816014817391884246808469 37100738299146412317848671375362022295887528214199392353262721383728065,
      Sq 18586254401148351430918545766482724117146762481066036309812130160383728 12053259378776376607547404775574758213399343703264929587730561021082929]"])
    (assumption, simp_all only: hsqs_simps)

lemma q_power_9: "pw 74058212732561358302231226437062788676166966415465897661863160754340907 29911873912452411074517318939552765686952738 12053259378776376607547404775574758213399343703264929587730561021082929 \<Longrightarrow> pw 74058212732561358302231226437062788676166966415465897661863160754340907 1960304568726481212179567014022530052060134672591 13704275865888149275794676763287620894018348514550168763363331495642365"
  by (rule hsqs_pw [where cs = "[
      Sq2 3923428780996887303506339052417387812253874045425035214474466415562237 12106181457794696123156400140310079588551317081658839873916479016909123,
      Sq 1978978753083165853099225530645222004750445483988463053387987985845528 50158997052850196156263669520171797259540197777147100756465453687215233,
      Sq 33972261718404280063673340839595905705713768357004220981264525938274862 36933310750005739049702850162572125534446707461127682936868669050864455,
      Sq 18418881480200043867775457049512580892214822982992595159394441733059180 30670870238916976211998749522309455782502670038340511423624669056570765,
      Sq2 25404401389202907010478404551716936352220240991939304011936947864776338 38830790641689920261660618126621514298733780334227306558172466746311884,
      Sq 20360068738140125222329236367141572554558562513965405662377333364984158 60573575090487335294681566312639857066368736642309426361150524413278150,
      Sq 49544241804659160793103366359854295507167628220698737886287838388225951 58047558531492412171294509217981555140488985426678404435591087269144943,
      Sq 45498249649029846458662985504298241629623034762092266108388774445501152 71956345811095097043018662016819458469228319029010456966087001273248385,
      Sq2 139828265129315058350567291859407338658655406199094507139493508402633582 31516048918991027863909765562476480797649995385598915766609042375677576,
      Sq2 26823799895120230366968158431507871297094071739328206043028718473447274 13476776121212525161362788187960532316608594014644863451902338132634034,
      Sq 2452442314225998891430317586871079545140067130406663002193373961404937 59307343457309437952483864704741626739534987323867616797677467804255297,
      Sq 47494543254306456634187540140861072791235376021289173464634916060199046 48683791108696266531568100622383771238941977176667262092147205792383487,
      Sq2 64006716588587097785199862212293423941673893610372226678199435486352884 39790635832330873218509457357152036395280887709044957745541660301932550,
      Sq2 42758112612270550546651416396006940563678933283567202089784152668361484 34479642621743694635577181794735211116616616324950393341850817454579012,
      Sq2 32105710128769057766473843996692965775879254377186648066842138082940994 38663037850172365383115411625994481092194499770489887536609381660350730,
      Sq2 40369067538855825639795474306325464020743987467434004885529017126612705 13704275865888149275794676763287620894018348514550168763363331495642365]"])
    (assumption, simp_all only: hsqs_simps)

lemma q_power_10: "pw 74058212732561358302231226437062788676166966415465897661863160754340907 1960304568726481212179567014022530052060134672591 13704275865888149275794676763287620894018348514550168763363331495642365 \<Longrightarrow> pw 74058212732561358302231226437062788676166966415465897661863160754340907 128470520216058672721400103830980529491812985902938165 5227283813084482351057592282595757205232929300754167317839829861335865"
  by (rule hsqs_pw [where cs = "[
      Sq 2535939905633055274842257795578661222912280550149851472602374548352879 13551349414357860249908075916199745209512284495358581550701117881871972,
      Sq 2479658422397710330012625184756782827433614377674414740248090893697491 33932284979406229403113260990952285179991263649839727073381857054604447,
      Sq2 31094457223308029759053966049028257360517340476414384454268967601081011 73525767946833325945475388437268047154731489947177759492627783246134641,
      Sq2 145994302392736424327734583887392652190700359041474204977770915379056976 43444524791103223440687318752434279504679972593740957081825886919880530,
      Sq2 50971436244097556542171802180531959471079845931542472767146439481730603 42913593086873152749705770531607006318314770849854076087203945949484879,
      Sq 24866607006518221665135324002937712779832279637647723828696695609444891 5503157699251386519229540231365925115443018937762161837769708606188504,
      Sq 408931616702578686805731658412424481059421492054151328480712797574356 64146323121780501790772438873864757920782118009658552924684459276777124,
      Sq 55561032574510525980811946533517515656256250334454406765601612170092534 8448695484825664945238721065649273784968573624098830844940127998223038,
      Sq 963842533617200777529872551704294465739432868084547376299656793340100 58218842247205537338930168241243444907978151046097012050548003000478744,
      Sq 45767153534273230119803183689658394174119338888071527602437551725596302 3517868117704116821433767305011249521814711172584470600716643629291622,
      Sq2 334207257694675226493145517048546871519223312689665784053143576878198 34682534062405588826209638324503698278234708795114633810106470930936182,
      Sq2 32484666442971057137475460141792734132135190829073254091761447090361023 43021845738621842786194280271189811461611913004803748065086384866206387,
      Sq 24992220882262714322437353562598600958526235688608085836415601264907336 47066334363725288404856629467803093493806134956241335006120413770400017,
      Sq2 59824285483033482700310763785498556915632419499050892390328357621115896 71656034249665291474297382609825600053444359999652331335496169046442906,
      Sq 69331773680944754514479899069051023238760945605998461367209747882034063 4532302360208299749403241410270928214223685654265822641217187429409695,
      Sq2 554746433282964599580543692920099043585547168473980960587457404612955 5227283813084482351057592282595757205232929300754167317839829861335865]"])
    (assumption, simp_all only: hsqs_simps)

lemma q_power_11: "pw 74058212732561358302231226437062788676166966415465897661863160754340907 128470520216058672721400103830980529491812985902938165 5227283813084482351057592282595757205232929300754167317839829861335865 \<Longrightarrow> pw 74058212732561358302231226437062788676166966415465897661863160754340907 8419444012879621175469677204667139980775455844134955630336 18573837424811328134602619977051715522890118259630663428463053606937342"
  by (rule hsqs_pw [where cs = "[
      Sq2 737919402975848926532617339139569812720628805554487898746227205291867 2847114559590946038175189897136983487593681548170783648679622518093081,
      Sq 109455265207483659818413418817795214683932649600847222972059778418425 5715366183194059776962833633270066047975495884770259774577830840061086,
      Sq2 882154980595046217254413850801531376286308609089161787778731883961650 17933614173297055511922295723820007865348816158729258544227326608782242,
      Sq2 8685451766925398087735394539420545666846717508866261202517166924707319 21301626889227226263625563291793148689220520457389901851489044625094795,
      Sq2 12254125272141300667981376258331438027319661938469778968871149480582226 70821372087203339451857537476944788478712781340909509991681790223265068,
      Sq2 135452006178616666522928181057801551179630964561447692455416125547424853 26973529761829739022345561867696200422970490834377115937555646051727577,
      Sq2 19648632635511108246094495798290204070665746341189705553489474284927781 19665966182876234773894961531385267549563018203118193934856893695544491,
      Sq2 10444492558918809331152482095796181384956773143718507275283278331773493 52187323999123130187600620080883698994007515539645557825728786292720011,
      Sq 36775351250030877848164639147076042724576521526205588205425533355366493 4471128737530873481284777674846266020985451170124038560214503192810970,
      Sq 269936195459722907219766989625492426608213151971318212816958081951607 37922230838219070753528911483387832304133275852565260739553414597853351,
      Sq 19418448524276665747052227245036427285895855799940499090992660732473022 11033982827422101398945521420857576080426888604651567781262753533418247,
      Sq 1643960508141134817898618855031376917768182009896346667251303558838704 21844806126079074109894001712787690717781434044294229504591652390488481,
      Sq 6443519726964354495139817960529472990220475209256097696624859394997208 28910326956718588816415863524541457101931201421019134029175532648499705,
      Sq 11285811173470139117262896956251092048546541717293831227149243799562329 33175761488626935141893194324837008986637658350459085929962373924194622,
      Sq 14861702838074903264906061111788974840240051981959729610077689958679402 67669655054887480815198666427380935079507581610359144013526378706825270,
      Sq 61832199917972343505335105824854408023143002160785009623745373379282994 18573837424811328134602619977051715522890118259630663428463053606937342]"])
    (assumption, simp_all only: hsqs_simps)

lemma q_power_12: "pw 74058212732561358302231226437062788676166966415465897661863160754340907 8419444012879621175469677204667139980775455844134955630336 18573837424811328134602619977051715522890118259630663428463053606937342 \<Longrightarrow> pw 74058212732561358302231226437062788676166966415465897661863160754340907 551776682828078853355580765285065685780100274201228452189737265 53605215187800231406943822520335594815195613158644993794267991915169500"
  by (rule hsqs_pw [where cs = "[
      Sq2 9316655748340532839129173678780078817116369614430638599059307013953268 27991669789329847409119017525371437913417746441263231818342528389315852,
      Sq 10579968766251134632235376680884874103471235872838135027142423675061509 24986173978925398832557262649792579047937169125637163149541932638637241,
      Sq 8429975111060670478121680428046347418402436421027935337414329474581678 20900041245058112250503790054780818558090897407947872730601493163990135,
      Sq2 11796442499160559715649844764145086002498299358939713438718642506862857 36116959692707414051940197944129288971907897422201316999787947480645151,
      Sq 17613641071183020145148214416641903888405823497618050899645221035535719 69487203005999170773463835168583453754519556391435070454236221678455668,
      Sq 65198324445574882092627146192950561993540215547731090022695844683255303 12507583686202808041695131112942876322562025814023259963167936463746403,
      Sq 2112387592073018181881607718924988042356042399183352913390511783172580 31507824184723945878832113918198168431772766076685992097063750960708349,
      Sq2 26809801323195946135663716941227000144640189606897270503593969956933306 41203322383448585388700040599864801103667270417501808011465282690063060,
      Sq 22924044650728617757396971204009796881211081587141699424277701838768201 41228301801423507583633737205527941910280079533870771191245734271465293,
      Sq 22951848373217863006414109126907227344045372337350067861248336289862118 56125151366490582836076494185473101342318992994627436971405044306514823,
      Sq2 85069096314459046486005483223257024896516859384976130028554281753173860 28323761401501423319740767466650676138144076600591380874351201756351638,
      Sq2 21664996502851358033563678221940433639881523412145393339269683323210525 61713465242387963666511984434176895115856388939392619341212151030119913,
      Sq 51426461045945709931077878611194005762970409335505083633698147530735675 25677987152966124656899148729216654306172613138876553253444975702370344,
      Sq 8903253263874559108534599510582667504951660227310517946829518866381336 64143741142054044476126401709388927497443333794931240198945431324566584,
      Sq 55556559845115457975148521832572028259277813177472938110199794949008877 62816709427018371758752275322786913405457365846212456517178180422197617,
      Sq2 106563170717824735821877229609777454951650256165801511649834694519992754 53605215187800231406943822520335594815195613158644993794267991915169500]"])
    (assumption, simp_all only: hsqs_simps)

lemma q_power_13: "pw 74058212732561358302231226437062788676166966415465897661863160754340907 551776682828078853355580765285065685780100274201228452189737265 53605215187800231406943822520335594815195613158644993794267991915169500 \<Longrightarrow> pw 74058212732561358302231226437062788676166966415465897661863160754340907 36161236685820975733511341033722064783284651570051707842706621462080 61352076294671624087145649929828696798128712623770133243418458856002955"
  by (rule hsqs_pw [where cs = "[
      Sq2 77601632264802451058902456180736783509576878675289213540364937881739406 35392279588354369277993449029050445321426086244161024528575505200818758,
      Sq2 33827806754766731082942017440750152200563215011024825764426215474781908 13579505235554460919771912888675496432924108849128554118413807021414572,
      Sq2 4979946332444345007054088109777354203951990246960909455785306641231212 12905168316996862587497280861171246250276409168631769110130187731097084,
      Sq2 4497634040709035314329848686269391067208787621571238969033350444162374 44367265816835265920392817004338982583288201075085204477264586408172894,
      Sq 26579824214367570016128428951672519200001873387857709159464209172852359 68649737656217639088429373915437396526988251581046571986587271131185623,
      Sq2 127272487584497797956099697869743553450906921082534703332005528865775889 44052610961805763982480161818411383224039063983382025675465361996804935,
      Sq2 52408300469259545963078364539176642844114745895432879313819418519703425 67584883153018401499646129463741082013570789564504231118977617895201975,
      Sq 61677378676448281631155529256291444843811171236668202924396310444121372 154897093454864164673284149172368787040389364342111296446117471336221,
      Sq 323976351514297519352972091676551704304260822184369386738042145310 5996887571432884123438277110117309742510610214550343191702649855364671,
      Sq2 971199795876100115820377981384736540607655503349989044722150013749977 68156330500015474086691528651616712821509879803100966198641816668467343,
      Sq 62724783867015135270872863355045327579570637439264391614276737304857226 20335694180036956263044578371823592011105868227634549230537469291135667,
      Sq 5583991869711521878250766871642526098528744775747110816679283838593004 60610485487539643929815319136520230057582842949063641416126294358320261,
      Sq 49604639586718777852514068025287067812506951152709812861161191980584447 42732548644083999593479100713225724899157858561619164308371159303034692,
      Sq 24657234440875619818912855734834011426994283728303767461221500039340629 68352252903802304832858361082475876366669527947750335776421694793724361,
      Sq 63085919908666488397705547098528211924262849603331453152749747736732847 2786068502745900137331916046524629063614996769852269060408656222186092,
      Sq 104811842138609507853813718162029486478777092290370493566120674335887 61352076294671624087145649929828696798128712623770133243418458856002955]"])
    (assumption, simp_all only: hsqs_simps)

lemma q_power_14: "pw 74058212732561358302231226437062788676166966415465897661863160754340907 36161236685820975733511341033722064783284651570051707842706621462080 61352076294671624087145649929828696798128712623770133243418458856002955 \<Longrightarrow> pw 74058212732561358302231226437062788676166966415465897661863160754340907 74058212732561358302231226437062788676166966415465897661863160754340906 1"
  by (rule hsqs_pw [where cs = "[
      Sq2 101651852692152443482070296074344756479986351125776182099306781882292818 56259280756580902628877884367340347832555477781774206380530866367758124,
      Sq 42738091488618708585196030333883241738832486794588896120352483917557647 14089565386620262440165445902014486780087349267751962340098937105233547,
      Sq 2680537991116896444346222810526362411811769618968717346310989742934646 69529853600877686293661527628521915365708567600651392372158799708837287,
      Sq 65278385251038212909243676963413868554031372916388830518355303177304370 61931814477778937429008662884532670820208057811185456178089965160656779,
      Sq 51791010112017504347938927686146680973294750337136069882326296139115700 10464509856658871519864692477362649148353176417673175016912935322714941,
      Sq2 2957294336431208945892095356056039616653902407857070108411605172800352 31114441842078133924436296787384452518187950854211847891728777031667698,
      Sq 13072263769584759036951504788660681830372047370536091154590209563847902 28971653454968445710694108194287351302172831323253192144090114291892090,
      Sq2 22667484751377021302471908717174759355659454968494349782144967342564599 6403130495642331776968542037196945651880428015040772196646625093384907,
      Sq 553619627471757853402618358293982562180842736178066726090886863796111 24459794481472842914152717352883748826152361873207615800257387020585972,
      Sq2 16157061425081931724191962349576967558364483024451733902105846052138466 74058212732561358302231226437062788676166966415465897661863160754340906,
      Sq 74058212732561358302231226437062788676166966415465897661863160754340905 1]"])
    (assumption, simp_all only: hsqs_simps)

lemma q_power: "pw 74058212732561358302231226437062788676166966415465897661863160754340907 74058212732561358302231226437062788676166966415465897661863160754340906 1"
  by (rule q_power_14 [OF q_power_13 [OF q_power_12 [OF q_power_11 [OF q_power_10 [OF q_power_9 [OF q_power_8 [OF q_power_7 [OF q_power_6 [OF q_power_5 [OF q_power_4 [OF q_power_3 [OF q_power_2 [OF q_power_1 [OF q_power_0 [OF pw_start]]]]]]]]]]]]]]])

lemma q_cofactor_0: "pw 74058212732561358302231226437062788676166966415465897661863160754340907 1 2 \<Longrightarrow> pw 74058212732561358302231226437062788676166966415465897661863160754340907 96794 53882086226459911720719223514639819256392573009799262795782854936937109"
  by (rule hsqs_pw [where cs = "[
      Sq 0 4,
      Sq2 0 32,
      Sq2 0 2048,
      Sq2 0 8388608,
      Sq2 0 140737488355328,
      Sq 0 19807040628566084398385987584,
      Sq2 0 784637716923335095479473677900958302012794430558004314112,
      Sq 8313140759174391779718174581384026376896512 212676479325586539664609129644855132160,
      Sq 610753 9257276591570169787778903304632848584520870801933237207732895094292629,
      Sq 1157159573946271223472362913079106073065108850241654650966611886786580 42814904236012035268477427783926924703409027458941222085764639811103581,
      Sq 24752366511444457889588512937582753344158343999700394018332682390794398 67350303327341567303664872675307345658867663549221305857041082473184575,
      Sq2 122499941354661786233472485700937432900040061875414728670643570416423129 35611163889389469987654922301840199380342240245497212783977253210223247,
      Sq2 34247518182392854538658558488959479179165561695714089566764733098606499 18418446759371592376799735687423774052183681127705011041697004266691425,
      Sq 4580709802609802649694377758614016532721444361670007055497436936751638 50018382064960117726139413037012994628874463203589051724205103925874959,
      Sq2 67564108073494849678595397947439726516616132207039525643727448587378233 10820701348675090188781782904093358004259012783131519068556942373226031,
      Sq 1581020839647386328200544932585097837298665051318182793897979002137636 53882086226459911720719223514639819256392573009799262795782854936937109]"])
    (assumption, simp_all only: hsqs_simps)

lemma q_cofactor_1: "pw 74058212732561358302231226437062788676166966415465897661863160754340907 96794 53882086226459911720719223514639819256392573009799262795782854936937109 \<Longrightarrow> pw 74058212732561358302231226437062788676166966415465897661863160754340907 6343502238 9873998029049892886497741387572415978018053328879846957763859972516016"
  by (rule hsqs_pw [where cs = "[
      Sq 39202663809886529253829340683248242738319684636566099630114377491659839 31026804441375728781910736262517853733312237591303124398479010334543908,
      Sq 12998728410037856559383389039278423275684310698596745005302581405835765 47195183252526024137441526692345440730174986827957158703624900316773609,
      Sq2 60152283995376325647994584946875018567274401010329036844172158211024392 36291934579476949170961539441498659148733234289554665606497081457366218,
      Sq 17784719167843759080248451890735372301385571443822841055181066035614389 42939280187358984190817754633417682473964471607542586091661680867112701,
      Sq2 49792770173019843489725682141248297432707771882927195984556953030874538 45426864663646518485482412603622655631572460763133737969073214472904836,
      Sq 27864567034871860577519570032741016091881146573544984347461671156536517 10649518422501175337413347620245076517440441695780975935993576699785977,
      Sq 1531393189851146376704041272811734152287088311846553906206315285154993 26468137062010504766510494899990372716311976644238514025378256550645878,
      Sq2 18919232686946983744373444805709571712730402048416539839092954989149622 66794171489631038307525793128576800918843618272561686581786016898594614,
      Sq2 120485255594742648986484332523939123206351848922475636959752293680741737 73723555997206006869384972328794329770427073036451337622245846298282533,
      Sq 73390411519929622829017518506288214258016127354227274680845614202410503 47260047413850295524340801117859846689527409952507389999000405073549868,
      Sq 30158870963103383167930169422001574142469989357132966553994989329114467 29758508075917093950376460550151922150999953377758899990487414539215855,
      Sq2 23915478654673573194654470649307953392326271387887334466044588590288941 15533081651677870270914748886790375115989360391793347345549385420752563,
      Sq2 6515864120809629562991073281810391185062248833494516442093267749654094 33032251797657976845775598082804288848602308872313537746715500337914680,
      Sq2 29466810460688823946860703076646646679531392451812386380617098723491770 6555666814127633506350188197211693389805847507378088565552137930169410,
      Sq2 1160621240835282919050951948335245017146723158855308505665375786774892 23106016685637634157287559334335934391370487219714175683276611963389156,
      Sq 7209031751886025387357323333454626263696774267179995147736760732841760 9873998029049892886497741387572415978018053328879846957763859972516016]"])
    (assumption, simp_all only: hsqs_simps)

lemma q_cofactor_2: "pw 74058212732561358302231226437062788676166966415465897661863160754340907 6343502238 9873998029049892886497741387572415978018053328879846957763859972516016 \<Longrightarrow> pw 74058212732561358302231226437062788676166966415465897661863160754340907 415727762731470 59905247070155557589792938963250773898075121489390557708937474376224310"
  by (rule hsqs_pw [where cs = "[
      Sq2 2632951390003365084335973123342242516486752734134481300714631218267153 55979328769682415423166058127506160050484147169866874315296139590696741,
      Sq2 84627622889592046404741497839485731337406975361735117551817279388666868 3972333587906236889512936773951033395330448889846802252475024928072886,
      Sq2 426135969297305335777391151775550010303196914667681621025775474146311 27761516180245189731908187747824767962457452781687581946686976166293915,
      Sq2 20813404811946240880143617252782535100322497885252814408259941941988084 54086688036442362388769764764538014158049767788699155274639419664302262,
      Sq 39500950871114295143440728316281270050926568457830745950227210798568014 62243176476028797547480952347273962206710983379796077722592821316367946,
      Sq 52313077441074672624183715521083514587340275789277486460515344096561948 51023904306648405031493181512252039755800111751213581856066693820252080,
      Sq 35153951393554941235147189430086615163186688036328760545643930766393754 71590560715488230603160546455438943176626670054473393316687045232831522,
      Sq2 138410263884334697668989585783302797008286071685872971375087258913406678 39357750593411277626853990861866899611033627664285504489485487331296022,
      Sq2 41832835943989741901730126654307403538393699855890783072761033985881251 73994299027674238557536821761741624074404976648766356356064316312414311,
      Sq2 147860880963161488871598148691873729884102879153389967580661187774800616 3030880329163152304462673657469374079447722318864915893063539017610730,
      Sq 124040740800502784159158201309001499428680217044235259742974989680252 20186061522064547348942138738928635052949347431942743397747040877464336,
      Sq 5502118735217848572772976548618763168088411846233689071287546854155947 31080597194559010657524423485039797717674499604036372503093027172496967,
      Sq2 26087681199082037160337956481740719429391040715835570765273587255223214 58440526477421557842028399989200600975360531510958556328261883512183080,
      Sq2 92232718261552073960188940938004804758259176366793297784778916704704998 41516042357108640934693520320558199706115539433164765985243275517819614,
      Sq2 46546674822451590717534199232606053465495981671076303325335704820198264 56850440753119798199641765124701563093724562108599945471550834900632544,
      Sq 43640975046147379448907198182990012079866321109616377133488698686605918 59905247070155557589792938963250773898075121489390557708937474376224310]"])
    (assumption, simp_all only: hsqs_simps)

lemma q_cofactor_3: "pw 74058212732561358302231226437062788676166966415465897661863160754340907 415727762731470 59905247070155557589792938963250773898075121489390557708937474376224310 \<Longrightarrow> pw 74058212732561358302231226437062788676166966415465897661863160754340907 27245134658369659956 55224902731661154825095012409331249029123573085174738085104203915879453"
  by (rule hsqs_pw [where cs = "[
      Sq2 96913994927089439735818909119857892936373873868475114751776280327832044 51610221560379778677873092924641887428558216155829860483579101455328292,
      Sq 35966503527844003029378274477109145875613536457707873368619714971706678 12607433573230962643467891411585419083539293033581933793753662675160318,
      Sq2 4292498439772539875113245926749808401244742909257348505721785574529891 7644206704861915064519872494262899263124054706753901718355019928171111,
      Sq 789026550744237461417279879360768391737729621402180595280289091941320 3656616792795971615964429652879790037527250914219750234205407575397081,
      Sq 180545085764386863080941208067206450607736793694004694604330827698515 44910072599201880858785016335765272683153853309518365827614176295667456,
      Sq2 54468357969940630847903070755584533619290143295762725935134971578551561 42823733237427961866644958426854511007334944364622345030286946804018045,
      Sq 24762576096899098336158060060456886499967271944551491259875345372347245 44229501098471092128779605976169943203831069068326638942217283173370810,
      Sq 26415014557319269354969579381474410077524440398545516613213450453762340 15709313432981918239605436276139977726167899692337037488190852642013720,
      Sq 3332277669552274439986146704874254702288430677915795500904412771491518 64736048859960574996725171318638238837341298743207500270134321237311574,
      Sq 56587323233587066496277858691136475818689270052206261830675480492579315 7070111891805060864548757543425365476045914473664363518210803907818771,
      Sq2 1349924075082780276702753767445467218150842080270606888311729582469349 73006098937535659217249858779868473560363143744827874117540793935541339,
      Sq2 143937864158956110630592553985582406544529904432008671955108538038374068 26261028886456709935438836247269744776045331597228431455996526695426166,
      Sq 9312156109758469703849824938210800892317925220974681000635591841851007 59164004801848140152236676725967919273956568472762473385950375178216207,
      Sq2 94530487167808446290027239163393343673157767949897615521410548333089510 5074814565478457957282033174263980056348248120341405154030853789348128,
      Sq 347749991847549650111835462083637654481009403032134019260908499036193 70469177349291559466123681724612771667726699584267318722499984723657333,
      Sq 67054075072251032263986933927948862439647103053025031552768932082185748 55224902731661154825095012409331249029123573085174738085104203915879453]"])
    (assumption, simp_all only: hsqs_simps)

lemma q_cofactor_4: "pw 74058212732561358302231226437062788676166966415465897661863160754340907 27245134658369659956 55224902731661154825095012409331249029123573085174738085104203915879453 \<Longrightarrow> pw 74058212732561358302231226437062788676166966415465897661863160754340907 1785537144970914034902307 49193208058566577959104148180871418100167009799773547090851024499038337"
  by (rule hsqs_pw [where cs = "[
      Sq 41180981408973794870941102491021225379444826167519209874220736658769210 12219301287136083619979772169428104279429169654296992171429375052505739,
      Sq2 4032269168714558224485966390252941702192553538323437086566338828580863 43395268309710450924767376581795593145242126782251477239918119537609501,
      Sq2 50855921097425868668342240572447226372236984656075340425431102992866322 55268776644369205451234458373855931073298096374039012089695711263703948,
      Sq 41246440591215224387854183769107645143015597121762276314351387414069189 31449701159615089460857935188139667440059681354380461699459251599772281,
      Sq 13355489776682415329489866032965129616121053900198373837916608007368668 4270266321051578943348609850947362855436106466744013275257027353441085,
      Sq2 492455158715702634150911974863731001342068732473452735588521925698743 32447942494260381179317789457463668218690385819077244298629524728574549,
      Sq 14216775334734902284854741485048253965239136015444041419028832683728650 54980755414433188203062458250353229448483829906751478486261111467667851,
      Sq2 81635334000239669851652805874673961220647979182055961350941960933546749 67956744329022132767714645437480684503377926765859351246559220350355059,
      Sq 62357960439539771786128189601645106508750870812756374588267956349195311 65059046996379679682899910575007640085683652944613117515805467747006404,
      Sq 57153412699306839625973651182967669345816692900568340219861985411391345 24299272528052384420260690148753539293873449786856489604039988297761301,
      Sq2 15945689846035256996305345415711374281493662633141366364906721213568476 63451802044238897392199271441770955419508672762410507456557591853977470,
      Sq 54364411914724758443541641883992307341046508006289583044300701856578485 22597814082411409699612966302411864418534596497329094182886460976015005,
      Sq 6895402717148043514959193901617493506645197422235451317313759372319685 41038390859567015992972922737202606252633949239260025002469908108295730,
      Sq 22740888042010760031754550134738071144892501565620546614805772040026926 6863649637622606812243395657090806345933121645807069554558333472971018,
      Sq2 1272233952449249670485281565529823906902578794808389441858449973350695 17624207582733641917495387846056778294471677926149874945567454640532283,
      Sq2 8388338887976380979233632060637142191133287221350053799020984786454163 49193208058566577959104148180871418100167009799773547090851024499038337]"])
    (assumption, simp_all only: hsqs_simps)

lemma q_cofactor_5: "pw 74058212732561358302231226437062788676166966415465897661863160754340907 1785537144970914034902307 49193208058566577959104148180871418100167009799773547090851024499038337 \<Longrightarrow> pw 74058212732561358302231226437062788676166966415465897661863160754340907 117016962332813822191357596115 10980063351514778157005549468018301628451670697274289593367167498595287"
  by (rule hsqs_pw [where cs = "[
      Sq 32676615189626696606969688926059182374810154778338336992834428126877671 61578077530096916426596978715402478932905687967287143836897864375537972,
      Sq 51201068624161522796693086448446449429537990654770489420832469529821372 4105875347237545186198470304769667924697171896217700108781547111408380,
      Sq 227634609924105556505695070201995370181179909042028064268988017474773 10828997928446210701989189866324491273221686470919068671602815019785289,
      Sq2 3166892416314906918693693430858285187093676442534392119535258251078632 48346849457390357025693369405251523959762280159930721241142046330427818,
      Sq 31561899298008145797706081370360994443202422805003922511586819844195260 47059771906714119819812480879258455447475740669393630153716347794740304,
      Sq 29903802025433582900323457948355307970738108896316002842234649276338173 40688680805101588592102734332792292787896502688139661668364615742469505,
      Sq 22354964892793509691491052911460174674276674138938529269381598747491505 68648931893065637410210464875532471739450541519771408167643509998449990,
      Sq2 127269499929120772464615526585854164988136094233458206394173569538618142 17818161401505918158556069249545863733577477380957474073626904299065406,
      Sq2 8573981575186599190983813337084739610965500400993071700566079170689824 44777293032195950306999229438824625693916416402529125060476520480059304,
      Sq2 54146755567315981072578964901811582330213354162598612804536251080325523 39730253019602770864519918142779519123052512407983580023337025838859471,
      Sq 21314219541077787215780681680441156076396487056065405556911207908716445 69739347985785909195117120511593078001038509240396491072119825759284226,
      Sq2 131344694343242240387140996989731845634947517757697103505563730114988853 5714243634965736365600732601690172024192946701703246837947486037928481,
      Sq 440904244309287667153166437186660481486210696506512803525611201829458 8966701809750480175132281441372376453010733244796307400251428263928955,
      Sq 1085655977620320063290744023886737844277678485243321116528451044092305 38083218005577667609334965538993191743775586963748294557364486941971390,
      Sq2 39167337156725204457292637679172753909629793556775606512403684320159701 25367839317771031639952215701897139861415218974366781842116251919875393,
      Sq2 17378957657975145986220623857802246461732111946846172678789774784278273 10980063351514778157005549468018301628451670697274289593367167498595287]"])
    (assumption, simp_all only: hsqs_simps)

lemma q_cofactor_6: "pw 74058212732561358302231226437062788676166966415465897661863160754340907 117016962332813822191357596115 10980063351514778157005549468018301628451670697274289593367167498595287 \<Longrightarrow> pw 74058212732561358302231226437062788676166966415465897661863160754340907 7668823643443286651132811419055250 23925621013128056732313651708555195202385702977930316835875695148479895"
  by (rule hsqs_pw [where cs = "[
      Sq2 3255865534823263176614466836109888802190293622813622970500202692453021 10622552789254092636906058105188141289654609219000383430847022521194691,
      Sq2 3047295461152220427189866373814562132881496811975363930449659464845927 37997587183541663779003367602879257353611870065895468345626288664735173,
      Sq2 38991398212234826587318456173136271795483567459637684363610044019533792 21856358015838061538321139640202557757811906244077066571949230072250514,
      Sq2 12900672811037390088026761126188186993060667560218988915459697638922959 21775303980155605413463449083452253346837572633045873128875810151344579,
      Sq 6402583129307733717762468072347783353048882562596280557838598256236721 37207812695334010458645991763120351975762241618636847401056575066841294,
      Sq2 37387381479768463221894128959083980892545541552905982316545567930718411 37066768459898215312323199364324727412010576745391323375440717851850095,
      Sq 18552234429708552230906066971278449227825349130870566166955128734613604 65626805947523963538669627678002060436780939641818486051885986015610197,
      Sq 58155301079529712686891825227722310086196770252801774077643867699556862 25627939115667223615495161442228810027303364201690768059766515471224975,
      Sq2 17737162134553459723163524430514104903164791560191599596628031593964703 22215998879008375740440568544676670894116847390171418840696984340495629,
      Sq 6664360210452402490315611173150786364623480370785771235336876870711858 35672966278453353814284990201267606061600807179621978912351760668730435,
      Sq 17183246477998790248640666963798796068560927665391050837232183657209882 593108134046836163611118372097765501214679492636961049514195218046251,
      Sq2 9500020205533612460863607035023226341966507504527386742282590405388 66000338066974899546734582618282039671499733981041187452017325268703086,
      Sq 58819197280462360685460293366817666672279025779735201958445338425775591 25128021495193710391433785416588563254141892544643471369982176932522359,
      Sq 8525961415556822751429961544556541119070489617166438859227337066592683 43572807545398728076739399730915348192078017524923048607277794141141400,
      Sq2 51272897018039938331575911114022356578353089632635441588719792364967345 64430789838214670370977400022716497713195584758074789776176847535238085,
      Sq 56054913101500797078504486632617290810907833942075047478446719477245190 23925621013128056732313651708555195202385702977930316835875695148479895]"])
    (assumption, simp_all only: hsqs_simps)

lemma q_cofactor_7: "pw 74058212732561358302231226437062788676166966415465897661863160754340907 7668823643443286651132811419055250 23925621013128056732313651708555195202385702977930316835875695148479895 \<Longrightarrow> pw 74058212732561358302231226437062788676166966415465897661863160754340907 981609426360740691344999861639072106 69490809710348678725736597923071784769591275419387514694139338586948360"
  by (rule hsqs_pw [where cs = "[
      Sq2 15459064423577447528741810599168204838058394903725897591957194247937479 59871792106663572955832521242387634588680708476662779603162677650268597,
      Sq2 96805779070265861016038157719736767487428588851836723333874565562545129 39745327798338992893948292242152723184584720464885888454686274650404815,
      Sq 21330397041878268220440035344430235221085025770882907312885155271526734 31696639904365753107769442767829799140366231137872339266966295574876487,
      Sq2 27132088235915598731399234909181487362125011788829694942919061461604934 44759233612880384862059565985245276826796294382194269589621359021687200,
      Sq 27051543909748800298682990317910115598901721947196911740163252889717035 43289307772775068289359397777382943891461722110298613870449815488589255,
      Sq2 50607869088423557493687882383678272885283588652159591838997884593648727 25581444385703881019328578566098791501234095168041173362738593038334661,
      Sq 8836431135896618987616964895708495005000121305835174671583745728515123 69490809710348678725736597923071784769591275419387514694139338586948360]"])
    (assumption, simp_all only: hsqs_simps)

lemma q_cofactor: "pw 74058212732561358302231226437062788676166966415465897661863160754340907 981609426360740691344999861639072106 69490809710348678725736597923071784769591275419387514694139338586948360"
  by (rule q_cofactor_7 [OF q_cofactor_6 [OF q_cofactor_5 [OF q_cofactor_4 [OF q_cofactor_3 [OF q_cofactor_2 [OF q_cofactor_1 [OF q_cofactor_0 [OF pw_start]]]]]]]])

lemma q_inverse: "70463328703800545008217672123162676565183935400628861884889913886334520 * (69490809710348678725736597923071784769591275419387514694139338586948360 - 1) = 66117633491858138461393741777649859022484251587227054915412604379442197 * 74058212732561358302231226437062788676166966415465897661863160754340907 + (1 :: int)"
  by simp

lemma prime_q: "prime_num 74058212732561358302231226437062788676166966415465897661863160754340907"
proof (rule prime_certificate [OF _ _ _ _ q_power q_cofactor q_inverse, where q = 75445702479781427272750846543864801 and K = 3])
  show "prime_num (int 75445702479781427272750846543864801)"
    using prime_s by simp
qed (simp_all only: cert_simps of_nat_numeral, code_simp)

end
