(* ===== verification/PrimeField.thy ===== *)
theory PrimeField
  imports PrimeP
begin

text \<open>
  The integers modulo \<open>2 ^ 255 - 19\<close> as a field.  The library's embedding \<open>of_int\<close> takes an integer to
  its residue, so that a congruence \<open>eqm p25519\<close> between integers is an equation between field elements.
\<close>

typedef fp = "{0..<p25519}"
  by (rule exI [of _ 0]) simp

setup_lifting type_definition_fp

lemma mod_p_range: "x mod p25519 \<in> {0..<p25519}"
  by simp

lemma fermat_inverse:
  assumes "\<not> p25519 dvd a"
  shows "eqm p25519 (a ^ nat (p25519 - 2) * a) 1"
proof -
  have "nat (p25519 - 1) = Suc (nat (p25519 - 2))"
    by (simp add: p25519_def)
  then show ?thesis
    using prime_fermat [OF prime_p assms] by (simp add: mult.commute)
qed

instantiation fp :: field
begin

lift_definition zero_fp :: fp is 0
  by simp

lift_definition one_fp :: fp is 1
  by (simp add: p25519_def)

lift_definition plus_fp :: "fp \<Rightarrow> fp \<Rightarrow> fp" is "\<lambda>a b. (a + b) mod p25519"
  by simp

lift_definition minus_fp :: "fp \<Rightarrow> fp \<Rightarrow> fp" is "\<lambda>a b. (a - b) mod p25519"
  by simp

lift_definition uminus_fp :: "fp \<Rightarrow> fp" is "\<lambda>a. (- a) mod p25519"
  by simp

lift_definition times_fp :: "fp \<Rightarrow> fp \<Rightarrow> fp" is "\<lambda>a b. a * b mod p25519"
  by simp

lift_definition inverse_fp :: "fp \<Rightarrow> fp" is "\<lambda>a. a ^ nat (p25519 - 2) mod p25519"
  by simp

definition divide_fp :: "fp \<Rightarrow> fp \<Rightarrow> fp" where
  "divide_fp a b = a * inverse b"

instance
proof
  fix a b c :: fp
  show "a * b * c = a * (b * c)" "a + b + c = a + (b + c)"
    by (transfer, simp add: mod_simps ac_simps)+
  show "a * b = b * a" "a + b = b + a"
    by (transfer, simp add: ac_simps)+
  show "1 * a = a" "0 + a = a" "- a + a = 0" "a - b = a + - b"
    by (transfer, simp add: mod_simps)+
  show "(a + b) * c = a * c + b * c"
    by (transfer, simp add: mod_simps distrib_right)
  show "(0 :: fp) \<noteq> 1"
    by transfer simp
  show "inverse (0 :: fp) = 0"
    by transfer (simp add: p25519_def)
  show "inverse a * a = 1" if "a \<noteq> 0"
    using that
  proof transfer
    fix a :: int assume a: "a \<in> {0..<p25519}" "a \<noteq> 0"
    then have "\<not> p25519 dvd a"
      using zdvd_not_zless [of a p25519] by simp
    then show "a ^ nat (p25519 - 2) mod p25519 * a mod p25519 = 1"
      using fermat_inverse [of a] by (simp add: eqm_def mod_simps p25519_def)
  qed
  show "a div b = a * inverse b"
    by (rule divide_fp_def)
qed

end

section \<open>Residues of integers\<close>

lemma Rep_fp_of_int: "Rep_fp (of_int a) = a mod p25519"
proof (induction a rule: int_induct [where k = 0])
  case (step1 i)
  then show ?case
    by (simp add: plus_fp.rep_eq one_fp.rep_eq mod_simps)
next
  case (step2 i)
  then show ?case
    by (simp add: minus_fp.rep_eq one_fp.rep_eq mod_simps)
qed (simp add: zero_fp.rep_eq)

lemma of_int_fp_eq: "(of_int a :: fp) = of_int b \<longleftrightarrow> eqm p25519 a b"
  by (simp add: Rep_fp_inject [symmetric] Rep_fp_of_int eqm_def)

lemma of_int_fp_eq_0: "(of_int a :: fp) = 0 \<longleftrightarrow> p25519 dvd a"
  using of_int_fp_eq [of a 0] by (simp add: eqm_def mod_eq_0_iff_dvd)

lemma of_int_fp_unit: "(of_int a :: fp) \<noteq> 0 \<longleftrightarrow> coprime a p25519"
  by (simp add: of_int_fp_eq_0 prime_coprime [OF prime_p])

lemma of_int_Rep_fp [simp]: "of_int (Rep_fp a) = a"
  using Rep_fp [of a] by (simp add: Rep_fp_inject [symmetric] Rep_fp_of_int)

text \<open>Fermat's theorem in the field.\<close>

lemma fp_inverse: "inverse (of_int a :: fp) = of_int (a ^ nat (p25519 - 2))"
  by (simp add: Rep_fp_inject [symmetric] Rep_fp_of_int inverse_fp.rep_eq power_mod del: of_int_power)

lemma fp_fermat:
  assumes "a \<noteq> (0 :: fp)"
  shows "a ^ nat (p25519 - 1) = 1"
proof -
  have "\<not> p25519 dvd Rep_fp a"
    using assms of_int_fp_eq_0 [of "Rep_fp a"] by simp
  then have "(of_int (Rep_fp a ^ nat (p25519 - 1)) :: fp) = of_int 1"
    unfolding of_int_fp_eq by (rule prime_fermat [OF prime_p])
  then show ?thesis
    by (simp only: of_int_power of_int_Rep_fp of_int_1)
qed

end
