(* ===== verification/Edwards.thy ===== *)
theory Edwards
  imports Main
begin

text \<open>
  The twisted Edwards curve \<open>y\<^sup>2 - x\<^sup>2 = 1 + d x\<^sup>2 y\<^sup>2\<close> over a field in which \<open>-1\<close> is a square and \<open>d\<close> is not:
  the addition law has no exceptional points, and makes the points of the curve a commutative group.  The
  locale \<open>edwards\<close> states what the law needs of the field; it is interpreted on the field of integers
  modulo \<open>2 ^ 255 - 19\<close> in the theory of the curve.
\<close>

locale edwards =
  fixes d i :: "'a :: field"
  assumes i_sq: "i * i = - 1"
    and d_nonsquare: "s * s \<noteq> d"
    and two_nonzero: "(2 :: 'a) \<noteq> 0"
begin

definition curve :: "'a \<times> 'a \<Rightarrow> bool" where
  "curve p \<longleftrightarrow> (case p of (x, y) \<Rightarrow> y * y - x * x = 1 + d * x * x * y * y)"

definition den :: "'a \<times> 'a \<Rightarrow> 'a \<times> 'a \<Rightarrow> 'a" where
  "den p q = d * fst p * fst q * snd p * snd q"

definition add :: "'a \<times> 'a \<Rightarrow> 'a \<times> 'a \<Rightarrow> 'a \<times> 'a" where
  "add p q = ((fst p * snd q + fst q * snd p) / (1 + den p q), (snd p * snd q + fst p * fst q) / (1 - den p q))"

definition neg :: "'a \<times> 'a \<Rightarrow> 'a \<times> 'a" where
  "neg p = (- fst p, snd p)"

lemma curveD: "curve p \<Longrightarrow> snd p * snd p - fst p * fst p = 1 + d * fst p * fst p * snd p * snd p"
  by (simp add: curve_def split_beta)

text \<open>If a denominator vanished, \<open>d\<close> would be a square.\<close>

lemma square_quotient:
  assumes "a * a = d * (b * b) * (c * c)" "b \<noteq> 0" "c \<noteq> 0"
  shows False
proof -
  have "(a / (b * c)) * (a / (b * c)) = d"
    using assms by (simp add: field_simps)
  then show False
    using d_nonsquare by blast
qed

lemma den_sq_ne_1:
  assumes p: "curve p" and q: "curve q"
  shows "den p q * den p q \<noteq> 1"
proof
  let ?e = "den p q" and ?b = "fst p * snd p"
  assume e: "?e * ?e = 1"
  then have b: "?b \<noteq> 0"
    by (auto simp: den_def)
  note eqs = curveD [OF p] curveD [OF q] e den_def [of p q] i_sq
  have "(i * fst p + ?e * snd p) * (i * fst p + ?e * snd p) = d * (?b * ?b) * ((i * fst q + snd q) * (i * fst q + snd q))"
    using eqs by algebra
  then have 1: "i * fst q + snd q = 0"
    using square_quotient b by blast
  have "(i * fst p - ?e * snd p) * (i * fst p - ?e * snd p) = d * (?b * ?b) * ((i * fst q - snd q) * (i * fst q - snd q))"
    using eqs by algebra
  then have 2: "i * fst q - snd q = 0"
    using square_quotient b by blast
  have "2 * snd q = 0"
    using 1 2 by algebra
  then have "snd q = 0"
    using two_nonzero by simp
  then show False
    using e by (simp add: den_def)
qed

lemma den_nonzero:
  assumes "curve p" "curve q"
  shows "1 + den p q \<noteq> 0" "1 - den p q \<noteq> 0"
proof -
  have "(1 + den p q) * (1 - den p q) \<noteq> 0"
    using den_sq_ne_1 [OF assms] by (simp add: algebra_simps)
  then show "1 + den p q \<noteq> 0" "1 - den p q \<noteq> 0"
    by auto
qed

text \<open>The sum, with its denominators multiplied out.\<close>

lemma add_coords:
  assumes "curve p" "curve q"
  shows "fst (add p q) * (1 + den p q) = fst p * snd q + fst q * snd p"
    and "snd (add p q) * (1 - den p q) = snd p * snd q + fst p * fst q"
  using den_nonzero [OF assms] by (simp_all add: add_def)

lemma add_unique:
  assumes "curve p" "curve q" "x * (1 + den p q) = fst p * snd q + fst q * snd p"
    "y * (1 - den p q) = snd p * snd q + fst p * fst q"
  shows "add p q = (x, y)"
  using den_nonzero [OF assms(1,2)] assms(3,4) by (simp add: add_def divide_eq_eq mult.commute)

lemma closed_ring:
  fixes x1 y1 x2 y2 e :: 'a
  assumes "y1 * y1 - x1 * x1 = 1 + d * x1 * x1 * y1 * y1" "y2 * y2 - x2 * x2 = 1 + d * x2 * x2 * y2 * y2"
    "e = d * x1 * x2 * y1 * y2" "x * (1 + e) = x1 * y2 + x2 * y1" "y * (1 - e) = y1 * y2 + x1 * x2"
  shows "(y * y - x * x) * ((1 + e) * (1 + e) * ((1 - e) * (1 - e)))
    = (1 + d * x * x * y * y) * ((1 + e) * (1 + e) * ((1 - e) * (1 - e)))"
proof -
  let ?X = "x1 * y2 + x2 * y1" and ?Y = "y1 * y2 + x1 * x2"
  have "?Y * ?Y * ((1 + e) * (1 + e)) - ?X * ?X * ((1 - e) * (1 - e))
      = (1 - e * e) * (1 - e * e) + d * ?X * ?X * ?Y * ?Y"
    using assms(1-3) by algebra
  then show ?thesis
    unfolding assms(4,5) [symmetric] by algebra
qed

lemma curve_add:
  assumes "curve p" "curve q"
  shows "curve (add p q)"
  using closed_ring [OF curveD [OF assms(1)] curveD [OF assms(2)] den_def add_coords [OF assms]] den_nonzero [OF assms]
  by (simp add: curve_def split_beta)

lemma add_comm: "add p q = add q p"
  by (simp add: add_def den_def ac_simps)

lemma curve_0: "curve (0, 1)"
  by (simp add: curve_def)

lemma add_0: "add (0, 1) p = p"
  by (simp add: add_def den_def)

lemma curve_neg: "curve p \<Longrightarrow> curve (neg p)"
  by (simp add: curve_def neg_def split_beta)

lemma add_neg:
  assumes "curve p"
  shows "add (neg p) p = (0, 1)"
proof (rule add_unique [OF curve_neg [OF assms] assms])
  show "0 * (1 + den (neg p) p) = fst (neg p) * snd p + fst p * snd (neg p)"
    by (simp add: neg_def)
  show "1 * (1 - den (neg p) p) = snd (neg p) * snd p + fst (neg p) * fst p"
    using curveD [OF assms] by (simp add: neg_def den_def ac_simps)
qed

text \<open>
  Associativity.  Both sums are fractions in the coordinates of the three points; the identities between
  their numerators and denominators follow from the three equations of the curve.
\<close>

lemma assoc_ring_x:
  fixes x1 y1 x2 y2 x3 y3 :: 'a
  assumes "y1 * y1 - x1 * x1 = 1 + d * x1 * x1 * y1 * y1" "y2 * y2 - x2 * x2 = 1 + d * x2 * x2 * y2 * y2"
    "y3 * y3 - x3 * x3 = 1 + d * x3 * x3 * y3 * y3" "e = d * x1 * x2 * y1 * y2" "f = d * x2 * x3 * y2 * y3"
  shows "((x1 * y2 + x2 * y1) * (1 - e) * y3 + x3 * (y1 * y2 + x1 * x2) * (1 + e))
      * ((1 - f * f) + d * (x2 * y3 + x3 * y2) * (y2 * y3 + x2 * x3) * x1 * y1)
    = ((x2 * y3 + x3 * y2) * (1 - f) * y1 + x1 * (y2 * y3 + x2 * x3) * (1 + f))
      * ((1 - e * e) + d * (x1 * y2 + x2 * y1) * (y1 * y2 + x1 * x2) * x3 * y3)"
  using assms by algebra

lemma assoc_ring_y:
  fixes x1 y1 x2 y2 x3 y3 :: 'a
  assumes "y1 * y1 - x1 * x1 = 1 + d * x1 * x1 * y1 * y1" "y2 * y2 - x2 * x2 = 1 + d * x2 * x2 * y2 * y2"
    "y3 * y3 - x3 * x3 = 1 + d * x3 * x3 * y3 * y3" "e = d * x1 * x2 * y1 * y2" "f = d * x2 * x3 * y2 * y3"
  shows "((y1 * y2 + x1 * x2) * (1 + e) * y3 + (x1 * y2 + x2 * y1) * (1 - e) * x3)
      * ((1 - f * f) - d * (x2 * y3 + x3 * y2) * (y2 * y3 + x2 * x3) * x1 * y1)
    = ((y2 * y3 + x2 * x3) * (1 + f) * y1 + (x2 * y3 + x3 * y2) * (1 - f) * x1)
      * ((1 - e * e) - d * (x1 * y2 + x2 * y1) * (y1 * y2 + x1 * x2) * x3 * y3)"
  using assms by algebra

text \<open>A sum of a sum and a third point, as one fraction.\<close>

lemma add_add_coords:
  assumes p: "curve p" and q: "curve q" and r: "curve r"
  defines "X \<equiv> fst p * snd q + fst q * snd p" and "Y \<equiv> snd p * snd q + fst p * fst q" and "e \<equiv> den p q"
    and "s \<equiv> add (add p q) r"
  shows "fst s * ((1 - e * e) + d * X * Y * fst r * snd r) = X * (1 - e) * snd r + fst r * Y * (1 + e)"
    and "snd s * ((1 - e * e) - d * X * Y * fst r * snd r) = Y * (1 + e) * snd r + X * (1 - e) * fst r"
    and "(1 - e * e) + d * X * Y * fst r * snd r \<noteq> 0" and "(1 - e * e) - d * X * Y * fst r * snd r \<noteq> 0"
proof -
  let ?x = "fst (add p q)" and ?y = "snd (add p q)"
  have X: "X = ?x * (1 + e)" and Y: "Y = ?y * (1 - e)"
    using add_coords [OF p q] by (simp_all add: X_def Y_def e_def)
  note e = den_nonzero [OF p q, folded e_def] and pq = curve_add [OF p q]
  note s = add_coords [OF pq r, folded s_def] and sd = den_nonzero [OF pq r]
  have D: "(1 - e * e) + d * X * Y * fst r * snd r = (1 + e) * (1 - e) * (1 + den (add p q) r)"
      "(1 - e * e) - d * X * Y * fst r * snd r = (1 + e) * (1 - e) * (1 - den (add p q) r)"
    by (simp_all add: X Y den_def algebra_simps)
  show "(1 - e * e) + d * X * Y * fst r * snd r \<noteq> 0" "(1 - e * e) - d * X * Y * fst r * snd r \<noteq> 0"
    unfolding D using e sd by simp_all
  show "fst s * ((1 - e * e) + d * X * Y * fst r * snd r) = X * (1 - e) * snd r + fst r * Y * (1 + e)"
    "snd s * ((1 - e * e) - d * X * Y * fst r * snd r) = Y * (1 + e) * snd r + X * (1 - e) * fst r"
    unfolding D unfolding X Y using s by algebra+
qed

lemma cross_cancel: "s * m = n \<Longrightarrow> t * m' = n' \<Longrightarrow> n * m' = n' * m \<Longrightarrow> m \<noteq> 0 \<Longrightarrow> m' \<noteq> 0 \<Longrightarrow> s = (t :: 'a)"
  by auto

lemma add_assoc:
  assumes p: "curve p" and q: "curve q" and r: "curve r"
  shows "add (add p q) r = add p (add q r)"
proof -
  note l = add_add_coords [OF p q r] and m = add_add_coords [OF q r p]
  note c = curveD [OF p] curveD [OF q] curveD [OF r] den_def [of p q] den_def [of q r]
  have "fst (add (add p q) r) = fst (add (add q r) p)"
    by (rule cross_cancel [OF l(1) m(1) assoc_ring_x [OF c] l(3) m(3)])
  moreover have "snd (add (add p q) r) = snd (add (add q r) p)"
    by (rule cross_cancel [OF l(2) m(2) assoc_ring_y [OF c] l(4) m(4)])
  ultimately show ?thesis
    by (simp add: add_comm [of p] prod_eq_iff)
qed

end

end
