(* ===== verification/EdCurve.thy ===== *)
theory EdCurve
  imports PrimeField Edwards IntAction Group
begin

text \<open>
  The curve of the program, \<open>y\<^sup>2 - x\<^sup>2 = 1 + d x\<^sup>2 y\<^sup>2\<close> over the integers modulo \<open>2 ^ 255 - 19\<close> with
  \<open>d = -121665/121666\<close>.  Its points form a commutative group, the type \<open>ed_point\<close>; the predicates
  \<open>on_curve\<close> and \<open>ed_add\<close> on integer coordinates are membership and addition in it.
\<close>

section \<open>Squares in the field\<close>

abbreviation fp_i :: fp where "fp_i \<equiv> of_int sqrtm1"

abbreviation fp_d :: fp where "fp_d \<equiv> of_int ed_d"

lemma fp_i_sq: "fp_i * fp_i = - 1"
proof -
  have "(of_int (sqrtm1 ^ 2) :: fp) = of_int (- 1)"
    unfolding of_int_fp_eq by (rule sqrtm1_sq)
  then show ?thesis
    by (simp add: power2_eq_square)
qed

lemma fp_numeral_nonzero: "(2 :: fp) \<noteq> 0" "(121665 * 121666 :: fp) \<noteq> 0"
proof -
  have "\<not> p25519 dvd 2" "\<not> p25519 dvd 121665 * 121666"
    by (simp_all add: p25519_def)
  then show "(2 :: fp) \<noteq> 0" "(121665 * 121666 :: fp) \<noteq> 0"
    using of_int_fp_eq_0 [of 2] of_int_fp_eq_0 [of "121665 * 121666"] by simp_all
qed

text \<open>\<open>p25519\<close> is 5 modulo 8: a fourth power of \<open>u\<close> that is \<open>-1\<close> contradicts Fermat's theorem.\<close>

lemma fp_no_eighth_root: "u * u \<noteq> (fp_i :: fp)"
proof
  assume u: "u * u = fp_i"
  then have 0: "u \<noteq> 0"
    using fp_i_sq by auto
  have 4: "u ^ 4 = - 1"
    using u fp_i_sq by (simp add: power4_eq_xxxx mult.assoc)
  have "nat (p25519 - 1) = 4 * (2 * nat (2 ^ 252 - 3) + 1)"
    by (simp add: p25519_def)
  then have "u ^ nat (p25519 - 1) = (u ^ 4) * ((u ^ 4) ^ 2) ^ nat (2 ^ 252 - 3)"
    by (simp only: power_mult power_add power_one_right mult.commute)
  then have "(- 1 :: fp) = 1"
    using fp_fermat [OF 0] 4 by simp
  then show False
    using fp_numeral_nonzero(1) by (simp add: eq_neg_iff_add_eq_0 eq_commute)
qed

lemma fp_two_nonsquare: "t * t \<noteq> (2 :: fp)"
proof
  assume t: "t * t = 2"
  then have "t \<noteq> 0"
    using fp_numeral_nonzero by auto
  have "(1 + fp_i) * (1 + fp_i) = t * t * fp_i"
    using fp_i_sq t by (simp add: algebra_simps)
  then have "((1 + fp_i) / t) * ((1 + fp_i) / t) = fp_i"
    using \<open>t \<noteq> 0\<close> by (simp add: field_simps)
  then show False
    using fp_no_eighth_root by blast
qed

lemma ed_d_square_class:
  "eqm p25519 (2 * (8770359039303344359548208979710324901663570887331859741081992614103461443253
    * 8770359039303344359548208979710324901663570887331859741081992614103461443253)) (121665 * 121666)"
  by code_simp

lemma fp_d_nonsquare: "s * s \<noteq> fp_d"
proof
  assume s: "s * s = fp_d"
  define w :: fp where "w = of_int 8770359039303344359548208979710324901663570887331859741081992614103461443253"
  have d: "fp_d * 121666 = - 121665"
    using ed_d_value unfolding of_int_fp_eq [symmetric] by simp
  have w2: "2 * (w * w) = 121665 * 121666"
    using ed_d_square_class unfolding of_int_fp_eq [symmetric] of_int_mult w_def by simp
  then have w: "2 * (w * w) = (fp_i * s * 121666) * (fp_i * s * 121666)"
    using d s fp_i_sq by algebra
  have "w \<noteq> 0"
    using w2 fp_numeral_nonzero(2) by auto
  then have "((fp_i * s * 121666) / w) * ((fp_i * s * 121666) / w) = 2"
    using w by (simp add: field_simps)
  then show False
    using fp_two_nonsquare by blast
qed

section \<open>The group of points\<close>

interpretation edw: edwards fp_d fp_i
  using fp_i_sq fp_d_nonsquare fp_numeral_nonzero(1) by unfold_locales

typedef ed_point = "{p. edw.curve p}"
  using edw.curve_0 by blast

setup_lifting type_definition_ed_point

instantiation ed_point :: ab_group_add
begin

lift_definition zero_ed_point :: ed_point is "(0, 1)"
  by (rule edw.curve_0)

lift_definition plus_ed_point :: "ed_point \<Rightarrow> ed_point \<Rightarrow> ed_point" is edw.add
  by (rule edw.curve_add)

lift_definition uminus_ed_point :: "ed_point \<Rightarrow> ed_point" is edw.neg
  by (rule edw.curve_neg)

definition minus_ed_point :: "ed_point \<Rightarrow> ed_point \<Rightarrow> ed_point" where
  "minus_ed_point a b = a + - b"

instance
proof
  fix a b c :: ed_point
  show "a + b + c = a + (b + c)"
    by transfer (rule edw.add_assoc)
  show "a + b = b + a"
    by transfer (rule edw.add_comm)
  show "0 + a = a"
    by transfer (rule edw.add_0)
  show "- a + a = 0"
    by transfer (rule edw.add_neg)
  show "a - b = a + - b"
    by (rule minus_ed_point_def)
qed

end

section \<open>Integer coordinates\<close>

text \<open>\<open>coords g x y\<close>: the integers \<open>x\<close> and \<open>y\<close> are coordinates of the point \<open>g\<close>.\<close>

definition coords :: "ed_point \<Rightarrow> int \<Rightarrow> int \<Rightarrow> bool" where
  "coords g x y \<longleftrightarrow> Rep_ed_point g = (of_int x, of_int y)"

lemma on_curve_fp: "on_curve x y \<longleftrightarrow> edw.curve (of_int x, of_int y)"
  unfolding on_curve_def of_int_fp_eq [symmetric] by (simp add: edw.curve_def power2_eq_square mult.assoc)

lemma coords_on_curve: "coords g x y \<Longrightarrow> on_curve x y"
  using Rep_ed_point [of g] by (simp add: coords_def on_curve_fp)

lemma on_curve_coords:
  assumes "on_curve x y"
  obtains g where "coords g x y"
  using assms Abs_ed_point_inverse [of "(of_int x, of_int y)"] unfolding on_curve_fp coords_def by blast

lemma coords_exist: "\<exists>x y. coords g x y"
  unfolding coords_def by (metis of_int_Rep_fp surj_pair)

lemma coords_unique: "coords g x y \<Longrightarrow> coords h x y \<Longrightarrow> g = h"
  by (simp add: coords_def Rep_ed_point_inject [symmetric])

lemma coords_eqm: "coords g x y \<Longrightarrow> coords g u v \<longleftrightarrow> eqm p25519 x u \<and> eqm p25519 y v"
  by (simp add: coords_def of_int_fp_eq)

lemma coords_0: "coords 0 0 1"
  by (simp add: coords_def zero_ed_point.rep_eq)

lemma coords_minus: "coords g x y \<Longrightarrow> coords (- g) (- x) y"
  by (simp add: coords_def uminus_ed_point.rep_eq edw.neg_def)

lemma coords_unit:
  assumes "coords g x1 y1" "coords h x2 y2"
  shows "coprime (1 + ed_d * x1 * x2 * y1 * y2) p25519" "coprime (1 - ed_d * x1 * x2 * y1 * y2) p25519"
proof -
  have "edw.curve (of_int x1, of_int y1)" "edw.curve (of_int x2, of_int y2)"
    using assms [THEN coords_on_curve] by (simp_all add: on_curve_fp)
  from edw.den_nonzero [OF this] show "coprime (1 + ed_d * x1 * x2 * y1 * y2) p25519"
      "coprime (1 - ed_d * x1 * x2 * y1 * y2) p25519"
    unfolding of_int_fp_unit [symmetric] by (simp_all add: edw.den_def)
qed

lemma coords_add:
  assumes "coords g x1 y1" "coords h x2 y2"
  shows "coords (g + h) x3 y3 \<longleftrightarrow> ed_add x1 y1 x2 y2 x3 y3"
proof -
  have c: "edw.curve (of_int x1, of_int y1)" "edw.curve (of_int x2, of_int y2)"
    using assms [THEN coords_on_curve] by (simp_all add: on_curve_fp)
  have "Rep_ed_point (g + h) = edw.add (of_int x1, of_int y1) (of_int x2, of_int y2)"
    using assms by (simp add: plus_ed_point.rep_eq coords_def)
  moreover have "edw.add (of_int x1, of_int y1) (of_int x2, of_int y2) = (of_int x3, of_int y3)
      \<longleftrightarrow> ed_add x1 y1 x2 y2 x3 y3"
    using edw.add_coords [OF c] edw.add_unique [OF c, of "of_int x3" "of_int y3"]
    unfolding ed_add_def of_int_fp_eq [symmetric] by (auto simp: edw.den_def)
  ultimately show ?thesis
    by (simp add: coords_def)
qed

end
