(* ===== verification/CurveMult.thy ===== *)
theory CurveMult
  imports MultLaws EdCurve
begin

text \<open>
  The points of the curve in the coordinates of the program.  \<open>pt3 g p\<close> says that the extended
  coordinates \<open>p\<close> represent the point \<open>g\<close>, with limbs in the range the next operation needs and a
  denominator that is not 0 in the field; \<open>pt2\<close>, \<open>pt1\<close>, \<open>ptc\<close>, \<open>ptm\<close> say the same for the other coordinate
  systems.  With these relations the point operations satisfy the laws of \<open>point_ops\<close> in the group of the curve.
\<close>

section \<open>Representations of a point\<close>

definition pt2 :: "ed_point \<Rightarrow> ge_p2 \<Rightarrow> bool" where
  "pt2 g p \<longleftrightarrow> (\<exists>x y z. coords g x y \<and> coprime z p25519 \<and> p2_rep p x y z)"

definition pt3 :: "ed_point \<Rightarrow> ge_p3 \<Rightarrow> bool" where
  "pt3 g p \<longleftrightarrow> (\<exists>x y z. coords g x y \<and> coprime z p25519 \<and> p3_rep p x y z)"

definition ptc :: "ed_point \<Rightarrow> ge_cached \<Rightarrow> bool" where
  "ptc g q \<longleftrightarrow> (\<exists>x y z. coords g x y \<and> coprime z p25519 \<and> cached_rep q x y z)"

definition ptm :: "ed_point \<Rightarrow> ge_precomp \<Rightarrow> bool" where
  "ptm g q \<longleftrightarrow> (\<exists>x y. coords g x y \<and> precomp_rep q x y)"

definition pt1 :: "ed_point \<Rightarrow> ge_p1p1 \<Rightarrow> bool" where
  "pt1 g r \<longleftrightarrow> (\<exists>x y k xn xd yn yd. coords g x y \<and> coprime (k * xd * (k * yd)) p25519
     \<and> p1p1_rep r k xn xd yn yd \<and> eqm p25519 (x * xd) xn \<and> eqm p25519 (y * yd) yn)"

lemmas pt_defs = pt2_def pt3_def ptc_def ptm_def

lemma coprime_2_p25519: "coprime 2 p25519"
proof -
  have "odd p25519" by code_simp
  then show ?thesis by simp
qed

lemma fe_rep_copied: "fe_rep k f x \<Longrightarrow> fe_rep k (fe_copy f) x"
  using fe_rep_copy [of k f x] by simp

lemma cached_neg_rep:
  assumes "cached_rep q x y z"
  shows "cached_rep (cached_neg q) (- x) y z"
proof -
  have "fe_rep 101 (fe_neg (T2d q)) (- (2 * ed_d * (x * y * z)))"
    using assms by (intro fe_rep_neg) (simp_all add: cached_rep_def)
  then show ?thesis
    using assms by (simp add: cached_rep_def cached_neg_def fe_rep_copied)
qed

lemma precomp_neg_rep:
  assumes "precomp_rep q x y"
  shows "precomp_rep (precomp_neg q) (- x) y"
proof -
  have "fe_rep 101 (fe_neg (xy2d q)) (- (2 * ed_d * (x * y)))"
    using assms by (intro fe_rep_neg) (simp_all add: precomp_rep_def)
  then show ?thesis
    using assms by (simp add: precomp_rep_def precomp_neg_def fe_rep_copied)
qed

lemma fe_rep_length: "fe_rep k f x \<Longrightarrow> length f = 10"
  by (simp add: fe_rep_def fe_bounded_def)

section \<open>The laws\<close>

lemma sum_pt1:
  assumes "coords g x1 y1" "coords h x2 y2" "ed_sum_rep r k x1 y1 x2 y2" "coprime k p25519"
  shows "pt1 (g + h) r"
proof -
  obtain x y where xy: "coords (g + h) x y"
    using coords_exist by blast
  then have "ed_add x1 y1 x2 y2 x y"
    using coords_add [OF assms(1,2)] by blast
  moreover have "coprime (k * (1 + ed_d * x1 * x2 * y1 * y2) * (k * (1 - ed_d * x1 * x2 * y1 * y2))) p25519"
    using assms(4) coords_unit [OF assms(1,2)] by simp
  ultimately show ?thesis
    using xy assms(3) unfolding pt1_def ed_sum_rep_def ed_add_def by blast
qed

lemma diff_pt1:
  assumes "coords g x1 y1" "coords h x2 y2" "ed_sum_rep r k x1 y1 (- x2) y2" "coprime k p25519"
  shows "pt1 (g - h) r"
  using sum_pt1 [OF assms(1) coords_minus [OF assms(2)] assms(3,4)] by simp

interpretation curve: point_ops pt2 pt3 pt1 ptc ptm
proof unfold_locales
  show "pt2 0 ge_p2_0" "pt3 0 ge_p3_0" "ptc 0 ge_cached_0" "ptm 0 ge_precomp_0"
    using ge_0_rep coords_0 coprime_1_left [of p25519] unfolding pt_defs by blast+
next
  fix g p assume "pt2 g p"
  then obtain x y z where p: "coords g x y" "coprime z p25519" "p2_rep p x y z"
    unfolding pt2_def by blast
  then show "pt1 (g + g) (ge_p2_dbl p)"
    using sum_pt1 [OF p(1,1) ge_p2_dbl_sum [OF p2_rep_wide [OF p(3)] coords_on_curve [OF p(1)]]] by simp
next
  fix g u h q assume "pt3 g u" "ptc h q"
  then obtain x y z x' y' w where u: "coords g x y" "coprime z p25519" "p3_rep u x y z"
      and q: "coords h x' y'" "coprime w p25519" "cached_rep q x' y' w"
    unfolding pt3_def ptc_def by blast
  then have k: "coprime (2 * z * w) p25519"
    using coprime_2_p25519 by simp
  show "pt1 (g + h) (ge_add u q)" "pt1 (g - h) (ge_sub u q)"
    using sum_pt1 [OF u(1) q(1) ge_add_sum [OF u(3) q(3)] k] diff_pt1 [OF u(1) q(1) ge_sub_sum [OF u(3) q(3)] k]
    by simp_all
next
  fix g u h t assume "pt3 g u" "ptm h t"
  then obtain x y z x' y' where u: "coords g x y" "coprime z p25519" "p3_rep u x y z"
      and t: "coords h x' y'" "precomp_rep t x' y'"
    unfolding pt3_def ptm_def by blast
  then have k: "coprime (2 * z) p25519"
    using coprime_2_p25519 by simp
  show "pt1 (g + h) (ge_madd u t)" "pt1 (g - h) (ge_msub u t)"
    using sum_pt1 [OF u(1) t(1) ge_madd_sum [OF u(3) t(2)] k] diff_pt1 [OF u(1) t(1) ge_msub_sum [OF u(3) t(2)] k]
    by simp_all
next
  fix g r assume "pt1 g r"
  then show "pt2 g (ge_p1p1_to_p2 r)" "pt3 g (ge_p1p1_to_p3 r)"
    unfolding pt1_def pt2_def pt3_def using ge_p1p1_to_p2_rep ge_p1p1_to_p3_rep by blast+
next
  fix g u assume "pt3 g u"
  then show "pt2 g (ge_p3_to_p2 u)" "ptc g (ge_p3_to_cached u)"
    unfolding pt_defs using p3_rep_p2 ge_p3_to_cached_rep by blast+
next
  fix g q assume "ptc g q"
  then show "ptc (- g) (cached_neg q)" "cached_wf q"
    unfolding ptc_def using cached_neg_rep coords_minus
    by (blast, auto simp: cached_wf_def cached_rep_def dest: fe_rep_length)
next
  fix g t assume "ptm g t"
  then show "ptm (- g) (precomp_neg t)" "precomp_wf t"
    unfolding ptm_def using precomp_neg_rep coords_minus
    by (blast, auto simp: precomp_wf_def precomp_rep_def dest: fe_rep_length)
qed

section \<open>Introduction and uniqueness\<close>

lemma pt3I: "on_curve x y \<Longrightarrow> coprime z p25519 \<Longrightarrow> p3_rep p x y z \<Longrightarrow> \<exists>g. coords g x y \<and> pt3 g p"
  unfolding pt3_def by (metis on_curve_coords)

lemma rep_cancel:
  assumes "fe_rep k f (x * z)" "fe_rep k f (u * w)" "eqm p25519 z w" "coprime z p25519"
  shows "eqm p25519 x u"
proof -
  have "eqm p25519 (x * z) (u * z)"
    using fe_rep_unique [OF assms(1,2)] eqm_mult [OF eqm_refl eqm_sym [OF assms(3)], of u] by (rule eqm_trans)
  then show ?thesis
    using assms(4) by (simp add: eqm_dvd left_diff_distrib [symmetric] coprime_commute coprime_dvd_mult_left_iff)
qed

lemma pt2_unique:
  assumes "pt2 g p" "pt2 h p"
  shows "g = h"
proof -
  obtain x y z x' y' z' where g: "coords g x y" "coprime z p25519" "p2_rep p x y z"
      and h: "coords h x' y'" "coprime z' p25519" "p2_rep p x' y' z'"
    using assms unfolding pt2_def by blast
  have "eqm p25519 z z'"
    using fe_rep_unique g(3) h(3) unfolding p2_rep_def by blast
  then have "eqm p25519 x x'" "eqm p25519 y y'"
    using rep_cancel g(2,3) h(3) unfolding p2_rep_def by blast+
  then have "coords g x' y'"
    using coords_eqm [OF g(1)] by blast
  then show ?thesis
    using coords_unique h(1) by blast
qed

end
