(* ===== verification/TableCert.thy ===== *)
theory TableCert
  imports HexArith CurveMult
begin

text \<open>
  Certificates for tables of points.  A table entry holds \<open>y + x\<close>, \<open>y - x\<close> and \<open>2dxy\<close> of a point; \<open>tab g a b c\<close>
  says that \<open>a\<close>, \<open>b\<close> and \<open>c\<close> are these three for the point \<open>g\<close>.  \<open>dbl_check\<close> and \<open>add_check\<close> are the computations that
  show one entry to be the double of another, or the sum of two; differences and quotients are part of the
  certificate, so that checking needs additions and multiplications only.
\<close>

section \<open>Residues of digit strings\<close>

definition hp :: "hx list" where
  "hp = hx_int 57896044618658097711785492504343953926634992332820282019728792003956564819949"

lemma hv_hp: "hv hp = p25519"
  by (simp add: hp_def hx_int_simps hv_hx_num p25519_def)

abbreviation hf :: "hx list \<Rightarrow> fp" where
  "hf xs \<equiv> of_int (hv xs)"

lemma of_int_p25519: "(of_int p25519 :: fp) = 0"
  by (simp add: of_int_fp_eq_0)

lemma hf_hadd: "hf (hadd 0 xs ys) = hf xs + hf ys"
  by (simp add: hv_hadd)

lemma hf_hmult: "hf (hmult xs ys) = hf xs * hf ys"
  by (simp add: hv_hmult)

text \<open>
  One step of the reduction modulo twice the modulus, which is \<open>2 ^ 256 - 38\<close>: the digits from the 64th on,
  times 38, are added to the lower ones.
\<close>

definition hmod :: "hx list \<Rightarrow> hx list" where
  "hmod z = hadd 0 (take 64 z) (hmult [X6, X2] (drop 64 z))"

lemma hmod_split: "hmod (
    x0 # x1 # x2 # x3 # x4 # x5 # x6 # x7 # x8 # x9 # x10 # x11 # x12 # x13 # x14 # x15 # x16 # x17 # x18 # x19 # x20 # x21 #
    x22 # x23 # x24 # x25 # x26 # x27 # x28 # x29 # x30 # x31 # x32 # x33 # x34 # x35 # x36 # x37 # x38 # x39 # x40 # x41 # x42 #
    x43 # x44 # x45 # x46 # x47 # x48 # x49 # x50 # x51 # x52 # x53 # x54 # x55 # x56 # x57 # x58 # x59 # x60 # x61 # x62 # x63
    # z) = hadd 0 [
    x0, x1, x2, x3, x4, x5, x6, x7, x8, x9, x10, x11, x12, x13, x14, x15, x16, x17, x18, x19, x20, x21, x22, x23, x24, x25, x26,
    x27, x28, x29, x30, x31, x32, x33, x34, x35, x36, x37, x38, x39, x40, x41, x42, x43, x44, x45, x46, x47, x48, x49, x50, x51,
    x52, x53, x54, x55, x56, x57, x58, x59, x60, x61, x62, x63] (hmult [X6, X2] z)"
  by (simp add: hmod_def)

lemma hv_take_drop: "hv z = hv (take n z) + 16 ^ n * hv (drop n z)"
proof (induction n arbitrary: z)
  case (Suc n)
  show ?case
  proof (cases z)
    case (Cons x xs)
    then show ?thesis
      using Suc.IH [of xs] by (simp add: algebra_simps)
  qed simp
qed simp

lemma hf_hmod: "hf (hmod z) = hf z"
proof -
  have "hv z = hv (hmod z) + p25519 * (2 * hv (drop 64 z))"
    using hv_take_drop [of z 64] by (simp add: hmod_def hv_hadd hv_hmult p25519_def)
  then have "hf z = of_int (hv (hmod z) + p25519 * (2 * hv (drop 64 z)))"
    by (rule arg_cong)
  then show ?thesis
    by (simp only: of_int_add of_int_mult of_int_p25519 mult_zero_left add_0_right)
qed

text \<open>\<open>r + b\<close> is \<open>a\<close> up to a multiple \<open>k\<close> of the modulus; \<open>121665 * m + 243332 * c\<close> is \<open>r\<close> up to multiples.\<close>

definition hsub_ok :: "hx list \<Rightarrow> hx list \<Rightarrow> hx list \<Rightarrow> hx list \<Rightarrow> bool" where
  "hsub_ok a b k r \<longleftrightarrow> heq (hadd 0 r b) (hadd 0 a (hmult k hp))"

definition hlin_ok :: "hx list \<Rightarrow> hx list \<Rightarrow> hx list \<Rightarrow> hx list \<Rightarrow> hx list \<Rightarrow> bool" where
  "hlin_ok m c r k l \<longleftrightarrow>
     heq (hadd 0 (hadd 0 (hmult [X1, X4, XB, XD, X1] m) (hmult [X4, X8, X6, XB, X3] c)) (hmult k hp))
       (hadd 0 r (hmult l hp))"

lemma hf_hp: "hf hp = 0"
  by (simp add: hv_hp of_int_p25519)

lemma hsub_ok_hf:
  assumes "hsub_ok a b k r"
  shows "hf r = hf a - hf b"
proof -
  have "hf (hadd 0 r b) = hf (hadd 0 a (hmult k hp))"
    using heq_hv assms unfolding hsub_ok_def by metis
  then show ?thesis
    unfolding hf_hadd hf_hmult hf_hp by (simp add: eq_diff_eq)
qed

lemma hlin_ok_hf: "hlin_ok m c r k l \<Longrightarrow> 121665 * hf m + 243332 * hf c = hf r"
proof -
  assume "hlin_ok m c r k l"
  then have "hf (hadd 0 (hadd 0 (hmult [X1, X4, XB, XD, X1] m) (hmult [X4, X8, X6, XB, X3] c)) (hmult k hp))
      = hf (hadd 0 r (hmult l hp))"
    unfolding hlin_ok_def using heq_hv by metis
  then show ?thesis
    unfolding hf_hadd hf_hmult hf_hp by simp
qed

section \<open>Identities\<close>

text \<open>With \<open>d k = - l\<close>; \<open>(X, Y)\<close> is the double of \<open>(x, y)\<close>, or the sum of \<open>(x1, y1)\<close> and \<open>(x2, y2)\<close>.\<close>

lemma product_ring:
  fixes d k l x y c :: "'a :: field"
  assumes "d * k = - l" "l * ((y + x - (y - x)) * (y + x + (y - x))) + 2 * k * c = 0"
  shows "2 * k * (c - 2 * d * x * y) = 0"
  using assms by algebra

lemma double_ring_x:
  fixes d k l x y X u :: "'a :: field"
  assumes "d * k = - l" "y * y - x * x = 1 + d * x * x * y * y" "X * (1 + d * x * x * y * y) = x * y + x * y"
    "l * (u * ((y + x) * (y - x))) + 2 * k * (2 * d * x * y) = 0"
  shows "l * ((1 + d * x * x * y * y) * (u - 2 * X)) = 0"
  using assms by algebra

lemma double_ring_y:
  fixes d k l x y Y v :: "'a :: field"
  assumes "d * k = - l" "y * y - x * x = 1 + d * x * x * y * y" "Y * (1 - d * x * x * y * y) = y * y + x * x"
    "l * ((y + x) * (y + x) + (y + x) * (y + x)) + 2 * k * (2 * d * x * y) = l * (v * (2 - (y + x) * (y - x)))"
  shows "l * ((1 - d * x * x * y * y) * (v - 2 * Y)) = 0"
  using assms by algebra

lemma add_ring_x:
  fixes d k l x1 y1 x2 y2 X u :: "'a :: field"
  assumes "d * k = - l" "y1 * y1 - x1 * x1 = 1 + d * x1 * x1 * y1 * y1" "y2 * y2 - x2 * x2 = 1 + d * x2 * x2 * y2 * y2"
    "X * (1 + d * x1 * x2 * y1 * y2) = x1 * y2 + x2 * y1"
    "l * (u * ((y1 + x1) * (y2 - x2) + (y1 - x1) * (y2 + x2))) + 2 * k * (2 * d * x1 * y1 + 2 * d * x2 * y2) = 0"
  shows "l * (((y1 + x1) * (y2 - x2) + (y1 - x1) * (y2 + x2)) * ((1 + d * x1 * x2 * y1 * y2) * (u - 2 * X))) = 0"
  using assms by algebra

lemma add_ring_y:
  fixes d k l x1 y1 x2 y2 Y v :: "'a :: field"
  assumes "d * k = - l" "y1 * y1 - x1 * x1 = 1 + d * x1 * x1 * y1 * y1" "y2 * y2 - x2 * x2 = 1 + d * x2 * x2 * y2 * y2"
    "Y * (1 - d * x1 * x2 * y1 * y2) = y1 * y2 + x1 * x2"
    "l * (v * ((y1 + x1) * (y2 - x2) - (y1 - x1) * (y2 + x2))) + 2 * k * (2 * d * x1 * y1) = 2 * k * (2 * d * x2 * y2)"
  shows "l * (((y1 + x1) * (y2 - x2) - (y1 - x1) * (y2 + x2)) * ((1 - d * x1 * x2 * y1 * y2) * (v - 2 * Y))) = 0"
  using assms by algebra

section \<open>Entries\<close>

definition tab :: "ed_point \<Rightarrow> hx list \<Rightarrow> hx list \<Rightarrow> hx list \<Rightarrow> bool" where
  "tab g a b c \<longleftrightarrow> (case Rep_ed_point g of (x, y) \<Rightarrow> hf a = y + x \<and> hf b = y - x \<and> hf c = 2 * fp_d * x * y)"

text \<open>The differences and sums of an entry are twice its coordinates.\<close>

lemma tabI:
  assumes g: "Rep_ed_point g = (x, y)" and "hf a - hf b = 2 * x" "hf a + hf b = 2 * y" "121665 * ((hf a - hf b) * (hf a + hf b)) + 243332 * hf c = 0"
  shows "tab g a b c"
proof -
  have d: "fp_d * 121666 = - 121665"
    using ed_d_value unfolding of_int_fp_eq [symmetric] by simp
  have "2 * hf a = 2 * (y + x)" "2 * hf b = 2 * (y - x)"
    using assms(2,3) by algebra+
  then have ab: "hf a = y + x" "hf b = y - x"
    using fp_numeral_nonzero(1) by (simp_all only: mult_cancel_left) auto
  have "(2 * 121666) * (hf c - 2 * fp_d * x * y) = 0"
    using product_ring [OF d, of y x "hf c"] assms(4) unfolding ab by simp
  moreover have "(2 * 121666 :: fp) \<noteq> 0"
    using fp_numeral_nonzero by (metis mult_eq_0_iff)
  ultimately have "hf c = 2 * fp_d * x * y"
    by (simp only: mult_eq_0_iff right_minus_eq simp_thms)
  then show ?thesis
    using ab g by (simp add: tab_def)
qed

lemma fp_121665: "(121665 :: fp) \<noteq> 0"
  using fp_numeral_nonzero(2) by (metis mult_eq_0_iff)

lemma fp_243332: "(243332 :: fp) \<noteq> 0"
proof -
  have "(243332 :: fp) = 2 * 121666"
    by simp
  then show ?thesis
    using fp_numeral_nonzero by (metis mult_eq_0_iff)
qed

section \<open>Doubling\<close>

definition dbl_step where
  "dbl_step c c' x e s q y i j k l v \<longleftrightarrow>
     hlin_ok (hmod (hmult x s)) c [] [] i \<and> hsub_ok [X2] s v e
     \<and> hlin_ok (hadd 0 q q) c (hmult [X1, X4, XB, XD, X1] (hmod (hmult y e))) j k
     \<and> hlin_ok (hmod (hmult x y)) c' [] [] l"

definition dbl_check where
  "dbl_check a b c a' b' c' x e i j k l v u \<longleftrightarrow> hsub_ok a' b' u x
     \<and> dbl_step c c' x e (hmod (hmult a b)) (hmod (hmult a a)) (hadd 0 a' b') i j k l v"

lemma dbl_check_tab:
  assumes t: "tab g a b c" and check: "dbl_check a b c a' b' c' x e i j k l v u"
  shows "tab (g + g) a' b' c'"
proof -
  obtain gx gy where g: "Rep_ed_point g = (gx, gy)"
    by (metis surj_pair)
  have cv: "edw.curve (gx, gy)"
    using Rep_ed_point [of g] g by simp
  obtain X Y where XY: "Rep_ed_point (g + g) = (X, Y)"
    by (metis surj_pair)
  have add: "edw.add (gx, gy) (gx, gy) = (X, Y)"
    using XY g by (simp add: plus_ed_point.rep_eq)
  note co = edw.add_coords [OF cv cv, unfolded add edw.den_def fst_conv snd_conv]
    and nz = edw.den_nonzero [OF cv cv, unfolded edw.den_def fst_conv snd_conv]
    and cvD = edw.curveD [OF cv, unfolded fst_conv snd_conv]
  have T: "hf a = gy + gx" "hf b = gy - gx" "hf c = 2 * fp_d * gx * gy"
    using t g by (simp_all add: tab_def)
  have d: "fp_d * 121666 = - 121665"
    using ed_d_value unfolding of_int_fp_eq [symmetric] by simp
  note defs = check [unfolded dbl_check_def dbl_step_def]
  have X': "hf x = hf a' - hf b'" and E: "hf e = hf [X2] - hf a * hf b"
    using defs by (auto dest!: hsub_ok_hf simp: hf_hmod hf_hmult simp del: of_int_mult)
  have L: "121665 * (hf x * (hf a * hf b)) + 243332 * hf c = 0" "121665 * (hf x * (hf a' + hf b')) + 243332 * hf c' = 0"
      "121665 * (hf a * hf a + hf a * hf a) + 243332 * hf c = 121665 * ((hf a' + hf b') * hf e)"
    using defs by (auto dest!: hlin_ok_hf simp: hf_hadd hf_hmult hf_hmod simp del: of_int_add of_int_mult)
  have E2: "hf e = 2 - hf a * hf b"
    using E by simp
  have "121665 * ((1 + fp_d * gx * gx * gy * gy) * (hf a' - hf b' - 2 * X)) = 0"
    using double_ring_x [OF d cvD co(1)] L(1) unfolding X' T by simp
  then have "hf a' - hf b' = 2 * X"
    using fp_121665 nz(1) by simp
  moreover have "121665 * ((1 - fp_d * gx * gx * gy * gy) * (hf a' + hf b' - 2 * Y)) = 0"
    using double_ring_y [OF d cvD co(2)] L(3) unfolding E2 T by simp
  then have "hf a' + hf b' = 2 * Y"
    using fp_121665 nz(2) by simp
  moreover have "121665 * ((hf a' - hf b') * (hf a' + hf b')) + 243332 * hf c' = 0"
    using L(2) unfolding X' .
  ultimately show ?thesis
    by (rule tabI [OF XY])
qed

section \<open>Addition\<close>

definition add_step where
  "add_step c1 c2 c x e s t y i j k l v \<longleftrightarrow>
     hlin_ok (hmod (hmult x (hadd 0 s t))) (hadd 0 c1 c2) [] [] i \<and> hsub_ok s t v e
     \<and> hlin_ok (hmod (hmult y e)) c1 (hmult [X4, X8, X6, XB, X3] c2) j k
     \<and> hlin_ok (hmod (hmult x y)) c [] [] l"

definition add_check where
  "add_check a1 b1 c1 a2 b2 c2 a b c x e i j k l v u \<longleftrightarrow> hsub_ok a b u x
     \<and> add_step c1 c2 c x e (hmod (hmult a1 b2)) (hmod (hmult b1 a2)) (hadd 0 a b) i j k l v"

lemma add_check_tab:
  assumes t1: "tab g a1 b1 c1" and t2: "tab h a2 b2 c2"
    and check: "add_check a1 b1 c1 a2 b2 c2 a b c x e i j k l v u" and ne: "hf c1 + hf c2 \<noteq> 0" "hf c1 \<noteq> hf c2"
  shows "tab (g + h) a b c"
proof -
  obtain x1 y1 x2 y2 X Y where g: "Rep_ed_point g = (x1, y1)" and h: "Rep_ed_point h = (x2, y2)"
      and XY: "Rep_ed_point (g + h) = (X, Y)"
    by (metis surj_pair)
  have c1: "edw.curve (x1, y1)" and c2: "edw.curve (x2, y2)"
    using Rep_ed_point [of g] Rep_ed_point [of h] g h by simp_all
  have add: "edw.add (x1, y1) (x2, y2) = (X, Y)"
    using XY g h by (simp add: plus_ed_point.rep_eq)
  note co = edw.add_coords [OF c1 c2, unfolded add edw.den_def fst_conv snd_conv]
    and nz = edw.den_nonzero [OF c1 c2, unfolded edw.den_def fst_conv snd_conv]
    and cv = edw.curveD [OF c1, unfolded fst_conv snd_conv] edw.curveD [OF c2, unfolded fst_conv snd_conv]
  have T: "hf a1 = y1 + x1" "hf b1 = y1 - x1" "hf c1 = 2 * fp_d * x1 * y1"
      "hf a2 = y2 + x2" "hf b2 = y2 - x2" "hf c2 = 2 * fp_d * x2 * y2"
    using t1 t2 g h by (simp_all add: tab_def)
  have d: "fp_d * 121666 = - 121665"
    using ed_d_value unfolding of_int_fp_eq [symmetric] by simp
  note defs = check [unfolded add_check_def add_step_def]
  have X': "hf x = hf a - hf b" and E: "hf e = hf a1 * hf b2 - hf b1 * hf a2"
    using defs by (auto dest!: hsub_ok_hf simp: hf_hmod hf_hmult simp del: of_int_mult)
  have L: "121665 * (hf x * (hf a1 * hf b2 + hf b1 * hf a2)) + 243332 * (hf c1 + hf c2) = 0"
      "121665 * (hf x * (hf a + hf b)) + 243332 * hf c = 0"
      "121665 * ((hf a + hf b) * hf e) + 243332 * hf c1 = 243332 * hf c2"
    using defs by (auto dest!: hlin_ok_hf simp: hf_hadd hf_hmult hf_hmod simp del: of_int_add of_int_mult)
  have Z: "243332 * (hf c1 + hf c2) \<noteq> 0" "243332 * hf c1 \<noteq> 243332 * hf c2"
    using fp_243332 ne by (simp_all only: mult_eq_0_iff mult_cancel_left de_Morgan_disj) auto
  have nz1: "hf a1 * hf b2 + hf b1 * hf a2 \<noteq> 0"
    using L(1) Z(1) by (metis add_0 mult_zero_right)
  have nz2: "hf a1 * hf b2 - hf b1 * hf a2 \<noteq> 0"
    using L(3) Z(2) unfolding E by (metis add_0 mult_zero_right)
  have "121665 * ((hf a1 * hf b2 + hf b1 * hf a2) * ((1 + fp_d * x1 * x2 * y1 * y2) * (hf a - hf b - 2 * X))) = 0"
    using add_ring_x [OF d cv co(1)] L(1) unfolding X' T by simp
  then have "hf a - hf b = 2 * X"
    using fp_121665 nz(1) nz1 by simp
  moreover have "121665 * ((hf a1 * hf b2 - hf b1 * hf a2) * ((1 - fp_d * x1 * x2 * y1 * y2) * (hf a + hf b - 2 * Y))) = 0"
    using add_ring_y [OF d cv co(2)] L(3) unfolding E T by simp
  then have "hf a + hf b = 2 * Y"
    using fp_121665 nz(2) nz2 by simp
  moreover have "121665 * ((hf a - hf b) * (hf a + hf b)) + 243332 * hf c = 0"
    using L(2) unfolding X' .
  ultimately show ?thesis
    by (rule tabI [OF XY])
qed

end
