(* ===== verification/BaseCert.thy ===== *)
theory BaseCert
  imports TableCert BaseTable
begin

text \<open>
  The base point, and the link between a certified entry and the limbs of the tables \<open>ge_base\<close> and \<open>ge_Bi\<close>.
\<close>

section \<open>The base point\<close>

lemmas hex_simps = dbl_check_def dbl_step_def add_check_def add_step_def hmod_split hsub_ok_def hlin_ok_def hp_def
  hx_literal

text \<open>Its ordinate is \<open>4/5\<close>.\<close>

definition base_x :: int where
  "base_x = 15112221349535400772501151409588531511454012693041857206046113283949847762202"

definition base_y :: int where
  "base_y = 46316835694926478169428394003475163141307993866256225615783033603165251855960"

lemma curve_ring:
  fixes d k l u v :: "'a :: field"
  assumes "d * k = - l" "k * v + l * (u * v) = k * (u + 1)"
  shows "k * (v - u - (1 + d * u * v)) = 0"
  using assms by algebra

text \<open>The squares and their product, each after one step of the reduction.\<close>

lemma base_products:
  "heq (hmod (hmult (hx_int base_x) (hx_int base_x)))
    (hx_int 84083640453803786942255083919428330328719544220452864738830527845996062841940)"
  "heq (hmod (hmult (hx_int base_y) (hx_int base_y)))
    (hx_int 731806003979838355076968625254907577632666303086848364729371930930010979324156)"
  "heq (hmod (hmult (hx_int 84083640453803786942255083919428330328719544220452864738830527845996062841940)
      (hx_int 731806003979838355076968625254907577632666303086848364729371930930010979324156)))
    (hx_int 20294270728573305383683251433227080424161973827855060427530037222404652541273012)"
  by (simp_all only: base_x_def base_y_def hex_simps)

lemma heq_hmod: "heq (hmod (hmult a b)) c \<Longrightarrow> hf c = hf a * hf b"
  using heq_hv hf_hmod hf_hmult by metis

lemma base_on_curve: "on_curve base_x base_y"
proof -
  define u v w :: fp
    where "u = of_int 84083640453803786942255083919428330328719544220452864738830527845996062841940"
      and "v = of_int 731806003979838355076968625254907577632666303086848364729371930930010979324156"
      and "w = of_int 20294270728573305383683251433227080424161973827855060427530037222404652541273012"
  have uvw: "u = of_int base_x * of_int base_x" "v = of_int base_y * of_int base_y" "w = u * v"
    using base_products [THEN heq_hmod]
    by (simp_all only: hx_int_simps hv_hx_num base_x_def base_y_def u_def v_def w_def)
  have "121666 * 731806003979838355076968625254907577632666303086848364729371930930010979324156 + 121665 * 20294270728573305383683251433227080424161973827855060427530037222404652541273012
    = 121666 * (84083640453803786942255083919428330328719544220452864738830527845996062841940 + 1) + 44008330 * (2 ^ 255 - 19 :: int)"
    by simp
  then have "(of_int (121666 * 731806003979838355076968625254907577632666303086848364729371930930010979324156 + 121665 * 20294270728573305383683251433227080424161973827855060427530037222404652541273012) :: fp)
    = of_int (121666 * (84083640453803786942255083919428330328719544220452864738830527845996062841940 + 1) + 44008330 * p25519)"
    unfolding p25519_def by (rule arg_cong)
  then have "121666 * v + 121665 * w = 121666 * (u + 1)"
    unfolding u_def v_def w_def of_int_add of_int_mult of_int_p25519
    by (simp only: of_int_numeral of_int_1 mult_zero_right add_0_right)
  moreover have d: "fp_d * 121666 = - 121665"
    using ed_d_value unfolding of_int_fp_eq [symmetric] by simp
  ultimately have "121666 * (v - u - (1 + fp_d * u * v)) = 0"
    using curve_ring [OF d] unfolding uvw(3) by blast
  moreover have "(121666 :: fp) \<noteq> 0"
    using fp_numeral_nonzero(2) by (metis mult_eq_0_iff)
  ultimately have "v - u = 1 + fp_d * u * v"
    by (simp only: mult_eq_0_iff right_minus_eq simp_thms)
  then show ?thesis
    unfolding on_curve_fp edw.curve_def uvw(1,2) by (simp add: mult.assoc)
qed

definition ed_base :: ed_point where
  "ed_base = Abs_ed_point (of_int base_x, of_int base_y)"

lemma Rep_ed_base: "Rep_ed_point ed_base = (of_int base_x, of_int base_y)"
  using base_on_curve unfolding on_curve_fp ed_base_def by (simp add: Abs_ed_point_inverse)

lemma coords_ed_base: "coords ed_base base_x base_y"
  by (simp add: coords_def Rep_ed_base)

section \<open>Multiples of the base point\<close>

definition tabn :: "int \<Rightarrow> int \<Rightarrow> int \<Rightarrow> int \<Rightarrow> bool" where
  "tabn n a b c \<longleftrightarrow> tab (imult n ed_base) (hx_int a) (hx_int b) (hx_int c)"

lemma tabn_dbl:
  assumes "tabn n a b c" "m = n + n"
    "dbl_check (hx_int a) (hx_int b) (hx_int c) (hx_int a') (hx_int b') (hx_int c') (hx_int x) (hx_int e)
       (hx_int i) (hx_int j) (hx_int k) (hx_int l) (hx_int v) (hx_int u)"
  shows "tabn m a' b' c'"
  using dbl_check_tab [OF assms(1) [unfolded tabn_def] assms(3)] unfolding assms(2) tabn_def imult_add by simp

text \<open>The sum of two different points that are not inverses.\<close>

definition distinct_ok :: "int \<Rightarrow> int \<Rightarrow> bool" where
  "distinct_ok c d \<longleftrightarrow> 0 < c \<and> c < 57896044618658097711785492504343953926634992332820282019728792003956564819949
     \<and> 0 < d \<and> d < 57896044618658097711785492504343953926634992332820282019728792003956564819949
     \<and> c \<noteq> d \<and> c + d \<noteq> 57896044618658097711785492504343953926634992332820282019728792003956564819949"

lemma distinct_ok_hf:
  assumes "distinct_ok c d"
  shows "hf (hx_int c) + hf (hx_int d) \<noteq> 0" "hf (hx_int c) \<noteq> hf (hx_int d)"
proof -
  have r: "0 < c" "c < p25519" "0 < d" "d < p25519" "c \<noteq> d" "c + d \<noteq> p25519"
    using assms by (simp_all add: distinct_ok_def p25519_def)
  then have "c mod p25519 \<noteq> d mod p25519"
    by (simp add: mod_pos_pos_trivial)
  then show "hf (hx_int c) \<noteq> hf (hx_int d)"
    using r by (simp add: hv_hx_int of_int_fp_eq eqm_def)
  have "(p25519 - d) mod p25519 = p25519 - d"
    using r by (intro mod_pos_pos_trivial) simp_all
  then have "c mod p25519 \<noteq> (p25519 - d) mod p25519"
    using r by (simp add: mod_pos_pos_trivial)
  then have "(of_int c :: fp) \<noteq> of_int (p25519 - d)"
    unfolding of_int_fp_eq eqm_def .
  then show "hf (hx_int c) + hf (hx_int d) \<noteq> 0"
    using r by (simp add: hv_hx_int of_int_p25519 eq_neg_iff_add_eq_0)
qed

lemma tabn_add:
  assumes "tabn n a1 b1 c1" "tabn k a2 b2 c2" "m = n + k" "distinct_ok c1 c2"
    "add_check (hx_int a1) (hx_int b1) (hx_int c1) (hx_int a2) (hx_int b2) (hx_int c2) (hx_int a) (hx_int b) (hx_int c)
       (hx_int x) (hx_int e) (hx_int i) (hx_int j) (hx_int q) (hx_int l) (hx_int v) (hx_int u)"
  shows "tabn m a b c"
  using add_check_tab [OF assms(1,2) [unfolded tabn_def] assms(5) distinct_ok_hf [OF assms(4)]]
  unfolding assms(3) tabn_def imult_add by simp

lemma tab_minus:
  assumes "tab g a b c" "hsub_ok [] c k d"
  shows "tab (- g) b a d"
proof -
  have "hf d = - hf c"
    using hsub_ok_hf [OF assms(2)] by simp
  then show ?thesis
    using assms(1) by (auto simp: tab_def uminus_ed_point.rep_eq edw.neg_def split: prod.splits)
qed

lemma tabn_minus:
  assumes "tabn n a b c" "hsub_ok [] (hx_int c) (hx_int k) (hx_int d)" "m = - n"
  shows "tabn m b a d"
  using tab_minus [OF assms(1) [unfolded tabn_def] assms(2)] assms(3) by (simp add: tabn_def imult_minus)

lemma tab_inverse:
  assumes "tab g a b c" "tab h b a d"
  shows "g + h = 0"
proof -
  obtain x y x' y' where r: "Rep_ed_point g = (x, y)" "Rep_ed_point h = (x', y')"
    by (metis surj_pair)
  then have eqs: "y + x = y' - x'" "y - x = y' + x'"
    using assms by (simp_all add: tab_def)
  have "2 * y = 2 * y'" "2 * x = 2 * (- x')"
    using eqs by algebra+
  then have "y = y'" "x = - x'"
    using fp_numeral_nonzero(1) by (simp_all only: mult_cancel_left) auto
  then have "g = - h"
    using r by (simp add: Rep_ed_point_inject [symmetric] uminus_ed_point.rep_eq edw.neg_def)
  then show ?thesis
    by simp
qed

section \<open>Limbs\<close>

definition fe_horner :: "fe \<Rightarrow> int" where
  "fe_horner f = (case f of [f0, f1, f2, f3, f4, f5, f6, f7, f8, f9] \<Rightarrow>
     sint f0 + 67108864 * (sint f1 + 33554432 * (sint f2 + 67108864 * (sint f3 + 33554432 * (sint f4
       + 67108864 * (sint f5 + 33554432 * (sint f6 + 67108864 * (sint f7 + 33554432 * (sint f8 + 67108864 * sint f9))))))))
   | _ \<Rightarrow> 0)"

definition limb_small :: "bool \<Rightarrow> i32 \<Rightarrow> bool" where
  "limb_small e w \<longleftrightarrow> - (if e then 33554432 else 16777216) \<le> sint w \<and> sint w \<le> (if e then 33554432 else 16777216)"

definition limbs_small :: "fe \<Rightarrow> bool" where
  "limbs_small f = (case f of [f0, f1, f2, f3, f4, f5, f6, f7, f8, f9] \<Rightarrow>
     limb_small True f0 \<and> limb_small False f1 \<and> limb_small True f2 \<and> limb_small False f3 \<and> limb_small True f4
     \<and> limb_small False f5 \<and> limb_small True f6 \<and> limb_small False f7 \<and> limb_small True f8 \<and> limb_small False f9
   | _ \<Rightarrow> False)"

definition residue_is :: "int \<Rightarrow> int \<Rightarrow> bool" where
  "residue_is h v \<longleftrightarrow> h = v \<or>
     h + 57896044618658097711785492504343953926634992332820282019728792003956564819949 = v"

lemma limbs_fe_rep:
  assumes "limbs_small f" "residue_is (fe_horner f) v"
  shows "fe_rep 101 f v"
proof -
  obtain f0 f1 f2 f3 f4 f5 f6 f7 f8 f9 where f: "f = [f0, f1, f2, f3, f4, f5, f6, f7, f8, f9]"
    using assms(1) by (auto simp: limbs_small_def split: list.splits)
  have u: "[0..<10] = [0, 1, 2, 3, 4, 5, 6, 7, 8, 9]"
    by code_simp
  have "list_all (\<lambda>i. \<bar>sint (f ! i)\<bar> \<le> (if even i then 33554432 else 16777216)) [0..<10]"
    using assms(1) unfolding u by (simp add: f limbs_small_def limb_small_def abs_le_iff minus_le_iff)
  moreover have "(\<Sum>i\<leftarrow>[0..<10]. sint (f ! i) * 2 ^ (fe_exps ! i)) = fe_horner f"
    unfolding u by (simp add: f fe_horner_def fe_exps_def)
  moreover have "eqm p25519 (fe_horner f) v"
    using assms(2) by (auto simp: residue_is_def eqm_def p25519_def)
  ultimately show ?thesis
    by (intro fe_rep_const) (simp_all add: f)
qed

lemma sint_lit: "numeral n < (2147483648 :: int) \<Longrightarrow> sint (numeral n :: i32) = numeral n"
    "numeral n < (2147483648 :: int) \<Longrightarrow> sint (- numeral n :: i32) = - numeral n"
    "sint (0 :: i32) = 0" "sint (1 :: i32) = 1" "sint (- 1 :: i32) = - 1"
proof -
  show "numeral n < (2147483648 :: int) \<Longrightarrow> sint (numeral n :: i32) = numeral n"
    by (rule sint_i32_eqI) (simp_all add: abs_less_iff)
  assume "numeral n < (2147483648 :: int)"
  then show "sint (- numeral n :: i32) = - numeral n"
    by (intro sint_i32_eqI) simp_all
qed (rule sint_i32_eqI; simp)+

lemmas limb_simps = limbs_small_def limb_small_def fe_horner_def residue_is_def sint_lit list.simps if_True if_False
  ge_precomp.simps arith_simps rel_simps simp_thms

definition multiple :: "int \<Rightarrow> ge_precomp \<Rightarrow> bool" where
  "multiple n q \<longleftrightarrow> ptm (imult n ed_base) q"

lemma tab_ptm:
  assumes "tabn n a b c" "0 \<le> a" "0 \<le> b" "0 \<le> c"
    "limbs_small (yplusx q)" "residue_is (fe_horner (yplusx q)) a"
    "limbs_small (yminusx q)" "residue_is (fe_horner (yminusx q)) b"
    "limbs_small (xy2d q)" "residue_is (fe_horner (xy2d q)) c"
  shows "multiple n q"
proof -
  obtain x y where xy: "coords (imult n ed_base) x y"
    using coords_exist by blast
  then have "eqm p25519 a (y + x)" "eqm p25519 b (y - x)" "eqm p25519 c (2 * ed_d * (x * y))"
    using assms(1) unfolding of_int_fp_eq [symmetric]
    by (simp_all add: tabn_def tab_def coords_def hv_hx_int assms(2-4) mult.assoc)
  then have "precomp_rep q x y"
    unfolding precomp_rep_def
    using limbs_fe_rep [OF assms(5,6)] limbs_fe_rep [OF assms(7,8)] limbs_fe_rep [OF assms(9,10)] fe_rep_cong by blast
  then show ?thesis
    using xy unfolding multiple_def ptm_def by blast
qed

lemma row8:
  assumes "multiple n1 q1" "multiple n2 q2" "multiple n3 q3" "multiple n4 q4"
    "multiple n5 q5" "multiple n6 q6" "multiple n7 q7" "multiple n8 q8"
  shows "list_all2 multiple [n1, n2, n3, n4, n5, n6, n7, n8] [q1, q2, q3, q4, q5, q6, q7, q8]"
  using assms by simp

text \<open>The entry of the base point itself.\<close>

lemma base_product:
  "hsub_ok (hx_int 3533012425803781230144052908719740726127014226477800802100354883158534798213)
    (hx_int 31204614345391077396927242593886631629853981173214368409736920319215404093758) (hx_int 1)
    (hx_int 30224442699070801545002302819177063022908025386083714412092226567899695524404)"
  "hlin_ok (hmod (hmult (hx_int 30224442699070801545002302819177063022908025386083714412092226567899695524404)
      (hadd 0 (hx_int 3533012425803781230144052908719740726127014226477800802100354883158534798213)
        (hx_int 31204614345391077396927242593886631629853981173214368409736920319215404093758))))
    (hx_int 50237614328228664512531835696112167678046477356841409204013502641986506238568) [] [] (hx_int 1091424)"
  by (simp_all only: hex_simps)

lemma base_0_1: "tabn 1
    3533012425803781230144052908719740726127014226477800802100354883158534798213
    31204614345391077396927242593886631629853981173214368409736920319215404093758
    50237614328228664512531835696112167678046477356841409204013502641986506238568"
proof -
  let ?a = "hx_int 3533012425803781230144052908719740726127014226477800802100354883158534798213"
  let ?b = "hx_int 31204614345391077396927242593886631629853981173214368409736920319215404093758"
  let ?c = "hx_int 50237614328228664512531835696112167678046477356841409204013502641986506238568"
  have "eqm p25519 3533012425803781230144052908719740726127014226477800802100354883158534798213 (base_y + base_x)"
    "eqm p25519 31204614345391077396927242593886631629853981173214368409736920319215404093758 (base_y - base_x)"
    by (simp_all add: eqm_def p25519_def base_x_def base_y_def)
  then have "hf ?a = of_int base_y + of_int base_x" "hf ?b = of_int base_y - of_int base_x"
    unfolding of_int_fp_eq [symmetric] by (simp_all only: hx_int_simps hv_hx_num of_int_add of_int_diff)
  then have "hf ?a - hf ?b = 2 * of_int base_x" "hf ?a + hf ?b = 2 * of_int base_y"
    by simp_all
  moreover have "121665 * ((hf ?a - hf ?b) * (hf ?a + hf ?b)) + 243332 * hf ?c = 0"
    using hlin_ok_hf [OF base_product(2)] hsub_ok_hf [OF base_product(1)] unfolding hf_hmod hf_hmult hf_hadd by simp
  ultimately have "tab ed_base ?a ?b ?c"
    by (rule tabI [OF Rep_ed_base])
  then show ?thesis
    by (simp add: tabn_def)
qed

end
