(* ===== verification/BaseRows1.thy ===== *)
theory BaseRows1
  imports BaseCert
begin

text \<open>
  Certificates for rows 0 to 7 of \<open>ge_base\<close>: entry \<open>j\<close> of row \<open>i\<close> is \<open>(j + 1) * 256 ^ i\<close> times the base point.  In each row the
  second entry is the double of the first and every other one is the sum of its predecessor and the first; five
  doublings lead from the last entry of a row to the first one of the next.
\<close>

text \<open>Row 0.\<close>

lemma base_0_2: "tabn 2
    40277088815386731178907243282125131086172340233842699037233503275583876657623
    48718306963831746885583586643117907343561796231867704143509447914497974261160
    50706672771372854810760959653406682044345679494001682866047262582014706678367"
  by (rule tabn_dbl [OF base_0_1, where
      x = 49454826470213082005109149143351177669245536334795276913452847365042467216412 and
      e = 47030171897862604406712368716648199815673149127447884246204100963463861357174 and i = 2794734 and j = 2558526 and k = 0 and l = 3272216 and
      v = 2 and u = 1],
      simp only: arith_simps rel_simps, simp only: hex_simps)

lemma base_0_3: "tabn 3
    55221577242988382633613921715755988927347615506430221002982523990194636363568
    19324154932736603031152325029326367275890211278985171650228672434569381466725
    40779097241408971452228116607583414735230162954196233009433085899742953658505"
  by (rule tabn_add [OF base_0_2 base_0_1, where
      x = 35897422310251779602461596686429621651457404227445049352753851555625254896843 and
      e = 337528285276284627758153116694716918449876416525008951663568455425497265566602 and i = 13123520 and j = 0 and q = 17510582 and
      l = 2157195 and v = 0 and u = 0],
      simp only: arith_simps rel_simps, simp only: distinct_ok_def arith_simps rel_simps simp_thms,
      simp only: hex_simps)

lemma base_0_4: "tabn 4
    47066272949236454352011004142637614054391928395550853467619416848609482377631
    17900364484490481448458662452751610416972167276715128949046668595979264465087
    57721214740011996325100163914057143626378515005646177755397197794928900898569"
  by (rule tabn_add [OF base_0_3 base_0_1, where
      x = 29165908464745972903552341689886003637419761118835724518572748252630217912544 and
      e = 555771943343169391597041509483646676541681440730814206671291237080541703394053 and i = 14563464 and j = 0 and q = 25033776 and
      l = 1590302 and v = 0 and u = 0],
      simp only: arith_simps rel_simps, simp only: distinct_ok_def arith_simps rel_simps simp_thms,
      simp only: hex_simps)

lemma base_0_5: "tabn 5
    18668153700450365046820768141064729913722721519882092422277400263756282706739
    9630189248235390748103966146409333440210333639383242876188677650069613696698
    30606639029984443449548711300126286734648431208933888345371544935567354135173"
  by (rule tabn_add [OF base_0_4 base_0_1, where
      x = 9037964452214974298716801994655396473512387880498849546088722613686669010041 and
      e = 375781846480710223165335633887949775243816508157609653702302044802124656133711 and i = 4506701 and j = 0 and q = 7433783 and l = 449379 and
      v = 0 and u = 0],
      simp only: arith_simps rel_simps, simp only: distinct_ok_def arith_simps rel_simps simp_thms,
      simp only: hex_simps)

lemma base_0_6: "tabn 6
    37042802551734379291256774445515883653807489140754236673331271591307945275697
    25651611989922745009643932709203732449918896997826911000855036222734883196068
    7563714261859060042956946782859995083128379099304074101372873478829756795761"
  by (rule tabn_add [OF base_0_5 base_0_1, where
      x = 11391190561811634281612841736312151203888592142927325672476235368573062079629 and
      e = 146166195775342879635490789542469216136353978827971491841277205775642117200914 and i = 2635788 and j = 0 and q = 6292860 and l = 625663 and
      v = 0 and u = 0],
      simp only: arith_simps rel_simps, simp only: distinct_ok_def arith_simps rel_simps simp_thms,
      simp only: hex_simps)

lemma base_0_7: "tabn 7
    31711222115254622247534096269438047277815809670749515453120456498656435938239
    13312953584136576304523025463821328163824699951717010248032899908581467496881
    55464387603073125013932436385527479500842401496857817399907801729203523072930"
  by (rule tabn_add [OF base_0_6 base_0_1, where
      x = 18398268531118045943011070805616719113991109719032505205087556590074968441358 and
      e = 309969698686515325796166577554888943461609827742416185289801724634970528538332 and i = 7192012 and j = 0 and q = 9632434 and
      l = 1030090 and v = 0 and u = 0],
      simp only: arith_simps rel_simps, simp only: distinct_ok_def arith_simps rel_simps simp_thms,
      simp only: hex_simps)

lemma base_0_8: "tabn 8
    4109516327463731527202515788904111257973980123418119937409388067227422244495
    26488824003848812422096153829220076970185472332004006092782020751874174629081
    17443172525282717937484496621620514525016940174535744246793836220237314429210"
  by (rule tabn_add [OF base_0_7 base_0_1, where
      x = 35516736942273016816891854464027988214423500124234395864356159319309812435363 and
      e = 288257708194881856847131026108239368214445287538341565825894275359471055437617 and i = 13193029 and j = 0 and q = 6265246 and
      l = 971770 and v = 0 and u = 1],
      simp only: arith_simps rel_simps, simp only: distinct_ok_def arith_simps rel_simps simp_thms,
      simp only: hex_simps)

lemma row_0: "list_all2 multiple [1, 2, 3, 4, 5, 6, 7, 8] ge_base_0"
  unfolding ge_base_0_def
  by (rule row8,
      (rule tab_ptm [OF base_0_1]; simp only: limb_simps),
      (rule tab_ptm [OF base_0_2]; simp only: limb_simps),
      (rule tab_ptm [OF base_0_3]; simp only: limb_simps),
      (rule tab_ptm [OF base_0_4]; simp only: limb_simps),
      (rule tab_ptm [OF base_0_5]; simp only: limb_simps),
      (rule tab_ptm [OF base_0_6]; simp only: limb_simps),
      (rule tab_ptm [OF base_0_7]; simp only: limb_simps),
      (rule tab_ptm [OF base_0_8]; simp only: limb_simps))

text \<open>Row 1.\<close>

lemma base_1_x1: "tabn 16
    9150700901396372002955937811386093231723774689136611388824386579046465544694
    34803470282035254167861749748857734223267880134292052229384783022034440302067
    15246610844507238436930587905379585262140699618205036629758710644752081668779"
  by (rule tabn_dbl [OF base_0_8, where
      x = 32243275238019215546879680566872312935090886887664841179168395560968590062576 and
      e = 12978220540424677648173879272308994957172672645893270546318726878507454078327 and i = 2431750 and j = 366545 and k = 0 and l = 1105692 and
      v = 2 and u = 1],
      simp only: arith_simps rel_simps, simp only: hex_simps)

lemma base_1_x2: "tabn 32
    56998634480820689224812234692604884713596111604412395994047877857290066665871
    4701998613811609213925887888520231796251786686876732362708225031217252696899
    39084889060773080097331385580401073267382287202622369888980025754481606748147"
  by (rule tabn_dbl [OF base_1_x1, where
      x = 52296635867009080010886346804084652917344324917535663631339652826072813968972 and
      e = 6778148242848008486682797949047675359615843661010179961829794821437522659352 and i = 4025652 and j = 0 and k = 132372 and l = 2529016 and
      v = 2 and u = 0],
      simp only: arith_simps rel_simps, simp only: hex_simps)

lemma base_1_x3: "tabn 64
    30340318798711838421951331556490767266021685221295035303866716430611579841841
    24932384703262992566065740342801154389079494960625337105603301029363501065499
    34478880866989699027487267563044179959088701728826299758724493749787374435501"
  by (rule tabn_dbl [OF base_1_x2, where
      x = 5407934095448845855885591213689612876942190260669698198263415401248078776342 and
      e = 24714603700442962189749303614606082597144146023253720523371050702955048729685 and i = 582376 and j = 0 and k = 3988996 and l = 578598 and
      v = 2 and u = 0],
      simp only: arith_simps rel_simps, simp only: hex_simps)

lemma base_1_x4: "tabn 128
    43664744203255909200148347263385470436435959511557546844847502698877724353667
    51248953256284332391137700317245717899341492317885220006567182830270196459874
    52416873715390724420688512593524310454221391214893549367399461625876497067032"
  by (rule tabn_dbl [OF base_1_x3, where
      x = 50311835565629674520796139450483706463729459526492608858009111872564092713742 and
      e = 3930020294960914832777319658215718801553420264319403883601414048827966668491 and i = 12258438 and j = 0 and k = 1430253 and l = 3621106 and
      v = 6 and u = 1],
      simp only: arith_simps rel_simps, simp only: hex_simps)

lemma base_1_1: "tabn 256
    49675769929469841299643756429080699203912179602893634429411440103426509216797
    22091644134232791648583243734511674002691531926567772780440084103746430849374
    7587883923075452476895235793006848700987041958420761562786787445930038060231"
  by (rule tabn_dbl [OF base_1_x4, where
      x = 27584125795237049651060512694569025201220647676325861648971355999680078367423 and
      e = 31444438378844227779779356589936253500705528232366478418477187291746119274468 and i = 15057616 and j = 0 and k = 1431136 and
      l = 1506733 and v = 14 and u = 0],
      simp only: arith_simps rel_simps, simp only: hex_simps)

lemma base_1_2: "tabn 512
    1695480832751736806470951358260895802284212889471435854247599651504136964101
    17142148106529856694922869544983622252271658267045493178208475775526674259934
    39092322194140124183530118111804326734499060901029609352856299605036289779204"
  by (rule tabn_dbl [OF base_1_1, where
      x = 42449377344879977823333574317621227476647546955246224695767915879934027524116 and
      e = 56326019448438413343971874536430750146175151209411720658787695191045759221247 and i = 13794898 and j = 0 and k = 2966713 and l = 853082 and
      v = 9 and u = 1],
      simp only: arith_simps rel_simps, simp only: hex_simps)

lemma base_1_3: "tabn 768
    9490880931876894096932668319949019804409165332690132896406497910068747055056
    23335382699338269226359667219828068643684120583484233220294663917471172462644
    9277030085043846615222912495726065469701977420698226486713025760942692366292"
  by (rule tabn_add [OF base_1_2 base_1_1, where
      x = 44051542851196722582358493604464905087360037082026181695840625996554139412361 and
      e = 22364635984255867735281197714392504252176816425819626055378142700146345115178 and i = 14161320 and j = 0 and q = 684664 and l = 1040296 and
      v = 4 and u = 1],
      simp only: arith_simps rel_simps, simp only: distinct_ok_def arith_simps rel_simps simp_thms,
      simp only: hex_simps)

lemma base_1_4: "tabn 1024
    2707222199203868836145709957055912590502458828715760684662307503099924835512
    21643483962844847727343024471782915420451507818628114701949989440605950678466
    24975096064402724959459136945448199799538455233488645156483227287997262061277"
  by (rule tabn_add [OF base_1_3 base_1_1, where
      x = 38959782855017118820588177989616951096685943342907928002441110066450538976995 and
      e = 11131075572756641823153692153191129777185509777751343434436568916974482393899 and i = 15808514 and j = 0 and q = 385218 and l = 982456 and
      v = 5 and u = 1],
      simp only: arith_simps rel_simps, simp only: distinct_ok_def arith_simps rel_simps simp_thms,
      simp only: hex_simps)

lemma base_1_5: "tabn 1280
    48831348531383933907130205179764543228744024930527514448766671908305600013712
    14358540954434310882898694754559039830190068064381159596036496222495993605593
    1049707050411921534957972386833815089663860789892059070086747575552388979594"
  by (rule tabn_add [OF base_1_4 base_1_1, where
      x = 34472807576949623024231510425205503398553956866146354852730175685809606408119 and
      e = 31674330350882675250705556898968023106693639543664514665589434721115702683170 and i = 10884074 and j = 0 and q = 1544028 and
      l = 1653007 and v = 6 and u = 0],
      simp only: arith_simps rel_simps, simp only: distinct_ok_def arith_simps rel_simps simp_thms,
      simp only: hex_simps)

lemma base_1_6: "tabn 1536
    41216203841756160218906635499671420951049695638934419079611849371989008100
    28778477417450470147375321795418971812774644074428630426552635281914512364180
    8463184920793228453595486650893248346637756996834647739892156222228284693300"
  by (rule tabn_add [OF base_1_5 base_1_1, where
      x = 29158783405049383724629077344424653534811397954030586012255768571414041463869 and
      e = 117865374406857635412485754276093137447867204318696709130278406811279732915253 and i = 14961245 and j = 0 and q = 2336244 and
      l = 653870 and v = 0 and u = 1],
      simp only: arith_simps rel_simps, simp only: distinct_ok_def arith_simps rel_simps simp_thms,
      simp only: hex_simps)

lemma base_1_7: "tabn 1792
    50430368710646490576743301740051157903125689423910288797644378543230158839442
    52742972861557722105223870811280754153749356824099611286666865771301641708365
    7149995665734987670238366895605861944828997155623666375862553101944484179461"
  by (rule tabn_add [OF base_1_6 base_1_1, where
      x = 55583440467746866183304923433114357676011324932630959530706304775885081951026 and
      e = 42135485444685747987128886347218107272502149207916255988335305764261772255589 and i = 22721988 and j = 0 and q = 3040417 and
      l = 4221118 and v = 9 and u = 1],
      simp only: arith_simps rel_simps, simp only: distinct_ok_def arith_simps rel_simps simp_thms,
      simp only: hex_simps)

lemma base_1_8: "tabn 2048
    29498347462688138458715161325674681839710645445148384319179471375497290862149
    33021781150873132670815506225769745103240278494304508478691532483591302684228
    29731677524652946989719868262474777407636952571611570462813419781785179060464"
  by (rule tabn_add [OF base_1_7 base_1_1, where
      x = 54372610930473103499685147604248890663105359283664157860216730895862552997870 and
      e = 33529348409486027526372654252636450689332703436296969483911376008026123909915 and i = 49648916 and j = 0 and q = 1497735 and
      l = 2610212 and v = 8 and u = 1],
      simp only: arith_simps rel_simps, simp only: distinct_ok_def arith_simps rel_simps simp_thms,
      simp only: hex_simps)

lemma row_1: "list_all2 multiple [256, 512, 768, 1024, 1280, 1536, 1792, 2048] ge_base_1"
  unfolding ge_base_1_def
  by (rule row8,
      (rule tab_ptm [OF base_1_1]; simp only: limb_simps),
      (rule tab_ptm [OF base_1_2]; simp only: limb_simps),
      (rule tab_ptm [OF base_1_3]; simp only: limb_simps),
      (rule tab_ptm [OF base_1_4]; simp only: limb_simps),
      (rule tab_ptm [OF base_1_5]; simp only: limb_simps),
      (rule tab_ptm [OF base_1_6]; simp only: limb_simps),
      (rule tab_ptm [OF base_1_7]; simp only: limb_simps),
      (rule tab_ptm [OF base_1_8]; simp only: limb_simps))

text \<open>Row 2.\<close>

lemma base_2_x1: "tabn 4096
    39233217367744944082743727234989693259911533177309831461716904563803921446866
    41877302029680014373540696028369248887210931711892764634228302435410547329496
    6294266321284248804732561995749022315991294331658984711867651991737648589140"
  by (rule tabn_dbl [OF base_1_8, where
      x = 55251959956723027420988523710964398299335593798237348847217394132349938937319 and
      e = 32556447151618018030842365009928254909720837470322015677698435227496225773102 and i = 16723352 and j = 309748 and k = 0 and l = 3347320 and
      v = 8 and u = 1],
      simp only: arith_simps rel_simps, simp only: hex_simps)

lemma base_2_x2: "tabn 8192
    4904412209339761180286532618738770454062008006295097537062582753237850945914
    41239042376942260444617941012969620388890361950357076602629139995446089147819
    4174173803425314901113953056859270183146891685173307298316612910587525204175"
  by (rule tabn_dbl [OF base_2_x1, where
      x = 21561414451055598447454084110113103991806638388758302954162234761748326618044 and
      e = 25410591675809628426499503703170951238921092412648963700834030081024692113757 and i = 9187240 and j = 0 and k = 1522345 and l = 933730 and
      v = 11 and u = 1],
      simp only: arith_simps rel_simps, simp only: hex_simps)

lemma base_2_x3: "tabn 16384
    55158454346054694268604020441458183612793129258730060795712830474277845193867
    48229813147520468874845442934964023824873336539479111945131626172356501781879
    56794712996622765697273472123852161834985848776045892863113866573885657877993"
  by (rule tabn_dbl [OF base_2_x2, where
      x = 6928641198534225393758577506494159787919792719250948850581204301921343411988 and
      e = 57704068070181089215245804723354677256498785353252816978437108308535099779309 and i = 690400 and j = 3932870 and k = 0 and l = 829684 and
      v = 3 and u = 0],
      simp only: arith_simps rel_simps, simp only: hex_simps)

lemma base_2_x4: "tabn 32768
    12770184574188621644851783046033290637998250387524720053955675690325502037083
    45959164983013416229143330207580281711029926589895765798082217843103463476785
    4499058081301047894070537527562232730008026138381356706741189936783832037296"
  by (rule tabn_dbl [OF base_2_x3, where
      x = 24707064209833303127493945342796962853603316130449236275602249851178603380247 and
      e = 37451622388189241608718135527673653737813171553708470094514777531367382282836 and i = 16524469 and j = 0 and k = 3262984 and
      l = 1232308 and v = 17 and u = 1],
      simp only: arith_simps rel_simps, simp only: hex_simps)

lemma base_2_1: "tabn 65536
    4761860081995383609600795983942009904644672294262035659317576151992149381550
    35604016480507116089823476989913686364420168017036822542463197598154674620094
    28451869976407090222441007966926838613592435081401312415984017477467971029385"
  by (rule tabn_dbl [OF base_2_x4, where
      x = 27053888220146365231562811498372277466859496610045495136583170557794039581405 and
      e = 55405824756108052519496643121435238285568173543747728454634349638994662665691 and i = 5490583 and j = 1200992 and k = 0 and l = 964430 and
      v = 6 and u = 1],
      simp only: arith_simps rel_simps, simp only: hex_simps)

lemma base_2_2: "tabn 131072
    56665923149671157733455181093965188504106072380701525874078160902252442580248
    8822470504407283375527921120813162279172387267897160044506933546039323252407
    9295310295501051144387501917124852476766979789947871341847343323854140397280"
  by (rule tabn_dbl [OF base_2_1, where
      x = 47843452645263874357927259973152026224933685112804365829571227356213119327841 and
      e = 36324708946441740200549663989045544730217711921029680474209182508706002664846 and i = 2911070 and j = 1468870 and k = 0 and l = 2411645 and
      v = 2 and u = 0],
      simp only: arith_simps rel_simps, simp only: hex_simps)

lemma base_2_3: "tabn 196608
    17894486807759165385839356358745702556649527034131428694780762296890513716589
    28925012715749832067490827849534775179848575307981009736605089348391034744871
    29408927912847625880133125959953938854056264283340444007640737432312093030758"
  by (rule tabn_add [OF base_2_2 base_2_1, where
      x = 46865518710667431030134021013554881303435944058970700977904464952456043791667 and
      e = 737811400525946112450403543987186552760064111764331325334728254219970748356514 and i = 26127430 and j = 0 and q = 23955240 and
      l = 1640464 and v = 0 and u = 1],
      simp only: arith_simps rel_simps, simp only: distinct_ok_def arith_simps rel_simps simp_thms,
      simp only: hex_simps)

lemma base_2_4: "tabn 262144
    632018054704182264523461235644992056550753277482107978637790902707643050680
    20138930065880261814762966406943879877126916739919908442676910196045111378474
    40304265145061330935147042133380017187556779260482162648340312732284521572982"
  by (rule tabn_add [OF base_2_3 base_2_1, where
      x = 38389132607482018161545987333045066106058828870382481555689672710619096492155 and
      e = 195542548199687119989089038108523042580887316265276351191016142866473760891926 and i = 8688144 and j = 0 and q = 2866004 and l = 797666 and
      v = 0 and u = 1],
      simp only: arith_simps rel_simps, simp only: distinct_ok_def arith_simps rel_simps simp_thms,
      simp only: hex_simps)

lemma base_2_5: "tabn 327680
    32840935255444831908037093508329629735678791979262925040068050308435623327069
    27987180372783055544920873215766573876800272178407403601583364015352647556090
    33453452838064807467045255739161458354140118167006511792159110793946859279087"
  by (rule tabn_add [OF base_2_4 base_2_1, where
      x = 4853754882661776363116220292563055858878519800855521438484686293082975770979 and
      e = 5935983153948407818805704677583948034227993675119441293883849930490467858918 and i = 1032106 and j = 0 and q = 319896 and l = 510131 and
      v = 0 and u = 0],
      simp only: arith_simps rel_simps, simp only: distinct_ok_def arith_simps rel_simps simp_thms,
      simp only: hex_simps)

lemma base_2_6: "tabn 393216
    2999490403417113014159364531504992368196615670989943427516267960237417060142
    38907134819921887210037138442762260623744887575397571298124107934042873909204
    14743666104711798212682538654186047653590362035382494310482546340722686518454"
  by (rule tabn_add [OF base_2_5 base_2_1, where
      x = 21988400202153323515907718593086685671086720428412654149120952030151107970887 and
      e = 367016180242887930422730344138375124387088055244004735587388263717341385730612 and i = 8166136 and j = 0 and q = 10860546 and
      l = 792542 and v = 0 and u = 1],
      simp only: arith_simps rel_simps, simp only: distinct_ok_def arith_simps rel_simps simp_thms,
      simp only: hex_simps)

lemma base_2_7: "tabn 458752
    52036471054789422902388672306252647754567781679067029022985652710980125912110
    1816188432582282092158385592494799436272386012476554000415399487982434897023
    41540819367681292918688765034481516167517428244261518965899447353585286694226"
  by (rule tabn_add [OF base_2_6 base_2_1, where
      x = 50220282622207140810230286713757848318295395666590475022570253222997691015087 and
      e = 10551183474179452805602545899968046460847900953442508475073824565119896236655 and i = 4920262 and j = 0 and q = 436437 and l = 2268873 and
      v = 1 and u = 0],
      simp only: arith_simps rel_simps, simp only: distinct_ok_def arith_simps rel_simps simp_thms,
      simp only: hex_simps)

lemma base_2_8: "tabn 524288
    41485314206758433359588950436298327041031468214467947591337009281138659129642
    8697249474564671050682546350860356127209938034716058619021576757514253520066
    52492656548263831674072434840291686214571040573112328389160731373998577443518"
  by (rule tabn_add [OF base_2_7 base_2_1, where
      x = 32788064732193762308906404085437970913821530179751888972315432523624405609576 and
      e = 508400848585488465196542987509411083497553396660166028475950989027132586191840 and i = 16494788 and j = 0 and q = 17729218 and
      l = 1467584 and v = 0 and u = 0],
      simp only: arith_simps rel_simps, simp only: distinct_ok_def arith_simps rel_simps simp_thms,
      simp only: hex_simps)

lemma row_2: "list_all2 multiple [65536, 131072, 196608, 262144, 327680, 393216, 458752, 524288] ge_base_2"
  unfolding ge_base_2_def
  by (rule row8,
      (rule tab_ptm [OF base_2_1]; simp only: limb_simps),
      (rule tab_ptm [OF base_2_2]; simp only: limb_simps),
      (rule tab_ptm [OF base_2_3]; simp only: limb_simps),
      (rule tab_ptm [OF base_2_4]; simp only: limb_simps),
      (rule tab_ptm [OF base_2_5]; simp only: limb_simps),
      (rule tab_ptm [OF base_2_6]; simp only: limb_simps),
      (rule tab_ptm [OF base_2_7]; simp only: limb_simps),
      (rule tab_ptm [OF base_2_8]; simp only: limb_simps))

text \<open>Row 3.\<close>

lemma base_3_x1: "tabn 1048576
    6480549826064741809328337591895651998028096356534587962948998402906599594725
    419243865549101221419157110606488251204777884130019979821866502075098115851
    17815433694086510049431728277355479399098183181871690799482747222406837929850"
  by (rule tabn_dbl [OF base_2_8, where
      x = 6061305960515640587909180481289163746823318472404567983127131900831501478874 and
      e = 24837043001749274034693441899752497779230356074297938168737080023031791758324 and i = 1224254 and j = 0 and k = 2684234 and l = 325250 and
      v = 4 and u = 0],
      simp only: arith_simps rel_simps, simp only: hex_simps)

lemma base_3_x2: "tabn 2097152
    27018923029239457803657209244752977129985739328242490994714711393904947298267
    19632441190381254804107326885484740810708219443602643718345157432467126378702
    30589303925827520536793715297108584538347114326826589055198478607698762664536"
  by (rule tabn_dbl [OF base_3_x1, where
      x = 7386481838858202999549882359268236319277519884639847276369553961437820919565 and
      e = 25485155196675095425745851936630565769771746585223614011313091513653958180489 and i = 690245 and j = 769735 and k = 0 and l = 386623 and
      v = 2 and u = 0],
      simp only: arith_simps rel_simps, simp only: hex_simps)

lemma base_3_x3: "tabn 4194304
    47749627333136099083567916553369945239553804462831484396119836325094428303541
    51659565042808725279805218003850710368305926169517330366945025475058608489002
    52283395279331046867525305158817553636318505072899773211906451286485730751782"
  by (rule tabn_dbl [OF base_3_x2, where
      x = 53986106908985471515548191053863188797882870626134436048903602853992384634488 and
      e = 38263228480471449885093848516880503199579529222341108656993060485858696118647 and i = 9511498 and j = 1560017 and k = 0 and l = 4003216 and
      v = 5 and u = 1],
      simp only: arith_simps rel_simps, simp only: hex_simps)

lemma base_3_x4: "tabn 8388608
    22496070466863838813376617589410879623201825320060904330061763859239383415207
    17351779753683168135768649016284636994486862692623638310352723970068194639084
    19034117806679893673560883158127950105158999319916380186464491956642213067121"
  by (rule tabn_dbl [OF base_3_x3, where
      x = 5144290713180670677607968573126242628714962627437266019709039889171188776123 and
      e = 10981024031009825703408568248113074969509212787026417506385376162222443593181 and i = 3273226 and j = 0 and k = 3394891 and l = 336873 and
      v = 15 and u = 0],
      simp only: arith_simps rel_simps, simp only: hex_simps)

lemma base_3_1: "tabn 16777216
    19908757815622469476643400070649213867456594963295691572917330196223816647484
    10002383354134543615319173578760705254096130629387035707272039930399697129038
    47755065363846189113461404853942085918256976385442763263791031601346691441789"
  by (rule tabn_dbl [OF base_3_x4, where
      x = 9906374461487925861324226491888508613360464333908655865645290265824119518446 and
      e = 42673577255088268800538936357618984923203829922100368431154831896230575183218 and i = 1431858 and j = 271452 and k = 0 and l = 502512 and
      v = 4 and u = 0],
      simp only: arith_simps rel_simps, simp only: hex_simps)

lemma base_3_2: "tabn 33554432
    18654566673107975546820461001026314913723262106326658815737844620093486078280
    37234712020399886888026814084947098152429387380702275768388060043729742528207
    41330723346612204007591697729633555703795534604710918079352327372371347444449"
  by (rule tabn_dbl [OF base_3_1, where
      x = 39315899271366186370579139420423170687928867058444665067078576580320308370022 and
      e = 42593646211899424340444978250533726587496517768186791857259864360089357066194 and i = 2205822 and j = 957468 and k = 0 and l = 1915042 and
      v = 2 and u = 1],
      simp only: arith_simps rel_simps, simp only: hex_simps)

lemma base_3_3: "tabn 50331648
    21292266773899639162765885952066543898650234952645780674439073344442193145932
    16579083870680727353386033520581171267639842971105325737333067638129264196745
    42687874999959497303917400677323895350315592036002314149581384504830236608320"
  by (rule tabn_add [OF base_3_2 base_3_1, where
      x = 4713182903218911809379852431485372631010391981540454937106005706312928949187 and
      e = 20780327299439973413293307361735192911582598198131805126879456529791073988907 and i = 1930894 and j = 0 and q = 560875 and l = 503455 and
      v = 5 and u = 0],
      simp only: arith_simps rel_simps, simp only: distinct_ok_def arith_simps rel_simps simp_thms,
      simp only: hex_simps)

lemma base_3_4: "tabn 67108864
    14529135931643235009059942718607623183308152617471375826677540257307869761300
    36368204856314416158092524166187411731775232455432022740445720966004335384600
    26002208807001360045232049031388277562638901388582737044133601423393690983761"
  by (rule tabn_add [OF base_3_3 base_3_1, where
      x = 36056975693986916562752911056764165378167912494859635105960611295260099196649 and
      e = 30965728562436573834558619581216494701352516807695890080760189548973021325339 and i = 9644182 and j = 0 and q = 1095928 and l = 1435798 and
      v = 1 and u = 1],
      simp only: arith_simps rel_simps, simp only: distinct_ok_def arith_simps rel_simps simp_thms,
      simp only: hex_simps)

lemma base_3_5: "tabn 83886080
    53873376500980242062881097346423872338635294934984712752345920673640034302439
    15933117126776433364067236357989566842273729478980288125963251014917502359986
    23114062882190327792083433786886944815661275959326460784697164400942659547047"
  by (rule tabn_add [OF base_3_4 base_3_1, where
      x = 37940259374203808698813860988434305496361565456004424626382669658722531942453 and
      e = 1864258009432496803379256670904215469049331945451152735400753688771827950515 and i = 11671510 and j = 0 and q = 81631 and l = 2154971 and
      v = 3 and u = 0],
      simp only: arith_simps rel_simps, simp only: distinct_ok_def arith_simps rel_simps simp_thms,
      simp only: hex_simps)

lemma base_3_6: "tabn 100663296
    12115944105149661845286223033423344305617560020573449952916490574858751931055
    22203058931140541574480250039773320575923311829529298000707556583500315328710
    43938326906397071482133813695476606919629706461319022696422921304556740218984"
  by (rule tabn_add [OF base_3_5 base_3_1, where
      x = 47808929792667217982591465497993977656329240523864433971937725995315001422294 and
      e = 69491924950872067193542369954204725749747951203891541743875094088929710140194 and i = 16648958 and j = 0 and q = 1774124 and
      l = 1522922 and v = 0 and u = 1],
      simp only: arith_simps rel_simps, simp only: distinct_ok_def arith_simps rel_simps simp_thms,
      simp only: hex_simps)

lemma base_3_7: "tabn 117440512
    9559817251094150795732022868084880399448067035769623304265369886217051383352
    32078669566481803808869088092801648404504341067335236812467598446167052945805
    31659145308018313228544054581829354608158326727101474528992418324816259533112"
  by (rule tabn_add [OF base_3_6 base_3_1, where
      x = 35377192303270444698648427279627185921578718301254668511526563444006563257496 and
      e = 28590459695084949411920553821358511330916940308969188314698682575496058943643 and i = 8108684 and j = 0 and q = 898745 and l = 1380396 and
      v = 3 and u = 1],
      simp only: arith_simps rel_simps, simp only: distinct_ok_def arith_simps rel_simps simp_thms,
      simp only: hex_simps)

lemma base_3_8: "tabn 134217728
    10123367169530457996004972497097315471651753947097285912671642302321953936529
    30101926241590681560279225060198940963787248421955126546243664390157111135116
    13345611359081422550671188517537801669123357355329491823438875338533662558461"
  by (rule tabn_add [OF base_3_7 base_3_1, where
      x = 37917485546597874147511239941242328434499497857962441386156769916121407621362 and
      e = 17073668400207362009812784952457576287314467423998864014054384338605511453625 and i = 10399458 and j = 0 and q = 512889 and l = 1192258 and
      v = 3 and u = 1],
      simp only: arith_simps rel_simps, simp only: distinct_ok_def arith_simps rel_simps simp_thms,
      simp only: hex_simps)

lemma row_3: "list_all2 multiple [16777216, 33554432, 50331648, 67108864, 83886080, 100663296, 117440512, 134217728] ge_base_3"
  unfolding ge_base_3_def
  by (rule row8,
      (rule tab_ptm [OF base_3_1]; simp only: limb_simps),
      (rule tab_ptm [OF base_3_2]; simp only: limb_simps),
      (rule tab_ptm [OF base_3_3]; simp only: limb_simps),
      (rule tab_ptm [OF base_3_4]; simp only: limb_simps),
      (rule tab_ptm [OF base_3_5]; simp only: limb_simps),
      (rule tab_ptm [OF base_3_6]; simp only: limb_simps),
      (rule tab_ptm [OF base_3_7]; simp only: limb_simps),
      (rule tab_ptm [OF base_3_8]; simp only: limb_simps))

text \<open>Row 4.\<close>

lemma base_4_x1: "tabn 268435456
    20228105077580605391615089861383477902948651093110614018006228601212829812897
    50739262438981618138604305768031224265085555730473399623413823829986446560312
    16318804841537916259510583342641839487626383856403967022900484921847210283169"
  by (rule tabn_dbl [OF base_3_8, where
      x = 27384887257257084964796276597696207564498087695457496414321196775182948072534 and
      e = 9973840478796606809540157466194199949483901857934250527731768656622028964739 and i = 3382228 and j = 146057 and k = 0 and l = 1414202 and
      v = 3 and u = 1],
      simp only: arith_simps rel_simps, simp only: hex_simps)

lemma base_4_x2: "tabn 536870912
    11885723816838583074018792554219779064684285046928521397444516138233066886525
    39531560762888920858585255896256030388577182770913576037217881623551806533277
    35832470649745908456551570209828092611012750716650358694600326446010171045887"
  by (rule tabn_dbl [OF base_4_x1, where
      x = 30250207672607759927219029162307702602742094608835227379955426518637825173197 and
      e = 14665148133085449021744162848126408812397603024224930537121159055578554220842 and i = 9444092 and j = 0 and k = 197552 and l = 1353546 and
      v = 8 and u = 1],
      simp only: arith_simps rel_simps, simp only: hex_simps)

lemma base_4_x3: "tabn 1073741824
    55309097900275244595540812102580096223347468140752878775874983984975695891697
    47208749773804116322606667033397203501950472200820296195288268210573616930236
    8083056208648668034144471534108745956945302194594924619158046927247603115253"
  by (rule tabn_dbl [OF base_4_x2, where
      x = 8100348126471128272934145069182892721396995939932582580586715774402078961461 and
      e = 41636513107842382312890616881390642245500902213890550358891757959192415086812 and i = 1718541 and j = 2783064 and k = 0 and l = 700749 and
      v = 5 and u = 0],
      simp only: arith_simps rel_simps, simp only: hex_simps)

lemma base_4_x4: "tabn 2147483648
    39919050734813992231405536031843928074009219071754640599537776056399933191789
    45945320156859477738353994360472793303317240314119916523532935872320061970583
    1326440030274893145679290745069684036509929880525724343952805285767500954786"
  by (rule tabn_dbl [OF base_4_x3, where
      x = 51869775196612612204837034175715088697326971090455006095733632188036436041155 and
      e = 40437231008156554058707572668600431002652983964049528718629690707182517475748 and i = 31725324 and j = 0 and k = 2039064 and
      l = 3079348 and v = 16 and u = 1],
      simp only: arith_simps rel_simps, simp only: hex_simps)

lemma base_4_1: "tabn 4294967296
    26402750181698060370662605837227369816500226738882517770271529401842378589672
    14536364753920307535593082581313058277178823516042719567948075655722022317151
    56465797158513866373978332035777509370095804007883348063296109133608378741330"
  by (rule tabn_dbl [OF base_4_x4, where
      x = 11866385427777752835069523255914311539321403222839798202323453746120356272521 and
      e = 10471247811826714106443819925799364745270070232243366350500566642876183677441 and i = 5634313 and j = 0 and k = 1984363 and l = 581755 and
      v = 12 and u = 0],
      simp only: arith_simps rel_simps, simp only: hex_simps)

lemma base_4_2: "tabn 8589934592
    28467696867507890724292746544435905536777794472862973450420421961863763129587
    18192841347164399415773420007164503723511770725855445590967258565898247076534
    15316304754879040914707034707046046785892042896946314716362418059666109386800"
  by (rule tabn_dbl [OF base_4_1, where
      x = 10274855520343491308519326537271401813266023747007527859453163395965516053053 and
      e = 42873191561005753064459448800462711824985249071214365994237368662239465205623 and i = 1190080 and j = 391565 and k = 0 and l = 483555 and
      v = 3 and u = 0],
      simp only: arith_simps rel_simps, simp only: hex_simps)

lemma base_4_3: "tabn 12884901888
    42298413614266399196515206574394975198566680186237647522564656016598307910074
    5321415568774288868770715459811835718815269845210267330931717237167401836488
    26351572478274632803272096092169886056251892261664660360718579306239291810187"
  by (rule tabn_add [OF base_4_2 base_4_1, where
      x = 36976998045492110327744491114583139479751410341027380191632938779430906073586 and
      e = 30670439184491820239926928764422503154863358807386273398507986848686323039247 and i = 9581860 and j = 0 and q = 875120 and l = 1498786 and
      v = 0 and u = 0],
      simp only: arith_simps rel_simps, simp only: distinct_ok_def arith_simps rel_simps simp_thms,
      simp only: hex_simps)

lemma base_4_4: "tabn 17179869184
    3365470320945450715896614514591270503450275072817277474781972920728182619851
    14448335327257628077978515250263916817176784164132607004676324611728461563130
    26210106361301965910432131228838378923743978587960502357418323750851062380029"
  by (rule tabn_add [OF base_4_3 base_4_1, where
      x = 46813179612345920349703591768671307612908483241504952489834440312956285876670 and
      e = 105378873596005345187199064997270321218487267440505997366177850968259439195792 and i = 10962086 and j = 0 and q = 1282026 and
      l = 866212 and v = 0 and u = 1],
      simp only: arith_simps rel_simps, simp only: distinct_ok_def arith_simps rel_simps simp_thms,
      simp only: hex_simps)

lemma base_4_5: "tabn 21474836480
    46033662239459320965727435667343709442975666211074769788534363586956546898913
    10436484052971594662308145549073347833298479486482575897889795397644708209308
    15819465482797544953188739125351003427668507530220952327539962469509556704221"
  by (rule tabn_add [OF base_4_4 base_4_1, where
      x = 35597178186487726303419290118270361609677186724592193890644568189311838689605 and
      e = 1660215901234148056612235439704937634811753131543227734511259736810109239406 and i = 5827907 and j = 0 and q = 162792 and l = 1546433 and
      v = 1 and u = 0],
      simp only: arith_simps rel_simps, simp only: distinct_ok_def arith_simps rel_simps simp_thms,
      simp only: hex_simps)

lemma base_4_6: "tabn 25769803776
    29601126465251282793668150616260546493423977835656345379875485394142634114476
    9025212182676517368284702369370418221781179132383561143661791413281679669451
    36414862789189463146872024259298279138802959820984977952829873894210279132300"
  by (rule tabn_add [OF base_4_5 base_4_1, where
      x = 20575914282574765425383448246890128271642798703272784236213693980860954445025 and
      e = 134800565169544744389495971891542128064498088346208875650448375218294723375667 and i = 6873123 and j = 0 and q = 3519643 and l = 938915 and
      v = 0 and u = 0],
      simp only: arith_simps rel_simps, simp only: distinct_ok_def arith_simps rel_simps simp_thms,
      simp only: hex_simps)

lemma base_4_7: "tabn 30064771072
    26445011814755025895447924400454610893969448663033091160751376557968779641814
    15819250712917858773904021701684408096172704980177711610307540182449790582347
    42347468642669403870055823984642967943449901954771723239850115155671124955254"
  by (rule tabn_add [OF base_4_6 base_4_1, where
      x = 10625761101837167121543902698770202797796743682855379550443836375518989059467 and
      e = 87323148509634990015546360590957697100198254580193524898233556080190590330896 and i = 3223980 and j = 0 and q = 2547130 and l = 659147 and
      v = 0 and u = 0],
      simp only: arith_simps rel_simps, simp only: distinct_ok_def arith_simps rel_simps simp_thms,
      simp only: hex_simps)

lemma base_4_8: "tabn 34359738368
    27028398033232520320580469357527679628354830339206139789167081517078019527198
    23151366799918620983856050113677994249423583316114771718497123087495750447743
    31233451458326180876133059785286504050284765638907405835319358891229712925196"
  by (rule tabn_add [OF base_4_7 base_4_1, where
      x = 3877031233313899336724419243849685378931247023091368070669958429582269079455 and
      e = 51903028296504601233487197827417612214371232695502624901294008058477706427726 and i = 1484232 and j = 0 and q = 1780702 and l = 460643 and
      v = 2 and u = 0],
      simp only: arith_simps rel_simps, simp only: distinct_ok_def arith_simps rel_simps simp_thms,
      simp only: hex_simps)

lemma row_4: "list_all2 multiple [4294967296, 8589934592, 12884901888, 17179869184, 21474836480, 25769803776, 30064771072, 34359738368] ge_base_4"
  unfolding ge_base_4_def
  by (rule row8,
      (rule tab_ptm [OF base_4_1]; simp only: limb_simps),
      (rule tab_ptm [OF base_4_2]; simp only: limb_simps),
      (rule tab_ptm [OF base_4_3]; simp only: limb_simps),
      (rule tab_ptm [OF base_4_4]; simp only: limb_simps),
      (rule tab_ptm [OF base_4_5]; simp only: limb_simps),
      (rule tab_ptm [OF base_4_6]; simp only: limb_simps),
      (rule tab_ptm [OF base_4_7]; simp only: limb_simps),
      (rule tab_ptm [OF base_4_8]; simp only: limb_simps))

text \<open>Row 5.\<close>

lemma base_5_x1: "tabn 68719476736
    19238310624339690010350409627550275976108757237013722313670832090412456009909
    37855451600702306380738652731348760260954121750363421172459211694831619619074
    5270760469547992065599218398357713971129670419693111892076806973443950062927"
  by (rule tabn_dbl [OF base_4_8, where
      x = 39278903642295481341397249400545469641789627819470583160940412399537401210784 and
      e = 33947174380664287863075932879825005950994997922057053633275631840905842348526 and i = 8855528 and j = 147682 and k = 0 and l = 1751706 and
      v = 6 and u = 1],
      simp only: arith_simps rel_simps, simp only: hex_simps)

lemma base_5_x2: "tabn 137438953472
    22958599478870231972095435491921071321727680888093042925691344798628485557660
    55915739696162086463960047236349335733189403447425121245282808522811266327585
    8489018637797290180647092275649531371269556915008225667859275867892496598912"
  by (rule tabn_dbl [OF base_5_x1, where
      x = 24938904401366243219920880759915689515173269773488203700137328279773784050024 and
      e = 35650076597435045313598497200927169596822017353191654427906269605237328504090 and i = 5401656 and j = 1168254 and k = 0 and l = 1533206 and
      v = 6 and u = 1],
      simp only: arith_simps rel_simps, simp only: hex_simps)

lemma base_5_x3: "tabn 274877906944
    52019434033050880042442439734078393879024747597924613565229610236293041437434
    50920055369732224919232050349233188227485914693700981097206687687163029446124
    25784315766064683196108683254858871324434331305874443264195833957759107345473"
  by (rule tabn_dbl [OF base_5_x2, where
      x = 1099378663318655123210389384845205651538832904223632468022922549130011991310 and
      e = 18114731566864519228492250424241112597660295396444636935493615898518003822202 and i = 559886 and j = 413434 and k = 0 and l = 300724 and
      v = 8 and u = 0],
      simp only: arith_simps rel_simps, simp only: hex_simps)

lemma base_5_x4: "tabn 549755813888
    47093895857636168066134732782191630766523690668151907855819373751482162168301
    14762704846405861073613058002013227688437453808003631442089919367483943000822
    37822850639153158152736401727490247822116643143379073882836644145656179674949"
  by (rule tabn_dbl [OF base_5_x3, where
      x = 32331191011230306992521674780178403078086236860148276413729454383998219167479 and
      e = 20371482986855734327622226784595648436973072078266494106920714282633463270802 and i = 20497114 and j = 0 and k = 2977354 and
      l = 1611317 and v = 16 and u = 0],
      simp only: arith_simps rel_simps, simp only: hex_simps)

lemma base_5_1: "tabn 1099511627776
    34705862686029395793543229889283339680385457474979213676668772792876223329343
    20754029524796533516681242742417196184550616290110869337973224374832461795957
    56764799645676364864036401965246402271543447376834639606446113568819416342477"
  by (rule tabn_dbl [OF base_5_x4, where
      x = 13951833161232862276861987146866143495834841184868344338695548418043761533386 and
      e = 44379980492571833090609689955819282840836221063584848691500034416435980345792 and i = 3192962 and j = 0 and k = 1732982 and l = 879976 and
      v = 6 and u = 0],
      simp only: arith_simps rel_simps, simp only: hex_simps)

lemma base_5_2: "tabn 2199023255552
    36009789712419855374112854772559493591123975837440351669310306653220573974676
    40463029596022587936014126353742412695332070680827090156322802329422536583169
    56450436000505374538761312252002094662147708858587019138230370804286086657896"
  by (rule tabn_dbl [OF base_5_1, where
      x = 53442804735055365149884220923161034822426897489433543532716296327754602211456 and
      e = 8056374327050678313477627336835662377638855141305587626069957797474170348547 and i = 12803146 and j = 0 and k = 1244971 and l = 3222398 and
      v = 6 and u = 1],
      simp only: arith_simps rel_simps, simp only: hex_simps)

lemma base_5_3: "tabn 3298534883328
    24233705218555401659772680388583530454908111993850930867959908886831253474451
    30099681711548461296588576525799433183450639994717850839656743236437016970263
    17741815744867511998462949175201843146621031006703264623514952140274138389159"
  by (rule tabn_add [OF base_5_2 base_5_1, where
      x = 52030068125665038074969596367128051198092464331953362048031957654350801324137 and
      e = 9438582585918426120081367626511612561716005931244817614717839469144785265802 and i = 30260349 and j = 0 and q = 395782 and l = 2062202 and
      v = 3 and u = 1],
      simp only: arith_simps rel_simps, simp only: distinct_ok_def arith_simps rel_simps simp_thms,
      simp only: hex_simps)

lemma base_5_4: "tabn 4398046511104
    39429243937136944535642884581805444190911356924018218931130297705409010476115
    17452195333612198051149429877945638347915096958689586925529279451924768150547
    57712876388783890193736716361562969424636529491556222079006864269963846037694"
  by (rule tabn_add [OF base_5_3 base_5_1, where
      x = 21977048603524746484493454703859805842996259965328632005601018253484242325568 and
      e = 40374482350290040312246932798141895920217297789572865639718941658551534088361 and i = 9755418 and j = 0 and q = 1425556 and l = 1222762 and
      v = 5 and u = 0],
      simp only: arith_simps rel_simps, simp only: distinct_ok_def arith_simps rel_simps simp_thms,
      simp only: hex_simps)

lemma base_5_5: "tabn 5497558138880
    22139292438251605625076722859301800964007957222435554558002810128883414688611
    53717315190760167188817990295460657531692550333296922061072956335045290483991
    21291307338170676612483373074212677214844075606903206886197239112893781314693"
  by (rule tabn_add [OF base_5_4 base_5_1, where
      x = 26318021866149536148044225068185097358950399221958914516658645797794689024569 and
      e = 113552582852984326039211470897782018108435908378805408935444759950506765405680 and i = 11105948 and j = 0 and q = 6182706 and
      l = 1511984 and v = 0 and u = 1],
      simp only: arith_simps rel_simps, simp only: distinct_ok_def arith_simps rel_simps simp_thms,
      simp only: hex_simps)

lemma base_5_6: "tabn 6597069766656
    25633593855455868330364002558987292163182612311691839573301505317039694613440
    42344858361513750120424994680316276210767350373364243096055721633237400821265
    15774062831240277979636735997978495259286662484126110593157434148071545090363"
  by (rule tabn_add [OF base_5_5 base_5_1, where
      x = 41184780112600215921724500383014969879050254271147878496974575687758858612124 and
      e = 32510904025118868444531219672113129562393533923279929642572674819903694207533 and i = 24291660 and j = 0 and q = 1483663 and
      l = 2211344 and v = 9 and u = 1],
      simp only: arith_simps rel_simps, simp only: distinct_ok_def arith_simps rel_simps simp_thms,
      simp only: hex_simps)

lemma base_5_7: "tabn 7696581394432
    7197303069668717867654164208939922837918551330441849310819266561187512049825
    48470072551670969772677749606703737431509563136765646042950819857809569287385
    34461021269008303324543592731622586425273307636688676317707078966871175369019"
  by (rule tabn_add [OF base_5_6 base_5_1, where
      x = 16623275136655845806761907106580139333043980526496485287597238707334507582389 and
      e = 7127923631262549509704034984400408208809743895911945090638626178271320804498 and i = 9052905 and j = 0 and q = 114718 and l = 943872 and
      v = 7 and u = 1],
      simp only: arith_simps rel_simps, simp only: distinct_ok_def arith_simps rel_simps simp_thms,
      simp only: hex_simps)

lemma base_5_8: "tabn 8796093022208
    29589533450750376001984240796861080978671849040575421938054590497281682261248
    6052727791956584223397069501265015684771587914959467171241469951531264674949
    11354055777719228834625119042412118559188857887219405007123106963572677228208"
  by (rule tabn_add [OF base_5_7 base_5_1, where
      x = 23536805658793791778587171295596065293900261125615954766813120545750417586299 and
      e = 26328360226279776463838883165547949488588633664742357047761914284953204537693 and i = 12043708 and j = 0 and q = 672221 and l = 642519 and
      v = 11 and u = 0],
      simp only: arith_simps rel_simps, simp only: distinct_ok_def arith_simps rel_simps simp_thms,
      simp only: hex_simps)

lemma row_5: "list_all2 multiple [1099511627776, 2199023255552, 3298534883328, 4398046511104, 5497558138880, 6597069766656, 7696581394432, 8796093022208] ge_base_5"
  unfolding ge_base_5_def
  by (rule row8,
      (rule tab_ptm [OF base_5_1]; simp only: limb_simps),
      (rule tab_ptm [OF base_5_2]; simp only: limb_simps),
      (rule tab_ptm [OF base_5_3]; simp only: limb_simps),
      (rule tab_ptm [OF base_5_4]; simp only: limb_simps),
      (rule tab_ptm [OF base_5_5]; simp only: limb_simps),
      (rule tab_ptm [OF base_5_6]; simp only: limb_simps),
      (rule tab_ptm [OF base_5_7]; simp only: limb_simps),
      (rule tab_ptm [OF base_5_8]; simp only: limb_simps))

text \<open>Row 6.\<close>

lemma base_6_x1: "tabn 17592186044416
    36918196726722101448933678860889797205635177955960663745753736684877656398356
    19792759282461516403059541435426745796444315754794010916384367072719942928773
    44417613354721438129686024789890274051639171060493222307024643320224730631337"
  by (rule tabn_dbl [OF base_5_8, where
      x = 17125437444260585045874137425463051409190862201166652829369369612157713469583 and
      e = 7274419450893544768458553326759739450194812302793116052985253363752737682763 and i = 2224164 and j = 0 and k = 885849 and l = 856901 and
      v = 3 and u = 0],
      simp only: arith_simps rel_simps, simp only: hex_simps)

lemma base_6_x2: "tabn 35184372088832
    57726455918441732161374379422646745280029098034021934091605343996147553407603
    43139791409575482953749655001329897935535251830029924309400815164876474272278
    57270425352881444338406627247168408088892304444247498914410703008317439747845"
  by (rule tabn_dbl [OF base_6_x1, where
      x = 14586664508866249207624724421316847344493846203992009782204528831271079135325 and
      e = 38803854235287802412537433249089529725360357781420478556851378769559949209583 and i = 2925206 and j = 603079 and k = 0 and l = 1288805 and
      v = 5 and u = 0],
      simp only: arith_simps rel_simps, simp only: hex_simps)

lemma base_6_x3: "tabn 70368744177664
    47063537400376592821060118630994932899449334552213294216292381919649384968588
    5893944201089945755336144099942436442471735737646293838675905175387005565628
    14952031796479317995362254922192902913867129475181991620864039957821380010987"
  by (rule tabn_dbl [OF base_6_x2, where
      x = 41169593199286647065723974531052496456977598814567000377616476744262379402960 and
      e = 27132466208974178044053489408937696107638661422508099156100964266993133959920 and i = 25986800 and j = 0 and k = 4087100 and
      l = 1721566 and v = 16 and u = 0],
      simp only: arith_simps rel_simps, simp only: hex_simps)

lemma base_6_x4: "tabn 140737488355328
    44259017990347534984166074681467696190053556812836312064916650787395165441259
    23885545767277264186013334580522072789574641086479308799797608612291276282014
    47868072440366689174941014035854791802437081917006869643575464266508214458699"
  by (rule tabn_dbl [OF base_6_x3, where
      x = 20373472223070270798152740100945623400478915726357003265119042175103889159245 and
      e = 31407905286444028293357286579431264191659017039622295705106239103946804034195 and i = 2208226 and j = 0 and k = 1599901 and l = 1202527 and
      v = 3 and u = 0],
      simp only: arith_simps rel_simps, simp only: hex_simps)

lemma base_6_1: "tabn 281474976710656
    16054440271294318353381208704655348175877898769892958580352827581965250465531
    57072792372353150577952531993815517704881297633921566672937422958968335766577
    51421699959658133488712029380485152858798520627392651264474919470745381876784"
  by (rule tabn_dbl [OF base_6_x4, where
      x = 16877692517599265487214169215183784397631593468791673927144196626953479518903 and
      e = 9156311227840103653992199217743802814190361160953552362948578286541417028999 and i = 4974142 and j = 0 and k = 2540842 and l = 1178412 and
      v = 7 and u = 1],
      simp only: arith_simps rel_simps, simp only: hex_simps)

lemma base_6_2: "tabn 562949953421312
    203406447795982060511516372116230676934930335453944068966288770638097895638
    935123914697937731723449654313266748314654814750070127100326140262258816541
    34512591192687828692078762904758383885716226253722505484241805032454922705024"
  by (rule tabn_dbl [OF base_6_1, where
      x = 57164327151756142040573559222146917855255267853524155961594754634332403899046 and
      e = 40728266982212297052876116335620521548163890431942343217785203940529873415672 and i = 14804892 and j = 0 and k = 448422 and l = 299562 and
      v = 7 and u = 1],
      simp only: arith_simps rel_simps, simp only: hex_simps)

lemma base_6_3: "tabn 844424930131968
    25668015687992809298521180724224010027237092437799803400361923950657722587504
    11420662466477414785973027538058469640437191912861974541380543608165119107017
    48142563076882481058310445803135535508945942883909531533138588507465518188399"
  by (rule tabn_add [OF base_6_2 base_6_1, where
      x = 14247353221515394512548153186165540386799900524937828858981380342492603480487 and
      e = 43718094391218070612305198340085167433710054257053451324523384210010492606546 and i = 1112979 and j = 0 and q = 1067790 and l = 568397 and
      v = 1 and u = 0],
      simp only: arith_simps rel_simps, simp only: distinct_ok_def arith_simps rel_simps simp_thms,
      simp only: hex_simps)

lemma base_6_4: "tabn 1125899906842624
    8791573021639612543528238159567669574567997415487593481932831236777702597574
    53357739748983793805438240115082548974030046944536059859829115284079407289835
    963837964085558230313141714904071164065260392108041312663279840660637990353"
  by (rule tabn_add [OF base_6_3 base_6_1, where
      x = 13329877891313916449875490548829074527172942803771815641832507956654860127688 and
      e = 319650617809060591539183588043223880272406314283668883167699657901247149000629 and i = 6491744 and j = 0 and q = 13746455 and
      l = 653874 and v = 0 and u = 1],
      simp only: arith_simps rel_simps, simp only: distinct_ok_def arith_simps rel_simps simp_thms,
      simp only: hex_simps)

lemma base_6_5: "tabn 1407374883553280
    8833822998178092180632527887564773924271992700500381621899804731781501975167
    47957729207171637692086985125376174990561478462871315710951611328414165576980
    22364214685946432667192352326584016112375237431246441783348183444104943209208"
  by (rule tabn_add [OF base_6_4 base_6_1, where
      x = 18772138409664552200331035266532552860345506570449347930676985407323901218136 and
      e = 16014191986373646233217769819251260733970004356089301256851818473600936135883 and i = 7428876 and j = 0 and q = 570447 and l = 858144 and
      v = 2 and u = 1],
      simp only: arith_simps rel_simps, simp only: distinct_ok_def arith_simps rel_simps simp_thms,
      simp only: hex_simps)

lemma base_6_6: "tabn 1688849860263936
    48993415663007700749237048161633604115721131490904939913799507178003454642129
    15434875927075185633090380654430658847058193976041185790081414839016038485160
    32952840616749654374222602142062733932317057662550465854026400305469768164161"
  by (rule tabn_add [OF base_6_5 base_6_1, where
      x = 33558539735932515116146667507202945268662937514863754123718092338987416156969 and
      e = 14633902384280746060954795301031430475806639969762575611330354623388501554453 and i = 10431441 and j = 0 and q = 531387 and l = 1712193 and
      v = 2 and u = 0],
      simp only: arith_simps rel_simps, simp only: distinct_ok_def arith_simps rel_simps simp_thms,
      simp only: hex_simps)

lemma base_6_7: "tabn 1970324836974592
    40157286425850196807408494779485384279001577580757640345171514853691663095699
    46782293523124115825210320507706993423192503217269762812082531904372227808455
    12805140924505840564460055678031621322941577155313100465094046911399978635352"
  by (rule tabn_add [OF base_6_6 base_6_1, where
      x = 51271037521384178693983666776122344782444066696308159552817774953276000107193 and
      e = 889411444311736510231111703754622972621844982516916535822320043999875787548845 and i = 41336745 and j = 0 and q = 53458056 and
      l = 3231626 and v = 0 and u = 1],
      simp only: arith_simps rel_simps, simp only: distinct_ok_def arith_simps rel_simps simp_thms,
      simp only: hex_simps)

lemma base_6_8: "tabn 2251799813685248
    50782020275197463250196309334234189563131781277421294134305680097524368290948
    54890251617098705321442997384626652889683858100782309794885725614873360965819
    43367941149677131893312238394479744848216580183077423210284613718909362908083"
  by (rule tabn_add [OF base_6_7 base_6_1, where
      x = 53787813276756855640538804453951490600082915509459266359148746486607572145078 and
      e = 476953737527151799333763509535578896751821973016281189314905175141569311835752 and i = 44316158 and j = 0 and q = 34659434 and
      l = 4130744 and v = 0 and u = 1],
      simp only: arith_simps rel_simps, simp only: distinct_ok_def arith_simps rel_simps simp_thms,
      simp only: hex_simps)

lemma row_6: "list_all2 multiple [281474976710656, 562949953421312, 844424930131968, 1125899906842624, 1407374883553280, 1688849860263936, 1970324836974592, 2251799813685248] ge_base_6"
  unfolding ge_base_6_def
  by (rule row8,
      (rule tab_ptm [OF base_6_1]; simp only: limb_simps),
      (rule tab_ptm [OF base_6_2]; simp only: limb_simps),
      (rule tab_ptm [OF base_6_3]; simp only: limb_simps),
      (rule tab_ptm [OF base_6_4]; simp only: limb_simps),
      (rule tab_ptm [OF base_6_5]; simp only: limb_simps),
      (rule tab_ptm [OF base_6_6]; simp only: limb_simps),
      (rule tab_ptm [OF base_6_7]; simp only: limb_simps),
      (rule tab_ptm [OF base_6_8]; simp only: limb_simps))

text \<open>Row 7.\<close>

lemma base_7_x1: "tabn 4503599627370496
    51956654281199107032646883520755456670397495165077329721678721562044747830153
    51577943930390623687170625002526342739440813934914707538124030955323570748481
    1619884466688399128777659121310493202520864569409051318977461518190682743568"
  by (rule tabn_dbl [OF base_6_8, where
      x = 378710350808483345476258518229113930956681230162622183554690606721177081672 and
      e = 13631828812134978419090064485087884730464044226729699963436737812636348945881 and i = 480794 and j = 0 and k = 2670764 and l = 80614 and
      v = 17 and u = 0],
      simp only: arith_simps rel_simps, simp only: hex_simps)

lemma base_7_x2: "tabn 9007199254740992
    55114293388014710577873181270176368153397891935701164450115404901685262632356
    26793374489195845885521166144532151671940485951270675431551017925683726708212
    43812662911025766082129843976351189977534900321180007386411805426119737728373"
  by (rule tabn_dbl [OF base_7_x1, where
      x = 28320918898818864692352015125644216481457405984430489018564386976001535924144 and
      e = 13008105099597947739641981818998115509162022456217311741860289643344131800979 and i = 18087034 and j = 0 and k = 3243904 and
      l = 1943484 and v = 16 and u = 0],
      simp only: arith_simps rel_simps, simp only: hex_simps)

lemma base_7_x3: "tabn 18014398509481984
    21808955024583456816737303744330158092622569902218896451330150923923000550685
    13672431629770178892865604500844231025015494962039128962368344144847035232979
    37928332563529951707491765249292792822944693942264091034036279681447408280988"
  by (rule tabn_dbl [OF base_7_x2, where
      x = 8136523394813277923871699243485927067607074940179767488961806779075965317706 and
      e = 14602267309555419716527467296727701054500447664545535581827814374053539967151 and i = 3160134 and j = 0 and k = 4133454 and l = 554004 and
      v = 9 and u = 0],
      simp only: arith_simps rel_simps, simp only: hex_simps)

lemma base_7_x4: "tabn 36028797018963968
    7968477510007827606435445207869657988360779403213970828173573668398676677500
    42216988583537334385361187201734478591033608839682085754733510060674011191937
    22874621506468870787739912786603253911216356036579474225175223628012295757133"
  by (rule tabn_dbl [OF base_7_x3, where
      x = 23647533545128590932859750510479133323962162896352167093168855611681230305512 and
      e = 20590999342738568860624552567340297278048971775212797606337739002011095353509 and i = 3717294 and j = 0 and k = 432339 and l = 1130224 and
      v = 4 and u = 1],
      simp only: arith_simps rel_simps, simp only: hex_simps)

lemma base_7_1: "tabn 72057594037927936
    19570925041999256898631784308054621256670072833025105856440092180243038384648
    32357735381306869076802593254433151670973730536940797444907481256667225822746
    43770426264118918909783461028749446169351069435554305000100345974965960357774"
  by (rule tabn_dbl [OF base_7_x4, where
      x = 45109234279350485533614683557965423512331334628904590431261402927532377381851 and
      e = 49533939281195270509662018730937039774638713567260404582661937931541062657758 and i = 5996824 and j = 1546406 and k = 0 and l = 1966032 and
      v = 4 and u = 1],
      simp only: arith_simps rel_simps, simp only: hex_simps)

lemma base_7_2: "tabn 144115188075855872
    51039699923380686241926513746538724532401573184627754366394327561548459830545
    7570250823697305855744828792920571099562660522204038883862807645658199985137
    44986326881635460017158390896850251516845273638740138404439088669595325866075"
  by (rule tabn_dbl [OF base_7_1, where
      x = 43469449099683380386181684953618153432838912662423715482531519915890259845408 and
      e = 38718005214267559961208189692550886426106658230853586354744448073114776580830 and i = 9509262 and j = 710598 and k = 0 and l = 1990370 and
      v = 6 and u = 0],
      simp only: arith_simps rel_simps, simp only: hex_simps)

lemma base_7_3: "tabn 216172782113783808
    17815927084435082210038786096034969663291287715289744676332007673590765956279
    6128762956563897534774398014169390595416076969443913774251935979979366533203
    51003336391242365398603558657762411510986397970791495328314451449094402742697"
  by (rule tabn_add [OF base_7_2 base_7_1, where
      x = 11687164127871184675264388081865579067875210745845830902080071693611399423076 and
      e = 477282731137168492346475649178947310104505896556737976603257809022446744702998 and i = 5903042 and j = 0 and q = 8054228 and l = 415976 and
      v = 0 and u = 0],
      simp only: arith_simps rel_simps, simp only: distinct_ok_def arith_simps rel_simps simp_thms,
      simp only: hex_simps)

lemma base_7_4: "tabn 288230376151711744
    22941413270620039519460909949925599166829577193988009552828790239236170022419
    20834083520695311253626952769167309003946725336233219162862910833294503308302
    29614353902843101971246659850110438316679250149300710078753997294490125651300"
  by (rule tabn_add [OF base_7_3 base_7_1, where
      x = 2107329749924728265833957180758290162882851857754790389965879405941666714117 and
      e = 244290887213602132592713206144350460332153747683540270428010867859680917364602 and i = 922028 and j = 0 and q = 7453154 and l = 284825 and
      v = 0 and u = 0],
      simp only: arith_simps rel_simps, simp only: distinct_ok_def arith_simps rel_simps simp_thms,
      simp only: hex_simps)

lemma base_7_5: "tabn 360287970189639680
    22605962032561002260906927136646178031493115749982200127214904434001957342516
    50664813297096328312443921941464385705730385675291923877743585599692826537258
    16613905014371456579813876934913138822299369177430058796080334504049853735668"
  by (rule tabn_add [OF base_7_4 base_7_1, where
      x = 29837193354122771660248497699525746252397722407510558269200110838265695625207 and
      e = 45121242764583816506719329976494763365523243000227936741439093379772762117662 and i = 9915752 and j = 0 and q = 2333738 and l = 1752884 and
      v = 0 and u = 1],
      simp only: arith_simps rel_simps, simp only: distinct_ok_def arith_simps rel_simps simp_thms,
      simp only: hex_simps)

lemma base_7_6: "tabn 432345564227567616
    5931602209785778873524491340723204292990788197741444928986670236549472869483
    7205633881201999895518959952678070371222187761568280364026173807974433056707
    10256268312951935922943110046076555499668089573571950425525658998874612834015"
  by (rule tabn_add [OF base_7_5 base_7_1, where
      x = 56622012947241876689791023892389087848403592768993446584689288432531604632725 and
      e = 7546595754638594162899272347929312772117519625015744987496275551523333409914 and i = 26835266 and j = 0 and q = 30182 and l = 781550 and
      v = 2 and u = 1],
      simp only: arith_simps rel_simps, simp only: distinct_ok_def arith_simps rel_simps simp_thms,
      simp only: hex_simps)

lemma base_7_7: "tabn 504403158265495552
    10090155032896329602424533390836796093318855729612379303022474971312290248365
    8251279068613366320340838094603654322369550742089251065867438106278171974973
    54662823356110993230037175131481438882634210937508843203161327271639600064154"
  by (rule tabn_add [OF base_7_6 base_7_1, where
      x = 1838875964282963282083695296233141770949304987523128237155036865034118273392 and
      e = 57220896070295861815686834650257273233471209702143436021961341769576937176161 and i = 800942 and j = 0 and q = 762158 and l = 288252 and
      v = 1 and u = 0],
      simp only: arith_simps rel_simps, simp only: distinct_ok_def arith_simps rel_simps simp_thms,
      simp only: hex_simps)

lemma base_7_8: "tabn 576460752303423488
    2393447640331994166250482562132720221537620759442547295034919510984251685524
    20420990054860851345732385963185922103693551187117402856581670289080268342890
    8717738338969336533237875646016915266408314034239149575065217019907544612024"
  by (rule tabn_add [OF base_7_7 base_7_1, where
      x = 39868502204129240532303589103290752044479061905145426458182041225860548162583 and
      e = 42723457903590780142626163676076914688142931327255205114844172721438534799518 and i = 10527504 and j = 0 and q = 755520 and l = 673302 and
      v = 0 and u = 1],
      simp only: arith_simps rel_simps, simp only: distinct_ok_def arith_simps rel_simps simp_thms,
      simp only: hex_simps)

lemma row_7: "list_all2 multiple [72057594037927936, 144115188075855872, 216172782113783808, 288230376151711744, 360287970189639680, 432345564227567616, 504403158265495552, 576460752303423488] ge_base_7"
  unfolding ge_base_7_def
  by (rule row8,
      (rule tab_ptm [OF base_7_1]; simp only: limb_simps),
      (rule tab_ptm [OF base_7_2]; simp only: limb_simps),
      (rule tab_ptm [OF base_7_3]; simp only: limb_simps),
      (rule tab_ptm [OF base_7_4]; simp only: limb_simps),
      (rule tab_ptm [OF base_7_5]; simp only: limb_simps),
      (rule tab_ptm [OF base_7_6]; simp only: limb_simps),
      (rule tab_ptm [OF base_7_7]; simp only: limb_simps),
      (rule tab_ptm [OF base_7_8]; simp only: limb_simps))

end
