(* ===== verification/BaseRows2.thy ===== *)
theory BaseRows2
  imports BaseRows1
begin

text \<open>
  Certificates for rows 8 to 15 of \<open>ge_base\<close>: entry \<open>j\<close> of row \<open>i\<close> is \<open>(j + 1) * 256 ^ i\<close> times the base point.  In each row the
  second entry is the double of the first and every other one is the sum of its predecessor and the first; five
  doublings lead from the last entry of a row to the first one of the next.
\<close>

text \<open>Row 8.\<close>

lemma base_8_x1: "tabn 1152921504606846976
    30093125196965367685981526264725504754332396466127285897228009251475038571580
    9052034251620205706827156185663229978504786077326025551089469078038877155903
    4902712566943950744199706082070683166550075840709357798969521122100385721661"
  by (rule tabn_dbl [OF base_7_8, where
      x = 21041090945345161979154370079062274775827610388801260346138540173436161415677 and
      e = 7175313594829222902715892568077162372594688069595216823564432763405349041464 and i = 1646622 and j = 300018 and k = 0 and l = 711913 and
      v = 2 and u = 0],
      simp only: arith_simps rel_simps, simp only: hex_simps)

lemma base_8_x2: "tabn 2305843009213693952
    37269293509374695477101338646535471344399171896611579258055354116231451016863
    8000984971521348259300721087162075508022068305263762918653175743525410303157
    30709321957448063394588144500877317005345992180579716333782965449414860911430"
  by (rule tabn_dbl [OF base_8_x1, where
      x = 29268308537853347217800617559373395836377103591347816339402178372706040713706 and
      e = 5478817799458660637531895819155193999668404021577318018013134453359253932199 and i = 3510208 and j = 0 and k = 1320238 and l = 1236140 and
      v = 3 and u = 0],
      simp only: arith_simps rel_simps, simp only: hex_simps)

lemma base_8_x3: "tabn 4611686018427387904
    12579719060343104455282808057167670779768942604076651371217747838342772269098
    47702712675269339434589082051757801648304104337832424757743333112946205248406
    47903551559008303913687900647171278188590054532431085657312883140459997321634"
  by (rule tabn_dbl [OF base_8_x2, where
      x = 22773051003731862732479218509753823058099830599064508633203206729353131840641 and
      e = 28500743782123544247644286047645155362400006417268386657138685400051833682102 and i = 2574455 and j = 0 and k = 992810 and l = 1268732 and
      v = 3 and u = 1],
      simp only: arith_simps rel_simps, simp only: hex_simps)

lemma base_8_x4: "tabn 9223372036854775808
    53546903703359431094648424818051869487029327402182101913279052438002554153131
    49829415220052758663960833463479664041993077134458006921345767835557035854439
    40053574824593079171141973951263233473218669461469752607151618528397986470559"
  by (rule tabn_dbl [OF base_8_x3, where
      x = 3717488483306672430687591354572205445036250267724094991933284602445518298692 and
      e = 6032067500265521960268274905191593908462730401397335159558918472067071750396 and i = 782072 and j = 0 and k = 52082 and l = 457862 and
      v = 4 and u = 0],
      simp only: arith_simps rel_simps, simp only: hex_simps)

lemma base_8_1: "tabn 18446744073709551616
    45811644395853849704390239305739775610481015468619340172495835071193285784853
    14931608858295102652976015651393727842260237676016930108681592522697191371006
    4903261878018343802674235243046271348789391508768465806716633528478782514849"
  by (rule tabn_dbl [OF base_8_x4, where
      x = 30880035537558747051414223654346047768220777792602410063814242548496094413847 and
      e = 38397644271939807435753467462602708807328555572154149822218544198780177871277 and i = 19315937 and j = 0 and k = 2769497 and
      l = 1490257 and v = 16 and u = 0],
      simp only: arith_simps rel_simps, simp only: hex_simps)

lemma base_8_2: "tabn 36893488147419103232
    35915358189563066635996360278622500072546646470003087207407994856299406126981
    33894862684050342114233873808819603409138190338032291464631185092530026718295
    5337171852761355920589028320888701925957450149919026217461911623736877192990"
  by (rule tabn_dbl [OF base_8_1, where
      x = 2020495505512724521762486469802896663408456131970795742776809763769379408686 and
      e = 26820585829248766606773248647626582706924172921832587005148156097231886187461 and i = 395272 and j = 0 and k = 1611922 and l = 189280 and
      v = 5 and u = 0],
      simp only: arith_simps rel_simps, simp only: hex_simps)

lemma base_8_3: "tabn 55340232221128654848
    46349681177630628852521607017182005268874686088518697986163469152413883962006
    29013289842396303425316390666151711061552802329659675758056051080325829339592
    20472250333581509774243954343111719567176413045587415962736141605494126568386"
  by (rule tabn_add [OF base_8_2 base_8_1, where
      x = 17336391335234325427205216351030294207321883758859022228107418072088054622414 and
      e = 597838865649098684976092424397205417734166037499488295199105220249519014922 and i = 10074422 and j = 0 and q = 37338 and l = 1134908 and
      v = 7 and u = 0],
      simp only: arith_simps rel_simps, simp only: distinct_ok_def arith_simps rel_simps simp_thms,
      simp only: hex_simps)

lemma base_8_4: "tabn 73786976294838206464
    29873764967232160522687534444849036661793439430977505697346661260175076455827
    46777538541512666443747153081364834330280081720958040402518689303965422572187
    52632938351182299433261527357784499124852258059911510012562841219046775139143"
  by (rule tabn_add [OF base_8_3 base_8_1, where
      x = 40992271044377591790725873867828156258148350042839747314556763960166218703589 and
      e = 46162974659594397494762544517891059377205683557953608935353660235116802879065 and i = 22456560 and j = 0 and q = 2686276 and
      l = 2535004 and v = 5 and u = 1],
      simp only: arith_simps rel_simps, simp only: distinct_ok_def arith_simps rel_simps simp_thms,
      simp only: hex_simps)

lemma base_8_5: "tabn 92233720368547758080
    3112051921836065348644222196114755243488832285733189044398404409075009015402
    12159861955975290445057844824331012082084888217801685966694141533012363954365
    40197264120199883452839239970295209559427326057889604337880895971409041463626"
  by (rule tabn_add [OF base_8_4 base_8_1, where
      x = 48848234584518872615371869876127697088038936400751785097433054880019209880986 and
      e = 9279400221493519363764826595970671887397572713685850223073095439586678472925 and i = 30669896 and j = 0 and q = 314757 and l = 849688 and
      v = 10 and u = 1],
      simp only: arith_simps rel_simps, simp only: distinct_ok_def arith_simps rel_simps simp_thms,
      simp only: hex_simps)

lemma base_8_6: "tabn 110680464442257309696
    3947863919548614691614883534988426276140516709523172715347108123493758323112
    21689137557940082941822614766396937397624345861441418993573443597081243993436
    8152589214379190206072417138974119756096456562044745843320328181919358371194"
  by (rule tabn_add [OF base_8_5 base_8_1, where
      x = 40154770980266629461577761272935442805151163180902035741502456530369079149625 and
      e = 53166158770509864776005712179464294190632644334984376700612837095005510629528 and i = 10126505 and j = 0 and q = 1184406 and l = 982862 and
      v = 5 and u = 1],
      simp only: arith_simps rel_simps, simp only: distinct_ok_def arith_simps rel_simps simp_thms,
      simp only: hex_simps)

lemma base_8_7: "tabn 129127208515966861312
    3284982037767310412194076277874445779452028111829110568465838708767073636362
    24345458866960735118667089020738796993781333307741865338035214722747307458626
    20593036446323379910244930263182484567868539341959810712747763005363902322676"
  by (rule tabn_add [OF base_8_6 base_8_1, where
      x = 36835567789464673005312479761479602712305687136907527250159415989976330997685 and
      e = 17413768244319072292095472597955353193942793054897215523755735312591608212343 and i = 10624674 and j = 0 and q = 587590 and l = 1023548 and
      v = 5 and u = 1],
      simp only: arith_simps rel_simps, simp only: distinct_ok_def arith_simps rel_simps simp_thms,
      simp only: hex_simps)

lemma base_8_8: "tabn 147573952589676412928
    2380616186269570579948212145036695964692794444412576422026387691350590880129
    21017020806324619273480530910030301619468351367279950396420111391614104450057
    33959264462625075688969793363384944666529816572912100876478553330634808107969"
  by (rule tabn_add [OF base_8_7 base_8_1, where
      x = 39259639998603049018253173739350348271859435409952908045335068303693051250021 and
      e = 47496333003466907867407072897116935286342528322593412677774053297490935378379 and i = 11638680 and j = 0 and q = 871606 and l = 1019092 and
      v = 7 and u = 1],
      simp only: arith_simps rel_simps, simp only: distinct_ok_def arith_simps rel_simps simp_thms,
      simp only: hex_simps)

lemma row_8: "list_all2 multiple [18446744073709551616, 36893488147419103232, 55340232221128654848, 73786976294838206464, 92233720368547758080, 110680464442257309696, 129127208515966861312, 147573952589676412928] ge_base_8"
  unfolding ge_base_8_def
  by (rule row8,
      (rule tab_ptm [OF base_8_1]; simp only: limb_simps),
      (rule tab_ptm [OF base_8_2]; simp only: limb_simps),
      (rule tab_ptm [OF base_8_3]; simp only: limb_simps),
      (rule tab_ptm [OF base_8_4]; simp only: limb_simps),
      (rule tab_ptm [OF base_8_5]; simp only: limb_simps),
      (rule tab_ptm [OF base_8_6]; simp only: limb_simps),
      (rule tab_ptm [OF base_8_7]; simp only: limb_simps),
      (rule tab_ptm [OF base_8_8]; simp only: limb_simps))

text \<open>Row 9.\<close>

lemma base_9_x1: "tabn 295147905179352825856
    20020780039529006300845947799009066733379107699593845039647896546874224898398
    32980252754384554140471826446199976879444157450147215177201146178318733946092
    55993644306976304103344834056106200133776946408320313878767235168643373892415"
  by (rule tabn_dbl [OF base_8_8, where
      x = 44936571903802549872159613857153043780569942582266911882175542372512055772255 and
      e = 52607370773206576777302551455044257885025889059549702035893419079578861823686 and i = 4060717 and j = 1657538 and k = 0 and l = 1950940 and
      v = 3 and u = 1],
      simp only: arith_simps rel_simps, simp only: hex_simps)

lemma base_9_x2: "tabn 590295810358705651712
    12404633805603550874724628254851313373558443696608222607569189903119233983682
    39447725265953999306382624543315991042556680675800157205432771446129763497561
    45221445778998025375833171184333576499365647634350017935692576545326646920856"
  by (rule tabn_dbl [OF base_9_x1, where
      x = 30852953158307649280127496215879276257636755353628347421865210460946035306070 and
      e = 19842159412037473043391873907944946984321302967387895267440176026257645783268 and i = 7304200 and j = 0 and k = 247630 and l = 1305508 and
      v = 6 and u = 1],
      simp only: arith_simps rel_simps, simp only: hex_simps)

lemma base_9_x3: "tabn 1180591620717411303424
    52398358348779610509342589685866162170873741105110226567791376330472334500349
    26973241560935523488720356593300373175214142520019630742708363487218803960237
    47075382832275808187039147293335414219983910690623414856082327892874193689270"
  by (rule tabn_dbl [OF base_9_x2, where
      x = 25425116787844087020622233092565788995659598585090595825083012843253530540112 and
      e = 16253399103573891864313827350816381408954740523312170800482073876768897694254 and i = 3982138 and j = 397802 and k = 0 and l = 1738950 and
      v = 4 and u = 0],
      simp only: arith_simps rel_simps, simp only: hex_simps)

lemma base_9_x4: "tabn 2361183241434822606848
    40557425522788986321441778293671640794084726215204064503883067145245730589812
    26520050914473004359684359514879290922112345566569427120432001634940482719187
    11035558072416893960732099966316874336089397763106644600542897114551980829733"
  by (rule tabn_dbl [OF base_9_x3, where
      x = 14037374608315981961757418778792349871972380648634637383451065510305247870625 and
      e = 50189584690380944179368827532553107070761154776191510726171893129563079267984 and i = 4780575 and j = 0 and k = 1982280 and l = 880229 and
      v = 9 and u = 0],
      simp only: arith_simps rel_simps, simp only: hex_simps)

lemma base_9_1: "tabn 4722366482869645213696
    10409407760910412180907553798087421626730406327956938241765986939166059044043
    39887044591723563269245854972785290334598921988596658549592209198585228435322
    5502157052269489545361353740562109819339592228676418201671732063968905284836"
  by (rule tabn_dbl [OF base_9_x4, where
      x = 28418407787844946623447191329646085218766476672180561711902569744537395428670 and
      e = 42172712761926261938202789776151526329114216646817765096701099269299371750688 and i = 8301794 and j = 0 and k = 758564 and l = 1038268 and
      v = 8 and u = 1],
      simp only: arith_simps rel_simps, simp only: hex_simps)

lemma base_9_2: "tabn 9444732965739290427392
    40896513243296161671444933807481396907541920985647966475485242644194976950597
    56237940223155400881454199037093689750714100792574853316124692989145994167367
    1817463017805287068162815834967074727997328771097404636540050217332800636477"
  by (rule tabn_dbl [OF base_9_1, where
      x = 42554617638798858501776227274731661083462812525893395179089341659005547603179 and
      e = 16624648364274339526305054452467548931020594127547012241162618825206113202273 and i = 4688218 and j = 908372 and k = 0 and l = 3077756 and
      v = 3 and u = 1],
      simp only: arith_simps rel_simps, simp only: hex_simps)

lemma base_9_3: "tabn 14167099448608935641088
    25927521950428956889050219407561855352333046923981562959328821389536591441873
    31763244584669318230155258503741286674382103648785712009619347735023240823766
    53527695826203145207658075886850196286259404332434506926721875858605410720412"
  by (rule tabn_add [OF base_9_2 base_9_1, where
      x = 52060321984417736370680453408164522604585935608016132969438265658469915438056 and
      e = 405887877696454990893093998597423247049337426685007873571307716263837053101407 and i = 31368984 and j = 0 and q = 16274293 and
      l = 2331326 and v = 0 and u = 1],
      simp only: arith_simps rel_simps, simp only: distinct_ok_def arith_simps rel_simps simp_thms,
      simp only: hex_simps)

lemma base_9_4: "tabn 18889465931478580854784
    1252837649804189419187014084342522588421764933639927071679819110106252195058
    30593873904985471582502319832620565938676124214488861468313021438146302192151
    7859943651990459060147687512188717939358419984506045072069369840509830411845"
  by (rule tabn_add [OF base_9_3 base_9_1, where
      x = 28555008363476815548470186756065910576380633051971347623095589675916514822856 and
      e = 185193584293000568857731176016275462218576673338003273507331789429153584563894 and i = 11886144 and j = 0 and q = 4456348 and
      l = 867000 and v = 0 and u = 1],
      simp only: arith_simps rel_simps, simp only: distinct_ok_def arith_simps rel_simps simp_thms,
      simp only: hex_simps)

lemma base_9_5: "tabn 23611832414348226068480
    21434487603839001687603600532527249023247989379734801099195449168315144687053
    24025713092435803267851998223780967916793847979032537480487987917896994705322
    57486446864386749446598818911531311419131633566687342608271230985316832017342"
  by (rule tabn_add [OF base_9_4 base_9_1, where
      x = 55304819130061296131537094813090235033089133733522545638436253254374714801680 and
      e = 34390612612812010435051888300131540267236724916293111369443077751147047053393 and i = 11881798 and j = 0 and q = 1167047 and
      l = 2035466 and v = 2 and u = 1],
      simp only: arith_simps rel_simps, simp only: distinct_ok_def arith_simps rel_simps simp_thms,
      simp only: hex_simps)

lemma base_9_6: "tabn 28334198897217871282176
    31062498344221899951858847721436214809655846137357588828374314183705499890978
    46963985862075618670679751905551430263508527377684534659084942250531346278636
    38639375242256182530522002156010358970794170815715846655767526627348049450871"
  by (rule tabn_add [OF base_9_5 base_9_1, where
      x = 41994557100804378992964588320228738472782311092493336189018163937130718432291 and
      e = 231717474130610976303505100051683291843280513364787566030227368035062964476144 and i = 15240234 and j = 0 and q = 12920368 and
      l = 2593068 and v = 0 and u = 1],
      simp only: arith_simps rel_simps, simp only: distinct_ok_def arith_simps rel_simps simp_thms,
      simp only: hex_simps)

lemma base_9_7: "tabn 33056565380087516495872
    4287683842256768229631627974241471982366033070632201808148999996804307871777
    52659858249002268959479197969463203343577009160904130344851852312523521735042
    39573982994301037469386478770832470053802833111648899801836066420775450914212"
  by (rule tabn_add [OF base_9_6 base_9_1, where
      x = 9523870211912596981937922509122222565424016242548353483025939688237350956684 and
      e = 199054850686871351861495814254968957703943245790462225664188017864549519560730 and i = 5091316 and j = 0 and q = 8124710 and l = 618516 and
      v = 0 and u = 1],
      simp only: arith_simps rel_simps, simp only: distinct_ok_def arith_simps rel_simps simp_thms,
      simp only: hex_simps)

lemma base_9_8: "tabn 37778931862957161709568
    50805719941751636072639545819508420116381714755901827263997675351076064057131
    43864621143673778879720059145761705634008548766967599452868219196731971549962
    15028014674436903151893920167278240259694525373488402876886035842326107614918"
  by (rule tabn_add [OF base_9_7 base_9_1, where
      x = 6941098798077857192919486673746714482373165988934227811129456154344092507169 and
      e = 12257243682440673809152332064417892905144071529612932872807212768025162869926 and i = 2143444 and j = 0 and q = 1040228 and l = 631109 and
      v = 2 and u = 0],
      simp only: arith_simps rel_simps, simp only: distinct_ok_def arith_simps rel_simps simp_thms,
      simp only: hex_simps)

lemma row_9: "list_all2 multiple [4722366482869645213696, 9444732965739290427392, 14167099448608935641088, 18889465931478580854784, 23611832414348226068480, 28334198897217871282176, 33056565380087516495872, 37778931862957161709568] ge_base_9"
  unfolding ge_base_9_def
  by (rule row8,
      (rule tab_ptm [OF base_9_1]; simp only: limb_simps),
      (rule tab_ptm [OF base_9_2]; simp only: limb_simps),
      (rule tab_ptm [OF base_9_3]; simp only: limb_simps),
      (rule tab_ptm [OF base_9_4]; simp only: limb_simps),
      (rule tab_ptm [OF base_9_5]; simp only: limb_simps),
      (rule tab_ptm [OF base_9_6]; simp only: limb_simps),
      (rule tab_ptm [OF base_9_7]; simp only: limb_simps),
      (rule tab_ptm [OF base_9_8]; simp only: limb_simps))

text \<open>Row 10.\<close>

lemma base_10_x1: "tabn 75557863725914323419136
    2713392604461861686723734081934261555305819703129594204603676725602510667418
    29050895300783521808049570404875149001510403583903130624611990717819265733359
    55254956941533252769359749600108426274006860018895847315137968625124374438201"
  by (rule tabn_dbl [OF base_9_8, where
      x = 31558541922336437590459656181403066480430408452046745599720478011739809754008 and
      e = 54068304638429852780602327928428075640844355498003677856753922268744899777044 and i = 16569224 and j = 0 and k = 2456084 and
      l = 1132158 and v = 14 and u = 1],
      simp only: arith_simps rel_simps, simp only: hex_simps)

lemma base_10_x2: "tabn 151115727451828646838272
    26149337995024683493709316671756158759073952828742209801586076066953975534338
    2279560492307930322974539460671633030905577003235254436334310157346744952968
    19611111560372529999436120374740400908244476924395900116058224790873926851447"
  by (rule tabn_dbl [OF base_10_x1, where
      x = 23869777502716753170734777211084525728168375825506955365251765909607230581370 and
      e = 14624313427560093230163007605325790540403147899561259023282899025363555744925 and i = 1132158 and j = 84492 and k = 0 and l = 712726 and
      v = 1 and u = 0],
      simp only: arith_simps rel_simps, simp only: hex_simps)

lemma base_10_x3: "tabn 302231454903657293676544
    37350604812291711739792023108357612565341869762170544755481144045416640066852
    45755846414585105445672620688326532201349422910799802274291305585391877538109
    29238323153042543172713305036336280387169393128519978011901255481281355772454"
  by (rule tabn_dbl [OF base_10_x2, where
      x = 49490803016364704005904894924375034290627439184191024500918630463981327348692 and
      e = 11403040917228778280588390325841154571731294685285650892328402329942176089277 and i = 1686046 and j = 0 and k = 591061 and l = 3143632 and
      v = 1 and u = 1],
      simp only: arith_simps rel_simps, simp only: hex_simps)

lemma base_10_x4: "tabn 604462909807314587353088
    17530766338798746851383918061560411741631057273203184466619043942756004356822
    3251282321307115286448521645722997306489322493944037482195857979136664638322
    33390660389661148918291829114208683695083192707792623712484681142836128391925"
  by (rule tabn_dbl [OF base_10_x3, where
      x = 14279484017491631564935396415837414435141734779259146984423185963619339718500 and
      e = 10526489241044368191812842285933827646728576624559679270084395217787701528086 and i = 5820262 and j = 0 and k = 2170312 and l = 401240 and
      v = 10 and u = 0],
      simp only: arith_simps rel_simps, simp only: hex_simps)

lemma base_10_1: "tabn 1208925819614629174706176
    12551146795280344786005283425206727374339868304857514563015128521932994467329
    40997792406406923892931960786496672588770492779968430725449858439819538674675
    33485073730374884379083389779227338234729520923942262865850302142554981360993"
  by (rule tabn_dbl [OF base_10_x4, where
      x = 29449399007531518604858815143054008712204367857709365857294062086070020612603 and
      e = 57546016528614080276430232140282108424867917032874396882228719201830192475082 and i = 1374560 and j = 1545400 and k = 0 and l = 1363644 and
      v = 2 and u = 1],
      simp only: arith_simps rel_simps, simp only: hex_simps)

lemma base_10_2: "tabn 2417851639229258349412352
    36495074539532668136119300032490930812775115485457478334944836904296518231195
    28516333418621250166851713081094041765280766791088042954180522440055348656537
    11367252765177793858233439092973430268388408749841543810608927814731949300709"
  by (rule tabn_dbl [OF base_10_1, where
      x = 7978741120911417969267586951396889047494348694369435380764314464241169574658 and
      e = 15765305262226038326912098425966448848529110848131680840963495371792939808506 and i = 1850304 and j = 96336 and k = 0 and l = 474202 and
      v = 5 and u = 0],
      simp only: arith_simps rel_simps, simp only: hex_simps)

lemma base_10_3: "tabn 3626777458843887524118528
    55642637717615341722022066033283202987750692292429326885794666159006471668107
    45388308265707171204135539876728540307165058094998853871904211628010648400124
    43683283860073365892155668576944614247275322696205766183044395438496958137475"
  by (rule tabn_add [OF base_10_2 base_10_1, where
      x = 10254329451908170517886526156554662680585634197430473013890454530995823267983 and
      e = 354420521331250765928973856858659679454815541655930065380692552780639051178258 and i = 5974456 and j = 0 and q = 24660208 and
      l = 991545 and v = 0 and u = 0],
      simp only: arith_simps rel_simps, simp only: distinct_ok_def arith_simps rel_simps simp_thms,
      simp only: hex_simps)

lemma base_10_4: "tabn 4835703278458516698824704
    49841877707494860773386729403075123583685643066334864294150530675937342915403
    39722104095206381464614228934810644938615679772415802718864910265527696388205
    24535498564751768623308160965868057934407013164367537539847940370628709232753"
  by (rule tabn_add [OF base_10_3 base_10_1, where
      x = 10119773612288479308772500468264478645069963293919061575285620410409646527198 and
      e = 552586018157510435734034637222302359548591955190221129269524221258493383924233 and i = 7830114 and j = 0 and q = 34302426 and
      l = 755024 and v = 0 and u = 0],
      simp only: arith_simps rel_simps, simp only: distinct_ok_def arith_simps rel_simps simp_thms,
      simp only: hex_simps)

lemma base_10_5: "tabn 6044629098073145873530880
    15886768322867106878845972433249188986890743944471261304099714849292101070534
    32988107716371446779087377870404657813439565920308070991526520112487875878852
    3441780851394278158737351347696032360737436214194577604671804153004370359238"
  by (rule tabn_add [OF base_10_4 base_10_1, where
      x = 40794705225153757811544087067188485100086170356983472332301986740760790011631 and
      e = 522754606732337361802014465827293360626527138458166095783445567605889478587532 and i = 26938328 and j = 0 and q = 17641130 and
      l = 1560704 and v = 0 and u = 1],
      simp only: arith_simps rel_simps, simp only: distinct_ok_def arith_simps rel_simps simp_thms,
      simp only: hex_simps)

lemma base_10_6: "tabn 7253554917687775048237056
    14002229061428294927642145219672890724189146667978310305245520293898074014277
    1605125088735393708460004180700736759350428710163310188661303736603845332468
    39518910697847951169999680384286526545770905682021645886881699719392915782636"
  by (rule tabn_add [OF base_10_5 base_10_1, where
      x = 12397103972692901219182141038972153964838717957815000116584216557294228681809 and
      e = 2624159224911114344103882811699970593662709491986149670222734094963629929590 and i = 4384328 and j = 46270 and q = 0 and l = 348193 and
      v = 0 and u = 0],
      simp only: arith_simps rel_simps, simp only: distinct_ok_def arith_simps rel_simps simp_thms,
      simp only: hex_simps)

lemma base_10_7: "tabn 8462480737302404222943232
    14491890080572956642542083072864767624748676961835058370459993626642424846337
    30681127199258015214961044843666609718360694794592528849130584784068893224911
    2287696475949916164339876772734410735036653014826086398481396827834583431877"
  by (rule tabn_add [OF base_10_6 base_10_1, where
      x = 41706807499973039139366530733542111833022974500062811541058200846530096441375 and
      e = 213738671683157856508916533715612304343427387135396049403465738716832601264951 and i = 7795087 and j = 0 and q = 6892774 and
      l = 1545396 and v = 0 and u = 1],
      simp only: arith_simps rel_simps, simp only: distinct_ok_def arith_simps rel_simps simp_thms,
      simp only: hex_simps)

lemma base_10_8: "tabn 9671406556917033397649408
    44018790363729709212780562682442065758707333830111016380003737856641658677482
    33949792137526630374438171331464033499912161404110416057409092333692073741468
    14444229970904592008261237635174111186370575486154208825027892819311738248598"
  by (rule tabn_add [OF base_10_7 base_10_1, where
      x = 10068998226203078838342391350978032258795172426000600322594645522949584936014 and
      e = 85840370775306597909199975700888355890883724017960407479709946084162116180216 and i = 3152370 and j = 0 and q = 4561692 and l = 704994 and
      v = 0 and u = 0],
      simp only: arith_simps rel_simps, simp only: distinct_ok_def arith_simps rel_simps simp_thms,
      simp only: hex_simps)

lemma row_10: "list_all2 multiple [1208925819614629174706176, 2417851639229258349412352, 3626777458843887524118528, 4835703278458516698824704, 6044629098073145873530880, 7253554917687775048237056, 8462480737302404222943232, 9671406556917033397649408] ge_base_10"
  unfolding ge_base_10_def
  by (rule row8,
      (rule tab_ptm [OF base_10_1]; simp only: limb_simps),
      (rule tab_ptm [OF base_10_2]; simp only: limb_simps),
      (rule tab_ptm [OF base_10_3]; simp only: limb_simps),
      (rule tab_ptm [OF base_10_4]; simp only: limb_simps),
      (rule tab_ptm [OF base_10_5]; simp only: limb_simps),
      (rule tab_ptm [OF base_10_6]; simp only: limb_simps),
      (rule tab_ptm [OF base_10_7]; simp only: limb_simps),
      (rule tab_ptm [OF base_10_8]; simp only: limb_simps))

text \<open>Row 11.\<close>

lemma base_11_x1: "tabn 19342813113834066795298816
    35905976425759216951032961192435556430844196618167511537329817914065114522144
    36398842653090509339062756880536732468749778493576125882477939014127250597385
    17110644016699134319165316291043465348041710489226873362876141884249697304116"
  by (rule tabn_dbl [OF base_10_8, where
      x = 57403178391326805323755696816242777888729410457411667674580670903894428744708 and
      e = 1876925180449603168407599408171067906854236335626763951085374183563526022038 and i = 23091354 and j = 0 and k = 2651634 and l = 3124928 and
      v = 10 and u = 1],
      simp only: arith_simps rel_simps, simp only: hex_simps)

lemma base_11_x2: "tabn 38685626227668133590597632
    29627051913227713816332507458185230140323706499467651432590251247615080541013
    21540843015634029490841174471559232856665002667821908647205975174421615849839
    9895281481740137184170159382250087301103941079885107187823878055094047516123"
  by (rule tabn_dbl [OF base_11_x1, where
      x = 8086208897593684325491332986625997283658703831645742785384276073193464691174 and
      e = 47517279342206320893831259258438029081896514056275019856550495485818235561347 and i = 2881598 and j = 0 and k = 448298 and l = 469934 and
      v = 9 and u = 0],
      simp only: arith_simps rel_simps, simp only: hex_simps)

lemma base_11_x3: "tabn 77371252455336267181195264
    3768659024341117249491098723584122266706344333981622657919620339066347168351
    27729876039901811366790817540567895862704159966852391093122791842554353918162
    46841784738070153871786747209249356168801862172373981297620756285491055013145"
  by (rule tabn_dbl [OF base_11_x2, where
      x = 33934827603097403594485773687360180330637176699949513584525620500468558070138 and
      e = 21758644853960114678321928989280139422682809890653923995734270008366730679575 and i = 5093204 and j = 0 and k = 834929 and l = 1020710 and
      v = 4 and u = 1],
      simp only: arith_simps rel_simps, simp only: hex_simps)

lemma base_11_x4: "tabn 154742504910672534362390528
    18483503046857252429375645563637754951587132532205348576753810508712804608332
    13324204498244154729700179562847089505007953015145942743907926454844256606482
    34505722344444351453194346731721085511704801912037622584435426310526413283140"
  by (rule tabn_dbl [OF base_11_x3, where
      x = 5159298548613097699675466000790665446579179517059405832845884053868548001850 and
      e = 3451868572667337399100787673472189572136444692361244371414506061044146282666 and i = 777380 and j = 0 and k = 534050 and l = 328470 and
      v = 2 and u = 0],
      simp only: arith_simps rel_simps, simp only: hex_simps)

lemma base_11_1: "tabn 309485009821345068724781056
    18093175831105203409136265979036664672107261611153947917160847590957287697286
    38130831442855550483773723253374209757463307039962625227408733545849508278678
    51967296633057552634562772832257678922046988695490898018368777076434258790024"
  by (rule tabn_dbl [OF base_11_x4, where
      x = 37858389006907750637148035230006408841278946904011604709480906049064344238557 and
      e = 55628814393092600758230686001916653853827293424662014039411790224486410849329 and i = 3248430 and j = 1618170 and k = 0 and l = 1770902 and
      v = 3 and u = 1],
      simp only: arith_simps rel_simps, simp only: hex_simps)

lemma base_11_2: "tabn 618970019642690137449562112
    14443084430956549588659367641273528370353783782740928986766626844634650408487
    40985872620517089032726712045624733953636406315422604483916597713210708133967
    440388839717671713303548485964269219707467680841327350262128638116755142629"
  by (rule tabn_dbl [OF base_11_1, where
      x = 31353256429097558267718148099992748343352369800138606522578821135380507094469 and
      e = 29998186890415388353534774962657601131593624719508289135954766129240355860878 and i = 7124162 and j = 175738 and k = 0 and l = 1295882 and
      v = 6 and u = 1],
      simp only: arith_simps rel_simps, simp only: hex_simps)

lemma base_11_3: "tabn 928455029464035206174343168
    32439310879054851416469492634174468287917792823916521075011772673739405104979
    3547142143128551810973458005220688878164255476686216840087211870774759731378
    12758627915086882806602622111074157520212429102962903284417876229454507334930"
  by (rule tabn_add [OF base_11_2 base_11_1, where
      x = 28892168735926299605496034628953779409753537347230304234924560802964645373601 and
      e = 4300102512928342466842910420159357119768951271702709981761368128393328404545 and i = 11826664 and j = 0 and q = 133305 and l = 866975 and
      v = 1 and u = 0],
      simp only: arith_simps rel_simps, simp only: distinct_ok_def arith_simps rel_simps simp_thms,
      simp only: hex_simps)

lemma base_11_4: "tabn 1237940039285380274899124224
    25536325049662909384565043773751922868346237107333085459076934566437964202073
    12772575158048500349487260263939307723688114546773794200667390317270405981002
    2773748226581802518971979195469775636656926904151111434408438923009122821402"
  by (rule tabn_add [OF base_11_3 base_11_1, where
      x = 12763749891614409035077783509812615144658122560559291258409544249167558221071 and
      e = 406232695185028935864090812222871040530824897857257320892676280549167071146298 and i = 5436172 and j = 0 and q = 10654248 and
      l = 389361 and v = 0 and u = 0],
      simp only: arith_simps rel_simps, simp only: distinct_ok_def arith_simps rel_simps simp_thms,
      simp only: hex_simps)

lemma base_11_5: "tabn 1547425049106725343623905280
    42316598777827856202847032304408301934376271191935521211009874216487856369907
    13845158851660443297188331230078931452678314491367257000866835308144591757
    9731513902723286330878632820307511737128355923783456725103354275196697749835"
  by (rule tabn_add [OF base_11_4 base_11_1, where
      x = 42302753618976195759549843973178223002923592877444153954009007381179711778150 and
      e = 200574556328295021395072881649158468853864399872542429799039380068797307418544 and i = 17368388 and j = 0 and q = 5796694 and
      l = 1442980 and v = 0 and u = 0],
      simp only: arith_simps rel_simps, simp only: distinct_ok_def arith_simps rel_simps simp_thms,
      simp only: hex_simps)

lemma base_11_6: "tabn 1856910058928070412348686336
    33174364015509957735297600843593485805310060955272785366466948162357007558855
    16810439894045052574530032261120828567996149537597899333752995936916903983841
    3441977141688987893661722805178266288364600850133351133578559918930315896845"
  by (rule tabn_add [OF base_11_5 base_11_1, where
      x = 16363924121464905160767568582472657237313911417674886032713952225440103575014 and
      e = 533912405813793809151711212773290218318696805983031049771580267617807303971342 and i = 7350492 and j = 0 and q = 18408488 and
      l = 610960 and v = 0 and u = 0],
      simp only: arith_simps rel_simps, simp only: distinct_ok_def arith_simps rel_simps simp_thms,
      simp only: hex_simps)

lemma base_11_7: "tabn 2166395068749415481073467392
    46773306435711631794726723866133267286239584300745604814495258885081655529558
    49719117039379561960727064122715192776237081035466516337350557383074067935231
    36758135662363521121267190264335410215601720965794361523525726559512712036787"
  by (rule tabn_add [OF base_11_6 base_11_1, where
      x = 54950234014990167545785152247762028436637495598099370496873493505964152414276 and
      e = 290389487683952345647328071660270665356454299985623374618675991402389624015292 and i = 23308242 and j = 0 and q = 19279778 and
      l = 3983896 and v = 0 and u = 1],
      simp only: arith_simps rel_simps, simp only: distinct_ok_def arith_simps rel_simps simp_thms,
      simp only: hex_simps)

lemma base_11_8: "tabn 2475880078570760549798248448
    8554300719362861572066305212124797712270304312694761205516806511965169951829
    8637115891484814864788369266245142551117964664520218485355214828264014235985
    54141300935566969612522165659077718047880846769369646518760922344386421832494"
  by (rule tabn_add [OF base_11_7 base_11_1, where
      x = 57813229446536144419063428450223609087787331980994824739890383687657720535793 and
      e = 335941773773784637479018202589391232010416926917882104246144535626646056796268 and i = 42740958 and j = 0 and q = 4159634 and
      l = 1069942 and v = 0 and u = 1],
      simp only: arith_simps rel_simps, simp only: distinct_ok_def arith_simps rel_simps simp_thms,
      simp only: hex_simps)

lemma row_11: "list_all2 multiple [309485009821345068724781056, 618970019642690137449562112, 928455029464035206174343168, 1237940039285380274899124224, 1547425049106725343623905280, 1856910058928070412348686336, 2166395068749415481073467392, 2475880078570760549798248448] ge_base_11"
  unfolding ge_base_11_def
  by (rule row8,
      (rule tab_ptm [OF base_11_1]; simp only: limb_simps),
      (rule tab_ptm [OF base_11_2]; simp only: limb_simps),
      (rule tab_ptm [OF base_11_3]; simp only: limb_simps),
      (rule tab_ptm [OF base_11_4]; simp only: limb_simps),
      (rule tab_ptm [OF base_11_5]; simp only: limb_simps),
      (rule tab_ptm [OF base_11_6]; simp only: limb_simps),
      (rule tab_ptm [OF base_11_7]; simp only: limb_simps),
      (rule tab_ptm [OF base_11_8]; simp only: limb_simps))

text \<open>Row 12.\<close>

lemma base_12_x1: "tabn 4951760157141521099596496896
    32364399508626710899416853671937516916518441965696484319950818283868609368731
    5040935096316101636470438701185741236436715863683671398107770716543173862999
    35183468570218605303335080881177580110510010843606522993988233066837433844416"
  by (rule tabn_dbl [OF base_11_8, where
      x = 27323464412310609262946414970751775680081726102012812921843047567325435505732 and
      e = 24443887160216420883384761386900029509194593188741945259301809890102521611689 and i = 2043262 and j = 146708 and k = 0 and l = 1034518 and
      v = 2 and u = 0],
      simp only: arith_simps rel_simps, simp only: hex_simps)

lemma base_12_x2: "tabn 9903520314283042199192993792
    48730502736573766327320742472093931472030717953993328008002161838994460789109
    37268943610949337775671098878598508810882793289621511950706282659034249070262
    97787492866089091754221454824411310150020137928504154387103059499664346454"
  by (rule tabn_dbl [OF base_12_x1, where
      x = 11461559125624428551649643593495422661147924664371816057295879179960211718847 and
      e = 26918165750411389978870990019008943040497075070037735380127560620713479953958 and i = 1399513 and j = 182132 and k = 0 and l = 857367 and
      v = 3 and u = 0],
      simp only: arith_simps rel_simps, simp only: hex_simps)

lemma base_12_x3: "tabn 19807040628566084398385987584
    56297996893969707610871067331604571443081171123708602659922814047193196201398
    1651466092629576823795517277661286170299574555301276048970089213918242743453
    19096275896652102887334728364500986376213425788592372741299480329572421147829"
  by (rule tabn_dbl [OF base_12_x2, where
      x = 54646530801340130787075550053943285272781596568407326610952724833274953457945 and
      e = 12798395842934924148791318754586391959206377756701017288806067028836292272354 and i = 25798692 and j = 0 and k = 2682342 and
      l = 2367117 and v = 12 and u = 0],
      simp only: arith_simps rel_simps, simp only: hex_simps)

lemma base_12_x4: "tabn 39614081257132168796771975168
    16334867078389064885109837060467176931969929372189737577955599726276904395315
    6451277858413706921351461060238480843995938592018322958137771311960455654875
    13367948241636799057143437834641419209055427940465183989508185748330434548423"
  by (rule tabn_dbl [OF base_12_x3, where
      x = 9883589219975357963758376000228696087973990780171414619817828414316448740440 and
      e = 12619054724034757260878888496585580914018370698289978003048223613055710744152 and i = 785472 and j = 0 and k = 4192092 and l = 257004 and
      v = 2 and u = 0],
      simp only: arith_simps rel_simps, simp only: hex_simps)

lemma base_12_1: "tabn 79228162514264337593543950336
    3451681248724956125404306134506119402031398338084969228439151311589237174436
    45103340189645008687377119205687495755236823628386648868825446224184048796894
    28297658592470300655303560295180875926238688072306165652922367172486111322056"
  by (rule tabn_dbl [OF base_12_x4, where
      x = 16244385677738045149812679433162577573429567042518602379342497091361753197491 and
      e = 51025207032741953972181334600165055126523023417533858008129183923176594425311 and i = 865329 and j = 959646 and k = 0 and l = 900728 and
      v = 2 and u = 1],
      simp only: arith_simps rel_simps, simp only: hex_simps)

lemma base_12_2: "tabn 158456325028528675187087900672
    15756801480033533000436438998988043638671649943519845201810543220041725235516
    53249647316924474924764553206973140789479264795143211720665224465792826909332
    4079321919088451155970934217257812130278932260953966036494325850329458790806"
  by (rule tabn_dbl [OF base_12_1, where
      x = 20403198781767155787457378296358856775827377481196915500874110758205463146133 and
      e = 48355254224724833721923891170831694819716248735204283832439416358056852207817 and i = 2117378 and j = 1775902 and k = 0 and l = 992618 and
      v = 3 and u = 1],
      simp only: arith_simps rel_simps, simp only: hex_simps)

lemma base_12_3: "tabn 237684487542793012780631851008
    44440916243623654813196625181418591040528612902186678982718949176108874547385
    30704408044933336248267902861681307394716900345009394572633209542762833809820
    39234047837535946933120500347005935939694720814273465479239074552640111285664"
  by (rule tabn_add [OF base_12_2 base_12_1, where
      x = 13736508198690318564928722319737283645811712557177284410085739633346040737565 and
      e = 249270793270840050436108048686553645983525291970992445754607985063598607639538 and i = 3839986 and j = 0 and q = 12988380 and
      l = 895547 and v = 0 and u = 0],
      simp only: arith_simps rel_simps, simp only: distinct_ok_def arith_simps rel_simps simp_thms,
      simp only: hex_simps)

lemma base_12_4: "tabn 316912650057057350374175801344
    1657642902410680979185778983970883571334443772437747441707225992473817725874
    13181841549110855159919512279783325840547157315235750495635063425349232964587
    30620135049508188460763188723509672297382823174620355808252175549280309005855"
  by (rule tabn_add [OF base_12_3 base_12_1, where
      x = 46371845971957923531051759208531511657422278790022278965800954571081149581236 and
      e = 537167226898453809364680661670937376599948057077862017027579691219933898605936 and i = 26980930 and j = 0 and q = 5713074 and
      l = 787340 and v = 0 and u = 1],
      simp only: arith_simps rel_simps, simp only: distinct_ok_def arith_simps rel_simps simp_thms,
      simp only: hex_simps)

lemma base_12_5: "tabn 396140812571321687967719751680
    1224134340757965131163741168243001488498711245882595056506733627075133248356
    22785851986130116988131371492606015709462635997931021963575071712110865775035
    17934878317772159459703251849692635162692781134517689976419273380857793056242"
  by (rule tabn_add [OF base_12_4 base_12_1, where
      x = 36334326973285945854817862179980939705671067580771855112660453918920832293270 and
      e = 26402733163385391604964388771279722443570148646334036632928486652330259071214 and i = 3391378 and j = 0 and q = 616602 and l = 793906 and
      v = 0 and u = 1],
      simp only: arith_simps rel_simps, simp only: distinct_ok_def arith_simps rel_simps simp_thms,
      simp only: hex_simps)

lemma base_12_6: "tabn 475368975085586025561263702016
    15415763940067026565150376945147767989056188998832090300131269342076864391508
    20224114555038773758328667742894897656134329851848509005288530948311422448008
    55687407906356314834157785956404136077810055735313337975029750174690426216912"
  by (rule tabn_add [OF base_12_5 base_12_1, where
      x = 53087694003686350518607201706596824259556851479803863314571530397722006763449 and
      e = 22624142928530160507160315300978185611093519112710360603260987576948148169813 and i = 5101254 and j = 0 and q = 623168 and l = 1688426 and
      v = 1 and u = 1],
      simp only: arith_simps rel_simps, simp only: distinct_ok_def arith_simps rel_simps simp_thms,
      simp only: hex_simps)

lemma base_12_7: "tabn 554597137599850363154807652352
    47226954303977824279015135365200687385856393548721672548066108672547954947468
    44321242324127141208161485302311265456056358988767397337360352541062405988900
    32028163196612385717047854050109193046872393665088466084927211248292476754042"
  by (rule tabn_add [OF base_12_6 base_12_1, where
      x = 2905711979850683070853650062889421929800034559954275210705756131485548958568 and
      e = 238640720627256702958502881716333404728245045058368719494163234414091183443160 and i = 1129174 and j = 0 and q = 15387498 and
      l = 552806 and v = 0 and u = 0],
      simp only: arith_simps rel_simps, simp only: distinct_ok_def arith_simps rel_simps simp_thms,
      simp only: hex_simps)

lemma base_12_8: "tabn 633825300114114700748351602688
    7416636603008590397307522481702996285995260977307934364629635910294808658240
    18644624671334305740764735802732794703876461150661175072230055477676066792953
    47778366753236297181352475211256767642049858902999256697989242090595700182359"
  by (rule tabn_add [OF base_12_7 base_12_1, where
      x = 46668056550332382368328279183314155508753792159467041312128372436575306685236 and
      e = 675809273259528510756584069036478519503974318250424008049875676865369853650334 and i = 29679814 and j = 0 and q = 12305238 and
      l = 1282182 and v = 0 and u = 1],
      simp only: arith_simps rel_simps, simp only: distinct_ok_def arith_simps rel_simps simp_thms,
      simp only: hex_simps)

lemma row_12: "list_all2 multiple [79228162514264337593543950336, 158456325028528675187087900672, 237684487542793012780631851008, 316912650057057350374175801344, 396140812571321687967719751680, 475368975085586025561263702016, 554597137599850363154807652352, 633825300114114700748351602688] ge_base_12"
  unfolding ge_base_12_def
  by (rule row8,
      (rule tab_ptm [OF base_12_1]; simp only: limb_simps),
      (rule tab_ptm [OF base_12_2]; simp only: limb_simps),
      (rule tab_ptm [OF base_12_3]; simp only: limb_simps),
      (rule tab_ptm [OF base_12_4]; simp only: limb_simps),
      (rule tab_ptm [OF base_12_5]; simp only: limb_simps),
      (rule tab_ptm [OF base_12_6]; simp only: limb_simps),
      (rule tab_ptm [OF base_12_7]; simp only: limb_simps),
      (rule tab_ptm [OF base_12_8]; simp only: limb_simps))

text \<open>Row 13.\<close>

lemma base_13_x1: "tabn 1267650600228229401496703205376
    26135278318867212160009877132759729477683821448533088453593545567162306742068
    26438595769799614534171280426746668914667059326668886443774027154481945892503
    5853414872288491317035286370487192970091429453870352486089087595085813673064"
  by (rule tabn_dbl [OF base_12_8, where
      x = 57592727167725695337624089210357014489651754454684484029548310416636925669514 and
      e = 22916724906230814381466907079466344674717414136906615970575040033050075288120 and i = 3958812 and j = 664458 and k = 0 and l = 2264332 and
      v = 2 and u = 1],
      simp only: arith_simps rel_simps, simp only: hex_simps)

lemma base_13_x2: "tabn 2535301200456458802993406410752
    42363118222225576852150967470876969773177173716850687553237061623958791951450
    55954407209457526793690411706780560375786115013801438265594667524299894869181
    49219053954548784427901631658030856800377595045088225681210984028582316086687"
  by (rule tabn_dbl [OF base_13_x1, where
      x = 44304755631426147770246048268440363324026051035869531307371186103615461902218 and
      e = 46587683867230277330584449360829333365207181084266956183625696968654222372946 and i = 9320902 and j = 2358938 and k = 0 and l = 3444576 and
      v = 6 and u = 1],
      simp only: arith_simps rel_simps, simp only: hex_simps)

lemma base_13_x3: "tabn 5070602400912917605986812821504
    41685755285441343534555699146164460473739804412644429165592581933281107039532
    12339900863810792922652965807427786040792475232367501540178739227893090482169
    15459181252117847875973832572244223826877252876963489309910495157142316005249"
  by (rule tabn_dbl [OF base_13_x2, where
      x = 29345854421630550611902733338736674432947329180276927625413842705388016557363 and
      e = 3112568631503911020187135372201872733731328534126806902134048014369829865664 and i = 16584396 and j = 0 and k = 2471256 and l = 1313457 and
      v = 14 and u = 0],
      simp only: arith_simps rel_simps, simp only: hex_simps)

lemma base_13_x4: "tabn 10141204801825835211973625643008
    41936275459278513892028662869335319825667417788472248668580578659898212719895
    14115791234651454395533986752642788355257831724545871947750268436768458849437
    56392202819701845307248331616619220756472864233606087015210541083076626721776"
  by (rule tabn_dbl [OF base_13_x3, where
      x = 27820484224627059496494676116692531470409586063926376720830310223129753870458 and
      e = 39847449087180900352385768759098252359729067033426438232730631182784549539147 and i = 5085072 and j = 0 and k = 1191792 and l = 1444118 and
      v = 5 and u = 0],
      simp only: arith_simps rel_simps, simp only: hex_simps)

lemma base_13_1: "tabn 20282409603651670423947251286016
    17050802196709616403451826406002316478412621982043150101367430519877804608237
    52203088490620088308042053124240008862847193975950073103887513132592090740924
    9103515523008784562695423184923351107613308450210777404127932226187352893540"
  by (rule tabn_dbl [OF base_13_x4, where
      x = 22743758324747625807195265786106261542200420338913359017208709391242278687262 and
      e = 3734644247511270988859751776429431901189344088335209307272353703147461209104 and i = 4850738 and j = 0 and k = 2417438 and l = 1331900 and
      v = 5 and u = 1],
      simp only: arith_simps rel_simps, simp only: hex_simps)

lemma base_13_2: "tabn 40564819207303340847894502572032
    22573647065340699243320992404744280641666553104019618788389057393756430162640
    43744013194210237770675985085980306992599423881353672810344758870573299126679
    38812541435861490770655985701028575093438945430707955995503236971241199250255"
  by (rule tabn_dbl [OF base_13_1, where
      x = 36725678489788559184430499823107927575702121555486227997773090527139695855910 and
      e = 3797277777561008927104638361806037885593631340320658631228031245865444032670 and i = 8875130 and j = 0 and k = 358580 and l = 2068770 and
      v = 6 and u = 1],
      simp only: arith_simps rel_simps, simp only: hex_simps)

lemma base_13_3: "tabn 60847228810955011271841753858048
    11913819842656967474321100739231016457069267572181532889836541172524244110418
    46408704785010430089430157331749708437756204194011099043272805321015644274008
    8941153069618605051482433710346069178571866358541160236645708615375484996076"
  by (rule tabn_add [OF base_13_2 base_13_1, where
      x = 23401159676304635096676435911825261945948055710990715866292527855465164656359 and
      e = 187582365715715364750988817582716754682910149974385754796577221690710853407225 and i = 12525545 and j = 0 and q = 7793440 and
      l = 1095778 and v = 0 and u = 1],
      simp only: arith_simps rel_simps, simp only: distinct_ok_def arith_simps rel_simps simp_thms,
      simp only: hex_simps)

lemma base_13_4: "tabn 81129638414606681695789005144064
    36520345722324076610985185928719706425140626294046643152997554760501764542592
    46574175429131291097669420260105784050079243965530113979009886462375548412345
    13494103053668598903589791877311297549845491731244982658545242321910518243601"
  by (rule tabn_add [OF base_13_3 base_13_1, where
      x = 47842214911850883225101258172957876301696374661336811193716460302082780950196 and
      e = 32125790681660502285608952778991420227062142698944607611529579115970817736116 and i = 16540818 and j = 0 and q = 1953848 and
      l = 2839738 and v = 2 and u = 1],
      simp only: arith_simps rel_simps, simp only: distinct_ok_def arith_simps rel_simps simp_thms,
      simp only: hex_simps)

lemma base_13_5: "tabn 101412048018258352119736256430080
    26337098982976705886303777421963936910791435853525942293568639141339123599514
    6509679330888371759619182018875260324098564977301679400818035329191622349437
    22411665294546784562718747915031242875366554293809289025569168673557207139879"
  by (rule tabn_add [OF base_13_4 base_13_1, where
      x = 19827419652088334126684595403088676586692870876224262892750603812147501250077 and
      e = 346983117588315233217393508533898399304703753904157633341603735941208296145707 and i = 15243153 and j = 0 and q = 7956083 and
      l = 549467 and v = 0 and u = 0],
      simp only: arith_simps rel_simps, simp only: distinct_ok_def arith_simps rel_simps simp_thms,
      simp only: hex_simps)

lemma base_13_6: "tabn 121694457621910022543683507716096
    36457576209297191189783948203546239530121394583105015122929077937334640300952
    15513775838405879491189371088024770907731279942493584615198249675203423501849
    2600689399289121054568854415049079709889840627776391901455100499738077242857"
  by (rule tabn_add [OF base_13_5 base_13_1, where
      x = 20943800370891311698594577115521468622390114640611430507730828262131216799103 and
      e = 391657884758485848738574633567419595509279181158991304290398320337515095691309 and i = 8937937 and j = 0 and q = 14304027 and
      l = 929501 and v = 0 and u = 0],
      simp only: arith_simps rel_simps, simp only: distinct_ok_def arith_simps rel_simps simp_thms,
      simp only: hex_simps)

lemma base_13_7: "tabn 141976867225561692967630759002112
    39525195698761792489520470432465029528341483267007663756624662941785148166884
    54297948675728140644472591065005055527219321824171520056214734149289071271947
    43401000024929860870443748577085362889392788972970373030492181978042218786911"
  by (rule tabn_add [OF base_13_6 base_13_1, where
      x = 43123291641691749556833371871803927927757153775656425720138720796452641714886 and
      e = 552812467670727409103520651185542046099513677166751223550123843518778746648063 and i = 27446056 and j = 0 and q = 35853771 and
      l = 3071128 and v = 0 and u = 1],
      simp only: arith_simps rel_simps, simp only: distinct_ok_def arith_simps rel_simps simp_thms,
      simp only: hex_simps)

lemma base_13_8: "tabn 162259276829213363391578010288128
    18920913643405533656738045503765165168632395996461679378446089026893528864064
    7424318006592320563499006472713913822931081011006121230596605644930894388125
    33788371045053549569082616380973010795613804317075653702296435700278488159184"
  by (rule tabn_add [OF base_13_7 base_13_1, where
      x = 11496595636813213093239039031051251345701314985455558147849483381962634475939 and
      e = 327545807489205125427255146323787857456870135019710357742144386167764854233213 and i = 9147963 and j = 0 and q = 6240833 and l = 443637 and
      v = 0 and u = 0],
      simp only: arith_simps rel_simps, simp only: distinct_ok_def arith_simps rel_simps simp_thms,
      simp only: hex_simps)

lemma row_13: "list_all2 multiple [20282409603651670423947251286016, 40564819207303340847894502572032, 60847228810955011271841753858048, 81129638414606681695789005144064, 101412048018258352119736256430080, 121694457621910022543683507716096, 141976867225561692967630759002112, 162259276829213363391578010288128] ge_base_13"
  unfolding ge_base_13_def
  by (rule row8,
      (rule tab_ptm [OF base_13_1]; simp only: limb_simps),
      (rule tab_ptm [OF base_13_2]; simp only: limb_simps),
      (rule tab_ptm [OF base_13_3]; simp only: limb_simps),
      (rule tab_ptm [OF base_13_4]; simp only: limb_simps),
      (rule tab_ptm [OF base_13_5]; simp only: limb_simps),
      (rule tab_ptm [OF base_13_6]; simp only: limb_simps),
      (rule tab_ptm [OF base_13_7]; simp only: limb_simps),
      (rule tab_ptm [OF base_13_8]; simp only: limb_simps))

text \<open>Row 14.\<close>

lemma base_14_x1: "tabn 324518553658426726783156020576256
    55908560528115313337331192079572976987930751259182231978092407972406010699860
    47349562114064199049455505554885199492921087886151761769310924232981104345321
    20389120783135300269061822752274797201286801113084183102336892167256542399500"
  by (rule tabn_dbl [OF base_13_8, where
      x = 8558998414051114287875686524687777495009663373030470208781483739424906354539 and
      e = 51502239274683619675003612080374982782674899328054522926121764715434869513898 and i = 565302 and j = 2597988 and k = 0 and l = 842695 and
      v = 2 and u = 0],
      simp only: arith_simps rel_simps, simp only: hex_simps)

lemma base_14_x2: "tabn 649037107316853453566312041152512
    24470320021653743288553553922194293610598963554618716086300327973575442987602
    48629386808616182719844028849663762289686733341344123443681278045224005122266
    48203973432746698438400961203686870591815746147904382364561534034586043073714"
  by (rule tabn_dbl [OF base_14_x1, where
      x = 33736977831695658280495017576874485247547222546094874662347841932308002685285 and
      e = 45760598023105865692774965443501898864158198428069912112562518472796092317580 and i = 20674090 and j = 0 and k = 1937680 and
      l = 2085822 and v = 16 and u = 1],
      simp only: arith_simps rel_simps, simp only: hex_simps)

lemma base_14_x3: "tabn 1298074214633706907132624082305024
    17657945628621291754587269042775545983098884255332522933504015958020196600278
    9438494402160282901937930369681759573700187954581341631581855985215670587320
    11598894644876474819351421380637895738969317752102519526692567530505599593420"
  by (rule tabn_dbl [OF base_14_x2, where
      x = 8219451226461008852649338673093786409398696300751181301922159972804526012958 and
      e = 52167234117111054219448083520206250637214480036387715651698884513468976483554 and i = 2572482 and j = 0 and k = 139182 and l = 347370 and
      v = 8 and u = 0],
      simp only: arith_simps rel_simps, simp only: hex_simps)

lemma base_14_x4: "tabn 2596148429267413814265248164610048
    38460449615910280820790371532023959880302718778121194725079464555426341357048
    33007988241098964107613687859081433524086423507854904238311567619436896863889
    39584939249630978671154511520263274840610269716264516148611131168718593553148"
  by (rule tabn_dbl [OF base_14_x3, where
      x = 5452461374811316713176683672942526356216295270266290486767896935989444493159 and
      e = 12520289234069768068376713388622452098978253111819536629905623009756777681206 and i = 590700 and j = 139290 and k = 0 and l = 466349 and
      v = 2 and u = 0],
      simp only: arith_simps rel_simps, simp only: hex_simps)

lemma base_14_1: "tabn 5192296858534827628530496329220096
    21827233379012888296051888914012613590110693258949725274094908495019489738908
    18908477589526918172618421073119973060626280661432570456189083598373220046227
    7370826343192777418029371923679714313465827837761390972725748555304402346312"
  by (rule tabn_dbl [OF base_14_x4, where
      x = 2918755789485970123433467840892640529484412597517154817905824896646269692681 and
      e = 55939961190609013049262512735018244433485474078503151336713209617599053422134 and i = 1318004 and j = 0 and k = 588014 and l = 205091 and
      v = 10 and u = 0],
      simp only: arith_simps rel_simps, simp only: hex_simps)

lemma base_14_2: "tabn 10384593717069655257060992658440192
    14613882835283214038878983598955597428045276937450304461079441468633252884835
    41571788042841202290338899197942030796230516339045080200904489370096453676391
    16935195247728249836970155018542437983834424979377508745645712351059457585273"
  by (rule tabn_dbl [OF base_14_1, where
      x = 30938139411100109460325576905357520558449752931225506279903744102493364028393 and
      e = 43269466399216857769572759109139121656556535227077476876667168836203241744785 and i = 5436686 and j = 646564 and k = 0 and l = 1452444 and
      v = 5 and u = 1],
      simp only: arith_simps rel_simps, simp only: hex_simps)

lemma base_14_3: "tabn 15576890575604482885591488987660288
    16333393865286552695125949192364572239672278970665192931475635378095448925274
    27950457111479979368672653177142771471214791165378960902697689752654287607157
    3735217287627959901146199678544127446235915277288932826044489771200171371690"
  by (rule tabn_add [OF base_14_2 base_14_1, where
      x = 46278981372464671038238788519565754695092480138106514048506737629397726138066 and
      e = 12058639246893812166612707226796863219627652532019317541751612186972622947427 and i = 16865660 and j = 0 and q = 517363 and l = 1627470 and
      v = 4 and u = 1],
      simp only: arith_simps rel_simps, simp only: distinct_ok_def arith_simps rel_simps simp_thms,
      simp only: hex_simps)

lemma base_14_4: "tabn 20769187434139310514121985316880384
    2187942967721426849660112771199354899653686745404319823795125965809448653006
    6152740787740714108469327111982433578092623466009224837811859025378599434826
    33687252402094524114131595312117657102470687313102135967075104063098932016597"
  by (rule tabn_add [OF base_14_3 base_14_1, where
      x = 53931246798638810452976278163560875248196055612215377005712058944387414038129 and
      e = 55263276743946530887406950006214916358603695352702298385568546820842777895494 and i = 14607386 and j = 0 and q = 327394 and l = 611146 and
      v = 2 and u = 1],
      simp only: arith_simps rel_simps, simp only: distinct_ok_def arith_simps rel_simps simp_thms,
      simp only: hex_simps)

lemma base_14_5: "tabn 25961484292674138142652481646100480
    33736517823584404399059101676279552618085743187793320592784576821012330916427
    8009202637913380203880192393056395750442146772789628935888199141083504009109
    35866652425338433390311007382469353678561155750483270407528619149526737158102"
  by (rule tabn_add [OF base_14_4 base_14_1, where
      x = 25727315185671024195178909283223156867643596415003691656896377679928826907318 and
      e = 21694730176735444151767463987750490090753712359536423089246637793078142869910 and i = 3857862 and j = 0 and q = 771050 and l = 950146 and
      v = 0 and u = 0],
      simp only: arith_simps rel_simps, simp only: distinct_ok_def arith_simps rel_simps simp_thms,
      simp only: hex_simps)

lemma base_14_6: "tabn 31153781151208965771182977975320576
    21829056582099443415701993421605234994442393375224537601156579477321057897327
    52462748891825032534667424376636530105351141648077381434967835151012454475140
    25609482299276120685120622040653318657146024758977721683247077386224490228801"
  by (rule tabn_add [OF base_14_5 base_14_1, where
      x = 27262352308932508592820061549312658815726244059967438185917536330265168242136 and
      e = 167252778574669060741690678357284304574664263536112888671983461325629190755261 and i = 8333472 and j = 0 and q = 8774945 and
      l = 1727838 and v = 0 and u = 1],
      simp only: arith_simps rel_simps, simp only: distinct_ok_def arith_simps rel_simps simp_thms,
      simp only: hex_simps)

lemma base_14_7: "tabn 36346078009743793399713474304540672
    17082138983272588118191470640409033464447116895540887877568373992555044318248
    44023337580527604937271447510237247950108265703563243046570053015408587094478
    45785415964771744884105106760687734638714290339569160766521324440507169365614"
  by (rule tabn_add [OF base_14_6 base_14_1, where
      x = 30954846021403080892705515634515739440973843524797926850727112981103022043719 and
      e = 40906195509736131794302755327594945328348793446239571027375130335815079481079 and i = 14099429 and j = 0 and q = 1887742 and
      l = 1661772 and v = 6 and u = 1],
      simp only: arith_simps rel_simps, simp only: distinct_ok_def arith_simps rel_simps simp_thms,
      simp only: hex_simps)

lemma base_14_8: "tabn 41538374868278621028243970633760768
    6963489772333744532097687373421963437749379120843003639248519965226540157465
    8038965499865764793545706460907184746719002763070799624483284518079640565619
    34679285908232973181684355241560006158309275789071333826186434730086434201798"
  by (rule tabn_add [OF base_14_7 base_14_1, where
      x = 56820568891126077450337473416858732617665368690592486034494027451103464411795 and
      e = 42478037160329898254545269894144165784601425246711907593019244697631764432926 and i = 18534968 and j = 0 and q = 605026 and l = 934484 and
      v = 4 and u = 1],
      simp only: arith_simps rel_simps, simp only: distinct_ok_def arith_simps rel_simps simp_thms,
      simp only: hex_simps)

lemma row_14: "list_all2 multiple [5192296858534827628530496329220096, 10384593717069655257060992658440192, 15576890575604482885591488987660288, 20769187434139310514121985316880384, 25961484292674138142652481646100480, 31153781151208965771182977975320576, 36346078009743793399713474304540672, 41538374868278621028243970633760768] ge_base_14"
  unfolding ge_base_14_def
  by (rule row8,
      (rule tab_ptm [OF base_14_1]; simp only: limb_simps),
      (rule tab_ptm [OF base_14_2]; simp only: limb_simps),
      (rule tab_ptm [OF base_14_3]; simp only: limb_simps),
      (rule tab_ptm [OF base_14_4]; simp only: limb_simps),
      (rule tab_ptm [OF base_14_5]; simp only: limb_simps),
      (rule tab_ptm [OF base_14_6]; simp only: limb_simps),
      (rule tab_ptm [OF base_14_7]; simp only: limb_simps),
      (rule tab_ptm [OF base_14_8]; simp only: limb_simps))

text \<open>Row 15.\<close>

lemma base_15_x1: "tabn 83076749736557242056487941267521536
    10900974192870607829506680138321804199832223736972419587654320297717013979204
    29127498398513059995201066728023877036458859343387648328547598024354676306984
    24754430835806405268171313112177562712267050161795714394601374791967374061188"
  by (rule tabn_dbl [OF base_14_8, where
      x = 39669520413015645546091105914641881090008356726405053278835514277318902492169 and
      e = 43259648333898992975487108320118652684198524660469599251877434068797771499272 and i = 3732779 and j = 525496 and k = 0 and l = 1214584 and
      v = 3 and u = 1],
      simp only: arith_simps rel_simps, simp only: hex_simps)

lemma base_15_x2: "tabn 166153499473114484112975882535043072
    54196495570350908130021642504342204676574505042192972847049886452688053817045
    30960394061703469359134176601206492187446853585948505493804462451446073650241
    20077999796832723164971637251057111942540952972305416429805009495227481560280"
  by (rule tabn_dbl [OF base_15_x1, where
      x = 23236101508647438770887465903135712489127651456244467353245424001241980166804 and
      e = 7979270517286353930230501730388717526188534543025506342368876944105462824998 and i = 1944574 and j = 245396 and k = 0 and l = 1655570 and
      v = 2 and u = 0],
      simp only: arith_simps rel_simps, simp only: hex_simps)

lemma base_15_x3: "tabn 332306998946228968225951765070086144
    11019345097139622798046187073698087066922447256226608826017397481896212846698
    5820588615245511894029881504402697299026606688306343668786589928163656000629
    28398715515598299711256704492693608540484447224998913572713495044732437646145"
  by (rule tabn_dbl [OF base_15_x2, where
      x = 5198756481894110904016305569295389767895840567920265157230807553732556846069 and
      e = 54123756921592079122826003056360261133806861814247078338795497833211377458565 and i = 2507225 and j = 0 and k = 3723875 and l = 277245 and
      v = 12 and u = 0],
      simp only: arith_simps rel_simps, simp only: hex_simps)

lemma base_15_x4: "tabn 664613997892457936451903530140172288
    18425506961570116601076841601121607329149390959536277088383869194530120247554
    24407579601905941680390411050991728340348529633567968510055614570053217688801
    26321907668377070402703837494117757940074133626581358149279061810724200087606"
  by (rule tabn_dbl [OF base_15_x3, where
      x = 51913971978322272632471923054473832915435853658788590598057046628433467378702 and
      e = 23624812460135452849103124344409107268283300186265776005907025672027669892271 and i = 1372230 and j = 209415 and k = 0 and l = 1726278 and
      v = 1 and u = 1],
      simp only: arith_simps rel_simps, simp only: hex_simps)

lemma base_15_1: "tabn 1329227995784915872903807060280344576
    57395309720386242646754846189974251205032425858971487761196482955580035093129
    45053854337161548003772049549845281962137326347197926600072792067971101755950
    6726892234772834393753964209108218542932778426015019828481907341953122542019"
  by (rule tabn_dbl [OF base_15_x4, where
      x = 12341455383224694642982796640128969242895099511773561161123690887608933337179 and
      e = 28615561120313495141031822062616997690420492656883160963519193375643938419098 and i = 1969608 and j = 1437012 and k = 0 and l = 942207 and
      v = 4 and u = 0],
      simp only: arith_simps rel_simps, simp only: hex_simps)

lemma base_15_2: "tabn 2658455991569831745807614120560689152
    2148571138464465300688819913367348205936063895674349956372429816811444650259
    29053280061195524822332506467203275624462462109616729264371553687702729349736
    24134586818014776065004532849968392597200767138630279372624465358367029091576"
  by (rule tabn_dbl [OF base_15_1, where
      x = 30991335695927038190141805950508026508108594118877902711729668133065280120472 and
      e = 6672243447481384040462784314924143941598853447668120001008774747889965543240 and i = 19800282 and j = 0 and k = 4470492 and l = 979408 and
      v = 16 and u = 1],
      simp only: arith_simps rel_simps, simp only: hex_simps)

lemma base_15_3: "tabn 3987683987354747618711421180841033728
    52964629332132736180408281687757844018827908359161337954945758898817828942616
    7059445699612446505562391998507802533732761751565427394004479804342455745524
    32459679910422073271814382510984648903123479773226854138102136133628108696626"
  by (rule tabn_add [OF base_15_2 base_15_1, where
      x = 45905183632520289674845889689250041485095146607595910560941279094475373197092 and
      e = 29918660581599200209590738785018988339556189779222951023958050036556693780509 and i = 25159630 and j = 0 and q = 1375516 and
      l = 2168978 and v = 9 and u = 0],
      simp only: arith_simps rel_simps, simp only: distinct_ok_def arith_simps rel_simps simp_thms,
      simp only: hex_simps)

lemma base_15_4: "tabn 5316911983139663491615228241121378304
    4068387433292871160387451372177293394052594126080585439076277086677246174896
    326173228731775980257375525653762139269135242676715556292829149832594345800
    32213443167318959601836596658801760362746564063779367375501241589888255453904"
  by (rule tabn_add [OF base_15_3 base_15_1, where
      x = 3742214204561095180130075846523531254783458883403869882783447936844651829096 and
      e = 538520853992215207075853535641943756873557242226317899637423524301346143171810 and i = 2989520 and j = 0 and q = 1835096 and l = 248582 and
      v = 0 and u = 0],
      simp only: arith_simps rel_simps, simp only: distinct_ok_def arith_simps rel_simps simp_thms,
      simp only: hex_simps)

lemma base_15_5: "tabn 6646139978924579364519035301401722880
    49030967473513631966479914884452848228230344046822701221766659759411016827593
    14686752640617727957740574008513279264329522201164121539804021955502855013400
    52499472668829983167754656142543533925438827919795624378010220503189606138380"
  by (rule tabn_add [OF base_15_4 base_15_1, where
      x = 34344214832895904008739340875939568963900821845658579681962637803908161814193 and
      e = 25316150483892828356884360123784026157908686449423103895633376594488055779650 and i = 3015764 and j = 0 and q = 1374680 and l = 1820695 and
      v = 0 and u = 0],
      simp only: arith_simps rel_simps, simp only: distinct_ok_def arith_simps rel_simps simp_thms,
      simp only: hex_simps)

lemma base_15_6: "tabn 7975367974709495237422842361682067456
    13925684291662861052310812785720783368148059580144983717690167495017303733684
    56121063548777198593588121281692786192340008652686873543863740053941355661421
    26625561526081476508188587494874865481552443121799776062503702282797693685915"
  by (rule tabn_add [OF base_15_5 base_15_1, where
      x = 15700665361543760170508184008371951102443043260278392193555219445032512892212 and
      e = 466621904236060784675722906227413081283883047936810007980326004295338434024628 and i = 11766112 and j = 0 and q = 22778188 and
      l = 973210 and v = 0 and u = 1],
      simp only: arith_simps rel_simps, simp only: distinct_ok_def arith_simps rel_simps simp_thms,
      simp only: hex_simps)

lemma base_15_7: "tabn 9304595970494411110326649421962412032
    44203098534624853938196033382256519478556333427697914728015344652799840956486
    16553879936954959225761579614109718073488275212237376681031630490959741312242
    38955782613106806920629358372575433443796841730857271497304067351609179738153"
  by (rule tabn_add [OF base_15_6 base_15_1, where
      x = 27649218597669894712434453768146801405068058215460538046983714161840099644244 and
      e = 5162232841915270945983303193909158313747739995761385474306469378491252748914 and i = 26370082 and j = 0 and q = 395998 and l = 1518044 and
      v = 15 and u = 0],
      simp only: arith_simps rel_simps, simp only: distinct_ok_def arith_simps rel_simps simp_thms,
      simp only: hex_simps)

lemma base_15_8: "tabn 10633823966279326983230456482242756608
    57345278018653071100864846553753370672565170486688702533568086568295949567446
    25059924645356220231384415675142722405150668071478679522915757132215578056259
    49604170177600969842065448714158641061295302784479819895904220888323481284295"
  by (rule tabn_add [OF base_15_7 base_15_1, where
      x = 32285353373296850869480430878610648267414502415210023010652329436080371511187 and
      e = 403597055279344502552328039140772137328883951154680762972252823664462520378872 and i = 24724946 and j = 0 and q = 23083862 and
      l = 2183425 and v = 0 and u = 0],
      simp only: arith_simps rel_simps, simp only: distinct_ok_def arith_simps rel_simps simp_thms,
      simp only: hex_simps)

lemma row_15: "list_all2 multiple [1329227995784915872903807060280344576, 2658455991569831745807614120560689152, 3987683987354747618711421180841033728, 5316911983139663491615228241121378304, 6646139978924579364519035301401722880, 7975367974709495237422842361682067456, 9304595970494411110326649421962412032, 10633823966279326983230456482242756608] ge_base_15"
  unfolding ge_base_15_def
  by (rule row8,
      (rule tab_ptm [OF base_15_1]; simp only: limb_simps),
      (rule tab_ptm [OF base_15_2]; simp only: limb_simps),
      (rule tab_ptm [OF base_15_3]; simp only: limb_simps),
      (rule tab_ptm [OF base_15_4]; simp only: limb_simps),
      (rule tab_ptm [OF base_15_5]; simp only: limb_simps),
      (rule tab_ptm [OF base_15_6]; simp only: limb_simps),
      (rule tab_ptm [OF base_15_7]; simp only: limb_simps),
      (rule tab_ptm [OF base_15_8]; simp only: limb_simps))

end
