(* ===== verification/BaseRows3.thy ===== *)
theory BaseRows3
  imports BaseRows2
begin

text \<open>
  Certificates for rows 16 to 23 of \<open>ge_base\<close>: entry \<open>j\<close> of row \<open>i\<close> is \<open>(j + 1) * 256 ^ i\<close> times the base point.  In each row the
  second entry is the double of the first and every other one is the sum of its predecessor and the first; five
  doublings lead from the last entry of a row to the first one of the next.
\<close>

text \<open>Row 16.\<close>

lemma base_16_x1: "tabn 21267647932558653966460912964485513216
    37583486322670922385075650426941623920333460018406542018305976867658902089840
    27473891086016360242188172993954430383857498731478941302716607143545663554916
    55110123738315623061129399787308160687335628619758387800390915029019313954425"
  by (rule tabn_dbl [OF base_15_8, where
      x = 10109595236654562142887477432987193536475961286927600715589369724113238534924 and
      e = 14764365849357415037001863693525757078746997090027565745785434659098206576716 and i = 4251730 and j = 0 and k = 4008400 and l = 878310 and
      v = 10 and u = 0],
      simp only: arith_simps rel_simps, simp only: hex_simps)

lemma base_16_x2: "tabn 42535295865117307932921825928971026432
    55114361871029474583791782900429903947017484378419434410898145812375177598775
    48881569455427526330309077598344390060411467144275677227882526686965354578365
    22368405206115094894083602675978608088250481474645052283465798321615239852549"
  by (rule tabn_dbl [OF base_16_x1, where
      x = 6232792415601948253482705302085513886606017234143757183015619125409823020410 and
      e = 21556049673727734719092492300305746987948768136430391517194559644770299894464 and i = 2338290 and j = 0 and k = 878310 and l = 597472 and
      v = 8 and u = 0],
      simp only: arith_simps rel_simps, simp only: hex_simps)

lemma base_16_x3: "tabn 85070591730234615865843651857942052864
    2386219325892276317613181682198878642484654272120126591129717828453063674239
    32171283028294928957618712681864902579454458872470737206281973259095949669668
    31481560694343490410166779289160193539916948155213118208645763750937427601374"
  by (rule tabn_dbl [OF base_16_x2, where
      x = 28110980916255445071779961504677929989665187732469671404576536573313678824520 and
      e = 4508208640078212730824204358098623047333704893649009718998879599986545199416 and i = 19090552 and j = 0 and k = 4247422 and l = 957152 and
      v = 17 and u = 1],
      simp only: arith_simps rel_simps, simp only: hex_simps)

lemma base_16_x4: "tabn 170141183460469231731687303715884105728
    11064828440827513439192054732080206607063733165148357433430908542043450520071
    42449541200173318588816647462408876714678726888269655963682424126372307544782
    40562028997808033122937839952877146977330732743456770140399198053816194584700"
  by (rule tabn_dbl [OF base_16_x3, where
      x = 26511331859312292562160899774015283819019998609698983489477276419627707795238 and
      e = 33913904639104219216292133300733050873002621661079973908613878726467745393498 and i = 1687142 and j = 989488 and k = 0 and l = 1292980 and
      v = 2 and u = 1],
      simp only: arith_simps rel_simps, simp only: hex_simps)

lemma base_16_1: "tabn 340282366920938463463374607431768211456
    19598377658861224783845010894811287771959579301160358177487377480285833498274
    8602625848320914101981327737814350220059964367615824096981864165998591852103
    30942559212363234812595554070815474796498884287982536881367675299020161195262"
  by (rule tabn_dbl [OF base_16_x4, where
      x = 10995751810540310681863683156996937551899614933544534080505513314287241646171 and
      e = 37903449069885261389123564682545180352219854098787032240549810684950242973874 and i = 1779640 and j = 167000 and k = 0 and l = 516451 and
      v = 4 and u = 0],
      simp only: arith_simps rel_simps, simp only: hex_simps)

lemma base_16_2: "tabn 680564733841876926926749214863536422912
    42358850453650065889635398056826431689538149690374728044470728175627769415630
    49214616977899862322469880599614825738082489444556174853237268494629968889502
    40232175707683650301975749701477663824140238404181442186427403402071285441226"
  by (rule tabn_dbl [OF base_16_1, where
      x = 51040278094408301278951009961555559878090652578638835210962251684954365346077 and
      e = 45947534338080934389058774711582568639858657700515003796103266571145519699354 and i = 2828086 and j = 2038514 and k = 0 and l = 3403778 and
      v = 2 and u = 1],
      simp only: arith_simps rel_simps, simp only: hex_simps)

lemma base_16_3: "tabn 1020847100762815390390123822295304634368
    48385487438128254996699525927577029456907952722367890843478930305300776799734
    39559994053825367353652989801205660682483070420505538516279738614821870321256
    50714071707794461408227191109614507820614087751067786611292803711762503739528"
  by (rule tabn_add [OF base_16_2 base_16_1, where
      x = 8825493384302887643046536126371368774424882301862352327199191690478906478478 and
      e = 10062746434730454126663127600329757694803129039599057792675422590223748696212 and i = 4041894 and j = 0 and q = 819022 and l = 787914 and
      v = 4 and u = 0],
      simp only: arith_simps rel_simps, simp only: distinct_ok_def arith_simps rel_simps simp_thms,
      simp only: hex_simps)

lemma base_16_4: "tabn 1361129467683753853853498429727072845824
    51581966452853900091756646973557346059106653709384595763318103082387283820819
    20828606023908711315162493421955207907513746372017040415369590152949798104301
    6607322891285225414774486829700593932970115465468887489066060016494261066293"
  by (rule tabn_add [OF base_16_3 base_16_1, where
      x = 30753360428945188776594153551602138151592907337367555347948512929437485716518 and
      e = 38874323639450664877634468628731592848320993425486759282721210198023997429788 and i = 12619210 and j = 0 and q = 2096438 and
      l = 1584784 and v = 2 and u = 0],
      simp only: arith_simps rel_simps, simp only: distinct_ok_def arith_simps rel_simps simp_thms,
      simp only: hex_simps)

lemma base_16_5: "tabn 1701411834604692317316873037158841057280
    24617950149360397442640569612647962565786050699669250948481491945834067115758
    15408707201160997253620404901486325913203048277915352724016600527713494048941
    29583458512608500016175427767720597889820895734504066602041203471957649820692"
  by (rule tabn_add [OF base_16_4 base_16_1, where
      x = 9209242948199400189020164711161636652583002421753898224464891418120573066817 and
      e = 20683823583883003225416624592004885138931029409235052173282971973217609142901 and i = 3317885 and j = 0 and q = 581673 and l = 420401 and
      v = 0 and u = 0],
      simp only: arith_simps rel_simps, simp only: distinct_ok_def arith_simps rel_simps simp_thms,
      simp only: hex_simps)

lemma base_16_6: "tabn 2041694201525630780780247644590609268736
    23836888780933463639375881011427656528947247674402163887162033332362261991406
    54830092141338595816423396439963958968410593929160852392345055156201544099584
    7899548590076608964101170338851544497815511386649722160626389275225603823308"
  by (rule tabn_add [OF base_16_5 base_16_1, where
      x = 26902841258252965534737977075807651487171646078061593514545770180117282711771 and
      e = 15354900541348410539649593815883598780055491853555594477620179585504972326220 and i = 6290112 and j = 0 and q = 877270 and l = 1585454 and
      v = 2 and u = 1],
      simp only: arith_simps rel_simps, simp only: distinct_ok_def arith_simps rel_simps simp_thms,
      simp only: hex_simps)

lemma base_16_7: "tabn 2381976568446569244243622252022377480192
    14209414293385567697413008408646601360621030607167664879154622856365570723512
    4064150610133085560494396707845459774778340093520806344926064787847884071323
    35816950881593546499613928182437259839509838771386966334082232436584874456298"
  by (rule tabn_add [OF base_16_6 base_16_1, where
      x = 10145263683252482136918611700801141585842690513646858534228558068517686652189 and
      e = 5738199787084118547419400162129667906002741396988758440136183062363474940434 and i = 4413540 and j = 0 and q = 217348 and l = 382889 and
      v = 6 and u = 0],
      simp only: arith_simps rel_simps, simp only: distinct_ok_def arith_simps rel_simps simp_thms,
      simp only: hex_simps)

lemma base_16_8: "tabn 2722258935367507707706996859454145691648
    23664441271309054461296385012238166605233939951462421495851252068162842900024
    30906604324974005795711787063961077428212762191009810152169842161441877937748
    7563186585470672587344019619584875020188260150552878434634475363908228644220"
  by (rule tabn_add [OF base_16_7 base_16_1, where
      x = 50653881564993146377370090452621043103656170093272893363410201910677529782225 and
      e = 53550688451925635954620147181649592886799984299074109649871984227344312806440 and i = 5765940 and j = 0 and q = 2056408 and l = 2121520 and
      v = 0 and u = 1],
      simp only: arith_simps rel_simps, simp only: distinct_ok_def arith_simps rel_simps simp_thms,
      simp only: hex_simps)

lemma row_16: "list_all2 multiple [340282366920938463463374607431768211456, 680564733841876926926749214863536422912, 1020847100762815390390123822295304634368, 1361129467683753853853498429727072845824, 1701411834604692317316873037158841057280, 2041694201525630780780247644590609268736, 2381976568446569244243622252022377480192, 2722258935367507707706996859454145691648] ge_base_16"
  unfolding ge_base_16_def
  by (rule row8,
      (rule tab_ptm [OF base_16_1]; simp only: limb_simps),
      (rule tab_ptm [OF base_16_2]; simp only: limb_simps),
      (rule tab_ptm [OF base_16_3]; simp only: limb_simps),
      (rule tab_ptm [OF base_16_4]; simp only: limb_simps),
      (rule tab_ptm [OF base_16_5]; simp only: limb_simps),
      (rule tab_ptm [OF base_16_6]; simp only: limb_simps),
      (rule tab_ptm [OF base_16_7]; simp only: limb_simps),
      (rule tab_ptm [OF base_16_8]; simp only: limb_simps))

text \<open>Row 17.\<close>

lemma base_17_x1: "tabn 5444517870735015415413993718908291383296
    20816729283658675737597874036244755459432213712673199674477249282347378100896
    2827949606557303530010123966069536093977590432613525199209174913470026768421
    18651662723270416745810916674523982158841053701046928562734332872960302115673"
  by (rule tabn_dbl [OF base_16_8, where
      x = 17988779677101372207587750070175219365454623280059674475268074368877351332475 and
      e = 45776848576420249526705297830846087044769350179005431427354158612616743223056 and i = 3824830 and j = 68450 and k = 0 and l = 453789 and
      v = 6 and u = 0],
      simp only: arith_simps rel_simps, simp only: hex_simps)

lemma base_17_x2: "tabn 10889035741470030830827987437816582766592
    36511472298295012127396655300198627608903407811442367844317986604725477306880
    2049459371736403135779843290437168998981580157757276183787500159891340169366
    33932875610175096313209349301639875228169000873301945780231530418536775829858"
  by (rule tabn_dbl [OF base_17_x1, where
      x = 34462012926558608991616812009761458609921827653685091660530486444834137137514 and
      e = 52046816193591855256730313952902397243909532528358161093411718439800717093871 and i = 3008754 and j = 641196 and k = 0 and l = 1123394 and
      v = 3 and u = 0],
      simp only: arith_simps rel_simps, simp only: hex_simps)

lemma base_17_x3: "tabn 21778071482940061661655974875633165533184
    18247548468777541579077707199359291630115284164425204758606959352497720204546
    55853818989352991694607642880542386300394405856725876217546564011271044744392
    36662023409796210738013574994432474231652270597715342181201515423176199334046"
  by (rule tabn_dbl [OF base_17_x2, where
      x = 20289774098082647596255556823160859256355870640519610560789187345183240280103 and
      e = 6497894420270641802123584115174919620104968193207655110360873135781877040067 and i = 880064 and j = 0 and k = 1853384 and l = 1238168 and
      v = 1 and u = 1],
      simp only: arith_simps rel_simps, simp only: hex_simps)

lemma base_17_x4: "tabn 43556142965880123323311949751266331066368
    34070137386085787140935864285329930047141558283481057533817158218051891634046
    3928786710474104009979167246778220749017877503289432662664261553658238913134
    6246117745815547459859072066610560193981368509132642046109822170199907679720"
  by (rule tabn_dbl [OF base_17_x3, where
      x = 30141350675611683130956697038551709298123680780191624871152896664393652720912 and
      e = 11079865482583864072139801617854226764377667659622438274926835649302547494972 and i = 7321418 and j = 0 and k = 264848 and l = 836830 and
      v = 6 and u = 0],
      simp only: arith_simps rel_simps, simp only: hex_simps)

lemma base_17_1: "tabn 87112285931760246646623899502532662132736
    10775681741488604035403697214091820742439805124403712140159572163661744435310
    14799944979221577710774748248485147375341892559739800427657996590313161369756
    51622518620151747173210018113341496704968389474850906273730158550846718033514"
  by (rule tabn_dbl [OF base_17_x4, where
      x = 53871781380925124036414441469950627293732904897484193732230367577305147885503 and
      e = 41899466126012850104015265055892388217044345857174869533153014630305639579364 and i = 2783470 and j = 0 and k = 836830 and l = 1259782 and
      v = 2 and u = 1],
      simp only: arith_simps rel_simps, simp only: hex_simps)

lemma base_17_2: "tabn 174224571863520493293247799005065324265472
    14086495495944691721987877187254135613266131758303512973933436376071708289481
    43364229761334447554611623777519839207882870078247168396951728827878745810579
    329431519066973326052485291368324852702715668186114841888035544867183855018"
  by (rule tabn_dbl [OF base_17_1, where
      x = 28618310353268341879161745914078250332018254012876626596710499552149527298851 and
      e = 44630516224578979289273478679759036713152718609148341474176044195107453013415 and i = 2963092 and j = 1416848 and k = 0 and l = 1316804 and
      v = 3 and u = 1],
      simp only: arith_simps rel_simps, simp only: hex_simps)

lemma base_17_3: "tabn 261336857795280739939871698507597986398208
    51636974436631039814879923458118776242018549479689664058240925940036997266214
    1428014412064270226634689325583821539745222681566431360618556812822929969366
    2659390615314084910803836577785302631183188730821216467100283665817468188985"
  by (rule tabn_add [OF base_17_2 base_17_1, where
      x = 50208960024566769588245234132534954702273326798123232697622369127214067296848 and
      e = 11389119095211332228482404543807613827071917631123176598927094938959058392009 and i = 14013096 and j = 0 and q = 300352 and l = 1982320 and
      v = 1 and u = 0],
      simp only: arith_simps rel_simps, simp only: distinct_ok_def arith_simps rel_simps simp_thms,
      simp only: hex_simps)

lemma base_17_4: "tabn 348449143727040986586495598010130648530944
    54643540239291800707379868991755664837711337911073292807358298590720824198480
    26121154034435831082691886965166653907488193313094523179596822130474102835546
    189618779146081364298486992681723579116339694068437570989598979943882595688"
  by (rule tabn_add [OF base_17_3 base_17_1, where
      x = 28522386204855969624687982026589010930223144597978769627761476460246721362934 and
      e = 157797301399602263156163185779737410188416507655052278102556573404262546897592 and i = 8108702 and j = 0 and q = 8752428 and
      l = 1728254 and v = 0 and u = 0],
      simp only: arith_simps rel_simps, simp only: distinct_ok_def arith_simps rel_simps simp_thms,
      simp only: hex_simps)

lemma base_17_5: "tabn 435561429658801233233119497512663310663680
    56940023937806146681054390487514166414590862845312224011617928491041620363309
    34983373571539771314380931669861149081390248198685830043275961823644085483548
    48472680947372479360615849788833640795315036817203558722250314377888910368459"
  by (rule tabn_add [OF base_17_4 base_17_1, where
      x = 21956650366266375366673458817653017333200614646626393968341966667397534879761 and
      e = 178628151686205003409051208234993469123114962528642726681327485296234494703888 and i = 6151326 and j = 0 and q = 11174992 and
      l = 1611287 and v = 0 and u = 0],
      simp only: arith_simps rel_simps, simp only: distinct_ok_def arith_simps rel_simps simp_thms,
      simp only: hex_simps)

lemma base_17_6: "tabn 522673715590561479879743397015195972796416
    31817511570104381755844765891667953504494002826982102436417080948704408688650
    43353049911207509238086053162615712068422769787734375745409126080845978148503
    2578134706650352371638213828150473280773292550882571281331803318985484690137"
  by (rule tabn_add [OF base_17_5 base_17_1, where
      x = 46360506277554970229544205233396195362706225372068008710736746871814995360096 and
      e = 222239993994102888953446457455055027434180543345479190830207571372665447086386 and i = 16619214 and j = 0 and q = 11666350 and
      l = 2489816 and v = 0 and u = 1],
      simp only: arith_simps rel_simps, simp only: distinct_ok_def arith_simps rel_simps simp_thms,
      simp only: hex_simps)

lemma base_17_7: "tabn 609786001522321726526367296517728634929152
    22373765776914035359932205059658011218205073173322587651938301825050553450901
    26837238024558679071131742848135021880184579295450908090513515120396646328573
    36072790460307752326002300129805223955998717096029913656506326020479442080898"
  by (rule tabn_add [OF base_17_6 base_17_1, where
      x = 53432572371013454000585954715866943264655486210691961581153578708610471942277 and
      e = 12946233264102925798683677441787003656457437902175426014017346716405326088116 and i = 17376078 and j = 0 and q = 256714 and l = 2188934 and
      v = 0 and u = 1],
      simp only: arith_simps rel_simps, simp only: distinct_ok_def arith_simps rel_simps simp_thms,
      simp only: hex_simps)

lemma base_17_8: "tabn 696898287454081973172991196020261297061888
    16314077194601114594361742772411055410812106372697822932689449144179564659981
    8264260176966981054240998843237722696269428508230661672246996244383947239295
    28732595254281591632880446608024050985319680939406314429508991673896605610932"
  by (rule tabn_add [OF base_17_7 base_17_1, where
      x = 8049817017634133540120743929173332714542677864467161260442452899795617420686 and
      e = 9915899403014828923308297083363664804209142478024964288810540978733601714825 and i = 2232066 and j = 0 and q = 199162 and l = 413746 and
      v = 1 and u = 0],
      simp only: arith_simps rel_simps, simp only: distinct_ok_def arith_simps rel_simps simp_thms,
      simp only: hex_simps)

lemma row_17: "list_all2 multiple [87112285931760246646623899502532662132736, 174224571863520493293247799005065324265472, 261336857795280739939871698507597986398208, 348449143727040986586495598010130648530944, 435561429658801233233119497512663310663680, 522673715590561479879743397015195972796416, 609786001522321726526367296517728634929152, 696898287454081973172991196020261297061888] ge_base_17"
  unfolding ge_base_17_def
  by (rule row8,
      (rule tab_ptm [OF base_17_1]; simp only: limb_simps),
      (rule tab_ptm [OF base_17_2]; simp only: limb_simps),
      (rule tab_ptm [OF base_17_3]; simp only: limb_simps),
      (rule tab_ptm [OF base_17_4]; simp only: limb_simps),
      (rule tab_ptm [OF base_17_5]; simp only: limb_simps),
      (rule tab_ptm [OF base_17_6]; simp only: limb_simps),
      (rule tab_ptm [OF base_17_7]; simp only: limb_simps),
      (rule tab_ptm [OF base_17_8]; simp only: limb_simps))

text \<open>Row 18.\<close>

lemma base_18_x1: "tabn 1393796574908163946345982392040522594123776
    55989946456375606165439889472714594603251474029621175557852958440037431409651
    4852155834875781035877814565700700976527240076930227074072174229123474226148
    1086909226028915294135441408166616601743915982790754087691304356824659712505"
  by (rule tabn_dbl [OF base_17_8, where
      x = 51137790621499825129562074907013893626724233952690948483780784210913957183503 and
      e = 32644509459046963209718328903938814601248451940426819819491529573506858644446 and i = 5158681 and j = 802904 and k = 0 and l = 2320165 and
      v = 3 and u = 0],
      simp only: arith_simps rel_simps, simp only: hex_simps)

lemma base_18_x2: "tabn 2787593149816327892691964784081045188247552
    15909809889005867367524421217021395611098073719597511194365816539458545952757
    52519748445570161924676083189383330091158973481611635475076288369743788279268
    1810932840068087007706309024173886885435578094294359647517356349380941040407"
  by (rule tabn_dbl [OF base_18_x1, where
      x = 21286106062093803154633830531982019446574092570806157739018320173671322493438 and
      e = 43121026112194347882147537543357772213270391818181016580244511967157596034651 and i = 1955170 and j = 0 and k = 2563495 and l = 1053086 and
      v = 3 and u = 1],
      simp only: arith_simps rel_simps, simp only: hex_simps)

lemma base_18_x3: "tabn 5575186299632655785383929568162090376495104
    6059527188866542658016599743332346683163647449751212243298345282584149418412
    4288220273164369139669691076631629742933809433970265176956193674551524398836
    57798977880495682664745312988149132967357577348661094705170667538320118634291"
  by (rule tabn_dbl [OF base_18_x2, where
      x = 1771306915702173518346908666700716940229838015780947066342151608032625019576 and
      e = 10501289369733412836869136543906528291429667675849560764518840514399894620733 and i = 566426 and j = 0 and k = 566426 and l = 389538 and
      v = 5 and u = 0],
      simp only: arith_simps rel_simps, simp only: hex_simps)

lemma base_18_x4: "tabn 11150372599265311570767859136324180752990208
    33490582160136352298205960007176785250765553184288324526103394337424832587710
    48143600437069407810929624971159813590810271814525586759515201515080337562413
    47070639914548789394721843317041358909581008491336722878017782168955730350849"
  by (rule tabn_dbl [OF base_18_x3, where
      x = 43243026341725042199061827540360925586590273702583019786316984826301059845246 and
      e = 27913363983570704153157881139999963619458909609164375098391389013631808150058 and i = 3066168 and j = 1070442 and k = 0 and l = 2829112 and
      v = 2 and u = 1],
      simp only: arith_simps rel_simps, simp only: hex_simps)

lemma base_18_1: "tabn 22300745198530623141535718272648361505980416
    17621641827815800103912823399230875117460115893101929584162515517753600019731
    36316930355158784065118465192872197832316813601736090157251786731574891515358
    29063890488166339086225619435816982634387574898318310237213124376146794246065"
  by (rule tabn_dbl [OF base_18_x4, where
      x = 39200756091315113750579850710702631211778294624186121446639520790135273324322 and
      e = 40614740792197085038573211007566910237348669738847649353983705289910137088557 and i = 16455592 and j = 0 and k = 274147 and l = 1674190 and
      v = 11 and u = 1],
      simp only: arith_simps rel_simps, simp only: hex_simps)

lemma base_18_2: "tabn 44601490397061246283071436545296723011960832
    8525377068490979898449015725507982804658825084183726431934200147424536472285
    9103913121689731846032762346534360600243839068306074530590088360442613976214
    12353036812962496203749458240950541846231538319541546286518482396591917848911"
  by (rule tabn_dbl [OF base_18_1, where
      x = 57317508565459345764201745883317576131049978348697933921072903790938487316020 and
      e = 31919012048507775427414687654276827026242275256300808163107337591103913604019 and i = 10434070 and j = 0 and k = 92545 and l = 899088 and
      v = 5 and u = 1],
      simp only: arith_simps rel_simps, simp only: hex_simps)

lemma base_18_3: "tabn 66902235595591869424607154817945084517941248
    43396537265463896345601537369929413680346842101592965372770353422361960146609
    16105412593087454557317002832301881914536413966129630752002937306096074033489
    926396675279109900818416679023818455098468439648703830885427985202124001384"
  by (rule tabn_add [OF base_18_2 base_18_1, where
      x = 27291124672376441788284534537627531765810428135463334620767416116265886113120 and
      e = 65948967645664829004942849798243215447845841293511629504785259496071340346094 and i = 3789928 and j = 0 and q = 2874848 and l = 1145342 and
      v = 0 and u = 0],
      simp only: arith_simps rel_simps, simp only: distinct_ok_def arith_simps rel_simps simp_thms,
      simp only: hex_simps)

lemma base_18_4: "tabn 89202980794122492566142873090593446023921664
    31289081145325177665125145259138199340073876592894473723826986223032487562377
    1206399543861676383857452661126865043602325141423385267489704971211644656572
    34820121145040469786555372294105914336404776683208038497550224771196732864479"
  by (rule tabn_add [OF base_18_3 base_18_1, where
      x = 30082681601463501281267692598011334296471551451471088456337281251820842905805 and
      e = 375405632002549911741366889821378036944886382543982715098870245121859606238591 and i = 14377707 and j = 0 and q = 8352697 and
      l = 845867 and v = 0 and u = 0],
      simp only: arith_simps rel_simps, simp only: distinct_ok_def arith_simps rel_simps simp_thms,
      simp only: hex_simps)

lemma base_18_5: "tabn 111503725992653115707678591363241807529902080
    41212237394235837943003792631322263753125238742948497230106137442419835793170
    9364966979750943375701483164916018049960755100856153412393552204436980069886
    21528969863190699717435594993368761735923570830509177616243428191717177335590"
  by (rule tabn_add [OF base_18_4 base_18_1, where
      x = 31847270414484894567302309466406245703164483642092343817712585237982855723284 and
      e = 325583668348107557055925205684985065056875006333571688689252010428967870466124 and i = 11888262 and j = 0 and q = 11459842 and
      l = 1292210 and v = 0 and u = 0],
      simp only: arith_simps rel_simps, simp only: distinct_ok_def arith_simps rel_simps simp_thms,
      simp only: hex_simps)

lemma base_18_6: "tabn 133804471191183738849214309635890169035882496
    13343911710383071650386103251319941486727188160695674062959148776209444546305
    26422992792196638637491654554993083892056482457292502155594665554943706898006
    18791391051538340766952513995087921711005254579083189981692107748760441879642"
  by (rule tabn_add [OF base_18_5 base_18_1, where
      x = 44816963536844530724679941200670811521305698036223453927093275225222302468248 and
      e = 349835483914596335422294766696299056973763127387048940778107883812349041431828 and i = 20972820 and j = 0 and q = 9594550 and
      l = 1484016 and v = 0 and u = 1],
      simp only: arith_simps rel_simps, simp only: distinct_ok_def arith_simps rel_simps simp_thms,
      simp only: hex_simps)

lemma base_18_7: "tabn 156105216389714361990750027908538530541862912
    48691041226693943763188068759595903973575067366328048197681173350311052535262
    23846529213219182708070606117248493046679218648452782178893120376452035316914
    51489759902423377004771156771392168733093212917385619860515775336805359498037"
  by (rule tabn_add [OF base_18_6 base_18_1, where
      x = 24844512013474761055117462642347410926895848717875266018788052973859017218348 and
      e = 40791248231895629638812619577617121265982899328198546876366140211908921012776 and i = 6564826 and j = 0 and q = 1999796 and l = 1570036 and
      v = 0 and u = 0],
      simp only: arith_simps rel_simps, simp only: distinct_ok_def arith_simps rel_simps simp_thms,
      simp only: hex_simps)

lemma base_18_8: "tabn 178405961588244985132285746181186892047843328
    12755242548635748920811687871744850490098800085655910658205987754758903389941
    52846306630498159024992125725669005346338337905807305595461816865935549063040
    33887769679449071304122000731747932895922067066338617528858276279596896340609"
  by (rule tabn_add [OF base_18_7 base_18_1, where
      x = 17804980536795687607605054650419799070395454512668887082472962892779919146850 and
      e = 531820681198671020486765693478447855928805526276785082991756370589334765110690 and i = 10787456 and j = 0 and q = 24228846 and
      l = 1003122 and v = 0 and u = 1],
      simp only: arith_simps rel_simps, simp only: distinct_ok_def arith_simps rel_simps simp_thms,
      simp only: hex_simps)

lemma row_18: "list_all2 multiple [22300745198530623141535718272648361505980416, 44601490397061246283071436545296723011960832, 66902235595591869424607154817945084517941248, 89202980794122492566142873090593446023921664, 111503725992653115707678591363241807529902080, 133804471191183738849214309635890169035882496, 156105216389714361990750027908538530541862912, 178405961588244985132285746181186892047843328] ge_base_18"
  unfolding ge_base_18_def
  by (rule row8,
      (rule tab_ptm [OF base_18_1]; simp only: limb_simps),
      (rule tab_ptm [OF base_18_2]; simp only: limb_simps),
      (rule tab_ptm [OF base_18_3]; simp only: limb_simps),
      (rule tab_ptm [OF base_18_4]; simp only: limb_simps),
      (rule tab_ptm [OF base_18_5]; simp only: limb_simps),
      (rule tab_ptm [OF base_18_6]; simp only: limb_simps),
      (rule tab_ptm [OF base_18_7]; simp only: limb_simps),
      (rule tab_ptm [OF base_18_8]; simp only: limb_simps))

text \<open>Row 19.\<close>

lemma base_19_x1: "tabn 356811923176489970264571492362373784095686656
    17279665776878985509061503287402832131092299927060323084736802279902406091845
    3306260197984012910550852117722600455708043411683630074616054469981948222071
    42876870746295740312847812960305349944434638580913939582877300132110586845456"
  by (rule tabn_dbl [OF base_18_8, where
      x = 13973405578894972598510651169680231675384256515376693010120747809920457869774 and
      e = 40392057742265251003043435098110890136433210781842074829366282996249759520133 and i = 2706432 and j = 0 and k = 29802 and l = 551108 and
      v = 5 and u = 0],
      simp only: arith_simps rel_simps, simp only: hex_simps)

lemma base_19_x2: "tabn 713623846352979940529142984724747568191373312
    1603252189693514200902836888633976284020425251894517618753390580396146059671
    25411064537158601855213970699620911270833333634014082500972018180278739139406
    15235042874160357901190380539248908526044989359106915060630758789669574299814"
  by (rule tabn_dbl [OF base_19_x1, where
      x = 34088232271193010057474358693357018939822083950700717137510164404073971740214 and
      e = 21338576409081520143932169973474073022114096153074954447282099103434514825249 and i = 2497748 and j = 0 and k = 186113 and l = 707712 and
      v = 2 and u = 1],
      simp only: arith_simps rel_simps, simp only: hex_simps)

lemma base_19_x3: "tabn 1427247692705959881058285969449495136382746624
    20600504367505484203057461901161784472066241766941208779371989666659434493518
    7098305492863900506006884559307921724217379589603282693945235625946394799753
    4378491647088090945073935049939887721356433845954224811686234333583927119915"
  by (rule tabn_dbl [OF base_19_x2, where
      x = 13502198874641583697050577341853862747848862177337926085426754040713039693765 and
      e = 6821406228675851357919193158814176819602994179182627064422903816417194077261 and i = 707712 and j = 143943 and k = 0 and l = 373945 and
      v = 1 and u = 0],
      simp only: arith_simps rel_simps, simp only: hex_simps)

lemma base_19_x4: "tabn 2854495385411919762116571938898990272765493248
    40942007598391606525189171542550556186072591535757963615424431466718506100027
    4290193919999827367609371556414440590369856465845806411492607867449813086531
    4555442461374949979758370679457592722044255983104237966653378164827859162314"
  by (rule tabn_dbl [OF base_19_x3, where
      x = 36651813678391779157579799986136115595702735069912157203931823599268693013496 and
      e = 32478966047413043601036024327413040262195841650293318816569272866294211829101 and i = 3658900 and j = 477710 and k = 0 and l = 1343342 and
      v = 3 and u = 0],
      simp only: arith_simps rel_simps, simp only: hex_simps)

lemma base_19_1: "tabn 5708990770823839524233143877797980545530986496
    10508943152576879413245573085453524910451842031255108680837789725635607049744
    42307125179916894122386605598050472809897112684365215316308456253873185423817
    3112833070020348694674632887612813409140462914353524165671334222590222299871"
  by (rule tabn_dbl [OF base_19_x4, where
      x = 26097862591318083002644459991747006027189721679710175384258125475718986445876 and
      e = 40657907938657848822118509928596343373149317099625961343209314746989401964167 and i = 1586672 and j = 0 and k = 978347 and l = 1163058 and
      v = 2 and u = 1],
      simp only: arith_simps rel_simps, simp only: hex_simps)

lemma base_19_2: "tabn 11417981541647679048466287755595961091061972992
    57546941200806471932675080502384031751366624396347462781894051271145705636691
    21937837156909469925727462933418638261854673883912212788172496871104710078243
    22080273457681553520362818646421761855388088385762219204684675724091559084043"
  by (rule tabn_dbl [OF base_19_1, where
      x = 35609104043897002006947617568965393489511950512435249993721554400040995558448 and
      e = 18632834145849883087986952915167733746080475053150366947164377920060303413220 and i = 5299668 and j = 783582 and k = 0 and l = 2092614 and
      v = 4 and u = 0],
      simp only: arith_simps rel_simps, simp only: hex_simps)

lemma base_19_3: "tabn 17126972312471518572699431633393941636592959488
    31699060218087752520170872798913339890005755134531897327085847947037879322448
    4781227059573225284604697489163193542871368968607052731842210520136535913395
    27043451990373105990692289376759402892308023952083784575741845461279314649134"
  by (rule tabn_add [OF base_19_2 base_19_1, where
      x = 26917833158514527235566175309750146347134386165924844595243637426901343409053 and
      e = 696190216635637688957451416408203489094081244680218266562441753361717195276539 and i = 18707127 and j = 0 and q = 17597661 and
      l = 842607 and v = 0 and u = 0],
      simp only: arith_simps rel_simps, simp only: distinct_ok_def arith_simps rel_simps simp_thms,
      simp only: hex_simps)

lemma base_19_4: "tabn 22835963083295358096932575511191922182123945984
    35578474906548604629322190492535986744927873230022271446289473297853740483007
    38987018648555448538318895726012621102036612715964140705152860371629754901156
    16647296463001095504758888386908190189083714518877676795879265537553158820354"
  by (rule tabn_add [OF base_19_3 base_19_1, where
      x = 54487500876651253802788787270867319569526252846878412760865404930180550401800 and
      e = 399299223405794416158790568145091330783825298740563080984263301982084935282020 and i = 20863740 and j = 0 and q = 20727594 and
      l = 2932062 and v = 0 and u = 1],
      simp only: arith_simps rel_simps, simp only: distinct_ok_def arith_simps rel_simps simp_thms,
      simp only: hex_simps)

lemma base_19_5: "tabn 28544953854119197621165719388989902727654932480
    38264887459368654626694753427724812160935054603868494144716846769297400466309
    29776478676831618080099704554352984161634370130915696730083799447424658227462
    33067252800873868663304958355534823714930634271860246709319697323427256736302"
  by (rule tabn_add [OF base_19_4 base_19_1, where
      x = 8488408782537036546595048873371827999300684472952797414633047321872742238847 and
      e = 341648358926220746265434456069501428152945523266066829241368859818741432844155 and i = 4460115 and j = 0 and q = 16247139 and
      l = 657071 and v = 0 and u = 0],
      simp only: arith_simps rel_simps, simp only: distinct_ok_def arith_simps rel_simps simp_thms,
      simp only: hex_simps)

lemma base_19_6: "tabn 34253944624943037145398863266787883273185918976
    34811695555814935709307177925886867804814702667583826475219434717949432849569
    4048238751973100694543040549903249343723490551325768775838298751506687079079
    37565449703027449360245063872371237293824956496362421713059464249556871050173"
  by (rule tabn_add [OF base_19_5 base_19_1, where
      x = 30763456803841835014764137375983618461091212116258057699381135966442745770490 and
      e = 411809643165781188168155295913577813319221288378088553780504804657502668701691 and i = 18001574 and j = 0 and q = 11295518 and
      l = 1152904 and v = 0 and u = 0],
      simp only: arith_simps rel_simps, simp only: distinct_ok_def arith_simps rel_simps simp_thms,
      simp only: hex_simps)

lemma base_19_7: "tabn 39962935395766876669632007144585863818716905472
    6197932999954580532039155045230697784455161010361363499986261193294234697630
    46097849124561901146394333879622176990329029736566790489581746741422151256101
    1196018105494822407126248235083421807058786771135907204787169608376078918499"
  by (rule tabn_add [OF base_19_6 base_19_1, where
      x = 17996128494050777097430313669952474720761123606614855030133306455828648261478 and
      e = 504910830992841880934785391649209735667510816181480298407379953934531176653127 and i = 8399212 and j = 0 and q = 18361261 and
      l = 797182 and v = 0 and u = 1],
      simp only: arith_simps rel_simps, simp only: distinct_ok_def arith_simps rel_simps simp_thms,
      simp only: hex_simps)

lemma base_19_8: "tabn 45671926166590716193865151022383844364247891968
    24794464167259393807969065207870136073961627259981535987797697100423267055967
    27626836995356306903537599882234822642491401426514411956752653356194767091874
    21239430982072275512147208968347070657977425329783169869598084393962556441943"
  by (rule tabn_add [OF base_19_7 base_19_1, where
      x = 55063671790561184616216957829979267358105218166287406050773835748185064784042 and
      e = 16799513112155631100465907279982455629104890466440733023112349753192272931242 and i = 12910090 and j = 0 and q = 607444 and l = 2185124 and
      v = 0 and u = 1],
      simp only: arith_simps rel_simps, simp only: distinct_ok_def arith_simps rel_simps simp_thms,
      simp only: hex_simps)

lemma row_19: "list_all2 multiple [5708990770823839524233143877797980545530986496, 11417981541647679048466287755595961091061972992, 17126972312471518572699431633393941636592959488, 22835963083295358096932575511191922182123945984, 28544953854119197621165719388989902727654932480, 34253944624943037145398863266787883273185918976, 39962935395766876669632007144585863818716905472, 45671926166590716193865151022383844364247891968] ge_base_19"
  unfolding ge_base_19_def
  by (rule row8,
      (rule tab_ptm [OF base_19_1]; simp only: limb_simps),
      (rule tab_ptm [OF base_19_2]; simp only: limb_simps),
      (rule tab_ptm [OF base_19_3]; simp only: limb_simps),
      (rule tab_ptm [OF base_19_4]; simp only: limb_simps),
      (rule tab_ptm [OF base_19_5]; simp only: limb_simps),
      (rule tab_ptm [OF base_19_6]; simp only: limb_simps),
      (rule tab_ptm [OF base_19_7]; simp only: limb_simps),
      (rule tab_ptm [OF base_19_8]; simp only: limb_simps))

text \<open>Row 20.\<close>

lemma base_20_x1: "tabn 91343852333181432387730302044767688728495783936
    18388968933670730423038532679662466194727041094044865682447630165559128990185
    31366969531515944374680028337748424705468284538110937420007479319937322716490
    25306896643361620258728198637714402509615298413337791717128543620189262028445"
  by (rule tabn_dbl [OF base_19_8, where
      x = 44918044020812883760143996846257995415893748888754210282168942849578371093644 and
      e = 46136445035314120288171837296691520763276847734143878199309980403683253997258 and i = 9485024 and j = 734836 and k = 0 and l = 1740980 and
      v = 6 and u = 1],
      simp only: arith_simps rel_simps, simp only: hex_simps)

lemma base_20_x2: "tabn 182687704666362864775460604089535377456991567872
    21926981049716112996977877809627457639611289691445095337165325461747052687645
    7001130238901181337406480340068232848747667334478599866866138006533212958216
    38638186482142348011467228478090430994364992376933674012860599284488782306528"
  by (rule tabn_dbl [OF base_20_x1, where
      x = 14925850810814931659571397469559224790863622356966495470299187455213839729429 and
      e = 36706684054395572339813551319564800681426648785349307532013566230746298110820 and i = 2227640 and j = 0 and k = 37670 and l = 606219 and
      v = 4 and u = 0],
      simp only: arith_simps rel_simps, simp only: hex_simps)

lemma base_20_x3: "tabn 365375409332725729550921208179070754913983135744
    39928331414003193465574104541805305912561569898010815477573106249439896683471
    6928194428071063405693926470819083986924596131671323649974629715273334255241
    5995436125497174617224171921444353777825305428456267155164530333859783411479"
  by (rule tabn_dbl [OF base_20_x2, where
      x = 33000136985932130059880178070986221925636973766339491827598476534166562428230 and
      e = 33808119679103465969898994076894350974556470770867045090887135326984402647190 and i = 2187864 and j = 245436 and k = 0 and l = 1154192 and
      v = 2 and u = 0],
      simp only: arith_simps rel_simps, simp only: hex_simps)

lemma base_20_x4: "tabn 730750818665451459101842416358141509827966271488
    2004007499212568899640847024972257222276518915814652305359330117853481912562
    13760699813379818001621948699440995358454632119560173289455180029817859405708
    56531143174574626063477452286893595374332505703241692398464030602252175083198"
  by (rule tabn_dbl [OF base_20_x3, where
      x = 46139352304490848609804390829875215790456879129074761035632942091992187326803 and
      e = 47183563358611839565622309564103828692570643237255959418272859896199252758258 and i = 4195817 and j = 0 and k = 1884182 and l = 823514 and
      v = 3 and u = 1],
      simp only: arith_simps rel_simps, simp only: hex_simps)

lemma base_20_1: "tabn 1461501637330902918203684832716283019655932542976
    39617146015435595580198969827343948245008874692757989136124361602289538641745
    21307243722378927125549305362870788504399158938616244373229681556292363661020
    56885837457941781562472970038992446743422097347317904955514079018245209252097"
  by (rule tabn_dbl [OF base_20_x4, where
      x = 18309902293056668454649664464473159740609715754141744762894680045997174980725 and
      e = 26993111459493443216444988244992050394503859068611346990419397840017498647444 and i = 1553504 and j = 879796 and k = 0 and l = 1107291 and
      v = 2 and u = 0],
      simp only: arith_simps rel_simps, simp only: hex_simps)

lemma base_20_2: "tabn 2923003274661805836407369665432566039311865085952
    1950103029395058791374901457448162556473160291285922570693941381770074035992
    57428051607873191063471402594153952479320937548407046052682166911936461920707
    57658419206863557613075436535890848220861111884760370824405969118734898947033"
  by (rule tabn_dbl [OF base_20_1, where
      x = 2418096040179965439688991367638164003787215075699158537740566473790176935234 and
      e = 28517791843205965585853816338819895267730596968289340377367397660358641458416 and i = 985626 and j = 0 and k = 1228956 and l = 376564 and
      v = 6 and u = 1],
      simp only: arith_simps rel_simps, simp only: hex_simps)

lemma base_20_3: "tabn 4384504911992708754611054498148849058967797628928
    45531098528899205443642466263486352481549181295267350942582034337949275228090
    4660966385215079150479708479155646403320850887850878158241767050550608991208
    3212990973364207555713325006657889930223047391660007398496983246904512817433"
  by (rule tabn_add [OF base_20_2 base_20_1, where
      x = 40870132143684126293162757784330706078228330407416472784340267287398666236882 and
      e = 54628254262154892516341302728612004965666317882868495774015600774010439911906 and i = 26911840 and j = 0 and q = 2067568 and
      l = 1520914 and v = 13 and u = 0],
      simp only: arith_simps rel_simps, simp only: distinct_ok_def arith_simps rel_simps simp_thms,
      simp only: hex_simps)

lemma base_20_4: "tabn 5846006549323611672814739330865132078623730171904
    56273616363811169895530662344694145491338023097971425937846804075699274597425
    20007420324682690318814040859791879826605720309013055389632876535779089168907
    50366808401555536113478294266225348686978827198878052918429968543898518694239"
  by (rule tabn_add [OF base_20_3 base_20_1, where
      x = 36266196039128479576716621484902265664732302788958370548213927539920185428518 and
      e = 287977588287801616087780662801183916466238229083933539300885364995463602542954 and i = 14186380 and j = 0 and q = 15135088 and
      l = 2182242 and v = 0 and u = 0],
      simp only: arith_simps rel_simps, simp only: distinct_ok_def arith_simps rel_simps simp_thms,
      simp only: hex_simps)

lemma base_20_5: "tabn 7307508186654514591018424163581415098279662714880
    1207795283191252966733309153387684899343504126426808149219202638649314854078
    33156884166496720311355433673744586679809960696141234061471367121633466762949
    48562611479044161426853652725159758626243728420323964218969603293670881430938"
  by (rule tabn_add [OF base_20_4 base_20_1, where
      x = 25946955735352630367163367983987052146168535763105856107476627520972412911078 and
      e = 164390698678820126228013267299251827275328765589007400054378222826706446845131 and i = 13631058 and j = 0 and q = 3994911 and
      l = 1061314 and v = 0 and u = 1],
      simp only: arith_simps rel_simps, simp only: distinct_ok_def arith_simps rel_simps simp_thms,
      simp only: hex_simps)

lemma base_20_6: "tabn 8769009823985417509222108996297698117935595257856
    10395290322260315154510620324399316161155797299418139917873352481741976642850
    4924561404770687355153944551909891931038470188601701810683889216943960152468
    28725203191061569053464282894766765877404304894815192989896166063181466569058"
  by (rule tabn_add [OF base_20_5 base_20_1, where
      x = 5470728917489627799356675772489424230117327110816438107189463264798016490382 and
      e = 17745827596034825685355937247985675759901586733693214586124332289030198792102 and i = 2290270 and j = 0 and q = 319018 and l = 294494 and
      v = 7 and u = 0],
      simp only: arith_simps rel_simps, simp only: distinct_ok_def arith_simps rel_simps simp_thms,
      simp only: hex_simps)

lemma base_20_7: "tabn 10230511461316320427425793829013981137591527800832
    4897498707819437997725535309933053248277066291355096013609630282993307732004
    36328251228895320529203832833227659357404617275198982911738604683707972956158
    8360869020015027425398003561102879137274467326237743146577714236995543114909"
  by (rule tabn_add [OF base_20_6 base_20_1, where
      x = 26465292097582215180307194981049347817507441348976395121599817603241899595795 and
      e = 24776780037736468152565489314748223094338890847351182468792772727786693868791 and i = 4930070 and j = 0 and q = 768848 and l = 1021252 and
      v = 1 and u = 1],
      simp only: arith_simps rel_simps, simp only: distinct_ok_def arith_simps rel_simps simp_thms,
      simp only: hex_simps)

lemma base_20_8: "tabn 11692013098647223345629478661730264157247460343808
    35662292902561940479793662881921429256192976036385991077250516415610990213492
    24112110049888802558853693714399673241547242656397687459145660293202641975714
    21791538167017312289353922741146715340453011345869436335884971414065166801269"
  by (rule tabn_add [OF base_20_7 base_20_1, where
      x = 11550182852673137920939969167521756014645733379988303618104856122408348237778 and
      e = 5536969938796983164300369758082895112710166482878724380667827213504933052436 and i = 4683508 and j = 0 and q = 35626 and l = 810332 and
      v = 8 and u = 0],
      simp only: arith_simps rel_simps, simp only: distinct_ok_def arith_simps rel_simps simp_thms,
      simp only: hex_simps)

lemma row_20: "list_all2 multiple [1461501637330902918203684832716283019655932542976, 2923003274661805836407369665432566039311865085952, 4384504911992708754611054498148849058967797628928, 5846006549323611672814739330865132078623730171904, 7307508186654514591018424163581415098279662714880, 8769009823985417509222108996297698117935595257856, 10230511461316320427425793829013981137591527800832, 11692013098647223345629478661730264157247460343808] ge_base_20"
  unfolding ge_base_20_def
  by (rule row8,
      (rule tab_ptm [OF base_20_1]; simp only: limb_simps),
      (rule tab_ptm [OF base_20_2]; simp only: limb_simps),
      (rule tab_ptm [OF base_20_3]; simp only: limb_simps),
      (rule tab_ptm [OF base_20_4]; simp only: limb_simps),
      (rule tab_ptm [OF base_20_5]; simp only: limb_simps),
      (rule tab_ptm [OF base_20_6]; simp only: limb_simps),
      (rule tab_ptm [OF base_20_7]; simp only: limb_simps),
      (rule tab_ptm [OF base_20_8]; simp only: limb_simps))

text \<open>Row 21.\<close>

lemma base_21_x1: "tabn 23384026197294446691258957323460528314494920687616
    15669390887261996972541097573251699316363194991460993510930253774376039431216
    6481441604434674251722151301237027149677047898677253351625433079023270820732
    29559271997178921624658306938798944204607329382926023026275824151898408070232"
  by (rule tabn_dbl [OF base_20_8, where
      x = 9187949282827322720818946272014672166686147092783740159304820695352768610484 and
      e = 21565759737711297042259848425792447240910139416042233547743971359349202918149 and i = 2756972 and j = 0 and k = 1783652 and l = 269086 and
      v = 7 and u = 0],
      simp only: arith_simps rel_simps, simp only: hex_simps)

lemma base_21_x2: "tabn 46768052394588893382517914646921056628989841375232
    2722968881390638976469219772442544614751530397103130960257335824061931079737
    9417721599045751748513382216692679512054964631246943476749673742477908188722
    51414521009672608788797834343360383246450971208790812791170716666390124855170"
  by (rule tabn_dbl [OF base_21_x1, where
      x = 51201291901002984939741330060093819029331558098676469503236454085540587710964 and
      e = 57332184079154152228883050849148516066339192302626796008490170795837332741627 and i = 4405696 and j = 0 and k = 147421 and l = 713710 and
      v = 3 and u = 1],
      simp only: arith_simps rel_simps, simp only: hex_simps)

lemma base_21_x3: "tabn 93536104789177786765035829293842113257979682750464
    23427663464890778024067346444622556718943200713457476888478104769170624042391
    44457564966178680015057142836551689365367193763011300229631294647466358217283
    51602809259559988046960385996573801297906341961078793728103909848725551409417"
  by (rule tabn_dbl [OF base_21_x2, where
      x = 36866143117370195720795696112414821280210999283266458678575602125660830645057 and
      e = 37766332054285331698268190551387468304452566749657572736607204919444477040254 and i = 2417020 and j = 1232930 and k = 0 and l = 2170126 and
      v = 2 and u = 1],
      simp only: arith_simps rel_simps, simp only: hex_simps)

lemma base_21_x4: "tabn 187072209578355573530071658587684226515959365500928
    23578284508170805760193573125312691893812639890759519912979700868185590011016
    31662223357703339344075706230948549309295719547938186608589445522277417090097
    41122580965092749884993609610835391289398208276111753684721525644388300908023"
  by (rule tabn_dbl [OF base_21_x3, where
      x = 49812105769125564127903359398708096511151912675641615324119047349864737740868 and
      e = 1896478846704125200642855427723196607213634449827372503692185438871473296625 and i = 12146656 and j = 0 and k = 831811 and l = 2310104 and
      v = 6 and u = 1],
      simp only: arith_simps rel_simps, simp only: hex_simps)

lemma base_21_1: "tabn 374144419156711147060143317175368453031918731001856
    6721744453527085447111934514458601763104955671403590650884082188612679037303
    7643074769017388118650120575960634283958718521128516102447523902472952490045
    31528366601965305289940644562921318141983152131817016527053354114582450966119"
  by (rule tabn_dbl [OF base_21_x4, where
      x = 56974714303167795040247306442841921405781229483095356568165350290096291367207 and
      e = 25259013655364260138674657896478890902355153134412835329859156981881182955925 and i = 10583324 and j = 0 and k = 606794 and l = 875792 and
      v = 5 and u = 1],
      simp only: arith_simps rel_simps, simp only: hex_simps)

lemma base_21_2: "tabn 748288838313422294120286634350736906063837462003712
    41662329253638110486251795606091136297938735511114799762230848859569486029796
    15137901443542693398011653243558591517045173726451768439300029096732885221281
    33877699686697522655569814995013986429629494320631321959507634199066121460623"
  by (rule tabn_dbl [OF base_21_1, where
      x = 26524427810095417088240142362532544780893561784663031322930819762836600808515 and
      e = 56108227710567021190494554794986084240419128940954266373786023418164253349566 and i = 2457437 and j = 1800838 and k = 0 and l = 1278149 and
      v = 3 and u = 0],
      simp only: arith_simps rel_simps, simp only: hex_simps)

lemma base_21_3: "tabn 1122433257470133441180429951526105359095756193005568
    53104981668191180202166371114071678206861426533639479543903853229868005981059
    11761632472541594865416346998558488294741790232847285688500300897279474443054
    8744414005657438958897482888866077175551864801711842971574132884231088632498"
  by (rule tabn_add [OF base_21_2 base_21_1, where
      x = 41343349195649585336750024115513189912119636300792193855403552332588531538005 and
      e = 29921822294096968276241358070270167549866353199435712705662473095883380364271 and i = 5560561 and j = 0 and q = 1375677 and l = 1951749 and
      v = 0 and u = 0],
      simp only: arith_simps rel_simps, simp only: distinct_ok_def arith_simps rel_simps simp_thms,
      simp only: hex_simps)

lemma base_21_4: "tabn 1496577676626844588240573268701473812127674924007424
    40458879235011389872363152144400252764568659003341204771110023210842486375422
    55050924630306276017148052356245173643488584497842180783889711223240872023320
    35956418472906420762665207596966237239305212222240936591027805564304838588433"
  by (rule tabn_add [OF base_21_3 base_21_1, where
      x = 43303999223363211567000592292499033047715066838319306006949103991558179172051 and
      e = 170495363812790967725099575354681429949689122383774882463545652679260595090181 and i = 8910791 and j = 0 and q = 11174152 and
      l = 3057874 and v = 0 and u = 1],
      simp only: arith_simps rel_simps, simp only: distinct_ok_def arith_simps rel_simps simp_thms,
      simp only: hex_simps)

lemma base_21_5: "tabn 1870722095783555735300716585876842265159593655009280
    11426081037620647785759144744512284352460943578681056175900607140316442696190
    22434063337973006777353756659409490564409457910658531447789493465212094853166
    19015506516880501439135903862158418328409326541021257781129458007097206851986"
  by (rule tabn_add [OF base_21_4 base_21_1, where
      x = 46888062318305738720190880589446747714686478000842806747839905679060912662973 and
      e = 31564427212263018734142629122687918175178377151646358978046992302916560395562 and i = 11963556 and j = 0 and q = 965432 and l = 1300518 and
      v = 2 and u = 1],
      simp only: arith_simps rel_simps, simp only: distinct_ok_def arith_simps rel_simps simp_thms,
      simp only: hex_simps)

lemma base_21_6: "tabn 2244866514940266882360859903052210718191512386011136
    2427231050845422963311863624404116787241465748655446912296425494685524195642
    34811981322559136350694038015193209626691445300664122413676275512962180523970
    8187903791996321927987248531913643443623411611611455374871484778934619167670"
  by (rule tabn_add [OF base_21_5 base_21_1, where
      x = 25511294346944384324403318113554861087185012780811606518348941985679908491621 and
      e = 5894261714701673778206304458850805420431321905086836044478963779118415716506 and i = 2419640 and j = 0 and q = 181396 and l = 703180 and
      v = 0 and u = 1],
      simp only: arith_simps rel_simps, simp only: distinct_ok_def arith_simps rel_simps simp_thms,
      simp only: hex_simps)

lemma base_21_7: "tabn 2619010934096978029421003220227579171223431117012992
    37308254602377112564178086147768961703912722633046451374450519101286779225033
    23180643014899671323745807041200641822410751279184440531481448249927416367767
    48639578438992922634239205911494361817961086114213991466230647161304972478510"
  by (rule tabn_add [OF base_21_6 base_21_1, where
      x = 14127611587477441240432279106568319881501971353862010842969070851359362857266 and
      e = 18157363091202409464253124298268817355572547448812700842281301925921444970650 and i = 2552292 and j = 0 and q = 800708 and l = 854510 and
      v = 2 and u = 0],
      simp only: arith_simps rel_simps, simp only: distinct_ok_def arith_simps rel_simps simp_thms,
      simp only: hex_simps)

lemma base_21_8: "tabn 2993155353253689176481146537402947624255349848014848
    2013895308569455219786734186447753071261274947957555219773771034610945743735
    16163344805052720135338942660884992597412638362429943416342731939284199154189
    7320846262937598597095870749481084807870918895448980543581439781302930284037"
  by (rule tabn_add [OF base_21_7 base_21_1, where
      x = 43746595122174832796233284029906714400483628918347893823159831099283311409495 and
      e = 32089475850757497544449375562830505826347860670136822253564727063663215602929 and i = 8056882 and j = 0 and q = 708708 and l = 803556 and
      v = 1 and u = 1],
      simp only: arith_simps rel_simps, simp only: distinct_ok_def arith_simps rel_simps simp_thms,
      simp only: hex_simps)

lemma row_21: "list_all2 multiple [374144419156711147060143317175368453031918731001856, 748288838313422294120286634350736906063837462003712, 1122433257470133441180429951526105359095756193005568, 1496577676626844588240573268701473812127674924007424, 1870722095783555735300716585876842265159593655009280, 2244866514940266882360859903052210718191512386011136, 2619010934096978029421003220227579171223431117012992, 2993155353253689176481146537402947624255349848014848] ge_base_21"
  unfolding ge_base_21_def
  by (rule row8,
      (rule tab_ptm [OF base_21_1]; simp only: limb_simps),
      (rule tab_ptm [OF base_21_2]; simp only: limb_simps),
      (rule tab_ptm [OF base_21_3]; simp only: limb_simps),
      (rule tab_ptm [OF base_21_4]; simp only: limb_simps),
      (rule tab_ptm [OF base_21_5]; simp only: limb_simps),
      (rule tab_ptm [OF base_21_6]; simp only: limb_simps),
      (rule tab_ptm [OF base_21_7]; simp only: limb_simps),
      (rule tab_ptm [OF base_21_8]; simp only: limb_simps))

text \<open>Row 22.\<close>

lemma base_22_x1: "tabn 5986310706507378352962293074805895248510699696029696
    39589652964703051311010156079938073430224213513671413038802504024600042758727
    33092651885666017551082980031645925108353432371575483520112963503106501512510
    34604550725988393431880393577285910237198751650080160786151009633890395751212"
  by (rule tabn_dbl [OF base_21_8, where
      x = 6497001079037033759927176048292148321870781142095929518689540521493541246217 and
      e = 51351675901693712575337250651492502607540552047033892348040427562388806643958 and i = 681891 and j = 2359734 and k = 0 and l = 571571 and
      v = 3 and u = 0],
      simp only: arith_simps rel_simps, simp only: hex_simps)

lemma base_22_x2: "tabn 11972621413014756705924586149611790497021399392059392
    54562577767967502916953760097564354441606670697613794243953460922464355435652
    4621653946844132742844938987227170627273714099982874117251665840039376566638
    51870230934038716992345780077164103392047224176409279899943295370367207495211"
  by (rule tabn_dbl [OF base_22_x1, where
      x = 49940923821123370174108821110337183814332956597630920126701795082424978869014 and
      e = 35834627160547656310130453488567649562550325694137599336070719688684852051484 and i = 18942986 and j = 0 and k = 693236 and l = 2264688 and
      v = 10 and u = 0],
      simp only: arith_simps rel_simps, simp only: hex_simps)

lemma base_22_x3: "tabn 23945242826029513411849172299223580994042798784118784
    18238172509766130572838371819374335860088620946317495108545814980343300822932
    21643524156319915059511342994765532945143539962542425124476409934529155488163
    45827925934113293354298179366630588035361714371671691237491128196586337179320"
  by (rule tabn_dbl [OF base_22_x2, where
      x = 54490692972104313225112521328952756841580073316595352003798197049770710154718 and
      e = 34197132589133351825158807441397144174840564275221471446128693733458214365416 and i = 7861278 and j = 0 and k = 3238008 and l = 1783260 and
      v = 4 and u = 1],
      simp only: arith_simps rel_simps, simp only: hex_simps)

lemma base_22_x4: "tabn 47890485652059026823698344598447161988085597568237568
    52480799574212018296103641750962407459123884676888167027445524858425752156689
    14208282404154888024012111114010736524516613021305753100424949648820480726467
    21531103854009690623981581550647286456059934634937707999682589185058756094602"
  by (rule tabn_dbl [OF base_22_x3, where
      x = 38272517170057130272091530636951670934607271655582413927020575209605271430222 and
      e = 54658424947500583069860845582275061364404152287025765121131964347466599467051 and i = 6406530 and j = 1623360 and k = 0 and l = 1879396 and
      v = 5 and u = 0],
      simp only: arith_simps rel_simps, simp only: hex_simps)

lemma base_22_1: "tabn 95780971304118053647396689196894323976171195136475136
    28686246992650082172410758888313846267079339433473395280978156306621982121114
    24583006952753961532132428873864266174953424306103943960826424495088378267078
    55858511759155171035186662451886192650949514401803143616501468276134835673260"
  by (rule tabn_dbl [OF base_22_x4, where
      x = 4103240039896120640278330014449580092125915127369451320151731811533603854036 and
      e = 12140396885457680549862742893072839584068076064674613536543848287144864204475 and i = 1149406 and j = 0 and k = 3582706 and l = 402000 and
      v = 6 and u = 0],
      simp only: arith_simps rel_simps, simp only: hex_simps)

lemma base_22_2: "tabn 191561942608236107294793378393788647952342390272950272
    1694160625113090959590810823691695218321836735006141363714172290281997400731
    29947488084473661556204448050406543093208355959794391860538451833559719897357
    6553033477511152167753424438103890545918508083454418108807777757757847467509"
  by (rule tabn_dbl [OF base_22_1, where
      x = 29642717159297527115171855277629106051748473108032031522904512460678842323323 and
      e = 47958724991653336189905727911812457249810132408920044969063536841438351190441 and i = 5268600 and j = 0 and k = 158670 and l = 910092 and
      v = 5 and u = 1],
      simp only: arith_simps rel_simps, simp only: hex_simps)

lemma base_22_3: "tabn 287342913912354160942190067590682971928513585409425408
    44019821848944042459916905979500354368580149563214873242043820579982777479417
    46330335272491173234029485699633960677692613273760879819245806201540266722723
    57464547890856002161613913096396805210605492840267624623634432174523788872461"
  by (rule tabn_add [OF base_22_2 base_22_1, where
      x = 55585531195110966937672912784210347617522528622274275442526806382399075576643 and
      e = 8482856196120848843652559068150960852662089080344423779253397314559488925316 and i = 18345192 and j = 0 and q = 508092 and l = 3823628 and
      v = 4 and u = 1],
      simp only: arith_simps rel_simps, simp only: distinct_ok_def arith_simps rel_simps simp_thms,
      simp only: hex_simps)

lemma base_22_4: "tabn 383123885216472214589586756787577295904684780545900544
    13220546983599788160856200478073169526385104514872350171792087133990157423520
    5935817531511173174165803414967037509987447884821164118389693854887284314991
    1955044669933773787732732485213535922569554500554643807834443986037146076"
  by (rule tabn_add [OF base_22_3 base_22_1, where
      x = 7284729452088614986690397063106132016397656630051186053402393279102873108529 and
      e = 52322171006884784831689455093281450979329649922492361377235963775857894400029 and i = 5198948 and j = 0 and q = 866663 and l = 106073 and
      v = 3 and u = 0],
      simp only: arith_simps rel_simps, simp only: distinct_ok_def arith_simps rel_simps simp_thms,
      simp only: hex_simps)

lemma base_22_5: "tabn 478904856520590268236983445984471619880855975682375680
    45163320849985125670456931538050017281882163598934981341553398497937944389468
    26581424309591561637352452821673656554635899524108780926518715672302543334412
    23511138278919726050323991693030356486143254431314050170651964038289377010478"
  by (rule tabn_add [OF base_22_4 base_22_1, where
      x = 18581896540393564033104478716376360727246264074826200415034682825635401055056 and
      e = 52210895007886998924265885457494260696520184300271199509555493597630931935414 and i = 2819708 and j = 0 and q = 2502368 and l = 1018464 and
      v = 0 and u = 0],
      simp only: arith_simps rel_simps, simp only: distinct_ok_def arith_simps rel_simps simp_thms,
      simp only: hex_simps)

lemma base_22_6: "tabn 574685827824708321884380135181365943857027170818850816
    27483898260383436270042163876958649678207654878969631367949429486858021294056
    10291802453832064763549003488656878224950443831067973678333696142425618390550
    44833187017994075685716409543886176837492606910711490533363654731629378572593"
  by (rule tabn_add [OF base_22_5 base_22_1, where
      x = 17192095806551371506493160388301771453257211047901657689615733344432402903506 and
      e = 37722576684824427689529223464876435224469605743974348155981250097429318444450 and i = 9207024 and j = 0 and q = 859794 and l = 757134 and
      v = 0 and u = 0],
      simp only: arith_simps rel_simps, simp only: distinct_ok_def arith_simps rel_simps simp_thms,
      simp only: hex_simps)

lemma base_22_7: "tabn 670466799128826375531776824378260267833198365955325952
    30360040225620604757866874465980393944844782759560419839227580863153179725288
    38717613655784934236302176067969528980980795432353547254281655621424725294751
    55642330237818598280585711671966521363396907038111516127466110228513581660953"
  by (rule tabn_add [OF base_22_6 base_22_1, where
      x = 49538471188493768233350190902354818890498979660027154604674717245685019250486 and
      e = 149634631778274758248997875272220003233774686611402466641854577997184298365966 and i = 15758934 and j = 0 and q = 7168374 and
      l = 2727274 and v = 0 and u = 1],
      simp only: arith_simps rel_simps, simp only: distinct_ok_def arith_simps rel_simps simp_thms,
      simp only: hex_simps)

lemma base_22_8: "tabn 766247770432944429179173513575154591809369561091801088
    32935223137074263543818116770509457361243070799404742284314591937726895274694
    40572964689025552976168500191908054079551996545536247614646104527160179338819
    10013174844219775179169969937068145870035890337718686305026375966992628442737"
  by (rule tabn_add [OF base_22_7 base_22_1, where
      x = 50258303066706808279435109082945357208326066586688776689397279414523280755824 and
      e = 49922326037504099241364723339845430130292744690219783717243507184177778842874 and i = 24785644 and j = 0 and q = 2568604 and
      l = 2732956 and v = 2 and u = 1],
      simp only: arith_simps rel_simps, simp only: distinct_ok_def arith_simps rel_simps simp_thms,
      simp only: hex_simps)

lemma row_22: "list_all2 multiple [95780971304118053647396689196894323976171195136475136, 191561942608236107294793378393788647952342390272950272, 287342913912354160942190067590682971928513585409425408, 383123885216472214589586756787577295904684780545900544, 478904856520590268236983445984471619880855975682375680, 574685827824708321884380135181365943857027170818850816, 670466799128826375531776824378260267833198365955325952, 766247770432944429179173513575154591809369561091801088] ge_base_22"
  unfolding ge_base_22_def
  by (rule row8,
      (rule tab_ptm [OF base_22_1]; simp only: limb_simps),
      (rule tab_ptm [OF base_22_2]; simp only: limb_simps),
      (rule tab_ptm [OF base_22_3]; simp only: limb_simps),
      (rule tab_ptm [OF base_22_4]; simp only: limb_simps),
      (rule tab_ptm [OF base_22_5]; simp only: limb_simps),
      (rule tab_ptm [OF base_22_6]; simp only: limb_simps),
      (rule tab_ptm [OF base_22_7]; simp only: limb_simps),
      (rule tab_ptm [OF base_22_8]; simp only: limb_simps))

text \<open>Row 23.\<close>

lemma base_23_x1: "tabn 1532495540865888858358347027150309183618739122183602176
    4162636603363898912802506016734676141302414346069497572792082195277430623166
    29485708941827416286782376064401195135545585102276699998591977987442165037807
    3613692443149923792376614351232710419177537871069393272542298214079918597238"
  by (rule tabn_dbl [OF base_22_8, where
      x = 32572972280194580337805622456677434932391821576613079593928896211791830405308 and
      e = 57468445007729853741846202130706838615229727923880646772801410675673205390785 and i = 10519516 and j = 0 and k = 177991 and l = 942724 and
      v = 9 and u = 1],
      simp only: arith_simps rel_simps, simp only: hex_simps)

lemma base_23_x2: "tabn 3064991081731777716716694054300618367237478244367204352
    584785219525950170676989274521865689357439769128629296953187445640918525891
    12718425858699363827577874084978253374127524126829559947396777360829723782093
    18588143614279976351068635712065470868823592706272611904784960828727513802348"
  by (rule tabn_dbl [OF base_23_x1, where
      x = 45762403979484684054884607693887566241864907975119351369285202088767759563747 and
      e = 1472967663489413026260403718191778467091656769497497047241859832408784893072 and i = 3862684 and j = 30596 and k = 0 and l = 656134 and
      v = 2 and u = 1],
      simp only: arith_simps rel_simps, simp only: hex_simps)

lemma base_23_x3: "tabn 6129982163463555433433388108601236734474956488734408704
    37882208947317627261499830191132446807833795029824373210256954531113040603046
    13795079075399559508321400535529164627214519095947643547813099448947406064111
    28307297613317703095807577801362252481222779978105713910175740288869985923007"
  by (rule tabn_dbl [OF base_23_x2, where
      x = 24087129871918067753178429655603282180619275933876729662443855082165634538935 and
      e = 43322428758048926978752550418764981470113654534975772731554751256557778022876 and i = 534469 and j = 1290506 and k = 0 and l = 981301 and
      v = 1 and u = 0],
      simp only: arith_simps rel_simps, simp only: hex_simps)

lemma base_23_x4: "tabn 12259964326927110866866776217202473468949912977468817408
    13164814998635651238619460631778212018370597159231378721179731891801191967134
    57733395054077155839536104799605618049007161755081628201792019399522427573739
    39072652196698510290792101474135294079536544463916243864774794134156229735967"
  by (rule tabn_dbl [OF base_23_x3, where
      x = 13327464563216593110868848336516547895998427736970032539116504496235329213344 and
      e = 41291451898328395185066468110184667020081109391219183500198420024844765670872 and i = 2076286 and j = 0 and k = 129646 and l = 977026 and
      v = 4 and u = 1],
      simp only: arith_simps rel_simps, simp only: hex_simps)

lemma base_23_1: "tabn 24519928653854221733733552434404946937899825954937634816
    33537300424657346343497423652564013470230734691730347070927077985140983694912
    20297317707609261493161992904132314944137643379327918200774735958891930484726
    39410472261615336299743179721829130701240338067283415880137602906932938993002"
  by (rule tabn_dbl [OF base_23_x4, where
      x = 13239982717048084850335430748431698526093091312402428870152342026249053210186 and
      e = 24800141119853729161635920222284390682054317462802317405223567474574550372912 and i = 3166996 and j = 239624 and k = 0 and l = 883716 and
      v = 6 and u = 0],
      simp only: arith_simps rel_simps, simp only: hex_simps)

lemma base_23_2: "tabn 49039857307708443467467104868809893875799651909875269632
    1712445337030991157750534097014308906098184665744088039081870421864274254414
    39603638549170698688492301341788508415363148355490438531984194300384281893806
    28387347541056969743161731260477599087813211938671199800737975337186595900477"
  by (rule tabn_dbl [OF base_23_1, where
      x = 20004851406518390181043725259569754417370028643073931526826468125436557180557 and
      e = 1532266406365358608995198136329003332909262869931772106230901499822112345532 and i = 3560346 and j = 0 and k = 1857036 and l = 746036 and
      v = 4 and u = 1],
      simp only: arith_simps rel_simps, simp only: hex_simps)

lemma base_23_3: "tabn 73559785961562665201200657303214840813699477864812904448
    6381785503443767620144114297211657486204963580799861750583783655814403903947
    20731757979607750625751812771587060916698562561734502883081447364480315456441
    52025313583540724832798345327181036305559642798567317494165088512254906501246"
  by (rule tabn_add [OF base_23_2 base_23_1, where
      x = 43546072142494114706177794029968550496141393351885640887231128295290653267455 and
      e = 49753768262161674619110986610987822941587868838534190662439129240350588710572 and i = 15986222 and j = 0 and q = 1078970 and
      l = 1269098 and v = 8 and u = 1],
      simp only: arith_simps rel_simps, simp only: distinct_ok_def arith_simps rel_simps simp_thms,
      simp only: hex_simps)

lemma base_23_4: "tabn 98079714615416886934934209737619787751599303819750539264
    39962784801563873441326809151610755355101276033672772352222160399133945815860
    21829866401582899326193242125877764585288408112776760295925053610517116532974
    53525137850540139796087645227339376160151111749935319116901387220348487108962"
  by (rule tabn_add [OF base_23_3 base_23_1, where
      x = 18132918399980974115133567025732990769812867920896012056297106788616829282886 and
      e = 9714984907556509333893058930284345608734568850267438033951635447919835875556 and i = 6289424 and j = 0 and q = 628712 and l = 1139826 and
      v = 4 and u = 0],
      simp only: arith_simps rel_simps, simp only: distinct_ok_def arith_simps rel_simps simp_thms,
      simp only: hex_simps)

lemma base_23_5: "tabn 122599643269271108668667762172024734689499129774688174080
    18424601948440839042966911094196533300670884482543893726883298483618397474717
    28611221637277788454653772058330188072172615061311474707959206031242261678272
    13784576449363378278195014104381103922006818860539015066145184823692661845116"
  by (rule tabn_add [OF base_23_4 base_23_1, where
      x = 47709424929821148300098631540210299155133261754052701038652884456332700616394 and
      e = 45533409641125004590390637483505956151218794687181414114765388194239683725608 and i = 23923242 and j = 0 and q = 1716090 and
      l = 1723868 and v = 0 and u = 1],
      simp only: arith_simps rel_simps, simp only: distinct_ok_def arith_simps rel_simps simp_thms,
      simp only: hex_simps)

lemma base_23_6: "tabn 147119571923125330402401314606429681627398955729625808896
    32359287579726868380064899150465475052024018867236794017832527451254926901633
    46064498920093964071880903261317636764717015399540532315738724789916366529521
    10333365403026583134908625158299923462963191469344860545036750155428358443353"
  by (rule tabn_add [OF base_23_5 base_23_1, where
      x = 44190833278291002019969488393491792213941995800516543721822594665295125192061 and
      e = 42578002688079836246006035162728544858040376913067579897391721560672866931381 and i = 17694044 and j = 0 and q = 2300132 and
      l = 2643804 and v = 3 and u = 1],
      simp only: arith_simps rel_simps, simp only: distinct_ok_def arith_simps rel_simps simp_thms,
      simp only: hex_simps)

lemma base_23_7: "tabn 171639500576979552136134867040834628565298781684563443712
    14292104184602825567975443623685576079813764450312324439612174950093523125635
    18531551320512548816870081860661585020434751047451492463329002345415523590677
    31450208209894312051557338832913412698032699423359994755491733207238461421526"
  by (rule tabn_add [OF base_23_6 base_23_1, where
      x = 53656597482748374462890854267367944986014005735681113996011964608634564354907 and
      e = 32932594810796827941102361481101912115123858811212447060931163907760473187982 and i = 31510470 and j = 0 and q = 786768 and l = 1502468 and
      v = 6 and u = 1],
      simp only: arith_simps rel_simps, simp only: distinct_ok_def arith_simps rel_simps simp_thms,
      simp only: hex_simps)

lemma base_23_8: "tabn 196159429230833773869868419475239575503198607639501078528
    56905756087445646261696198955362503937839188694500188427421064841379433967588
    47294780869389467885625327381238031010851793283310081785600860046232347313110
    46689654877469149747511236224341221486288066733110499146557079054758722351808"
  by (rule tabn_add [OF base_23_7 base_23_1, where
      x = 9610975218056178376070871574124472926987395411190106641820204795147086654478 and
      e = 9548387624017386037940686450491340494836236459921145633979177917719046389412 and i = 2872844 and j = 0 and q = 862082 and l = 919764 and
      v = 2 and u = 0],
      simp only: arith_simps rel_simps, simp only: distinct_ok_def arith_simps rel_simps simp_thms,
      simp only: hex_simps)

lemma row_23: "list_all2 multiple [24519928653854221733733552434404946937899825954937634816, 49039857307708443467467104868809893875799651909875269632, 73559785961562665201200657303214840813699477864812904448, 98079714615416886934934209737619787751599303819750539264, 122599643269271108668667762172024734689499129774688174080, 147119571923125330402401314606429681627398955729625808896, 171639500576979552136134867040834628565298781684563443712, 196159429230833773869868419475239575503198607639501078528] ge_base_23"
  unfolding ge_base_23_def
  by (rule row8,
      (rule tab_ptm [OF base_23_1]; simp only: limb_simps),
      (rule tab_ptm [OF base_23_2]; simp only: limb_simps),
      (rule tab_ptm [OF base_23_3]; simp only: limb_simps),
      (rule tab_ptm [OF base_23_4]; simp only: limb_simps),
      (rule tab_ptm [OF base_23_5]; simp only: limb_simps),
      (rule tab_ptm [OF base_23_6]; simp only: limb_simps),
      (rule tab_ptm [OF base_23_7]; simp only: limb_simps),
      (rule tab_ptm [OF base_23_8]; simp only: limb_simps))

end
