(* ===== verification/BaseRows4.thy ===== *)
theory BaseRows4
  imports BaseRows3
begin

text \<open>
  Certificates for rows 24 to 31 of \<open>ge_base\<close>: entry \<open>j\<close> of row \<open>i\<close> is \<open>(j + 1) * 256 ^ i\<close> times the base point.  In each row the
  second entry is the double of the first and every other one is the sum of its predecessor and the first; five
  doublings lead from the last entry of a row to the first one of the next.
\<close>

text \<open>Row 24.\<close>

lemma base_24_x1: "tabn 392318858461667547739736838950479151006397215279002157056
    14433019317592528827773217842492832521107225826321098069369329761560858171167
    227672649292312309415764748418086519533207076911048037684098263976604341455
    1873027871472164474891178978745417228756770985297555047750065378531243509802"
  by (rule tabn_dbl [OF base_23_8, where
      x = 14205346668300216518357453094074746001574018749410050031685231497584253829712 and
      e = 25703973797234531258285343315730116410785007021394203004652415976858082097426 and i = 9192984 and j = 0 and k = 4326384 and l = 344026 and
      v = 16 and u = 0],
      simp only: arith_simps rel_simps, simp only: hex_simps)

lemma base_24_x2: "tabn 784637716923335095479473677900958302012794430558004314112
    3678591536329768490469544774394264647023667859065529436585204355656801411655
    7825969676466478768104460439023688335146841082429203154866743267161198034783
    12135289205507046471967598107420548526710480005123125908039823619206445526179"
  by (rule tabn_dbl [OF base_24_x1, where
      x = 53748666478521387434150576839714530238511819109456608301447253092452168196821 and
      e = 26062668247813839312036793994108068057803904156190916085319157992575976535580 and i = 1195681 and j = 0 and k = 344026 and l = 633532 and
      v = 1 and u = 1],
      simp only: arith_simps rel_simps, simp only: hex_simps)

lemma base_24_x3: "tabn 1569275433846670190958947355801916604025588861116008628224
    29219774217519919237616767847596595986648303461023267385024025762354624769694
    4956209539947775781733061279772566262893608593857496887743827680501502625231
    46338231075521862916344238107645461816112384899349012302277688875595133428201"
  by (rule tabn_dbl [OF base_24_x2, where
      x = 24263564677572143455883706567824029723754694867165770497280198081853122144463 and
      e = 27615034104737669575249169922957307854790609942729734602090729254408272905278 and i = 755197 and j = 583118 and k = 0 and l = 940493 and
      v = 1 and u = 0],
      simp only: arith_simps rel_simps, simp only: hex_simps)

lemma base_24_x4: "tabn 3138550867693340381917894711603833208051177722232017256448
    12701313107394580236461066638023179145754036828323517951659941569561363932896
    13520382171601208384746513767643911738542836919401653198664014423115357059373
    42948948742580699712637038830317505862399260036007473968783911828705843368593"
  by (rule tabn_dbl [OF base_24_x3, where
      x = 57076975554451469563500045374723221333846192241742146772724719150402571693472 and
      e = 2910973076009634953355240766861944398461056848309760106526084971032040978672 and i = 4712108 and j = 0 and k = 1548818 and l = 1229354 and
      v = 2 and u = 1],
      simp only: arith_simps rel_simps, simp only: hex_simps)

lemma base_24_1: "tabn 6277101735386680763835789423207666416102355444464034512896
    56823078171648598085772663355782637872944992260609085364041939753739588737728
    31692561975737213039201399039902336539078440809090397231934767569424405132710
    40876948891942767984726390097468522319926424365298845421691691561821767326326"
  by (rule tabn_dbl [OF base_24_x4, where
      x = 25130516195911385046571264315880301333866551451518688132107172184315183605018 and
      e = 39879791348521356009699647082386837020927825294742023627985379876131539496531 and i = 2689334 and j = 1933936 and k = 0 and l = 1731408 and
      v = 3 and u = 0],
      simp only: arith_simps rel_simps, simp only: hex_simps)

lemma base_24_2: "tabn 12554203470773361527671578846415332832204710888928069025792
    30706883267303612086982069757625075162812570108514555548593066835804886025145
    24611671225731555518716404304158770074578826637453503419459374369294566636817
    48005060839820422219350859718306492667671510853106247104512417593365407129907"
  by (rule tabn_dbl [OF base_24_1, where
      x = 6095212041572056568265665453466305088233743471061052129133692466510319388328 and
      e = 47175085494075294437313957955107475300324150573745057824267831159885365727255 and i = 3191388 and j = 0 and k = 3191388 and l = 667976 and
      v = 13 and u = 0],
      simp only: arith_simps rel_simps, simp only: hex_simps)

lemma base_24_3: "tabn 18831305206160042291507368269622999248307066333392103538688
    31306949676691746939928803518181906859289485501750847964509039092223836795619
    39994308360463211255107899046030656039424983606672598251332701451220844734047
    6642794321915277456296779679283407466170718400195511780384211460029968578827"
  by (rule tabn_add [OF base_24_2 base_24_1, where
      x = 49208685934886633396606396976495204746499494227898531732905129644959556881521 and
      e = 1277484547348493165644730194011821944103614412095540145488778571087051622862 and i = 32085644 and j = 0 and q = 153218 and l = 2627466 and
      v = 2 and u = 1],
      simp only: arith_simps rel_simps, simp only: distinct_ok_def arith_simps rel_simps simp_thms,
      simp only: hex_simps)

lemma base_24_4: "tabn 25108406941546723055343157692830665664409421777856138051584
    31065058936047843983835804919410612940940253088491821236342496610802982039069
    21984521922581157605963368307338063954142486346217685416478027709711412364335
    44703232986687963938518426900629275320554970839714089648200942647377553343470"
  by (rule tabn_add [OF base_24_3 base_24_1, where
      x = 9080537013466686377872436612072548986797766742274135819864468901091569674734 and
      e = 38100260242145951074150837595699079762230878088359128872484030435289373179221 and i = 8008824 and j = 0 and q = 1382718 and l = 658710 and
      v = 7 and u = 0],
      simp only: arith_simps rel_simps, simp only: distinct_ok_def arith_simps rel_simps simp_thms,
      simp only: hex_simps)

lemma base_24_5: "tabn 31385508676933403819178947116038332080511777222320172564480
    9474899081810698791779641326145286407816555213110704800236628957435449014844
    41639270237107936573823460077409484955911579835488678036929073801724194493293
    42719203519880930642343549399816822632959339270567464200189499732211610605557"
  by (rule tabn_add [OF base_24_4 base_24_1, where
      x = 25731673463360859929741673753079755378539967710442308783036347159667819341500 and
      e = 49981613191232585018101284206522585492049958235514642716709712867978924999004 and i = 14069958 and j = 0 and q = 1847262 and
      l = 1126296 and v = 2 and u = 1],
      simp only: arith_simps rel_simps, simp only: distinct_ok_def arith_simps rel_simps simp_thms,
      simp only: hex_simps)

lemma base_24_6: "tabn 37662610412320084583014736539245998496614132666784207077376
    50973574640609410493270269624326149133965166784517079380234151553468008543038
    54251151608469383813245918170011875098426836063363486162523071230070020448639
    6424653190144027037568988275508875558591517109070186392733318684874648923212"
  by (rule tabn_add [OF base_24_5 base_24_1, where
      x = 54618467650798124391809843958658227962173323053973875237439872327354552914348 and
      e = 52726211715777015305911482283907219508758437673462793005352420097913070543847 and i = 38870544 and j = 0 and q = 3896493 and
      l = 4190806 and v = 13 and u = 1],
      simp only: arith_simps rel_simps, simp only: distinct_ok_def arith_simps rel_simps simp_thms,
      simp only: hex_simps)

lemma base_24_7: "tabn 43939712147706765346850525962453664912716488111248241590272
    50452089066095520104533794267964660513765227922463254822592915004194200164648
    42665858899392646292787237157687354571164889898279163983299792083082980277736
    54302106406547357303566004724086474124806603021109030750806623627592886366874"
  by (rule tabn_add [OF base_24_6 base_24_1, where
      x = 7786230166702873811746557110277305942600338024184090839293122921111219886912 and
      e = 32505287206679242817438868603852172161351593755631934299530968248407318834245 and i = 9328834 and j = 0 and q = 1972738 and l = 764972 and
      v = 7 and u = 0],
      simp only: arith_simps rel_simps, simp only: distinct_ok_def arith_simps rel_simps simp_thms,
      simp only: hex_simps)

lemma base_24_8: "tabn 50216813883093446110686315385661331328818843555712276103168
    13540720272584488710589697896042303772586080970891815907834958510026401261426
    6647844644545942134100384468303887644593227397097106861932447091175039100860
    31882976893936029924115801905312023736329528897244197394078603400921910187431"
  by (rule tabn_add [OF base_24_7 base_24_1, where
      x = 6892875628038546576489313427738416127992853573794709045902511418851362160566 and
      e = 41995883501220951143848070406868922024706632420889090141006463949128578545876 and i = 7606310 and j = 0 and q = 736874 and l = 470998 and
      v = 6 and u = 0],
      simp only: arith_simps rel_simps, simp only: distinct_ok_def arith_simps rel_simps simp_thms,
      simp only: hex_simps)

lemma row_24: "list_all2 multiple [6277101735386680763835789423207666416102355444464034512896, 12554203470773361527671578846415332832204710888928069025792, 18831305206160042291507368269622999248307066333392103538688, 25108406941546723055343157692830665664409421777856138051584, 31385508676933403819178947116038332080511777222320172564480, 37662610412320084583014736539245998496614132666784207077376, 43939712147706765346850525962453664912716488111248241590272, 50216813883093446110686315385661331328818843555712276103168] ge_base_24"
  unfolding ge_base_24_def
  by (rule row8,
      (rule tab_ptm [OF base_24_1]; simp only: limb_simps),
      (rule tab_ptm [OF base_24_2]; simp only: limb_simps),
      (rule tab_ptm [OF base_24_3]; simp only: limb_simps),
      (rule tab_ptm [OF base_24_4]; simp only: limb_simps),
      (rule tab_ptm [OF base_24_5]; simp only: limb_simps),
      (rule tab_ptm [OF base_24_6]; simp only: limb_simps),
      (rule tab_ptm [OF base_24_7]; simp only: limb_simps),
      (rule tab_ptm [OF base_24_8]; simp only: limb_simps))

text \<open>Row 25.\<close>

lemma base_25_x1: "tabn 100433627766186892221372630771322662657637687111424552206336
    37082884071409217501735151535403647570992630841419959116788654210139848164120
    31100210456026919531916348943250374513916212845570508096479695019665124044395
    49944555817011015782128986298666712262751965160005745312223671206413938633100"
  by (rule tabn_dbl [OF base_24_8, where
      x = 5982673615382297969818802592153273057076417995849451020308959190474724119725 and
      e = 6216477907789962748845124114987953549250042677505471993627493192275175375654 and i = 714328 and j = 0 and k = 227668 and l = 628735 and
      v = 2 and u = 0],
      simp only: arith_simps rel_simps, simp only: hex_simps)

lemma base_25_x2: "tabn 200867255532373784442745261542645325315275374222849104412672
    43104885622705402498154505883974980259039242488210938263351972323294601588872
    20426769793430046937181187186233719697257896322123931651835130211853678797137
    46555300934813292684570057799775684937713105639819281948706365592227985969882"
  by (rule tabn_dbl [OF base_25_x1, where
      x = 22678115829275355560973318697741260561781346166087006611516842111440922791735 and
      e = 35154666623937908656521903527103498641464632522667552084193719411603603279009 and i = 8050300 and j = 0 and k = 628735 and l = 1189351 and
      v = 9 and u = 0],
      simp only: arith_simps rel_simps, simp only: hex_simps)

lemma base_25_x3: "tabn 401734511064747568885490523085290650630550748445698208825344
    16472312606931799614462687861414478365019134565195084351702505064177113490667
    1365701217766719994936920451083547902972126480076447240913237261518942286471
    17032824455551912013756679743968383750988213648374295751130192845416394150689"
  by (rule tabn_dbl [OF base_25_x2, where
      x = 15106611389165079619525767410330930462047008085118637110789267802658171204196 and
      e = 17326902794319971402609257824385069216521117149027174038462363585949391123899 and i = 4474306 and j = 0 and k = 2527666 and l = 331952 and
      v = 7 and u = 0],
      simp only: arith_simps rel_simps, simp only: hex_simps)

lemma base_25_x4: "tabn 803469022129495137770981046170581301261101496891396417650688
    3620847422797225669537487963319878510813625673143035314029197444558642153340
    36663129096830406075171095727813040888201913791218274335237952876157861170529
    16167626088967368373123861057636582937002343894624286670056332370721011323875"
  by (rule tabn_dbl [OF base_25_x3, where
      x = 24853762944624917306151884739850791549246704214745042998520036572357345802760 and
      e = 15068572709417726870643852054835872726047266307210153599088919830033541647467 and i = 2035262 and j = 0 and k = 210287 and l = 797000 and
      v = 2 and u = 1],
      simp only: arith_simps rel_simps, simp only: hex_simps)

lemma base_25_1: "tabn 1606938044258990275541962092341162602522202993782792835301376
    21247700065992815554219025084791972986877248808030368464515002979794460272553
    51458070158873052938259919890280839110256802361532492544262098461645375229869
    40915848133279304249301717065599502159361308619214504379065587951925414753485"
  by (rule tabn_dbl [OF base_25_x4, where
      x = 27685674525777860327744597698855087803255438779318157939981696522105649862633 and
      e = 46817484150815229411320515024357864643154190594025444799095824163940081527590 and i = 1526990 and j = 2366290 and k = 0 and l = 1677870 and
      v = 2 and u = 1],
      simp only: arith_simps rel_simps, simp only: hex_simps)

lemma base_25_2: "tabn 3213876088517980551083924184682325205044405987565585670602752
    4727200399183100554625069219544402678301919790150400345270606071513326148756
    20684273387194273275095288836336166692715130933153406691326531018411456472213
    17457845830353404567873436480192010256891779227682532036347401016005833515468"
  by (rule tabn_dbl [OF base_25_1, where
      x = 41938971630646924991315272887552189912221781189817275673672867057058434496492 and
      e = 33328824669434341035362997246029243660535454807751262267025601745658414399050 and i = 11167740 and j = 0 and k = 217890 and l = 1024484 and
      v = 7 and u = 1],
      simp only: arith_simps rel_simps, simp only: hex_simps)

lemma base_25_3: "tabn 4820814132776970826625886277023487807566608981348378505904128
    27139288877387388488808630710767817966639044493186098223684115690414826969358
    14340157291868914488561363639847898872504938180984180773447225363959479581304
    48517599742137450041093183501501060981753535984596613915587181928311436916779"
  by (rule tabn_add [OF base_25_2 base_25_1, where
      x = 12799131585518474000247267070919919094134106312201917450236890326455347388054 and
      e = 29413613158744702977534583650052613401736544935352667254247352642316974331729 and i = 2945684 and j = 0 and q = 806594 and l = 595232 and
      v = 2 and u = 0],
      simp only: arith_simps rel_simps, simp only: distinct_ok_def arith_simps rel_simps simp_thms,
      simp only: hex_simps)

lemma base_25_4: "tabn 6427752177035961102167848369364650410088811975131171341205504
    52132666637547167612059606246458930914946916187946755358873910926782976364275
    40893392783672181994993955864395454490492657262714029368364154330164101629252
    27911567646974733787502960539801807308682540257723225617237091100946961079814"
  by (rule tabn_add [OF base_25_3 base_25_1, where
      x = 11239273853874985617065650382063476424454258925232725990509756596618874735023 and
      e = 277308134684825066592084913359498736838137381708025785053775416436014232164434 and i = 5679722 and j = 0 and q = 17897102 and
      l = 927967 and v = 0 and u = 0],
      simp only: arith_simps rel_simps, simp only: distinct_ok_def arith_simps rel_simps simp_thms,
      simp only: hex_simps)

lemma base_25_5: "tabn 8034690221294951377709810461705813012611014968913964176506880
    40300888757784454726967334645191496764606686502105499399969986520407466321365
    1897779212821504040048731397258769059386726268493158179185867729981834910168
    31624780136283633034036806514856161250450087610830648591343055057965078108846"
  by (rule tabn_add [OF base_25_4 base_25_1, where
      x = 38403109544962950686918603247932727705219960233612341220784118790425631411197 and
      e = 589256894204769755936899105332769727593949853008016886537241721127753012863705 and i = 35698717 and j = 0 and q = 17256517 and
      l = 1425063 and v = 0 and u = 0],
      simp only: arith_simps rel_simps, simp only: distinct_ok_def arith_simps rel_simps simp_thms,
      simp only: hex_simps)

lemma base_25_6: "tabn 9641628265553941653251772554046975615133217962696757011808256
    28700324951400026216476624618567404104039420582600075273284917010363994386925
    40875867299320575739499745405113333941520935377869317779759344622427569510187
    17197665032225666821982391872834330532391780023309656801997159866397444967878"
  by (rule tabn_add [OF base_25_5 base_25_1, where
      x = 45720502270737548188762371717798024089153477537551039513254364391892989696687 and
      e = 647550343829650670398919524953533027016665182797339431050987434103245682424433 and i = 28652583 and j = 0 and q = 31258428 and
      l = 2379504 and v = 0 and u = 1],
      simp only: arith_simps rel_simps, simp only: distinct_ok_def arith_simps rel_simps simp_thms,
      simp only: hex_simps)

lemma base_25_7: "tabn 11248566309812931928793734646388138217655420956479549847109632
    6300535672654454770422325643051677889960353963072368068998980741409539548482
    38300027892569157518295199191178186201732957382419051583950594357662199119620
    44744868611485192051498410007278637425795956451887053792621446445078548271658"
  by (rule tabn_add [OF base_25_6 base_25_1, where
      x = 25896552398743394963912618956217445614862388913473598504777178387703905248811 and
      e = 132524085098938265575168706808463746325563066766755293955963548103272786026186 and i = 15737214 and j = 0 and q = 4108254 and
      l = 1153354 and v = 0 and u = 1],
      simp only: arith_simps rel_simps, simp only: distinct_ok_def arith_simps rel_simps simp_thms,
      simp only: hex_simps)

lemma base_25_8: "tabn 12855504354071922204335696738729300820177623950262342682411008
    44130962312656193681316736777417037282795875655421779491061849527126280513652
    20965359650274633551976474322643126036995282809021778071631815437394726169405
    27979366555347843172891210028180954920071574253202867548349508488418504618458"
  by (rule tabn_add [OF base_25_7 base_25_1, where
      x = 23165602662381560129340262454773911245800592846400001419430034089731554344247 and
      e = 14190663334781107809423046209811403501280919305026455990372944638410972704990 and i = 9157804 and j = 0 and q = 692134 and l = 1356399 and
      v = 4 and u = 0],
      simp only: arith_simps rel_simps, simp only: distinct_ok_def arith_simps rel_simps simp_thms,
      simp only: hex_simps)

lemma row_25: "list_all2 multiple [1606938044258990275541962092341162602522202993782792835301376, 3213876088517980551083924184682325205044405987565585670602752, 4820814132776970826625886277023487807566608981348378505904128, 6427752177035961102167848369364650410088811975131171341205504, 8034690221294951377709810461705813012611014968913964176506880, 9641628265553941653251772554046975615133217962696757011808256, 11248566309812931928793734646388138217655420956479549847109632, 12855504354071922204335696738729300820177623950262342682411008] ge_base_25"
  unfolding ge_base_25_def
  by (rule row8,
      (rule tab_ptm [OF base_25_1]; simp only: limb_simps),
      (rule tab_ptm [OF base_25_2]; simp only: limb_simps),
      (rule tab_ptm [OF base_25_3]; simp only: limb_simps),
      (rule tab_ptm [OF base_25_4]; simp only: limb_simps),
      (rule tab_ptm [OF base_25_5]; simp only: limb_simps),
      (rule tab_ptm [OF base_25_6]; simp only: limb_simps),
      (rule tab_ptm [OF base_25_7]; simp only: limb_simps),
      (rule tab_ptm [OF base_25_8]; simp only: limb_simps))

text \<open>Row 26.\<close>

lemma base_26_x1: "tabn 25711008708143844408671393477458601640355247900524685364822016
    38783356964219415375645781364262308018092770963392205222937967533997272217041
    22678533783332769283518066353569282344909020900274167896713555998620046295535
    53851163624984389547911593236143796203353534647246263749287417403601067916735"
  by (rule tabn_dbl [OF base_25_8, where
      x = 16104823180886646092127715010693025673183750063118037326224411535377225921506 and
      e = 39142274220900905737773264124549116898347097800851273513185316745688017378119 and i = 4398024 and j = 0 and k = 1234734 and l = 971730 and
      v = 7 and u = 0],
      simp only: arith_simps rel_simps, simp only: hex_simps)

lemma base_26_x2: "tabn 51422017416287688817342786954917203280710495801049370729644032
    10288109288710099540577935307677531526790485646522926317432048976807234400697
    4364922251525628581494613500081028063970727019104336939667859836206272383453
    3056150247089468790138748495322328532228621379580436388434266912861742118837"
  by (rule tabn_dbl [OF base_26_x1, where
      x = 5923187037184470959083321807596503462819758627418589377764189140600962017244 and
      e = 50108358765161349668056803282671794560236069763779932533316949304856637657102 and i = 1701720 and j = 0 and k = 1945050 and l = 118156 and
      v = 7 and u = 0],
      simp only: arith_simps rel_simps, simp only: hex_simps)

lemma base_26_x3: "tabn 102844034832575377634685573909834406561420991602098741459288064
    15727983632476638182451520826513661402533897723074407862301705423650622255106
    45877133668321431389195312204756837428802659643331086295868502764495316201185
    5601609788235252381040085859682093905767654745188372813960213483574074902841"
  by (rule tabn_dbl [OF base_26_x2, where
      x = 27746894582813304505041701126100777900366230412563603586161994663111870873870 and
      e = 10923521357046870142281292951836873371109381935585803464722899550343488421567 and i = 2064796 and j = 3509 and k = 0 and l = 1245088 and
      v = 2 and u = 1],
      simp only: arith_simps rel_simps, simp only: hex_simps)

lemma base_26_x4: "tabn 205688069665150755269371147819668813122841983204197482918576128
    28562869187466168498640582431584942987797415593409072045358731303432973060869
    15091173290662772602690633677319909585428287065061869122681204129258476992966
    9019040900321860156323379877113515895459526534712942848082160206060211335580"
  by (rule tabn_dbl [OF base_26_x3, where
      x = 13471695896803395895949948754265033402369128528347202922677527174174496067903 and
      e = 36931374434018607224769041967825828858093561359138790246173649472474682814231 and i = 2461738 and j = 336557 and k = 0 and l = 666215 and
      v = 5 and u = 0],
      simp only: arith_simps rel_simps, simp only: hex_simps)

lemma base_26_1: "tabn 411376139330301510538742295639337626245683966408394965837152256
    42927283309648938489858440040714108733714273830017326450356950579548469508884
    54543473575794735146275611790870470923589514710523012658661070160804911695179
    44242535408942400044811899726948176979324682583551334935470385282389280844430"
  by (rule tabn_dbl [OF base_26_x4, where
      x = 46279854352512301055368320754187591736759751452314595811424672422700122633654 and
      e = 20630314391836464426046291524325451372731861524691486960078618870827161160748 and i = 6871130 and j = 428770 and k = 0 and l = 3421060 and
      v = 4 and u = 1],
      simp only: arith_simps rel_simps, simp only: hex_simps)

lemma base_26_2: "tabn 822752278660603021077484591278675252491367932816789931674304512
    41223497208033848419677838065353127762584971502159795454133407323907772150751
    50020101900676584767605944828529012718645719221795967571473307944135551559014
    55058017023051886977515417061814399863670353053712165884931273224783298318971"
  by (rule tabn_dbl [OF base_26_1, where
      x = 49099439926015361363857385741168068970574244613184109902388891383728785411686 and
      e = 32728965768321646548491346970555278383145927783918370780296987997027368485706 and i = 26537410 and j = 0 and k = 501100 and l = 3402748 and
      v = 14 and u = 1],
      simp only: arith_simps rel_simps, simp only: hex_simps)

lemma base_26_3: "tabn 1234128417990904531616226886918012878737051899225184897511456768
    12509396436652462850734304928981518587913722775381803276364943955984654496628
    36365145154820713388192503279178278239575943162090190704238815052357551859394
    26011437033971789840994312202038497473381188691810149464272867595480551561556"
  by (rule tabn_add [OF base_26_2 base_26_1, where
      x = 34040295900489847174327294154147194274972771946111894591854920907583667457183 and
      e = 60772378345313872668411608166457028409769011508422207138570439091599433702991 and i = 36631733 and j = 0 and q = 2171658 and
      l = 1463698 and v = 0 and u = 1],
      simp only: arith_simps rel_simps, simp only: distinct_ok_def arith_simps rel_simps simp_thms,
      simp only: hex_simps)

lemma base_26_4: "tabn 1645504557321206042154969182557350504982735865633579863348609024
    22142604899704274564493137565107887935847164855648284903915253038944228896734
    25718282572279657306172467384131846661936173384881834709578367936108349819539
    44859543706953188004016231867177707468255155518402690474177173378492800538432"
  by (rule tabn_add [OF base_26_3 base_26_1, where
      x = 54320366946082714970106162685319995200545983803586732214065677106792443897144 and
      e = 44251401134110700835544525420908192319992070858617293343559493971873706307036 and i = 31894388 and j = 0 and q = 1449258 and
      l = 2113446 and v = 4 and u = 1],
      simp only: arith_simps rel_simps, simp only: distinct_ok_def arith_simps rel_simps simp_thms,
      simp only: hex_simps)

lemma base_26_5: "tabn 2056880696651507552693711478196688131228419832041974829185761280
    26394030710894363704846506764748868479164773903680637612434229081238978462887
    5040735528984104055622739291993998239360060548628583444985034129170628070310
    23967220163629243331264287524375510820237068601381225865384421368890396502727"
  by (rule tabn_add [OF base_26_4 base_26_1, where
      x = 21353295181910259649223767472754870239804713355052054167449194952068350392577 and
      e = 39949496408296625852449841593078108140399571650878568213394592867377868147224 and i = 14537716 and j = 0 and q = 882356 and l = 725301 and
      v = 0 and u = 0],
      simp only: arith_simps rel_simps, simp only: distinct_ok_def arith_simps rel_simps simp_thms,
      simp only: hex_simps)

lemma base_26_6: "tabn 2468256835981809063232453773836025757474103798450369795022913536
    497609122720541077663535626491171299566256752024240820390294487373326559896
    27696846725928346100292996872627861853489389239314041686191784916409845770186
    39239084774500670421566109690156712270623476497133184862540184170008838018941"
  by (rule tabn_add [OF base_26_5 base_26_1, where
      x = 30696807015450292689156031258207263372711859845530481153927301574920045609659 and
      e = 435401407087473059534688225742052997894407311349948861762737556216736858245409 and i = 15339541 and j = 0 and q = 8619086 and
      l = 823068 and v = 0 and u = 1],
      simp only: arith_simps rel_simps, simp only: distinct_ok_def arith_simps rel_simps simp_thms,
      simp only: hex_simps)

lemma base_26_7: "tabn 2879632975312110573771196069475363383719787764858764760860065792
    1603404343057472017874532240560404368572438936373163700705950411794643390210
    4253328318477807410696213710145684065573174896446905404711141673935047257623
    49920835217155723637763863481759620939975030670870979663655495672598340136952"
  by (rule tabn_add [OF base_26_6 base_26_1, where
      x = 55246120643237762318963811034758674229634256372746540315723600741816160952536 and
      e = 51112246892936738141293004246268496987479466788858322014587254343860867237738 and i = 19573918 and j = 0 and q = 321968 and l = 528666 and
      v = 6 and u = 1],
      simp only: arith_simps rel_simps, simp only: distinct_ok_def arith_simps rel_simps simp_thms,
      simp only: hex_simps)

lemma base_26_8: "tabn 3291009114642412084309938365114701009965471731267159726697218048
    21867695104196080697733564763243153768406733247611235966313301900855056163362
    4051499577878192203426470412530088199871857769250578212369486028191115351035
    17337405223969274738051270922586557854518333026131383461377122593619769189328"
  by (rule tabn_add [OF base_26_7 base_26_1, where
      x = 17816195526317888494307094350713065568534875478360657753943815872663940812327 and
      e = 5890886255521806569523008370457023428865657010681286919414620069737745471263 and i = 2246416 and j = 0 and q = 149231 and l = 486909 and
      v = 1 and u = 0],
      simp only: arith_simps rel_simps, simp only: distinct_ok_def arith_simps rel_simps simp_thms,
      simp only: hex_simps)

lemma row_26: "list_all2 multiple [411376139330301510538742295639337626245683966408394965837152256, 822752278660603021077484591278675252491367932816789931674304512, 1234128417990904531616226886918012878737051899225184897511456768, 1645504557321206042154969182557350504982735865633579863348609024, 2056880696651507552693711478196688131228419832041974829185761280, 2468256835981809063232453773836025757474103798450369795022913536, 2879632975312110573771196069475363383719787764858764760860065792, 3291009114642412084309938365114701009965471731267159726697218048] ge_base_26"
  unfolding ge_base_26_def
  by (rule row8,
      (rule tab_ptm [OF base_26_1]; simp only: limb_simps),
      (rule tab_ptm [OF base_26_2]; simp only: limb_simps),
      (rule tab_ptm [OF base_26_3]; simp only: limb_simps),
      (rule tab_ptm [OF base_26_4]; simp only: limb_simps),
      (rule tab_ptm [OF base_26_5]; simp only: limb_simps),
      (rule tab_ptm [OF base_26_6]; simp only: limb_simps),
      (rule tab_ptm [OF base_26_7]; simp only: limb_simps),
      (rule tab_ptm [OF base_26_8]; simp only: limb_simps))

text \<open>Row 27.\<close>

lemma base_27_x1: "tabn 6582018229284824168619876730229402019930943462534319453394436096
    43594231771136442136094965816583641298161020489686436999243863276263904089785
    33051610874198922080982482604453403334859782594328968818476959913458527014793
    48047461074141693679101135326997465499355226244746169925841543967728266700765"
  by (rule tabn_dbl [OF base_26_8, where
      x = 10542620896937520055112483212130237963301237895357468180766903362805377074992 and
      e = 3332422488328961814253546076845606268415828040946339352043744955710995493502 and i = 1095234 and j = 0 and k = 851904 and l = 777030 and
      v = 2 and u = 0],
      simp only: arith_simps rel_simps, simp only: hex_simps)

lemma base_27_x2: "tabn 13164036458569648337239753460458804039861886925068638906788872192
    14189163930693848432445340001705335395883947071273862638638669783718072458909
    30094033088927857442264362537016824592195079176139370639527272730208234435559
    16336519309234421961768443453196978473571735281279035003646882880577304578933"
  by (rule tabn_dbl [OF base_27_x1, where
      x = 41991175460424088701966469969032464730323860227954774018840189057466402843299 and
      e = 29875325286914519248435981439180431376028485866715241167096119802545747884682 and i = 14525175 and j = 0 and k = 1993680 and
      l = 1412024 and v = 9 and u = 1],
      simp only: arith_simps rel_simps, simp only: hex_simps)

lemma base_27_x3: "tabn 26328072917139296674479506920917608079723773850137277813577744384
    32921006601579269615287127502588407560473237926026595130655884862625244837801
    24424008761609483666573175042797410838386815567707576163479997011583271966974
    30233687018078215115132328839262706807499570867406827669654173778801229849669"
  by (rule tabn_dbl [OF base_27_x2, where
      x = 8496997839969785948713952459790996722086422358319018967175887851041972870827 and
      e = 3703539462202306511621348688701258584706207317561986458904459443621568037387 and i = 1533689 and j = 0 and k = 317039 and l = 613767 and
      v = 4 and u = 0],
      simp only: arith_simps rel_simps, simp only: hex_simps)

lemma base_27_x4: "tabn 52656145834278593348959013841835216159447547700274555627155488768
    33962611175564665715001837609414466463402438498159316145003109237055609177953
    27305339667428645735374322966654452619102130613795864263748104615612890625953
    44107165671059579973019331677534760205916752801709848194127625949616917263233"
  by (rule tabn_dbl [OF base_27_x3, where
      x = 6657271508136019979627514642760013844300307884363451881255004621442718552000 and
      e = 32246929930784844932234788705450202449588002006275705509654955443749198895328 and i = 1708752 and j = 0 and k = 248772 and l = 477054 and
      v = 6 and u = 0],
      simp only: arith_simps rel_simps, simp only: hex_simps)

lemma base_27_1: "tabn 105312291668557186697918027683670432318895095400549111254310977536
    26263959931639694400330692169560818463414943264801444284729408953118902675054
    11376520237691535066834512360590235454557005815820698100179107657140264499670
    14307597042713501646668046200743510395990706115675853732554150860048425275040"
  by (rule tabn_dbl [OF base_27_x4, where
      x = 14887439693948159333496179808970583008857937448980746184550301295978638175384 and
      e = 57644683397241516436686991632655949829945033878039615748181025497822190629224 and i = 3883674 and j = 0 and k = 477054 and l = 496620 and
      v = 7 and u = 0],
      simp only: arith_simps rel_simps, simp only: hex_simps)

lemma base_27_2: "tabn 210624583337114373395836055367340864637790190801098222508621955072
    52462859433450377279304003075680259554001360791988052823450924276781907154091
    53919560228411827161279988237452602262337046300343274771499110607741131528242
    14139051721628448372660963275129009512747902488156684964156544217533077757107"
  by (rule tabn_dbl [OF base_27_1, where
      x = 56439343823696647829809507342571611218299306824465060071680605672997340445798 and
      e = 22063898524181014241264282452726850398487191136838347294844056010041413091920 and i = 8283180 and j = 476700 and k = 0 and l = 4386876 and
      v = 4 and u = 1],
      simp only: arith_simps rel_simps, simp only: hex_simps)

lemma base_27_3: "tabn 315936875005671560093754083051011296956685286201647333762932932608
    5185220649248930401414524546452714247704967300251811558062859138239387739474
    35328032195546397609074148219713731340947959949000737396615983614851573423105
    55828544507638541219181551800551744769933680022052117146883043052455644533659"
  by (rule tabn_add [OF base_27_2 base_27_1, where
      x = 27753233072360630504125868831082936833391999684071356181175667527344379136318 and
      e = 18104399243487179138552827017546782553212342296750145314773711899733067463692 and i = 14616696 and j = 0 and q = 726966 and l = 1076082 and
      v = 4 and u = 1],
      simp only: arith_simps rel_simps, simp only: distinct_ok_def arith_simps rel_simps simp_thms,
      simp only: hex_simps)

lemma base_27_4: "tabn 421249166674228746791672110734681729275580381602196445017243910144
    37984750708672550294251610404535830751990663490517935121539656900636223591111
    50769658902216518272938856075288455749140505349779788100746782280510466112914
    26031978556643413278587240051852825700538155562951815672356494067716793586773"
  by (rule tabn_add [OF base_27_3 base_27_1, where
      x = 45111136425114129733098246833591328929485150473558429040521666624082322298146 and
      e = 13756642550177856531295308751451818597735036219545648225818576769747251793476 and i = 12522552 and j = 0 and q = 1066122 and
      l = 3091954 and v = 4 and u = 1],
      simp only: arith_simps rel_simps, simp only: distinct_ok_def arith_simps rel_simps simp_thms,
      simp only: hex_simps)

lemma base_27_5: "tabn 526561458342785933489590138418352161594475477002745556271554887680
    47769557798301669845415602580097420986714841261986634167294855613108707648498
    37854003817265867416757068891298627659515411515476548373323636381408135629043
    36995921301985786439891494054066489952858323024716310029476019905971047821772"
  by (rule tabn_add [OF base_27_4 base_27_1, where
      x = 9915553981035802428658533688798793327199429746510085793971219231700572019455 and
      e = 15845005731304567563779257540917941191376419111079017571099392983314451514688 and i = 4805224 and j = 0 and q = 1135354 and l = 753531 and
      v = 6 and u = 0],
      simp only: arith_simps rel_simps, simp only: distinct_ok_def arith_simps rel_simps simp_thms,
      simp only: hex_simps)

lemma base_27_6: "tabn 631873750011343120187508166102022593913370572403294667525865865216
    8449350853170339662707872130099001038359301844942901574750122124586991244487
    38454833923813752404512302936787525990329183142941591483763444548350424440842
    43339543180942380796285331513221429336531977804338085104357998028373036433871"
  by (rule tabn_add [OF base_27_5 base_27_1, where
      x = 27890561548014684969981061697655428974665111034821592110715469580193131623594 and
      e = 48988437229541932844047597241341445074502103017723145424637661384773859046691 and i = 10861686 and j = 0 and q = 1716891 and
      l = 1292158 and v = 3 and u = 1],
      simp only: arith_simps rel_simps, simp only: distinct_ok_def arith_simps rel_simps simp_thms,
      simp only: hex_simps)

lemma base_27_7: "tabn 737186041679900306885426193785693026232265667803843778780176842752
    56919417046600242121126449027794122978068153732622781145915629228735526587278
    4183800199849299410528469629396842335672197337065217821458721803468192197420
    21417255883148042304838985051358086699444153427917870866542304007921250703401"
  by (rule tabn_add [OF base_27_6 base_27_1, where
      x = 52735616846750942710597979398397280642395956395557563324456907425267334389858 and
      e = 56470128657695572189564225072609373008221342982588917915849972612460484778510 and i = 17118568 and j = 0 and q = 2742178 and
      l = 2419548 and v = 6 and u = 0],
      simp only: arith_simps rel_simps, simp only: distinct_ok_def arith_simps rel_simps simp_thms,
      simp only: hex_simps)

lemma base_27_8: "tabn 842498333348457493583344221469363458551160763204392890034487820288
    19289319815007635425155986545284122396751003794969577041759571245013752988417
    38151005382072812000577323401751697714257554454942140857372832969779272160095
    9005621498793332890447087179406878680089447084408584212394265654645192344655"
  by (rule tabn_add [OF base_27_7 base_27_1, where
      x = 39034359051592921136364155647876378609128441672847718204115530279191045648271 and
      e = 132821707648028325641526489491046671881281827606581114544992709971973127985516 and i = 8512758 and j = 0 and q = 5329548 and
      l = 1736210 and v = 0 and u = 1],
      simp only: arith_simps rel_simps, simp only: distinct_ok_def arith_simps rel_simps simp_thms,
      simp only: hex_simps)

lemma row_27: "list_all2 multiple [105312291668557186697918027683670432318895095400549111254310977536, 210624583337114373395836055367340864637790190801098222508621955072, 315936875005671560093754083051011296956685286201647333762932932608, 421249166674228746791672110734681729275580381602196445017243910144, 526561458342785933489590138418352161594475477002745556271554887680, 631873750011343120187508166102022593913370572403294667525865865216, 737186041679900306885426193785693026232265667803843778780176842752, 842498333348457493583344221469363458551160763204392890034487820288] ge_base_27"
  unfolding ge_base_27_def
  by (rule row8,
      (rule tab_ptm [OF base_27_1]; simp only: limb_simps),
      (rule tab_ptm [OF base_27_2]; simp only: limb_simps),
      (rule tab_ptm [OF base_27_3]; simp only: limb_simps),
      (rule tab_ptm [OF base_27_4]; simp only: limb_simps),
      (rule tab_ptm [OF base_27_5]; simp only: limb_simps),
      (rule tab_ptm [OF base_27_6]; simp only: limb_simps),
      (rule tab_ptm [OF base_27_7]; simp only: limb_simps),
      (rule tab_ptm [OF base_27_8]; simp only: limb_simps))

text \<open>Row 28.\<close>

lemma base_28_x1: "tabn 1684996666696914987166688442938726917102321526408785780068975640576
    27832854809531511662862783602714758429526164500954632379799562133232916579964
    51418622689808890706635443146519623072625554248459772765825419210408463641599
    23605753737898621896326753145261616824396777210336050903147268406015232497545"
  by (rule tabn_dbl [OF base_27_8, where
      x = 34310276738380718668012832960539089283535602585315141633702934926781017758314 and
      e = 53923667948737260377938689752176722260868563466248956667231043032557677187973 and i = 7089470 and j = 2278735 and k = 0 and l = 2100000 and
      v = 6 and u = 1],
      simp only: arith_simps rel_simps, simp only: hex_simps)

lemma base_28_x2: "tabn 3369993333393829974333376885877453834204643052817571560137951281152
    49495772910442849424074451708097707017262194806722126632275873534327354241460
    4688470781828164278366985277933962825622285795353936395549900233168636985161
    23167428280392337362122243174523600323693870950832135378758716634290654839171"
  by (rule tabn_dbl [OF base_28_x1, where
      x = 44807302128614685145707466430163744191639909011368190236725973301158717256299 and
      e = 49675779958137235489229466471713249922198661619815289133273531967950637789211 and i = 14753160 and j = 454965 and k = 0 and l = 1803583 and
      v = 9 and u = 0],
      simp only: arith_simps rel_simps, simp only: hex_simps)

lemma base_28_x3: "tabn 6739986666787659948666753771754907668409286105635143120275902562304
    12474331366584991714999019701053372545799100062343268005147684527042412626600
    20746308809766386159238458318721613872967392788396486019368163727586869430964
    49743297806639824806421461832639067963127059552102076843193444233280190612250"
  by (rule tabn_dbl [OF base_28_x2, where
      x = 49624067175476703267546053886675712599466699606767064005508312803412108015585 and
      e = 31378742007942754085979312024548692665172981229330187401989778702129551601953 and i = 5088538 and j = 0 and k = 2655238 and l = 1549170 and
      v = 3 and u = 1],
      simp only: arith_simps rel_simps, simp only: hex_simps)

lemma base_28_x4: "tabn 13479973333575319897333507543509815336818572211270286240551805124608
    1354421441581127864437143372844274388062292350084805047329018238299116064940
    4033167163859822565099887202523422255672122363891288449300509405037201589007
    21825061311012435233797487897412214964370135872308542285909639361736373430900"
  by (rule tabn_dbl [OF base_28_x3, where
      x = 55217298896379403011122748674664806059025162319013798617757300837218479295882 and
      e = 32371387908782776590754674333617612936093973991893198243268508249510350439902 and i = 7875750 and j = 0 and k = 332520 and l = 356720 and
      v = 4 and u = 1],
      simp only: arith_simps rel_simps, simp only: hex_simps)

lemma base_28_1: "tabn 26959946667150639794667015087019630673637144422540572481103610249216
    43093427748708802199774598181106490987159779608662734295633683643907889137535
    52276577394374451023636155017949082680533519628966003740504478768891255836379
    20341081566195539391034753703812821369014739445374269939807889454181350372493"
  by (rule tabn_dbl [OF base_28_x4, where
      x = 48712894972992448887923935667501362233261252312517012574857996878973198121105 and
      e = 11824088320430034994481353825962296526326082793486036926134517053296528930707 and i = 1816700 and j = 616600 and k = 0 and l = 3402604 and
      v = 1 and u = 1],
      simp only: arith_simps rel_simps, simp only: hex_simps)

lemma base_28_2: "tabn 53919893334301279589334030174039261347274288845081144962207220498432
    55379165166891391002801168634948617837103912387921734075059042369668847266722
    14604298395329793422069648663739696515356394340097904983458848806339110571879
    43453249193817011410931373930160958229055904017451105169076984039841816309577"
  by (rule tabn_dbl [OF base_28_1, where
      x = 40774866771561597580731519971208921321747518047823829091600193563329736694843 and
      e = 52570684180678373646991870419324945558865057029392622696726256172973664083413 and i = 21530689 and j = 0 and k = 360979 and l = 2197971 and
      v = 14 and u = 0],
      simp only: arith_simps rel_simps, simp only: hex_simps)

lemma base_28_3: "tabn 80879840001451919384001045261058892020911433267621717443310830747648
    47856990184934077731373643397949175676765444014860960018656975174260702836880
    50556203749876367719361882603554600236035067248180112756444222444381366777916
    9656559283712887062251995474149678453978663229249368870348243419334073416139"
  by (rule tabn_add [OF base_28_2 base_28_1, where
      x = 55196831053715807723797253298738529367365369099501129281941544733835900878913 and
      e = 746273894124720490034374604775427242906740646287166553002874520097478702021721 and i = 46236685 and j = 0 and q = 50989652 and
      l = 3901322 and v = 0 and u = 1],
      simp only: arith_simps rel_simps, simp only: distinct_ok_def arith_simps rel_simps simp_thms,
      simp only: hex_simps)

lemma base_28_4: "tabn 107839786668602559178668060348078522694548577690162289924414440996864
    26525469702028871289846061322051319525789125275268760461898900188886379603146
    5940522244661072692307025054626860497059167389255079698353660011465812310434
    23062064159388218856774016897897086266943964208355884298365728972166281758197"
  by (rule tabn_add [OF base_28_3 base_28_1, where
      x = 20584947457367798597539036267424459028729957886013680763545240177420567292712 and
      e = 100558218270196616373748091175213399871489069218760965849597685222898363439700 and i = 24823686 and j = 0 and q = 2445358 and
      l = 742216 and v = 0 and u = 0],
      simp only: arith_simps rel_simps, simp only: distinct_ok_def arith_simps rel_simps simp_thms,
      simp only: hex_simps)

lemma base_28_5: "tabn 134799733335753198973335075435098153368185722112702862405518051246080
    52665095209044849841037730345764387877721281287337463926031519986378804284639
    31732420123830062900640498955856741609301207163931533847671982270916681636597
    55763618964994105656921826679221055314485961993690829734697770358144762681116"
  by (rule tabn_add [OF base_28_4 base_28_1, where
      x = 20932675085214786940397231389907646268420074123405930078359537715462122648042 and
      e = 301850802625591559260434283311535036441886869420519235054957324975227843560470 and i = 9741410 and j = 0 and q = 17779332 and
      l = 1575698 and v = 0 and u = 0],
      simp only: arith_simps rel_simps, simp only: distinct_ok_def arith_simps rel_simps simp_thms,
      simp only: hex_simps)

lemma base_28_6: "tabn 161759680002903838768002090522117784041822866535243434886621661495296
    13123049949298131740545343876642353789576415504732073856061375852567848002269
    8218733890358328343001268222009301051951906918687280751811119897418418925668
    1256310792025770782262986283530086682338457920542325408175071737854414873940"
  by (rule tabn_add [OF base_28_5 base_28_1, where
      x = 4904316058939803397544075654633052737624508586044793104250255955149429076601 and
      e = 506140962834022591894899959520323083975610287123209990093189569788388788023516 and i = 5464962 and j = 0 and q = 7662964 and l = 149205 and
      v = 0 and u = 0],
      simp only: arith_simps rel_simps, simp only: distinct_ok_def arith_simps rel_simps simp_thms,
      simp only: hex_simps)

lemma base_28_7: "tabn 188719626670054478562669105609137414715460010957784007367725271744512
    48409124191227895692509760394674195021178191234699514179892083731977131094753
    17278542960834062693233190596151284728509268686917557779107713015587300650939
    13010173273238132530783398967999520288505334155348856316324403139089744962496"
  by (rule tabn_add [OF base_28_6 base_28_1, where
      x = 31130581230393832999276569798522910292668922547781956400784370716389830443814 and
      e = 162390590009807474039133446552755519428669199424429030822576165856213409923115 and i = 10243384 and j = 0 and q = 7331456 and
      l = 1661658 and v = 0 and u = 0],
      simp only: arith_simps rel_simps, simp only: distinct_ok_def arith_simps rel_simps simp_thms,
      simp only: hex_simps)

lemma base_28_8: "tabn 215679573337205118357336120696157045389097155380324579848828881993728
    26326790572236203240231316746378233524687756347713771783654367529892553076409
    49033607061085222021209751921454761872106177629748964146123312308918786929231
    2517947712778360957896628299203839345276370787967929860587532663552743205576"
  by (rule tabn_add [OF base_28_7 base_28_1, where
      x = 35189228129809078930807057329267425579216571050785089657259847224930330967127 and
      e = 517906511779106145947256767060854514574137285544990032592258012872432076007734 and i = 28667272 and j = 0 and q = 26971994 and
      l = 1935568 and v = 0 and u = 1],
      simp only: arith_simps rel_simps, simp only: distinct_ok_def arith_simps rel_simps simp_thms,
      simp only: hex_simps)

lemma row_28: "list_all2 multiple [26959946667150639794667015087019630673637144422540572481103610249216, 53919893334301279589334030174039261347274288845081144962207220498432, 80879840001451919384001045261058892020911433267621717443310830747648, 107839786668602559178668060348078522694548577690162289924414440996864, 134799733335753198973335075435098153368185722112702862405518051246080, 161759680002903838768002090522117784041822866535243434886621661495296, 188719626670054478562669105609137414715460010957784007367725271744512, 215679573337205118357336120696157045389097155380324579848828881993728] ge_base_28"
  unfolding ge_base_28_def
  by (rule row8,
      (rule tab_ptm [OF base_28_1]; simp only: limb_simps),
      (rule tab_ptm [OF base_28_2]; simp only: limb_simps),
      (rule tab_ptm [OF base_28_3]; simp only: limb_simps),
      (rule tab_ptm [OF base_28_4]; simp only: limb_simps),
      (rule tab_ptm [OF base_28_5]; simp only: limb_simps),
      (rule tab_ptm [OF base_28_6]; simp only: limb_simps),
      (rule tab_ptm [OF base_28_7]; simp only: limb_simps),
      (rule tab_ptm [OF base_28_8]; simp only: limb_simps))

text \<open>Row 29.\<close>

lemma base_29_x1: "tabn 431359146674410236714672241392314090778194310760649159697657763987456
    49831265648554118747685820721973823458577493163060200746569221726630404071316
    23077157235356914378873484756453138728644366839534587614646314572727004430125
    31156591342929994802338966430289220398169529984119623573246002714316965631631"
  by (rule tabn_dbl [OF base_28_8, where
      x = 26754108413197204368812335965520684729933126323525613131922907153903399641191 and
      e = 31900564807290846238931658330837424295558651700752872224802004006029271610363 and i = 8140483 and j = 619397 and k = 0 and l = 1568003 and
      v = 8 and u = 0],
      simp only: arith_simps rel_simps, simp only: hex_simps)

lemma base_29_x2: "tabn 862718293348820473429344482784628181556388621521298319395315527974912
    49152655319555372452785886828827469752396599742259064798778741111564452654797
    52740450865667615695073023517436065028575728038533627196805527444393643652980
    48185674567357962503082120013584597167460573487595492325057423443823102647904"
  by (rule tabn_dbl [OF base_29_x1, where
      x = 54308249072545854469498355815735358650455864036545719621702005671127373821766 and
      e = 19134686687333032275220881785943604073125342362112345118399552455642664431243 and i = 14829488 and j = 0 and k = 2297993 and
      l = 4117992 and v = 7 and u = 1],
      simp only: arith_simps rel_simps, simp only: hex_simps)

lemma base_29_x3: "tabn 1725436586697640946858688965569256363112777243042596638790631055949824
    37303035324417710806228205694856778879414324305008795273875467397309778274898
    1258535555772718541888056638049710647818343934237270462674396242496019157742
    40040891397499336784672922897750299595321317524308857831236717685685468531604"
  by (rule tabn_dbl [OF base_29_x2, where
      x = 36044499768644992264340149056807068231595980370771524811201071154813759117156 and
      e = 6514836356431938545562982246020910622707817586826150113197718895452566439549 and i = 21637752 and j = 0 and k = 3388002 and l = 1239542 and
      v = 15 and u = 0],
      simp only: arith_simps rel_simps, simp only: hex_simps)

lemma base_29_x4: "tabn 3450873173395281893717377931138512726225554486085193277581262111899648
    30758531348217361450337043610517545298754540113453746274790369766109479450015
    24910881755874907419326692197349751587204977193176943348392000587523842645596
    3015521564741213537882979078086447435690420216295673460001670072705466833347"
  by (rule tabn_dbl [OF base_29_x3, where
      x = 5847649592342454031010351413167793711549562920276802926398369178585636804419 and
      e = 17607075939528046105600925424845181523525304854504142980496720298935723493616 and i = 752882 and j = 0 and k = 1482872 and l = 426171 and
      v = 2 and u = 0],
      simp only: arith_simps rel_simps, simp only: hex_simps)

lemma base_29_1: "tabn 6901746346790563787434755862277025452451108972170386555162524223799296
    38614399944018774841874619744567688541674234741863684524942943020139982809839
    48505121165379922461886898336479612765388474887105860416376525215747614379707
    46756611381111269285595117329783805397765013400277199111870658363298952756488"
  by (rule tabn_dbl [OF base_29_x4, where
      x = 48005323397296950091773213912432029702920752187578106128295209808348933250081 and
      e = 56692031339542524597403024479575866439078979701429286390564059039990640947908 and i = 9794376 and j = 2128794 and k = 0 and l = 3100514 and
      v = 6 and u = 1],
      simp only: arith_simps rel_simps, simp only: hex_simps)

lemma base_29_2: "tabn 13803492693581127574869511724554050904902217944340773110325048447598592
    43853701261912455923441270531967667749246327541842191113839369684855845204765
    8978440169569010361720241036639066180394506924802001110208426774778240008956
    12676897299130008230975415485725003164787046905247978996990238548386996666570"
  by (rule tabn_dbl [OF base_29_1, where
      x = 34875261092343445561721029495328601568851820617040190003630942910077605195809 and
      e = 11619186498885021569849588115664141865099724850858519813604965722201238803527 and i = 16848659 and j = 0 and k = 1762199 and
      l = 1510385 and v = 12 and u = 0],
      simp only: arith_simps rel_simps, simp only: hex_simps)

lemma base_29_3: "tabn 20705239040371691362304267586831076357353326916511159665487572671397888
    54294213388916796992530374254552810828739051565564864269638570695184549243306
    34806073630696101996150169385600326059105836379914135667729091897641236612322
    24984413065766868326215800130473076784347895316446967958474063278842702355687"
  by (rule tabn_add [OF base_29_2 base_29_1, where
      x = 19488139758220694996380204868952484769633215185650728601909478797543312630984 and
      e = 601384085381748677540555678475723396329988664619659919189453098228435039101983 and i = 11789134 and j = 0 and q = 36977676 and
      l = 1540056 and v = 0 and u = 0],
      simp only: arith_simps rel_simps, simp only: distinct_ok_def arith_simps rel_simps simp_thms,
      simp only: hex_simps)

lemma base_29_4: "tabn 27606985387162255149739023449108101809804435888681546220650096895197184
    15075614662535212141904284655483705689951225045470290511230792848704538524589
    114761194111076937557282935473476619384221079884136829997770428786603062652
    44929224410478738818256187266510586835043997540055590037321792616337466033875"
  by (rule tabn_add [OF base_29_3 base_29_1, where
      x = 14960853468424135204347001720010229070567003965586153681233022419917935461937 and
      e = 462373428110938378309645981290010135916294533816491449661956867317734018810628 and i = 15103760 and j = 0 and q = 4766122 and
      l = 530105 and v = 0 and u = 0],
      simp only: arith_simps rel_simps, simp only: distinct_ok_def arith_simps rel_simps simp_thms,
      simp only: hex_simps)

lemma base_29_5: "tabn 34508731733952818937173779311385127262255544860851932775812621118996480
    26080731034232011822526749901999204602255621532846992137094608326060772981577
    28457520584551950046992238424199546819242020349092711371654303657175699541815
    47159646763591840255519415413727402799550151573416398846145168520961043146574"
  by (rule tabn_add [OF base_29_4 base_29_1, where
      x = 55519255068338159487320003982143611709648593516574562785169096672841638259711 and
      e = 254947209781077183191467746415816652660445358655778603390708437676147718450487 and i = 12877159 and j = 0 and q = 9717756 and
      l = 2502752 and v = 0 and u = 1],
      simp only: arith_simps rel_simps, simp only: distinct_ok_def arith_simps rel_simps simp_thms,
      simp only: hex_simps)

lemma base_29_6: "tabn 41410478080743382724608535173662152714706653833022319330975145342795776
    37745862044049895782454286847811365723044920900743761870695053680390831083644
    10726362633366381420702820501877890416282929315064193264699355758847117442855
    12984045936171181153887267830011690080445551351201482982344119452591031472727"
  by (rule tabn_add [OF base_29_5 base_29_1, where
      x = 27019499410683514361751466345933475306761991585679568605995697921543713640789 and
      e = 40368353666449930527705163016000343305027764119263227553770168716454592069268 and i = 16796446 and j = 0 and q = 1592208 and
      l = 1153971 and v = 0 and u = 0],
      simp only: arith_simps rel_simps, simp only: distinct_ok_def arith_simps rel_simps simp_thms,
      simp only: hex_simps)

lemma base_29_7: "tabn 48312224427533946512043291035939178167157762805192705886137669566595072
    20695060191496869961689325035593771209504464515086761176395063989300476512231
    23088788006841932748828159280857970369560031321096476968753640534429271784556
    27226658486646893447990404737174290799799498568727467513598775619976632562766"
  by (rule tabn_add [OF base_29_6 base_29_1, where
      x = 55502316803313034924646658259079754766579425526810566227370215458827769547624 and
      e = 531011738872553631803479357177854985701032042297674625768111305560718143882991 and i = 32359100 and j = 0 and q = 16059877 and
      l = 1791158 and v = 0 and u = 1],
      simp only: arith_simps rel_simps, simp only: distinct_ok_def arith_simps rel_simps simp_thms,
      simp only: hex_simps)

lemma base_29_8: "tabn 55213970774324510299478046898216203619608871777363092441300193790394368
    29765637946262021533648645302873607328225430820154026049411436664788251001458
    23088060584085041354655231701160444991095700435780838465688944575935942003438
    17506451104136342892451918534064949224666607319505040764636402391005514268810"
  by (rule tabn_add [OF base_29_7 base_29_1, where
      x = 6677577362176980178993413601713162337129730384373187583722492088852308998020 and
      e = 87628352433455986349102108743948747230004926203566457862431029028241342041683 and i = 3431692 and j = 0 and q = 3313914 and l = 428780 and
      v = 0 and u = 0],
      simp only: arith_simps rel_simps, simp only: distinct_ok_def arith_simps rel_simps simp_thms,
      simp only: hex_simps)

lemma row_29: "list_all2 multiple [6901746346790563787434755862277025452451108972170386555162524223799296, 13803492693581127574869511724554050904902217944340773110325048447598592, 20705239040371691362304267586831076357353326916511159665487572671397888, 27606985387162255149739023449108101809804435888681546220650096895197184, 34508731733952818937173779311385127262255544860851932775812621118996480, 41410478080743382724608535173662152714706653833022319330975145342795776, 48312224427533946512043291035939178167157762805192705886137669566595072, 55213970774324510299478046898216203619608871777363092441300193790394368] ge_base_29"
  unfolding ge_base_29_def
  by (rule row8,
      (rule tab_ptm [OF base_29_1]; simp only: limb_simps),
      (rule tab_ptm [OF base_29_2]; simp only: limb_simps),
      (rule tab_ptm [OF base_29_3]; simp only: limb_simps),
      (rule tab_ptm [OF base_29_4]; simp only: limb_simps),
      (rule tab_ptm [OF base_29_5]; simp only: limb_simps),
      (rule tab_ptm [OF base_29_6]; simp only: limb_simps),
      (rule tab_ptm [OF base_29_7]; simp only: limb_simps),
      (rule tab_ptm [OF base_29_8]; simp only: limb_simps))

text \<open>Row 30.\<close>

lemma base_30_x1: "tabn 110427941548649020598956093796432407239217743554726184882600387580788736
    6430532214216149554950348023358696084316799088601797015209567690648516583223
    30322201223122403826127455594300333551541257185699563395547082893827709249240
    3420210694878305147730235712627336337645932122717377764189868504132367112789"
  by (rule tabn_dbl [OF base_29_8, where
      x = 34004375609751843440608384933402316459410534235722515639391276800777372153932 and
      e = 23889183420770144600943593152614316496113881659182993631091412197943307451492 and i = 7728680 and j = 0 and k = 672110 and l = 1007872 and
      v = 6 and u = 1],
      simp only: arith_simps rel_simps, simp only: hex_simps)

lemma base_30_x2: "tabn 220855883097298041197912187592864814478435487109452369765200775161577472
    17707678709431441740796312502228947141759712046994646886320995672656167807370
    42506015023840556909185188466364193940361381177434955063535640630236822343469
    30371912390013304529121358350932305556635110401351484625873557785984723651412"
  by (rule tabn_dbl [OF base_30_x1, where
      x = 33097708304248982543396616540208707128033323202379973842514147046375910283850 and
      e = 48858504714877214097178449453891451323500699476646622179462477838844661843522 and i = 1737862 and j = 1668758 and k = 0 and l = 1527456 and
      v = 2 and u = 1],
      simp only: arith_simps rel_simps, simp only: hex_simps)

lemma base_30_x3: "tabn 441711766194596082395824375185729628956870974218904739530401550323154944
    42310777656441672165026492471518106159156591743132589613336444801957382778138
    37486352030118086490759872767898519986857419425356506178016422251200379369888
    2326414219916619012531357539422665168725229619622303876706971060602997109434"
  by (rule tabn_dbl [OF base_30_x2, where
      x = 4824425626323585674266619703619586172299172317776083435320022550757003408250 and
      e = 48122311631048742118851406681807559125006476148611860541024204880059377884271 and i = 1527456 and j = 1879164 and k = 0 and l = 389122 and
      v = 7 and u = 0],
      simp only: arith_simps rel_simps, simp only: hex_simps)

lemma base_30_x4: "tabn 883423532389192164791648750371459257913741948437809479060803100646309888
    39306634100331586063981346355324783787820955619114068241464364989442572759172
    26711796470308455756864362514543153807575698509175159871339700746320331655254
    3679826302817759524884614030442453240917032256809895269345503733773517044454"
  by (rule tabn_dbl [OF base_30_x3, where
      x = 12594837630023130307116983840781629980245257109938908370124664243122241103918 and
      e = 42862726626117570944001179536595368446942499751188795723905388963529172427788 and i = 4769062 and j = 0 and k = 875782 and l = 610862 and
      v = 10 and u = 0],
      simp only: arith_simps rel_simps, simp only: hex_simps)

lemma base_30_1: "tabn 1766847064778384329583297500742918515827483896875618958121606201292619776
    56954426116747471208845910413092754843726869969412228097941105015544087774083
    20100745599471525771505519435781392866652528483063077894871752101396848604277
    4025861974103212779405718742457830808754797054770773929931930887910769225338"
  by (rule tabn_dbl [OF base_30_x4, where
      x = 36853680517275945437340390977311361977074341486349150203069352914147239169806 and
      e = 22904041880947044325567743626482526666840246140601645386377648910020921104261 and i = 9857402 and j = 0 and k = 1097522 and l = 2133734 and
      v = 7 and u = 0],
      simp only: arith_simps rel_simps, simp only: hex_simps)

lemma base_30_2: "tabn 3533694129556768659166595001485837031654967793751237916243212402585239552
    34688921428216153576382903819757726416501152379195583866036495193216294384377
    21313914617175234287469935171798401246488657660195938251639937621110080745645
    11593852546398889246681086118401984471575886704721475280978545593087679641162"
  by (rule tabn_dbl [OF base_30_1, where
      x = 13375006811040919288912968647959325170012494718999645614396557572106213638732 and
      e = 44337656257383832842715321308594940590047899834630836208773399182999209447961 and i = 4080374 and j = 0 and k = 3107054 and l = 614016 and
      v = 8 and u = 0],
      simp only: arith_simps rel_simps, simp only: hex_simps)

lemma base_30_3: "tabn 5300541194335152988749892502228755547482451690626856874364818603877859328
    52206490616610799556298178050543519085579273256598487987187250099055297478077
    29549489276967504964693125653529287505312605283055862667647586729061001070019
    29461440705261793989499475881145339459901973887416494688513085396372631630772"
  by (rule tabn_add [OF base_30_2 base_30_1, where
      x = 22657001339643294591605052397014231580266667973542625319539663369994296408058 and
      e = 24660070656481402414029341342242681876025432793259104714356828247792527292010 and i = 11507630 and j = 0 and q = 1643572 and
      l = 1613986 and v = 4 and u = 0],
      simp only: arith_simps rel_simps, simp only: distinct_ok_def arith_simps rel_simps simp_thms,
      simp only: hex_simps)

lemma base_30_4: "tabn 7067388259113537318333190002971674063309935587502475832486424805170479104
    3337101688891106600669488305324680819969825138025526597955892657190859958982
    9444376760854825604934122530250103102958218766074311211742269006661497575145
    48490666376935677934953130718931602271117705438215088670071204751527945601418"
  by (rule tabn_add [OF base_30_3 base_30_1, where
      x = 51788769546694378707520858279418531643646598704771497405942415654485927203786 and
      e = 26021965191462663426222889365629386410525340434449056708974275020109340610343 and i = 34650630 and j = 0 and q = 575237 and l = 756574 and
      v = 3 and u = 1],
      simp only: arith_simps rel_simps, simp only: distinct_ok_def arith_simps rel_simps simp_thms,
      simp only: hex_simps)

lemma base_30_5: "tabn 8834235323891921647916487503714592579137419484378094790608031006463098880
    780557914690116787444133298696161019513901403268166406371943056469165994707
    14507150295109992162561628684823624133969472422196579919864252453379469000882
    3928332327358997782712572425611681892994505021420433134554723527714159500585"
  by (rule tabn_add [OF base_30_4 base_30_1, where
      x = 44169452238238222336667997118216490812179421313891868506236482607046261813774 and
      e = 21263722964825182788551001197477568751356911123650937270727547816202548365070 and i = 9216888 and j = 0 and q = 569480 and l = 488200 and
      v = 3 and u = 1],
      simp only: arith_simps rel_simps, simp only: distinct_ok_def arith_simps rel_simps simp_thms,
      simp only: hex_simps)

lemma base_30_6: "tabn 10601082388670305977499785004457511094964903381253713748729637207755718656
    45294462303626582228033105179240404490570442207096070882998931654256441961547
    22940062065008949731385608045881753520370685170936577583753907544690979185971
    32584849120097026784998207596597014104040345101827618227698103193296908890986"
  by (rule tabn_add [OF base_30_5 base_30_1, where
      x = 22354400238617632496647497133358650970199757036159493299245024109565462775576 and
      e = 21540288604280147779152349684161657111320098878303233139404981822022356652261 and i = 5785224 and j = 0 and q = 1031096 and l = 1310638 and
      v = 6 and u = 0],
      simp only: arith_simps rel_simps, simp only: distinct_ok_def arith_simps rel_simps simp_thms,
      simp only: hex_simps)

lemma base_30_7: "tabn 12367929453448690307083082505200429610792387278129332706851243409048338432
    16599730249462728452952123794097111628469739479299538052959773798556245041695
    32414848008025980356338067527284279981814046354727916498505397567355617419377
    38155672227040185217136966072403314679474410517273189621103401178867080493251"
  by (rule tabn_add [OF base_30_6 base_30_1, where
      x = 42080926860094845808399548771156785573290685457391903574183168235157192442267 and
      e = 46464240451341251779891805501054663673738609323050767921804081897565087427793 and i = 23884092 and j = 0 and q = 1853534 and
      l = 1772148 and v = 3 and u = 1],
      simp only: arith_simps rel_simps, simp only: distinct_ok_def arith_simps rel_simps simp_thms,
      simp only: hex_simps)

lemma base_30_8: "tabn 14134776518227074636666380005943348126619871175004951664972849610340958208
    34889682207440803606743122710911767855267486988951914590709120766326586155489
    6959567538469494491703860220977854996531172481386880753001984494936089967119
    12692367452386756397255033756096370061093685937634446281512775549040931331897"
  by (rule tabn_add [OF base_30_7 base_30_1, where
      x = 27930114668971309115039262489933912858736314507565033837707136271390496188370 and
      e = 4440018228869177872402441451023884183278964004453629599915586356519807912957 and i = 17532362 and j = 0 and q = 368404 and l = 1032316 and
      v = 9 and u = 0],
      simp only: arith_simps rel_simps, simp only: distinct_ok_def arith_simps rel_simps simp_thms,
      simp only: hex_simps)

lemma row_30: "list_all2 multiple [1766847064778384329583297500742918515827483896875618958121606201292619776, 3533694129556768659166595001485837031654967793751237916243212402585239552, 5300541194335152988749892502228755547482451690626856874364818603877859328, 7067388259113537318333190002971674063309935587502475832486424805170479104, 8834235323891921647916487503714592579137419484378094790608031006463098880, 10601082388670305977499785004457511094964903381253713748729637207755718656, 12367929453448690307083082505200429610792387278129332706851243409048338432, 14134776518227074636666380005943348126619871175004951664972849610340958208] ge_base_30"
  unfolding ge_base_30_def
  by (rule row8,
      (rule tab_ptm [OF base_30_1]; simp only: limb_simps),
      (rule tab_ptm [OF base_30_2]; simp only: limb_simps),
      (rule tab_ptm [OF base_30_3]; simp only: limb_simps),
      (rule tab_ptm [OF base_30_4]; simp only: limb_simps),
      (rule tab_ptm [OF base_30_5]; simp only: limb_simps),
      (rule tab_ptm [OF base_30_6]; simp only: limb_simps),
      (rule tab_ptm [OF base_30_7]; simp only: limb_simps),
      (rule tab_ptm [OF base_30_8]; simp only: limb_simps))

text \<open>Row 31.\<close>

lemma base_31_x1: "tabn 28269553036454149273332760011886696253239742350009903329945699220681916416
    9925372191369641625717209887142929829113479974540003484809610544838332465070
    45081291718892972053610960471043634902162773061177354597816898258512878818962
    3817139241469554203304537521585744314385711334688028768185155602684721034380"
  by (rule tabn_dbl [OF base_30_8, where
      x = 22740125091134767283891741920443248853585699246182930906721504290282018466057 and
      e = 56612250758267351341190321302235361988543949431827553426106919239851298520485 and i = 2857291 and j = 427664 and k = 0 and l = 1055070 and
      v = 4 and u = 1],
      simp only: arith_simps rel_simps, simp only: hex_simps)

lemma base_31_x2: "tabn 56539106072908298546665520023773392506479484700019806659891398441363832832
    43298818252979884458779503446001170792277737215950639946241576434297071735366
    32885302492636357337969651944743929671217233735528765023502806038958990179839
    6699759647053324201939625669951433590068217548488501229999560105457117043408"
  by (rule tabn_dbl [OF base_31_x1, where
      x = 10413515760343527120809851501257241121060503480421874922738770395338081555527 and
      e = 25055273653541666142518732808438255721091443115092705856538557588418866572808 and i = 1541730 and j = 891570 and k = 0 and l = 693619 and
      v = 4 and u = 0],
      simp only: arith_simps rel_simps, simp only: hex_simps)

lemma base_31_x3: "tabn 113078212145816597093331040047546785012958969400039613319782796882727665664
    40908834010304197468160851031127877424448257579320042728715265499429596528118
    17230079505965457121244686059484871101072114115972065439100393062802893693556
    54217758797191868246207596265738082048612473060243920122753484449968484469570"
  by (rule tabn_dbl [OF base_31_x2, where
      x = 23678754504338740346916164971643006323376143463347977289614872436626702834562 and
      e = 45757132707313344280050546249636256414840773055456353862103149140982161452128 and i = 8845174 and j = 0 and k = 815284 and l = 1245620 and
      v = 10 and u = 0],
      simp only: arith_simps rel_simps, simp only: hex_simps)

lemma base_31_x4: "tabn 226156424291633194186662080095093570025917938800079226639565593765455331328
    43327427631895362924044267775937337724168450822941039679875606992270203484662
    10501226826826265774465717125561499058927078924957550610636003438377880931444
    2107097893582772223668329569477443873775344100741459465857509096640188092069"
  by (rule tabn_dbl [OF base_31_x3, where
      x = 32826200805069097149578550650375838665241371897983489069239603553892322553218 and
      e = 2765878939509301287956963088293424367997603076319788569804729614180234110501 and i = 6842210 and j = 0 and k = 2705600 and l = 1269852 and
      v = 5 and u = 0],
      simp only: arith_simps rel_simps, simp only: hex_simps)

lemma base_31_1: "tabn 452312848583266388373324160190187140051835877600158453279131187530910662656
    28957309340029271748431691920428163854179429286949309146369562153908901734992
    7073360405764509554181692928366379897557531597896091766883325686348506217983
    14350563363428362668753403070446508344335420098325379940543138259171264070384"
  by (rule tabn_dbl [OF base_31_x4, where
      x = 21883948934264762194249998992061783956621897689053217379486236467560395517009 and
      e = 54092429903787400718890648896116619382761583887214575596075187866852481679087 and i = 3703152 and j = 0 and k = 1634847 and l = 656477 and
      v = 5 and u = 0],
      simp only: arith_simps rel_simps, simp only: hex_simps)

lemma base_31_2: "tabn 904625697166532776746648320380374280103671755200316906558262375061821325312
    48997078354922359392953681348738642700250004990005877538629618491609428197780
    25863513099198247842095054146750661323314161723639565617568184968985048577342
    17133998678245817752721391441789166306530241550798022778685672262047609009583"
  by (rule tabn_dbl [OF base_31_1, where
      x = 23133565255724111550858627201987981376935843266366311921061433522624379620438 and
      e = 11874599045110438124753037144015673135683519253091470097370262312071217240108 and i = 1751462 and j = 0 and k = 778142 and l = 1428084 and
      v = 2 and u = 0],
      simp only: arith_simps rel_simps, simp only: hex_simps)

lemma base_31_3: "tabn 1356938545749799165119972480570561420155507632800475359837393562592731987968
    48727009449226938798786782949688171079587356038639970941115895502353315471783
    16889851971435852416984141713087091175334692778851947236202708099625216439926
    38724541401710256678559740569471936530254576790913652461952847290597726107905"
  by (rule tabn_add [OF base_31_2 base_31_1, where
      x = 31837157477791086381802641236601079904252663259788023704913187402728099031857 and
      e = 50037629030601147747861977798238011058098481707806170552006073860314892247477 and i = 11696096 and j = 0 and q = 2474917 and
      l = 1745135 and v = 3 and u = 0],
      simp only: arith_simps rel_simps, simp only: distinct_ok_def arith_simps rel_simps simp_thms,
      simp only: hex_simps)

lemma base_31_4: "tabn 1809251394333065553493296640760748560207343510400633813116524750123642650624
    8252325882492675836203282574191246563201979127668256093251712409656389428989
    754573684095139660621925429558239863072517534955476989534620531841848530133
    33572536661375569004921805075754488383867189288021443687547939389622802656662"
  by (rule tabn_add [OF base_31_3 base_31_1, where
      x = 7497752198397536175581357144633006700129461592712779103717091877814540898856 and
      e = 25354879142325605152293612282907304716352300706958401416700898503234173106810 and i = 1914952 and j = 0 and q = 358668 and l = 374786 and
      v = 1 and u = 0],
      simp only: arith_simps rel_simps, simp only: distinct_ok_def arith_simps rel_simps simp_thms,
      simp only: hex_simps)

lemma base_31_5: "tabn 2261564242916331941866620800950935700259179388000792266395655937654553313280
    47346081243913540532686937362547809179384790966356025094959276718954536714014
    20281174284192995216245840438498527019079568158961348443436409672132830084000
    40410227547729570449278558361013843123584963095392248155229714989912163861008"
  by (rule tabn_add [OF base_31_4 base_31_1, where
      x = 27064906959720545316441096924049282160305222807394676651522867046821706630014 and
      e = 105072544074274895390430221724523096906612261891630406219097077975358393362067 and i = 2856238 and j = 0 and q = 5193234 and
      l = 1504844 and v = 0 and u = 0],
      simp only: arith_simps rel_simps, simp only: distinct_ok_def arith_simps rel_simps simp_thms,
      simp only: hex_simps)

lemma base_31_6: "tabn 2713877091499598330239944961141122840311015265600950719674787125185463975936
    20217629780172396879034743205478874050759786340180573686697435077409046144912
    50941101305785328810304983486467436306968321449516022551746728672079811077015
    51083371696377535553271074166070954184597606090113825130360340447734661982922"
  by (rule tabn_add [OF base_31_5 base_31_1, where
      x = 27172573093045165780515252223355391670426457223484833154679498409285799887846 and
      e = 31930115544419890581648224920110500620091846089718260646082557904164765088290 and i = 8122906 and j = 0 and q = 1700022 and l = 1690216 and
      v = 0 and u = 1],
      simp only: arith_simps rel_simps, simp only: distinct_ok_def arith_simps rel_simps simp_thms,
      simp only: hex_simps)

lemma base_31_7: "tabn 3166189940082864718613269121331309980362851143201109172953918312716374638592
    31175392784226749672522496043786706273328578000764573892236343328409664925881
    5196942811790121090415547731285154877471734257840202977326874984364850888243
    17700524546259557417286094421919059490082690226425383612740643000279213921603"
  by (rule tabn_add [OF base_31_6 base_31_1, where
      x = 25978449972436628582106948312501551395856843742924370914909468344044814037638 and
      e = 33490134141633883842579023145675358375746634792924369966145774509569490085251 and i = 11714898 and j = 0 and q = 1155404 and l = 808914 and
      v = 9 and u = 0],
      simp only: arith_simps rel_simps, simp only: distinct_ok_def arith_simps rel_simps simp_thms,
      simp only: hex_simps)

lemma base_31_8: "tabn 3618502788666131106986593281521497120414687020801267626233049500247285301248
    11511670115306867382411757023370630910837695842168852896073617749629108581884
    8010657498417267886809889472040664950122124268998880814255680419116282623022
    7207970404132647572436087950850948594268869132304907179953143858948358029926"
  by (rule tabn_add [OF base_31_7 base_31_1, where
      x = 3501012616889599495601867551329965960715571573169972081817937330512825958862 and
      e = 88313265993447928929391547479303412421306990203270151121266809237573119907051 and i = 857066 and j = 0 and q = 1247422 and l = 215978 and
      v = 0 and u = 0],
      simp only: arith_simps rel_simps, simp only: distinct_ok_def arith_simps rel_simps simp_thms,
      simp only: hex_simps)

lemma row_31: "list_all2 multiple [452312848583266388373324160190187140051835877600158453279131187530910662656, 904625697166532776746648320380374280103671755200316906558262375061821325312, 1356938545749799165119972480570561420155507632800475359837393562592731987968, 1809251394333065553493296640760748560207343510400633813116524750123642650624, 2261564242916331941866620800950935700259179388000792266395655937654553313280, 2713877091499598330239944961141122840311015265600950719674787125185463975936, 3166189940082864718613269121331309980362851143201109172953918312716374638592, 3618502788666131106986593281521497120414687020801267626233049500247285301248] ge_base_31"
  unfolding ge_base_31_def
  by (rule row8,
      (rule tab_ptm [OF base_31_1]; simp only: limb_simps),
      (rule tab_ptm [OF base_31_2]; simp only: limb_simps),
      (rule tab_ptm [OF base_31_3]; simp only: limb_simps),
      (rule tab_ptm [OF base_31_4]; simp only: limb_simps),
      (rule tab_ptm [OF base_31_5]; simp only: limb_simps),
      (rule tab_ptm [OF base_31_6]; simp only: limb_simps),
      (rule tab_ptm [OF base_31_7]; simp only: limb_simps),
      (rule tab_ptm [OF base_31_8]; simp only: limb_simps))

end
