(* ===== verification/BaseOrder.thy ===== *)
theory BaseOrder
  imports BaseRows4
begin

text \<open>
  The order of the base point: the multiple \<open>2 ^ 252 + 27742317777372353535851937790883648493\<close> is the neutral
  element.  Its digits in radix 16 select entries of the table; those at odd positions are summed first and
  doubled four times.  The last part of the file certifies the odd multiples in \<open>ge_Bi\<close>.
\<close>

lemma order_odd_1: "tabn 452312848583266388373324160190187140053165105595943369152034994591191007232
    57311297353441826999883833295855994833302830497794847254708196971742126766881
    14254917299322247193200008147391205898989158324723807174628666073261891285141
    21503896224298225902742946086966055497053787818316084291496119117796003271380"
  by (rule tabn_add [OF base_31_1 base_15_1, where
      x = 43056380054119579806683825148464788934313672173071040080079530898480235481740 and
      e = 376209196925080034797549766033125731120091914953772409702744214440585840369097 and i = 19848434 and j = 0 and q = 18694010 and
      l = 2320990 and v = 0 and u = 0],
      simp only: arith_simps rel_simps, simp only: distinct_ok_def arith_simps rel_simps simp_thms,
      simp only: hex_simps)

lemma minus_14_2: "tabn (-10384593717069655257060992658440192)
    41571788042841202290338899197942030796230516339045080200904489370096453676391
    14613882835283214038878983598955597428045276937450304461079441468633252884835
    40960849370929847874815337485801515942800567353442773274083079652897107234676"
  by (rule tabn_minus [OF base_14_2, where k = 1], simp only: hex_simps, simp only: arith_simps rel_simps)

lemma order_odd_2: "tabn 452312848583266388373324160190187140053154721002226299496777933598532567040
    4439155697454296813454618528586376283624387690002187672813627461751909812697
    9677017588901300301246970514606152849926214430135702676024596375065160872252
    9484980832311811394328930636085461325694909640007401148567549107301972603734"
  by (rule tabn_add [OF order_odd_1 minus_14_2, where
      x = 52658182727211094223993140518324177360333165592686767016517823090643313760394 and
      e = 43385805986815565444310196379078427991049880940481016547368219475476787850758 and i = 21308268 and j = 0 and q = 366812 and l = 644082 and
      v = 0 and u = 1],
      simp only: arith_simps rel_simps, simp only: distinct_ok_def arith_simps rel_simps simp_thms,
      simp only: hex_simps)

lemma minus_12_2: "tabn (-158456325028528675187087900672)
    53249647316924474924764553206973140789479264795143211720665224465792826909332
    15756801480033533000436438998988043638671649943519845201810543220041725235516
    53816722699569646555814558287086141796356060071866315983234466153627106029143"
  by (rule tabn_minus [OF base_12_2, where k = 1], simp only: hex_simps, simp only: arith_simps rel_simps)

lemma order_odd_3: "tabn 452312848583266388373324160190187140053154720843769974468249258411444666368
    47137068465614522987059889738039162104258266988802509916194389186539722193982
    7961663762058385588885049004544925983039385337174123824224704375327497500142
    27146729669823327299766836674808633404125777130977212698870879746260770589346"
  by (rule tabn_add [OF order_odd_2 minus_12_2, where
      x = 39175404703556137398174840733494236121218881651628386091969684811212224693840 and
      e = 13121270538697514384216185482728022362228146563163951350698514773273052097611 and i = 9871326 and j = 0 and q = 420048 and l = 1604898 and
      v = 3 and u = 0],
      simp only: arith_simps rel_simps, simp only: distinct_ok_def arith_simps rel_simps simp_thms,
      simp only: hex_simps)

lemma minus_11_6: "tabn (-1856910058928070412348686336)
    16810439894045052574530032261120828567996149537597899333752995936916903983841
    33174364015509957735297600843593485805310060955272785366466948162357007558855
    54454067476969109818123769699165687638270391482686930886150232085026248923104"
  by (rule tabn_minus [OF base_11_6, where k = 1], simp only: hex_simps, simp only: arith_simps rel_simps)

lemma order_odd_4: "tabn 452312848583266388373324160190187140053154720841913064409321187999095980032
    39281673948796560121626141732714271610048085193214254804422069818394462919093
    30011689219232949801521927326693235344472176128068552982949337314272024993912
    24295512461239794445290272924769922823103938529276181122924014274573210912066"
  by (rule tabn_add [OF order_odd_3 minus_11_6, where
      x = 9269984729563610320104214406021036265575909065145701821472732504122437925181 and
      e = 479124833454923243829509261941139197099548645186305333873101621912931984171628 and i = 4643890 and j = 0 and q = 22898906 and
      l = 780183 and v = 0 and u = 0],
      simp only: arith_simps rel_simps, simp only: distinct_ok_def arith_simps rel_simps simp_thms,
      simp only: hex_simps)

lemma minus_10_1: "tabn (-1208925819614629174706176)
    40997792406406923892931960786496672588770492779968430725449858439819538674675
    12551146795280344786005283425206727374339868304857514563015128521932994467329
    24410970888283213332702102725116615691905471408878019153878489861401583458956"
  by (rule tabn_minus [OF base_10_1, where k = 1], simp only: hex_simps, simp only: arith_simps rel_simps)

lemma order_odd_5: "tabn 452312848583266388373324160190187140053154720841911855483501573369921273856
    24184554868924920522905401254861138336530730088761349579086960177434896418209
    47200168110391713141818137335679724246224318215024388519356838148093386279193
    2638308162999923341919064658299856675664958247889133637418820980134553536865"
  by (rule tabn_add [OF order_odd_4 minus_10_1, where
      x = 34880431377191305092872756423525368016941404206557243079458914033298074958965 and
      e = 52735171041559682574722964333035697081676011164310819992907403607430922157523 and i = 17179631 and j = 0 and q = 2752150 and
      l = 1857160 and v = 6 and u = 1],
      simp only: arith_simps rel_simps, simp only: distinct_ok_def arith_simps rel_simps simp_thms,
      simp only: hex_simps)

lemma minus_9_6: "tabn (-28334198897217871282176)
    46963985862075618670679751905551430263508527377684534659084942250531346278636
    31062498344221899951858847721436214809655846137357588828374314183705499890978
    19256669376401915181263490348333594955840821517104435363961265376608515369078"
  by (rule tabn_minus [OF base_9_6, where k = 1], simp only: hex_simps, simp only: arith_simps rel_simps)

lemma order_odd_6: "tabn 452312848583266388373324160190187140053154720841911827149302676152049991680
    15793364375980705355134602906707665751675146887560742029204020623910956622686
    17325895936129039183886089660000049867805148073650027556141911249968194884078
    45620391556900388077905088000508779137203767147490930421093598464452551203307"
  by (rule tabn_add [OF order_odd_5 minus_9_6, where
      x = 56363513058509763883034005751051569810504991146730996492790901377899326558557 and
      e = 4047505973700537771891804802791074407210394552569756928121572649005023418454 and i = 45253464 and j = 0 and q = 70286 and l = 1710386 and
      v = 8 and u = 1],
      simp only: arith_simps rel_simps, simp only: distinct_ok_def arith_simps rel_simps simp_thms,
      simp only: hex_simps)

lemma minus_8_3: "tabn (-55340232221128654848)
    29013289842396303425316390666151711061552802329659675758056051080325829339592
    46349681177630628852521607017182005268874686088518697986163469152413883962006
    37423794285076587937541538161232234359458579287232866056992650398462438251563"
  by (rule tabn_minus [OF base_8_3, where k = 1], simp only: hex_simps, simp only: arith_simps rel_simps)

lemma order_odd_7: "tabn 452312848583266388373324160190187140053154720841911827093962443930921336832
    46010112029484021790655111900695373955717818889716002367629411407762072918128
    20932685555296948809292094813573686842039434795125455610812255447054842373525
    21588721054246271424102441810011938413947381670649306805980668254160645029407"
  by (rule tabn_add [OF order_odd_6 minus_8_3, where
      x = 25077426474187072981363017087121687113678384094590546756817155960707230544603 and
      e = 177946308754715259092436637630280295232651809680618660605248472209868361831378 and i = 9578690 and j = 0 and q = 8441882 and
      l = 1251491 and v = 0 and u = 0],
      simp only: arith_simps rel_simps, simp only: distinct_ok_def arith_simps rel_simps simp_thms,
      simp only: hex_simps)

lemma order_odd_8: "tabn 452312848583266388373324160190187140053154720841911827094322731901110976512
    52092302014262110568382619507628369550366071125410834970679329214486586536251
    50365977046646016308395910838828156125370214543328469243009972090329841138193
    19582779562464097374278361368989824463399326726210511424115978777763914092100"
  by (rule tabn_add [OF order_odd_7 base_7_5, where
      x = 1726324967616094259986708668800213424995856582082365727669357124156745398058 and
      e = 671491961767814029021466348404523116131381255676668418409101300318882591688434 and i = 1422730 and j = 0 and q = 47556282 and
      l = 216330 and v = 0 and u = 0],
      simp only: arith_simps rel_simps, simp only: distinct_ok_def arith_simps rel_simps simp_thms,
      simp only: hex_simps)

lemma order_odd_9: "tabn 452312848583266388373324160190187140053154720841911827094323013376087687168
    24592642097224463332507102323854325032235784592887120462818965043499089533714
    24005083595840664688537917051219805895702027105316855690195828494930251135892
    16748920315191717107235403276782756738915071877636435812879472159564358682284"
  by (rule tabn_add [OF order_odd_8 base_6_1, where
      x = 587558501383798643969185272634519136533757487570264772623136548568838397822 and
      e = 762076308713113386309319274788827906875333049458560213700634836240191340593184 and i = 908082 and j = 0 and q = 25560888 and l = 140792 and
      v = 0 and u = 0],
      simp only: arith_simps rel_simps, simp only: distinct_ok_def arith_simps rel_simps simp_thms,
      simp only: hex_simps)

lemma order_odd_10: "tabn 452312848583266388373324160190187140053154720841911827094323019973157453824
    30303851719735462000027040742774749986043187571913141054286209374645079270603
    53668294306469828480219302002145968748971170357880453246052025094443632328175
    34833087224499322157196881900474649602696664225766196733494162083851838556878"
  by (rule tabn_add [OF order_odd_9 base_5_6, where
      x = 34531602031923731231593231244972735163707009546852969827962976284158011762377 and
      e = 106680079116083063756280457245655895630431260536248051284647373795014085082024 and i = 15491956 and j = 0 and q = 6202668 and
      l = 2341184 and v = 0 and u = 1],
      simp only: arith_simps rel_simps, simp only: distinct_ok_def arith_simps rel_simps simp_thms,
      simp only: hex_simps)

lemma order_odd_11: "tabn 452312848583266388373324160190187140053154720841911827094323019981747388416
    56412272384112246988853061784452790405285028403476064278805675380435250570672
    31387937015864024683733181605350270988323957513023359474776983414068482921819
    54117401053328940279275126169649342852196260906034897718412857353738628043322"
  by (rule tabn_add [OF order_odd_10 base_4_2, where
      x = 25024335368248222305119880179102519416961070890452704804028691966366767648853 and
      e = 14613231788141098552531864032871606186385772621101247588438949447599985938766 and i = 14017919 and j = 0 and q = 1005974 and
      l = 1895011 and v = 5 and u = 0],
      simp only: arith_simps rel_simps, simp only: distinct_ok_def arith_simps rel_simps simp_thms,
      simp only: hex_simps)

lemma order_odd_12: "tabn 452312848583266388373324160190187140053154720841911827094323019981848051712
    21114544845373794119545981923890669897421138324084431910876015069319793956007
    47173613264354095387711356409800327116586112940353070136384476304418106901119
    57167007651675994393184894650885006509448690538627971429454198346755354497411"
  by (rule tabn_add [OF order_odd_11 base_3_6, where
      x = 31836976199677796443620118018434296707470017716551643794220330768858251874837 and
      e = 278041186343079549140408230230095232314414853930141783830777238223993544077723 and i = 14854443 and j = 0 and q = 13146914 and
      l = 1856048 and v = 0 and u = 1],
      simp only: arith_simps rel_simps, simp only: distinct_ok_def arith_simps rel_simps simp_thms,
      simp only: hex_simps)

lemma minus_2_1: "tabn (-65536)
    35604016480507116089823476989913686364420168017036822542463197598154674620094
    4761860081995383609600795983942009904644672294262035659317576151992149381550
    29444174642251007489344484537417115313042557251418969603744774526488593790564"
  by (rule tabn_minus [OF base_2_1, where k = 1], simp only: hex_simps, simp only: arith_simps rel_simps)

lemma order_odd_13: "tabn 452312848583266388373324160190187140053154720841911827094323019981847986176
    32626365170065545961906503059498554655177445086789240024884254614192510132465
    15701316045986301588989467685104164105459873803184951166854900117119632077139
    51577986088608764080359183372017062678434486184424880193753732410157639323438"
  by (rule tabn_add [OF order_odd_12 minus_2_1, where
      x = 16925049124079244372917035374394390549717571283604288858029354497072878055326 and
      e = 18472023867155171570645935792048375272182340491740799361662384930157463514049 and i = 7704860 and j = 0 and q = 873836 and l = 793344 and
      v = 9 and u = 0],
      simp only: arith_simps rel_simps, simp only: distinct_ok_def arith_simps rel_simps simp_thms,
      simp only: hex_simps)

lemma minus_1_3: "tabn (-768)
    23335382699338269226359667219828068643684120583484233220294663917471172462644
    9490880931876894096932668319949019804409165332690132896406497910068747055056
    48619014533614251096562580008617888456933014912122055533015766243013872453657"
  by (rule tabn_minus [OF base_1_3, where k = 1], simp only: hex_simps, simp only: arith_simps rel_simps)

lemma order_odd_14: "tabn 452312848583266388373324160190187140053154720841911827094323019981847985408
    37024991615944879868908825457057353595186618518761841575951225314158312147856
    36139629058188605661481847367875247303045658238773049140977769267954217964395
    11974841840420911719806051774038443570803251136783781284619821715198982925445"
  by (rule tabn_add [OF order_odd_13 minus_1_3, where
      x = 885362557756274207426978089182106292140960279988792434973456046204094183461 and
      e = 35960492885649771849055166887343421217312687182639486551116987792803297911346 and i = 726370 and j = 0 and q = 1833638 and l = 235305 and
      v = 2 and u = 0],
      simp only: arith_simps rel_simps, simp only: distinct_ok_def arith_simps rel_simps simp_thms,
      simp only: hex_simps)

lemma minus_0_1: "tabn (-1)
    31204614345391077396927242593886631629853981173214368409736920319215404093758
    3533012425803781230144052908719740726127014226477800802100354883158534798213
    7658430290429433199253656808231786248588514975978872815715289361970058581381"
  by (rule tabn_minus [OF base_0_1, where k = 1], simp only: hex_simps, simp only: arith_simps rel_simps)

lemma order_odd_15: "tabn 452312848583266388373324160190187140053154720841911827094323019981847985407
    11648171493203726864822354016691381365362945441456120521452018197097756790560
    45057619593937652283909606974990174738167640843023561250426130373336933998819
    6873689061187028624132522144649558388223616143231013661504425784301027798609"
  by (rule tabn_add [OF order_odd_14 minus_0_1, where
      x = 24486596517924172292698239546045160553830296931252841290754679827717387611690 and
      e = 54892668470858336239968323075845324227514116224548080234551883988639748009919 and i = 8998748 and j = 0 and q = 2300047 and l = 1216192 and
      v = 7 and u = 1],
      simp only: arith_simps rel_simps, simp only: distinct_ok_def arith_simps rel_simps simp_thms,
      simp only: hex_simps)

lemma order_dbl_1: "tabn 904625697166532776746648320380374280106309441683823654188646039963695970814
    22386505650739818456310247368636379979886926545470330245863386559718005724469
    35585603166358319604241485361598474461073350007508624358214075071773730162779
    30345173191233580290180947968623888287596626169789039661350720975269742664605"
  by (rule tabn_dbl [OF order_odd_15, where
      x = 44696947103039596563854254511381859445448568870781987907378103491900840381639 and
      e = 25920411452523158273015095827495087790226572329458039372121972069383908083263 and i = 8272762 and j = 487118 and k = 0 and l = 1983440 and
      v = 5 and u = 1],
      simp only: arith_simps rel_simps, simp only: hex_simps)

lemma order_dbl_2: "tabn 1809251394333065553493296640760748560212618883367647308377292079927391941628
    5419633093881277494251247184178985748174647949544415886378771937798635564022
    15196845673095381756386268963335912874552198363118866647306468000616585989874
    57883939084891793006721737701708713697021008909144054664820626703149518909650"
  by (rule tabn_dbl [OF order_dbl_1, where
      x = 48118832039443993449650470725187026800257441919245831258801095941138614394097 and
      e = 22353679697128486613650794627588927452771186174024193680645624394792864800279 and i = 11108315 and j = 0 and k = 766790 and l = 1132990 and
      v = 6 and u = 1],
      simp only: arith_simps rel_simps, simp only: hex_simps)

lemma order_dbl_3: "tabn 3618502788666131106986593281521497120425237766735294616754584159854783883256
    5721278799400224979350416003246689555663283075288246699604295163992958802586
    31754924919287283397396132383276967411306022330722502676968221374250029615592
    14747048403423192353181151795845174835857133223261980603261649072580676065905"
  by (rule tabn_dbl [OF order_dbl_2, where
      x = 31862398498771039293739776124313676070992253077386026042364865793699494006943 and
      e = 42010373692882197835999292999075531665948900264500503337418623692535628341939 and i = 3322960 and j = 813650 and k = 0 and l = 1115170 and
      v = 3 and u = 1],
      simp only: arith_simps rel_simps, simp only: hex_simps)

lemma order_dbl_4: "tabn 7237005577332262213973186563042994240850475533470589233509168319709567766512
    48163417492068879204284905947811655300869131664451481845624994165550001343518
    20319284362180207232131331045059270695198137675544136496522310104237169475690
    4900461205888050499408219771440207030540753366096239655824283570464343994496"
  by (rule tabn_dbl [OF order_dbl_3, where
      x = 27844133129888671972153574902752384605670993988907345349102684061312831867828 and
      e = 2641475095667454962070833323357679995060065613982805409999311262461520467312 and i = 2331820 and j = 101480 and k = 0 and l = 1571098 and
      v = 2 and u = 0],
      simp only: arith_simps rel_simps, simp only: hex_simps)

lemma order_even_1: "tabn 7237005577332262213973186563042994240857121673449513812873687355010969489392
    57471074680717854487523280570009513340750982586592109305337940227688778396922
    34100007717517174633230994718446286753823694058384836515642546847878504832293
    31713076090838666702383886991126094726057240024142324509565555381155630337190"
  by (rule tabn_add [OF order_dbl_4 base_15_5, where
      x = 23371066963200679854292285851563226586927288528207272789695393379810273564629 and
      e = 28652522715281897979987923094776195119736470301217379583882092836739131616883 and i = 10813358 and j = 0 and q = 1697043 and
      l = 1662615 and v = 3 and u = 0],
      simp only: arith_simps rel_simps, simp only: distinct_ok_def arith_simps rel_simps simp_thms,
      simp only: hex_simps)

lemma minus_14_1: "tabn (-5192296858534827628530496329220096)
    18908477589526918172618421073119973060626280661432570456189083598373220046227
    21827233379012888296051888914012613590110693258949725274094908495019489738908
    50525218275465320293756120580664239613169164495058891047003043448652162473637"
  by (rule tabn_minus [OF base_14_1, where k = 1], simp only: hex_simps, simp only: arith_simps rel_simps)

lemma order_even_2: "tabn 7237005577332262213973186563042994240857116481152655278046058824514640269296
    40488849537747873455640694399345844107707714859249606782895057585624163627878
    15983870506295013916258552716401823411482823057751052368014678560516405177767
    116647786158024013006706344450093209194059522302935665867461970206053171506"
  by (rule tabn_add [OF order_even_1 minus_14_1, where
      x = 24504979031452859539382141682944020696224891801498554414880379025107758450111 and
      e = 213890809056723750784813683962038783753259149555261028687297976398325326221673 and i = 11799051 and j = 0 and q = 8315949 and
      l = 1195553 and v = 0 and u = 0],
      simp only: arith_simps rel_simps, simp only: distinct_ok_def arith_simps rel_simps simp_thms,
      simp only: hex_simps)

lemma minus_13_6: "tabn (-121694457621910022543683507716096)
    15513775838405879491189371088024770907731279942493584615198249675203423501849
    36457576209297191189783948203546239530121394583105015122929077937334640300952
    55295355219368976657216638089294874216745151705043890118273691504218487577092"
  by (rule tabn_minus [OF base_13_6, where k = 1], simp only: hex_simps, simp only: arith_simps rel_simps)

lemma order_even_3: "tabn 7237005577332262213973186563042994240857116359458197656136036280831132553200
    15636394358831094517871275176126929615372767729480120638051478304272299194439
    11088895953149231698412241669414025546086208397391397533903572163911247406930
    48260433510024937021880756837826731357676584861721729321358730772729590413319"
  by (rule tabn_add [OF order_even_2 minus_13_6, where
      x = 4547498405681862819459033506712904069286559332088723104147906140361051787509 and
      e = 350340491759039404559831684113823257720548312619311090099179726840732978043183 and i = 2577689 and j = 0 and q = 6383327 and l = 485947 and
      v = 0 and u = 0],
      simp only: arith_simps rel_simps, simp only: distinct_ok_def arith_simps rel_simps simp_thms,
      simp only: hex_simps)

lemma minus_12_1: "tabn (-79228162514264337593543950336)
    45103340189645008687377119205687495755236823628386648868825446224184048796894
    3451681248724956125404306134506119402031398338084969228439151311589237174436
    29598386026187797056481932209163078000396304260514116366806424831470453497893"
  by (rule tabn_minus [OF base_12_1, where k = 1], simp only: hex_simps, simp only: arith_simps rel_simps)

lemma order_even_4: "tabn 7237005577332262213973186563042994240857116359378969493621771943237588602864
    33756717353949180681729921274940346825159353227720583205397305061166888833690
    46232262325510047268671694307195961310544010985624601474649943825623797441525
    4459325358067251467352734616093214260436099604625187041029182368793760135083"
  by (rule tabn_add [OF order_even_3 minus_12_1, where
      x = 45420499647097231124843719472088339441250334574916263750476153239499656212114 and
      e = 13973749063879166385234972542815683289613444144049277024410725075634668347353 and i = 10900066 and j = 0 and q = 900013 and l = 2764844 and
      v = 3 and u = 1],
      simp only: arith_simps rel_simps, simp only: distinct_ok_def arith_simps rel_simps simp_thms,
      simp only: hex_simps)

lemma order_even_5: "tabn 7237005577332262213973186563042994240857116359379897948651235978443762946032
    20167483795519099189383372746672337682780496017322188716543583561944783860462
    6700001096288327945124774708704658957457300726073587262156148865438158170869
    33774195845713507019930290261066494605794577131355698343097778765638596501736"
  by (rule tabn_add [OF order_even_4 base_11_3, where
      x = 13467482699230771244258598037967678725323195291248601454387434696506625689593 and
      e = 30723804177379174179368674275823967672873255071748614113089816376377928931542 and i = 5821789 and j = 0 and q = 559554 and l = 603093 and
      v = 9 and u = 0],
      simp only: arith_simps rel_simps, simp only: distinct_ok_def arith_simps rel_simps simp_thms,
      simp only: hex_simps)

lemma order_even_6: "tabn 7237005577332262213973186563042994240857116359379907620057792895477160595440
    9458932937016752169862565035429682460641974831292459436041994428246949037399
    17359009115145080724723808209009424437667842057323808418246649359333410663059
    22710564075987961043246896414724185934816482917697903286753502917770810165708"
  by (rule tabn_add [OF order_even_5 base_10_8, where
      x = 49995968440529769156924249330764211949609125106788933037524137072870103194289 and
      e = 83451678585832564571973543898232947641905217627048813874927953615966324205460 and i = 13109592 and j = 0 and q = 1723074 and
      l = 1222394 and v = 0 and u = 1],
      simp only: arith_simps rel_simps, simp only: distinct_ok_def arith_simps rel_simps simp_thms,
      simp only: hex_simps)

lemma minus_9_3: "tabn (-14167099448608935641088)
    31763244584669318230155258503741286674382103648785712009619347735023240823766
    25927521950428956889050219407561855352333046923981562959328821389536591441873
    4368348792454952504127416617493757640375588000385775093006916145351154099537"
  by (rule tabn_minus [OF base_9_3, where k = 1], simp only: hex_simps, simp only: arith_simps rel_simps)

lemma order_even_7: "tabn 7237005577332262213973186563042994240857116359379907605890693446868224954352
    12003163119585539669562728366537803167015656047646557367709157254471268995990
    13431946499027451147059849998031793814754527123940271457644933887643554850961
    24641977166991401708996353901579888038106625286934379478445260728174735417938"
  by (rule tabn_add [OF order_even_6 minus_9_3, where
      x = 56467261239216186234288370872849963278896121256526567929793015370784278964978 and
      e = 54664738292863669752694882893285979585834791333244562638424887309353395656402 and i = 16897490 and j = 0 and q = 1120418 and
      l = 1182664 and v = 3 and u = 1],
      simp only: arith_simps rel_simps, simp only: distinct_ok_def arith_simps rel_simps simp_thms,
      simp only: hex_simps)

lemma order_even_8: "tabn 7237005577332262213973186563042994240857116359379907606001373911310482264048
    337072803399157959178731793484084092135141187035683892739508929118117758042
    16819842584713369773857382809824502479433883567922209312891464500439948266243
    13545706732762718997938026825214769117893965299692545847733755528380262594852"
  by (rule tabn_add [OF order_even_7 base_8_6, where
      x = 41413274837343885897106841488003535539336249951933756599576836432634734311748 and
      e = 52019603492985534210823897491519570588161039549743694116527764303929978489785 and i = 7032126 and j = 0 and q = 808127 and l = 602896 and
      v = 1 and u = 1],
      simp only: arith_simps rel_simps, simp only: distinct_ok_def arith_simps rel_simps simp_thms,
      simp only: hex_simps)

lemma order_even_9: "tabn 7237005577332262213973186563042994240857116359379907606001950372062785687536
    43365801695482534433132346871408556600109540556753240433295839082725579734972
    41361193739213845480267130831913941237020734283261734162633296145947461937826
    52894414402658750632839743569912642892668482299381850044007613495917708593109"
  by (rule tabn_add [OF order_even_8 base_7_8, where
      x = 2004607956268688952865216039494615363088806273491506270662542936778117797146 and
      e = 84634730222835289510332384035853385287638497880641140281918591899677446794230 and i = 302878 and j = 0 and q = 5039524 and l = 505692 and
      v = 0 and u = 0],
      simp only: arith_simps rel_simps, simp only: distinct_ok_def arith_simps rel_simps simp_thms,
      simp only: hex_simps)

lemma order_even_10: "tabn 7237005577332262213973186563042994240857116359379907606001950935012739108848
    22916865407202806617116458486127218582582823768966419651157647509038817850206
    36581607972881824709611315909370265650577071768907692307222719225844183824165
    43061229429918712257120284956925257065734554574415130664026275492673535442204"
  by (rule tabn_add [OF order_even_9 base_6_2, where
      x = 44231302052979079619290635081100906858640744332879009363663720287151198845990 and
      e = 36496759508321917925734177809214751651981955704981674505324142308868638760321 and i = 2508564 and j = 0 and q = 1787775 and l = 2119452 and
      v = 1 and u = 1],
      simp only: arith_simps rel_simps, simp only: distinct_ok_def arith_simps rel_simps simp_thms,
      simp only: hex_simps)

lemma order_even_11: "tabn 7237005577332262213973186563042994240857116359379907606001950938311273992176
    18043953875599901805109524354181366016572714403993811920559392073473790390796
    57684489142743619667044547703281074078814932736384497330848800161707757254909
    33317338737452153689488992985305871363759099652440590380075945928666394805654"
  by (rule tabn_add [OF order_even_10 base_5_3, where
      x = 18255509351514379849850469155244245864392774000429596609439383915722597955836 and
      e = 13402933694249036648082465593955291437899270489605929881581631782664897085933 and i = 7344944 and j = 0 and q = 908905 and l = 1254002 and
      v = 2 and u = 1],
      simp only: arith_simps rel_simps, simp only: distinct_ok_def arith_simps rel_simps simp_thms,
      simp only: hex_simps)

lemma minus_4_6: "tabn (-25769803776)
    9025212182676517368284702369370418221781179132383561143661791413281679669451
    29601126465251282793668150616260546493423977835656345379875485394142634114476
    21481181829468634564913468245045674787832032511835304066898918109746285687649"
  by (rule tabn_minus [OF base_4_6, where k = 1], simp only: hex_simps, simp only: arith_simps rel_simps)

lemma order_even_12: "tabn 7237005577332262213973186563042994240857116359379907606001950938285504188400
    49756767510169378685268250448602937284915175718186978021748138409906287278244
    57328110286255044473208337113722167895529920696020739617910891713870754190875
    54117593509906561457926901661067628344937128962611152762801716674688439409219"
  by (rule tabn_add [OF order_even_11 minus_4_6, where
      x = 50324701842572431923845405839224723316020247354986520423566038699992097907318 and
      e = 56573807114277008065558627526058853054536451605157628244503093875519347378977 and i = 16739864 and j = 0 and q = 4382885 and
      l = 4030252 and v = 0 and u = 1],
      simp only: arith_simps rel_simps, simp only: distinct_ok_def arith_simps rel_simps simp_thms,
      simp only: hex_simps)

lemma minus_3_3: "tabn (-50331648)
    16579083870680727353386033520581171267639842971105325737333067638129264196745
    21292266773899639162765885952066543898650234952645780674439073344442193145932
    15208169618698600407868091827020058576319400296817967870147407499126328211629"
  by (rule tabn_minus [OF base_3_3, where k = 1], simp only: hex_simps, simp only: arith_simps rel_simps)

lemma order_even_13: "tabn 7237005577332262213973186563042994240857116359379907606001950938285453856752
    28155229024007879986583052572546871924443806351629643022972943641616673554057
    43656510208451879503350259320293139645515074106940291003958014508725722159797
    18977012126104590759932494591123670743789895205568622515696458468281689444506"
  by (rule tabn_add [OF order_even_12 minus_3_3, where
      x = 42394763434214098195018285756597686205563724577509634038743721136847516214209 and
      e = 114560925696269671373297950313607439847930777230403434906712680629965267435245 and i = 23966519 and j = 0 and q = 5872020 and
      l = 2398218 and v = 0 and u = 1],
      simp only: arith_simps rel_simps, simp only: distinct_ok_def arith_simps rel_simps simp_thms,
      simp only: hex_simps)

lemma order_even_14: "tabn 7237005577332262213973186563042994240857116359379907606001950938285454249968
    50978251951976952343544066056481751435976986775201891835247984095367265348085
    8473053256207828312216661885385859422924129539824333265828125930033315205003
    31408678861513385042812266859782287906896400501017903375053608054899557390399"
  by (rule tabn_add [OF order_even_13 base_2_6, where
      x = 42505198695769124031327404171095892013052857235377558569419858165333950143082 and
      e = 253072795215850968676856862308154139205081843677591991520629378888130036169344 and i = 14140610 and j = 0 and q = 10608886 and
      l = 1908552 and v = 0 and u = 0],
      simp only: arith_simps rel_simps, simp only: distinct_ok_def arith_simps rel_simps simp_thms,
      simp only: hex_simps)

lemma order_even_15: "tabn 7237005577332262213973186563042994240857116359379907606001950938285454250992
    55221577242988382633613921715755988927347615506430221002982523990194636363568
    19324154932736603031152325029326367275890211278985171650228672434569381466725
    40779097241408971452228116607583414735230162954196233009433085899742953658505"
  by (rule tabn_add [OF order_even_14 base_1_4, where
      x = 35897422310251779602461596686429621651457404227445049352753851555625254896843 and
      e = 418418128429977481844215279872991367761093707143183751230064404886259352643548 and i = 13110868 and j = 0 and q = 21609146 and
      l = 2157195 and v = 0 and u = 0],
      simp only: arith_simps rel_simps, simp only: distinct_ok_def arith_simps rel_simps simp_thms,
      simp only: hex_simps)

lemma minus_0_3: "tabn (-3)
    19324154932736603031152325029326367275890211278985171650228672434569381466725
    55221577242988382633613921715755988927347615506430221002982523990194636363568
    17116947377249126259557375896760539191404829378624049010295706104213611161444"
  by (rule tabn_minus [OF base_0_3, where k = 1], simp only: hex_simps, simp only: arith_simps rel_simps)

theorem base_order: "imult 7237005577332262213973186563042994240857116359379907606001950938285454250989 ed_base = 0"
  using tab_inverse [OF order_even_15 [unfolded tabn_def] minus_0_3 [unfolded tabn_def]] by (simp add: imult_add [symmetric])

section \<open>The odd multiples\<close>

lemma odd_9: "tabn 9
    23848771936779537706600755363852330642691035199144679981329841599443567665967
    33358695950361614583925271808519256405884421684945271723330695989338484605028
    52357765926424945578408752779084598596693712112103136963171288052321514532635"
  by (rule tabn_add [OF base_0_8 base_0_1, where
      x = 48386120605076020834460976059677028163441605847019690277727937614061647880888 and
      e = 25175162833076440545525712419938242414025492371283176648012616758850539328257 and i = 4253164 and j = 0 and q = 975331 and l = 2274830 and
      v = 0 and u = 1],
      simp only: arith_simps rel_simps, simp only: distinct_ok_def arith_simps rel_simps simp_thms,
      simp only: hex_simps)

lemma odd_11: "tabn 11
    30060548511792857161490863918616842674472112613249574336675186204794201058014
    11158256924779282454740543163093780811298074430862908234953982287139410690888
    27941507066570052986778351271715755022397500567158991111890716087464763623913"
  by (rule tabn_add [OF base_0_8 base_0_3, where
      x = 18902291587013574706750320755523061863174038182386666101721203917654790367126 and
      e = 52451578103633856424796987366334828108781167074072491933796964653844884444360 and i = 8360560 and j = 0 and q = 1612870 and l = 706374 and
      v = 9 and u = 0],
      simp only: arith_simps rel_simps, simp only: distinct_ok_def arith_simps rel_simps simp_thms,
      simp only: hex_simps)

lemma odd_13: "tabn 13
    15972020931028765202356936322618908365444234765594279114894468132403870203757
    1087550798001203620797136749953957393762725578137024723030949917728262045587
    33237312664213247073394209876351444910698636488186827598268510754927446762360"
  by (rule tabn_add [OF base_0_8 base_0_5, where
      x = 14884470133027561581559799572664950971681509187457254391863518214675608158170 and
      e = 6194240425055237824423063254957364613125921581656740936947296988270224128865 and i = 3976114 and j = 0 and q = 157396 and l = 387420 and
      v = 2 and u = 0],
      simp only: arith_simps rel_simps, simp only: distinct_ok_def arith_simps rel_simps simp_thms,
      simp only: hex_simps)

lemma odd_15: "tabn 15
    44273937366294891980395583359278962421509549251851624370413480066653195594400
    30626176813774521173184229023175236149481611499753231178919926386272687148811
    36689249660344293493892821654230283378144754582372867911177117475716794987798"
  by (rule tabn_add [OF base_0_8 base_0_7, where
      x = 13647760552520370807211354336103726272027937752098393191493553680380508445589 and
      e = 40113585755145689074704532797271625132431315407702829085951569713372474391188 and i = 4678490 and j = 0 and q = 2131650 and l = 877359 and
      v = 4 and u = 0],
      simp only: arith_simps rel_simps, simp only: distinct_ok_def arith_simps rel_simps simp_thms,
      simp only: hex_simps)

lemma row_Bi: "list_all2 multiple [1, 3, 5, 7, 9, 11, 13, 15] ge_Bi"
  unfolding ge_Bi_def
  by (rule row8,
      (rule tab_ptm [OF base_0_1]; simp only: limb_simps),
      (rule tab_ptm [OF base_0_3]; simp only: limb_simps),
      (rule tab_ptm [OF base_0_5]; simp only: limb_simps),
      (rule tab_ptm [OF base_0_7]; simp only: limb_simps),
      (rule tab_ptm [OF odd_9]; simp only: limb_simps),
      (rule tab_ptm [OF odd_11]; simp only: limb_simps),
      (rule tab_ptm [OF odd_13]; simp only: limb_simps),
      (rule tab_ptm [OF odd_15]; simp only: limb_simps))

end
