(* ===== verification/Scalar.thy ===== *)
theory Scalar
  imports Bytes
begin

text \<open>
  Arithmetic modulo the group order \<open>l = 2^252 + 27742317777372353535851937790883648493\<close> on 32- and
  64-byte strings: \<open>sc_reduce\<close>, \<open>sc_reduce32\<close>, \<open>sc_add\<close>, \<open>sc_sub\<close>, \<open>sc_mul\<close>, \<open>sc_muladd\<close>,
  \<open>sc_mulsub\<close>, \<open>sc_0\<close>, \<open>sc_check\<close> and \<open>sc_isnonzero\<close> of
  \<^verbatim>\<open>src/base/tools/cryptonote/crypto-ops.c\<close>.  The C functions repeat the same statement groups with
  the same local variables; each group is one definition here.  The main results are that every
  function writes the representative below \<open>l\<close>, for every input string, and that \<open>sc_check\<close>
  accepts exactly the strings below \<open>l\<close>.
\<close>

unbundle bit_operations_syntax

section \<open>Loads\<close>

text \<open>The 21-bit limbs of a scalar; the twelfth limb takes all the bits that remain.\<close>

definition sc_load12 :: "byte list \<Rightarrow> i64 list" where
  "sc_load12 s =
     [2097151 AND load_3 s, 2097151 AND drop_bit 5 (load_4 (drop 2 s)),
      2097151 AND drop_bit 2 (load_3 (drop 5 s)), 2097151 AND drop_bit 7 (load_4 (drop 7 s)),
      2097151 AND drop_bit 4 (load_4 (drop 10 s)), 2097151 AND drop_bit 1 (load_3 (drop 13 s)),
      2097151 AND drop_bit 6 (load_4 (drop 15 s)), 2097151 AND drop_bit 3 (load_3 (drop 18 s)),
      2097151 AND load_3 (drop 21 s), 2097151 AND drop_bit 5 (load_4 (drop 23 s)),
      2097151 AND drop_bit 2 (load_3 (drop 26 s)), drop_bit 7 (load_4 (drop 28 s))]"

definition sc_load24 :: "byte list \<Rightarrow> i64 list" where
  "sc_load24 s =
     [2097151 AND load_3 s, 2097151 AND drop_bit 5 (load_4 (drop 2 s)),
      2097151 AND drop_bit 2 (load_3 (drop 5 s)), 2097151 AND drop_bit 7 (load_4 (drop 7 s)),
      2097151 AND drop_bit 4 (load_4 (drop 10 s)), 2097151 AND drop_bit 1 (load_3 (drop 13 s)),
      2097151 AND drop_bit 6 (load_4 (drop 15 s)), 2097151 AND drop_bit 3 (load_3 (drop 18 s)),
      2097151 AND load_3 (drop 21 s), 2097151 AND drop_bit 5 (load_4 (drop 23 s)),
      2097151 AND drop_bit 2 (load_3 (drop 26 s)), 2097151 AND drop_bit 7 (load_4 (drop 28 s)),
      2097151 AND drop_bit 4 (load_4 (drop 31 s)), 2097151 AND drop_bit 1 (load_3 (drop 34 s)),
      2097151 AND drop_bit 6 (load_4 (drop 36 s)), 2097151 AND drop_bit 3 (load_3 (drop 39 s)),
      2097151 AND load_3 (drop 42 s), 2097151 AND drop_bit 5 (load_4 (drop 44 s)),
      2097151 AND drop_bit 2 (load_3 (drop 47 s)), 2097151 AND drop_bit 7 (load_4 (drop 49 s)),
      2097151 AND drop_bit 4 (load_4 (drop 52 s)), 2097151 AND drop_bit 1 (load_3 (drop 55 s)),
      2097151 AND drop_bit 6 (load_4 (drop 57 s)), drop_bit 3 (load_4 (drop 60 s))]"

section \<open>Reduction\<close>

text \<open>
  \<open>Carry i\<close> is \<^verbatim>\<open>carry = (si + (1<<20)) >> 21; s(i+1) += carry; si -= carry << 21;\<close>, and
  \<open>Mac k\<close> is the group of six statements
  \<^verbatim>\<open>s(k-12) += sk * 666643; \<dots> s(k-7) -= sk * 683901;\<close>.
\<close>

datatype sc_step = Carry nat | Mac nat

definition sc_coeffs :: "(nat \<times> i64) list" where
  "sc_coeffs = [(0, 666643), (1, 470296), (2, 654183), (3, - 997805), (4, 136657), (5, - 683901)]"

fun sc_exec :: "sc_step \<Rightarrow> i64 list \<Rightarrow> i64 list" where
  "sc_exec (Carry i) s = limb_carry 21 (push_bit 20 1) i (i + 1) 1 s"
| "sc_exec (Mac k) s = fold (\<lambda>(d, m). limb_mac k (k - 12 + d) m) sc_coeffs s"

text \<open>
  From 24 limbs down to 12, the common part of \<open>sc_reduce\<close> and of the multiplications; it ends with
  \<^verbatim>\<open>s12 = 0;\<close>, and the limbs above are not used again.
\<close>

definition sc_mid_steps :: "sc_step list" where
  "sc_mid_steps =
     [Mac 23, Mac 22, Mac 21, Mac 20, Mac 19, Mac 18,
      Carry 6, Carry 8, Carry 10, Carry 12, Carry 14, Carry 16,
      Carry 7, Carry 9, Carry 11, Carry 13, Carry 15,
      Mac 17, Mac 16, Mac 15, Mac 14, Mac 13, Mac 12]"

definition sc_mid :: "i64 list \<Rightarrow> i64 list" where
  "sc_mid s = take 12 (fold sc_exec sc_mid_steps s) @ [0]"

text \<open>
  From the 13 limbs \<^verbatim>\<open>s0, \<dots>, s12\<close> with \<^verbatim>\<open>s12 = 0\<close> to the bytes, the common end of all the
  functions: the carries with rounding, the excess folded back, the carries without rounding, the
  excess folded back again, the carries \<^verbatim>\<open>carry0\<close> to \<^verbatim>\<open>carry10\<close>, the stores.
\<close>

definition sc_tail_steps :: "sc_step list" where
  "sc_tail_steps =
     [Carry 0, Carry 2, Carry 4, Carry 6, Carry 8, Carry 10,
      Carry 1, Carry 3, Carry 5, Carry 7, Carry 9, Carry 11,
      Mac 12]"

definition sc_stores :: "store list" where
  "sc_stores =
     [(0, 0, None), (0, 8, None), (0, 16, Some 5), (1, 3, None), (1, 11, None), (1, 19, Some 2),
      (2, 6, None), (2, 14, Some 7), (3, 1, None), (3, 9, None), (3, 17, Some 4), (4, 4, None),
      (4, 12, None), (4, 20, Some 1), (5, 7, None), (5, 15, Some 6), (6, 2, None), (6, 10, None),
      (6, 18, Some 3), (7, 5, None), (7, 13, None), (8, 0, None), (8, 8, None), (8, 16, Some 5),
      (9, 3, None), (9, 11, None), (9, 19, Some 2), (10, 6, None), (10, 14, Some 7), (11, 1, None),
      (11, 9, None), (11, 17, None)]"

definition sc_tail :: "i64 list \<Rightarrow> byte list" where
  "sc_tail s =
     (let s = fold sc_exec sc_tail_steps s;
          s = s[12 := 0];
          s = floor_carries (replicate 12 21) 12 s;
          s = sc_exec (Mac 12) s;
          s = floor_carries (replicate 12 21) 11 s
      in map (limb_byte s) sc_stores)"

definition sc_0 :: "byte list" where
  "sc_0 = map (\<lambda>i. 0) [0..<32]"

definition sc_reduce :: "byte list \<Rightarrow> byte list" where
  "sc_reduce s = sc_tail (sc_mid (sc_load24 s))"

definition sc_reduce32 :: "byte list \<Rightarrow> byte list" where
  "sc_reduce32 s = sc_tail (sc_load12 s @ [0])"

definition sc_add :: "byte list \<Rightarrow> byte list \<Rightarrow> byte list" where
  "sc_add a b =
     (let a = sc_load12 a; b = sc_load12 b
      in sc_tail (map (\<lambda>i. a ! i + b ! i) [0..<12] @ [0]))"

definition sc_sub :: "byte list \<Rightarrow> byte list \<Rightarrow> byte list" where
  "sc_sub a b =
     (let a = sc_load12 a; b = sc_load12 b
      in sc_tail (map (\<lambda>i. a ! i - b ! i) [0..<12] @ [0]))"

section \<open>Products\<close>

text \<open>The sums of products that make up \<^verbatim>\<open>s0, \<dots>, s22\<close>.\<close>

definition sc_prods :: "i64 list \<Rightarrow> i64 list \<Rightarrow> i64 list" where
  "sc_prods a b =
     (let a0 = a ! 0; a1 = a ! 1; a2 = a ! 2; a3 = a ! 3; a4 = a ! 4; a5 = a ! 5; a6 = a ! 6; a7
          = a ! 7; a8 = a ! 8; a9 = a ! 9; a10 = a ! 10; a11 = a ! 11; b0 = b ! 0; b1 = b ! 1;
          b2 = b ! 2; b3 = b ! 3; b4 = b ! 4; b5 = b ! 5; b6 = b ! 6; b7 = b ! 7; b8 = b ! 8; b9
          = b ! 9; b10 = b ! 10; b11 = b ! 11
      in [a0 * b0,
          (a0 * b1 + a1 * b0),
          (a0 * b2 + a1 * b1 + a2 * b0),
          (a0 * b3 + a1 * b2 + a2 * b1 + a3 * b0),
          (a0 * b4 + a1 * b3 + a2 * b2 + a3 * b1 + a4 * b0),
          (a0 * b5 + a1 * b4 + a2 * b3 + a3 * b2 + a4 * b1 + a5 * b0),
          (a0 * b6 + a1 * b5 + a2 * b4 + a3 * b3 + a4 * b2 + a5 * b1 + a6 * b0),
          (a0 * b7 + a1 * b6 + a2 * b5 + a3 * b4 + a4 * b3 + a5 * b2 + a6 * b1 + a7 * b0),
          (a0 * b8 + a1 * b7 + a2 * b6 + a3 * b5 + a4 * b4 + a5 * b3 + a6 * b2 + a7 * b1 + a8 * b0),
          (a0 * b9 + a1 * b8 + a2 * b7 + a3 * b6 + a4 * b5 + a5 * b4 + a6 * b3 + a7 * b2 + a8 * b1 + a9 * b0),
          (a0 * b10 + a1 * b9 + a2 * b8 + a3 * b7 + a4 * b6 + a5 * b5 + a6 * b4 + a7 * b3 + a8 * b2 + a9 * b1 + a10 * b0),
          (a0 * b11 + a1 * b10 + a2 * b9 + a3 * b8 + a4 * b7 + a5 * b6 + a6 * b5 + a7 * b4 + a8 * b3 + a9 * b2 + a10 * b1 + a11 * b0),
          (a1 * b11 + a2 * b10 + a3 * b9 + a4 * b8 + a5 * b7 + a6 * b6 + a7 * b5 + a8 * b4 + a9 * b3 + a10 * b2 + a11 * b1),
          (a2 * b11 + a3 * b10 + a4 * b9 + a5 * b8 + a6 * b7 + a7 * b6 + a8 * b5 + a9 * b4 + a10 * b3 + a11 * b2),
          (a3 * b11 + a4 * b10 + a5 * b9 + a6 * b8 + a7 * b7 + a8 * b6 + a9 * b5 + a10 * b4 + a11 * b3),
          (a4 * b11 + a5 * b10 + a6 * b9 + a7 * b8 + a8 * b7 + a9 * b6 + a10 * b5 + a11 * b4),
          (a5 * b11 + a6 * b10 + a7 * b9 + a8 * b8 + a9 * b7 + a10 * b6 + a11 * b5),
          (a6 * b11 + a7 * b10 + a8 * b9 + a9 * b8 + a10 * b7 + a11 * b6),
          (a7 * b11 + a8 * b10 + a9 * b9 + a10 * b8 + a11 * b7),
          (a8 * b11 + a9 * b10 + a10 * b9 + a11 * b8),
          (a9 * b11 + a10 * b10 + a11 * b9),
          (a10 * b11 + a11 * b10),
          a11 * b11])"

text \<open>The carries that follow the products.\<close>

definition sc_mul_steps :: "sc_step list" where
  "sc_mul_steps =
     [Carry 0, Carry 2, Carry 4, Carry 6, Carry 8, Carry 10, Carry 12,
      Carry 14, Carry 16, Carry 18, Carry 20, Carry 22,
      Carry 1, Carry 3, Carry 5, Carry 7, Carry 9, Carry 11,
      Carry 13, Carry 15, Carry 17, Carry 19, Carry 21]"

definition sc_mul :: "byte list \<Rightarrow> byte list \<Rightarrow> byte list" where
  "sc_mul a b =
     (let s = sc_prods (sc_load12 a) (sc_load12 b) @ [0]
      in sc_tail (sc_mid (fold sc_exec sc_mul_steps s)))"

definition sc_muladd :: "byte list \<Rightarrow> byte list \<Rightarrow> byte list \<Rightarrow> byte list" where
  "sc_muladd a b c =
     (let p = sc_prods (sc_load12 a) (sc_load12 b); c = sc_load12 c;
          s = map (\<lambda>i. c ! i + p ! i) [0..<12] @ map (\<lambda>i. p ! i) [12..<23] @ [0]
      in sc_tail (sc_mid (fold sc_exec sc_mul_steps s)))"

definition sc_mulsub :: "byte list \<Rightarrow> byte list \<Rightarrow> byte list \<Rightarrow> byte list" where
  "sc_mulsub a b c =
     (let p = sc_prods (sc_load12 a) (sc_load12 b); c = sc_load12 c;
          s = map (\<lambda>i. c ! i - p ! i) [0..<12] @ map (\<lambda>i. - (p ! i)) [12..<23] @ [0]
      in sc_tail (sc_mid (fold sc_exec sc_mul_steps s)))"

section \<open>Tests\<close>

definition signum :: "i64 \<Rightarrow> i64" where
  "signum a = (if 0 <s a then 1 else if a <s 0 then - 1 else 0)"

definition sc_check :: "byte list \<Rightarrow> i32" where
  "sc_check s =
     (let s0 = load_4 s; s1 = load_4 (drop 4 s); s2 = load_4 (drop 8 s); s3 = load_4 (drop 12 s);
          s4 = load_4 (drop 16 s); s5 = load_4 (drop 20 s); s6 = load_4 (drop 24 s);
          s7 = load_4 (drop 28 s)
      in ucast (signed_drop_bit 8 (signum (1559614444 - s0) + push_bit 1 (signum (1477600026 - s1))
          + push_bit 2 (signum (2734136534 - s2)) + push_bit 3 (signum (350157278 - s3))
          + push_bit 4 (signum (- s4)) + push_bit 5 (signum (- s5)) + push_bit 6 (signum (- s6))
          + push_bit 7 (signum (268435456 - s7)))))"

definition sc_isnonzero :: "byte list \<Rightarrow> i32" where
  "sc_isnonzero s = bytes_isnonzero s"

section \<open>Steps, limbs and bounds\<close>

definition l25519 :: int where
  "l25519 = 2 ^ 252 + 27742317777372353535851937790883648493"

lemma l25519_pos [simp]: "0 < l25519"
  by (simp add: l25519_def)

text \<open>The number held in the first \<open>n\<close> limbs.\<close>

definition sc_val :: "nat \<Rightarrow> i64 list \<Rightarrow> int" where
  "sc_val n s = limb_val (map (\<lambda>i. 21 * i) [0..<n]) s"

lemma sc_val_sum: "sc_val n s = (\<Sum>i<n. sint (s ! i) * 2 ^ (21 * i))"
  by (simp add: sc_val_def limb_val_def)

lemma sc_val_Suc: "sc_val (Suc n) s = sc_val n s + sint (s ! n) * 2 ^ (21 * n)"
  by (simp add: sc_val_sum)

text \<open>
  What a step does to bounds on the limbs.  The first component is the number of limbs still in
  use; \<open>None\<close> stands for a possible overflow.
\<close>

definition mac_bd :: "nat \<Rightarrow> nat \<Rightarrow> int \<Rightarrow> int list \<Rightarrow> int list option" where
  "mac_bd i j m B = (let b = B ! j + B ! i * m in if b < 2 ^ 63 then Some (B[j := b]) else None)"

fun macs_bd :: "nat \<Rightarrow> (nat \<times> int) list \<Rightarrow> int list \<Rightarrow> int list option" where
  "macs_bd k [] B = Some B"
| "macs_bd k ((d, m) # cs) B = Option.bind (mac_bd k (k - 12 + d) \<bar>m\<bar> B) (macs_bd k cs)"

definition sc_coeff_ints :: "(nat \<times> int) list" where
  "sc_coeff_ints = [(0, 666643), (1, 470296), (2, 654183), (3, - 997805), (4, 136657), (5, - 683901)]"

fun sc_bd :: "sc_step \<Rightarrow> nat \<times> int list \<Rightarrow> (nat \<times> int list) option" where
  "sc_bd (Carry i) (n, B) =
     (let c = (B ! i + 2 ^ 21 - 1) div 2 ^ 21; b = B ! (i + 1) + c
      in if i + 1 < n \<and> B ! i < 2 ^ 62 \<and> b < 2 ^ 63
         then Some (n, B[i + 1 := b, i := 2 ^ 20]) else None)"
| "sc_bd (Mac k) (n, B) =
     (if n = Suc k \<and> 12 \<le> k then map_option (Pair k) (macs_bd k sc_coeff_ints B) else None)"

fun sc_bds :: "sc_step list \<Rightarrow> nat \<times> int list \<Rightarrow> (nat \<times> int list) option" where
  "sc_bds [] nB = Some nB"
| "sc_bds (st # sts) nB = Option.bind (sc_bd st nB) (sc_bds sts)"

lemma sint_push_bit_20 [simp]: "sint (push_bit 20 1 :: i64) = 2 ^ 20"
  by simp

lemma sc_carry_sound:
  assumes B: "limb_bounded B s" "n \<le> length B" and ok: "sc_bd (Carry i) (n, B) = Some (n', B')"
  shows "limb_bounded B' (sc_exec (Carry i) s)" "sc_val n' (sc_exec (Carry i) s) = sc_val n s"
    "length B' = length B" "n' = n"
proof -
  let ?c = "(B ! i + 2 ^ 21 - 1) div 2 ^ 21" and ?es = "map (\<lambda>i. 21 * i) [0..<n]"
  have ok': "i + 1 < n" "B ! i < 2 ^ 62" "B ! (i + 1) + ?c < 2 ^ 63" "n' = n"
    "B' = B[i + 1 := B ! (i + 1) + ?c, i := 2 ^ 20]"
    using ok by (simp_all add: Let_def split: if_splits)
  then have i: "i < length B" "i + 1 < length B" "i \<noteq> i + 1" "i < length ?es" "i + 1 < length ?es"
    and r: "B ! i + 2 ^ 21 \<le> 2 ^ 63" "B ! (i + 1) + ?c * 1 < 2 ^ 63" and es: "length ?es \<le> length B"
    using B(2) by simp_all
  have one: "sint (1 :: i64) = 1" "(0 :: int) \<le> 1" "(0 :: int) \<le> 2 ^ 20" "(2 :: int) ^ 20 < 2 ^ 21"
    "(21 :: nat) < 63"
    by simp_all
  note pre = B(1) i(1-3) sint_push_bit_20 one(3,4) one(5) one(1,2) refl r
  from limb_carry_bounded [OF pre] show "limb_bounded B' (sc_exec (Carry i) s)"
    by (simp add: ok')
  show "sc_val n' (sc_exec (Carry i) s) = sc_val n s"
    using limb_carry_val [OF pre i(4,5) es] ok'(1) by (simp add: sc_val_def ok'(4) power_add)
  show "length B' = length B" "n' = n"
    by (simp_all add: ok')
qed

lemma mac_bd_sound:
  assumes B: "limb_bounded B s" "i < length B" "j < length B" "i \<noteq> j" and m: "sint m = \<mu>"
    and ok: "mac_bd i j \<bar>\<mu>\<bar> B = Some B'" and n: "j < n" "n \<le> length B" "n \<le> i"
  shows "limb_bounded B' (limb_mac i j m s)" "length B' = length B" "limb_mac i j m s ! i = s ! i"
    "sc_val n (limb_mac i j m s) = sc_val n s + sint (s ! i) * \<mu> * 2 ^ (21 * j)"
proof -
  have ok': "B ! j + B ! i * \<bar>\<mu>\<bar> < 2 ^ 63" "B' = B[j := B ! j + B ! i * \<bar>\<mu>\<bar>]"
    using ok by (simp_all add: mac_bd_def Let_def split: if_splits)
  note step = limb_mac_step [OF B(1-3) m ok'(1)]
  show "limb_bounded B' (limb_mac i j m s)" "length B' = length B"
    using step(2) by (simp_all add: ok')
  show "limb_mac i j m s ! i = s ! i"
    using B(4) by (simp add: limb_mac_def)
  have "length s = length B" using B(1) by (rule limb_bounded_length)
  then have "sint (s ! j + s ! i * m) = sint (s ! j) + sint (s ! i) * \<mu>"
    using step(1) B(3) by (simp add: limb_mac_def)
  then show "sc_val n (limb_mac i j m s) = sc_val n s + sint (s ! i) * \<mu> * 2 ^ (21 * j)"
    using n \<open>length s = length B\<close> by (simp add: sc_val_def limb_mac_def limb_val_update)
qed

lemma macs_bd_sound:
  assumes "limb_bounded B s" "k < length B" "12 \<le> k" "macs_bd k cs B = Some B'"
    and "\<forall>(d, m)\<in>set cs. d < 12 \<and> \<bar>m\<bar> < 2 ^ 63"
  defines "t \<equiv> fold (\<lambda>(d, m). limb_mac k (k - 12 + d) m) (map (\<lambda>(d, m). (d, word_of_int m)) cs) s"
  shows "limb_bounded B' t \<and> length B' = length B \<and> t ! k = s ! k
    \<and> sc_val k t = sc_val k s + sint (s ! k) * 2 ^ (21 * (k - 12)) * (\<Sum>(d, m)\<leftarrow>cs. m * 2 ^ (21 * d))"
  using assms(1-5) unfolding t_def
proof (induction cs arbitrary: B s)
  case (Cons c cs)
  obtain d m where c: "c = (d, m)" by (cases c)
  obtain B1 where B1: "mac_bd k (k - 12 + d) \<bar>m\<bar> B = Some B1" "macs_bd k cs B1 = Some B'"
    using Cons.prems(4) by (auto simp: c bind_eq_Some_conv)
  have dm: "d < 12" "\<bar>m\<bar> < 2 ^ 63" using Cons.prems(5) by (auto simp: c)
  then have m: "sint (word_of_int m :: i64) = m" by (simp add: sint_word_of_int_i64)
  have j: "k - 12 + d < length B" "k \<noteq> k - 12 + d" "k - 12 + d < k" "k \<le> length B"
    using Cons.prems(2,3) dm(1) by simp_all
  note step = mac_bd_sound [OF Cons.prems(1,2) j(1,2) m B1(1) j(3,4) order_refl]
  have "k < length B1" using Cons.prems(2) step(2) by simp
  from Cons.IH [OF step(1) this Cons.prems(3) B1(2)] show ?case
    using Cons.prems(5) step(2-4) by (simp add: c power_add algebra_simps)
qed simp

lemma sc_coeff_ints_value: "(\<Sum>(d, m)\<leftarrow>sc_coeff_ints. m * 2 ^ (21 * d)) = 2 ^ 252 - l25519"
  by (simp add: sc_coeff_ints_def l25519_def)

lemma sc_coeffs_ints: "sc_coeffs = map (\<lambda>(d, m). (d, word_of_int m)) sc_coeff_ints"
  by (simp add: sc_coeffs_def sc_coeff_ints_def)

lemma sc_mac_sound:
  assumes B: "limb_bounded B s" "n \<le> length B" and ok: "sc_bd (Mac k) (n, B) = Some (n', B')"
  shows "limb_bounded B' (sc_exec (Mac k) s)" "eqm l25519 (sc_val n' (sc_exec (Mac k) s)) (sc_val n s)"
    "length B' = length B" "n' = k" "n = Suc k"
    "sc_val k (sc_exec (Mac k) s) = sc_val n s - sint (s ! k) * l25519 * 2 ^ (21 * (k - 12))"
proof -
  have ok': "n = Suc k" "12 \<le> k" "n' = k" "macs_bd k sc_coeff_ints B = Some B'"
    using ok by (auto split: if_splits)
  have "\<forall>(d, m)\<in>set sc_coeff_ints. d < 12 \<and> \<bar>m\<bar> < 2 ^ 63"
    by (simp add: sc_coeff_ints_def)
  moreover have "k < length B" using B(2) ok'(1) by simp
  ultimately have step: "limb_bounded B' (sc_exec (Mac k) s)" "length B' = length B"
    "sc_val k (sc_exec (Mac k) s) = sc_val k s + sint (s ! k) * 2 ^ (21 * (k - 12)) * (2 ^ 252 - l25519)"
    using macs_bd_sound [OF B(1) _ ok'(2,4)] by (simp_all add: sc_coeffs_ints sc_coeff_ints_value)
  then show "limb_bounded B' (sc_exec (Mac k) s)" "length B' = length B" "n' = k" "n = Suc k"
    using ok' by simp_all
  have "(2::int) ^ (21 * k) = 2 ^ (21 * (k - 12)) * 2 ^ 252"
    using ok'(2) by (simp only: power_add [symmetric]) (simp add: diff_mult_distrib2)
  then show v: "sc_val k (sc_exec (Mac k) s) = sc_val n s - sint (s ! k) * l25519 * 2 ^ (21 * (k - 12))"
    unfolding step(3) ok'(1) sc_val_Suc by (simp only:) (simp add: algebra_simps)
  show "eqm l25519 (sc_val n' (sc_exec (Mac k) s)) (sc_val n s)"
    unfolding ok'(3) v by (rule eqm_multiple [where k = "- sint (s ! k) * 2 ^ (21 * (k - 12))"]) simp
qed

lemma sc_bd_sound:
  assumes "limb_bounded B s" "n \<le> length B" "sc_bd st (n, B) = Some (n', B')"
  shows "limb_bounded B' (sc_exec st s) \<and> eqm l25519 (sc_val n' (sc_exec st s)) (sc_val n s)
    \<and> length B' = length B \<and> n' \<le> n"
proof (cases st)
  case (Carry i)
  then show ?thesis
    using sc_carry_sound [OF assms(1,2)] assms(3) by (metis eqm_refl order_refl)
next
  case (Mac k)
  then show ?thesis
    using sc_mac_sound [OF assms(1,2)] assms(3) by (metis le_Suc_eq order_refl)
qed

lemma sc_bds_sound:
  assumes "limb_bounded B s" "n \<le> length B" "sc_bds sts (n, B) = Some (n', B')"
  shows "limb_bounded B' (fold sc_exec sts s) \<and> eqm l25519 (sc_val n' (fold sc_exec sts s)) (sc_val n s)
    \<and> length B' = length B"
  using assms
proof (induction sts arbitrary: n B s)
  case (Cons st sts)
  obtain n1 B1 where 1: "sc_bd st (n, B) = Some (n1, B1)" "sc_bds sts (n1, B1) = Some (n', B')"
    using Cons.prems(3) by (auto simp: bind_eq_Some_conv)
  note step = sc_bd_sound [OF Cons.prems(1,2) 1(1)]
  have "n1 \<le> length B1" using step Cons.prems(2) by simp
  with Cons.IH [of B1 "sc_exec st s" n1, OF _ _ 1(2)] step show ?case
    by (auto intro: eqm_trans)
qed simp

section \<open>The bounds of the three groups of steps\<close>

definition sc_tail_out :: "int list" where
  "sc_tail_out =
     [366491039795249152, 258548083534594048, 359641628843966464, 548549361446158336,
      75128565839429632, 375978730155409408, 549757124608, 1048576, 549757124608, 1048576,
      549757124608, 1048576, 549756076032]"

definition sc_mid_out :: "int list" where
  "sc_mid_out =
     [39424561444007019, 27813516823835608, 65694746324663740, 78062793237915069,
      43548191572410172, 117566993899528536, 35762408286661297, 70929148934105401,
      47302877002790967, 15421865653893766, 31161850276198058, 1048576, 59138890057, 1048576,
      40511281615, 1048576, 13445101438, 45564788736, 34359738368, 34359738368, 34359738368,
      34359738368, 34359738368, 34359738368]"

definition sc_mul_out :: "int list" where
  "sc_mul_out =
     [1048576, 1048576, 17180925952, 1048576, 17180925952, 1048576, 17180925952, 1048576,
      17180925952, 1048576, 17180925952, 1048576, 17180925952, 1048576, 17180925952, 1048576,
      17180925952, 1048576, 17180925952, 1048576, 17180925952, 1048576, 17180925952, 17179869184]"

lemma sc_tail_bd: "sc_bds sc_tail_steps (13, replicate 12 (2 ^ 60) @ [0]) = Some (12, sc_tail_out)"
  by code_simp

lemma sc_mid_bd: "sc_bds sc_mid_steps (24, replicate 24 (2 ^ 35)) = Some (12, sc_mid_out)"
  by code_simp

lemma sc_mul_bd: "sc_bds sc_mul_steps (24, replicate 23 (2 ^ 55) @ [0]) = Some (24, sc_mul_out)"
  by code_simp

lemma sc_out_bounds:
  "length sc_tail_out = 13" "list_all (\<lambda>b. b \<le> 2 ^ 60) sc_tail_out"
  "(\<Sum>i\<leftarrow>[0..<12]. sc_tail_out ! i * 2 ^ (21 * i)) < 2 ^ 252"
  "length sc_mid_out = 24" "list_all (\<lambda>b. b \<le> 2 ^ 60) sc_mid_out"
  "length sc_mul_out = 24" "list_all (\<lambda>b. b \<le> 2 ^ 35) sc_mul_out"
  by code_simp+

section \<open>The tail writes the representative below the order\<close>

lemma abs_sc_val_le:
  assumes "limb_bounded B s" "n \<le> length B"
  shows "\<bar>sc_val n s\<bar> \<le> (\<Sum>i\<leftarrow>[0..<n]. B ! i * 2 ^ (21 * i))"
proof -
  have "\<bar>sc_val n s\<bar> \<le> (\<Sum>i<n. B ! i * 2 ^ (21 * i))"
    unfolding sc_val_sum
  proof (rule order_trans [OF sum_abs], rule sum_mono)
    fix i assume "i \<in> {..<n}"
    then have "\<bar>sint (s ! i)\<bar> \<le> B ! i"
      using limb_boundedD [OF assms(1), of i] assms(2) by simp
    then show "\<bar>sint (s ! i) * 2 ^ (21 * i)\<bar> \<le> B ! i * 2 ^ (21 * i)"
      by (simp add: abs_mult mult_right_mono)
  qed
  then show ?thesis
    by (simp add: interv_sum_list_conv_sum_set_nat atLeast0LessThan)
qed

abbreviation sc_widths :: "nat list" where
  "sc_widths \<equiv> replicate 12 21"

lemma wpos_sc_widths: "i \<le> 12 \<Longrightarrow> wpos sc_widths i = 21 * i"
  by (induction i) simp_all

lemma wval_sc_widths: "n \<le> 13 \<Longrightarrow> wval sc_widths n s = sc_val n s"
  unfolding wval_def sc_val_sum by (intro sum.cong refl) (simp add: wpos_sc_widths)

lemma sc_stores_ok: "list_all (\<lambda>(j, st). store_ok sc_widths 11 j st) (zip [0..<32] sc_stores)"
  unfolding sc_stores_def by (simp add: upt_rec wpos_sc_widths)

lemma sc_floor_digits:
  assumes "k \<le> 12" "k < length s" "\<forall>i\<le>k. \<bar>sint (s ! i)\<bar> \<le> 2 ^ 60"
  shows "sint (floor_carries sc_widths k s ! k) = sc_val (Suc k) s div 2 ^ (21 * k)"
    and "j < k \<Longrightarrow> sint (floor_carries sc_widths k s ! j) = sc_val (Suc k) s div 2 ^ (21 * j) mod 2 ^ 21"
proof -
  have V: "sc_val (Suc k) s = wval sc_widths (Suc k) s"
    using assms(1) wval_sc_widths [of "Suc k"] by simp
  have ws: "\<forall>i<k. 1 \<le> sc_widths ! i \<and> sc_widths ! i < LENGTH(64)"
    using assms(1) by simp
  note d = floor_carries_digits [OF assms(2,3) _ _ ws V]
  show "sint (floor_carries sc_widths k s ! k) = sc_val (Suc k) s div 2 ^ (21 * k)"
    using d(1) assms(1) by (simp add: wpos_sc_widths)
  show "sint (floor_carries sc_widths k s ! j) = sc_val (Suc k) s div 2 ^ (21 * j) mod 2 ^ 21" if "j < k"
    using d(2) [OF _ _ that] that assms(1) by (simp add: wpos_sc_widths)
qed

lemma sc_store_digits:
  assumes "12 \<le> length s" "\<forall>i\<le>11. \<bar>sint (s ! i)\<bar> \<le> 2 ^ 60" "V = sc_val 12 s"
  shows "map (limb_byte (floor_carries sc_widths 11 s)) sc_stores = le_bytes 32 V"
proof -
  have V: "sc_val (Suc 11) s = V" by (simp add: assms(3))
  note d = sc_floor_digits [of 11 s, unfolded V]
  show ?thesis
  proof (rule limb_bytes_eq [OF sc_stores_ok])
    show "sint (floor_carries sc_widths 11 s ! i) = V div 2 ^ wpos sc_widths i mod 2 ^ (sc_widths ! i)"
      if "i < 11" for i
      using d(2) [of i] that assms(1,2) by (simp add: wpos_sc_widths)
    show "sint (floor_carries sc_widths 11 s ! 11) = V div 2 ^ wpos sc_widths 11"
      using d(1) assms(1,2) by (simp add: wpos_sc_widths)
  qed (simp_all add: sc_stores_def)
qed

lemma sc_mac_12_bd: "sc_bd (Mac 12) (13, replicate 12 (2 ^ 21) @ [1]) = Some (12,
    [2763795, 2567448, 2751335, 3094957, 2233809, 2781053, 2097152, 2097152, 2097152, 2097152, 2097152, 2097152, 1])"
  by code_simp

lemma small_quotient:
  fixes V :: int
  assumes "\<bar>V\<bar> < 2 ^ 252"
  shows "V div 2 ^ 252 = - 1 \<or> V div 2 ^ 252 = 0" "V - V div 2 ^ 252 * l25519 = V mod l25519"
proof -
  consider "0 \<le> V" | "V < 0" by linarith
  then have "(V div 2 ^ 252 = - 1 \<or> V div 2 ^ 252 = 0) \<and> V - V div 2 ^ 252 * l25519 = V mod l25519"
  proof cases
    case 1
    then have "V div 2 ^ 252 = 0" "V mod l25519 = V"
      using assms by (simp_all add: l25519_def)
    then show ?thesis by simp
  next
    case 2
    have "V div 2 ^ 252 = - 1"
      using assms 2 by (intro int_div_pos_eq [where r = "V + 2 ^ 252"]) simp_all
    moreover have "V mod l25519 = (V + l25519) mod l25519"
      by simp
    moreover have "(V + l25519) mod l25519 = V + l25519"
      using assms 2 by (intro mod_pos_pos_trivial) (simp_all add: l25519_def)
    ultimately show ?thesis by simp
  qed
  then show "V div 2 ^ 252 = - 1 \<or> V div 2 ^ 252 = 0" "V - V div 2 ^ 252 * l25519 = V mod l25519"
    by blast+
qed

lemma limb_bounded_uniform:
  assumes "limb_bounded B s" "list_all (\<lambda>b. b \<le> M) B" "n < length B"
  shows "\<forall>i\<le>n. \<bar>sint (s ! i)\<bar> \<le> M"
  using assms unfolding limb_bounded_def list_all_length by (meson le_less_trans order_trans)

text \<open>From a number below \<open>2\<^sup>252\<close> in absolute value, the last passes are exact.\<close>

lemma sc_final_passes:
  assumes len: "length s = 13" and s12: "s ! 12 = 0" and b: "\<forall>i<12. \<bar>sint (s ! i)\<bar> \<le> 2 ^ 60"
    and V: "V = sc_val 12 s" "\<bar>V\<bar> < 2 ^ 252"
  shows "map (limb_byte (floor_carries sc_widths 11 (sc_exec (Mac 12) (floor_carries sc_widths 12 s)))) sc_stores
    = le_bytes 32 (V mod l25519)"
proof -
  define t where "t = floor_carries sc_widths 12 s"
  define q where "q = V div 2 ^ 252"
  have b': "\<forall>i\<le>12. \<bar>sint (s ! i)\<bar> \<le> 2 ^ 60"
  proof (intro allI impI)
    fix i :: nat assume "i \<le> 12"
    then show "\<bar>sint (s ! i)\<bar> \<le> 2 ^ 60" using b s12 by (cases "i = 12") simp_all
  qed
  have "sc_val (Suc 12) s = V"
    unfolding sc_val_Suc using V(1) s12 by simp
  note d = sc_floor_digits [OF order_refl _ b', unfolded this t_def [symmetric]]
  have t12: "sint (t ! 12) = q" and ti: "i < 12 \<Longrightarrow> sint (t ! i) = V div 2 ^ (21 * i) mod 2 ^ 21" for i
    using d len by (simp_all add: q_def)
  have q: "q = - 1 \<or> q = 0" "V - q * l25519 = V mod l25519"
    using small_quotient [OF V(2)] by (simp_all add: q_def)
  have val: "sc_val 13 t = V"
  proof -
    have "sc_val 12 t = (\<Sum>i<12. (V div 2 ^ (21 * i) mod 2 ^ 21) * 2 ^ (21 * i))"
      unfolding sc_val_sum by (intro sum.cong refl) (simp add: ti)
    also have "\<dots> = V mod 2 ^ 252"
      using digits_sum [of V 21 12] by simp
    finally have "sc_val (Suc 12) t = V mod 2 ^ 252 + q * 2 ^ 252"
      unfolding sc_val_Suc by (simp add: t12)
    then show ?thesis
      by (simp add: q_def)
  qed
  have tb: "limb_bounded (replicate 12 (2 ^ 21) @ [1]) t"
    unfolding limb_bounded_def
  proof (intro conjI allI impI)
    fix i assume "i < length (replicate 12 (2 ^ 21 :: int) @ [1])"
    then consider "i < 12" | "i = 12" by fastforce
    then show "\<bar>sint (t ! i)\<bar> \<le> (replicate 12 (2 ^ 21) @ [1]) ! i"
    proof cases
      case 1
      have "0 \<le> V div 2 ^ (21 * i) mod 2 ^ 21" "V div 2 ^ (21 * i) mod 2 ^ 21 < 2 ^ 21"
        by simp_all
      then show ?thesis using 1 by (simp add: ti nth_append)
    next
      case 2
      then show ?thesis using q(1) by (auto simp: t12 nth_append)
    qed
  qed (simp add: t_def len)
  note mac = sc_mac_sound [OF tb _ sc_mac_12_bd]
  let ?u = "sc_exec (Mac 12) t"
  have "sc_val 12 ?u = V mod l25519"
    using mac(6) q(2) by (simp add: val t12)
  moreover have "\<forall>i\<le>11. \<bar>sint (?u ! i)\<bar> \<le> 2 ^ 60"
    by (rule limb_bounded_uniform [OF mac(1)]) simp_all
  ultimately show ?thesis
    using sc_store_digits [of ?u "V mod l25519"] limb_bounded_length [OF mac(1)] by (simp add: t_def)
qed


lemma sc_tail_eq:
  assumes B: "limb_bounded (replicate 12 (2 ^ 60) @ [0]) s"
  shows "sc_tail s = le_bytes 32 (sc_val 12 s mod l25519)"
proof -
  let ?t = "fold sc_exec sc_tail_steps s"
  have steps: "limb_bounded sc_tail_out ?t" "eqm l25519 (sc_val 12 ?t) (sc_val 13 s)"
    using sc_bds_sound [OF B _ sc_tail_bd] by simp_all
  have len: "length ?t = 13"
    using limb_bounded_length [OF steps(1)] sc_out_bounds(1) by simp
  have tb: "\<forall>i\<le>12. \<bar>sint (?t ! i)\<bar> \<le> 2 ^ 60"
    by (rule limb_bounded_uniform [OF steps(1) sc_out_bounds(2)]) (simp add: sc_out_bounds)
  have small: "\<bar>sc_val 12 ?t\<bar> < 2 ^ 252"
    using abs_sc_val_le [OF steps(1), of 12] sc_out_bounds(1,3) by simp
  have same: "sc_val 12 (?t[12 := 0]) = sc_val 12 ?t"
    unfolding sc_val_sum by (intro sum.cong refl) simp
  have "sint (s ! 12) = 0"
    using limb_boundedD [OF B, of 12] by (simp add: nth_append)
  then have "sc_val 13 s = sc_val 12 s"
    using sc_val_Suc [of 12 s] by simp
  then have "sc_val 12 ?t mod l25519 = sc_val 12 s mod l25519"
    using steps by (simp add: eqm_def)
  moreover have "sc_tail s = le_bytes 32 (sc_val 12 ?t mod l25519)"
    unfolding sc_tail_def Let_def
    by (rule sc_final_passes) (use len tb small same in simp_all)
  ultimately show ?thesis by simp
qed

lemma sc_mid_eq:
  assumes B: "limb_bounded (replicate 24 (2 ^ 35)) s"
  shows "sc_tail (sc_mid s) = le_bytes 32 (sc_val 24 s mod l25519)"
proof -
  let ?t = "fold sc_exec sc_mid_steps s"
  have steps: "limb_bounded sc_mid_out ?t" "eqm l25519 (sc_val 12 ?t) (sc_val 24 s)"
    using sc_bds_sound [OF B _ sc_mid_bd] by simp_all
  have len: "length ?t = 24"
    using limb_bounded_length [OF steps(1)] sc_out_bounds(4) by simp
  have tb: "\<forall>i\<le>11. \<bar>sint (?t ! i)\<bar> \<le> 2 ^ 60"
    by (rule limb_bounded_uniform [OF steps(1) sc_out_bounds(5)]) (simp add: sc_out_bounds)
  have "limb_bounded (replicate 12 (2 ^ 60) @ [0]) (sc_mid s)"
    using tb len by (auto simp: limb_bounded_def sc_mid_def nth_append less_Suc_eq_le)
  moreover have "sc_val 12 (sc_mid s) = sc_val 12 ?t"
    unfolding sc_val_sum sc_mid_def by (intro sum.cong refl) (simp add: nth_append len)
  ultimately show ?thesis
    using sc_tail_eq steps(2) by (simp add: eqm_def)
qed

section \<open>Loads\<close>

lemma uint_load_range:
  assumes "0 \<le> k" "k < 2 ^ 32"
  shows "drop_bit r (word_of_int k :: i64) = word_of_int (k div 2 ^ r)"
proof -
  have "k mod 2 ^ 64 = k"
    using assms by (intro mod_pos_pos_trivial) simp_all
  then have "uint (word_of_int k :: i64) = k"
    by (simp add: uint_word_of_int)
  then have "uint (drop_bit r (word_of_int k :: i64)) = k div 2 ^ r"
    by (simp only: uint_drop_bit_div)
  then show ?thesis
    by (metis word_of_int_uint)
qed

lemma and_mask_21: "2097151 AND word_of_int k = (word_of_int (k mod 2 ^ 21) :: i64)"
proof -
  have "(2097151 :: i64) = mask 21"
    by (simp add: mask_eq_exp_minus_1)
  then have "2097151 AND word_of_int k = take_bit 21 (word_of_int k :: i64)"
    by (simp add: take_bit_eq_mask and.commute)
  also have "\<dots> = word_of_int (take_bit 21 k)"
    by (rule of_int_take_bit [symmetric])
  finally show ?thesis
    by (simp only: take_bit_eq_mod [of _ k])
qed

lemma mod_div_mod_pow2:
  assumes "r + b \<le> c"
  shows "(X :: int) mod 2 ^ c div 2 ^ r mod 2 ^ b = X div 2 ^ r mod 2 ^ b"
  using mod_pow2_digit [OF assms, of X] .

text \<open>A masked and shifted load is a digit of the number.\<close>

lemma sc_digit_load:
  assumes "o' + 4 \<le> length s" "r + 21 \<le> 32"
  shows "2097151 AND drop_bit r (load_4 (drop o' s)) = word_of_int (le_val s div 2 ^ (8 * o' + r) mod 2 ^ 21)"
proof -
  have "drop_bit r (load_4 (drop o' s)) = word_of_int (le_val s div 2 ^ (8 * o') mod 2 ^ 32 div 2 ^ r)"
    unfolding load_4_val [OF assms(1)] by (rule uint_load_range) simp_all
  then show ?thesis
    using mod_div_mod_pow2 [OF assms(2), of "le_val s div 2 ^ (8 * o')"]
    by (simp only: and_mask_21) (simp add: power_add zdiv_zmult2_eq)
qed

lemma sc_digit_load_3:
  assumes "o' + 3 \<le> length s" "r + 21 \<le> 24"
  shows "2097151 AND drop_bit r (load_3 (drop o' s)) = word_of_int (le_val s div 2 ^ (8 * o' + r) mod 2 ^ 21)"
proof -
  have "0 \<le> le_val s div 2 ^ (8 * o') mod 2 ^ 24" "le_val s div 2 ^ (8 * o') mod 2 ^ 24 < 2 ^ 24"
    by simp_all
  then have "drop_bit r (load_3 (drop o' s)) = word_of_int (le_val s div 2 ^ (8 * o') mod 2 ^ 24 div 2 ^ r)"
    unfolding load_3_val [OF assms(1)] by (intro uint_load_range) simp_all
  then show ?thesis
    using mod_div_mod_pow2 [OF assms(2), of "le_val s div 2 ^ (8 * o')"]
    by (simp only: and_mask_21) (simp add: power_add zdiv_zmult2_eq)
qed

lemma sc_top_load:
  assumes "length s = o' + 4"
  shows "drop_bit r (load_4 (drop o' s)) = word_of_int (le_val s div 2 ^ (8 * o' + r))"
proof -
  have "le_val s < 2 ^ 32 * 2 ^ (8 * o')"
    using le_val_less [of s] assms by (simp add: power_add mult.commute)
  then have top: "le_val s div 2 ^ (8 * o') < 2 ^ 32"
    by (rule int_div_less_pow2)
  moreover have "0 \<le> le_val s div 2 ^ (8 * o')"
    by (simp add: pos_imp_zdiv_nonneg_iff)
  ultimately have "load_4 (drop o' s) = word_of_int (le_val s div 2 ^ (8 * o'))"
    using load_4_val [of o' s] assms by simp
  then show ?thesis
    using uint_load_range [OF \<open>0 \<le> le_val s div 2 ^ (8 * o')\<close> top]
    by (simp add: power_add zdiv_zmult2_eq)
qed

definition sc_digit :: "nat \<Rightarrow> int \<Rightarrow> nat \<Rightarrow> int" where
  "sc_digit n V i = (if i = n then V div 2 ^ (21 * i) else V div 2 ^ (21 * i) mod 2 ^ 21)"

lemma sc_load_rules:
  shows "o' + 4 \<le> length s \<Longrightarrow> r + 21 \<le> 32 \<Longrightarrow> 8 * o' + r = 21 * i \<Longrightarrow> i \<noteq> n \<Longrightarrow>
      2097151 AND drop_bit r (load_4 (drop o' s)) = word_of_int (sc_digit n (le_val s) i)"
    and "o' + 3 \<le> length s \<Longrightarrow> r + 21 \<le> 24 \<Longrightarrow> 8 * o' + r = 21 * i \<Longrightarrow> i \<noteq> n \<Longrightarrow>
      2097151 AND drop_bit r (load_3 (drop o' s)) = word_of_int (sc_digit n (le_val s) i)"
    and "length s = o' + 4 \<Longrightarrow> 8 * o' + r = 21 * n \<Longrightarrow>
      drop_bit r (load_4 (drop o' s)) = word_of_int (sc_digit n (le_val s) n)"
    and "o' + 3 \<le> length s \<Longrightarrow> 8 * o' = 21 * i \<Longrightarrow> i \<noteq> n \<Longrightarrow>
      2097151 AND load_3 (drop o' s) = word_of_int (sc_digit n (le_val s) i)"
    and "3 \<le> length s \<Longrightarrow> n \<noteq> 0 \<Longrightarrow> 2097151 AND load_3 s = word_of_int (sc_digit n (le_val s) 0)"
  using sc_digit_load [of o' s r] sc_digit_load_3 [of o' s r] sc_top_load [of s o' r]
    sc_digit_load_3 [of o' s 0] sc_digit_load_3 [of 0 s 0]
  by (simp_all only: sc_digit_def if_True if_False) simp_all

lemma Cons_eqI: "x = y \<Longrightarrow> xs = ys \<Longrightarrow> x # xs = y # ys"
  by simp

lemma sc_load12_digits:
  assumes "length s = 32"
  shows "sc_load12 s = map (\<lambda>i. word_of_int (sc_digit 11 (le_val s) i)) [0..<12]"
proof -
  have u: "[0..<12] = [0, 1, 2, 3, 4, 5, 6, 7, 8, 9, 10, 11]"
    by (simp add: upt_rec)
  show ?thesis
    unfolding u sc_load12_def list.map
    by (intro Cons_eqI refl; rule sc_load_rules; simp add: assms)
qed

lemma sc_load24_digits:
  assumes "length s = 64"
  shows "sc_load24 s = map (\<lambda>i. word_of_int (sc_digit 23 (le_val s) i)) [0..<24]"
proof -
  have u: "[0..<24] = [0, 1, 2, 3, 4, 5, 6, 7, 8, 9, 10, 11, 12, 13, 14, 15, 16, 17, 18, 19, 20, 21, 22, 23]"
    by (simp add: upt_rec)
  show ?thesis
    unfolding u sc_load24_def list.map
    by (intro Cons_eqI refl; rule sc_load_rules; simp add: assms)
qed

lemma sc_digit_range:
  assumes "0 \<le> V" "V < 2 ^ (21 * n + k)" "21 \<le> k" "i \<le> n"
  shows "0 \<le> sc_digit n V i" "sc_digit n V i < 2 ^ k"
proof -
  have "V < 2 ^ k * 2 ^ (21 * n)"
    using assms(2) by (simp add: power_add mult.commute)
  then have top: "V div 2 ^ (21 * n) < 2 ^ k"
    by (rule int_div_less_pow2)
  have "V div 2 ^ (21 * i) mod 2 ^ 21 < 2 ^ 21"
    by simp
  also have "(2::int) ^ 21 \<le> 2 ^ k"
    using assms(3) by (intro power_increasing) simp_all
  finally show "sc_digit n V i < 2 ^ k"
    using top by (simp add: sc_digit_def)
  show "0 \<le> sc_digit n V i"
    using assms(1) by (simp add: sc_digit_def pos_imp_zdiv_nonneg_iff)
qed

lemma sc_digit_sum: "(\<Sum>i<Suc n. sc_digit n V i * 2 ^ (21 * i)) = V"
proof -
  have "(\<Sum>i<n. sc_digit n V i * 2 ^ (21 * i)) = V mod 2 ^ (21 * n)"
    unfolding digits_sum [symmetric] by (intro sum.cong refl) (simp add: sc_digit_def)
  then show ?thesis
    by (simp add: sc_digit_def mod_div_mult_eq)
qed

text \<open>Scalars given by their bytes.\<close>

lemma sc_load12_limb:
  assumes "length s = 32" "i < 12"
  shows "sint (sc_load12 s ! i) = sc_digit 11 (le_val s) i" "0 \<le> sint (sc_load12 s ! i)"
    "sint (sc_load12 s ! i) < 2 ^ 25"
proof -
  have V: "0 \<le> le_val s" "le_val s < 2 ^ (21 * 11 + 25)"
    using le_val_less [of s] assms(1) by simp_all
  have d: "0 \<le> sc_digit 11 (le_val s) i" "sc_digit 11 (le_val s) i < 2 ^ 25"
    using sc_digit_range [OF V] assms(2) by simp_all
  then show "sint (sc_load12 s ! i) = sc_digit 11 (le_val s) i"
    using assms(2) by (simp add: sc_load12_digits [OF assms(1)] sint_word_of_int_i64)
  then show "0 \<le> sint (sc_load12 s ! i)" "sint (sc_load12 s ! i) < 2 ^ 25"
    using d by simp_all
qed

lemma sc_load12_val: "length s = 32 \<Longrightarrow> (\<Sum>i<12. sint (sc_load12 s ! i) * 2 ^ (21 * i)) = le_val s"
  using sc_digit_sum [of 11 "le_val s"] by (simp add: sc_load12_limb)

lemma length_sc_load [simp]: "length (sc_load12 s) = 12" "length (sc_load24 s) = 24"
  by (simp_all add: sc_load12_def sc_load24_def)

theorem sc_reduce_eq:
  assumes "length s = 64"
  shows "sc_reduce s = le_bytes 32 (le_val s mod l25519)"
proof -
  have V: "0 \<le> le_val s" "le_val s < 2 ^ (21 * 23 + 29)"
    using le_val_less [of s] assms by simp_all
  have d: "0 \<le> sc_digit 23 (le_val s) i" "sc_digit 23 (le_val s) i < 2 ^ 29" if "i < 24" for i
    using sc_digit_range [OF V] that by simp_all
  have limb: "sint (sc_load24 s ! i) = sc_digit 23 (le_val s) i" if "i < 24" for i
    using that d [OF that] by (simp add: sc_load24_digits [OF assms] sint_word_of_int_i64)
  have "\<bar>sint (sc_load24 s ! i)\<bar> \<le> 2 ^ 35" if "i < 24" for i
    using d [OF that] by (simp add: limb that)
  then have "limb_bounded (replicate 24 (2 ^ 35)) (sc_load24 s)"
    by (simp add: limb_bounded_def)
  moreover have "sc_val 24 (sc_load24 s) = le_val s"
    using sc_digit_sum [of 23 "le_val s"] by (simp add: sc_val_sum limb)
  ultimately show ?thesis
    unfolding sc_reduce_def using sc_mid_eq [of "sc_load24 s"] by simp
qed

text \<open>Twelve limbs that go straight to the tail.\<close>

lemma sc_tail_limbs:
  assumes "length xs = 12" "\<And>i. i < 12 \<Longrightarrow> \<bar>sint (xs ! i)\<bar> \<le> 2 ^ 60"
    and "(\<Sum>i<12. sint (xs ! i) * 2 ^ (21 * i)) = V"
  shows "sc_tail (xs @ [0]) = le_bytes 32 (V mod l25519)"
proof -
  have "limb_bounded (replicate 12 (2 ^ 60) @ [0]) (xs @ [0])"
    using assms(1,2) by (auto simp: limb_bounded_def nth_append less_Suc_eq_le)
  moreover have "sc_val 12 (xs @ [0]) = V"
    using assms(1,3) by (simp add: sc_val_sum nth_append)
  ultimately show ?thesis
    using sc_tail_eq by metis
qed

theorem sc_reduce32_eq:
  assumes "length s = 32"
  shows "sc_reduce32 s = le_bytes 32 (le_val s mod l25519)"
  unfolding sc_reduce32_def
proof (rule sc_tail_limbs)
  show "\<bar>sint (sc_load12 s ! i)\<bar> \<le> 2 ^ 60" if "i < 12" for i
    using sc_load12_limb(2,3) [OF assms that] by simp
qed (simp_all add: sc_load12_val assms)

theorem sc_add_eq:
  assumes "length a = 32" "length b = 32"
  shows "sc_add a b = le_bytes 32 ((le_val a + le_val b) mod l25519)"
proof -
  let ?x = "map (\<lambda>i. sc_load12 a ! i + sc_load12 b ! i) [0..<12]"
  have x: "sint (?x ! i) = sint (sc_load12 a ! i) + sint (sc_load12 b ! i)" if "i < 12" for i
    using that sc_load12_limb(2,3) [OF assms(1) that] sc_load12_limb(2,3) [OF assms(2) that]
      sint_add_i64 [of "sc_load12 a ! i" "sc_load12 b ! i"] by simp
  have "sc_tail (?x @ [0]) = le_bytes 32 ((le_val a + le_val b) mod l25519)"
  proof (rule sc_tail_limbs)
    show "\<bar>sint (?x ! i)\<bar> \<le> 2 ^ 60" if "i < 12" for i
      unfolding x [OF that] using sc_load12_limb(2,3) [OF assms(1) that] sc_load12_limb(2,3) [OF assms(2) that]
      by simp
    show "(\<Sum>i<12. sint (?x ! i) * 2 ^ (21 * i)) = le_val a + le_val b"
      using sc_load12_val [OF assms(1)] sc_load12_val [OF assms(2)]
      by (simp add: x distrib_right sum.distrib del: nth_map)
  qed simp
  then show ?thesis
    by (simp add: sc_add_def Let_def)
qed

theorem sc_sub_eq:
  assumes "length a = 32" "length b = 32"
  shows "sc_sub a b = le_bytes 32 ((le_val a - le_val b) mod l25519)"
proof -
  let ?x = "map (\<lambda>i. sc_load12 a ! i - sc_load12 b ! i) [0..<12]"
  have x: "sint (?x ! i) = sint (sc_load12 a ! i) - sint (sc_load12 b ! i)" if "i < 12" for i
    using that sc_load12_limb(2,3) [OF assms(1) that] sc_load12_limb(2,3) [OF assms(2) that]
      sint_diff_i64 [of "sc_load12 a ! i" "sc_load12 b ! i"] by simp
  have "sc_tail (?x @ [0]) = le_bytes 32 ((le_val a - le_val b) mod l25519)"
  proof (rule sc_tail_limbs)
    show "\<bar>sint (?x ! i)\<bar> \<le> 2 ^ 60" if "i < 12" for i
      unfolding x [OF that] using sc_load12_limb(2,3) [OF assms(1) that] sc_load12_limb(2,3) [OF assms(2) that]
      by simp
    show "(\<Sum>i<12. sint (?x ! i) * 2 ^ (21 * i)) = le_val a - le_val b"
      using sc_load12_val [OF assms(1)] sc_load12_val [OF assms(2)]
      by (simp add: x left_diff_distrib sum_subtractf del: nth_map)
  qed simp
  then show ?thesis
    by (simp add: sc_sub_def Let_def)
qed

section \<open>Products\<close>

lemma sum_less_12: "(\<Sum>i<(12::nat). f i) =
    f 0 + f 1 + f 2 + f 3 + f 4 + f 5 + f 6 + f 7 + f 8 + f 9 + f 10 + (f 11 :: 'a::comm_monoid_add)"
  by (simp add: eval_nat_numeral lessThan_Suc add_ac)

lemma sc_prods_sum:
  "sc_prods a b = map (\<lambda>k. \<Sum>i<12. if i \<le> k \<and> k < i + 12 then a ! i * b ! (k - i) else 0) [0..<23]"
proof -
  have u: "[0..<23] = [0, 1, 2, 3, 4, 5, 6, 7, 8, 9, 10, 11, 12, 13, 14, 15, 16, 17, 18, 19, 20, 21, 22]"
    by (simp add: upt_rec)
  show ?thesis
    unfolding u sc_prods_def Let_def list.map sum_less_12 by (intro Cons_eqI refl; simp)
qed

definition sc_conv :: "(nat \<Rightarrow> int) \<Rightarrow> (nat \<Rightarrow> int) \<Rightarrow> nat \<Rightarrow> int" where
  "sc_conv A B k = (\<Sum>i<12. if i \<le> k \<and> k < i + 12 then A i * B (k - i) else 0)"

lemma sc_conv_val:
  "(\<Sum>k<23. sc_conv A B k * 2 ^ (21 * k)) = (\<Sum>i<12. A i * 2 ^ (21 * i)) * (\<Sum>j<12. B j * 2 ^ (21 * j))"
proof -
  have row: "(\<Sum>k<23. (if i \<le> k \<and> k < i + 12 then A i * B (k - i) else 0) * 2 ^ (21 * k))
      = A i * 2 ^ (21 * i) * (\<Sum>j<12. B j * 2 ^ (21 * j))" if "i < 12" for i
  proof -
    have "(\<Sum>k<23. (if i \<le> k \<and> k < i + 12 then A i * B (k - i) else 0) * 2 ^ (21 * k))
        = (\<Sum>k\<in>{..<23}. if k \<in> {0 + i..<12 + i} then A i * B (k - i) * 2 ^ (21 * k) else 0)"
      by (intro sum.cong refl) auto
    also have "\<dots> = (\<Sum>k\<in>{0 + i..<12 + i}. A i * B (k - i) * 2 ^ (21 * k))"
      using that by (subst sum.inter_restrict [symmetric]) (auto intro: sum.cong)
    also have "\<dots> = (\<Sum>j<12. A i * B j * 2 ^ (21 * (j + i)))"
      unfolding sum.shift_bounds_nat_ivl by (simp add: atLeast0LessThan)
    also have "\<dots> = A i * 2 ^ (21 * i) * (\<Sum>j<12. B j * 2 ^ (21 * j))"
      unfolding sum_distrib_left by (intro sum.cong refl) (simp add: power_add algebra_simps)
    finally show ?thesis .
  qed
  have "(\<Sum>k<23. sc_conv A B k * 2 ^ (21 * k))
      = (\<Sum>i<12. \<Sum>k<23. (if i \<le> k \<and> k < i + 12 then A i * B (k - i) else 0) * 2 ^ (21 * k))"
    unfolding sc_conv_def sum_distrib_right by (rule sum.swap)
  then show ?thesis
    by (simp add: row sum_distrib_right)
qed

lemma sc_conv_bound:
  assumes "\<And>i. i < 12 \<Longrightarrow> 0 \<le> A i \<and> A i < 2 ^ 25" "\<And>i. i < 12 \<Longrightarrow> 0 \<le> B i \<and> B i < 2 ^ 25"
  shows "0 \<le> sc_conv A B k" "sc_conv A B k \<le> 2 ^ 54"
proof -
  have p: "0 \<le> A i * B j \<and> A i * B j \<le> 2 ^ 25 * 2 ^ 25" if "i < 12" "j < 12" for i j
    using assms(1) [OF that(1)] assms(2) [OF that(2)] by (intro conjI mult_nonneg_nonneg mult_mono) simp_all
  show "0 \<le> sc_conv A B k"
    unfolding sc_conv_def using p by (intro sum_nonneg) auto
  have "sc_conv A B k \<le> (\<Sum>i<12::nat. 2 ^ 25 * 2 ^ 25)"
    unfolding sc_conv_def
  proof (rule sum_mono)
    fix i :: nat assume "i \<in> {..<12}"
    then show "(if i \<le> k \<and> k < i + 12 then A i * B (k - i) else 0) \<le> 2 ^ 25 * 2 ^ 25"
      using p [of i "k - i"] by auto
  qed
  then show "sc_conv A B k \<le> 2 ^ 54"
    by simp
qed

lemma sc_prods_limb:
  assumes "length a = 32" "length b = 32" "k < 23"
  defines "P \<equiv> sc_conv (\<lambda>i. sint (sc_load12 a ! i)) (\<lambda>i. sint (sc_load12 b ! i)) k"
  shows "sint (sc_prods (sc_load12 a) (sc_load12 b) ! k) = P" "0 \<le> P" "P \<le> 2 ^ 54"
proof -
  show P: "0 \<le> P" "P \<le> 2 ^ 54"
    unfolding P_def using sc_load12_limb(2,3) [OF assms(1)] sc_load12_limb(2,3) [OF assms(2)]
    by (intro sc_conv_bound; simp)+
  have "sc_prods (sc_load12 a) (sc_load12 b) ! k = word_of_int P"
    using assms(3) unfolding sc_prods_sum P_def sc_conv_def of_int_sum by (auto intro!: sum.cong)
  then show "sint (sc_prods (sc_load12 a) (sc_load12 b) ! k) = P"
    using P by (simp add: sint_word_of_int_i64)
qed

lemma sc_prods_val:
  assumes "length a = 32" "length b = 32"
  shows "(\<Sum>k<23. sint (sc_prods (sc_load12 a) (sc_load12 b) ! k) * 2 ^ (21 * k)) = le_val a * le_val b"
  using sc_conv_val [of "\<lambda>i. sint (sc_load12 a ! i)" "\<lambda>i. sint (sc_load12 b ! i)"] assms
  by (simp add: sc_prods_limb sc_load12_val)

text \<open>The limbs after the products, up to the bytes.\<close>

lemma sc_mul_limbs:
  assumes len: "length s = 24" and b: "\<And>i. i < 23 \<Longrightarrow> \<bar>sint (s ! i)\<bar> \<le> 2 ^ 55" and top: "s ! 23 = 0"
    and V: "(\<Sum>i<23. sint (s ! i) * 2 ^ (21 * i)) = V"
  shows "sc_tail (sc_mid (fold sc_exec sc_mul_steps s)) = le_bytes 32 (V mod l25519)"
proof -
  let ?t = "fold sc_exec sc_mul_steps s"
  have "\<bar>sint (s ! i)\<bar> \<le> (replicate 23 (2 ^ 55) @ [0]) ! i" if "i < 24" for i
  proof (cases "i = 23")
    case True
    then show ?thesis using top by (simp add: nth_append)
  next
    case False
    then show ?thesis using b [of i] that by (simp add: nth_append)
  qed
  then have "limb_bounded (replicate 23 (2 ^ 55) @ [0]) s"
    using len by (simp add: limb_bounded_def)
  then have steps: "limb_bounded sc_mul_out ?t" "eqm l25519 (sc_val 24 ?t) (sc_val 24 s)"
    using sc_bds_sound [OF _ _ sc_mul_bd] by simp_all
  have "\<forall>i\<le>23. \<bar>sint (?t ! i)\<bar> \<le> 2 ^ 35"
    by (rule limb_bounded_uniform [OF steps(1) sc_out_bounds(7)]) (simp add: sc_out_bounds)
  then have "limb_bounded (replicate 24 (2 ^ 35)) ?t"
    using limb_bounded_length [OF steps(1)] sc_out_bounds(6) by (simp add: limb_bounded_def less_Suc_eq_le)
  note mid = sc_mid_eq [OF this]
  have "sc_val (Suc 23) s = V"
    unfolding sc_val_Suc by (simp add: top sc_val_sum V)
  then show ?thesis
    using mid steps(2) by (simp add: eqm_def)
qed

theorem sc_mul_eq:
  assumes "length a = 32" "length b = 32"
  shows "sc_mul a b = le_bytes 32 (le_val a * le_val b mod l25519)"
proof -
  have len: "length (sc_prods (sc_load12 a) (sc_load12 b)) = 23"
    by (simp add: sc_prods_sum)
  show ?thesis
    unfolding sc_mul_def Let_def
  proof (rule sc_mul_limbs)
    show "\<bar>sint ((sc_prods (sc_load12 a) (sc_load12 b) @ [0]) ! i)\<bar> \<le> 2 ^ 55" if "i < 23" for i
      using sc_prods_limb [OF assms that] that by (simp add: nth_append len)
    show "(\<Sum>i<23. sint ((sc_prods (sc_load12 a) (sc_load12 b) @ [0]) ! i) * 2 ^ (21 * i)) = le_val a * le_val b"
      using sc_prods_val [OF assms] by (simp add: nth_append len)
  qed (simp_all add: nth_append len)
qed

text \<open>
  With an addend: limb \<open>i\<close> below 12 is \<open>c\<^sub>i + p\<^sub>i\<close> or \<open>c\<^sub>i - p\<^sub>i\<close>, the others are \<open>p\<^sub>i\<close> or
  \<open>- p\<^sub>i\<close>.
\<close>

lemma sum_split_12:
  "(\<Sum>i<23. (if i < 12 then f i else 0) + (g i :: int)) = (\<Sum>i<12::nat. f i) + (\<Sum>i<23. g i)"
proof -
  have "(\<Sum>i\<in>{..<23}. if i \<in> {..<12} then f i else 0) = (\<Sum>i\<in>{..<12::nat}. f i)"
    by (subst sum.inter_restrict [symmetric]) (auto intro: sum.cong)
  then show ?thesis
    by (simp add: sum.distrib)
qed

lemma sc_addend_limbs:
  assumes len: "length s = 24" and c: "length c = 32" and top: "s ! 23 = 0"
    and s: "\<And>i. i < 23 \<Longrightarrow> s ! i = (if i < 12 then sc_load12 c ! i else 0) + word_of_int (P i)"
    and P: "\<And>i. i < 23 \<Longrightarrow> \<bar>P i\<bar> \<le> 2 ^ 54"
  shows "sc_tail (sc_mid (fold sc_exec sc_mul_steps s))
    = le_bytes 32 ((le_val c + (\<Sum>i<23. P i * 2 ^ (21 * i))) mod l25519)"
proof (rule sc_mul_limbs [OF len _ top])
  have limb: "sint (s ! i) = (if i < 12 then sint (sc_load12 c ! i) else 0) + P i"
    "\<bar>(if i < 12 then sint (sc_load12 c ! i) else 0) + P i\<bar> \<le> 2 ^ 55" if "i < 23" for i
  proof -
    have "\<bar>if i < 12 then sint (sc_load12 c ! i) else 0\<bar> \<le> 2 ^ 25"
      using sc_load12_limb(2,3) [OF c, of i] by (cases "i < 12") simp_all
    then show b: "\<bar>(if i < 12 then sint (sc_load12 c ! i) else 0) + P i\<bar> \<le> 2 ^ 55"
      using P [OF that] abs_triangle_ineq [of "if i < 12 then sint (sc_load12 c ! i) else 0" "P i"] by simp
    have "s ! i = word_of_int ((if i < 12 then sint (sc_load12 c ! i) else 0) + P i)"
      unfolding s [OF that] by simp
    then show "sint (s ! i) = (if i < 12 then sint (sc_load12 c ! i) else 0) + P i"
      by (rule sint_i64_eqI) (use b in simp)
  qed
  then show "\<bar>sint (s ! i)\<bar> \<le> 2 ^ 55" if "i < 23" for i
    using that by simp
  have "(\<Sum>i<23. sint (s ! i) * 2 ^ (21 * i))
      = (\<Sum>i<23. (if i < 12 then sint (sc_load12 c ! i) * 2 ^ (21 * i) else 0) + P i * 2 ^ (21 * i))"
    by (intro sum.cong refl) (simp add: limb(1) distrib_right)
  then show "(\<Sum>i<23. sint (s ! i) * 2 ^ (21 * i)) = le_val c + (\<Sum>i<23. P i * 2 ^ (21 * i))"
    by (simp add: sum_split_12 sc_load12_val c)
qed

lemma sc_prods_word:
  assumes "length a = 32" "length b = 32"
  defines "P \<equiv> \<lambda>k. sint (sc_prods (sc_load12 a) (sc_load12 b) ! k)"
  shows "k < 23 \<Longrightarrow> \<bar>P k\<bar> \<le> 2 ^ 54" "(\<Sum>k<23. P k * 2 ^ (21 * k)) = le_val a * le_val b"
  unfolding P_def using sc_prods_limb [OF assms(1,2)] sc_prods_val [OF assms(1,2)] by simp_all

lemma nth_addend:
  "i < 23 \<Longrightarrow> (map f [0..<12] @ map g [12..<23] @ [0 :: i64]) ! i = (if i < 12 then f i else g i)"
  "(map f [0..<12] @ map g [12..<23] @ [0 :: i64]) ! 23 = 0"
  "length (map f [0..<12] @ map g [12..<23] @ [0 :: i64]) = 24"
  by (auto simp: nth_append simp del: upt_rec_numeral)

theorem sc_muladd_eq:
  assumes "length a = 32" "length b = 32" "length c = 32"
  shows "sc_muladd a b c = le_bytes 32 ((le_val c + le_val a * le_val b) mod l25519)"
proof -
  define P where "P k = sint (sc_prods (sc_load12 a) (sc_load12 b) ! k)" for k
  note p = sc_prods_word [OF assms(1,2), folded P_def]
  show ?thesis
    unfolding sc_muladd_def Let_def p(2) [symmetric]
    by (rule sc_addend_limbs [OF nth_addend(3) assms(3) nth_addend(2) _ p(1)])
      (simp only: nth_addend(1), simp add: P_def)
qed

theorem sc_mulsub_eq:
  assumes "length a = 32" "length b = 32" "length c = 32"
  shows "sc_mulsub a b c = le_bytes 32 ((le_val c - le_val a * le_val b) mod l25519)"
proof -
  define P where "P k = - sint (sc_prods (sc_load12 a) (sc_load12 b) ! k)" for k
  have p: "\<bar>P k\<bar> \<le> 2 ^ 54" if "k < 23" for k
    using sc_prods_word(1) [OF assms(1,2) that] by (simp add: P_def)
  have "sc_mulsub a b c = le_bytes 32 ((le_val c + (\<Sum>k<23. P k * 2 ^ (21 * k))) mod l25519)"
    unfolding sc_mulsub_def Let_def
    by (rule sc_addend_limbs [OF nth_addend(3) assms(3) nth_addend(2) _ p])
      (simp only: nth_addend(1), simp add: P_def)
  then show ?thesis
    by (simp add: P_def sum_negf sc_prods_val [OF assms(1,2)])
qed

section \<open>Zero and the tests\<close>

lemma le_val_sc_0: "le_val sc_0 = 0" "length sc_0 = 32"
  by (simp_all add: sc_0_def upt_rec)

text \<open>
  \<open>sc_check\<close> compares eight 32-bit digits with those of \<open>l25519 - 1\<close>.  The weights of the signs are
  powers of two, so the most significant difference decides the sign of their sum.
\<close>

fun sign_sum :: "int list \<Rightarrow> int list \<Rightarrow> int" where
  "sign_sum (x # xs) (y # ys) = sgn (y - x) + 2 * sign_sum xs ys"
| "sign_sum _ _ = 0"

lemma digit_compare:
  fixes x y b u v :: int
  assumes "0 \<le> x" "x < b" "0 \<le> y" "y < b"
  shows "u < v \<Longrightarrow> x + b * u < y + b * v"
proof -
  assume "u < v"
  then have "b * (u + 1) \<le> b * v"
    using assms by (intro mult_left_mono) simp_all
  then show ?thesis
    using assms by (simp add: distrib_left)
qed

lemma sign_sum_compare:
  assumes "length xs = length ys" "\<forall>x\<in>set xs \<union> set ys. 0 \<le> x \<and> x < b"
  shows "sgn (sign_sum xs ys) = sgn (base_val b ys - base_val b xs) \<and> \<bar>sign_sum xs ys\<bar> < 2 ^ length xs"
  using assms
proof (induction xs ys rule: list_induct2)
  case (Cons x xs y ys)
  then have IH: "sgn (sign_sum xs ys) = sgn (base_val b ys - base_val b xs)" "\<bar>sign_sum xs ys\<bar> < 2 ^ length xs"
    and d: "0 \<le> x" "x < b" "0 \<le> y" "y < b"
    by auto
  have s: "sgn (y - x) \<le> 1" "- 1 \<le> sgn (y - x)"
    by (simp_all add: sgn_if)
  have "\<bar>sign_sum (x # xs) (y # ys)\<bar> < 2 ^ length (x # xs)"
    unfolding sign_sum.simps list.size power_Suc Suc_eq_plus1 power_add abs_less_iff
    using s IH(2) by (simp add: abs_less_iff)
  moreover consider "base_val b xs < base_val b ys" | "base_val b ys < base_val b xs" | "base_val b xs = base_val b ys"
    by linarith
  then have "sgn (sign_sum (x # xs) (y # ys)) = sgn (base_val b (y # ys) - base_val b (x # xs))"
  proof cases
    case 1
    then show ?thesis
      using digit_compare [OF d 1] IH(1) s by (simp add: sgn_if split: if_splits)
  next
    case 2
    then show ?thesis
      using digit_compare [OF d(3,4,1,2) 2] IH(1) s by (simp add: sgn_if split: if_splits)
  next
    case 3
    then show ?thesis
      using IH(1) by (simp add: sgn_if split: if_splits)
  qed
  ultimately show ?case by blast
qed simp

lemma sint_signum: "sint (signum a) = sgn (sint a)"
  by (simp add: signum_def word_sless_alt sgn_if)

definition l_digits :: "int list" where
  "l_digits = [1559614444, 1477600026, 2734136534, 350157278, 0, 0, 0, 268435456]"

lemma l_digits_val: "base_val (2 ^ 32) l_digits = l25519 - 1"
  by (simp add: l_digits_def l25519_def)

definition check_digits :: "int \<Rightarrow> int list" where
  "check_digits V = map (\<lambda>i. V div 2 ^ (32 * i) mod 2 ^ 32) [0..<8]"

lemma check_digits_val: "0 \<le> V \<Longrightarrow> V < 2 ^ 256 \<Longrightarrow> base_val (2 ^ 32) (check_digits V) = V"
proof -
  assume V: "0 \<le> V" "V < 2 ^ 256"
  have "base_val (2 ^ 32) (check_digits V) = (\<Sum>i<8. (V div 2 ^ (32 * i) mod 2 ^ 32) * (2 ^ 32) ^ i)"
    unfolding base_val_sum check_digits_def by (intro sum.cong) simp_all
  then show ?thesis
    using digits_sum [of V 32 8] V by (simp add: power_mult del: power_numeral)
qed

lemma sc_check_digit:
  assumes "length s = 32" "i < 8"
  shows "load_4 (drop (4 * i) s) = word_of_int (check_digits (le_val s) ! i)"
    and "0 \<le> check_digits (le_val s) ! i" "check_digits (le_val s) ! i < 2 ^ 32"
  using load_4_val [of "4 * i" s] assms by (simp_all add: check_digits_def del: upt_rec_numeral)

lemma signum_diff_digit:
  assumes "0 \<le> d" "d < 2 ^ 32" "0 \<le> c" "c < 2 ^ 32"
  shows "signum (word_of_int c - word_of_int d) = word_of_int (sgn (c - d))"
proof -
  have "sint (word_of_int c - word_of_int d :: i64) = c - d"
    by (rule sint_i64_eqI) (use assms in simp_all)
  then show ?thesis
    by (metis sint_signum word_of_int_sint)
qed

lemma sc_check_sum:
  assumes "length s = 32"
  defines "S \<equiv> sign_sum (check_digits (le_val s)) l_digits"
  shows "sc_check s = ucast (signed_drop_bit 8 (word_of_int S :: i64))"
proof -
  let ?d = "\<lambda>i. check_digits (le_val s) ! i"
  note ld = sc_check_digit(1) [OF assms(1)] and rg = sc_check_digit(2,3) [OF assms(1)]
  have u: "check_digits (le_val s) = [?d 0, ?d 1, ?d 2, ?d 3, ?d 4, ?d 5, ?d 6, ?d 7]"
    by (simp add: check_digits_def upt_rec)
  have L: "load_4 s = word_of_int (?d 0)" "load_4 (drop 4 s) = word_of_int (?d 1)"
    "load_4 (drop 8 s) = word_of_int (?d 2)" "load_4 (drop 12 s) = word_of_int (?d 3)"
    "load_4 (drop 16 s) = word_of_int (?d 4)" "load_4 (drop 20 s) = word_of_int (?d 5)"
    "load_4 (drop 24 s) = word_of_int (?d 6)" "load_4 (drop 28 s) = word_of_int (?d 7)"
    using ld [of 0] ld [of 1] ld [of 2] ld [of 3] ld [of 4] ld [of 5] ld [of 6] ld [of 7]
    by simp_all
  have sg: "i < 8 \<Longrightarrow> signum (word_of_int c - word_of_int (?d i)) = word_of_int (sgn (c - ?d i))"
    if "0 \<le> c" "c < 2 ^ 32" for c i
    by (rule signum_diff_digit [OF rg that])
  note g = sg [of 1559614444 0] sg [of 1477600026 1] sg [of 2734136534 2] sg [of 350157278 3]
    sg [of 0 4] sg [of 0 5] sg [of 0 6] sg [of 268435456 7]
  have S: "S = sgn (1559614444 - ?d 0) + 2 * sgn (1477600026 - ?d 1) + 4 * sgn (2734136534 - ?d 2)
      + 8 * sgn (350157278 - ?d 3) + 16 * sgn (0 - ?d 4) + 32 * sgn (0 - ?d 5) + 64 * sgn (0 - ?d 6)
      + 128 * sgn (268435456 - ?d 7)"
    unfolding S_def l_digits_def by (subst u) simp
  show ?thesis
    unfolding sc_check_def Let_def L S push_bit_mult_word using g
    by (simp add: mult.commute)
qed

theorem sc_check_eq:
  assumes "length s = 32"
  shows "sc_check s = (if le_val s < l25519 then 0 else - 1)"
proof -
  define S where "S = sign_sum (check_digits (le_val s)) l_digits"
  have V: "0 \<le> le_val s" "le_val s < 2 ^ 256"
    using le_val_less [of s] assms by simp_all
  have "\<forall>x\<in>set (check_digits (le_val s)). 0 \<le> x \<and> x < 2 ^ 32"
    by (auto simp: check_digits_def simp del: upt_rec_numeral)
  moreover have "\<forall>x\<in>set l_digits. 0 \<le> x \<and> x < 2 ^ 32"
    by (simp add: l_digits_def)
  moreover have "length (check_digits (le_val s)) = 8" "length l_digits = 8"
    by (simp_all add: check_digits_def l_digits_def)
  ultimately have "sgn S = sgn (l25519 - 1 - le_val s) \<and> \<bar>S\<bar> < 2 ^ 8"
    using sign_sum_compare [of "check_digits (le_val s)" l_digits "2 ^ 32"]
    unfolding S_def l_digits_val check_digits_val [OF V] by (simp only: ball_Un)
  then have S: "sgn S = sgn (l25519 - 1 - le_val s)" "\<bar>S\<bar> < 256"
    by simp_all
  have "sint (word_of_int S :: i64) = S"
    using S(2) by (simp add: sint_word_of_int_i64)
  then have d: "sint (signed_drop_bit 8 (word_of_int S :: i64)) = S div 2 ^ 8"
    by (simp only: sint_shift_right)
  show ?thesis
  proof (cases "le_val s < l25519")
    case True
    then have "0 \<le> S" using S(1) by (simp add: sgn_if split: if_splits)
    then have "S div 2 ^ 8 = 0" using S(2) by simp
    then have "signed_drop_bit 8 (word_of_int S :: i64) = 0"
      using d by (metis sint_0 signed_word_eqI)
    then show ?thesis using True sc_check_sum [OF assms] by (simp add: S_def)
  next
    case False
    then have "S < 0" using S(1) by (simp add: sgn_if split: if_splits)
    then have "S div 2 ^ 8 = - 1"
      using S(2) by (intro int_div_pos_eq [where r = "S + 2 ^ 8"]) simp_all
    then have "signed_drop_bit 8 (word_of_int S :: i64) = - 1"
      using d by (metis sint_n1 signed_word_eqI)
    moreover have "ucast (- 1 :: i64) = (- 1 :: i32)"
      by (rule bit_word_eqI) (simp add: bit_ucast_iff)
    ultimately show ?thesis using False sc_check_sum [OF assms] by (simp add: S_def)
  qed
qed

theorem sc_isnonzero_eq:
  assumes "length s = 32"
  shows "sc_isnonzero s = (if le_val s = 0 then 0 else 1)"
  unfolding sc_isnonzero_def by (rule bytes_isnonzero_eq [OF assms])

text \<open>The results are reduced scalars, so that each can be checked and used again.\<close>

lemma le_bytes_mod_l:
  "le_val (le_bytes 32 (V mod l25519)) = V mod l25519" "length (le_bytes 32 (V mod l25519)) = 32"
  "sc_check (le_bytes 32 (V mod l25519)) = 0"
proof -
  have "0 \<le> V mod l25519" "V mod l25519 < l25519"
    by simp_all
  then have "V mod l25519 mod 2 ^ 256 = V mod l25519"
    by (intro mod_pos_pos_trivial) (simp_all add: l25519_def)
  then show v: "le_val (le_bytes 32 (V mod l25519)) = V mod l25519"
    by (simp add: le_val_le_bytes)
  show "length (le_bytes 32 (V mod l25519)) = 32"
    by simp
  then show "sc_check (le_bytes 32 (V mod l25519)) = 0"
    by (simp only: sc_check_eq v) simp
qed

end
