(* ===== verification/BaseMult.thy ===== *)
theory BaseMult
  imports BaseOrder PrimeOrder
begin

text \<open>
  The tables of the program hold what the multiplications need: row \<open>i\<close> of \<open>ge_base\<close> the multiples
  \<open>1, \<dots>, 8\<close> of \<open>256 ^ i\<close> times the base point, \<open>ge_Bi\<close> its odd multiples.  With them the multiplications of the base
  point are correct without assumptions on a table.
\<close>

lemma upt_small: "[0..<8] = [0, 1, 2, 3, 4, 5, 6, 7]"
    "[0..<32] = [0, 1, 2, 3, 4, 5, 6, 7, 8, 9, 10, 11, 12, 13, 14, 15, 16, 17, 18, 19, 20, 21, 22, 23, 24, 25, 26, 27, 28,
      29, 30, 31]"
  by code_simp+

lemmas base_rows = row_0 row_1 row_2 row_3 row_4 row_5 row_6 row_7 row_8 row_9 row_10 row_11 row_12 row_13 row_14 row_15
  row_16 row_17 row_18 row_19 row_20 row_21 row_22 row_23 row_24 row_25 row_26 row_27 row_28 row_29 row_30 row_31

definition row_ok :: "nat \<Rightarrow> ge_precomp list \<Rightarrow> bool" where
  "row_ok i qs \<longleftrightarrow> list_all2 multiple (map (\<lambda>j. int (Suc j) * 256 ^ i) [0..<8]) qs"

lemma ge_base_rows: "list_all2 row_ok [0..<32] ge_base"
  unfolding ge_base_def upt_small(2) row_ok_def upt_small(1)
  by (simp only: list.map list_all2_Cons list_all2_Nil) (simp add: base_rows)

lemma ge_base_entries:
  "\<forall>i<32. length (ge_base ! i) = 8
    \<and> (\<forall>j<8. ptm (imult (int (Suc j)) (imult (256 ^ i) ed_base)) (ge_base ! i ! j))"
proof (intro allI impI)
  fix i :: nat assume i: "i < 32"
  then have "row_ok i (ge_base ! i)"
    using list_all2_nthD [OF ge_base_rows, of i] by simp
  then have r: "list_all2 multiple (map (\<lambda>j. int (Suc j) * 256 ^ i) [0..<8]) (ge_base ! i)"
    by (simp only: row_ok_def)
  then have len: "length (ge_base ! i) = 8"
    using list_all2_lengthD by fastforce
  have "ptm (imult (int (Suc j)) (imult (256 ^ i) ed_base)) (ge_base ! i ! j)" if "j < 8" for j
    using list_all2_nthD [OF r, of j] that by (simp add: multiple_def imult_mult del: of_nat_Suc)
  with len show "length (ge_base ! i) = 8
      \<and> (\<forall>j<8. ptm (imult (int (Suc j)) (imult (256 ^ i) ed_base)) (ge_base ! i ! j))"
    by blast
qed

lemma ge_Bi_entries: "curve.odd_base ed_base ge_Bi"
  unfolding curve.odd_base_def
proof (intro allI impI)
  fix i :: nat assume "i < 8"
  then have "multiple ([1, 3, 5, 7, 9, 11, 13, 15] ! i) (ge_Bi ! i)"
    using list_all2_nthD [OF row_Bi, of i] by simp
  moreover have "\<forall>i<8. [1, 3, 5, 7, 9, 11, 13, 15] ! i = 2 * int i + 1"
    by (simp add: numeral_eq_Suc less_Suc_eq all_conj_distrib)
  ultimately show "ptm (imult (2 * int i + 1) ed_base) (ge_Bi ! i)"
    using \<open>i < 8\<close> by (simp add: multiple_def)
qed

section \<open>Multiples of the base point\<close>

lemma scalarmult_base_ed_base:
  assumes "length a = 32" "uint (a ! 31) \<le> 127"
  shows "pt3 (imult (le_val a) ed_base) (ge_scalarmult_base a)"
  unfolding ge_scalarmult_base_def by (rule curve.scalarmult_base [OF assms ge_base_entries])

lemma double_base_ed_base:
  assumes "pt3 g A" "length a = 32" "le_val a < 2 ^ 255" "length b = 32" "le_val b < 2 ^ 255"
  shows "pt2 (imult (le_val a) g + imult (le_val b) ed_base) (ge_double_scalarmult_base_vartime a A b)"
  unfolding ge_double_scalarmult_base_vartime_def by (rule curve.double_base [OF assms(1) ge_Bi_entries assms(2-5)])

lemma double_base_p3_ed_base:
  assumes "pt3 g A" "length a = 32" "le_val a < 2 ^ 255" "length b = 32" "le_val b < 2 ^ 255"
    "le_val a \<noteq> 0 \<or> le_val b \<noteq> 0"
  shows "\<exists>r. ge_double_scalarmult_base_vartime_p3 a A b = Some r
    \<and> pt3 (imult (le_val a) g + imult (le_val b) ed_base) r"
  unfolding ge_double_scalarmult_base_vartime_p3_def
  by (rule curve.double_base_p3 [OF assms(1) ge_Bi_entries assms(2-6)])

lemma triple_base_ed_base:
  assumes "curve.odd_table h Bi" "curve.odd_table k Ci"
    "length a = 32" "le_val a < 2 ^ 255" "length b = 32" "le_val b < 2 ^ 255" "length c = 32" "le_val c < 2 ^ 255"
  shows "pt2 (imult (le_val a) ed_base + imult (le_val b) h + imult (le_val c) k)
    (ge_triple_scalarmult_base_vartime a b Bi c Ci)"
  unfolding ge_triple_scalarmult_base_vartime_def by (rule curve.triple_base [OF ge_Bi_entries assms])

text \<open>The base point has the order of the scalars.\<close>

lemma base_order_l: "imult l25519 ed_base = 0"
  using base_order by (simp add: l25519_def)

lemma imult_mod_l: "imult (n mod l25519) ed_base = imult n ed_base"
proof -
  have "imult n ed_base = imult (n div l25519 * l25519 + n mod l25519) ed_base"
    by simp
  also have "\<dots> = imult (n div l25519) (imult l25519 ed_base) + imult (n mod l25519) ed_base"
    by (simp only: imult_add imult_mult)
  finally show ?thesis
    by (simp add: base_order_l)
qed

text \<open>As \<open>l25519\<close> is prime and the base point is not neutral, its order is exactly \<open>l25519\<close>.\<close>

lemma ed_base_nonzero: "ed_base \<noteq> 0"
proof
  assume "ed_base = 0"
  then have "coords 0 base_x base_y"
    using coords_ed_base by simp
  then have "eqm p25519 0 base_x"
    using coords_eqm [OF coords_0] by blast
  then show False
    by (simp add: eqm_dvd base_x_def p25519_def)
qed

lemma base_order_iff: "imult n ed_base = 0 \<longleftrightarrow> l25519 dvd n"
proof
  assume 0: "imult n ed_base = 0"
  show "l25519 dvd n"
  proof (rule ccontr)
    assume "\<not> l25519 dvd n"
    then have "gcd n l25519 = 1"
      using prime_coprime [OF prime_l] by simp
    then obtain x y where "x * n + y * l25519 = 1"
      using bezout_int [of n l25519] by auto
    then have "imult (x * n + y * l25519) ed_base = ed_base"
      by simp
    then have "ed_base = 0"
      by (simp add: imult_add imult_mult 0 base_order_l)
    then show False
      using ed_base_nonzero by blast
  qed
next
  assume "l25519 dvd n"
  then show "imult n ed_base = 0"
    using imult_mod_l [of n] by (simp add: dvd_eq_mod_eq_0)
qed

lemma imult_base_eq_iff: "imult m ed_base = imult n ed_base \<longleftrightarrow> eqm l25519 m n"
  using base_order_iff [of "m - n"] by (simp add: imult_diff eqm_dvd)

end
