(* ===== verification/PointBytes.thy ===== *)
theory PointBytes
  imports Group
begin

text \<open>
  Points as byte strings: \<open>ge_tobytes\<close>, \<open>ge_p3_tobytes\<close> and \<open>ge_frombytes_vartime\<close> of \<^verbatim>\<open>src/base/tools/cryptonote/crypto-ops.c\<close>.  A string holds \<open>y\<close> in
  its low 255 bits and the parity of \<open>x\<close> in its top bit.  What the decoder accepts is on the curve
  and has the sign and the \<open>y\<close> of the string, so that encoding it gives the string back.
\<close>

unbundle bit_operations_syntax

section \<open>Encoding\<close>

definition ge_tobytes :: "ge_p2 \<Rightarrow> byte list" where
  "ge_tobytes h =
     (let recip = fe_invert (p2Z h);
          x = fe_mul (p2X h) recip;
          y = fe_mul (p2Y h) recip;
          s = fe_tobytes y
      in s[31 := s ! 31 XOR ucast (push_bit 7 (fe_isnegative x))])"

definition ge_p3_tobytes :: "ge_p3 \<Rightarrow> byte list" where
  "ge_p3_tobytes h =
     (let recip = fe_invert (p3Z h);
          x = fe_mul (p3X h) recip;
          y = fe_mul (p3Y h) recip;
          s = fe_tobytes y
      in s[31 := s ! 31 XOR ucast (push_bit 7 (fe_isnegative x))])"

section \<open>Decoding\<close>

text \<open>
  The result \<open>-1\<close> is \<open>None\<close>.  \<open>ge_x_of_y\<close> is the part from \<open>fe_divpowm1\<close> to the second check: the
  candidate for \<open>x\<close>, multiplied by \<open>sqrt(-1)\<close> if need be.
\<close>

definition ge_x_of_y :: "fe \<Rightarrow> fe \<Rightarrow> fe option" where
  "ge_x_of_y u v =
     (let X = fe_divpowm1 u v;
          vxx = fe_sq X;
          vxx = fe_mul vxx v;
          check = fe_sub vxx u
      in if fe_isnonzero check \<noteq> 0
         then let check = fe_add vxx u
              in if fe_isnonzero check \<noteq> 0 then None else Some (fe_mul X fe_sqrtm1)
         else Some X)"

definition ge_fix_sign :: "fe \<Rightarrow> byte \<Rightarrow> fe option" where
  "ge_fix_sign X sign =
     (if fe_isnegative X \<noteq> ucast sign
      then if fe_isnonzero X = 0 then None else Some (fe_neg X)
      else Some X)"

definition ge_frombytes_vartime :: "byte list \<Rightarrow> ge_p3 option" where
  "ge_frombytes_vartime s =
     (let h = fe_loads_255 s
      in if fe_noncanonical h then None
         else let Y = fe_frombytes h;
                  Z = fe_1;
                  u = fe_sq Y;
                  v = fe_mul u fe_d;
                  u = fe_sub u Z;
                  v = fe_add v Z
              in case ge_x_of_y u v of
                   None \<Rightarrow> None
                 | Some X \<Rightarrow>
                   (case ge_fix_sign X (drop_bit 7 (s ! 31)) of
                      None \<Rightarrow> None
                    | Some X \<Rightarrow> Some \<lparr>p3X = X, p3Y = Y, p3Z = Z, p3T = fe_mul X Y\<rparr>))"

section \<open>The sign bit\<close>

lemma xor_top_bit:
  assumes "0 \<le> a" "a < 2 ^ 7" "b = 0 \<or> b = 1"
  shows "(word_of_int a XOR word_of_int (2 ^ 7 * b) :: byte) = word_of_int (a + 2 ^ 7 * b)"
proof -
  have "a AND 2 ^ 7 * b = 0"
  proof (rule bit_eqI)
    fix n
    have "a = take_bit 7 a"
      using assms by (simp add: take_bit_int_eq_self)
    then have "\<not> bit a 7"
      by (metis bit_take_bit_iff less_irrefl)
    moreover have "2 ^ 7 * b = push_bit 7 b"
      by (simp add: push_bit_eq_mult)
    moreover have "bit (push_bit 7 b) n \<Longrightarrow> n = 7"
      using assms(3) by (auto simp: bit_push_bit_iff bit_1_iff)
    ultimately show "bit (a AND 2 ^ 7 * b) n = bit 0 n"
      by (auto simp: bit_and_iff simp del: power_numeral)
  qed
  then have "a + 2 ^ 7 * b = a XOR 2 ^ 7 * b"
    by (rule disjunctive_add_eq_xor)
  then show ?thesis
    by (metis of_int_xor_eq)
qed

lemma le_bytes_sign:
  assumes "0 \<le> V" "V < 2 ^ 255" "b = 0 \<or> b = 1"
  shows "(le_bytes 32 V)[31 := le_bytes 32 V ! 31 XOR word_of_int (2 ^ 7 * b)] = le_bytes 32 (V + 2 ^ 255 * b)"
proof (rule nth_equalityI)
  fix j assume "j < length ((le_bytes 32 V)[31 := le_bytes 32 V ! 31 XOR word_of_int (2 ^ 7 * b)])"
  then have j: "j < 32" by simp
  have split: "(V + 2 ^ 255 * b) div 2 ^ (8 * j) = V div 2 ^ (8 * j) + 2 ^ (255 - 8 * j) * b"
  proof -
    have "(2::int) ^ 255 = 2 ^ (255 - 8 * j) * 2 ^ (8 * j)"
      using j by (simp only: power_add [symmetric]) simp
    then have "V + 2 ^ 255 * b = V + (2 ^ (255 - 8 * j) * b) * 2 ^ (8 * j)"
      by (simp only: mult_ac)
    then show ?thesis by (simp only: div_mult_self1 power_not_zero) simp
  qed
  show "(le_bytes 32 V)[31 := le_bytes 32 V ! 31 XOR word_of_int (2 ^ 7 * b)] ! j = le_bytes 32 (V + 2 ^ 255 * b) ! j"
  proof (cases "j = 31")
    case True
    have "V < 2 ^ 7 * 2 ^ 248" using assms(2) by simp
    then have "V div 2 ^ 248 < 2 ^ 7" by (rule int_div_less_pow2)
    moreover have "0 \<le> V div 2 ^ 248" using assms(1) by (simp add: pos_imp_zdiv_nonneg_iff)
    ultimately show ?thesis
      using True split xor_top_bit [OF _ _ assms(3), of "V div 2 ^ 248"] by (simp add: nth_le_bytes)
  next
    case False
    then have "(2::int) ^ (255 - 8 * j) = 2 ^ 8 * 2 ^ (247 - 8 * j)"
      using j by (simp only: power_add [symmetric]) simp
    then have "(V div 2 ^ (8 * j)) mod 2 ^ 8 = ((V + 2 ^ 255 * b) div 2 ^ (8 * j)) mod 2 ^ 8"
      unfolding split by (simp only: mult.assoc mod_mult_self2)
    then have "(word_of_int (V div 2 ^ (8 * j)) :: byte) = word_of_int ((V + 2 ^ 255 * b) div 2 ^ (8 * j))"
      by (rule word_of_int_byte_eqI)
    then show ?thesis
      using False j by (simp add: nth_le_bytes del: power_numeral)
  qed
qed simp

lemma encode_sign:
  assumes "fe_rep 101 f x" "0 \<le> V" "V < 2 ^ 255"
  shows "(le_bytes 32 V)[31 := le_bytes 32 V ! 31 XOR ucast (push_bit 7 (fe_isnegative f))]
    = le_bytes 32 (V + 2 ^ 255 * (x mod p25519 mod 2))"
proof -
  have "fe_isnegative f = (if odd (x mod p25519) then 1 else 0)"
    using fe_rep_isnegative [OF assms(1)] by simp
  then have "(ucast (push_bit 7 (fe_isnegative f)) :: byte) = word_of_int (2 ^ 7 * (x mod p25519 mod 2))"
    by (simp add: mod_2_eq_odd)
  moreover have "x mod p25519 mod 2 = 0 \<or> x mod p25519 mod 2 = 1"
    by (simp add: mod_2_eq_odd)
  ultimately show ?thesis
    using le_bytes_sign [OF assms(2,3)] by (simp only:)
qed

section \<open>The encoding of a represented point\<close>

text \<open>
  The inverse is a power, so the result is that of the affine point as soon as the power is an
  inverse of \<open>z\<close>; it is for \<open>z = 1\<close>.
\<close>

lemma ge_p3_tobytes_p2: "p3_rep h x y z \<Longrightarrow> ge_p3_tobytes h = ge_tobytes (ge_p3_to_p2 h)"
  unfolding p3_rep_def ge_p3_tobytes_def ge_tobytes_def ge_p3_to_p2_def by (auto dest!: fe_rep_copy)

lemma ge_tobytes_eq:
  assumes "p2_wide h x y z" "eqm p25519 (z * z ^ (2 ^ 255 - 21)) 1"
  shows "ge_tobytes h = le_bytes 32 (y mod p25519 + 2 ^ 255 * (x mod p25519 mod 2))"
proof -
  have h: "fe_rep 330 (p2X h) (x * z)" "fe_rep 330 (p2Y h) (y * z)" "fe_rep 330 (p2Z h) z"
    using assms(1) by (auto simp: p2_wide_def intro: fe_rep_mono)
  let ?r = "fe_invert (p2Z h)"
  note r = fe_rep_330(1) [OF fe_rep_invert [OF h(3)]]
  have scale: "eqm p25519 (w * z * z ^ (2 ^ 255 - 21)) w" for w
    using eqm_mult [OF eqm_refl assms(2), of w] by (simp add: mult.assoc)
  have X: "fe_rep 101 (fe_mul (p2X h) ?r) x" and Y: "fe_rep 101 (fe_mul (p2Y h) ?r) y"
    using fe_rep_cong [OF fe.mul_res [OF h(1) r] scale] fe_rep_cong [OF fe.mul_res [OF h(2) r] scale]
    by simp_all
  have "fe_tobytes (fe_mul (p2Y h) ?r) = le_bytes 32 (y mod p25519)"
    using fe_rep_tobytes [OF Y] by simp
  moreover have "0 \<le> y mod p25519" "y mod p25519 < p25519"
    by simp_all
  then have "0 \<le> y mod p25519" "y mod p25519 < 2 ^ 255"
    by (simp_all add: p25519_def)
  ultimately show ?thesis
    unfolding ge_tobytes_def Let_def using encode_sign [OF X] by simp
qed

lemma ge_p3_tobytes_eq:
  assumes "p3_rep h x y z" "eqm p25519 (z * z ^ (2 ^ 255 - 21)) 1"
  shows "ge_p3_tobytes h = le_bytes 32 (y mod p25519 + 2 ^ 255 * (x mod p25519 mod 2))"
  using ge_tobytes_eq [OF p2_rep_wide [OF p3_rep_p2 [OF assms(1)]] assms(2)] ge_p3_tobytes_p2 [OF assms(1)] by simp

section \<open>The decoder\<close>

lemma fe_isnonzero_iff:
  assumes "fe_rep k f x" "k \<le> 330"
  shows "fe_isnonzero f = 0 \<longleftrightarrow> eqm p25519 x 0"
  using fe_rep_isnonzero [OF assms] by simp

lemma ge_x_of_y_sound:
  assumes u: "fe_rep 102 u U" and v: "fe_rep 102 v V" and X: "ge_x_of_y u v = Some X"
  shows "\<exists>x. fe_rep 101 X x \<and> eqm p25519 (x\<^sup>2 * V) U"
proof -
  let ?X = "fe_divpowm1 u v"
  obtain x where x: "fe_rep 101 ?X x"
    using fe_rep_divpowm1 [OF fe_rep_mono [OF u] fe_rep_mono [OF v]] by auto
  have vxx: "fe_rep 101 (fe_mul (fe_sq ?X) v) (x\<^sup>2 * V)"
    by (rule fe_rep_mul [OF fe_rep_sq [OF x] v]) simp_all
  have minus: "fe_rep 203 (fe_sub (fe_mul (fe_sq ?X) v) u) (x\<^sup>2 * V - U)"
    and plus: "fe_rep 203 (fe_add (fe_mul (fe_sq ?X) v) u) (x\<^sup>2 * V + U)"
    using fe_rep_sub [OF vxx u] fe_rep_add [OF vxx u] by simp_all
  consider "X = ?X" "eqm p25519 (x\<^sup>2 * V - U) 0"
    | "X = fe_mul ?X fe_sqrtm1" "eqm p25519 (x\<^sup>2 * V + U) 0"
    using X fe_isnonzero_iff [OF minus] fe_isnonzero_iff [OF plus]
    by (auto simp: ge_x_of_y_def Let_def split: if_splits)
  then show ?thesis
  proof cases
    case 1
    then have "eqm p25519 (x\<^sup>2 * V) U"
      by (simp add: eqm_dvd)
    then show ?thesis using 1(1) x by blast
  next
    case 2
    have "fe_rep 101 X (x * sqrtm1)"
      unfolding 2(1) by (rule fe_rep_mul [OF x fe_sqrtm1_rep]) simp_all
    moreover have "eqm p25519 ((x * sqrtm1)\<^sup>2 * V) U"
    proof -
      have "eqm p25519 (x\<^sup>2 * V * sqrtm1\<^sup>2) (x\<^sup>2 * V * (- 1))"
        by (intro eqm_mult eqm_refl sqrtm1_sq)
      also have "eqm p25519 (x\<^sup>2 * V * (- 1)) U"
        using 2(2) unfolding eqm_dvd by (metis diff_0_right dvd_minus_iff minus_add mult.right_neutral mult_minus_right uminus_add_conv_diff)
      finally show ?thesis
        by (simp add: power_mult_distrib mult_ac)
    qed
    ultimately show ?thesis by blast
  qed
qed

lemma neg_mod_parity:
  assumes "\<not> eqm p25519 x 0"
  shows "(- x) mod p25519 mod 2 = 1 - x mod p25519 mod 2"
proof -
  have "x mod p25519 \<noteq> 0"
    using assms by (simp add: eqm_def)
  then have "(- x) mod p25519 = p25519 - x mod p25519"
    by (simp add: zmod_zminus1_eq_if)
  moreover have "odd p25519"
    by (simp add: p25519_def)
  ultimately show ?thesis
    by (simp add: mod_2_eq_odd)
qed

lemma ge_fix_sign_sound:
  assumes X: "fe_rep 101 X x" and sg: "sg = word_of_int b" "b = 0 \<or> b = 1" and X': "ge_fix_sign X sg = Some X'"
  shows "\<exists>x'. fe_rep 101 X' x' \<and> x'\<^sup>2 = x\<^sup>2 \<and> x' mod p25519 mod 2 = b"
proof -
  have neg: "fe_isnegative X = (if odd (x mod p25519) then 1 else 0)"
    using fe_rep_isnegative [OF X] by simp
  have nz: "fe_isnonzero X = 0 \<longleftrightarrow> eqm p25519 x 0"
    using fe_isnonzero_iff [OF X] by simp
  have par: "fe_isnegative X = ucast sg \<longleftrightarrow> x mod p25519 mod 2 = b"
    using sg by (auto simp: neg mod_2_eq_odd)
  show ?thesis
  proof (cases "x mod p25519 mod 2 = b")
    case True
    then have "X' = X" using X' par by (simp add: ge_fix_sign_def)
    then show ?thesis using X True by blast
  next
    case False
    then have "X' = fe_neg X" "\<not> eqm p25519 x 0"
      using X' par nz by (auto simp: ge_fix_sign_def split: if_splits)
    moreover have "fe_rep 101 (fe_neg X) (- x)"
      using fe_rep_neg [OF X] by simp
    moreover have "(- x) mod p25519 mod 2 = b"
      using neg_mod_parity [OF \<open>\<not> eqm p25519 x 0\<close>] False sg(2) by (auto simp: mod_2_eq_odd split: if_splits)
    ultimately show ?thesis by (intro exI [of _ "- x"]) simp
  qed
qed

text \<open>The top bit of the string.\<close>

lemma top_bit:
  assumes "length s = 32"
  shows "drop_bit 7 (s ! 31) = word_of_int (le_val s div 2 ^ 255)"
    and "le_val s div 2 ^ 255 = 0 \<or> le_val s div 2 ^ 255 = 1"
proof -
  have "le_val (drop 31 s) = uint (s ! 31)"
    using assms by (simp add: Cons_nth_drop_Suc [symmetric])
  then have b: "uint (s ! 31) = le_val s div 2 ^ 248"
    using le_val_drop [of 31 s] assms by simp
  have q: "le_val s div 2 ^ 255 = uint (s ! 31) div 2 ^ 7"
    unfolding b by (simp add: zdiv_zmult2_eq [symmetric])
  show "drop_bit 7 (s ! 31) = word_of_int (le_val s div 2 ^ 255)"
    unfolding q uint_drop_bit_div [symmetric] by simp
  have "le_val s < 2 * 2 ^ 255" using le_val_less [of s] assms by simp
  then have "le_val s div 2 ^ 255 < 2"
    using int_div_less_pow2 [of "le_val s" 1 255] by simp
  moreover have "0 \<le> le_val s div 2 ^ 255"
    by (simp add: pos_imp_zdiv_nonneg_iff)
  ultimately show "le_val s div 2 ^ 255 = 0 \<or> le_val s div 2 ^ 255 = 1"
    by linarith
qed

lemma curve_equation:
  assumes "eqm p25519 (x\<^sup>2 * (y\<^sup>2 * ed_d + 1)) (y\<^sup>2 - 1)"
  shows "on_curve x y"
proof -
  have "y\<^sup>2 - x\<^sup>2 - (1 + ed_d * x\<^sup>2 * y\<^sup>2) = - (x\<^sup>2 * (y\<^sup>2 * ed_d + 1) - (y\<^sup>2 - 1))"
    by algebra
  then show ?thesis
    using assms unfolding on_curve_def eqm_dvd by (simp only: dvd_minus_iff)
qed

text \<open>The values of \<^verbatim>\<open>h->Y\<close>, \<^verbatim>\<open>u\<close> and \<^verbatim>\<open>v\<close>.\<close>

lemma ge_uv_rep:
  assumes s: "length s = 32"
  defines "y \<equiv> le_val s mod 2 ^ 255" and "Y \<equiv> fe_frombytes (fe_loads_255 s)"
  shows "fe_rep 101 Y y" and "fe_rep 102 (fe_sub (fe_sq Y) fe_1) (y\<^sup>2 - 1)"
    and "fe_rep 102 (fe_add (fe_mul (fe_sq Y) fe_d) fe_1) (y\<^sup>2 * ed_d + 1)"
proof -
  show Y: "fe_rep 101 Y y"
    using fe_frombytes_255 [OF s] by (simp add: fe_rep_def y_def Y_def)
  have one: "fe_rep 1 fe_1 1"
    by (simp add: fe_rep_1)
  have y2: "fe_rep 101 (fe_sq Y) (y\<^sup>2)"
    by (rule fe_rep_sq [OF Y]) simp
  have y2d: "fe_rep 101 (fe_mul (fe_sq Y) fe_d) (y\<^sup>2 * ed_d)"
    by (rule fe_rep_mul [OF y2 fe_d_rep]) simp_all
  show "fe_rep 102 (fe_sub (fe_sq Y) fe_1) (y\<^sup>2 - 1)"
    and "fe_rep 102 (fe_add (fe_mul (fe_sq Y) fe_d) fe_1) (y\<^sup>2 * ed_d + 1)"
    using fe_rep_sub [OF y2 one] fe_rep_add [OF y2d one] by simp_all
qed

lemma ge_frombytes_sound:
  assumes s: "length s = 32" and P: "ge_frombytes_vartime s = Some P"
  defines "y \<equiv> le_val s mod 2 ^ 255"
  shows "\<exists>x. p3_rep P x y 1 \<and> on_curve x y \<and> y < p25519 \<and> x mod p25519 mod 2 = le_val s div 2 ^ 255"
proof -
  let ?Y = "fe_frombytes (fe_loads_255 s)"
  let ?u = "fe_sub (fe_sq ?Y) fe_1" and ?v = "fe_add (fe_mul (fe_sq ?Y) fe_d) fe_1"
  obtain X0 X where canon: "\<not> fe_noncanonical (fe_loads_255 s)" and X0: "ge_x_of_y ?u ?v = Some X0"
    and X: "ge_fix_sign X0 (drop_bit 7 (s ! 31)) = Some X"
    and P': "P = \<lparr>p3X = X, p3Y = ?Y, p3Z = fe_1, p3T = fe_mul X ?Y\<rparr>"
    using P by (auto simp: ge_frombytes_vartime_def Let_def split: if_splits option.splits)
  note Y = ge_uv_rep(1) [OF s, folded y_def] and uv = ge_uv_rep(2,3) [OF s, folded y_def]
  obtain x0 where x0: "fe_rep 101 X0 x0" "eqm p25519 (x0\<^sup>2 * (y\<^sup>2 * ed_d + 1)) (y\<^sup>2 - 1)"
    using ge_x_of_y_sound [OF uv X0] by blast
  obtain x where x: "fe_rep 101 X x" "x\<^sup>2 = x0\<^sup>2" "x mod p25519 mod 2 = le_val s div 2 ^ 255"
    using ge_fix_sign_sound [OF x0(1) top_bit [OF s] X] by blast
  have "p3_rep P x y 1"
    unfolding p3_rep_def P' using x(1) Y fe_rep_1 [of 101] fe_rep_mul [OF x(1) Y] by simp
  moreover have "on_curve x y"
    using x0(2) by (intro curve_equation) (simp only: x(2))
  moreover have "y < p25519"
    using canon fe_noncanonical_eq [OF s] by (simp add: y_def)
  ultimately show ?thesis
    using x(3) by blast
qed

lemma ge_frombytes_roundtrip:
  assumes s: "length s = 32" and P: "ge_frombytes_vartime s = Some P"
  shows "ge_p3_tobytes P = s"
proof -
  obtain x where x: "p3_rep P x (le_val s mod 2 ^ 255) 1" "le_val s mod 2 ^ 255 < p25519"
    "x mod p25519 mod 2 = le_val s div 2 ^ 255"
    using ge_frombytes_sound [OF assms] by blast
  have "ge_p3_tobytes P = le_bytes 32 (le_val s mod 2 ^ 255 mod p25519 + 2 ^ 255 * (x mod p25519 mod 2))"
    by (rule ge_p3_tobytes_eq [OF x(1)]) simp
  also have "le_val s mod 2 ^ 255 mod p25519 = le_val s mod 2 ^ 255"
    using x(2) by (intro mod_pos_pos_trivial) simp_all
  also have "le_val s mod 2 ^ 255 + 2 ^ 255 * (x mod p25519 mod 2) = le_val s"
    unfolding x(3) by (simp only: mod_mult_div_eq)
  finally show ?thesis
    using le_bytes_le_val [of s] s by simp
qed

text \<open>The points with \<open>x = 0\<close>: their encoding with a set sign bit is rejected, the other one accepted.\<close>

lemma ge_x_of_y_0:
  assumes u: "fe_rep 102 u U" and v: "fe_rep 102 v V" and "eqm p25519 U 0"
  obtains X where "ge_x_of_y u v = Some X" "fe_rep 101 X 0"
proof -
  let ?X = "fe_divpowm1 u v"
  obtain w where "fe_rep 101 ?X (w * U)"
    using fe_rep_divpowm1 [OF fe_rep_mono [OF u] fe_rep_mono [OF v]] by auto
  then have x: "fe_rep 101 ?X 0"
    using fe_rep_cong eqm_mult [OF eqm_refl assms(3), of w] by force
  have vxx: "fe_rep 101 (fe_mul (fe_sq ?X) v) (0\<^sup>2 * V)"
    by (rule fe_rep_mul [OF fe_rep_sq [OF x] v]) simp_all
  have "fe_rep 203 (fe_sub (fe_mul (fe_sq ?X) v) u) (0\<^sup>2 * V - U)"
    using fe_rep_sub [OF vxx u] by simp
  moreover have "eqm p25519 (0\<^sup>2 * V - U) 0"
    using eqm_minus [OF assms(3)] by simp
  ultimately have "fe_isnonzero (fe_sub (fe_mul (fe_sq ?X) v) u) = 0"
    using fe_isnonzero_iff by force
  then have "ge_x_of_y u v = Some ?X"
    by (simp add: ge_x_of_y_def Let_def)
  then show thesis
    using that x by blast
qed

lemma ge_frombytes_x0:
  assumes s: "length s = 32" and y1: "eqm p25519 ((le_val s mod 2 ^ 255)\<^sup>2) 1"
  shows "ge_frombytes_vartime s = None \<longleftrightarrow> p25519 \<le> le_val s mod 2 ^ 255 \<or> le_val s div 2 ^ 255 = 1"
proof -
  have "eqm p25519 ((le_val s mod 2 ^ 255)\<^sup>2 - 1) 0"
    using eqm_diff [OF y1 eqm_refl, of 1] by simp
  from ge_x_of_y_0 [OF ge_uv_rep(2,3) [OF s] this]
  obtain X where X: "ge_x_of_y (fe_sub (fe_sq (fe_frombytes (fe_loads_255 s))) fe_1)
      (fe_add (fe_mul (fe_sq (fe_frombytes (fe_loads_255 s))) fe_d) fe_1) = Some X" "fe_rep 101 X 0" .
  have "fe_isnegative X = 0" "fe_isnonzero X = 0"
    using fe_rep_isnegative [OF X(2)] fe_isnonzero_iff [OF X(2)] by simp_all
  moreover have "(ucast (drop_bit 7 (s ! 31)) :: i32) = word_of_int (le_val s div 2 ^ 255)"
    using top_bit [OF s] by auto
  ultimately have "ge_fix_sign X (drop_bit 7 (s ! 31)) = None \<longleftrightarrow> le_val s div 2 ^ 255 = 1"
    using top_bit(2) [OF s] by (auto simp: ge_fix_sign_def)
  then show ?thesis
    using fe_noncanonical_eq [OF s] X(1)
    by (auto simp: ge_frombytes_vartime_def Let_def split: option.splits)
qed

end
