(* ===== verification/PointCodec.thy ===== *)
theory PointCodec
  imports CurveMult PointBytes
begin

text \<open>
  The byte strings of points in the group of the curve.  Because the modulus is prime, the power that
  \<open>fe_invert\<close> computes is an inverse and the candidate of \<open>fe_divpowm1\<close> is a square root whenever there is
  one: encoding writes one string for each point, whatever coordinates represent it, and decoding accepts
  exactly these strings and returns the point.
\<close>

section \<open>Inverses and square roots\<close>

lemma p25519_exponents: "nat (p25519 - 2) = 2 ^ 255 - 21" "nat (p25519 - 1) = 2 * (2 * (2 ^ 253 - 5))"
  by (simp_all add: p25519_def)

lemma eqm_inverse: "coprime z p25519 \<Longrightarrow> eqm p25519 (z * z ^ (2 ^ 255 - 21)) 1"
  using fermat_inverse [of z] unfolding p25519_exponents prime_coprime [OF prime_p] mult.commute [of "z ^ _" z] .

lemma fp_square_pm: "a * a = b * b \<Longrightarrow> a = b \<or> a = - (b :: fp)"
  by (simp add: square_eq_iff)

lemma fp_root:
  assumes "x * x * v = (u :: fp)" "u \<noteq> 0"
  defines "r \<equiv> (u * v ^ 7) ^ (2 ^ 252 - 3) * v ^ 3 * u"
  shows "r * r * v = u \<or> r * r * v = - u"
proof -
  let ?w = "u * v ^ 7" and ?t = "(u * v ^ 7) ^ (2 ^ 253 - 5)"
  have "x * v ^ 4 \<noteq> 0"
    using assms by auto
  moreover have w: "?w = (x * v ^ 4) * (x * v ^ 4)"
    unfolding assms(1) [symmetric] by algebra
  have "?t * ?t = (x * v ^ 4) ^ nat (p25519 - 1)"
    unfolding w p25519_exponents
    by (simp only: power_mult [symmetric] power2_eq_square [symmetric] mult.commute [of _ 2] mult.assoc)
  ultimately have "?t * ?t = 1 * 1"
    using fp_fermat by simp
  then have t: "?t = 1 \<or> ?t = - 1"
    by (rule fp_square_pm)
  have "(2 :: nat) ^ 253 - 5 = 1 + ((2 ^ 252 - 3) + (2 ^ 252 - 3))"
    by simp
  then have "?t = ?w * (?w ^ (2 ^ 252 - 3) * ?w ^ (2 ^ 252 - 3))"
    by (simp only: power_add power_one_right)
  moreover have "k * v ^ 3 * u * (k * v ^ 3 * u) * v = u * v ^ 7 * (k * k) * u" for k
    by algebra
  ultimately have "r * r * v = ?t * u"
    unfolding r_def by (simp only:)
  then show ?thesis
    using t by auto
qed

lemma candidate_root:
  assumes "eqm p25519 (x * x * V) U" "\<not> eqm p25519 U 0"
  defines "r \<equiv> (U * V ^ 7) ^ (2 ^ 252 - 3) * V ^ 3 * U"
  shows "eqm p25519 (r\<^sup>2 * V - U) 0 \<or> eqm p25519 (r\<^sup>2 * V + U) 0"
proof -
  have "(of_int x * of_int x * of_int V :: fp) = of_int U" "(of_int U :: fp) \<noteq> 0"
    using assms(1,2) unfolding of_int_fp_eq [symmetric] by simp_all
  from fp_root [OF this] show ?thesis
    unfolding of_int_fp_eq [symmetric] r_def
    by (simp only: of_int_add of_int_diff of_int_mult of_int_power power2_eq_square of_int_0 right_minus_eq
        eq_neg_iff_add_eq_0)
qed

lemma candidate_root_eqm:
  assumes "eqm p25519 (x * x * V) U"
  defines "r \<equiv> (U * V ^ 7) ^ (2 ^ 252 - 3) * V ^ 3 * U"
  shows "eqm p25519 (r\<^sup>2 * V) U \<or> eqm p25519 (r\<^sup>2 * V) (- U)"
proof (cases "eqm p25519 U 0")
  case True
  then have "p25519 dvd U"
    by (simp add: eqm_dvd)
  then have "p25519 dvd r\<^sup>2 * V - U"
    unfolding r_def by (intro dvd_diff) (simp_all add: power2_eq_square)
  then show ?thesis
    by (simp add: eqm_dvd)
next
  case False
  from candidate_root [OF assms(1) this] show ?thesis
    by (simp add: eqm_dvd r_def)
qed

lemma ge_x_of_y_complete:
  assumes u: "fe_rep 102 u U" and v: "fe_rep 102 v V" and x: "eqm p25519 (x * x * V) U"
  shows "\<exists>X. ge_x_of_y u v = Some X"
proof (cases "eqm p25519 U 0")
  case True
  then show ?thesis
    using ge_x_of_y_0 [OF u v] by metis
next
  case False
  let ?X = "fe_divpowm1 u v" and ?r = "(U * V ^ 7) ^ (2 ^ 252 - 3) * V ^ 3 * U"
  have r: "fe_rep 101 ?X ?r"
    using fe_rep_divpowm1 [OF fe_rep_mono [OF u] fe_rep_mono [OF v]] by simp
  have vxx: "fe_rep 101 (fe_mul (fe_sq ?X) v) (?r\<^sup>2 * V)"
    by (rule fe_rep_mul [OF fe_rep_sq [OF r] v]) simp_all
  have "fe_rep 203 (fe_sub (fe_mul (fe_sq ?X) v) u) (?r\<^sup>2 * V - U)"
    and "fe_rep 203 (fe_add (fe_mul (fe_sq ?X) v) u) (?r\<^sup>2 * V + U)"
    using fe_rep_sub [OF vxx u] fe_rep_add [OF vxx u] by simp_all
  then show ?thesis
    using candidate_root [OF x False] fe_isnonzero_iff by (fastforce simp: ge_x_of_y_def Let_def)
qed

section \<open>The points with a given ordinate\<close>

lemma curve_x_square:
  assumes "edw.curve (a, y)" "edw.curve (b, y)"
  shows "a = b \<or> a = - b"
proof (rule fp_square_pm)
  have eqs: "y * y - a * a = 1 + fp_d * a * a * y * y" "y * y - b * b = 1 + fp_d * b * b * y * y"
    using assms by (simp_all add: edw.curve_def)
  have "(a * a - b * b) * (1 + fp_d * y * y) = 0"
    using eqs by algebra
  moreover have "1 + fp_d * y * y \<noteq> 0"
  proof
    assume 0: "1 + fp_d * y * y = 0"
    then have y: "y \<noteq> 0" by auto
    have "(fp_i / y) * (fp_i / y) = fp_d"
      using 0 y fp_i_sq by (simp add: field_simps) algebra
    then show False
      using fp_d_nonsquare by blast
  qed
  ultimately show "a * a = b * b"
    by simp
qed

lemma on_curve_x_unique:
  assumes "on_curve x y" "on_curve x' y'" "eqm p25519 y y'" "x mod p25519 mod 2 = x' mod p25519 mod 2"
  shows "eqm p25519 x x'"
proof -
  have "(of_int y :: fp) = of_int y'"
    using assms(3) by (simp add: of_int_fp_eq)
  then have "(of_int x :: fp) = of_int x' \<or> (of_int x :: fp) = - of_int x'"
    using curve_x_square assms(1,2) unfolding on_curve_fp by metis
  then consider "eqm p25519 x x'" | "eqm p25519 x (- x')"
    unfolding of_int_fp_eq [symmetric] by auto
  then show ?thesis
  proof cases
    case 2
    show ?thesis
    proof (cases "eqm p25519 x' 0")
      case True
      then show ?thesis
        using 2 eqm_minus [OF True] eqm_trans eqm_sym by (metis minus_zero)
    next
      case False
      then have "x mod p25519 mod 2 = 1 - x' mod p25519 mod 2"
        using 2 neg_mod_parity [OF False] by (simp add: eqm_def)
      then have False
        using assms(4) by (cases "odd (x' mod p25519)") (simp_all add: mod_2_eq_odd)
      then show ?thesis ..
    qed
  qed
qed

section \<open>The encoding of a point\<close>

definition ed_encode :: "ed_point \<Rightarrow> byte list" where
  "ed_encode g = (case Rep_ed_point g of (x, y) \<Rightarrow> le_bytes 32 (Rep_fp y + 2 ^ 255 * (Rep_fp x mod 2)))"

lemma ed_encode_coords:
  "coords g x y \<Longrightarrow> ed_encode g = le_bytes 32 (y mod p25519 + 2 ^ 255 * (x mod p25519 mod 2))"
  by (simp add: ed_encode_def coords_def Rep_fp_of_int)

lemma length_ed_encode [simp]: "length (ed_encode g) = 32"
  by (simp add: ed_encode_def split_beta)

lemma le_val_encode:
  fixes x y :: int
  defines "V \<equiv> y mod p25519 + 2 ^ 255 * (x mod p25519 mod 2)"
  shows "le_val (le_bytes 32 V) = V" "V mod 2 ^ 255 = y mod p25519" "V div 2 ^ 255 = x mod p25519 mod 2"
proof -
  have y: "0 \<le> y mod p25519" "y mod p25519 < 2 ^ 255"
    using pos_mod_bound [of p25519 y] by (simp_all add: p25519_def)
  have b: "x mod p25519 mod 2 = 0 \<or> x mod p25519 mod 2 = 1"
    by (simp add: mod_2_eq_odd)
  have "0 \<le> V" "V < 2 ^ 256"
    using y b by (auto simp: V_def)
  then show "le_val (le_bytes 32 V) = V"
    by (simp add: le_val_le_bytes)
  show "V mod 2 ^ 255 = y mod p25519" "V div 2 ^ 255 = x mod p25519 mod 2"
    using y by (simp_all add: V_def)
qed

lemma ed_encode_inject: "ed_encode g = ed_encode h \<longleftrightarrow> g = h"
proof
  assume eq: "ed_encode g = ed_encode h"
  obtain x y x' y' where c: "coords g x y" "coords h x' y'"
    using coords_exist by metis
  note e = ed_encode_coords [OF c(1)] ed_encode_coords [OF c(2)]
  have "eqm p25519 y y'" "x mod p25519 mod 2 = x' mod p25519 mod 2"
    using eq le_val_encode [of y x] le_val_encode [of y' x'] unfolding e eqm_def by metis+
  moreover from this have "eqm p25519 x x'"
    using on_curve_x_unique [OF coords_on_curve [OF c(1)] coords_on_curve [OF c(2)]] by blast
  ultimately show "g = h"
    using coords_unique [OF _ c(2)] coords_eqm [OF c(1)] by blast
qed simp

lemma ge_tobytes_encode: "pt2 g h \<Longrightarrow> ge_tobytes h = ed_encode g"
  unfolding pt2_def using ge_tobytes_eq p2_rep_wide eqm_inverse ed_encode_coords by metis

lemma ge_p3_tobytes_encode: "pt3 g h \<Longrightarrow> ge_p3_tobytes h = ed_encode g"
  unfolding pt3_def using ge_p3_tobytes_eq eqm_inverse ed_encode_coords by metis

section \<open>The decoder\<close>

lemma decode_sound:
  assumes "length s = 32" "ge_frombytes_vartime s = Some P"
  shows "\<exists>g. pt3 g P \<and> ed_encode g = s"
proof -
  obtain x where x: "p3_rep P x (le_val s mod 2 ^ 255) 1" "on_curve x (le_val s mod 2 ^ 255)"
    using ge_frombytes_sound [OF assms] by blast
  then obtain g where "pt3 g P"
    using pt3I [OF x(2) _ x(1)] by auto
  then show ?thesis
    using ge_p3_tobytes_encode ge_frombytes_roundtrip [OF assms] by metis
qed

lemma ge_fix_sign_complete:
  assumes X: "fe_rep 101 X x" and sg: "sg = word_of_int b" "b = 0 \<or> b = 1" and x: "eqm p25519 x 0 \<longrightarrow> b = 0"
  shows "\<exists>X'. ge_fix_sign X sg = Some X'"
proof -
  have "fe_isnegative X = (if odd (x mod p25519) then 1 else 0)"
    using fe_rep_isnegative [OF X] by simp
  moreover have "fe_isnonzero X = 0 \<longleftrightarrow> eqm p25519 x 0"
    using fe_isnonzero_iff [OF X] by simp
  ultimately show ?thesis
    using sg x by (auto simp: ge_fix_sign_def eqm_def)
qed

lemma curve_equation_iff: "on_curve x y \<longleftrightarrow> eqm p25519 (x * x * (y\<^sup>2 * ed_d + 1)) (y\<^sup>2 - 1)"
proof -
  have "y\<^sup>2 - x\<^sup>2 - (1 + ed_d * x\<^sup>2 * y\<^sup>2) = - (x * x * (y\<^sup>2 * ed_d + 1) - (y\<^sup>2 - 1))"
    by algebra
  then show ?thesis
    unfolding on_curve_def eqm_dvd by (simp only: dvd_minus_iff)
qed

lemma on_curve_x_zero:
  assumes "on_curve x y" "on_curve x' y" "eqm p25519 x' 0"
  shows "eqm p25519 x 0"
proof -
  have "(of_int x' :: fp) = 0"
    using assms(3) by (simp add: of_int_fp_eq [symmetric])
  then have "(of_int x :: fp) = 0"
    using curve_x_square [of "of_int x" "of_int y" "of_int x'"] assms(1,2) by (auto simp: on_curve_fp)
  then show ?thesis
    by (simp add: of_int_fp_eq [symmetric])
qed

lemma decode_complete: "\<exists>P. ge_frombytes_vartime (ed_encode g) = Some P \<and> pt3 g P"
proof -
  let ?s = "ed_encode g"
  obtain x0 y0 where c0: "coords g x0 y0"
    using coords_exist by blast
  define x where "x = x0 mod p25519"
  define y where "y = y0 mod p25519"
  have c: "coords g x y"
    using coords_eqm [OF c0] by (simp add: x_def y_def)
  have y: "le_val ?s mod 2 ^ 255 = y" "le_val ?s div 2 ^ 255 = x mod 2"
    using le_val_encode [of y0 x0] unfolding ed_encode_coords [OF c0] x_def y_def by simp_all
  have yp: "y < p25519"
    by (simp add: y_def)
  let ?Y = "fe_frombytes (fe_loads_255 ?s)"
  let ?u = "fe_sub (fe_sq ?Y) fe_1" and ?v = "fe_add (fe_mul (fe_sq ?Y) fe_d) fe_1"
  have uv: "fe_rep 102 ?u (y\<^sup>2 - 1)" "fe_rep 102 ?v (y\<^sup>2 * ed_d + 1)"
    using ge_uv_rep(2,3) [of ?s] unfolding y by simp_all
  obtain X where X: "ge_x_of_y ?u ?v = Some X"
    using ge_x_of_y_complete [OF uv] coords_on_curve [OF c] unfolding curve_equation_iff by blast
  obtain x' where x': "fe_rep 101 X x'" "on_curve x' y"
    using ge_x_of_y_sound [OF uv X] unfolding curve_equation_iff by (auto simp: power2_eq_square)
  have "eqm p25519 x' 0 \<longrightarrow> x mod 2 = 0"
    using on_curve_x_zero [OF coords_on_curve [OF c] x'(2)] by (auto simp: eqm_def x_def)
  then obtain X' where "ge_fix_sign X (drop_bit 7 (?s ! 31)) = Some X'"
    using ge_fix_sign_complete [OF x'(1) top_bit [of ?s]] unfolding y by auto
  then obtain P where P: "ge_frombytes_vartime ?s = Some P"
    using X yp y(1) fe_noncanonical_eq [of ?s] by (auto simp: ge_frombytes_vartime_def Let_def)
  then show ?thesis
    using decode_sound [OF length_ed_encode P] ed_encode_inject by metis
qed

end
