(* ===== verification/Signatures.thy ===== *)
theory Signatures
  imports Keccak BaseMult PointCodec
begin

text \<open>
  Signatures and key derivation of \<^verbatim>\<open>src/base/tools/cryptonote/Signatures.cpp\<close>, over the scalars, the points and the
  hash function of the other theories.  The hash function is the argument \<open>H\<close> of the definitions, which the program
  instantiates with \<open>keccak_256\<close>.  The random bytes of \<^verbatim>\<open>Cvt::randomBytes\<close> are an argument too: one block of 32
  bytes for each call.  A function that returns \<^verbatim>\<open>false\<close> returns \<open>None\<close>.
\<close>

text \<open>The call \<^verbatim>\<open>keccak\<close> with a digest of 32 bytes.  What its array \<open>temp\<close> holds at the start does not matter (\<open>keccak_256_temp\<close>).\<close>

definition keccak_256 :: "byte list \<Rightarrow> byte list" where
  "keccak_256 m = (case keccak (replicate 144 0) m 32 of Some (Inr h) \<Rightarrow> h | _ \<Rightarrow> [])"

lemma keccak_256_temp: "length temp = 144 \<Longrightarrow> keccak temp m 32 = Some (Inr (keccak_256 m)) \<and> length (keccak_256 m) = 32"
  using keccak_32 [of temp m] keccak_sponge_eq [of temp 32 m] keccak_sponge_eq [of "replicate 144 0" 32 m]
  by (auto simp: keccak_256_def)

record signature =
  sig_c :: "byte list"
  sig_r :: "byte list"

definition random_scalar :: "byte list \<Rightarrow> byte list" where
  "random_scalar rnd = sc_reduce32 rnd"

definition hash_to_scalar :: "(byte list \<Rightarrow> byte list) \<Rightarrow> byte list \<Rightarrow> byte list" where
  "hash_to_scalar H m = sc_reduce32 (H m)"

lemma unat_drop_bit_7: "unat (drop_bit 7 (k :: i64)) = unat k div 128"
  unfolding unat_drop_bit_eq by (simp add: drop_bit_eq_div)

lemma word_128_le: "0x80 \<le> (k :: i64) \<longleftrightarrow> 128 \<le> unat k"
  by (simp add: word_le_nat_alt)

text \<open>The loop of \<open>derivation_to_scalar\<close> that writes the output index.\<close>

function varint :: "i64 \<Rightarrow> byte list" where
  "varint k = (if 0x80 \<le> k then ((ucast k AND 0x7F) OR 0x80) # varint (drop_bit 7 k) else [ucast k])"
  by pat_completeness auto

termination
  by (relation "measure unat") (auto simp: unat_drop_bit_7 word_128_le)

declare varint.simps [simp del]

definition derivation_to_scalar :: "(byte list \<Rightarrow> byte list) \<Rightarrow> byte list \<Rightarrow> i64 \<Rightarrow> byte list" where
  "derivation_to_scalar H derivation output_index = hash_to_scalar H (derivation @ varint output_index)"

text \<open>
  The loop of \<open>generate_signature\<close>, with the random blocks that are left and the field \<open>r\<close> of the signature, which keeps
  its value where the loop is continued after a zero \<open>c\<close>; the condition of the loop is tested then, too.
\<close>

fun generate_signature_loop ::
  "(byte list \<Rightarrow> byte list) \<Rightarrow> byte list \<Rightarrow> byte list \<Rightarrow> byte list \<Rightarrow> byte list list \<Rightarrow> byte list \<Rightarrow> signature option" where
  "generate_signature_loop H prefix_hash pub sec [] r = None"
| "generate_signature_loop H prefix_hash pub sec (rnd # rnds) r =
     (let k = random_scalar rnd;
          tmp3 = ge_scalarmult_base k;
          comm = ge_p3_tobytes tmp3;
          c = hash_to_scalar H (prefix_hash @ pub @ comm);
          r = if sc_isnonzero c = 0 then r else sc_mulsub c sec k
      in if sc_isnonzero r = 0 then generate_signature_loop H prefix_hash pub sec rnds r
         else Some \<lparr>sig_c = c, sig_r = r\<rparr>)"

declare generate_signature_loop.simps(2) [simp del]

definition generate_signature ::
  "(byte list \<Rightarrow> byte list) \<Rightarrow> byte list \<Rightarrow> byte list \<Rightarrow> byte list \<Rightarrow> byte list list \<Rightarrow> signature \<Rightarrow> signature option" where
  "generate_signature H prefix_hash pub sec rnds sig = generate_signature_loop H prefix_hash pub sec rnds (sig_r sig)"

definition infinity :: "byte list" where
  "infinity = 1 # replicate 31 0"

definition check_signature :: "(byte list \<Rightarrow> byte list) \<Rightarrow> byte list \<Rightarrow> byte list \<Rightarrow> signature \<Rightarrow> bool" where
  "check_signature H prefix_hash pub sig =
     (case ge_frombytes_vartime pub of
        None \<Rightarrow> False
      | Some tmp3 \<Rightarrow>
          if sc_check (sig_c sig) \<noteq> 0 \<or> sc_check (sig_r sig) \<noteq> 0 \<or> sc_isnonzero (sig_c sig) = 0 then False
          else let tmp2 = ge_double_scalarmult_base_vartime (sig_c sig) tmp3 (sig_r sig);
                   comm = ge_tobytes tmp2
               in if comm = infinity then False
                  else let c = hash_to_scalar H (prefix_hash @ pub @ comm);
                           c = sc_sub c (sig_c sig)
                       in sc_isnonzero c = 0)"

text \<open>\<open>want_tag\<close> says that \<^verbatim>\<open>view_tag\<close> is not \<^verbatim>\<open>NULL\<close>.\<close>

definition view_tag_salt :: "byte list" where
  "view_tag_salt = [0x76, 0x69, 0x65, 0x77, 0x5f, 0x74, 0x61, 0x67]"

definition generate_key_derivation ::
  "(byte list \<Rightarrow> byte list) \<Rightarrow> byte list \<Rightarrow> byte list \<Rightarrow> bool \<Rightarrow> (byte list \<times> byte option) option" where
  "generate_key_derivation H key1 key2 want_tag =
     (case ge_frombytes_vartime key1 of
        None \<Rightarrow> None
      | Some point \<Rightarrow>
          let point2 = ge_scalarmult key2 point;
              point3 = ge_mul8 point2;
              point2 = ge_p1p1_to_p2 point3;
              derivation = ge_tobytes point2
          in Some (derivation, if want_tag then Some (H (view_tag_salt @ derivation @ [0]) ! 0) else None))"

definition derive_secret_key :: "(byte list \<Rightarrow> byte list) \<Rightarrow> byte list \<Rightarrow> i64 \<Rightarrow> byte list \<Rightarrow> byte list" where
  "derive_secret_key H derivation output_index base = sc_add base (derivation_to_scalar H derivation output_index)"

definition derive_public_key :: "(byte list \<Rightarrow> byte list) \<Rightarrow> byte list \<Rightarrow> i64 \<Rightarrow> byte list \<Rightarrow> byte list option" where
  "derive_public_key H derivation output_index base =
     (case ge_frombytes_vartime base of
        None \<Rightarrow> None
      | Some point1 \<Rightarrow>
          let scalar = derivation_to_scalar H derivation output_index;
              point2 = ge_scalarmult_base scalar;
              point3 = ge_p3_to_cached point2;
              point4 = ge_add point1 point3;
              point5 = ge_p1p1_to_p2 point4
          in Some (ge_tobytes point5))"

definition derive_view_secret_key :: "(byte list \<Rightarrow> byte list) \<Rightarrow> byte list \<Rightarrow> byte list" where
  "derive_view_secret_key H spend_secret_key = sc_reduce32 (H spend_secret_key)"

definition generate_keys :: "byte list \<Rightarrow> byte list \<times> byte list" where
  "generate_keys rnd = (let sec = random_scalar rnd in (ge_p3_tobytes (ge_scalarmult_base sec), sec))"

definition secret_key_to_public_key :: "byte list \<Rightarrow> byte list option" where
  "secret_key_to_public_key sec =
     (if sc_check sec \<noteq> 0 then None else Some (ge_p3_tobytes (ge_scalarmult_base sec)))"

section \<open>Scalars and points of the interface\<close>

lemma scalar_small:
  assumes "length a = 32" "le_val a < l25519"
  shows "le_val a < 2 ^ 255" "uint (a ! 31) \<le> 127"
proof -
  show *: "le_val a < 2 ^ 255"
    using assms(2) by (simp add: l25519_def)
  have "drop 31 a = [a ! 31]"
    using assms(1) Cons_nth_drop_Suc [of 31 a] by simp
  then have "le_val (drop 31 a) = uint (a ! 31)"
    by simp
  then have "uint (a ! 31) = le_val a div 2 ^ 248"
    using le_val_drop [of 31 a] assms(1) by simp
  then show "uint (a ! 31) \<le> 127"
    using * by (simp add: div_le_mono)
qed

lemma public_key_encode:
  assumes "length a = 32" "le_val a < l25519"
  shows "ge_p3_tobytes (ge_scalarmult_base a) = ed_encode (imult (le_val a) ed_base)"
  using ge_p3_tobytes_encode scalarmult_base_ed_base assms scalar_small by blast

lemma ed_encode_0: "ed_encode 0 = infinity"
proof -
  have "ed_encode 0 = le_bytes 32 1"
    using ed_encode_coords [OF coords_0] by (simp add: p25519_def)
  also have "\<dots> = infinity"
    by code_simp
  finally show ?thesis .
qed

lemma random_scalar_eq:
  assumes "length b = 32"
  shows "length (random_scalar b) = 32" "le_val (random_scalar b) = le_val b mod l25519"
    "le_val (random_scalar b) < l25519"
  using le_bytes_mod_l [of "le_val b"] by (simp_all add: random_scalar_def sc_reduce32_eq assms)

lemma decode_None:
  assumes "ge_frombytes_vartime s = None"
  shows "s \<noteq> ed_encode g"
proof
  assume "s = ed_encode g"
  moreover obtain P where "ge_frombytes_vartime (ed_encode g) = Some P"
    using decode_complete by blast
  ultimately show False
    using assms by simp
qed

lemma sub_zero_iff:
  assumes "length a = 32" "length b = 32" "le_val a < l25519" "le_val b < l25519"
  shows "sc_isnonzero (sc_sub a b) = 0 \<longleftrightarrow> a = b"
proof -
  have "sc_isnonzero (sc_sub a b) = 0 \<longleftrightarrow> (le_val a - le_val b) mod l25519 = 0"
    using le_bytes_mod_l [of "le_val a - le_val b"] by (simp add: sc_sub_eq assms(1,2) sc_isnonzero_eq)
  also have "\<dots> \<longleftrightarrow> le_val a mod l25519 = le_val b mod l25519"
    by (simp add: mod_eq_dvd_iff dvd_eq_mod_eq_0)
  also have "\<dots> \<longleftrightarrow> a = b"
    using assms le_val_inj [of a b] by auto
  finally show ?thesis .
qed

text \<open>The signature made in a round with the random scalar \<open>k\<close>.\<close>

definition signed_with :: "(byte list \<Rightarrow> byte list) \<Rightarrow> byte list \<Rightarrow> byte list \<Rightarrow> byte list \<Rightarrow> int \<Rightarrow> signature \<Rightarrow> bool" where
  "signed_with H h pub sec k sig \<longleftrightarrow>
     sig_c sig = hash_to_scalar H (h @ pub @ ed_encode (imult k ed_base))
     \<and> sig_r sig = le_bytes 32 ((k - le_val (sig_c sig) * le_val sec) mod l25519)"

section \<open>The interface of the hash function\<close>

text \<open>Of the hash function only the length of its result matters.\<close>

locale digest_32 =
  fixes H :: "byte list \<Rightarrow> byte list"
  assumes length_digest: "length (H m) = 32"
begin

lemma hash_to_scalar_eq: "hash_to_scalar H m = le_bytes 32 (le_val (H m) mod l25519)"
  by (simp add: hash_to_scalar_def sc_reduce32_eq length_digest)

lemma hash_to_scalar_reduced:
  "length (hash_to_scalar H m) = 32" "le_val (hash_to_scalar H m) < l25519"
  using le_bytes_mod_l [of "le_val (H m)"] by (simp_all add: hash_to_scalar_eq)

lemma check_signature_iff:
  assumes len: "length pub = 32" "length (sig_c sig) = 32" "length (sig_r sig) = 32"
  shows "check_signature H h pub sig \<longleftrightarrow>
    (\<exists>g. pub = ed_encode g \<and> 0 < le_val (sig_c sig) \<and> le_val (sig_c sig) < l25519 \<and> le_val (sig_r sig) < l25519
      \<and> imult (le_val (sig_c sig)) g + imult (le_val (sig_r sig)) ed_base \<noteq> 0
      \<and> sig_c sig = hash_to_scalar H (h @ pub @ ed_encode
          (imult (le_val (sig_c sig)) g + imult (le_val (sig_r sig)) ed_base)))"
proof (cases "ge_frombytes_vartime pub")
  case None
  then show ?thesis
    using decode_None [OF None] by (simp only: check_signature_def option.case) blast
next
  case (Some P)
  then obtain g where g: "pt3 g P" "ed_encode g = pub"
    using decode_sound len(1) by blast
  have u: "pub = ed_encode g' \<longleftrightarrow> g' = g" for g'
    using g(2) ed_encode_inject by auto
  let ?c = "le_val (sig_c sig)" and ?r = "le_val (sig_r sig)"
  let ?X = "imult ?c g + imult ?r ed_base"
  show ?thesis
  proof (cases "0 < ?c \<and> ?c < l25519 \<and> ?r < l25519")
    case True
    then have "ge_tobytes (ge_double_scalarmult_base_vartime (sig_c sig) P (sig_r sig)) = ed_encode ?X"
      using double_base_ed_base [OF g(1) len(2) _ len(3)] scalar_small(1) len(2,3) by (intro ge_tobytes_encode) blast
    then have "check_signature H h pub sig \<longleftrightarrow> \<not> ed_encode ?X = infinity
        \<and> sc_isnonzero (sc_sub (hash_to_scalar H (h @ pub @ ed_encode ?X)) (sig_c sig)) = 0"
      using True by (simp add: check_signature_def Some Let_def sc_check_eq sc_isnonzero_eq len(2,3))
    also have "\<dots> \<longleftrightarrow> ?X \<noteq> 0 \<and> hash_to_scalar H (h @ pub @ ed_encode ?X) = sig_c sig"
      using True unfolding ed_encode_0 [symmetric] ed_encode_inject
      by (intro conj_cong refl sub_zero_iff hash_to_scalar_reduced len) blast
    finally show ?thesis
      using True u by (metis (no_types, lifting))
  next
    case False
    then show ?thesis
      using le_val_nonneg [of "sig_c sig"]
      by (auto simp: check_signature_def Some u sc_check_eq sc_isnonzero_eq len less_le)
  qed
qed

lemma round_eq:
  fixes h pub r :: "byte list"
  assumes "length b = 32" "length sec = 32"
  defines "k \<equiv> le_val b mod l25519"
  defines "c \<equiv> hash_to_scalar H (h @ pub @ ed_encode (imult k ed_base))"
  defines "r' \<equiv> if le_val c = 0 then r else le_bytes 32 ((k - le_val c * le_val sec) mod l25519)"
  shows "generate_signature_loop H h pub sec (b # bs) r =
    (if sc_isnonzero r' = 0 then generate_signature_loop H h pub sec bs r' else Some \<lparr>sig_c = c, sig_r = r'\<rparr>)"
proof -
  note k = random_scalar_eq [OF assms(1)]
  have "hash_to_scalar H (h @ pub @ ge_p3_tobytes (ge_scalarmult_base (random_scalar b))) = c"
    by (simp add: public_key_encode [OF k(1,3)] k(2) c_def k_def)
  moreover have "sc_mulsub c sec (random_scalar b) = le_bytes 32 ((k - le_val c * le_val sec) mod l25519)"
    using hash_to_scalar_reduced(1) by (simp add: sc_mulsub_eq assms(2) k c_def k_def)
  moreover have "sc_isnonzero c = 0 \<longleftrightarrow> le_val c = 0"
    by (simp add: sc_isnonzero_eq hash_to_scalar_reduced(1) c_def)
  ultimately show ?thesis
    by (simp add: r'_def Let_def generate_signature_loop.simps(2))
qed

lemma loop_signed:
  assumes "generate_signature_loop H h pub sec bs r = Some sig" "\<forall>b\<in>set bs. length b = 32" "length sec = 32"
    "le_val (sig_c sig) \<noteq> 0"
  shows "\<exists>b\<in>set bs. signed_with H h pub sec (le_val b mod l25519) sig"
  using assms
proof (induction bs arbitrary: r)
  case (Cons b bs)
  have "length b = 32"
    using Cons.prems(2) by simp
  note eq = round_eq [OF this Cons.prems(3), of h pub bs r]
  show ?case
  proof (cases "\<exists>r'. generate_signature_loop H h pub sec bs r' = Some sig")
    case True
    then show ?thesis
      using Cons.IH Cons.prems(2-4) by auto
  next
    case False
    then have "signed_with H h pub sec (le_val b mod l25519) sig"
      using Cons.prems(1,4) unfolding eq by (auto simp: signed_with_def split: if_splits)
    then show ?thesis
      by simp
  qed
qed simp

lemma signed_accepted:
  assumes "length sec = 32" "signed_with H h pub sec k sig" "le_val (sig_c sig) \<noteq> 0" "\<not> l25519 dvd k"
    "pub = ed_encode (imult (le_val sec) ed_base)"
  shows "check_signature H h pub sig"
proof -
  let ?c = "le_val (sig_c sig)" and ?r = "le_val (sig_r sig)"
  have len: "length (sig_c sig) = 32" "length (sig_r sig) = 32" "length pub = 32"
    using assms(2,5) hash_to_scalar_reduced(1) by (simp_all add: signed_with_def)
  have r: "?r = (k - ?c * le_val sec) mod l25519"
    using assms(2) by (simp add: signed_with_def le_bytes_mod_l)
  have "imult ?c (imult (le_val sec) ed_base) + imult ?r ed_base = imult k ed_base"
    unfolding r imult_mod_l by (simp add: imult_diff imult_mult)
  moreover have "imult k ed_base \<noteq> 0"
    using assms(4) by (simp add: base_order_iff)
  moreover have "0 < ?c"
    using assms(3) le_val_nonneg [of "sig_c sig"] by linarith
  moreover have "?c < l25519"
    using assms(2) hash_to_scalar_reduced(2) by (simp add: signed_with_def)
  moreover have "?r < l25519"
    unfolding r by simp
  ultimately show ?thesis
    unfolding check_signature_iff [OF len(3,1,2)] using assms(2,5)
    by (intro exI [of _ "imult (le_val sec) ed_base"]) (simp add: signed_with_def)
qed

text \<open>A block with a usable challenge ends the loop.\<close>

lemma loop_returns:
  fixes h pub r :: "byte list"
  assumes "\<forall>b\<in>set bs. length b = 32" "length sec = 32" "b \<in> set bs"
  defines "k \<equiv> le_val b mod l25519"
  defines "c \<equiv> le_val (hash_to_scalar H (h @ pub @ ed_encode (imult k ed_base)))"
  assumes "c \<noteq> 0" "\<not> l25519 dvd k - c * le_val sec"
  shows "\<exists>sig. generate_signature_loop H h pub sec bs r = Some sig"
  using assms(1,3)
proof (induction bs arbitrary: r)
  case (Cons a bs)
  have "length a = 32"
    using Cons.prems(1) by simp
  note eq = round_eq [OF this assms(2), of h pub bs r]
  show ?case
  proof (cases "a = b")
    case True
    have "(k - c * le_val sec) mod l25519 \<noteq> 0"
      using assms(7) by (simp add: dvd_eq_mod_eq_0)
    then have "sc_isnonzero (le_bytes 32 ((k - c * le_val sec) mod l25519)) \<noteq> 0"
      by (simp add: sc_isnonzero_eq le_bytes_mod_l)
    then show ?thesis
      using assms(6) True unfolding eq by (simp add: k_def c_def)
  next
    case False
    then have "b \<in> set bs" "\<forall>b\<in>set bs. length b = 32"
      using Cons.prems by auto
    then show ?thesis
      unfolding eq using Cons.IH by (simp add: Let_def)
  qed
qed simp

end

interpretation kk: digest_32 keccak_256
  using keccak_256_temp [of "replicate 144 0"] by unfold_locales simp

end
