(* ===== verification/SignatureProps.thy ===== *)
theory SignatureProps
  imports Signatures
begin

text \<open>
  The properties of signatures and of key derivation: what a check accepts, that a generated signature is accepted, that
  both parties of a payment derive the same keys, and the encoding of the output index.
\<close>

section \<open>The output index\<close>

text \<open>A reader of the encoding: the number and the bytes after it.\<close>

fun varint_decode :: "byte list \<Rightarrow> (nat \<times> byte list) option" where
  "varint_decode [] = None"
| "varint_decode (b # bs) =
     (if unat b < 128 then Some (unat b, bs)
      else case varint_decode bs of None \<Rightarrow> None | Some (n, rest) \<Rightarrow> Some (unat b - 128 + 128 * n, rest))"

lemma seven_bits: "unat ((b AND 0x7F) OR 0x80 :: byte) = unat b mod 128 + 128"
proof -
  have "list_all (\<lambda>n. unat ((word_of_int n AND 0x7F) OR 0x80 :: byte) = nat n mod 128 + 128) [0..255]"
    by code_simp
  moreover have "uint b \<in> set [0..255]"
    using uint_byte_range [of b] by (simp del: upto_rec_numeral)
  ultimately have "unat ((word_of_int (uint b) AND 0x7F) OR 0x80 :: byte) = nat (uint b) mod 128 + 128"
    unfolding list_all_iff by (rule bspec)
  then show ?thesis
    by simp
qed

lemma unat_low_byte: "unat (ucast (k :: i64) :: byte) = unat k mod 256"
  by (simp add: unsigned_ucast_eq take_bit_nat_def)

lemma varint_decode_varint: "varint_decode (varint k @ rest) = Some (unat k, rest)"
proof (induction k rule: varint.induct)
  case (1 k)
  show ?case
  proof (cases "128 \<le> unat k")
    case True
    then have "varint_decode (varint (drop_bit 7 k) @ rest) = Some (unat k div 128, rest)"
      using 1 by (simp add: word_128_le unat_drop_bit_7)
    moreover have "unat k mod 256 mod 128 = unat k mod 128"
      by (simp add: mod_mod_cancel)
    ultimately show ?thesis
      using True by (simp add: varint.simps [of k] word_128_le seven_bits unat_low_byte)
  next
    case False
    then show ?thesis
      by (simp add: varint.simps [of k] word_128_le unat_low_byte)
  qed
qed

lemma length_varint: "unat k < 128 ^ Suc n \<Longrightarrow> length (varint k) \<le> Suc n"
proof (induction n arbitrary: k)
  case 0
  then show ?case
    by (simp add: varint.simps [of k] word_128_le)
next
  case (Suc n)
  then have "unat (drop_bit 7 k) < 128 ^ Suc n"
    by (simp add: unat_drop_bit_7 less_mult_imp_div_less mult.commute)
  then show ?case
    using Suc.IH by (simp add: varint.simps [of k])
qed

text \<open>
  C35. The output index in \<open>derivation_to_scalar\<close>: the loop ends for every 64-bit index and writes at most 10 bytes, the
  size of its buffer, and the index can be read back from them, whatever follows.
\<close>

theorem varint_bounded:
  "1 \<le> length (varint k) \<and> length (varint k) \<le> 10 \<and> varint_decode (varint k @ rest) = Some (unat k, rest)"
proof -
  have "unat k < 2 ^ 64"
    using unsigned_less [of k] by simp
  then have "unat k < 128 ^ Suc 9"
    by simp
  moreover have "varint k \<noteq> []"
    by (simp add: varint.simps [of k])
  ultimately show ?thesis
    using length_varint [of k 9] varint_decode_varint by (simp add: Suc_le_eq)
qed

section \<open>Key pairs\<close>

lemma secret_key_to_public_key_eq:
  assumes "length sec = 32"
  shows "secret_key_to_public_key sec =
    (if le_val sec < l25519 then Some (ed_encode (imult (le_val sec) ed_base)) else None)"
  using assms by (simp add: secret_key_to_public_key_def sc_check_eq public_key_encode)

text \<open>
  C26. \<open>secret_key_to_public_key\<close> fails exactly if the secret key is not reduced modulo the group order, and different
  secret keys have different public keys.  \<open>generate_keys\<close> returns a reduced secret key with its public key.
\<close>

theorem key_pairs:
  assumes "length a = 32" "length b = 32"
  shows "(secret_key_to_public_key a = None \<longleftrightarrow> l25519 \<le> le_val a)
    \<and> (secret_key_to_public_key a = secret_key_to_public_key b \<and> secret_key_to_public_key a \<noteq> None \<longrightarrow> a = b)
    \<and> (case generate_keys a of (pub, sec) \<Rightarrow> sc_check sec = 0 \<and> secret_key_to_public_key sec = Some pub)"
proof (intro conjI)
  show "secret_key_to_public_key a = None \<longleftrightarrow> l25519 \<le> le_val a"
    by (simp add: secret_key_to_public_key_eq assms not_less)
  show "secret_key_to_public_key a = secret_key_to_public_key b \<and> secret_key_to_public_key a \<noteq> None \<longrightarrow> a = b"
    using assms le_val_inj [of a b] eqm_unique [of l25519 "le_val a" "le_val b"]
    by (auto simp: secret_key_to_public_key_eq ed_encode_inject imult_base_eq_iff split: if_splits)
  note k = random_scalar_eq [OF assms(1)]
  show "case generate_keys a of (pub, sec) \<Rightarrow> sc_check sec = 0 \<and> secret_key_to_public_key sec = Some pub"
    using k by (simp add: generate_keys_def Let_def secret_key_to_public_key_def sc_check_eq)
qed

theorem key_pairs_witness:
  "secret_key_to_public_key (replicate 32 255) = None
    \<and> (case generate_keys (replicate 32 85) of (pub, sec) \<Rightarrow> secret_key_to_public_key sec = Some pub)"
proof -
  have "l25519 \<le> le_val (replicate 32 255)"
    by code_simp
  then show ?thesis
    using key_pairs [of "replicate 32 255" "replicate 32 85"] key_pairs [of "replicate 32 85" "replicate 32 85"]
    by (simp add: split_beta)
qed

section \<open>Signatures\<close>

text \<open>
  C6. \<open>check_signature\<close> accepts exactly the Schnorr signatures: the public key is the encoding of a point \<open>g\<close>, \<open>c\<close> and \<open>r\<close> are
  reduced scalars, \<open>c\<close> is not 0, the commitment \<open>c * g + r * B\<close> is not the neutral element, and \<open>c\<close> is the hash of the
  message, the public key and the encoded commitment.  Everything else is rejected.
\<close>

theorem check_signature_spec:
  assumes "length pub = 32" "length (sig_c sig) = 32" "length (sig_r sig) = 32"
  shows "check_signature keccak_256 h pub sig \<longleftrightarrow>
    (\<exists>g. pub = ed_encode g \<and> 0 < le_val (sig_c sig) \<and> le_val (sig_c sig) < l25519 \<and> le_val (sig_r sig) < l25519
      \<and> imult (le_val (sig_c sig)) g + imult (le_val (sig_r sig)) ed_base \<noteq> 0
      \<and> sig_c sig = hash_to_scalar keccak_256 (h @ pub @ ed_encode
          (imult (le_val (sig_c sig)) g + imult (le_val (sig_r sig)) ed_base)))"
  by (rule kk.check_signature_iff [OF assms])

theorem check_signature_spec_witness:
  "\<not> check_signature keccak_256 [] infinity \<lparr>sig_c = replicate 32 0, sig_r = replicate 32 1\<rparr>"
  using check_signature_spec [of infinity "\<lparr>sig_c = replicate 32 0, sig_r = replicate 32 1\<rparr>" "[]"]
  by (simp add: infinity_def le_val_replicate_0)

text \<open>Small scalars, and a hash function that always returns 1, for examples.\<close>

definition small_scalar :: "byte \<Rightarrow> byte list" where
  "small_scalar b = b # replicate 31 0"

lemma small_scalar: "length (small_scalar b) = 32" "le_val (small_scalar b) = uint b"
  by (simp_all add: small_scalar_def le_val_replicate_0)

lemma small_mod: "uint (b :: byte) mod l25519 = uint b"
  using uint_byte_range [of b] by (intro mod_pos_pos_trivial) (simp_all add: l25519_def)

lemma hash_example: "digest_32 (\<lambda>m. small_scalar b)" "hash_to_scalar (\<lambda>m. small_scalar b) m = small_scalar b"
proof -
  show d: "digest_32 (\<lambda>m. small_scalar b)"
    by unfold_locales (rule small_scalar)
  have "small_scalar b = le_bytes 32 (uint b)"
    using le_bytes_le_val [of "small_scalar b"] by (simp add: small_scalar)
  then show "hash_to_scalar (\<lambda>m. small_scalar b) m = small_scalar b"
    unfolding digest_32.hash_to_scalar_eq [OF d] small_scalar(2) small_mod by (rule sym)
qed

lemma sign_example:
  "\<exists>sig. generate_signature (\<lambda>m. small_scalar 1) [] pub (small_scalar 2) [small_scalar 5] sig0 = Some sig
    \<and> le_val (sig_c sig) = 1"
  using small_mod [of 5] small_mod [of 3]
  by (simp add: generate_signature_def digest_32.round_eq [OF hash_example(1) small_scalar(1) small_scalar(1)]
    hash_example(2) small_scalar sc_isnonzero_eq le_val_le_bytes)

lemma public_example:
  "secret_key_to_public_key (small_scalar 2) = Some (ed_encode (imult 2 ed_base))"
  "secret_key_to_public_key (small_scalar 5) = Some (ed_encode (imult 5 ed_base))"
  by (simp_all add: secret_key_to_public_key_eq small_scalar l25519_def)

lemma five_unit: "\<not> l25519 dvd 5"
  by (simp add: l25519_def)

lemma signature_accepted:
  assumes "digest_32 H" "length sec = 32" "pub = ed_encode (imult (le_val sec) ed_base)"
    "\<forall>b\<in>set rnds. length b = 32 \<and> \<not> l25519 dvd le_val b"
    "generate_signature H h pub sec rnds sig0 = Some sig" "le_val (sig_c sig) \<noteq> 0"
  shows "check_signature H h pub sig"
proof -
  obtain b where b: "b \<in> set rnds" "signed_with H h pub sec (le_val b mod l25519) sig"
    using digest_32.loop_signed [OF assms(1) assms(5) [unfolded generate_signature_def] _ assms(2,6)] assms(4) by blast
  have "\<not> l25519 dvd le_val b mod l25519"
    using assms(4) b(1) by (simp add: dvd_mod_iff)
  then show ?thesis
    using digest_32.signed_accepted [OF assms(1,2) b(2) assms(6)] assms(3) by blast
qed

text \<open>
  C5. A signature that \<open>generate_signature\<close> returns with a challenge other than 0 is accepted under the public key
  of the secret key that made it, for any hash function of 32 bytes, any message, and random blocks none of which is
  0 modulo the group order.
\<close>

theorem sign_verify:
  assumes "\<forall>m. length (H m) = 32" "length sec = 32" "secret_key_to_public_key sec = Some pub"
    "\<forall>b\<in>set rnds. length b = 32 \<and> \<not> l25519 dvd le_val b"
    "generate_signature H h pub sec rnds sig0 = Some sig" "le_val (sig_c sig) \<noteq> 0"
  shows "check_signature H h pub sig"
proof -
  have H: "digest_32 H"
    using assms(1) by unfold_locales blast
  have "pub = ed_encode (imult (le_val sec) ed_base)"
    using assms(2,3) by (simp add: secret_key_to_public_key_eq split: if_splits)
  from signature_accepted [OF H assms(2) this assms(4-6)] show ?thesis .
qed

theorem sign_verify_witness:
  "\<exists>sig. check_signature (\<lambda>m. small_scalar 1) [] (ed_encode (imult 2 ed_base)) sig"
proof -
  obtain sig where sig: "generate_signature (\<lambda>m. small_scalar 1) [] (ed_encode (imult 2 ed_base)) (small_scalar 2)
      [small_scalar 5] \<lparr>sig_c = [], sig_r = []\<rparr> = Some sig" "le_val (sig_c sig) = 1"
    using sign_example by blast
  have "check_signature (\<lambda>m. small_scalar 1) [] (ed_encode (imult 2 ed_base)) sig"
    by (rule sign_verify [OF _ small_scalar(1) public_example(1) _ sig(1)]) (simp_all add: small_scalar five_unit sig(2))
  then show ?thesis ..
qed

text \<open>
  C23. \<open>generate_signature\<close> returns as soon as one of the random blocks gives a challenge and a response other
  than 0.
\<close>

theorem sign_returns:
  assumes "\<forall>m. length (H m) = 32" "length sec = 32" "\<forall>b\<in>set rnds. length b = 32" "b \<in> set rnds"
    "le_val (hash_to_scalar H (h @ pub @ ed_encode (imult (le_val b mod l25519) ed_base))) \<noteq> 0"
    "\<not> l25519 dvd le_val b mod l25519
      - le_val (hash_to_scalar H (h @ pub @ ed_encode (imult (le_val b mod l25519) ed_base))) * le_val sec"
  shows "\<exists>sig. generate_signature H h pub sec rnds sig0 = Some sig"
proof -
  have "digest_32 H"
    using assms(1) by unfold_locales blast
  from digest_32.loop_returns [OF this assms(3,2,4-6)] show ?thesis
    by (simp add: generate_signature_def)
qed

theorem sign_returns_witness:
  "\<exists>sig. generate_signature (\<lambda>m. small_scalar 1) [] [] (small_scalar 2) [small_scalar 0, small_scalar 5]
    \<lparr>sig_c = [], sig_r = []\<rparr> = Some sig"
  by (rule sign_returns [where b = "small_scalar 5"]) (simp_all add: small_scalar hash_example(2) small_mod, simp add: l25519_def)

text \<open>
  C19. In \<open>generate_signature\<close>, \<^verbatim>\<open>continue\<close> jumps to the test of the loop.  When the challenge is 0, the loop ends if the memory
  of the result held an \<open>r\<close> other than 0 before the call: the challenge 0 is returned with this old \<open>r\<close>, and
  the signature is not valid.
\<close>

theorem sign_zero_challenge:
  assumes "\<forall>m. length (H m) = 32" "length b = 32" "length sec = 32" "length pub = 32" "length (sig_r sig0) = 32"
    "le_val (hash_to_scalar H (h @ pub @ ed_encode (imult (le_val b mod l25519) ed_base))) = 0"
    "le_val (sig_r sig0) \<noteq> 0"
  shows "\<exists>sig. generate_signature H h pub sec (b # rnds) sig0 = Some sig \<and> sc_isnonzero (sig_c sig) = 0
    \<and> sig_r sig = sig_r sig0 \<and> \<not> check_signature H h pub sig"
proof -
  have H: "digest_32 H"
    using assms(1) by unfold_locales blast
  define c where "c = hash_to_scalar H (h @ pub @ ed_encode (imult (le_val b mod l25519) ed_base))"
  have c: "length c = 32" "le_val c = 0"
    using digest_32.hash_to_scalar_reduced(1) [OF H] assms(6) by (simp_all add: c_def)
  let ?sig = "\<lparr>sig_c = c, sig_r = sig_r sig0\<rparr>"
  have "generate_signature H h pub sec (b # rnds) sig0 = Some ?sig"
    using assms(5-7) unfolding generate_signature_def digest_32.round_eq [OF H assms(2,3)]
    by (simp add: sc_isnonzero_eq c_def)
  moreover have "\<not> check_signature H h pub ?sig"
    using digest_32.check_signature_iff [OF H assms(4), of ?sig h] c assms(5) by simp
  ultimately show ?thesis
    using c by (intro exI [of _ ?sig]) (simp add: sc_isnonzero_eq)
qed

theorem sign_zero_challenge_witness:
  "\<exists>sig. generate_signature (\<lambda>m. small_scalar 0) [] infinity (small_scalar 2) [small_scalar 5]
      \<lparr>sig_c = [], sig_r = small_scalar 7\<rparr> = Some sig
    \<and> sig_r sig = small_scalar 7 \<and> \<not> check_signature (\<lambda>m. small_scalar 0) [] infinity sig"
  using sign_zero_challenge [of "\<lambda>m. small_scalar 0" "small_scalar 5" "small_scalar 2" infinity
      "\<lparr>sig_c = [], sig_r = small_scalar 7\<rparr>" "[]" "[]"]
  by (auto simp: small_scalar hash_example(2) infinity_def)

section \<open>Key derivation\<close>

lemma key_derivation_eq:
  assumes "length key2 = 32" "uint (key2 ! 31) \<le> 127"
  defines "D \<equiv> \<lambda>g. ed_encode (imult 8 (imult (le_val key2) g))"
  shows "generate_key_derivation H (ed_encode g) key2 w =
    Some (D g, if w then Some (H (view_tag_salt @ D g @ [0]) ! 0) else None)"
proof -
  obtain P where P: "ge_frombytes_vartime (ed_encode g) = Some P" "pt3 g P"
    using decode_complete by blast
  have "pt2 (imult 8 (imult (le_val key2) g)) (ge_p1p1_to_p2 (ge_mul8 (ge_scalarmult key2 P)))"
    by (intro curve.to_p2 curve.mul8 curve.scalarmult P(2) assms(1,2))
  then show ?thesis
    by (simp add: generate_key_derivation_def P(1) Let_def ge_tobytes_encode D_def)
qed

text \<open>
  C24. \<open>generate_key_derivation\<close> returns the encoding of \<open>8 * key2 * key1\<close>, and fails exactly if the public key is not the
  encoding of a point; the holders of two key pairs derive the same secret and the same view tag from the secret key of
  one and the public key of the other.
\<close>

theorem key_derivation_shared:
  assumes "length key1 = 32" "length a = 32" "length b = 32" "secret_key_to_public_key a = Some A"
    "secret_key_to_public_key b = Some B"
  shows "(generate_key_derivation H key1 a w = None \<longleftrightarrow> (\<forall>g. key1 \<noteq> ed_encode g))
    \<and> (\<forall>g. key1 = ed_encode g \<longrightarrow>
        map_option fst (generate_key_derivation H key1 a w) = Some (ed_encode (imult (8 * le_val a) g)))
    \<and> generate_key_derivation H A b w = generate_key_derivation H B a w"
proof -
  have pub: "le_val a < l25519" "le_val b < l25519" "A = ed_encode (imult (le_val a) ed_base)"
      "B = ed_encode (imult (le_val b) ed_base)"
    using assms(2-5) by (auto simp: secret_key_to_public_key_eq split: if_splits)
  note eq = key_derivation_eq [OF assms(2) scalar_small(2) [OF assms(2) pub(1)]]
    key_derivation_eq [OF assms(3) scalar_small(2) [OF assms(3) pub(2)]]
  have "generate_key_derivation H key1 a w = None \<longleftrightarrow> (\<forall>g. key1 \<noteq> ed_encode g)"
  proof (cases "ge_frombytes_vartime key1")
    case None
    then show ?thesis
      using decode_None [OF None] by (simp add: generate_key_derivation_def)
  next
    case (Some P)
    then show ?thesis
      using decode_sound [OF assms(1) Some] by (auto simp: generate_key_derivation_def Let_def)
  qed
  moreover have "imult (le_val b) (imult (le_val a) ed_base) = imult (le_val a) (imult (le_val b) ed_base)"
    by (simp add: mult.commute flip: imult_mult)
  ultimately show ?thesis
    by (auto simp: eq pub(3,4) imult_mult)
qed

theorem key_derivation_shared_witness:
  "generate_key_derivation keccak_256 (ed_encode (imult 2 ed_base)) (small_scalar 5) True =
    generate_key_derivation keccak_256 (ed_encode (imult 5 ed_base)) (small_scalar 2) True"
  using key_derivation_shared [OF length_ed_encode small_scalar(1) small_scalar(1) public_example] by blast

lemma derived_scalar:
  assumes "digest_32 H"
  shows "length (derivation_to_scalar H d i) = 32" "le_val (derivation_to_scalar H d i) < l25519"
  using digest_32.hash_to_scalar_reduced [OF assms] by (simp_all add: derivation_to_scalar_def)

lemma derive_public_key_eq:
  assumes "digest_32 H"
  shows "derive_public_key H d i (ed_encode g) =
    Some (ed_encode (g + imult (le_val (derivation_to_scalar H d i)) ed_base))"
proof -
  obtain P where P: "ge_frombytes_vartime (ed_encode g) = Some P" "pt3 g P"
    using decode_complete by blast
  note s = derived_scalar [OF assms, of d i]
  have "pt2 (g + imult (le_val (derivation_to_scalar H d i)) ed_base)
      (ge_p1p1_to_p2 (ge_add P (ge_p3_to_cached (ge_scalarmult_base (derivation_to_scalar H d i)))))"
    using s scalar_small(2) by (intro curve.to_p2 curve.add curve.to_cached P(2) scalarmult_base_ed_base) blast+
  then show ?thesis
    by (simp add: derive_public_key_def P(1) Let_def ge_tobytes_encode)
qed

text \<open>
  C25. \<open>derive_public_key\<close> and \<open>derive_secret_key\<close> agree: the key derived from a public key is the public key of the one derived
  from its secret key; a base that is no point is rejected, and all derived secret keys are reduced.
\<close>

theorem derived_keys_match:
  assumes "\<forall>m. length (H m) = 32" "length sec = 32" "secret_key_to_public_key sec = Some pub"
  shows "derive_public_key H d i pub = secret_key_to_public_key (derive_secret_key H d i sec)
    \<and> derive_public_key H d i pub \<noteq> None \<and> sc_check (derive_secret_key H d i sec) = 0
    \<and> sc_check (derive_view_secret_key H sec) = 0
    \<and> (derive_public_key H d i base = None \<longleftrightarrow> ge_frombytes_vartime base = None)"
proof -
  have H: "digest_32 H"
    using assms(1) by unfold_locales blast
  note s = derived_scalar [OF H, of d i]
  have pub: "pub = ed_encode (imult (le_val sec) ed_base)"
    using assms(2,3) by (simp add: secret_key_to_public_key_eq split: if_splits)
  have sec: "derive_secret_key H d i sec = le_bytes 32 ((le_val sec + le_val (derivation_to_scalar H d i)) mod l25519)"
    by (simp add: derive_secret_key_def sc_add_eq assms(2) s)
  have "sc_check (derive_view_secret_key H sec) = 0"
    using assms(1) le_bytes_mod_l(3) by (simp add: derive_view_secret_key_def sc_reduce32_eq)
  moreover have "derive_public_key H d i pub = secret_key_to_public_key (derive_secret_key H d i sec)"
    unfolding sec pub derive_public_key_eq [OF H]
    by (simp add: secret_key_to_public_key_eq le_bytes_mod_l imult_mod_l imult_add)
  moreover have "derive_public_key H d i base = None \<longleftrightarrow> ge_frombytes_vartime base = None"
    by (simp add: derive_public_key_def Let_def split: option.split)
  moreover have "derive_public_key H d i pub \<noteq> None" "sc_check (derive_secret_key H d i sec) = 0"
    by (simp_all add: pub derive_public_key_eq [OF H] sec le_bytes_mod_l(3))
  ultimately show ?thesis
    by blast
qed

theorem derived_keys_match_witness:
  "derive_public_key (\<lambda>m. small_scalar 1) [] 0 (ed_encode (imult 2 ed_base)) =
    secret_key_to_public_key (derive_secret_key (\<lambda>m. small_scalar 1) [] 0 (small_scalar 2))"
  using derived_keys_match [of "\<lambda>m. small_scalar 1", OF _ small_scalar(1) public_example(1)] small_scalar(1) by blast

text \<open>
  C13. A payment to a wallet with the view keys \<open>(a, A)\<close> and the spend keys \<open>(b, B)\<close>: from the secret \<open>r\<close> of the transaction the
  sender derives a one-time public key; from its public key \<open>R\<close> the recipient derives the same view tag and, with \<open>b\<close>,
  the secret key of the one-time key, with which signatures are accepted.
\<close>

theorem one_time_key:
  assumes "\<forall>m. length (H m) = 32" "length a = 32" "length b = 32" "length r = 32"
    "secret_key_to_public_key a = Some A" "secret_key_to_public_key b = Some B" "secret_key_to_public_key r = Some R"
    "\<forall>n\<in>set rnds. length n = 32 \<and> \<not> l25519 dvd le_val n"
  shows "\<exists>D tag P x. generate_key_derivation H A r True = Some (D, tag) \<and> derive_public_key H D i B = Some P
    \<and> generate_key_derivation H R a True = Some (D, tag) \<and> derive_secret_key H D i b = x
    \<and> secret_key_to_public_key x = Some P
    \<and> (\<forall>sig. generate_signature H h P x rnds sig0 = Some sig \<and> le_val (sig_c sig) \<noteq> 0 \<longrightarrow> check_signature H h P sig)"
proof -
  have H: "digest_32 H"
    using assms(1) by unfold_locales blast
  have A: "A = ed_encode (imult (le_val a) ed_base)" and a: "le_val a < l25519"
    and R: "R = ed_encode (imult (le_val r) ed_base)" and r: "le_val r < l25519"
    and B: "B = ed_encode (imult (le_val b) ed_base)"
    using assms(2-7) by (auto simp: secret_key_to_public_key_eq split: if_splits)
  define D where "D = ed_encode (imult 8 (imult (le_val r) (imult (le_val a) ed_base)))"
  have D: "D = ed_encode (imult 8 (imult (le_val a) (imult (le_val r) ed_base)))"
    unfolding D_def by (simp add: mult.commute flip: imult_mult)
  define x where "x = derive_secret_key H D i b"
  define P where "P = ed_encode (imult (le_val b) ed_base + imult (le_val (derivation_to_scalar H D i)) ed_base)"
  have x: "x = le_bytes 32 ((le_val b + le_val (derivation_to_scalar H D i)) mod l25519)"
    by (simp add: x_def derive_secret_key_def sc_add_eq assms(3) derived_scalar [OF H])
  then have px: "secret_key_to_public_key x = Some P" "length x = 32" "P = ed_encode (imult (le_val x) ed_base)"
    by (simp_all add: secret_key_to_public_key_eq le_bytes_mod_l imult_mod_l imult_add P_def)
  have "check_signature H h P sig"
    if "generate_signature H h P x rnds sig0 = Some sig" "le_val (sig_c sig) \<noteq> 0" for sig
    using signature_accepted [OF H px(2,3) assms(8) that] .
  moreover have "derive_public_key H D i B = Some P"
    unfolding B P_def by (rule derive_public_key_eq [OF H])
  ultimately show ?thesis
    using key_derivation_eq [OF assms(4) scalar_small(2) [OF assms(4) r], of H "imult (le_val a) ed_base" True]
      key_derivation_eq [OF assms(2) scalar_small(2) [OF assms(2) a], of H "imult (le_val r) ed_base" True] px(1)
    by (simp add: A R D_def [symmetric] D [symmetric] x_def)
qed

theorem one_time_key_witness:
  "\<exists>D tag P x. generate_key_derivation (\<lambda>m. small_scalar 1) (ed_encode (imult 2 ed_base)) (small_scalar 5) True = Some (D, tag)
    \<and> derive_public_key (\<lambda>m. small_scalar 1) D 3 (ed_encode (imult 5 ed_base)) = Some P
    \<and> derive_secret_key (\<lambda>m. small_scalar 1) D 3 (small_scalar 5) = x \<and> secret_key_to_public_key x = Some P"
proof -
  have "\<forall>m :: byte list. length (small_scalar 1) = 32"
    "\<forall>n\<in>set [small_scalar 5]. length n = 32 \<and> \<not> l25519 dvd le_val n"
    by (simp_all add: small_scalar five_unit)
  from one_time_key [OF this(1) small_scalar(1) small_scalar(1) small_scalar(1) public_example(1,2,2) this(2)]
  show ?thesis
    by blast
qed

end
