(* ===== verification/PointHash.thy ===== *)
theory PointHash
  imports PointCodec
begin

text \<open>
  Hashing to a point: \<open>ge_fromfe_frombytes_vartime\<close> of \<^verbatim>\<open>src/base/tools/cryptonote/crypto-ops.c\<close>, an inverse of the map
  from points to bytes by square roots.  An assertion that fails is \<open>None\<close>, the final self-check of builds
  without \<^verbatim>\<open>NDEBUG\<close> included.  The theory shows that no assertion fails and
  that the result is a point of the curve for every string.
\<close>

section \<open>The model\<close>

text \<open>The constants of \<^verbatim>\<open>crypto-ops-data.c\<close>, with \<open>A = 486662\<close>.\<close>

definition fe_ma2 :: fe where
  "fe_ma2 = [-12721188, -3529, 0, 0, 0, 0, 0, 0, 0, 0]"

definition fe_ma :: fe where
  "fe_ma = [-486662, 0, 0, 0, 0, 0, 0, 0, 0, 0]"

definition fe_fffb1 :: fe where
  "fe_fffb1 = [-31702527, -2466483, -26106795, -12203692, -12169197, -321052, 14850977, -10296299, -16929438, -407568]"

definition fe_fffb2 :: fe where
  "fe_fffb2 = [8166131, -6741800, -17040804, 3154616, 21461005, 1466302, -30876704, -6368709, 10503587, -13363080]"

definition fe_fffb3 :: fe where
  "fe_fffb3 = [-13620103, 14639558, 4532995, 7679154, 16815101, -15883539, -22863840, -14813421, 13716513, -6477756]"

definition fe_fffb4 :: fe where
  "fe_fffb4 = [-21786234, -12173074, 21573800, 4524538, -4645904, 16204591, 8012863, -8444712, 3212926, 6885324]"

text \<open>The two branches of the square root, after \<open>x\<close> has become \<open>r\<^sup>2 * x\<close>: the new \<open>r->X\<close>, \<open>z\<close> and the sign.\<close>

definition fromfe_negative :: "fe \<Rightarrow> fe \<Rightarrow> fe \<Rightarrow> fe \<Rightarrow> (fe \<times> fe \<times> byte) option" where
  "fromfe_negative rX w x z =
     (let x = fe_mul x fe_sqrtm1;
          y = fe_sub w x
      in if fe_isnonzero y \<noteq> 0
         then let y = fe_add w x
              in if fe_isnonzero y \<noteq> 0 then None else Some (fe_mul rX fe_fffb3, z, 1)
         else Some (fe_mul rX fe_fffb4, z, 1))"

definition fromfe_positive :: "fe \<Rightarrow> fe \<Rightarrow> fe \<Rightarrow> fe \<Rightarrow> fe \<times> fe \<times> byte" where
  "fromfe_positive rX u v z = (fe_mul rX u, fe_mul z v, 0)"

definition fromfe_root :: "fe \<Rightarrow> fe \<Rightarrow> fe \<Rightarrow> fe \<Rightarrow> fe \<Rightarrow> (fe \<times> fe \<times> byte) option" where
  "fromfe_root rX u v w x =
     (let y = fe_sub w x;
          z = fe_copy fe_ma
      in if fe_isnonzero y \<noteq> 0
         then let y = fe_add w x
              in if fe_isnonzero y \<noteq> 0 then fromfe_negative rX w x z
                 else Some (fromfe_positive (fe_mul rX fe_fffb1) u v z)
         else Some (fromfe_positive (fe_mul rX fe_fffb2) u v z))"

text \<open>The self-check: the curve equation in affine coordinates.\<close>

definition fromfe_check :: "ge_p2 \<Rightarrow> bool" where
  "fromfe_check r =
     (let check_iz = fe_invert (p2Z r);
          check_x = fe_mul (p2X r) check_iz;
          check_y = fe_mul (p2Y r) check_iz;
          check_x = fe_sq check_x;
          check_y = fe_sq check_y;
          check_v = fe_mul check_x check_y;
          check_v = fe_mul fe_d check_v;
          check_v = fe_add check_v check_x;
          check_v = fe_sub check_v check_y;
          check_x = fe_1;
          check_v = fe_add check_v check_x
      in fe_isnonzero check_v = 0)"

definition ge_fromfe_frombytes_vartime :: "byte list \<Rightarrow> ge_p2 option" where
  "ge_fromfe_frombytes_vartime s =
     (let u = fe_frombytes (fe_loads s);
          v = fe_sq2 u;
          w = fe_1;
          w = fe_add v w;
          x = fe_sq w;
          y = fe_mul fe_ma2 v;
          x = fe_add x y;
          rX = fe_divpowm1 w x;
          y = fe_sq rX;
          x = fe_mul y x
      in case fromfe_root rX u v w x of
           None \<Rightarrow> None
         | Some (rX, z, sign) \<Rightarrow>
             (case ge_fix_sign rX sign of
                None \<Rightarrow> None
              | Some rX \<Rightarrow>
                  let Z = fe_add z w;
                      Y = fe_sub z w;
                      r = \<lparr>p2X = fe_mul rX Z, p2Y = Y, p2Z = Z\<rparr>
                  in if fromfe_check r then Some r else None))"

section \<open>The constants\<close>

definition fffb1 :: int where
  "fffb1 = 57192811444617977854858898469001663971726463542204390960804972474891788632558"

definition fffb2 :: int where
  "fffb2 = 34838897745748397871374137087405348832069628406613012804793447631241588021984"

definition fffb3 :: int where
  "fffb3 = 46719087769223307720043111813545796356806574765024592941723029582131464514662"

definition fffb4 :: int where
  "fffb4 = 11880190023474909848668974726140447524736946358411580136929581950889876492678"

lemma fffb_rep:
  "fe_rep 101 fe_ma2 (- (486662 ^ 2))" "fe_rep 101 fe_ma (- 486662)" "fe_rep 101 fe_fffb1 fffb1" "fe_rep 101 fe_fffb2 fffb2"
  "fe_rep 101 fe_fffb3 fffb3" "fe_rep 101 fe_fffb4 fffb4"
  by (rule fe_rep_const; code_simp)+

lemma fffb_squares:
  "eqm p25519 (fffb1 ^ 2) (- 2 * 486662 * (486662 + 2))" "eqm p25519 (fffb2 ^ 2) (2 * 486662 * (486662 + 2))"
  "eqm p25519 (fffb3 ^ 2) (- sqrtm1 * 486662 * (486662 + 2))" "eqm p25519 (fffb4 ^ 2) (sqrtm1 * 486662 * (486662 + 2))"
  by code_simp+

section \<open>The equations in the field\<close>

text \<open>The root that \<open>fe_divpowm1\<close> returns is one up to a fourth root of 1.\<close>

lemma fp_root4:
  assumes "u \<noteq> (0 :: fp)" "v \<noteq> 0"
  defines "r \<equiv> (u * v ^ 7) ^ (2 ^ 252 - 3) * v ^ 3 * u"
  shows "r * r * v = u \<or> r * r * v = - u \<or> fp_i * (r * r * v) = u \<or> fp_i * (r * r * v) = - u"
proof -
  let ?w = "u * v ^ 7" and ?t = "(u * v ^ 7) ^ (2 ^ 253 - 5)"
  have "?w \<noteq> 0"
    using assms(1,2) by simp
  then have "?w ^ (2 * (2 * (2 ^ 253 - 5))) = 1"
    using fp_fermat [of ?w] unfolding p25519_exponents by blast
  moreover have "k ^ (2 * (2 * n)) = (k ^ n * k ^ n) * (k ^ n * k ^ n)" for k :: fp and n
    by (simp only: power_add [symmetric] mult_2)
  ultimately have "(?t * ?t) * (?t * ?t) = 1 * 1"
    by (simp only: mult_1_left)
  then have "?t * ?t = 1 \<or> ?t * ?t = - 1"
    by (rule fp_square_pm)
  moreover have "(fp_i * k) * (fp_i * k) = - (k * k)" for k
  proof -
    have "(fp_i * k) * (fp_i * k) = (fp_i * fp_i) * (k * k)"
      by (simp only: mult_ac)
    then show ?thesis
      by (simp add: fp_i_sq)
  qed
  ultimately have "?t * ?t = 1 * 1 \<or> (fp_i * ?t) * (fp_i * ?t) = 1 * 1"
    by (metis minus_minus mult_1_left)
  then have t: "?t = 1 \<or> ?t = - 1 \<or> fp_i * ?t = 1 \<or> fp_i * ?t = - 1"
    using fp_square_pm by blast
  have "(2 :: nat) ^ 253 - 5 = 1 + ((2 ^ 252 - 3) + (2 ^ 252 - 3))"
    by simp
  then have "?t = ?w * (?w ^ (2 ^ 252 - 3) * ?w ^ (2 ^ 252 - 3))"
    by (simp only: power_add power_one_right)
  moreover have "k * v ^ 3 * u * (k * v ^ 3 * u) * v = u * v ^ 7 * (k * k) * u" for k
    by algebra
  ultimately have "r * r * v = ?t * u"
    unfolding r_def by (simp only:)
  then show ?thesis
    using t by (auto simp: mult.assoc [symmetric])
qed

text \<open>
  With \<open>m = z / w\<close> on the Montgomery form of the curve, \<open>x = m\<^sup>2 + A m + 1\<close> up to the factor \<open>w\<^sup>2\<close>, the point
  \<open>(X, (z - w) / (z + w))\<close> satisfies the equation of the curve.
\<close>

lemma montgomery_unit:
  fixes z w x X d A :: "'a :: field"
  assumes "z * z + A * z * w + w * w = x" "X * X * x = - (A + 2) * z * w" "w \<noteq> 0" "A + 2 \<noteq> 0" "d * (A + 2) = 2 - A"
    "\<And>s. s * s \<noteq> d"
  shows "z + w \<noteq> 0"
proof
  assume "z + w = 0"
  then have z: "z = - w"
    by (simp add: add_eq_0_iff2)
  have x: "x = (2 - A) * (w * w)"
    using assms(1) unfolding z by (simp add: algebra_simps)
  have "w * w * (A + 2) * (X * X * d) = X * X * (d * (A + 2) * (w * w))"
    by (simp only: mult_ac)
  also have "\<dots> = - (A + 2) * z * w"
    using assms(2) unfolding assms(5) x .
  also have "\<dots> = w * w * (A + 2) * 1"
    unfolding z by (simp add: algebra_simps)
  finally have "w * w * (A + 2) * (X * X * d) = w * w * (A + 2) * 1" .
  then have 1: "X * X * d = 1"
    using assms(3,4) by simp
  then have "X \<noteq> 0"
    by auto
  then have "inverse X * inverse X = d"
    using 1 by (simp add: field_simps)
  then show False
    using assms(6) by blast
qed

lemma montgomery_curve:
  fixes z w x X Y d A :: "'a :: field"
  assumes "z * z + A * z * w + w * w = x" "X * X * x = - (A + 2) * z * w" "A + 2 \<noteq> 0" "d * (A + 2) = 2 - A"
    "z + w \<noteq> 0" "Y * (z + w) = z - w"
  shows "Y * Y - X * X = 1 + d * X * X * Y * Y"
proof -
  have p: "(A + 2) * ((z + w) * (z + w)) + (2 - A) * ((z - w) * (z - w)) = 4 * x"
    unfolding assms(1) [symmetric] by (simp add: algebra_simps)
  have "(A + 2) * ((z + w) * (z + w)) * (Y * Y - X * X)
      = (A + 2) * ((Y * (z + w)) * (Y * (z + w))) - (A + 2) * (X * X * ((z + w) * (z + w)))"
    by (simp add: algebra_simps)
  also have "\<dots> = (A + 2) * ((z + w) * (z + w)) + X * X * ((2 - A) * ((z - w) * (z - w)))
      - (4 * ((A + 2) * z * w) + X * X * ((A + 2) * ((z + w) * (z + w)) + (2 - A) * ((z - w) * (z - w))))"
    unfolding assms(6) by (simp add: algebra_simps)
  also have "4 * ((A + 2) * z * w) + X * X * ((A + 2) * ((z + w) * (z + w)) + (2 - A) * ((z - w) * (z - w))) = 0"
  proof -
    have "4 * ((A + 2) * z * w) + X * X * (4 * x) = 4 * ((A + 2) * z * w) + 4 * (X * X * x)"
      by (simp only: mult_ac)
    also have "\<dots> = 0"
      unfolding assms(2) by (simp add: algebra_simps)
    finally show ?thesis
      unfolding p .
  qed
  also have "(A + 2) * ((z + w) * (z + w)) + X * X * ((2 - A) * ((z - w) * (z - w))) - 0
      = (A + 2) * ((z + w) * (z + w)) * (1 + d * X * X * Y * Y)"
    unfolding assms(4) [symmetric] assms(6) [symmetric] by (simp add: algebra_simps)
  finally have "(A + 2) * ((z + w) * (z + w)) * (Y * Y - X * X) = (A + 2) * ((z + w) * (z + w)) * (1 + d * X * X * Y * Y)" .
  then show ?thesis
    using assms(3,5) by simp
qed

section \<open>No assertion fails\<close>

abbreviation mont_A :: int where "mont_A \<equiv> 486662"

lemma fp_mont: "(of_int (mont_A + 2) :: fp) \<noteq> 0" "(of_int mont_A :: fp) \<noteq> 0"
    "fp_d * of_int (mont_A + 2) = 2 - of_int mont_A"
proof -
  have "\<not> p25519 dvd mont_A + 2" "\<not> p25519 dvd mont_A"
    by (simp_all add: p25519_def)
  then show "(of_int (mont_A + 2) :: fp) \<noteq> 0" "(of_int mont_A :: fp) \<noteq> 0"
    by (simp_all only: of_int_fp_eq_0 not_False_eq_True)
  have "eqm p25519 (4 * (ed_d * 121666)) (4 * (- 121665))"
    by (intro eqm_mult eqm_refl ed_d_value)
  then have "eqm p25519 (ed_d * (mont_A + 2)) (2 - mont_A)"
    by (simp add: mult.commute mult.left_commute)
  then have "(of_int (ed_d * (mont_A + 2)) :: fp) = of_int (2 - mont_A)"
    by (simp only: of_int_fp_eq)
  then show "fp_d * of_int (mont_A + 2) = 2 - of_int mont_A"
    by (simp only: of_int_mult of_int_diff of_int_numeral)
qed

text \<open>\<open>w = 2 u\<^sup>2 + 1\<close> and \<open>x = w\<^sup>2 - 2 A\<^sup>2 u\<^sup>2\<close> are not 0, as 2 is not a square.\<close>

lemma fromfe_units:
  fixes u :: fp
  defines "w \<equiv> 2 * (u * u) + 1"
  shows "w \<noteq> 0" "a \<noteq> 0 \<Longrightarrow> w * w - 2 * (a * a) * (u * u) \<noteq> 0"
proof -
  show w: "w \<noteq> 0"
  proof
    assume "w = 0"
    then have "2 * (u * u) = - 1"
      by (simp add: w_def eq_neg_iff_add_eq_0)
    moreover have "(fp_i * (2 * u)) * (fp_i * (2 * u)) = 2 * ((fp_i * fp_i) * (2 * (u * u)))"
      by (simp add: mult_ac)
    ultimately have "(fp_i * (2 * u)) * (fp_i * (2 * u)) = 2"
      by (simp add: fp_i_sq)
    then show False
      using fp_two_nonsquare by blast
  qed
  show "w * w - 2 * (a * a) * (u * u) \<noteq> 0" if "a \<noteq> 0"
  proof
    assume "w * w - 2 * (a * a) * (u * u) = 0"
    then have e: "w * w = 2 * ((a * u) * (a * u))"
      by (simp add: mult_ac)
    then have "a * u \<noteq> 0"
      using w by auto
    then have "(w / (a * u)) * (w / (a * u)) = 2"
      using e by (simp add: field_simps)
    then show False
      using fp_two_nonsquare by blast
  qed
qed

text \<open>What the root branches deliver.\<close>

definition root_ok :: "int \<Rightarrow> int \<Rightarrow> int \<Rightarrow> (fe \<times> fe \<times> byte) option \<Rightarrow> bool" where
  "root_ok u w x0 res \<longleftrightarrow> (\<exists>X Z sg X' Z'. res = Some (X, Z, sg) \<and> fe_rep 101 X X' \<and> fe_rep 101 Z Z'
     \<and> eqm p25519 (X' * X' * x0) (- (mont_A + 2) * Z' * w)
     \<and> (sg = 0 \<and> Z' = - mont_A * (2 * u\<^sup>2) \<or> sg = 1 \<and> Z' = - mont_A))"

lemma scaled_square: "(r * f * u) * (r * f * u) * x = (r * r * x) * (f * f) * (u * (u :: 'a :: comm_ring))"
  by (simp add: mult_ac)

lemma root_positive:
  assumes "fe_rep 101 rX r" "fe_rep 101 F f" "fe_rep 101 U u" "fe_rep 101 V (2 * u\<^sup>2)"
    "eqm p25519 (r * r * x0) (e * w)" "eqm p25519 (f ^ 2) (e * (2 * mont_A * (mont_A + 2)))" "e * e = 1"
  shows "root_ok u w x0 (Some (fromfe_positive (fe_mul rX F) U V (fe_copy fe_ma)))"
proof -
  let ?z = "- mont_A * (2 * u\<^sup>2)"
  have X: "fe_rep 101 (fe_mul (fe_mul rX F) U) (r * f * u)"
    by (intro fe_rep_mul [OF fe_rep_mul [OF assms(1,2)] assms(3)]) simp_all
  have Z: "fe_rep 101 (fe_mul (fe_copy fe_ma) V) ?z"
    by (rule fe_rep_mul [OF fe_rep_copied [OF fffb_rep(2)] assms(4)]) simp_all
  have "eqm p25519 ((r * r * x0) * (f * f) * (u * u)) ((e * w) * (e * (2 * mont_A * (mont_A + 2))) * (u * u))"
    by (rule eqm_mult [OF eqm_mult [OF assms(5) assms(6) [unfolded power2_eq_square]] eqm_refl])
  also have "(e * w) * (e * (2 * mont_A * (mont_A + 2))) * (u * u) = (e * e) * (- (mont_A + 2) * ?z * w)"
    by (simp add: power2_eq_square)
  finally have "eqm p25519 ((r * f * u) * (r * f * u) * x0) (- (mont_A + 2) * ?z * w)"
    unfolding scaled_square assms(7) mult_1_left .
  then show ?thesis
    unfolding root_ok_def fromfe_positive_def
    by (intro exI [of _ "fe_mul (fe_mul rX F) U"] exI [of _ "fe_mul (fe_copy fe_ma) V"] exI [of _ "0 :: byte"]
        exI [of _ "r * f * u"] exI [of _ ?z] conjI disjI1 refl X Z)
qed

lemma root_negative:
  assumes "fe_rep 101 rX r" "fe_rep 101 F f"
    "eqm p25519 (sqrtm1 * (r * r * x0)) (e * w)" "eqm p25519 (f ^ 2) (e * sqrtm1 * (mont_A * (mont_A + 2)))" "e * e = 1"
  shows "root_ok u w x0 (Some (fe_mul rX F, fe_copy fe_ma, 1))"
proof -
  have X: "fe_rep 101 (fe_mul rX F) (r * f)"
    by (rule fe_rep_mul [OF assms(1,2)]) simp_all
  have Z: "fe_rep 101 (fe_copy fe_ma) (- mont_A)"
    by (rule fe_rep_copied [OF fffb_rep(2)])
  have "(r * f) * (r * f) * x0 = (r * r * x0) * (f * f)"
    by (simp only: mult_ac)
  also have "eqm p25519 ((r * r * x0) * (f * f)) ((r * r * x0) * (e * sqrtm1 * (mont_A * (mont_A + 2))))"
    by (rule eqm_mult [OF eqm_refl assms(4) [unfolded power2_eq_square]])
  also have "(r * r * x0) * (e * sqrtm1 * (mont_A * (mont_A + 2))) = (sqrtm1 * (r * r * x0)) * (e * (mont_A * (mont_A + 2)))"
    by (simp only: mult_ac)
  also have "eqm p25519 ((sqrtm1 * (r * r * x0)) * (e * (mont_A * (mont_A + 2)))) ((e * w) * (e * (mont_A * (mont_A + 2))))"
    by (rule eqm_mult [OF assms(3) eqm_refl])
  also have "(e * w) * (e * (mont_A * (mont_A + 2))) = (e * e) * (- (mont_A + 2) * (- mont_A) * w)"
    by simp
  finally have "eqm p25519 ((r * f) * (r * f) * x0) (- (mont_A + 2) * (- mont_A) * w)"
    unfolding assms(5) mult_1_left .
  then show ?thesis
    unfolding root_ok_def
    by (intro exI [of _ "fe_mul rX F"] exI [of _ "fe_copy fe_ma"] exI [of _ "1 :: byte"]
        exI [of _ "r * f"] exI [of _ "- mont_A"] conjI disjI2 refl X Z)
qed

lemma fromfe_root_ok:
  assumes reps: "fe_rep 101 rX r" "fe_rep 101 U u" "fe_rep 101 V (2 * u\<^sup>2)" "fe_rep 102 W w" "fe_rep 101 T (r * r * x0)"
    and root: "eqm p25519 (r * r * x0) w \<or> eqm p25519 (r * r * x0) (- w)
      \<or> eqm p25519 (sqrtm1 * (r * r * x0)) w \<or> eqm p25519 (sqrtm1 * (r * r * x0)) (- w)"
  shows "root_ok u w x0 (fromfe_root rX U V W T)"
proof -
  let ?t = "r * r * x0"
  have y: "fe_rep 203 (fe_sub W T) (w - ?t)" "fe_rep 203 (fe_add W T) (w + ?t)"
    using fe_rep_sub [OF reps(4,5)] fe_rep_add [OF reps(4,5)] by simp_all
  have T': "fe_rep 101 (fe_mul T fe_sqrtm1) (?t * sqrtm1)"
    by (rule fe_rep_mul [OF reps(5) fe_sqrtm1_rep]) simp_all
  have y': "fe_rep 203 (fe_sub W (fe_mul T fe_sqrtm1)) (w - ?t * sqrtm1)"
      "fe_rep 203 (fe_add W (fe_mul T fe_sqrtm1)) (w + ?t * sqrtm1)"
    using fe_rep_sub [OF reps(4) T'] fe_rep_add [OF reps(4) T'] by simp_all
  have minus: "eqm p25519 (w - a) 0 \<longleftrightarrow> eqm p25519 a (1 * w)" and plus: "eqm p25519 (w + a) 0 \<longleftrightarrow> eqm p25519 a (- 1 * w)" for a
    unfolding of_int_fp_eq [symmetric] by (auto simp: eq_neg_iff_add_eq_0 add.commute)
  have z: "fe_isnonzero (fe_sub W T) = 0 \<longleftrightarrow> eqm p25519 ?t (1 * w)" "fe_isnonzero (fe_add W T) = 0 \<longleftrightarrow> eqm p25519 ?t (- 1 * w)"
      "fe_isnonzero (fe_sub W (fe_mul T fe_sqrtm1)) = 0 \<longleftrightarrow> eqm p25519 (sqrtm1 * ?t) (1 * w)"
      "fe_isnonzero (fe_add W (fe_mul T fe_sqrtm1)) = 0 \<longleftrightarrow> eqm p25519 (sqrtm1 * ?t) (- 1 * w)"
    using fe_isnonzero_iff [OF y(1)] fe_isnonzero_iff [OF y(2)] fe_isnonzero_iff [OF y'(1)] fe_isnonzero_iff [OF y'(2)]
    unfolding minus plus mult.commute [of ?t sqrtm1] by simp_all
  note f = fffb_squares
  consider "eqm p25519 ?t (1 * w)" | "\<not> eqm p25519 ?t (1 * w)" "eqm p25519 ?t (- 1 * w)"
    | "\<not> eqm p25519 ?t (1 * w)" "\<not> eqm p25519 ?t (- 1 * w)" "eqm p25519 (sqrtm1 * ?t) (1 * w)"
    | "\<not> eqm p25519 ?t (1 * w)" "\<not> eqm p25519 ?t (- 1 * w)" "\<not> eqm p25519 (sqrtm1 * ?t) (1 * w)"
      "eqm p25519 (sqrtm1 * ?t) (- 1 * w)"
    using root by auto
  then show ?thesis
  proof cases
    case 1
    then show ?thesis
      using root_positive [OF reps(1) fffb_rep(4) reps(2,3) 1] f(2) z by (simp add: fromfe_root_def Let_def)
  next
    case 2
    then show ?thesis
      using root_positive [OF reps(1) fffb_rep(3) reps(2,3) 2(2)] f(1) z by (simp add: fromfe_root_def Let_def)
  next
    case 3
    then show ?thesis
      using root_negative [OF reps(1) fffb_rep(6) 3(3)] f(4) z
      by (simp add: fromfe_root_def fromfe_negative_def Let_def mult.assoc)
  next
    case 4
    then show ?thesis
      using root_negative [OF reps(1) fffb_rep(5) 4(4)] f(3) z
      by (simp add: fromfe_root_def fromfe_negative_def Let_def mult.assoc)
  qed
qed

section \<open>The self-check\<close>

lemma fromfe_check_ok:
  assumes "p2_wide r x y z" "coprime z p25519" "on_curve x y"
  shows "fromfe_check r"
proof -
  have r: "fe_rep 330 (p2X r) (x * z)" "fe_rep 330 (p2Y r) (y * z)" "fe_rep 330 (p2Z r) z"
    using assms(1) by (auto simp: p2_wide_def intro: fe_rep_mono)
  let ?i = "fe_invert (p2Z r)"
  note i = fe_rep_330(1) [OF fe_rep_invert [OF r(3)]]
  have scale: "eqm p25519 (w * z * z ^ (2 ^ 255 - 21)) w" for w
    using eqm_mult [OF eqm_refl eqm_inverse [OF assms(2)], of w] by (simp add: mult.assoc)
  have X: "fe_rep 101 (fe_mul (p2X r) ?i) x" and Y: "fe_rep 101 (fe_mul (p2Y r) ?i) y"
    using fe_rep_cong [OF fe.mul_res [OF r(1) i] scale] fe_rep_cong [OF fe.mul_res [OF r(2) i] scale] by simp_all
  have X2: "fe_rep 101 (fe_sq (fe_mul (p2X r) ?i)) (x\<^sup>2)" and Y2: "fe_rep 101 (fe_sq (fe_mul (p2Y r) ?i)) (y\<^sup>2)"
    using fe_rep_sq [OF X] fe_rep_sq [OF Y] by simp_all
  let ?X2 = "fe_sq (fe_mul (p2X r) ?i)" and ?Y2 = "fe_sq (fe_mul (p2Y r) ?i)"
  have V: "fe_rep 101 (fe_mul fe_d (fe_mul ?X2 ?Y2)) (ed_d * (x\<^sup>2 * y\<^sup>2))"
    using fe_rep_mul [OF fe_d_rep fe_rep_mul [OF X2 Y2]] by simp
  have one: "fe_rep 1 fe_1 1"
    by (simp add: fe_rep_1)
  have "fe_rep 303 (fe_sub (fe_add (fe_mul fe_d (fe_mul ?X2 ?Y2)) ?X2) ?Y2) (ed_d * (x\<^sup>2 * y\<^sup>2) + x\<^sup>2 - y\<^sup>2)"
    by (rule fe_rep_sub_303 [OF fe_rep_add_202 [OF V X2] Y2])
  from fe_rep_add [OF this one]
  have "fe_rep 304 (fe_add (fe_sub (fe_add (fe_mul fe_d (fe_mul ?X2 ?Y2)) ?X2) ?Y2) fe_1)
      (ed_d * (x\<^sup>2 * y\<^sup>2) + x\<^sup>2 - y\<^sup>2 + 1)"
    by simp
  moreover have "eqm p25519 (ed_d * (x\<^sup>2 * y\<^sup>2) + x\<^sup>2 - y\<^sup>2 + 1) 0"
  proof -
    have "ed_d * (x\<^sup>2 * y\<^sup>2) + x\<^sup>2 - y\<^sup>2 + 1 = - (y\<^sup>2 - x\<^sup>2 - (1 + ed_d * x\<^sup>2 * y\<^sup>2))"
      by (simp add: algebra_simps)
    then show ?thesis
      using assms(3) unfolding on_curve_def eqm_dvd by (simp only: diff_0_right dvd_minus_iff)
  qed
  ultimately show ?thesis
    unfolding fromfe_check_def Let_def using fe_isnonzero_iff by force
qed

section \<open>The result is a point\<close>

lemma fromfe_inputs:
  assumes "length s = 32"
  defines "U \<equiv> fe_frombytes (fe_loads s)" and "u \<equiv> le_val s"
  shows "fe_rep 101 U u" "fe_rep 101 (fe_sq2 U) (2 * u\<^sup>2)" "fe_rep 102 (fe_add (fe_sq2 U) fe_1) (2 * u\<^sup>2 + 1)"
    "fe_rep 202 (fe_add (fe_sq (fe_add (fe_sq2 U) fe_1)) (fe_mul fe_ma2 (fe_sq2 U)))
       ((2 * u\<^sup>2 + 1)\<^sup>2 + - (mont_A\<^sup>2) * (2 * u\<^sup>2))"
proof -
  show U: "fe_rep 101 U u"
    using fe_frombytes_256 [OF assms(1)] by (simp add: fe_rep_def U_def u_def)
  have V: "fe_rep 101 (fe_sq2 U) (2 * u\<^sup>2)"
    by (rule fe_rep_sq2 [OF U]) simp
  have W: "fe_rep 102 (fe_add (fe_sq2 U) fe_1) (2 * u\<^sup>2 + 1)"
    using fe_rep_add [OF V fe_rep_1 [of 1]] by simp
  show "fe_rep 101 (fe_sq2 U) (2 * u\<^sup>2)" "fe_rep 102 (fe_add (fe_sq2 U) fe_1) (2 * u\<^sup>2 + 1)"
    by (fact V, fact W)
  have W2: "fe_rep 101 (fe_sq (fe_add (fe_sq2 U) fe_1)) ((2 * u\<^sup>2 + 1)\<^sup>2)"
    by (rule fe_rep_sq [OF W]) simp
  have "fe_rep 101 (fe_mul fe_ma2 (fe_sq2 U)) (- (mont_A\<^sup>2) * (2 * u\<^sup>2))"
    by (rule fe_rep_mul [OF fffb_rep(1) V]) simp_all
  from fe_rep_add_202 [OF W2 this]
  show "fe_rep 202 (fe_add (fe_sq (fe_add (fe_sq2 U) fe_1)) (fe_mul fe_ma2 (fe_sq2 U)))
       ((2 * u\<^sup>2 + 1)\<^sup>2 + - (mont_A\<^sup>2) * (2 * u\<^sup>2))" .
qed

lemma fromfe_fp:
  fixes u :: int
  defines "w \<equiv> 2 * u\<^sup>2 + 1" and "x0 \<equiv> (2 * u\<^sup>2 + 1)\<^sup>2 + - (mont_A\<^sup>2) * (2 * u\<^sup>2)"
  shows "(of_int w :: fp) \<noteq> 0" "(of_int x0 :: fp) \<noteq> 0"
proof -
  let ?u = "of_int u :: fp" and ?a = "of_int mont_A :: fp"
  have w: "of_int w = 2 * (?u * ?u) + 1"
    by (simp add: w_def power2_eq_square)
  have "x0 = w * w - 2 * (mont_A * mont_A) * (u * u)"
    by (simp add: x0_def w_def power2_eq_square)
  then have "of_int x0 = of_int w * of_int w - 2 * (?a * ?a) * (?u * ?u)"
    by (simp only: of_int_diff of_int_mult of_int_numeral)
  then show "(of_int w :: fp) \<noteq> 0" "(of_int x0 :: fp) \<noteq> 0"
    unfolding w using fromfe_units(1) [of ?u] fromfe_units(2) [OF fp_mont(2), of ?u] by simp_all
qed

lemma fromfe_candidate:
  fixes w x0 :: int
  assumes "(of_int w :: fp) \<noteq> 0" "(of_int x0 :: fp) \<noteq> 0"
  defines "r \<equiv> (w * x0 ^ 7) ^ (2 ^ 252 - 3) * x0 ^ 3 * w"
  shows "eqm p25519 (r * r * x0) w \<or> eqm p25519 (r * r * x0) (- w)
    \<or> eqm p25519 (sqrtm1 * (r * r * x0)) w \<or> eqm p25519 (sqrtm1 * (r * r * x0)) (- w)"
proof -
  have r: "of_int r = (of_int w * of_int x0 ^ 7) ^ (2 ^ 252 - 3) * of_int x0 ^ 3 * (of_int w :: fp)"
    unfolding r_def by (simp only: of_int_mult of_int_power)
  from fp_root4 [OF assms(1,2), folded r] show ?thesis
    unfolding of_int_fp_eq [symmetric] by (simp only: of_int_mult of_int_minus)
qed

text \<open>
  What the function computes from the number \<open>u\<close> of the string: with \<open>w = 2 u\<^sup>2 + 1\<close> the ordinate is \<open>(z - w) / (z + w)\<close>
  for \<open>z = - 2 A u\<^sup>2\<close> and an even abscissa, or for \<open>z = - A\<close> and an odd one.
\<close>

definition fromfe_point :: "int \<Rightarrow> int \<Rightarrow> int \<Rightarrow> bool" where
  "fromfe_point u x y \<longleftrightarrow> (\<exists>z. (z = - mont_A * (2 * u\<^sup>2) \<and> even (x mod p25519) \<or> z = - mont_A \<and> odd (x mod p25519))
     \<and> eqm p25519 (y * (z + (2 * u\<^sup>2 + 1))) (z - (2 * u\<^sup>2 + 1)))"

lemma fromfe_quadratic:
  fixes u z :: int
  assumes "z = - mont_A * (2 * u\<^sup>2) \<or> z = - mont_A"
  defines "w \<equiv> 2 * u\<^sup>2 + 1"
  shows "z * z + mont_A * z * w + w * w = w\<^sup>2 + - (mont_A\<^sup>2) * (2 * u\<^sup>2)"
  using assms(1) unfolding w_def by (auto simp: algebra_simps power2_eq_square)

lemma fromfe_curve:
  fixes u z X :: int
  defines "w \<equiv> 2 * u\<^sup>2 + 1" and "x0 \<equiv> (2 * u\<^sup>2 + 1)\<^sup>2 + - (mont_A\<^sup>2) * (2 * u\<^sup>2)"
  assumes z: "z = - mont_A * (2 * u\<^sup>2) \<or> z = - mont_A" and X: "eqm p25519 (X * X * x0) (- (mont_A + 2) * z * w)"
  shows "coprime (z + w) p25519" "eqm p25519 (y * (z + w)) (z - w) \<Longrightarrow> on_curve X y"
proof -
  let ?z = "of_int z :: fp" and ?w = "of_int w :: fp" and ?A = "of_int mont_A :: fp" and ?X = "of_int X :: fp"
  have q: "?z * ?z + ?A * ?z * ?w + ?w * ?w = of_int x0"
    using arg_cong [OF fromfe_quadratic [OF z], of "of_int :: int \<Rightarrow> fp", folded w_def] unfolding x0_def w_def [symmetric]
    by (simp only: of_int_add of_int_mult)
  have A2: "?A + 2 \<noteq> 0" and d: "fp_d * (?A + 2) = 2 - ?A"
    using fp_mont(1,3) by (simp_all only: of_int_add of_int_numeral not_False_eq_True)
  have x: "?X * ?X * of_int x0 = - (?A + 2) * ?z * ?w"
    using X unfolding of_int_fp_eq [symmetric] by (simp only: of_int_mult of_int_add of_int_minus of_int_numeral)
  have w: "?w \<noteq> 0"
    unfolding w_def by (rule fromfe_fp(1))
  have unit: "?z + ?w \<noteq> 0"
    by (rule montgomery_unit [OF q x w A2 d fp_d_nonsquare])
  then show "coprime (z + w) p25519"
    by (simp only: of_int_fp_unit [symmetric] of_int_add not_False_eq_True)
  assume "eqm p25519 (y * (z + w)) (z - w)"
  then have "of_int y * (?z + ?w) = ?z - ?w"
    unfolding of_int_fp_eq [symmetric] by (simp only: of_int_mult of_int_add of_int_diff)
  from montgomery_curve [OF q x A2 d unit this] show "on_curve X y"
    by (simp add: on_curve_fp edw.curve_def)
qed

lemma fromfe_signed:
  assumes X: "fe_rep 101 X x" and e: "eqm p25519 (x * x * x0) (- (mont_A + 2) * z * w)" and w: "(of_int w :: fp) \<noteq> 0"
    and sg: "sg = 0 \<and> z = - mont_A * (2 * u\<^sup>2) \<or> sg = 1 \<and> z = - mont_A"
  shows "\<exists>X' x'. ge_fix_sign X sg = Some X' \<and> fe_rep 101 X' x' \<and> x' * x' = x * x
    \<and> (z = - mont_A * (2 * u\<^sup>2) \<and> even (x' mod p25519) \<or> z = - mont_A \<and> odd (x' mod p25519))"
proof -
  obtain b :: int where b: "sg = word_of_int b" "b = 0 \<and> z = - mont_A * (2 * u\<^sup>2) \<or> b = 1 \<and> z = - mont_A"
    using sg by (elim disjE) force+
  have "eqm p25519 x 0 \<longrightarrow> b = 0"
  proof
    assume "eqm p25519 x 0"
    then have x: "(of_int x :: fp) = 0"
      by (simp add: of_int_fp_eq [symmetric])
    have "of_int x * of_int x * of_int x0 = - of_int (mont_A + 2) * of_int z * (of_int w :: fp)"
      using e unfolding of_int_fp_eq [symmetric] by (simp only: of_int_mult of_int_minus)
    then have "- of_int (mont_A + 2) * of_int z * (of_int w :: fp) = 0"
      by (simp only: x mult_zero_left)
    then have z: "of_int z = (0 :: fp)"
      using w fp_mont(1) by (simp only: mult_eq_0_iff neg_equal_0_iff_equal simp_thms)
    have "of_int (- mont_A) \<noteq> (0 :: fp)"
      using fp_mont(2) by (simp only: of_int_minus neg_equal_0_iff_equal not_False_eq_True)
    then show "b = 0"
      using b(2) z by auto
  qed
  moreover have b01: "b = 0 \<or> b = 1"
    using b(2) by blast
  ultimately obtain X' where X': "ge_fix_sign X sg = Some X'"
    using ge_fix_sign_complete [OF X b(1)] by blast
  then obtain x' where x': "fe_rep 101 X' x'" "x'\<^sup>2 = x\<^sup>2" "x' mod p25519 mod 2 = b"
    using ge_fix_sign_sound [OF X b(1) b01] by blast
  then have "z = - mont_A * (2 * u\<^sup>2) \<and> even (x' mod p25519) \<or> z = - mont_A \<and> odd (x' mod p25519)"
    using b(2) by (auto simp: even_iff_mod_2_eq_zero odd_iff_mod_2_eq_one)
  then show ?thesis
    using X' x'(1) x'(2) [unfolded power2_eq_square] by blast
qed

lemma fromfe_result:
  assumes X: "fe_rep 101 X x" and Z: "fe_rep 101 Z z" and W: "fe_rep 102 W w" and u: "coprime (z + w) p25519"
  defines "r \<equiv> \<lparr>p2X = fe_mul X (fe_add Z W), p2Y = fe_sub Z W, p2Z = fe_add Z W\<rparr>"
  shows "\<exists>y. eqm p25519 (y * (z + w)) (z - w) \<and> p2_wide r x y (z + w)"
proof -
  define y where "y = (z - w) * (z + w) ^ (2 ^ 255 - 21)"
  have "eqm p25519 ((z - w) * ((z + w) * (z + w) ^ (2 ^ 255 - 21))) ((z - w) * 1)"
    by (rule eqm_mult [OF eqm_refl eqm_inverse [OF u]])
  moreover have "(z - w) * ((z + w) * (z + w) ^ (2 ^ 255 - 21)) = y * (z + w)"
    unfolding y_def by (simp only: mult_ac)
  ultimately have y: "eqm p25519 (y * (z + w)) (z - w)"
    by (simp only: mult_1_right)
  have Z': "fe_rep 220 (fe_add Z W) (z + w)" "fe_rep 220 (fe_sub Z W) (z - w)"
    using fe_rep_mono [OF fe_rep_add [OF Z W]] fe_rep_mono [OF fe_rep_sub [OF Z W]] by simp_all
  moreover have "fe_rep 101 (fe_mul X (fe_add Z W)) (x * (z + w))"
    by (rule fe_rep_mul [OF X Z'(1)]) simp_all
  ultimately show ?thesis
    unfolding p2_wide_def r_def using y fe_rep_cong [OF Z'(2) eqm_sym [OF y]] by (intro exI [of _ y]) simp
qed

lemma fromfe_correct:
  assumes s: "length s = 32"
  shows "\<exists>r x y z. ge_fromfe_frombytes_vartime s = Some r \<and> p2_wide r x y z \<and> coprime z p25519 \<and> on_curve x y
    \<and> fromfe_point (le_val s) x y"
proof -
  define u where "u = le_val s"
  define w x0 where "w = 2 * u\<^sup>2 + 1" and "x0 = (2 * u\<^sup>2 + 1)\<^sup>2 + - (mont_A\<^sup>2) * (2 * u\<^sup>2)"
  define U where "U = fe_frombytes (fe_loads s)"
  define W where "W = fe_add (fe_sq2 U) fe_1"
  define X0 where "X0 = fe_add (fe_sq W) (fe_mul fe_ma2 (fe_sq2 U))"
  have reps: "fe_rep 101 U u" "fe_rep 101 (fe_sq2 U) (2 * u\<^sup>2)" "fe_rep 102 W w" "fe_rep 202 X0 x0"
    using fromfe_inputs [OF s] unfolding U_def u_def W_def w_def X0_def x0_def by blast+
  note units = fromfe_fp [of u, folded w_def x0_def]
  let ?r = "(w * x0 ^ 7) ^ (2 ^ 252 - 3) * x0 ^ 3 * w" and ?R = "fe_divpowm1 W X0"
  have R: "fe_rep 101 ?R ?r"
    using fe_rep_divpowm1 [OF fe_rep_mono [OF reps(3)] fe_rep_mono [OF reps(4)]] by simp
  have T: "fe_rep 101 (fe_mul (fe_sq ?R) X0) (?r * ?r * x0)"
    using fe_rep_mul [OF fe_rep_sq [OF R] reps(4)] by (simp add: power2_eq_square)
  have "root_ok u w x0 (fromfe_root ?R U (fe_sq2 U) W (fe_mul (fe_sq ?R) X0))"
    by (rule fromfe_root_ok [OF R reps(1,2,3) T fromfe_candidate [OF units]])
  then obtain X Z sg x z where root: "fromfe_root ?R U (fe_sq2 U) W (fe_mul (fe_sq ?R) X0) = Some (X, Z, sg)"
      and XZ: "fe_rep 101 X x" "fe_rep 101 Z z" "eqm p25519 (x * x * x0) (- (mont_A + 2) * z * w)"
      and sg: "sg = 0 \<and> z = - mont_A * (2 * u\<^sup>2) \<or> sg = 1 \<and> z = - mont_A"
    unfolding root_ok_def by blast
  obtain X' x' where X': "ge_fix_sign X sg = Some X'" "fe_rep 101 X' x'" "x' * x' = x * x"
      and par: "z = - mont_A * (2 * u\<^sup>2) \<and> even (x' mod p25519) \<or> z = - mont_A \<and> odd (x' mod p25519)"
    using fromfe_signed [OF XZ(1,3) units(1) sg] by blast
  define r where "r = \<lparr>p2X = fe_mul X' (fe_add Z W), p2Y = fe_sub Z W, p2Z = fe_add Z W\<rparr>"
  have z: "z = - mont_A * (2 * u\<^sup>2) \<or> z = - mont_A"
    using sg by blast
  note curve = fromfe_curve [OF z, folded w_def x0_def, OF XZ(3) [folded X'(3)]]
  obtain y where y: "eqm p25519 (y * (z + w)) (z - w)" "p2_wide r x' y (z + w)"
    using fromfe_result [OF X'(2) XZ(2) reps(3) curve(1), folded r_def] by blast
  have "fromfe_check r"
    by (rule fromfe_check_ok [OF y(2) curve(1) curve(2) [OF y(1)]])
  then have "ge_fromfe_frombytes_vartime s = Some r"
    using root X'(1) unfolding ge_fromfe_frombytes_vartime_def Let_def U_def [symmetric] W_def [symmetric] X0_def [symmetric]
    by (simp add: r_def)
  moreover have "fromfe_point u x' y"
    unfolding fromfe_point_def using par y(1) by (intro exI [of _ z]) (simp add: w_def)
  ultimately show ?thesis
    using y(2) curve(1) curve(2) [OF y(1)] unfolding u_def by blast
qed

text \<open>Multiplication by the cofactor starts from the wider coordinates of the result.\<close>

lemma mul8_wide:
  assumes "p2_wide r x y z" "coprime z p25519" "coords g x y"
  shows "pt3 (imult 8 g) (ge_p1p1_to_p3 (ge_mul8 r))"
proof -
  have "pt1 (g + g) (ge_p2_dbl r)"
    using sum_pt1 [OF assms(3,3) ge_p2_dbl_sum [OF assms(1) coords_on_curve [OF assms(3)]]] assms(2) by simp
  then have "pt1 (imult 2 g) (ge_p2_dbl r)"
    by (simp add: imult_numeral_add)
  then have "pt1 (imult 2 (imult 2 (imult 2 g))) (ge_mul8 r)"
    unfolding ge_mul8_def Let_def by (rule curve.dbl2 [OF curve.to_p2 [OF curve.dbl2 [OF curve.to_p2]]])
  then show ?thesis
    by (simp add: curve.to_p3 imult_mult [symmetric])
qed

text \<open>
  C9. Hashing to a point is total and safe: for every 32 bytes no assertion of \<open>ge_fromfe_frombytes_vartime\<close> fails, the
  final self-check included.  The result represents a point \<open>g\<close> of the curve, the one that \<open>fromfe_point\<close> describes:
  its ordinate is \<open>(z - w) / (z + w)\<close> with \<open>w = 2 u\<^sup>2 + 1\<close>, where \<open>z = - 2 A u\<^sup>2\<close> and the abscissa is even, or \<open>z = - A\<close>
  and the abscissa is odd.  \<open>ge_tobytes\<close> encodes it as \<open>g\<close> although its coordinates are not reduced, and \<open>ge_mul8\<close> turns
  it into \<open>8 g\<close>.
\<close>

theorem fromfe_on_curve:
  assumes "length s = 32"
  shows "\<exists>r g x y. ge_fromfe_frombytes_vartime s = Some r \<and> coords g x y \<and> fromfe_point (le_val s) x y
    \<and> ge_tobytes r = ed_encode g \<and> pt3 (imult 8 g) (ge_p1p1_to_p3 (ge_mul8 r))"
proof -
  obtain r x y z where r: "ge_fromfe_frombytes_vartime s = Some r" "p2_wide r x y z" "coprime z p25519" "on_curve x y"
      "fromfe_point (le_val s) x y"
    using fromfe_correct [OF assms] by blast
  obtain g where g: "coords g x y"
    using on_curve_coords [OF r(4)] .
  have "ge_tobytes r = ed_encode g"
    using ge_tobytes_eq [OF r(2) eqm_inverse [OF r(3)]] ed_encode_coords [OF g] by simp
  then show ?thesis
    using r(1,5) g mul8_wide [OF r(2,3) g] by (intro exI [of _ r] exI [of _ g] exI [of _ x] exI [of _ y] conjI)
qed

theorem fromfe_on_curve_witness:
  "\<exists>r g x y. ge_fromfe_frombytes_vartime (replicate 32 7) = Some r \<and> coords g x y \<and> fromfe_point (le_val (replicate 32 7)) x y
    \<and> ge_tobytes r = ed_encode g \<and> pt3 (imult 8 g) (ge_p1p1_to_p3 (ge_mul8 r))"
  by (rule fromfe_on_curve) simp

end
