(* ===== verification/Reciprocal.thy ===== *)
theory Reciprocal
  imports Prelude
begin

text \<open>
  The reciprocal of RandomX, \<^verbatim>\<open>src/crypto/randomx/reciprocal.c\<close>: a 64-bit approximation of
  \<open>1 / divisor\<close> by a restoring division, one bit of the quotient per round.  The values are unsigned
  64-bit words; \<open>None\<close> is the failing assertion for a zero divisor.
\<close>

section \<open>The function\<close>

text \<open>The first loop: the number of shifts until \<^verbatim>\<open>bit\<close> is zero.\<close>

function rcp_bsr :: "i64 \<Rightarrow> nat" where
  "rcp_bsr b = (if 0 < b then Suc (rcp_bsr (drop_bit 1 b)) else 0)"
  by auto

termination
proof (relation "measure unat")
  fix b :: i64 assume "0 < b"
  then have "0 < uint b"
    by (simp add: word_less_def)
  moreover have "uint (drop_bit 1 b) = uint b div 2"
    using uint_drop_bit_div [of 1 b] by simp
  ultimately have "uint (drop_bit 1 b) < uint b"
    by linarith
  then show "(drop_bit 1 b, b) \<in> measure unat"
    by (simp add: word_less_iff_unsigned word_less_def flip: word_less_nat_alt)
qed simp

declare rcp_bsr.simps [simp del]

text \<open>The body of the second loop, on \<^verbatim>\<open>quotient\<close> and \<^verbatim>\<open>remainder\<close>.\<close>

fun rcp_step :: "i64 \<Rightarrow> i64 \<times> i64 \<Rightarrow> i64 \<times> i64" where
  "rcp_step divisor (quot, rem) =
     (if divisor - rem \<le> rem then (quot * 2 + 1, rem * 2 - divisor)
      else (quot * 2, rem * 2))"

definition randomx_reciprocal :: "i64 \<Rightarrow> i64 option" where
  "randomx_reciprocal divisor =
     (if divisor = 0 then None
      else let p2exp63 = 2 ^ 63;
               quot = p2exp63 div divisor;
               rem = p2exp63 mod divisor;
               bsr = rcp_bsr divisor
           in Some (fst ((rcp_step divisor ^^ bsr) (quot, rem))))"

definition randomx_reciprocal_fast :: "i64 \<Rightarrow> i64 option" where
  "randomx_reciprocal_fast divisor = randomx_reciprocal divisor"

section \<open>The number of bits\<close>

lemma rcp_bsr_bounds:
  assumes "0 < d"
  shows "0 < rcp_bsr d \<and> 2 ^ (rcp_bsr d - 1) \<le> uint d \<and> uint d < 2 ^ rcp_bsr d"
  using assms
proof (induction d rule: rcp_bsr.induct)
  case (1 d)
  have u: "uint (drop_bit 1 d) = uint d div 2"
    using uint_drop_bit_div [of 1 d] by simp
  show ?case
  proof (cases "0 < drop_bit 1 d")
    case True
    from 1(1) [OF 1(2) True] obtain n where n: "rcp_bsr (drop_bit 1 d) = Suc n"
      "2 ^ n \<le> uint d div 2" "uint d div 2 < 2 * 2 ^ n"
      unfolding u by (cases "rcp_bsr (drop_bit 1 d)") auto
    then have "2 * 2 ^ n \<le> uint d" "uint d < 2 * (2 * 2 ^ n)"
      by linarith+
    then show ?thesis
      using 1(2) n(1) by (subst (1 2 3) rcp_bsr.simps) simp
  next
    case False
    then have "drop_bit 1 d = 0"
      by (metis word_gt_0)
    then have "uint d div 2 = 0" "rcp_bsr d = 1"
      using u 1(2) False by (simp_all add: rcp_bsr.simps)
    moreover have "0 < uint d"
      using 1(2) by (simp add: word_less_def)
    ultimately show ?thesis
      by simp
  qed
qed

section \<open>The division\<close>

text \<open>After \<open>k\<close> rounds: quotient and remainder of \<open>2 ^ (63 + k)\<close>, the quotient modulo \<open>2 ^ 64\<close>.\<close>

definition rcp_inv :: "i64 \<Rightarrow> nat \<Rightarrow> i64 \<times> i64 \<Rightarrow> bool" where
  "rcp_inv d k qr \<longleftrightarrow> fst qr = word_of_int (2 ^ (63 + k) div uint d) \<and> uint (snd qr) = 2 ^ (63 + k) mod uint d"

lemma double_divmod:
  fixes n d :: int
  assumes "0 < d"
  shows "2 * n div d = 2 * (n div d) + (if d - n mod d \<le> n mod d then 1 else 0)"
    and "2 * n mod d = 2 * (n mod d) - (if d - n mod d \<le> n mod d then d else 0)"
proof -
  define a b c where "a = n div d" and "b = n mod d" and "c = (if d - b \<le> b then 1 else 0 :: int)"
  have n: "n = a * d + b" and b: "0 \<le> b" "b < d"
    using assms by (simp_all add: a_def b_def)
  have "2 * n = d * (2 * a + c) + (2 * b - c * d)"
    unfolding n by (simp add: algebra_simps)
  moreover have "0 \<le> 2 * b - c * d" "2 * b - c * d < d"
    using b by (auto simp: c_def)
  ultimately have "2 * n div d = 2 * a + c" "2 * n mod d = 2 * b - c * d"
    by (rule int_div_pos_eq, rule int_mod_pos_eq)
  then show "2 * n div d = 2 * (n div d) + (if d - n mod d \<le> n mod d then 1 else 0)"
    and "2 * n mod d = 2 * (n mod d) - (if d - n mod d \<le> n mod d then d else 0)"
    unfolding c_def a_def [symmetric] b_def [symmetric] by (simp_all split: if_splits)
qed

lemma rcp_step_inv:
  assumes "0 < d" "rcp_inv d k qr"
  shows "rcp_inv d (Suc k) (rcp_step d qr)"
proof -
  obtain q r where qr: "qr = (q, r)" by (cases qr)
  let ?n = "2 ^ (63 + k) :: int"
  have d: "0 < uint d" "uint d < 2 ^ 64"
    using assms(1) uint_lt2p [of d] by (simp_all add: word_less_def)
  have r: "uint r = ?n mod uint d" "uint r < uint d" "0 \<le> uint r" and q: "q = word_of_int (?n div uint d)"
    using assms(2) d by (simp_all add: rcp_inv_def qr)
  have n: "2 ^ (63 + Suc k) = 2 * ?n"
    by (simp only: add_Suc_right power_Suc)
  have "uint (d - r) = uint d - uint r"
    using r(2) by (simp add: uint_sub_if')
  then have c: "d - r \<le> r \<longleftrightarrow> uint d - uint r \<le> uint r"
    by (simp add: word_le_def)
  note dm = double_divmod [OF d(1), of ?n, folded r(1)]
  show ?thesis
  proof (cases "uint d - uint r \<le> uint r")
    case True
    have "r * 2 - d = word_of_int (2 * uint r - uint d)"
      by (simp add: mult.commute)
    then have "uint (r * 2 - d) = (2 * uint r - uint d) mod 2 ^ 64"
      by (simp only: uint_word_of_int) simp
    also have "\<dots> = 2 * uint r - uint d"
      using True r(2) d(2) by (intro mod_pos_pos_trivial) linarith+
    finally have "uint (r * 2 - d) = 2 * uint r - uint d" .
    then show ?thesis
      unfolding rcp_inv_def qr n using True c dm q by (simp add: mult.commute)
  next
    case False
    then have "uint (r * 2) = 2 * uint r"
      using r d by (simp add: uint_mult_lem mult.commute uint_word_ariths)
    then show ?thesis
      unfolding rcp_inv_def qr n using False c dm q by (simp add: mult.commute)
  qed
qed

lemma rcp_loop:
  assumes "0 < d"
  shows "rcp_inv d k ((rcp_step d ^^ k) (2 ^ 63 div d, 2 ^ 63 mod d))"
proof (induction k)
  case 0
  have "uint (2 ^ 63 :: i64) = 2 ^ 63" by simp
  then show ?case
    by (simp only: rcp_inv_def fst_conv snd_conv word_div_def uint_mod funpow_0 add_0_right)
next
  case (Suc k)
  then show ?case using rcp_step_inv [OF assms] by simp
qed

lemma randomx_reciprocal_eq:
  assumes "d \<noteq> 0"
  shows "randomx_reciprocal d = Some (word_of_int (2 ^ (63 + rcp_bsr d) div uint d))"
proof -
  have "0 < d" using assms by (simp add: word_gt_0)
  then show ?thesis
    using rcp_loop [of d "rcp_bsr d"] assms by (simp add: randomx_reciprocal_def rcp_inv_def)
qed

section \<open>Results\<close>

lemma le_div_iff:
  fixes k n d :: int
  assumes "0 < d"
  shows "k \<le> n div d \<longleftrightarrow> k * d \<le> n"
proof
  assume "k \<le> n div d"
  then have "k * d \<le> n div d * d"
    using assms by simp
  also have "\<dots> \<le> n"
    using div_mult_mod_eq [of n d] pos_mod_sign [OF assms, of n] by linarith
  finally show "k * d \<le> n" .
next
  assume "k * d \<le> n"
  then have "k * d div d \<le> n div d"
    using assms by (rule zdiv_mono1)
  then show "k \<le> n div d"
    using assms by simp
qed

lemma pow2_bits:
  fixes d :: int
  assumes "2 ^ n \<le> d" "d < 2 ^ Suc n"
  shows "2 ^ (64 + n) div d \<le> 2 ^ 64" "2 ^ 64 \<le> 2 ^ (65 + n) div d" "2 ^ (64 + n) div d = 2 ^ 64 \<longleftrightarrow> d = 2 ^ n"
proof -
  have "0 < (2::int) ^ n" by simp
  then have pos: "0 < d" "0 < (2::int) ^ n"
    using assms(1) by linarith+
  have p: "(2::int) ^ (64 + n) = 2 ^ 64 * 2 ^ n" "(2::int) ^ (65 + n) = 2 ^ 64 * 2 ^ Suc n"
    by (simp_all add: power_add)
  have up: "2 ^ 64 + 1 \<le> 2 ^ (64 + n) div d \<longleftrightarrow> (2 ^ 64 + 1) * d \<le> 2 ^ 64 * 2 ^ n"
    and eq: "2 ^ 64 \<le> 2 ^ (64 + n) div d \<longleftrightarrow> 2 ^ 64 * d \<le> 2 ^ 64 * 2 ^ n"
    and low: "2 ^ 64 \<le> 2 ^ (65 + n) div d \<longleftrightarrow> 2 ^ 64 * d \<le> 2 ^ 64 * 2 ^ Suc n"
    unfolding p by (rule le_div_iff [OF pos(1)])+
  have "(2 ^ 64 + 1) * d = 2 ^ 64 * d + d"
    by (simp only: distrib_right mult_1)
  moreover have "2 ^ 64 * 2 ^ n \<le> 2 ^ 64 * d"
    using assms(1) by simp
  ultimately have "\<not> (2 ^ 64 + 1) * d \<le> 2 ^ 64 * 2 ^ n"
    using pos by linarith
  then show le: "2 ^ (64 + n) div d \<le> 2 ^ 64"
    using up by linarith
  show "2 ^ 64 \<le> 2 ^ (65 + n) div d"
    unfolding low using assms(2) by simp
  show "2 ^ (64 + n) div d = 2 ^ 64 \<longleftrightarrow> d = 2 ^ n"
    using eq le assms(1) by auto
qed

lemma rcp_bits:
  assumes "d \<noteq> 0"
  obtains n where "randomx_reciprocal d = Some (word_of_int (2 ^ (64 + n) div uint d))"
    "2 ^ n \<le> uint d" "uint d < 2 ^ Suc n"
proof -
  have "0 < d" using assms by (simp add: word_gt_0)
  then obtain n where "rcp_bsr d = Suc n" "2 ^ n \<le> uint d" "uint d < 2 ^ Suc n"
    using rcp_bsr_bounds [of d] by (cases "rcp_bsr d") auto
  then show thesis
    using that [of n] randomx_reciprocal_eq [OF assms] by simp
qed

text \<open>
  C33. \<open>randomx_reciprocal\<close> computes what its comment says: for a divisor that is neither zero nor a power of
  two the result is \<open>2 ^ x\<close> divided by the divisor, for the highest \<open>x\<close> for which this is below \<open>2 ^ 64\<close>.
\<close>

theorem randomx_reciprocal_correct:
  assumes "d \<noteq> 0" "\<forall>k. uint d \<noteq> 2 ^ k"
  shows "\<exists>x r. randomx_reciprocal d = Some r \<and> uint r = 2 ^ x div uint d \<and> 2 ^ 64 \<le> 2 ^ (x + 1) div uint d"
proof -
  obtain n where n: "randomx_reciprocal d = Some (word_of_int (2 ^ (64 + n) div uint d))"
    "2 ^ n \<le> uint d" "uint d < 2 ^ Suc n"
    using assms(1) by (rule rcp_bits)
  note b = pow2_bits [OF n(2,3)]
  have "2 ^ (64 + n) div uint d < 2 ^ 64"
    using b(1,3) assms(2) by (metis order_le_imp_less_or_eq)
  moreover have "0 \<le> 2 ^ (64 + n) div uint d"
    by (intro div_int_pos_iff [THEN iffD2]) simp
  ultimately have "uint (word_of_int (2 ^ (64 + n) div uint d) :: i64) = 2 ^ (64 + n) div uint d"
    by (simp only: uint_word_of_int) (simp only: mod_pos_pos_trivial len_num1 len_bit0 len_bit1 mult_1 mult_2 numeral_One, simp)
  then show ?thesis
    using n(1) b(2) by (intro exI [of _ "64 + n"] exI [of _ "word_of_int (2 ^ (64 + n) div uint d)"]) (simp add: add.commute)
qed

theorem randomx_reciprocal_correct_witness:
  "\<exists>x r. randomx_reciprocal 3 = Some r \<and> uint r = 2 ^ x div 3 \<and> 2 ^ 64 \<le> 2 ^ (x + 1) div (3 :: int)"
proof -
  have "(3 :: int) \<noteq> 2 ^ k" for k
  proof (cases k)
    case (Suc n)
    then have "even ((2 :: int) ^ k)" by simp
    then show ?thesis by (metis odd_numeral)
  qed simp
  then show ?thesis
    using randomx_reciprocal_correct [of 3] by simp
qed

text \<open>
  Outside of this domain: a zero divisor fails the assertion, and for a power of two the quotient is
  \<open>2 ^ 64\<close>, which wraps around to 0.
\<close>

lemma randomx_reciprocal_degenerate:
  "randomx_reciprocal 0 = None \<and> (uint d = 2 ^ k \<longrightarrow> randomx_reciprocal d = Some 0)"
proof (intro conjI impI)
  show "randomx_reciprocal 0 = None"
    by (simp add: randomx_reciprocal_def)
  assume d: "uint d = 2 ^ k"
  then have "d \<noteq> 0" by auto
  then obtain n where n: "randomx_reciprocal d = Some (word_of_int (2 ^ (64 + n) div uint d))"
    "2 ^ n \<le> uint d" "uint d < 2 ^ Suc n"
    by (rule rcp_bits)
  then have "n \<le> k" "k < Suc n"
    unfolding d by (simp_all only: power_increasing_iff power_strict_increasing_iff one_less_numeral_iff semiring_norm)
  then have "k = n" by simp
  then have "2 ^ (64 + n) div uint d = 2 ^ 64"
    using pow2_bits(3) [OF n(2,3)] d by simp
  then show "randomx_reciprocal d = Some 0"
    using n(1) by simp
qed

end
