(* ===== verification/Blake2b.thy ===== *)
theory Blake2b
  imports Bytes
begin

text \<open>
  The streaming hash BLAKE2b of \<^verbatim>\<open>src/crypto/randomx/blake2/blake2b.c\<close> with the long output of Argon2.
  The state is the record \<open>blake2b_state\<close>; an operation returns the new state and the C result, 0 or -1, and
  \<open>rx_blake2b_final\<close> the digest or \<open>None\<close> for -1.  An input is a pointer that may be \<^verbatim>\<open>NULL\<close> (\<open>None\<close>) and a
  length; pointers to states and outputs are never \<^verbatim>\<open>NULL\<close>.  Lengths are natural numbers,
  where the code has \<^verbatim>\<open>size_t\<close>: they agree as long as the length of an input and 128 add up below \<open>2\<^sup>6\<^sup>4\<close>.  The function pointers
  \<^verbatim>\<open>rx_blake2b_compress\<close> and \<^verbatim>\<open>rx_blake2b\<close>, which the program may set to vectorised versions, are the
  parameters \<open>compress\<close> and \<open>hash\<close>.
\<close>

unbundle bit_operations_syntax

section \<open>Constants and words\<close>

definition blake2b_IV :: "i64 list" where
  "blake2b_IV = [0x6a09e667f3bcc908, 0xbb67ae8584caa73b, 0x3c6ef372fe94f82b, 0xa54ff53a5f1d36f1,
     0x510e527fade682d1, 0x9b05688c2b3e6c1f, 0x1f83d9abfb41bd6b, 0x5be0cd19137e2179]"

definition blake2b_sigma :: "nat list list" where
  "blake2b_sigma =
    [[0, 1, 2, 3, 4, 5, 6, 7, 8, 9, 10, 11, 12, 13, 14, 15],
     [14, 10, 4, 8, 9, 15, 13, 6, 1, 12, 0, 2, 11, 7, 5, 3],
     [11, 8, 12, 0, 5, 2, 15, 13, 10, 14, 3, 6, 7, 1, 9, 4],
     [7, 9, 3, 1, 13, 12, 11, 14, 2, 6, 5, 10, 4, 0, 15, 8],
     [9, 0, 5, 7, 2, 4, 10, 15, 14, 1, 11, 12, 6, 8, 3, 13],
     [2, 12, 6, 10, 0, 11, 8, 3, 4, 13, 7, 5, 15, 14, 1, 9],
     [12, 5, 1, 15, 14, 13, 4, 10, 0, 7, 6, 3, 9, 2, 8, 11],
     [13, 11, 7, 14, 12, 1, 3, 9, 5, 0, 15, 4, 8, 6, 2, 10],
     [6, 15, 14, 9, 11, 3, 0, 8, 12, 2, 13, 7, 1, 4, 10, 5],
     [10, 2, 8, 4, 7, 6, 1, 5, 15, 11, 9, 14, 3, 12, 13, 0],
     [0, 1, 2, 3, 4, 5, 6, 7, 8, 9, 10, 11, 12, 13, 14, 15],
     [14, 10, 4, 8, 9, 15, 13, 6, 1, 12, 0, 2, 11, 7, 5, 3]]"

abbreviation BLAKE2B_BLOCKBYTES :: nat where "BLAKE2B_BLOCKBYTES \<equiv> 128"
abbreviation BLAKE2B_OUTBYTES :: nat where "BLAKE2B_OUTBYTES \<equiv> 64"
abbreviation BLAKE2B_KEYBYTES :: nat where "BLAKE2B_KEYBYTES \<equiv> 64"

definition load64 :: "byte list \<Rightarrow> i64" where
  "load64 p = ucast (p ! 0) OR push_bit 8 (ucast (p ! 1)) OR push_bit 16 (ucast (p ! 2)) OR push_bit 24 (ucast (p ! 3))
     OR push_bit 32 (ucast (p ! 4)) OR push_bit 40 (ucast (p ! 5)) OR push_bit 48 (ucast (p ! 6))
     OR push_bit 56 (ucast (p ! 7))"

definition store64 :: "i64 \<Rightarrow> byte list" where
  "store64 w = map (\<lambda>i. ucast (drop_bit (8 * i) w)) [0..<8]"

definition store32 :: "i32 \<Rightarrow> byte list" where
  "store32 w = map (\<lambda>i. ucast (drop_bit (8 * i) w)) [0..<4]"

definition rotr64 :: "i64 \<Rightarrow> nat \<Rightarrow> i64" where
  "rotr64 w c = drop_bit c w OR push_bit (64 - c) w"

section \<open>The state\<close>

record blake2b_param =
  digest_length :: byte
  key_length :: byte
  fanout :: byte
  depth :: byte
  leaf_length :: i32
  node_offset :: i64
  node_depth :: byte
  inner_length :: byte
  reserved :: "byte list"
  salt :: "byte list"
  personal :: "byte list"

text \<open>The packed layout of the structure in memory.\<close>

definition blake2b_param_bytes :: "blake2b_param \<Rightarrow> byte list" where
  "blake2b_param_bytes P = [digest_length P, key_length P, fanout P, depth P] @ store32 (leaf_length P)
     @ store64 (node_offset P) @ [node_depth P, inner_length P] @ reserved P @ salt P @ personal P"

record blake2b_state =
  b_h :: "i64 list"
  b_t :: "i64 list"
  b_f :: "i64 list"
  b_buf :: "byte list"
  b_buflen :: nat
  b_outlen :: nat
  b_last_node :: byte

definition blake2b_set_lastnode :: "blake2b_state \<Rightarrow> blake2b_state" where
  "blake2b_set_lastnode S = S\<lparr>b_f := (b_f S)[1 := - 1]\<rparr>"

definition blake2b_set_lastblock :: "blake2b_state \<Rightarrow> blake2b_state" where
  "blake2b_set_lastblock S =
     (let S = if b_last_node S \<noteq> 0 then blake2b_set_lastnode S else S
      in S\<lparr>b_f := (b_f S)[0 := - 1]\<rparr>)"

definition blake2b_increment_counter :: "blake2b_state \<Rightarrow> i64 \<Rightarrow> blake2b_state" where
  "blake2b_increment_counter S inc =
     (let t = b_t S;
          t = t[0 := t ! 0 + inc];
          t = t[1 := t ! 1 + (if t ! 0 < inc then 1 else 0)]
      in S\<lparr>b_t := t\<rparr>)"

definition blake2b_invalidate_state :: "blake2b_state \<Rightarrow> blake2b_state" where
  "blake2b_invalidate_state S = blake2b_set_lastblock S"

definition blake2b_init0 :: blake2b_state where
  "blake2b_init0 = \<lparr>b_h = blake2b_IV, b_t = [0, 0], b_f = [0, 0], b_buf = replicate BLAKE2B_BLOCKBYTES 0,
     b_buflen = 0, b_outlen = 0, b_last_node = 0\<rparr>"

definition rx_blake2b_init_param :: "blake2b_param \<Rightarrow> blake2b_state" where
  "rx_blake2b_init_param P =
     (let p = blake2b_param_bytes P;
          S = blake2b_init0;
          S = S\<lparr>b_h := map (\<lambda>i. b_h S ! i XOR load64 (drop (i * 8) p)) [0..<8]\<rparr>
      in S\<lparr>b_outlen := unat (digest_length P)\<rparr>)"

definition blake2b_sequential :: "nat \<Rightarrow> nat \<Rightarrow> blake2b_param" where
  "blake2b_sequential outlen keylen = \<lparr>digest_length = of_nat outlen, key_length = of_nat keylen, fanout = 1,
     depth = 1, leaf_length = 0, node_offset = 0, node_depth = 0, inner_length = 0, reserved = replicate 14 0,
     salt = replicate 16 0, personal = replicate 16 0\<rparr>"

definition rx_blake2b_init :: "blake2b_state \<Rightarrow> nat \<Rightarrow> blake2b_state \<times> int" where
  "rx_blake2b_init S outlen =
     (if outlen = 0 \<or> outlen > BLAKE2B_OUTBYTES then (blake2b_invalidate_state S, - 1)
      else (rx_blake2b_init_param (blake2b_sequential outlen 0), 0))"

section \<open>Compression\<close>

definition blake2b_G :: "i64 list \<Rightarrow> nat \<Rightarrow> nat \<Rightarrow> nat \<Rightarrow> nat \<Rightarrow> nat \<Rightarrow> nat \<Rightarrow> i64 list \<Rightarrow> i64 list" where
  "blake2b_G m r i a b c d v =
     (let v = v[a := v ! a + v ! b + m ! (blake2b_sigma ! r ! (2 * i + 0))];
          v = v[d := rotr64 (v ! d XOR v ! a) 32];
          v = v[c := v ! c + v ! d];
          v = v[b := rotr64 (v ! b XOR v ! c) 24];
          v = v[a := v ! a + v ! b + m ! (blake2b_sigma ! r ! (2 * i + 1))];
          v = v[d := rotr64 (v ! d XOR v ! a) 16];
          v = v[c := v ! c + v ! d]
      in v[b := rotr64 (v ! b XOR v ! c) 63])"

definition blake2b_ROUND :: "i64 list \<Rightarrow> nat \<Rightarrow> i64 list \<Rightarrow> i64 list" where
  "blake2b_ROUND m r v =
     (let v = blake2b_G m r 0 0 4 8 12 v;
          v = blake2b_G m r 1 1 5 9 13 v;
          v = blake2b_G m r 2 2 6 10 14 v;
          v = blake2b_G m r 3 3 7 11 15 v;
          v = blake2b_G m r 4 0 5 10 15 v;
          v = blake2b_G m r 5 1 6 11 12 v;
          v = blake2b_G m r 6 2 7 8 13 v
      in blake2b_G m r 7 3 4 9 14 v)"

definition rx_blake2b_compress_integer :: "blake2b_state \<Rightarrow> byte list \<Rightarrow> blake2b_state" where
  "rx_blake2b_compress_integer S block =
     (let m = map (\<lambda>i. load64 (drop (i * 8) block)) [0..<16];
          v = map (\<lambda>i. b_h S ! i) [0..<8] @
            [blake2b_IV ! 0, blake2b_IV ! 1, blake2b_IV ! 2, blake2b_IV ! 3, blake2b_IV ! 4 XOR b_t S ! 0,
             blake2b_IV ! 5 XOR b_t S ! 1, blake2b_IV ! 6 XOR b_f S ! 0, blake2b_IV ! 7 XOR b_f S ! 1];
          v = fold (blake2b_ROUND m) [0..<12] v
      in S\<lparr>b_h := map (\<lambda>i. b_h S ! i XOR v ! i XOR v ! (i + 8)) [0..<8]\<rparr>)"

section \<open>Update\<close>

type_synonym compressor = "blake2b_state \<Rightarrow> byte list \<Rightarrow> blake2b_state"

text \<open>\<^verbatim>\<open>memcpy\<close> into the buffer at an offset.\<close>

definition buf_write :: "byte list \<Rightarrow> nat \<Rightarrow> byte list \<Rightarrow> byte list" where
  "buf_write buf off xs = take off buf @ xs @ drop (off + length xs) buf"

text \<open>The loop that compresses whole blocks from the input.\<close>

function blake2b_blocks :: "compressor \<Rightarrow> blake2b_state \<Rightarrow> byte list \<Rightarrow> blake2b_state \<times> byte list" where
  "blake2b_blocks compress S pin =
     (if length pin > BLAKE2B_BLOCKBYTES
      then let S = blake2b_increment_counter S (of_nat BLAKE2B_BLOCKBYTES);
               S = compress S (take BLAKE2B_BLOCKBYTES pin)
           in blake2b_blocks compress S (drop BLAKE2B_BLOCKBYTES pin)
      else (S, pin))"
  by auto

termination
  by (relation "measure (\<lambda>(_, _, pin). length pin)") auto

declare blake2b_blocks.simps [simp del]

definition rx_blake2b_update ::
    "compressor \<Rightarrow> blake2b_state \<Rightarrow> byte list option \<Rightarrow> nat \<Rightarrow> blake2b_state \<times> int" where
  "rx_blake2b_update compress S inp inlen =
     (if inlen = 0 then (S, 0)
      else case inp of
        None \<Rightarrow> (S, - 1)
      | Some mem \<Rightarrow>
          if b_f S ! 0 \<noteq> 0 then (S, - 1)
          else let pin = take inlen mem;
                   (S, pin) =
                     (if b_buflen S + inlen > BLAKE2B_BLOCKBYTES
                      then let left = b_buflen S;
                               fill = BLAKE2B_BLOCKBYTES - left;
                               S = S\<lparr>b_buf := buf_write (b_buf S) left (take fill pin)\<rparr>;
                               S = blake2b_increment_counter S (of_nat BLAKE2B_BLOCKBYTES);
                               S = compress S (b_buf S);
                               S = S\<lparr>b_buflen := 0\<rparr>
                           in blake2b_blocks compress S (drop fill pin)
                      else (S, pin));
                   S = S\<lparr>b_buf := buf_write (b_buf S) (b_buflen S) pin\<rparr>
               in (S\<lparr>b_buflen := b_buflen S + length pin\<rparr>, 0))"

definition rx_blake2b_init_key ::
    "compressor \<Rightarrow> blake2b_state \<Rightarrow> nat \<Rightarrow> byte list option \<Rightarrow> nat \<Rightarrow> blake2b_state \<times> int" where
  "rx_blake2b_init_key compress S outlen key keylen =
     (if outlen = 0 \<or> outlen > BLAKE2B_OUTBYTES then (blake2b_invalidate_state S, - 1)
      else case key of
        None \<Rightarrow> (blake2b_invalidate_state S, - 1)
      | Some k \<Rightarrow>
          if keylen = 0 \<or> keylen > BLAKE2B_KEYBYTES then (blake2b_invalidate_state S, - 1)
          else let S = rx_blake2b_init_param (blake2b_sequential outlen keylen);
                   block = replicate BLAKE2B_BLOCKBYTES 0;
                   block = buf_write block 0 (take keylen k)
               in (fst (rx_blake2b_update compress S (Some block) BLAKE2B_BLOCKBYTES), 0))"

section \<open>Final\<close>

definition rx_blake2b_final :: "compressor \<Rightarrow> blake2b_state \<Rightarrow> nat \<Rightarrow> blake2b_state \<times> byte list option" where
  "rx_blake2b_final compress S outlen =
     (if outlen < b_outlen S then (S, None)
      else if b_f S ! 0 \<noteq> 0 then (S, None)
      else let S = blake2b_increment_counter S (of_nat (b_buflen S));
               S = blake2b_set_lastblock S;
               S = S\<lparr>b_buf := buf_write (b_buf S) (b_buflen S) (replicate (BLAKE2B_BLOCKBYTES - b_buflen S) 0)\<rparr>;
               S = compress S (b_buf S);
               buffer = concat (map (\<lambda>i. store64 (b_h S ! i)) [0..<8])
           in (S, Some (take (b_outlen S) buffer)))"

text \<open>\<open>S\<close> is the uninitialised local variable.\<close>

definition rx_blake2b_default ::
    "compressor \<Rightarrow> blake2b_state \<Rightarrow> nat \<Rightarrow> byte list option \<Rightarrow> nat \<Rightarrow> byte list option" where
  "rx_blake2b_default compress S outlen inp inlen =
     (if inp = None \<and> inlen > 0 then None
      else if outlen = 0 \<or> outlen > BLAKE2B_OUTBYTES then None
      else let (S, ret) = rx_blake2b_init S outlen
           in if ret < 0 then None
              else let (S, ret) = rx_blake2b_update compress S inp inlen
                   in if ret < 0 then None else snd (rx_blake2b_final compress S outlen))"

section \<open>Long output\<close>

text \<open>The loop over \<^verbatim>\<open>toproduce\<close>; it returns the bytes written from \<^verbatim>\<open>out\<close> on.\<close>

function blake2b_long_loop :: "(nat \<Rightarrow> byte list \<Rightarrow> byte list option) \<Rightarrow> byte list \<Rightarrow> nat \<Rightarrow> byte list option" where
  "blake2b_long_loop hash out_buffer toproduce =
     (if toproduce > BLAKE2B_OUTBYTES
      then case hash BLAKE2B_OUTBYTES out_buffer of
             None \<Rightarrow> None
           | Some out_buffer \<Rightarrow>
               (case blake2b_long_loop hash out_buffer (toproduce - BLAKE2B_OUTBYTES div 2) of
                  None \<Rightarrow> None
                | Some rest \<Rightarrow> Some (take (BLAKE2B_OUTBYTES div 2) out_buffer @ rest))
      else case hash toproduce out_buffer of
             None \<Rightarrow> None
           | Some out_buffer \<Rightarrow> Some (take toproduce out_buffer))"
  by auto

termination
  by (relation "measure (\<lambda>(_, _, n). n)") auto

declare blake2b_long_loop.simps [simp del]

text \<open>The calls before the loop.\<close>

definition blake2b_long_start ::
    "compressor \<Rightarrow> blake2b_state \<Rightarrow> nat \<Rightarrow> byte list \<Rightarrow> byte list option \<Rightarrow> nat \<Rightarrow> byte list option" where
  "blake2b_long_start compress S outlen outlen_bytes inp inlen =
     (let (S, ret) = rx_blake2b_init S outlen
      in if ret < 0 then None
         else let (S, ret) = rx_blake2b_update compress S (Some outlen_bytes) (length outlen_bytes)
              in if ret < 0 then None
                 else let (S, ret) = rx_blake2b_update compress S inp inlen
                      in if ret < 0 then None else snd (rx_blake2b_final compress S outlen))"

definition rxa2_blake2b_long ::
    "compressor \<Rightarrow> (nat \<Rightarrow> byte list \<Rightarrow> byte list option) \<Rightarrow> blake2b_state \<Rightarrow> nat \<Rightarrow> byte list option \<Rightarrow> nat
      \<Rightarrow> byte list option" where
  "rxa2_blake2b_long compress hash S outlen inp inlen =
     (if outlen > 2 ^ 32 - 1 then None
      else let outlen_bytes = store32 (of_nat outlen)
           in if outlen \<le> BLAKE2B_OUTBYTES
              then blake2b_long_start compress S outlen outlen_bytes inp inlen
              else case blake2b_long_start compress S BLAKE2B_OUTBYTES outlen_bytes inp inlen of
                     None \<Rightarrow> None
                   | Some out_buffer \<Rightarrow>
                       (case blake2b_long_loop hash out_buffer (outlen - BLAKE2B_OUTBYTES div 2) of
                          None \<Rightarrow> None
                        | Some rest \<Rightarrow> Some (take (BLAKE2B_OUTBYTES div 2) out_buffer @ rest)))"

end
