(* ===== verification/Blake2bStream.thy ===== *)
theory Blake2bStream
  imports Blake2b
begin

text \<open>
  What the streaming interface of BLAKE2b promises.  The locale \<open>block_compression\<close> states what it uses of the
  function behind \<^verbatim>\<open>rx_blake2b_compress\<close>: only the chaining value changes, and it depends on the chaining
  value, the counter, the flags and the block.  A state stands for the part without the buffer (\<open>core\<close>) and
  the bytes that wait in the buffer (\<open>pending\<close>); an update runs \<open>blake2b_blocks\<close> on the pending bytes followed
  by the input, so that the digest does not depend on how the input is cut into pieces.
\<close>

section \<open>Well-formed states\<close>

definition blake2b_wf :: "blake2b_state \<Rightarrow> bool" where
  "blake2b_wf S \<longleftrightarrow> length (b_h S) = 8 \<and> length (b_t S) = 2 \<and> length (b_f S) = 2
     \<and> length (b_buf S) = BLAKE2B_BLOCKBYTES \<and> b_buflen S \<le> BLAKE2B_BLOCKBYTES \<and> b_outlen S \<le> BLAKE2B_OUTBYTES"

definition core :: "blake2b_state \<Rightarrow> blake2b_state" where
  "core S = S\<lparr>b_buf := [], b_buflen := 0\<rparr>"

definition pending :: "blake2b_state \<Rightarrow> byte list" where
  "pending S = take (b_buflen S) (b_buf S)"

lemma core_simps [simp]:
  "b_h (core S) = b_h S" "b_t (core S) = b_t S" "b_f (core S) = b_f S" "b_outlen (core S) = b_outlen S"
  "b_last_node (core S) = b_last_node S" "core (S\<lparr>b_buf := x\<rparr>) = core S" "core (S\<lparr>b_buflen := n\<rparr>) = core S"
  "core (core S) = core S"
  by (simp_all add: core_def)

lemma core_increment: "core (blake2b_increment_counter S n) = blake2b_increment_counter (core S) n"
  by (simp add: core_def blake2b_increment_counter_def Let_def)

lemma increment_simps [simp]:
  "b_h (blake2b_increment_counter S n) = b_h S" "b_f (blake2b_increment_counter S n) = b_f S"
  "b_buf (blake2b_increment_counter S n) = b_buf S" "b_buflen (blake2b_increment_counter S n) = b_buflen S"
  "b_outlen (blake2b_increment_counter S n) = b_outlen S" "b_last_node (blake2b_increment_counter S n) = b_last_node S"
  "length (b_t (blake2b_increment_counter S n)) = length (b_t S)"
  by (simp_all add: blake2b_increment_counter_def Let_def)

lemma lastblock_simps [simp]:
  "b_h (blake2b_set_lastblock S) = b_h S" "b_t (blake2b_set_lastblock S) = b_t S"
  "b_buf (blake2b_set_lastblock S) = b_buf S" "b_buflen (blake2b_set_lastblock S) = b_buflen S"
  "b_outlen (blake2b_set_lastblock S) = b_outlen S" "b_last_node (blake2b_set_lastblock S) = b_last_node S"
  "length (b_f (blake2b_set_lastblock S)) = length (b_f S)"
  by (simp_all add: blake2b_set_lastblock_def blake2b_set_lastnode_def Let_def)

lemma core_lastblock: "core (blake2b_set_lastblock S) = blake2b_set_lastblock (core S)"
  by (simp add: core_def blake2b_set_lastblock_def blake2b_set_lastnode_def Let_def)

lemma lastblock_f: "length (b_f S) = 2 \<Longrightarrow> b_f (blake2b_set_lastblock S) ! 0 = - 1"
  by (simp add: blake2b_set_lastblock_def blake2b_set_lastnode_def Let_def)

lemma length_buf_write: "off + length xs \<le> length buf \<Longrightarrow> length (buf_write buf off xs) = length buf"
  by (simp add: buf_write_def)

lemma take_buf_write: "off + length xs \<le> length buf \<Longrightarrow> take (off + length xs) (buf_write buf off xs) = take off buf @ xs"
  by (simp add: buf_write_def min_absorb2)

lemma buf_write_full: "off + length xs = length buf \<Longrightarrow> buf_write buf off xs = take off buf @ xs"
  by (simp add: buf_write_def)

section \<open>The counter\<close>

text \<open>The two words of \<^verbatim>\<open>t\<close> are a counter of 128 bits.\<close>

definition blake2b_count :: "blake2b_state \<Rightarrow> int" where
  "blake2b_count S = uint (b_t S ! 0) + 2 ^ 64 * uint (b_t S ! 1)"

lemma uint_add_carry:
  fixes x y :: i64
  shows "uint (x + y) + 2 ^ 64 * (if x + y < y then 1 else 0) = uint x + uint y"
proof (cases "uint x + uint y < 2 ^ 64")
  case True
  then have "uint (x + y) = uint x + uint y"
    by (simp add: uint_plus_if')
  then show ?thesis by (simp add: word_less_def not_less)
next
  case False
  then have "uint (x + y) = uint x + uint y - 2 ^ 64"
    by (simp add: uint_plus_if')
  moreover have "uint x < 2 ^ 64" using uint_lt2p [of x] by simp
  ultimately show ?thesis by (simp add: word_less_def)
qed

lemma increment_count:
  assumes "length (b_t S) = 2"
  shows "blake2b_count (blake2b_increment_counter S inc) = (blake2b_count S + uint inc) mod 2 ^ 128"
proof -
  let ?a = "b_t S ! 0" and ?b = "b_t S ! 1"
  let ?c = "if ?a + inc < inc then 1 else 0 :: i64"
  have t: "b_t (blake2b_increment_counter S inc) ! 0 = ?a + inc" "b_t (blake2b_increment_counter S inc) ! 1 = ?b + ?c"
    using assms by (auto simp: blake2b_increment_counter_def Let_def)
  have c: "uint (?a + inc) + 2 ^ 64 * uint ?c = uint ?a + uint inc"
    using uint_add_carry [of ?a inc] by (simp split: if_splits)
  have "uint (?b + ?c) = (uint ?b + uint ?c) mod 2 ^ 64"
    by (simp add: uint_word_ariths)
  then have "2 ^ 64 * uint (?b + ?c) = (2 ^ 64 * (uint ?b + uint ?c)) mod 2 ^ 128"
    using mult_mod_right [of "2 ^ 64" "uint ?b + uint ?c" "2 ^ 64"] by simp
  then have "blake2b_count (blake2b_increment_counter S inc)
      = uint (?a + inc) + (2 ^ 64 * (uint ?b + uint ?c)) mod 2 ^ 128"
    by (simp only: blake2b_count_def t)
  moreover have "(uint (?a + inc) + 2 ^ 64 * (uint ?b + uint ?c)) = blake2b_count S + uint inc"
    using c by (simp add: blake2b_count_def algebra_simps)
  moreover have "0 \<le> uint (?a + inc) + (2 ^ 64 * (uint ?b + uint ?c)) mod 2 ^ 128"
    by simp
  moreover have "uint (?a + inc) + (2 ^ 64 * (uint ?b + uint ?c)) mod 2 ^ 128 < 2 ^ 128"
  proof -
    have "uint (?a + inc) < 2 ^ 64" "uint (?b + ?c) < 2 ^ 64"
      using uint_lt2p [of "?a + inc"] uint_lt2p [of "?b + ?c"] by simp_all
    then show ?thesis
      unfolding \<open>2 ^ 64 * uint (?b + ?c) = _\<close> [symmetric] by simp
  qed
  ultimately show ?thesis
    by (metis mod_add_right_eq mod_pos_pos_trivial)
qed

section \<open>The reference\<close>

text \<open>
  The hash of a whole message: all blocks but the last are compressed with the number of bytes so far, the last
  one is padded with zeros and compressed with the length of the message and the flag of the last block.
\<close>

definition ctr :: "nat \<Rightarrow> i64 list" where
  "ctr n = [of_nat n, of_nat (n div 2 ^ 64)]"

function blake2b_ref ::
    "(i64 list \<Rightarrow> i64 list \<Rightarrow> i64 list \<Rightarrow> byte list \<Rightarrow> i64 list) \<Rightarrow> i64 list \<Rightarrow> nat \<Rightarrow> byte list \<Rightarrow> i64 list" where
  "blake2b_ref F h off M =
     (if length M > 128 then blake2b_ref F (F h (ctr (off + 128)) [0, 0] (take 128 M)) (off + 128) (drop 128 M)
      else F h (ctr (off + length M)) [- 1, 0] (M @ replicate (128 - length M) 0))"
  by auto

termination
  by (relation "measure (\<lambda>(_, _, _, M). length M)") auto

declare blake2b_ref.simps [simp del]

lemma uint_of_nat_i64: "uint (of_nat n :: i64) = int (n mod 2 ^ 64)"
  by (simp add: unsigned_of_nat take_bit_eq_mod)

lemma ctr_increment:
  assumes "b_t S = ctr off" "k < 2 ^ 64"
  shows "b_t (blake2b_increment_counter S (of_nat k)) = ctr (off + k)"
proof -
  let ?q = "off div 2 ^ 64" and ?r = "off mod 2 ^ 64"
  let ?c = "if (of_nat off + of_nat k :: i64) < of_nat k then 1 else 0 :: i64"
  have uk: "uint (of_nat k :: i64) = int k"
    using assms(2) by (simp add: uint_of_nat_i64)
  have "uint (of_nat off + of_nat k :: i64) + 2 ^ 64 * uint ?c = int ?r + int k"
    using uint_add_carry [of "of_nat off" "of_nat k"] uk by (simp add: uint_of_nat_i64 split: if_splits)
  moreover have "0 \<le> uint (of_nat off + of_nat k :: i64)" "uint (of_nat off + of_nat k :: i64) < 2 ^ 64"
    using uint_lt2p [of "of_nat off + of_nat k :: i64"] by simp_all
  ultimately have "uint ?c = (int ?r + int k) div 2 ^ 64"
    by (intro int_div_pos_eq [symmetric, where r = "uint (of_nat off + of_nat k :: i64)"]) simp_all
  moreover have "(off + k) div 2 ^ 64 = ?q + (?r + k) div 2 ^ 64"
  proof -
    have "off + k = ?r + k + ?q * 2 ^ 64"
      using div_mult_mod_eq [of off "2 ^ 64"] by linarith
    then show ?thesis
      using div_mult_self1 [of "2 ^ 64" "?r + k" ?q] by (metis power_not_zero zero_neq_numeral)
  qed
  ultimately have "int ?q + uint ?c = int ((off + k) div 2 ^ 64)"
    by (simp only: zdiv_int of_nat_add of_nat_power of_nat_numeral)
  then have "(of_nat ((off + k) div 2 ^ 64) :: i64) = word_of_int (int ?q + uint ?c)"
    by (simp only: of_int_of_nat_eq)
  also have "\<dots> = of_nat ?q + ?c"
    by (simp only: of_int_add of_int_of_nat_eq word_of_int_uint)
  finally have "(of_nat ((off + k) div 2 ^ 64) :: i64) = of_nat ?q + ?c" .
  then show ?thesis
    using assms(1) by (simp add: blake2b_increment_counter_def Let_def ctr_def)
qed

section \<open>Fresh states\<close>

definition blake2b_fresh :: "blake2b_state \<Rightarrow> bool" where
  "blake2b_fresh S \<longleftrightarrow> blake2b_wf S \<and> b_t S = ctr 0 \<and> b_f S = [0, 0] \<and> b_last_node S = 0 \<and> b_buflen S = 0"

lemma init_param_fresh:
  assumes "unat (digest_length P) \<le> BLAKE2B_OUTBYTES"
  shows "blake2b_fresh (rx_blake2b_init_param P)" "b_outlen (rx_blake2b_init_param P) = unat (digest_length P)"
  using assms by (simp_all add: blake2b_fresh_def blake2b_wf_def rx_blake2b_init_param_def blake2b_init0_def ctr_def Let_def)

lemma unat_of_nat_byte: "n < 256 \<Longrightarrow> unat (of_nat n :: byte) = n"
  by (simp add: unsigned_of_nat take_bit_nat_eq_self)

lemma init_fresh:
  assumes "0 < outlen" "outlen \<le> BLAKE2B_OUTBYTES"
  shows "rx_blake2b_init S outlen = (rx_blake2b_init_param (blake2b_sequential outlen 0), 0)"
    "blake2b_fresh (rx_blake2b_init_param (blake2b_sequential outlen k))"
    "b_outlen (rx_blake2b_init_param (blake2b_sequential outlen k)) = outlen"
  using assms init_param_fresh [of "blake2b_sequential outlen k"]
  by (simp_all add: rx_blake2b_init_def blake2b_sequential_def unat_of_nat_byte)

section \<open>The interface of the compression\<close>

text \<open>A sequence of updates.\<close>

definition blake2b_feed :: "compressor \<Rightarrow> blake2b_state \<Rightarrow> byte list list \<Rightarrow> blake2b_state" where
  "blake2b_feed compress S cs = fold (\<lambda>c S. fst (rx_blake2b_update compress S (Some c) (length c))) cs S"

locale block_compression =
  fixes compress :: compressor and F :: "i64 list \<Rightarrow> i64 list \<Rightarrow> i64 list \<Rightarrow> byte list \<Rightarrow> i64 list"
  assumes compress_F: "compress S block = S\<lparr>b_h := F (b_h S) (b_t S) (b_f S) block\<rparr>"
    and length_F: "length (F h t f block) = 8"
begin

lemma compress_simps [simp]:
  "b_t (compress S b) = b_t S" "b_f (compress S b) = b_f S" "b_buf (compress S b) = b_buf S"
  "b_buflen (compress S b) = b_buflen S" "b_outlen (compress S b) = b_outlen S"
  "b_last_node (compress S b) = b_last_node S" "length (b_h (compress S b)) = 8"
  by (simp_all add: compress_F length_F)

lemma core_compress: "core (compress S b) = compress (core S) b"
  by (simp add: core_def compress_F)

lemma blocks_rest:
  "length (snd (blake2b_blocks compress S p)) \<le> BLAKE2B_BLOCKBYTES"
  by (induction compress S p rule: blake2b_blocks.induct) (subst blake2b_blocks.simps, simp add: Let_def)

lemma blocks_short: "length p \<le> BLAKE2B_BLOCKBYTES \<Longrightarrow> blake2b_blocks compress S p = (S, p)"
  by (simp add: blake2b_blocks.simps)

lemma blocks_long:
  "BLAKE2B_BLOCKBYTES < length p \<Longrightarrow> blake2b_blocks compress S p =
    blake2b_blocks compress (compress (blake2b_increment_counter S (of_nat BLAKE2B_BLOCKBYTES)) (take BLAKE2B_BLOCKBYTES p))
      (drop BLAKE2B_BLOCKBYTES p)"
  by (subst blake2b_blocks.simps) (simp add: Let_def)

text \<open>An induction rule that hides the parameter.\<close>

lemma blocks_induct [case_names step]:
  assumes "\<And>S p. (BLAKE2B_BLOCKBYTES < length p \<Longrightarrow>
      Q (compress (blake2b_increment_counter S (of_nat BLAKE2B_BLOCKBYTES)) (take BLAKE2B_BLOCKBYTES p)) (drop BLAKE2B_BLOCKBYTES p))
    \<Longrightarrow> Q S p"
  shows "Q S p"
proof (induction "length p" arbitrary: S p rule: less_induct)
  case less
  show ?case
    by (rule assms) (rule less, simp)
qed

lemma blocks_core:
  "blake2b_blocks compress (core S) p = (core (fst (blake2b_blocks compress S p)), snd (blake2b_blocks compress S p))"
proof (induction S p rule: blocks_induct)
  case (step S p)
  show ?case
  proof (cases "BLAKE2B_BLOCKBYTES < length p")
    case True
    from step [OF this] show ?thesis
      by (simp add: blocks_long [OF True] core_increment core_compress)
  qed (simp add: blocks_short)
qed

lemma blocks_keep:
  "b_f (fst (blake2b_blocks compress S p)) = b_f S \<and> b_buf (fst (blake2b_blocks compress S p)) = b_buf S
    \<and> b_buflen (fst (blake2b_blocks compress S p)) = b_buflen S \<and> b_outlen (fst (blake2b_blocks compress S p)) = b_outlen S
    \<and> b_last_node (fst (blake2b_blocks compress S p)) = b_last_node S
    \<and> length (b_t (fst (blake2b_blocks compress S p))) = length (b_t S)
    \<and> (length (b_h S) = 8 \<longrightarrow> length (b_h (fst (blake2b_blocks compress S p))) = 8)"
proof (induction S p rule: blocks_induct)
  case (step S p)
  show ?case
  proof (cases "BLAKE2B_BLOCKBYTES < length p")
    case True
    from step [OF this] show ?thesis
      by (simp add: blocks_long [OF True])
  qed (simp add: blocks_short)
qed

lemma blocks_append:
  "blake2b_blocks compress S (p @ ys) =
    blake2b_blocks compress (fst (blake2b_blocks compress S p)) (snd (blake2b_blocks compress S p) @ ys)"
proof (induction S p rule: blocks_induct)
  case (step S p)
  show ?case
  proof (cases "BLAKE2B_BLOCKBYTES < length p")
    case True
    then have long: "BLAKE2B_BLOCKBYTES < length (p @ ys)" by simp
    from step [OF True] show ?thesis
      unfolding blocks_long [OF True] blocks_long [OF long] using True by simp
  qed (simp add: blocks_short)
qed

text \<open>An update with at least one byte, on a state that is not finalised.\<close>

lemma update_abs:
  assumes wf: "blake2b_wf S" and f: "b_f S ! 0 = 0" and n: "0 < inlen" "inlen \<le> length mem"
  obtains S' where "rx_blake2b_update compress S (Some mem) inlen = (S', 0)" "blake2b_wf S'" "b_f S' = b_f S"
    "(core S', pending S') = blake2b_blocks compress (core S) (pending S @ take inlen mem)"
proof -
  let ?pin = "take inlen mem" and ?fill = "BLAKE2B_BLOCKBYTES - b_buflen S"
  have len: "length ?pin = inlen" and pend: "length (pending S) = b_buflen S"
    using n wf by (simp_all add: pending_def blake2b_wf_def)
  define X where "X = (if b_buflen S + inlen > BLAKE2B_BLOCKBYTES
    then blake2b_blocks compress ((compress (blake2b_increment_counter
        (S\<lparr>b_buf := buf_write (b_buf S) (b_buflen S) (take ?fill ?pin)\<rparr>) (of_nat BLAKE2B_BLOCKBYTES))
        (buf_write (b_buf S) (b_buflen S) (take ?fill ?pin)))\<lparr>b_buflen := 0\<rparr>) (drop ?fill ?pin)
    else (S, ?pin))"
  obtain S2 q where X: "X = (S2, q)" by (cases X)
  have "blake2b_wf S2 \<and> b_f S2 = b_f S \<and> b_buflen S2 + length q \<le> BLAKE2B_BLOCKBYTES
    \<and> (core S2, pending S2 @ q) = blake2b_blocks compress (core S) (pending S @ ?pin)"
  proof (cases "b_buflen S + inlen > BLAKE2B_BLOCKBYTES")
    case False
    then show ?thesis
      using X wf len pend by (simp add: X_def blocks_short)
  next
    case True
    let ?buf = "buf_write (b_buf S) (b_buflen S) (take ?fill ?pin)"
    let ?S1 = "(compress (blake2b_increment_counter (S\<lparr>b_buf := ?buf\<rparr>) (of_nat BLAKE2B_BLOCKBYTES)) ?buf)\<lparr>b_buflen := 0\<rparr>"
    have fill: "b_buflen S + length (take ?fill ?pin) = length (b_buf S)"
      using True len wf by (simp add: blake2b_wf_def)
    then have buf: "?buf = pending S @ take ?fill ?pin"
      unfolding pending_def by (rule buf_write_full)
    have lbuf: "length ?buf = BLAKE2B_BLOCKBYTES"
      using fill wf length_buf_write [of "b_buflen S" "take ?fill ?pin" "b_buf S"] by (simp add: blake2b_wf_def)
    have X': "blake2b_blocks compress ?S1 (drop ?fill ?pin) = (S2, q)"
      using True X by (simp add: X_def)
    note keep = blocks_keep [of ?S1 "drop ?fill ?pin", unfolded X' fst_conv]
    have "take BLAKE2B_BLOCKBYTES (pending S @ ?pin) = ?buf" "drop BLAKE2B_BLOCKBYTES (pending S @ ?pin) = drop ?fill ?pin"
      using pend buf wf by (simp_all add: blake2b_wf_def)
    moreover have "BLAKE2B_BLOCKBYTES < length (pending S @ ?pin)"
      using True pend len by simp
    ultimately have "blake2b_blocks compress (core S) (pending S @ ?pin)
        = blake2b_blocks compress (core ?S1) (drop ?fill ?pin)"
      by (simp add: blocks_long core_increment core_compress)
    also have "\<dots> = (core S2, q)"
      using blocks_core [of ?S1 "drop ?fill ?pin"] X' by simp
    finally show ?thesis
      using keep wf lbuf blocks_rest [of ?S1 "drop ?fill ?pin"] X' by (simp add: blake2b_wf_def pending_def)
  qed
  note S2 = this
  let ?S3 = "S2\<lparr>b_buf := buf_write (b_buf S2) (b_buflen S2) q, b_buflen := b_buflen S2 + length q\<rparr>"
  have "rx_blake2b_update compress S (Some mem) inlen = (?S3, 0)"
    using n(1) f X unfolding rx_blake2b_update_def X_def
    by (cases "b_buflen S + inlen > BLAKE2B_BLOCKBYTES") (simp_all add: Let_def)
  moreover have "blake2b_wf ?S3"
    using S2 length_buf_write [of "b_buflen S2" q "b_buf S2"] by (auto simp: blake2b_wf_def)
  moreover have "pending ?S3 = pending S2 @ q"
    using S2 take_buf_write [of "b_buflen S2" q "b_buf S2"] by (simp add: pending_def blake2b_wf_def)
  ultimately show thesis
    using that [of ?S3] S2 by (simp add: core_def)
qed

lemma update_chunk:
  fixes c :: "byte list"
  assumes "blake2b_wf S" "b_f S ! 0 = 0"
  defines "S' \<equiv> fst (rx_blake2b_update compress S (Some c) (length c))"
  shows "blake2b_wf S' \<and> b_f S' = b_f S \<and> snd (rx_blake2b_update compress S (Some c) (length c)) = 0
    \<and> (core S', pending S') = blake2b_blocks compress (core S) (pending S @ c)"
proof (cases "c = []")
  case True
  then show ?thesis
    using assms(1) by (simp add: S'_def rx_blake2b_update_def blocks_short pending_def blake2b_wf_def)
next
  case False
  then have "0 < length c" "length c \<le> length c" by simp_all
  from update_abs [OF assms(1,2) this] show ?thesis
    unfolding S'_def by (metis fst_conv snd_conv take_all order_refl)
qed

lemma feed_abs:
  assumes "blake2b_wf S" "b_f S ! 0 = 0"
  shows "blake2b_wf (blake2b_feed compress S cs) \<and> b_f (blake2b_feed compress S cs) = b_f S
    \<and> (core (blake2b_feed compress S cs), pending (blake2b_feed compress S cs)) = blake2b_blocks compress (core S) (pending S @ concat cs)"
  using assms
proof (induction cs arbitrary: S)
  case Nil
  then show ?case by (simp add: blake2b_feed_def blocks_short pending_def blake2b_wf_def)
next
  case (Cons c cs)
  let ?S = "fst (rx_blake2b_update compress S (Some c) (length c))"
  note u = update_chunk [OF Cons.prems, of c]
  have "blake2b_wf (blake2b_feed compress ?S cs) \<and> b_f (blake2b_feed compress ?S cs) = b_f ?S
      \<and> (core (blake2b_feed compress ?S cs), pending (blake2b_feed compress ?S cs)) = blake2b_blocks compress (core ?S) (pending ?S @ concat cs)"
    using u Cons.prems by (intro Cons.IH) simp_all
  moreover have "blake2b_blocks compress (core ?S) (pending ?S @ concat cs)
      = blake2b_blocks compress (core S) (pending S @ concat (c # cs))"
    using u blocks_append [of "core S" "pending S @ c" "concat cs"] by (metis append_assoc concat.simps(2) fst_conv snd_conv)
  ultimately show ?case
    using u by (simp add: blake2b_feed_def)
qed

text \<open>The digest depends on the core and the pending bytes only.\<close>

lemma final_abs:
  assumes "blake2b_wf S" "b_f S ! 0 = 0" "b_outlen S \<le> n"
  defines "P \<equiv> blake2b_set_lastblock (blake2b_increment_counter (core S) (of_nat (length (pending S))))"
  shows "\<exists>S'. rx_blake2b_final compress S n =
      (S', Some (take (b_outlen S) (concat (map store64 (F (b_h S) (b_t P) (b_f P)
        (pending S @ replicate (BLAKE2B_BLOCKBYTES - length (pending S)) 0))))))
    \<and> b_f S' ! 0 = - 1 \<and> b_t S' = b_t P \<and> b_outlen S' = b_outlen S"
proof -
  let ?S1 = "blake2b_set_lastblock (blake2b_increment_counter S (of_nat (b_buflen S)))"
  have pend: "length (pending S) = b_buflen S"
    using assms(1) by (simp add: pending_def blake2b_wf_def)
  have P: "b_t P = b_t ?S1" "b_f P = b_f ?S1"
    unfolding P_def pend by (simp_all flip: core_increment core_lastblock)
  have buf: "buf_write (b_buf S) (b_buflen S) (replicate (BLAKE2B_BLOCKBYTES - b_buflen S) 0)
      = pending S @ replicate (BLAKE2B_BLOCKBYTES - length (pending S)) 0"
    using assms(1) pend buf_write_full [of "b_buflen S" "replicate (BLAKE2B_BLOCKBYTES - b_buflen S) 0" "b_buf S"]
    by (simp add: pending_def blake2b_wf_def)
  have "map (\<lambda>i. store64 (xs ! i)) [0..<8] = map store64 xs" if "length xs = 8" for xs
    using that map_nth [of xs] by (metis (no_types, lifting) list.map_comp comp_apply map_eq_conv)
  then show ?thesis
    using assms(1-3) length_F lastblock_f [of "blake2b_increment_counter S (of_nat (b_buflen S))"]
    unfolding P rx_blake2b_final_def Let_def
    by (simp add: compress_F buf blake2b_wf_def del: upt_rec_numeral)
qed

text \<open>Blocks that are compressed early are those the reference compresses.\<close>

lemma blocks_ref:
  assumes "b_t S = ctr off" "b_f S = [0, 0]"
  shows "\<exists>off'. b_t (fst (blake2b_blocks compress S p)) = ctr off'
    \<and> off' + length (snd (blake2b_blocks compress S p)) = off + length p
    \<and> blake2b_ref F (b_h S) off p =
        blake2b_ref F (b_h (fst (blake2b_blocks compress S p))) off' (snd (blake2b_blocks compress S p))"
  using assms
proof (induction S p arbitrary: off rule: blocks_induct)
  case (step S p)
  show ?case
  proof (cases "BLAKE2B_BLOCKBYTES < length p")
    case True
    let ?S = "compress (blake2b_increment_counter S (of_nat BLAKE2B_BLOCKBYTES)) (take BLAKE2B_BLOCKBYTES p)"
    have t: "b_t (blake2b_increment_counter S (of_nat BLAKE2B_BLOCKBYTES)) = ctr (off + 128)"
      by (rule ctr_increment [OF step.prems(1)]) simp
    have "b_h ?S = F (b_h S) (ctr (off + 128)) [0, 0] (take 128 p)"
      using t step.prems(2) by (simp add: compress_F)
    then have "blake2b_ref F (b_h S) off p = blake2b_ref F (b_h ?S) (off + 128) (drop 128 p)"
      using True by (subst blake2b_ref.simps) simp
    moreover have "b_t ?S = ctr (off + 128)" "b_f ?S = [0, 0]"
      using t step.prems(2) by simp_all
    ultimately show ?thesis
      unfolding blocks_long [OF True] using step.IH [OF True, of "off + 128"] True by auto
  qed (use step.prems in \<open>simp add: blocks_short\<close>)
qed

lemma digest_feed:
  assumes "blake2b_fresh S" "b_outlen S \<le> n"
  shows "snd (rx_blake2b_final compress (blake2b_feed compress S cs) n) =
    Some (take (b_outlen S) (concat (map store64 (blake2b_ref F (b_h S) 0 (concat cs)))))"
proof -
  let ?S = "blake2b_feed compress S cs" and ?p = "concat cs"
  have S: "blake2b_wf S" "b_f S ! 0 = 0" "pending S = []" "b_t (core S) = ctr 0" "b_f (core S) = [0, 0]"
    "b_last_node S = 0"
    using assms(1) by (simp_all add: blake2b_fresh_def pending_def)
  have fd: "blake2b_wf ?S" "b_f ?S = b_f S" "(core ?S, pending ?S) = blake2b_blocks compress (core S) ?p"
    using feed_abs [OF S(1,2), of cs] S(3) by simp_all
  then have c: "fst (blake2b_blocks compress (core S) ?p) = core ?S" "snd (blake2b_blocks compress (core S) ?p) = pending ?S"
    by (metis fst_conv, metis snd_conv)
  obtain off where off: "b_t ?S = ctr off"
    "blake2b_ref F (b_h S) 0 ?p = blake2b_ref F (b_h ?S) off (pending ?S)"
    using blocks_ref [OF S(4,5), of ?p] unfolding c by auto
  let ?P = "blake2b_set_lastblock (blake2b_increment_counter (core ?S) (of_nat (length (pending ?S))))"
  have len: "length (pending ?S) \<le> 128"
    using fd(1) by (simp add: pending_def blake2b_wf_def)
  have keep: "b_outlen ?S = b_outlen S" "b_last_node ?S = b_last_node S"
    using blocks_keep [of "core S" ?p] c by simp_all
  have "b_t ?P = ctr (off + length (pending ?S))"
    using ctr_increment [of "core ?S" off "length (pending ?S)"] off(1) len by simp
  moreover have "b_f ?P = [- 1, 0]"
    using fd(2) keep(2) S(5,6) by (simp add: blake2b_set_lastblock_def Let_def)
  ultimately show ?thesis
    using final_abs [OF fd(1), of n] fd(2) S(2) keep(1) assms(2) off(2) len
    by (auto simp: blake2b_ref.simps [of _ _ off "pending ?S"])
qed

lemma digest_once:
  assumes "0 < outlen" "outlen \<le> BLAKE2B_OUTBYTES"
  shows "rx_blake2b_default compress S outlen (Some M) (length M) =
    Some (take outlen (concat (map store64
      (blake2b_ref F (b_h (rx_blake2b_init_param (blake2b_sequential outlen 0))) 0 M))))"
proof -
  let ?S = "rx_blake2b_init_param (blake2b_sequential outlen 0)"
  note i = init_fresh [OF assms]
  have "snd (rx_blake2b_update compress ?S (Some M) (length M)) = 0"
    using update_chunk [of ?S M] i(2) [of 0] by (simp add: blake2b_fresh_def)
  moreover have "fst (rx_blake2b_update compress ?S (Some M) (length M)) = blake2b_feed compress ?S [M]"
    by (simp add: blake2b_feed_def)
  ultimately show ?thesis
    using digest_feed [OF i(2) [of 0], of outlen "[M]"] i(1) [of S] i(3) [of 0] assms
    by (simp add: rx_blake2b_default_def Let_def split_beta)
qed

end

end
