(* ===== verification/Blake2bRef.thy ===== *)
theory Blake2bRef
  imports Blake2b
begin

text \<open>
  A reference for the compression of BLAKE2b in the form of RFC 7693, with its own tables, and its equivalence to the code.
  The permutations and the order of the steps are those of BLAKE, whose reference uses them too.
\<close>

unbundle bit_operations_syntax

section \<open>The compression of the specification\<close>

definition blake_perm :: "nat list list" where
  "blake_perm =
    [[0, 1, 2, 3, 4, 5, 6, 7, 8, 9, 10, 11, 12, 13, 14, 15],
     [14, 10, 4, 8, 9, 15, 13, 6, 1, 12, 0, 2, 11, 7, 5, 3],
     [11, 8, 12, 0, 5, 2, 15, 13, 10, 14, 3, 6, 7, 1, 9, 4],
     [7, 9, 3, 1, 13, 12, 11, 14, 2, 6, 5, 10, 4, 0, 15, 8],
     [9, 0, 5, 7, 2, 4, 10, 15, 14, 1, 11, 12, 6, 8, 3, 13],
     [2, 12, 6, 10, 0, 11, 8, 3, 4, 13, 7, 5, 15, 14, 1, 9],
     [12, 5, 1, 15, 14, 13, 4, 10, 0, 7, 6, 3, 9, 2, 8, 11],
     [13, 11, 7, 14, 12, 1, 3, 9, 5, 0, 15, 4, 8, 6, 2, 10],
     [6, 15, 14, 9, 11, 3, 0, 8, 12, 2, 13, 7, 1, 4, 10, 5],
     [10, 2, 8, 4, 7, 6, 1, 5, 15, 11, 9, 14, 3, 12, 13, 0]]"

definition blake_lanes :: "(nat \<times> nat \<times> nat \<times> nat) list" where
  "blake_lanes = [(0, 4, 8, 12), (1, 5, 9, 13), (2, 6, 10, 14), (3, 7, 11, 15),
     (0, 5, 10, 15), (1, 6, 11, 12), (2, 7, 8, 13), (3, 4, 9, 14)]"

definition blake2b_ref_iv :: "i64 list" where
  "blake2b_ref_iv = [0x6A09E667F3BCC908, 0xBB67AE8584CAA73B, 0x3C6EF372FE94F82B, 0xA54FF53A5F1D36F1,
     0x510E527FADE682D1, 0x9B05688C2B3E6C1F, 0x1F83D9ABFB41BD6B, 0x5BE0CD19137E2179]"

definition blake2b_mix :: "i64 \<Rightarrow> i64 \<Rightarrow> i64 \<times> i64 \<times> i64 \<times> i64 \<Rightarrow> i64 \<times> i64 \<times> i64 \<times> i64" where
  "blake2b_mix x y = (\<lambda>(a, b, c, d).
     let a = a + b + x;
         d = word_rotr 32 (d XOR a);
         c = c + d;
         b = word_rotr 24 (b XOR c);
         a = a + b + y;
         d = word_rotr 16 (d XOR a);
         c = c + d;
         b = word_rotr 63 (b XOR c)
     in (a, b, c, d))"

definition blake2b_step :: "i64 list \<Rightarrow> nat \<Rightarrow> nat \<Rightarrow> nat \<times> nat \<times> nat \<times> nat \<Rightarrow> i64 list \<Rightarrow> i64 list" where
  "blake2b_step m r j = (\<lambda>(a, b, c, d) v.
     let p = blake_perm ! (r mod 10) ! (2 * j);
         q = blake_perm ! (r mod 10) ! (2 * j + 1);
         (va, vb, vc, vd) = blake2b_mix (m ! p) (m ! q) (v ! a, v ! b, v ! c, v ! d)
     in v[a := va, b := vb, c := vc, d := vd])"

definition blake2b_round :: "i64 list \<Rightarrow> nat \<Rightarrow> i64 list \<Rightarrow> i64 list" where
  "blake2b_round m r v = fold (\<lambda>j. blake2b_step m r j (blake_lanes ! j)) [0..<8] v"

text \<open>The chaining value from chaining value \<open>h\<close>, the two words \<open>t\<close> of the counter, the two flags \<open>f\<close> and a block.\<close>

definition blake2b_F :: "i64 list \<Rightarrow> i64 list \<Rightarrow> i64 list \<Rightarrow> byte list \<Rightarrow> i64 list" where
  "blake2b_F h t f block =
     (let m = map (\<lambda>i. load64 (drop (8 * i) block)) [0..<16];
          v = map (\<lambda>i. h ! i) [0..<8] @ map (\<lambda>i. blake2b_ref_iv ! i XOR ([0, 0, 0, 0] @ [t ! 0, t ! 1, f ! 0, f ! 1]) ! i) [0..<8];
          v = fold (blake2b_round m) [0..<12] v
      in map (\<lambda>i. h ! i XOR v ! i XOR v ! (i + 8)) [0..<8])"

section \<open>Rotations and assignments\<close>

lemma rotr_by_shifts:
  fixes x :: "'a::len word"
  assumes "0 < n" "n < LENGTH('a)"
  shows "drop_bit n x OR push_bit (LENGTH('a) - n) x = word_rotr n x"
proof (rule bit_word_eqI)
  fix k assume k: "k < LENGTH('a)"
  show "bit (drop_bit n x OR push_bit (LENGTH('a) - n) x) k = bit (word_rotr n x) k"
  proof (cases "k + n < LENGTH('a)")
    case True
    then show ?thesis
      using assms k by (auto simp: bit_word_rotr_iff bit_or_iff bit_push_bit_iff bit_drop_bit_eq add.commute)
  next
    case False
    then have "(k + n) mod LENGTH('a) = k + n - LENGTH('a)"
      using assms k by (simp add: mod_if)
    moreover have "\<not> bit x (n + k)"
      using False bit_imp_le_length [of x "n + k"] by auto
    moreover have "k - (LENGTH('a) - n) = k + n - LENGTH('a)" "LENGTH('a) - n \<le> k"
      using assms k False by simp_all
    ultimately show ?thesis
      using assms k False by (auto simp: bit_word_rotr_iff bit_or_iff bit_push_bit_iff bit_drop_bit_eq add.commute)
  qed
qed

lemma rotr64_rotr: "0 < n \<Longrightarrow> n < 64 \<Longrightarrow> rotr64 x n = word_rotr n x"
  using rotr_by_shifts [of n x] by (simp add: rotr64_def)

lemma nth_update_if: "k < length v \<Longrightarrow> v[j := x] ! k = (if j = k then x else v ! k)"
  by simp

text \<open>The eight assignments of a step leave four changed words.\<close>

lemma eight_updates:
  assumes "distinct [a, b, c, d]"
  shows "v[a := x1, d := x2, c := x3, b := x4, a := x5, d := x6, c := x7, b := x8] = v[a := x5, b := x8, c := x7, d := x6]"
  using assms by (intro nth_equalityI) (simp_all add: nth_update_if del: nth_list_update_eq)

lemma eight_assignments:
  assumes "distinct [a, b, c, d]" "a < length v" "b < length v" "c < length v" "d < length v"
  shows "(let v = v[a := f1 (v ! a) (v ! b)]; v = v[d := f2 (v ! d) (v ! a)]; v = v[c := f3 (v ! c) (v ! d)];
      v = v[b := f4 (v ! b) (v ! c)]; v = v[a := f5 (v ! a) (v ! b)]; v = v[d := f6 (v ! d) (v ! a)];
      v = v[c := f7 (v ! c) (v ! d)] in v[b := f8 (v ! b) (v ! c)])
    = (let va = f1 (v ! a) (v ! b); vd = f2 (v ! d) va; vc = f3 (v ! c) vd; vb = f4 (v ! b) vc;
      va = f5 va vb; vd = f6 vd va; vc = f7 vc vd; vb = f8 vb vc in v[a := va, b := vb, c := vc, d := vd])"
  using assms by (simp add: Let_def eight_updates [OF assms(1)] cong: let_weak_cong)

lemma let_tuple: "(let (a, b, c, d) = Let e g in h a b c d) = (let x = e in let (a, b, c, d) = g x in h a b c d)"
    "(let (a, b, c, d) = (w, x, y, z) in h a b c d) = h w x y z"
  by (simp_all add: Let_def)

section \<open>Equivalence of the compression\<close>

lemma upt_16: "[0..<16] = [0 :: nat, 1, 2, 3, 4, 5, 6, 7, 8, 9, 10, 11, 12, 13, 14, 15]" "[0..<8] = [0 :: nat, 1, 2, 3, 4, 5, 6, 7]"
    "[0..<4] = [0 :: nat, 1, 2, 3]"
  by (simp_all add: upt_rec)

lemma blake2b_sigma_cyclic: "r < 12 \<Longrightarrow> blake2b_sigma ! r = blake_perm ! (r mod 10)"
proof -
  have "\<forall>r\<in>set [0..<12]. blake2b_sigma ! r = blake_perm ! (r mod 10)"
    unfolding blake_perm_def by code_simp
  then show "r < 12 \<Longrightarrow> blake2b_sigma ! r = blake_perm ! (r mod 10)"
    by simp
qed

lemma blake2b_G_step:
  assumes "r < 12" "distinct [a, b, c, d]" "a < length v" "b < length v" "c < length v" "d < length v"
  shows "blake2b_G m r j a b c d v = blake2b_step m r j (a, b, c, d) v"
proof -
  have rot: "rotr64 x 32 = word_rotr 32 x" "rotr64 x 24 = word_rotr 24 x" "rotr64 x 16 = word_rotr 16 x" "rotr64 x 63 = word_rotr 63 x" for x
    by (simp_all add: rotr64_rotr)
  let ?p = "blake_perm ! (r mod 10) ! (2 * j)" and ?q = "blake_perm ! (r mod 10) ! (2 * j + 1)"
  show ?thesis
    unfolding blake2b_G_def blake2b_step_def blake2b_mix_def prod.case blake2b_sigma_cyclic [OF assms(1)] rot add_0_right
      Let_def [of ?p] Let_def [of ?q]
      eight_assignments [OF assms(2-), of "\<lambda>x y. x + y + m ! ?p" "\<lambda>x y. word_rotr 32 (x XOR y)" "(+)"
        "\<lambda>x y. word_rotr 24 (x XOR y)" "\<lambda>x y. x + y + m ! ?q" "\<lambda>x y. word_rotr 16 (x XOR y)" "(+)"
        "\<lambda>x y. word_rotr 63 (x XOR y)"]
    by (simp only: let_tuple)
qed

lemma length_blake2b_step [simp]: "length (blake2b_step m r j l v) = length v"
  by (simp add: blake2b_step_def Let_def split_beta)

lemma blake2b_round_ref:
  assumes "r < 12" "length v = 16"
  shows "blake2b_ROUND m r v = blake2b_round m r v"
proof -
  have G: "blake2b_G m r j a b c d u = blake2b_step m r j (a, b, c, d) u"
    if "distinct [a, b, c, d]" "a < 16" "b < 16" "c < 16" "d < 16" "length u = 16" for a b c d j u
    using blake2b_G_step [OF assms(1) that(1)] that by simp
  show ?thesis
    unfolding blake2b_ROUND_def Let_def by (simp add: assms(2) G blake2b_round_def blake_lanes_def upt_16)
qed

lemma length_blake2b_round [simp]: "length (blake2b_round m r v) = length v"
  unfolding blake2b_round_def by (rule fold_invariant [where Q = "\<lambda>_. True"]) simp_all

lemma blake2b_fold_rounds:
  "length v = 16 \<Longrightarrow> \<forall>r\<in>set rs. r < 12 \<Longrightarrow> fold (blake2b_ROUND m) rs v = fold (blake2b_round m) rs v"
  by (induction rs arbitrary: v) (simp_all add: blake2b_round_ref)

lemma compress_integer_ref:
  "rx_blake2b_compress_integer S block = S\<lparr>b_h := blake2b_F (b_h S) (b_t S) (b_f S) block\<rparr>"
proof -
  define v0 where "v0 = map (\<lambda>i. b_h S ! i) [0..<8]
    @ map (\<lambda>i. blake2b_ref_iv ! i XOR ([0, 0, 0, 0] @ [b_t S ! 0, b_t S ! 1, b_f S ! 0, b_f S ! 1]) ! i) [0..<8]"
  have iv: "blake2b_IV = blake2b_ref_iv"
    by (simp add: blake2b_IV_def blake2b_ref_iv_def)
  have v: "map (\<lambda>i. b_h S ! i) [0..<8] @ [blake2b_IV ! 0, blake2b_IV ! 1, blake2b_IV ! 2, blake2b_IV ! 3, blake2b_IV ! 4 XOR b_t S ! 0,
      blake2b_IV ! 5 XOR b_t S ! 1, blake2b_IV ! 6 XOR b_f S ! 0, blake2b_IV ! 7 XOR b_f S ! 1] = v0"
    by (simp add: v0_def iv upt_16)
  have r: "fold (blake2b_ROUND m) [0..<12] v0 = fold (blake2b_round m) [0..<12] v0" for m
    by (rule blake2b_fold_rounds) (simp_all add: v0_def)
  show ?thesis
    unfolding rx_blake2b_compress_integer_def Let_def v r blake2b_F_def v0_def [symmetric]
    by (simp only: mult.commute [of 8])
qed

end
