(* ===== verification/Blake2bProps.thy ===== *)
theory Blake2bProps
  imports Blake2bStream Blake2bRef
begin

text \<open>
  The promises of theory \<open>Blake2bStream\<close> for \<open>rx_blake2b_compress_integer\<close>: streaming, protection against reuse,
  errors, the invariant of the state, and the long output of Argon2.
\<close>

section \<open>The portable compression\<close>

interpretation portable: block_compression rx_blake2b_compress_integer blake2b_F
  by unfold_locales (simp_all add: compress_integer_ref blake2b_F_def Let_def)

lemma length_ref: "length (blake2b_ref blake2b_F h off M) = 8"
proof (induction "length M" arbitrary: h off M rule: less_induct)
  case less
  show ?case
    by (subst blake2b_ref.simps) (simp add: portable.length_F less)
qed

lemma length_concat_store64: "length (concat (map store64 xs)) = 8 * length xs"
  by (induction xs) (simp_all add: store64_def)

text \<open>
  The hash of RFC 7693 without a key, of a message of any length: the first chaining value is the initial value with the
  parameters 1, 1 and the length of the digest in its first word.
\<close>

definition blake2b_h0 :: "nat \<Rightarrow> i64 list" where
  "blake2b_h0 n = blake2b_ref_iv[0 := blake2b_ref_iv ! 0 XOR 0x01010000 XOR of_nat n]"

definition blake2b_digest :: "nat \<Rightarrow> byte list \<Rightarrow> byte list" where
  "blake2b_digest n M = take n (concat (map store64 (blake2b_ref blake2b_F (blake2b_h0 n) 0 M)))"

lemma param_word:
  assumes "n \<le> 64"
  shows "load64 (blake2b_param_bytes (blake2b_sequential n 0)) = 0x01010000 XOR of_nat n"
proof -
  have "\<forall>n\<in>set [0..<65]. load64 (blake2b_param_bytes (blake2b_sequential n 0)) = 0x01010000 XOR of_nat n"
    by code_simp
  then show ?thesis
    using assms by simp
qed

lemma init_h0:
  assumes "n \<le> 64"
  shows "b_h (rx_blake2b_init_param (blake2b_sequential n 0)) = blake2b_h0 n"
proof -
  let ?p = "blake2b_param_bytes (blake2b_sequential n 0)"
  have "load64 (drop k ?p) = 0" if "k \<in> {8, 16, 24, 32, 40, 48, 56}" for k
    using that by (auto simp: blake2b_param_bytes_def blake2b_sequential_def load64_def store32_def store64_def upt_16 nth_append)
  then show ?thesis
    using param_word [OF assms]
    by (simp add: rx_blake2b_init_param_def Let_def blake2b_init0_def upt_16 blake2b_h0_def blake2b_ref_iv_def blake2b_IV_def)
qed

lemma blake2b_digest_init:
  "n \<le> 64 \<Longrightarrow> blake2b_digest n M = take n (concat (map store64
     (blake2b_ref blake2b_F (b_h (rx_blake2b_init_param (blake2b_sequential n 0))) 0 M)))"
  by (simp add: blake2b_digest_def init_h0)

lemma length_blake2b_digest: "n \<le> 64 \<Longrightarrow> length (blake2b_digest n M) = n"
  by (simp add: blake2b_digest_def length_concat_store64 length_ref)

text \<open>
  C10. The streaming interface computes the hash of the whole message: for any way of cutting the message into
  pieces, initialisation, one update per piece and finalisation return the digest of RFC 7693 of the whole message, and so
  does \<open>rx_blake2b_default\<close>.
\<close>

theorem blake2b_streaming:
  assumes "0 < n" "n \<le> BLAKE2B_OUTBYTES"
  shows "snd (rx_blake2b_final rx_blake2b_compress_integer
        (blake2b_feed rx_blake2b_compress_integer (fst (rx_blake2b_init S n)) cs) n) = Some (blake2b_digest n (concat cs))
    \<and> rx_blake2b_default rx_blake2b_compress_integer S n (Some (concat cs)) (length (concat cs))
        = Some (blake2b_digest n (concat cs))"
  using portable.digest_feed [OF init_fresh(2) [OF assms, of 0], of n cs] portable.digest_once [OF assms, of S "concat cs"]
    init_fresh(1,3) [OF assms]
  by (simp add: blake2b_digest_init [OF assms(2)])

theorem blake2b_streaming_witness:
  "snd (rx_blake2b_final rx_blake2b_compress_integer
     (blake2b_feed rx_blake2b_compress_integer (fst (rx_blake2b_init blake2b_init0 32)) [[97], [98, 99]]) 32)
    = Some (blake2b_digest 32 [97, 98, 99])"
  using blake2b_streaming [of 32 blake2b_init0 "[[97], [98, 99]]"] by simp

section \<open>Errors\<close>

lemma update_nothing: "rx_blake2b_update compress S inp 0 = (S, 0)"
  by (simp add: rx_blake2b_update_def)

text \<open>
  C32. A state is used once: after a successful finalisation the flag of the last block is set, and every further
  update with input and every further finalisation fails and leaves the state as it is.
\<close>

theorem blake2b_no_reuse:
  assumes "blake2b_wf S" "rx_blake2b_final rx_blake2b_compress_integer S n = (S', Some d)" "0 < inlen"
  shows "b_f S' ! 0 = - 1 \<and> rx_blake2b_update rx_blake2b_compress_integer S' inp inlen = (S', - 1)
    \<and> rx_blake2b_final rx_blake2b_compress_integer S' m = (S', None)"
proof -
  have "b_f S ! 0 = 0" "b_outlen S \<le> n"
    using assms(2) by (auto simp: rx_blake2b_final_def split: if_splits)
  from portable.final_abs [OF assms(1) this] have "b_f S' ! 0 = - 1"
    using assms(2) by auto
  then show ?thesis
    using assms(3) by (simp add: rx_blake2b_update_def rx_blake2b_final_def split: option.splits)
qed

lemma final_init_succeeds:
  "\<exists>S' d. rx_blake2b_final rx_blake2b_compress_integer (fst (rx_blake2b_init blake2b_init0 32)) 32 = (S', Some d)"
proof -
  let ?S = "rx_blake2b_init_param (blake2b_sequential 32 0)"
  have "snd (rx_blake2b_final rx_blake2b_compress_integer (blake2b_feed rx_blake2b_compress_integer ?S []) 32)
      = Some (blake2b_digest 32 [])"
    using portable.digest_feed [OF init_fresh(2), of 32 0 32 "[]"] init_fresh(3) [of 32 0]
    by (simp add: blake2b_digest_init)
  moreover have "fst (rx_blake2b_init blake2b_init0 32) = ?S"
    using init_fresh(1) [of 32 blake2b_init0] by simp
  ultimately show ?thesis
    by (cases "rx_blake2b_final rx_blake2b_compress_integer ?S 32") (simp add: blake2b_feed_def)
qed

theorem blake2b_no_reuse_witness:
  "\<exists>S' d. rx_blake2b_final rx_blake2b_compress_integer (fst (rx_blake2b_init blake2b_init0 32)) 32 = (S', Some d)
    \<and> rx_blake2b_update rx_blake2b_compress_integer S' (Some [1]) 1 = (S', - 1)"
proof -
  obtain S' d where S': "rx_blake2b_final rx_blake2b_compress_integer (fst (rx_blake2b_init blake2b_init0 32)) 32 = (S', Some d)"
    using final_init_succeeds by blast
  have "blake2b_wf (fst (rx_blake2b_init blake2b_init0 32))"
    using init_fresh(1,2) [of 32] by (simp add: blake2b_fresh_def)
  from blake2b_no_reuse [OF this S', of 1] show ?thesis
    using S' by auto
qed

text \<open>
  The errors of the one-shot function: it fails exactly if the output length is 0 or above 64 or the input is
  \<^verbatim>\<open>NULL\<close> with a positive length; otherwise the digest has the requested length.
\<close>

lemma blake2b_default_errors:
  assumes "\<And>mem. inp = Some mem \<Longrightarrow> inlen = length mem"
  shows "(rx_blake2b_default rx_blake2b_compress_integer S n inp inlen = None
      \<longleftrightarrow> n = 0 \<or> n > BLAKE2B_OUTBYTES \<or> inp = None \<and> inlen > 0)
    \<and> (\<forall>d. rx_blake2b_default rx_blake2b_compress_integer S n inp inlen = Some d \<longrightarrow> length d = n)"
proof (cases "n = 0 \<or> n > BLAKE2B_OUTBYTES \<or> inp = None \<and> inlen > 0")
  case True
  then show ?thesis by (auto simp: rx_blake2b_default_def)
next
  case False
  then have n: "0 < n" "n \<le> BLAKE2B_OUTBYTES" by auto
  let ?M = "case inp of None \<Rightarrow> [] | Some mem \<Rightarrow> mem"
  have "rx_blake2b_default rx_blake2b_compress_integer S n inp inlen
      = rx_blake2b_default rx_blake2b_compress_integer S n (Some ?M) (length ?M)"
    using False assms by (cases inp) (simp_all add: rx_blake2b_default_def update_nothing split_beta Let_def)
  also have "\<dots> = Some (blake2b_digest n ?M)"
    unfolding blake2b_digest_init [OF n(2)] by (rule portable.digest_once [OF n])
  finally show ?thesis
    using False n(2) by (simp add: length_blake2b_digest)
qed

section \<open>The invariant\<close>

text \<open>
  C29. Every operation keeps the state well-formed: the arrays keep their lengths, the buffer never holds more than
  128 bytes, so that no copy into it runs over its end, and the output length stays at most 64.
\<close>

theorem blake2b_wf_preserved:
  assumes "blake2b_wf S" "\<And>mem. inp = Some mem \<Longrightarrow> inlen \<le> length mem"
  shows "blake2b_wf (fst (rx_blake2b_init S n)) \<and> blake2b_wf (fst (rx_blake2b_init_key rx_blake2b_compress_integer S n inp inlen))
    \<and> blake2b_wf (fst (rx_blake2b_update rx_blake2b_compress_integer S inp inlen))
    \<and> blake2b_wf (fst (rx_blake2b_final rx_blake2b_compress_integer S n))"
proof (intro conjI)
  have inv: "blake2b_wf (blake2b_invalidate_state S)"
    using assms(1) by (simp add: blake2b_invalidate_state_def blake2b_wf_def)
  show "blake2b_wf (fst (rx_blake2b_init S n))"
    using inv init_fresh [of n] by (cases "n = 0 \<or> n > BLAKE2B_OUTBYTES") (auto simp: rx_blake2b_init_def blake2b_fresh_def)
  show "blake2b_wf (fst (rx_blake2b_init_key rx_blake2b_compress_integer S n inp inlen))"
  proof (cases "n = 0 \<or> n > BLAKE2B_OUTBYTES \<or> inp = None \<or> inlen = 0 \<or> inlen > BLAKE2B_KEYBYTES")
    case True
    then show ?thesis
      using inv by (auto simp: rx_blake2b_init_key_def split: option.splits)
  next
    case False
    then obtain k where k: "inp = Some k" and n: "0 < n" "n \<le> BLAKE2B_OUTBYTES" by auto
    let ?b = "buf_write (replicate BLAKE2B_BLOCKBYTES 0) 0 (take inlen k)"
    let ?S = "rx_blake2b_init_param (blake2b_sequential n inlen)"
    have "length ?b = BLAKE2B_BLOCKBYTES"
      using False length_buf_write [of 0 "take inlen k" "replicate BLAKE2B_BLOCKBYTES 0"] by (simp add: min.coboundedI2)
    then have "blake2b_wf (fst (rx_blake2b_update rx_blake2b_compress_integer ?S (Some ?b) BLAKE2B_BLOCKBYTES))"
      using portable.update_chunk [of ?S ?b] init_fresh(2) [OF n, of inlen] by (simp add: blake2b_fresh_def)
    then show ?thesis
      using False k by (simp add: rx_blake2b_init_key_def Let_def)
  qed
  show "blake2b_wf (fst (rx_blake2b_update rx_blake2b_compress_integer S inp inlen))"
  proof (cases "inlen = 0 \<or> inp = None \<or> b_f S ! 0 \<noteq> 0")
    case True
    then show ?thesis
      using assms(1) by (auto simp: rx_blake2b_update_def split: option.splits)
  next
    case False
    then obtain mem where "inp = Some mem" "inlen \<le> length mem" "0 < inlen" "b_f S ! 0 = 0"
      using assms(2) by auto
    then show ?thesis
      using portable.update_abs [OF assms(1)] by (metis fst_conv)
  qed
  show "blake2b_wf (fst (rx_blake2b_final rx_blake2b_compress_integer S n))"
    using assms(1) length_buf_write [of "b_buflen S" "replicate (BLAKE2B_BLOCKBYTES - b_buflen S) 0" "b_buf S"]
    by (simp add: rx_blake2b_final_def Let_def blake2b_wf_def)
qed

theorem blake2b_wf_preserved_witness:
  "blake2b_wf (fst (rx_blake2b_update rx_blake2b_compress_integer blake2b_init0 (Some (replicate 300 7)) 300))"
proof -
  have "blake2b_wf blake2b_init0"
    by (simp add: blake2b_wf_def blake2b_init0_def blake2b_IV_def)
  then show ?thesis
    using blake2b_wf_preserved [of blake2b_init0 "Some (replicate 300 7)" 300] by simp
qed

section \<open>Long output\<close>

text \<open>
  The reference: 32 bytes of each of \<open>V\<^sub>1, \<dots>, V\<^sub>r\<close>, each the hash of the one before, and the rest from a hash
  of \<open>V\<^sub>r\<close>.
\<close>

definition argon2_blocks :: "nat \<Rightarrow> byte list \<Rightarrow> byte list" where
  "argon2_blocks n V1 =
     (let r = (n + 31) div 32 - 2;
          V = \<lambda>i. (blake2b_digest 64 ^^ i) V1
      in concat (map (\<lambda>i. take 32 (V i)) [0..<r]) @ blake2b_digest (n - 32 * r) (V (r - 1)))"

definition argon2_hash :: "nat \<Rightarrow> byte list \<Rightarrow> byte list" where
  "argon2_hash n M =
     (if n \<le> 64 then blake2b_digest n (store32 (of_nat n) @ M)
      else argon2_blocks n (blake2b_digest 64 (store32 (of_nat n) @ M)))"

lemma long_loop:
  assumes hash: "\<And>m x. 0 < m \<Longrightarrow> m \<le> 64 \<Longrightarrow> hash m x = Some (blake2b_digest m x)" and "32 < n"
  defines "k \<equiv> (n - 64 + 31) div 32"
  shows "blake2b_long_loop hash V n = Some (concat (map (\<lambda>i. take 32 ((blake2b_digest 64 ^^ Suc i) V)) [0..<k])
    @ blake2b_digest (n - 32 * k) ((blake2b_digest 64 ^^ k) V))"
  using assms(2) unfolding k_def
proof (induction n arbitrary: V rule: less_induct)
  case (less n)
  show ?case
  proof (cases "n > 64")
    case True
    let ?V = "blake2b_digest 64 V" and ?k = "(n - 32 - 64 + 31) div 32"
    have k: "(n - 64 + 31) div 32 = Suc ?k"
    proof (cases "n \<le> 96")
      case le: True
      then have "(n - 64 + 31) div 32 = 1" "?k = 0"
        using True by (intro div_nat_eqI; simp)+
      then show ?thesis by simp
    next
      case False
      then have "n - 64 + 31 = n - 32 - 64 + 31 + 32" by linarith
      then show ?thesis by (simp only: div_add_self2 zero_neq_numeral not_False_eq_True Suc_eq_plus1)
    qed
    have IH: "blake2b_long_loop hash ?V (n - 32) = Some (concat (map (\<lambda>i. take 32 ((blake2b_digest 64 ^^ Suc i) ?V)) [0..<?k])
        @ blake2b_digest (n - 32 - 32 * ?k) ((blake2b_digest 64 ^^ ?k) ?V))"
      using True by (intro less.IH) simp_all
    have shift: "(blake2b_digest 64 ^^ Suc i) V = (blake2b_digest 64 ^^ i) ?V" for i
      by (simp only: funpow_Suc_right comp_apply)
    have "map (\<lambda>i. take 32 ((blake2b_digest 64 ^^ Suc i) V)) [0..<Suc ?k]
        = take 32 ?V # map (\<lambda>i. take 32 ((blake2b_digest 64 ^^ Suc i) ?V)) [0..<?k]"
      by (simp only: shift upt_conv_Cons [of 0 "Suc ?k"] zero_less_Suc list.map map_Suc_upt [symmetric] map_map comp_def) simp
    moreover have "n - 32 - 32 * ?k = n - 32 * Suc ?k"
      by simp
    ultimately show ?thesis
      using True hash [of 64 V] IH
      by (subst blake2b_long_loop.simps) (simp only: k shift concat.simps append_assoc option.case if_True div_mult_self_is_m
          order_refl zero_less_numeral numeral_eq_iff, simp)
  next
    case False
    then have k: "(n - 64 + 31) div 32 = 0" by simp
    show ?thesis
      using False less.prems hash [of n V] unfolding k
      by (subst blake2b_long_loop.simps) (simp add: length_blake2b_digest)
  qed
qed

lemma long_start:
  assumes "0 < m" "m \<le> BLAKE2B_OUTBYTES"
  shows "blake2b_long_start rx_blake2b_compress_integer S m L (Some M) (length M) = Some (blake2b_digest m (L @ M))"
proof -
  let ?c = rx_blake2b_compress_integer and ?S = "rx_blake2b_init_param (blake2b_sequential m 0)"
  let ?S1 = "fst (rx_blake2b_update ?c ?S (Some L) (length L))"
  note i = init_fresh [OF assms]
  have fr: "blake2b_wf ?S" "b_f ?S ! 0 = 0"
    using i(2) [of 0] by (simp_all add: blake2b_fresh_def)
  note u1 = portable.update_chunk [OF fr, of L]
  have "snd (rx_blake2b_update ?c ?S1 (Some M) (length M)) = 0"
    using portable.update_chunk [of ?S1 M] u1 fr(2) by simp
  moreover have "fst (rx_blake2b_update ?c ?S1 (Some M) (length M)) = blake2b_feed ?c ?S [L, M]"
    by (simp add: blake2b_feed_def)
  ultimately show ?thesis
    using portable.digest_feed [OF i(2) [of 0], of m "[L, M]"] i(1) [of S] i(3) [of 0] u1
    by (simp add: blake2b_long_start_def split_beta Let_def blake2b_digest_init [OF assms(2)])
qed

lemma argon2_blocks_loop:
  assumes "64 < n"
  defines "k \<equiv> (n - 32 - 64 + 31) div 32"
  shows "argon2_blocks n V = take 32 V @ concat (map (\<lambda>i. take 32 ((blake2b_digest 64 ^^ Suc i) V)) [0..<k])
    @ blake2b_digest (n - 32 - 32 * k) ((blake2b_digest 64 ^^ k) V)"
proof -
  have r: "(n + 31) div 32 - 2 = Suc k"
  proof (cases "n \<le> 96")
    case True
    then have "(n + 31) div 32 = 3" "k = 0"
      unfolding k_def using assms(1) by (intro div_nat_eqI; simp)+
    then show ?thesis by simp
  next
    case False
    then have "n + 31 = n - 32 - 64 + 31 + 3 * 32" by linarith
    then have "(n + 31) div 32 = 3 + k"
      unfolding k_def by (simp only: div_mult_self1 zero_neq_numeral not_False_eq_True)
    then show ?thesis by simp
  qed
  have "map (\<lambda>i. take 32 ((blake2b_digest 64 ^^ i) V)) [0..<Suc k]
      = take 32 V # map (\<lambda>i. take 32 ((blake2b_digest 64 ^^ Suc i) V)) [0..<k]"
    by (simp only: upt_conv_Cons [of 0 "Suc k"] zero_less_Suc list.map map_Suc_upt [symmetric] map_map comp_def funpow_0)
  moreover have "n - 32 * Suc k = n - 32 - 32 * k"
    by simp
  ultimately show ?thesis
    unfolding argon2_blocks_def Let_def r by (simp only: concat.simps append_assoc diff_Suc_1)
qed

lemma length_take_digests: "length (concat (map (\<lambda>i. take 32 ((blake2b_digest 64 ^^ Suc i) V)) [0..<k])) = 32 * k"
  by (induction k) (simp_all add: length_blake2b_digest)

lemma length_argon2_hash: "0 < n \<Longrightarrow> length (argon2_hash n M) = n"
proof (cases "n \<le> 64")
  case False
  define a where "a = n - 32 - 64 + 31"
  let ?k = "(n - 32 - 64 + 31) div 32"
  have k: "32 * ?k \<le> n - 32" "n - 32 - 32 * ?k \<le> 64"
  proof -
    have "n \<le> 96 \<and> a div 32 = 0 \<or> a = n - 65 \<and> 96 < n"
      by (cases "n \<le> 96") (simp_all add: a_def)
    moreover have "32 * (a div 32) \<le> a" "a < 32 + 32 * (a div 32)"
      using times_div_less_eq_dividend [of 32 a] dividend_less_times_div [of 32 a] by simp_all
    ultimately show "32 * ?k \<le> n - 32" "n - 32 - 32 * ?k \<le> 64"
      unfolding a_def [symmetric] using False by linarith+
  qed
  let ?V = "blake2b_digest 64 (store32 (of_nat n) @ M)"
  have "64 < n" using False by simp
  then have "length (argon2_blocks n ?V) = length (take 32 ?V) + (32 * ?k + (n - 32 - 32 * ?k))"
    by (simp only: argon2_blocks_loop length_append length_take_digests length_blake2b_digest [OF k(2)])
  also have "\<dots> = n"
    using k(1) False length_blake2b_digest [of 64] by simp
  finally show ?thesis
    using False by (simp add: argon2_hash_def)
qed (simp add: argon2_hash_def length_blake2b_digest)

text \<open>
  C28. \<open>rxa2_blake2b_long\<close> is the variable-length hash of Argon2: for every output length from 1 to
  \<open>2 ^ 32 - 1\<close> it terminates and returns exactly that many bytes, those of the reference; for all other lengths it fails.
\<close>

theorem blake2b_long_correct:
  fixes S :: blake2b_state and n :: nat and M :: "byte list"
  defines "hash \<equiv> \<lambda>m x. rx_blake2b_default rx_blake2b_compress_integer S m (Some x) (length x)"
  shows "rxa2_blake2b_long rx_blake2b_compress_integer hash S n (Some M) (length M)
      = (if n = 0 \<or> n > 2 ^ 32 - 1 then None else Some (argon2_hash n M))
    \<and> (n = 0 \<or> length (argon2_hash n M) = n)"
proof -
  have hash: "hash m x = Some (blake2b_digest m x)" if "0 < m" "m \<le> 64" for m x
    unfolding hash_def blake2b_digest_init [OF that(2)] using that by (rule portable.digest_once)
  have "rxa2_blake2b_long rx_blake2b_compress_integer hash S n (Some M) (length M) = Some (argon2_hash n M)"
    if n: "0 < n" "n \<le> 2 ^ 32 - 1"
  proof (cases "n \<le> 64")
    case True
    then show ?thesis
      using n long_start [of n S] by (simp add: rxa2_blake2b_long_def argon2_hash_def Let_def)
  next
    case False
    let ?V = "blake2b_digest 64 (store32 (of_nat n) @ M)"
    have "blake2b_long_loop hash ?V (n - 32) = Some (concat (map (\<lambda>i. take 32 ((blake2b_digest 64 ^^ Suc i) ?V))
        [0..<(n - 32 - 64 + 31) div 32]) @ blake2b_digest (n - 32 - 32 * ((n - 32 - 64 + 31) div 32))
        ((blake2b_digest 64 ^^ ((n - 32 - 64 + 31) div 32)) ?V))"
      using False by (intro long_loop hash) simp_all
    then show ?thesis
      using False n long_start [of 64 S] argon2_blocks_loop [of n ?V]
      by (simp add: rxa2_blake2b_long_def argon2_hash_def Let_def)
  qed
  moreover have "rxa2_blake2b_long rx_blake2b_compress_integer hash S 0 (Some M) (length M) = None"
    by (simp add: rxa2_blake2b_long_def blake2b_long_start_def rx_blake2b_init_def)
  ultimately show ?thesis
    using length_argon2_hash [of n M] by (auto simp: rxa2_blake2b_long_def)
qed

end
