(* ===== verification/Blake256.thy ===== *)
theory Blake256
  imports Blake2bStream
begin

text \<open>
  The hash functions BLAKE-256 and BLAKE-224 and their HMACs of \<^verbatim>\<open>src/crypto/cn/c_blake256.c\<close>, one of the
  hashes that close the CryptoNight function.  The record \<open>blake256_state\<close> is the structure \<^verbatim>\<open>state\<close>; its \<^verbatim>\<open>int\<close>
  fields are natural numbers, which never exceed 511 (\<open>blake256_wf\<close>), and lengths are 64-bit words.  A local variable that is used before it is
  written, such as the \<^verbatim>\<open>state S\<close> of \<open>blake256_hash\<close>, is an argument.  Clearing a local array before the return is
  left out.
\<close>

unbundle bit_operations_syntax

section \<open>Constants and words\<close>

definition U8TO32 :: "byte list \<Rightarrow> i32" where
  "U8TO32 p = push_bit 24 (ucast (p ! 0)) OR push_bit 16 (ucast (p ! 1)) OR push_bit 8 (ucast (p ! 2)) OR ucast (p ! 3)"

definition U32TO8 :: "i32 \<Rightarrow> byte list" where
  "U32TO8 v = [ucast (drop_bit 24 v), ucast (drop_bit 16 v), ucast (drop_bit 8 v), ucast v]"

definition blake256_sigma :: "nat list list" where
  "blake256_sigma =
    [[0, 1, 2, 3, 4, 5, 6, 7, 8, 9, 10, 11, 12, 13, 14, 15],
     [14, 10, 4, 8, 9, 15, 13, 6, 1, 12, 0, 2, 11, 7, 5, 3],
     [11, 8, 12, 0, 5, 2, 15, 13, 10, 14, 3, 6, 7, 1, 9, 4],
     [7, 9, 3, 1, 13, 12, 11, 14, 2, 6, 5, 10, 4, 0, 15, 8],
     [9, 0, 5, 7, 2, 4, 10, 15, 14, 1, 11, 12, 6, 8, 3, 13],
     [2, 12, 6, 10, 0, 11, 8, 3, 4, 13, 7, 5, 15, 14, 1, 9],
     [12, 5, 1, 15, 14, 13, 4, 10, 0, 7, 6, 3, 9, 2, 8, 11],
     [13, 11, 7, 14, 12, 1, 3, 9, 5, 0, 15, 4, 8, 6, 2, 10],
     [6, 15, 14, 9, 11, 3, 0, 8, 12, 2, 13, 7, 1, 4, 10, 5],
     [10, 2, 8, 4, 7, 6, 1, 5, 15, 11, 9, 14, 3, 12, 13, 0],
     [0, 1, 2, 3, 4, 5, 6, 7, 8, 9, 10, 11, 12, 13, 14, 15],
     [14, 10, 4, 8, 9, 15, 13, 6, 1, 12, 0, 2, 11, 7, 5, 3],
     [11, 8, 12, 0, 5, 2, 15, 13, 10, 14, 3, 6, 7, 1, 9, 4],
     [7, 9, 3, 1, 13, 12, 11, 14, 2, 6, 5, 10, 4, 0, 15, 8]]"

definition blake256_cst :: "i32 list" where
  "blake256_cst =
    [0x243F6A88, 0x85A308D3, 0x13198A2E, 0x03707344, 0xA4093822, 0x299F31D0, 0x082EFA98, 0xEC4E6C89,
     0x452821E6, 0x38D01377, 0xBE5466CF, 0x34E90C6C, 0xC0AC29B7, 0xC97C50DD, 0x3F84D5B5, 0xB5470917]"

definition blake256_padding :: "byte list" where
  "blake256_padding = 0x80 # replicate 63 0"

definition ROT32 :: "i32 \<Rightarrow> nat \<Rightarrow> i32" where
  "ROT32 x n = push_bit (32 - n) x OR drop_bit n x"

section \<open>The state\<close>

record blake256_state =
  bl_h :: "i32 list"
  bl_s :: "i32 list"
  bl_t :: "i32 list"
  bl_buflen :: nat
  bl_nullt :: nat
  bl_buf :: "byte list"

record blake256_hmac_state =
  hm_inner :: blake256_state
  hm_outer :: blake256_state

section \<open>Compression\<close>

definition blake256_G :: "i32 list \<Rightarrow> nat \<Rightarrow> nat \<Rightarrow> nat \<Rightarrow> nat \<Rightarrow> nat \<Rightarrow> nat \<Rightarrow> i32 list \<Rightarrow> i32 list" where
  "blake256_G m i a b c d e v =
     (let s = blake256_sigma ! i;
          v = v[a := v ! a + ((m ! (s ! e) XOR blake256_cst ! (s ! (e + 1))) + v ! b)];
          v = v[d := ROT32 (v ! d XOR v ! a) 16];
          v = v[c := v ! c + v ! d];
          v = v[b := ROT32 (v ! b XOR v ! c) 12];
          v = v[a := v ! a + ((m ! (s ! (e + 1)) XOR blake256_cst ! (s ! e)) + v ! b)];
          v = v[d := ROT32 (v ! d XOR v ! a) 8];
          v = v[c := v ! c + v ! d]
      in v[b := ROT32 (v ! b XOR v ! c) 7])"

definition blake256_round :: "i32 list \<Rightarrow> nat \<Rightarrow> i32 list \<Rightarrow> i32 list" where
  "blake256_round m i v =
     (let v = blake256_G m i 0 4 8 12 0 v;
          v = blake256_G m i 1 5 9 13 2 v;
          v = blake256_G m i 2 6 10 14 4 v;
          v = blake256_G m i 3 7 11 15 6 v;
          v = blake256_G m i 3 4 9 14 14 v;
          v = blake256_G m i 2 7 8 13 12 v;
          v = blake256_G m i 0 5 10 15 8 v
      in blake256_G m i 1 6 11 12 10 v)"

definition blake256_compress :: "blake256_state \<Rightarrow> byte list \<Rightarrow> blake256_state" where
  "blake256_compress S block =
     (let m = map (\<lambda>i. U8TO32 (drop (i * 4) block)) [0..<16];
          s = bl_s S;
          t = bl_t S;
          v = map (\<lambda>i. bl_h S ! i) [0..<8] @
            [s ! 0 XOR 0x243F6A88, s ! 1 XOR 0x85A308D3, s ! 2 XOR 0x13198A2E, s ! 3 XOR 0x03707344,
             0xA4093822, 0x299F31D0, 0x082EFA98, 0xEC4E6C89];
          v = (if bl_nullt S = 0
               then v[12 := v ! 12 XOR t ! 0, 13 := v ! 13 XOR t ! 0, 14 := v ! 14 XOR t ! 1, 15 := v ! 15 XOR t ! 1]
               else v);
          v = fold (blake256_round m) [0..<14] v;
          h = fold (\<lambda>i h. h[i mod 8 := h ! (i mod 8) XOR v ! i]) [0..<16] (bl_h S);
          h = fold (\<lambda>i h. h[i := h ! i XOR s ! (i mod 4)]) [0..<8] h
      in S\<lparr>bl_h := h\<rparr>)"

section \<open>Initialisation\<close>

definition blake256_start :: "i32 list \<Rightarrow> blake256_state \<Rightarrow> blake256_state" where
  "blake256_start iv S = S\<lparr>bl_h := iv, bl_t := [0, 0], bl_buflen := 0, bl_nullt := 0, bl_s := [0, 0, 0, 0]\<rparr>"

definition blake256_iv :: "i32 list" where
  "blake256_iv = [0x6A09E667, 0xBB67AE85, 0x3C6EF372, 0xA54FF53A, 0x510E527F, 0x9B05688C, 0x1F83D9AB, 0x5BE0CD19]"

definition blake224_iv :: "i32 list" where
  "blake224_iv = [0xC1059ED8, 0x367CD507, 0x3070DD17, 0xF70E5939, 0xFFC00B31, 0x68581511, 0x64F98FA7, 0xBEFA4FA4]"

definition blake256_init :: "blake256_state \<Rightarrow> blake256_state" where
  "blake256_init S = blake256_start blake256_iv S"

definition blake224_init :: "blake256_state \<Rightarrow> blake256_state" where
  "blake224_init S = blake256_start blake224_iv S"

section \<open>Update\<close>

text \<open>\<^verbatim>\<open>S->t[0] += 512; if (S->t[0] == 0) S->t[1]++;\<close>\<close>

definition blake256_count :: "blake256_state \<Rightarrow> blake256_state" where
  "blake256_count S =
     (let t = bl_t S;
          t = t[0 := t ! 0 + 512]
      in S\<lparr>bl_t := if t ! 0 = 0 then t[1 := t ! 1 + 1] else t\<rparr>)"

text \<open>The loop over whole blocks; it returns the state, the rest of the data and its length in bits.\<close>

function blake256_blocks :: "blake256_state \<Rightarrow> byte list \<Rightarrow> i64 \<Rightarrow> blake256_state \<times> byte list \<times> i64" where
  "blake256_blocks S data datalen =
     (if 512 \<le> datalen
      then blake256_blocks (blake256_compress (blake256_count S) (take 64 data)) (drop 64 data) (datalen - 512)
      else (S, data, datalen))"
  by auto

termination
proof (relation "measure (\<lambda>(_, _, datalen). unat datalen)")
  fix S :: blake256_state and data :: "byte list" and datalen :: i64
  assume "512 \<le> datalen"
  then show "((blake256_compress (blake256_count S) (take 64 data), drop 64 data, datalen - 512), S, data, datalen)
      \<in> measure (\<lambda>(_, _, datalen). unat datalen)"
    by (simp add: unat_sub word_le_nat_alt)
qed simp

declare blake256_blocks.simps [simp del]

definition blake256_update :: "blake256_state \<Rightarrow> byte list \<Rightarrow> i64 \<Rightarrow> blake256_state" where
  "blake256_update S data datalen =
     (let left = bl_buflen S div 8;
          fill = 64 - left;
          (S, data, datalen, left) =
            (if left \<noteq> 0 \<and> fill \<le> unat (drop_bit 3 datalen AND 0x3F)
             then let S = S\<lparr>bl_buf := buf_write (bl_buf S) left (take fill data)\<rparr>;
                      S = blake256_count S;
                      S = blake256_compress S (bl_buf S)
                  in (S, drop fill data, datalen - of_nat (8 * fill), 0)
             else (S, data, datalen, left));
          (S, data, datalen) = blake256_blocks S data datalen
      in if 0 < datalen
         then S\<lparr>bl_buf := buf_write (bl_buf S) left (take (unat (drop_bit 3 datalen)) data),
                bl_buflen := left * 8 + unat datalen\<rparr>
         else S\<lparr>bl_buflen := 0\<rparr>)"

definition blake224_update :: "blake256_state \<Rightarrow> byte list \<Rightarrow> i64 \<Rightarrow> blake256_state" where
  "blake224_update S data datalen = blake256_update S data datalen"

section \<open>Final\<close>

text \<open>\<^verbatim>\<open>S->t[0] -= n;\<close>\<close>

definition blake256_uncount :: "nat \<Rightarrow> blake256_state \<Rightarrow> blake256_state" where
  "blake256_uncount n S = S\<lparr>bl_t := (bl_t S)[0 := bl_t S ! 0 - of_nat n]\<rparr>"

definition blake256_final_h :: "blake256_state \<Rightarrow> byte \<Rightarrow> byte \<Rightarrow> blake256_state \<times> byte list" where
  "blake256_final_h S pa pb =
     (let lo = bl_t S ! 0 + of_nat (bl_buflen S);
          hi = bl_t S ! 1;
          hi = (if lo < of_nat (bl_buflen S) then hi + 1 else hi);
          msglen = U32TO8 hi @ U32TO8 lo;
          S = (if bl_buflen S = 440
               then blake256_update (blake256_uncount 8 S) [pa] 8
               else let S = (if bl_buflen S < 440
                             then let S = (if bl_buflen S = 0 then S\<lparr>bl_nullt := 1\<rparr> else S);
                                      n = 440 - bl_buflen S
                                  in blake256_update (blake256_uncount n S) blake256_padding (of_nat n)
                             else let n = 512 - bl_buflen S;
                                      S = blake256_update (blake256_uncount n S) blake256_padding (of_nat n);
                                      S = blake256_update (blake256_uncount 440 S) (drop 1 blake256_padding) 440
                                  in S\<lparr>bl_nullt := 1\<rparr>)
                    in blake256_uncount 8 (blake256_update S [pb] 8));
          S = blake256_update (blake256_uncount 64 S) msglen 64
      in (S, concat (map (\<lambda>i. U32TO8 (bl_h S ! i)) [0..<8])))"

definition blake256_final :: "blake256_state \<Rightarrow> blake256_state \<times> byte list" where
  "blake256_final S = blake256_final_h S 0x81 0x01"

definition blake224_final :: "blake256_state \<Rightarrow> blake256_state \<times> byte list" where
  "blake224_final S = blake256_final_h S 0x80 0x00"

definition blake256_hash :: "blake256_state \<Rightarrow> byte list \<Rightarrow> i64 \<Rightarrow> byte list" where
  "blake256_hash S inp inlen = snd (blake256_final (blake256_update (blake256_init S) inp (inlen * 8)))"

definition blake224_hash :: "blake256_state \<Rightarrow> byte list \<Rightarrow> i64 \<Rightarrow> byte list" where
  "blake224_hash S inp inlen = snd (blake224_final (blake224_update (blake224_init S) inp (inlen * 8)))"

section \<open>HMAC\<close>

text \<open>\<^verbatim>\<open>memset(pad, c, 64)\<close> and the loop that adds the key.\<close>

definition hmac_pad :: "byte \<Rightarrow> byte list \<Rightarrow> nat \<Rightarrow> byte list" where
  "hmac_pad c key keylen = fold (\<lambda>i pad. pad[i := pad ! i XOR key ! i]) [0..<keylen] (replicate 64 c)"

text \<open>\<open>U\<close> is the uninitialised state of the call of \<open>blake256_hash\<close>.\<close>

definition hmac_blake256_init ::
    "blake256_state \<Rightarrow> blake256_hmac_state \<Rightarrow> byte list \<Rightarrow> i64 \<Rightarrow> blake256_hmac_state" where
  "hmac_blake256_init U S key keylen =
     (let (key, keylen) = (if 64 < keylen then (blake256_hash U key keylen, 32) else (key, keylen));
          S = S\<lparr>hm_inner := blake256_init (hm_inner S)\<rparr>;
          S = S\<lparr>hm_inner := blake256_update (hm_inner S) (hmac_pad 0x36 key (unat keylen)) 512\<rparr>;
          S = S\<lparr>hm_outer := blake256_init (hm_outer S)\<rparr>
      in S\<lparr>hm_outer := blake256_update (hm_outer S) (hmac_pad 0x5c key (unat keylen)) 512\<rparr>)"

definition hmac_blake224_init ::
    "blake256_state \<Rightarrow> blake256_hmac_state \<Rightarrow> byte list \<Rightarrow> i64 \<Rightarrow> blake256_hmac_state" where
  "hmac_blake224_init U S key keylen =
     (let (key, keylen) = (if 64 < keylen then (blake256_hash U key keylen, 28) else (key, keylen));
          S = S\<lparr>hm_inner := blake224_init (hm_inner S)\<rparr>;
          S = S\<lparr>hm_inner := blake224_update (hm_inner S) (hmac_pad 0x36 key (unat keylen)) 512\<rparr>;
          S = S\<lparr>hm_outer := blake224_init (hm_outer S)\<rparr>
      in S\<lparr>hm_outer := blake224_update (hm_outer S) (hmac_pad 0x5c key (unat keylen)) 512\<rparr>)"

definition hmac_blake256_update :: "blake256_hmac_state \<Rightarrow> byte list \<Rightarrow> i64 \<Rightarrow> blake256_hmac_state" where
  "hmac_blake256_update S data datalen = S\<lparr>hm_inner := blake256_update (hm_inner S) data datalen\<rparr>"

definition hmac_blake224_update :: "blake256_hmac_state \<Rightarrow> byte list \<Rightarrow> i64 \<Rightarrow> blake256_hmac_state" where
  "hmac_blake224_update S data datalen = S\<lparr>hm_inner := blake224_update (hm_inner S) data datalen\<rparr>"

definition hmac_blake256_final :: "blake256_hmac_state \<Rightarrow> blake256_hmac_state \<times> byte list" where
  "hmac_blake256_final S =
     (let (inner, ihash) = blake256_final (hm_inner S);
          outer = blake256_update (hm_outer S) ihash 256;
          (outer, digest) = blake256_final outer
      in (S\<lparr>hm_inner := inner, hm_outer := outer\<rparr>, digest))"

definition hmac_blake224_final :: "blake256_hmac_state \<Rightarrow> blake256_hmac_state \<times> byte list" where
  "hmac_blake224_final S =
     (let (inner, ihash) = blake224_final (hm_inner S);
          outer = blake224_update (hm_outer S) ihash 224;
          (outer, digest) = blake224_final outer
      in (S\<lparr>hm_inner := inner, hm_outer := outer\<rparr>, digest))"

definition hmac_blake256_hash ::
    "blake256_state \<Rightarrow> blake256_hmac_state \<Rightarrow> byte list \<Rightarrow> i64 \<Rightarrow> byte list \<Rightarrow> i64 \<Rightarrow> byte list" where
  "hmac_blake256_hash U S key keylen inp inlen =
     snd (hmac_blake256_final (hmac_blake256_update (hmac_blake256_init U S key keylen) inp (inlen * 8)))"

definition hmac_blake224_hash ::
    "blake256_state \<Rightarrow> blake256_hmac_state \<Rightarrow> byte list \<Rightarrow> i64 \<Rightarrow> byte list \<Rightarrow> i64 \<Rightarrow> byte list" where
  "hmac_blake224_hash U S key keylen inp inlen =
     snd (hmac_blake224_final (hmac_blake224_update (hmac_blake224_init U S key keylen) inp (inlen * 8)))"

end
