(* ===== verification/Blake256Ref.thy ===== *)
theory Blake256Ref
  imports Blake256 Blake2bRef
begin

text \<open>
  A reference for BLAKE-256 in the form of its specification, and the equivalence of the compression: the
  ten permutations \<open>blake_perm\<close>, used cyclically, its own table of the sixteen constants, which are the first digits of \<open>\<pi>\<close>, the
  column step before the diagonal step, and the finalisation as one formula.
\<close>

unbundle bit_operations_syntax

section \<open>The compression of the specification\<close>

definition blake_c :: "i32 list" where
  "blake_c =
    [0x243F6A88, 0x85A308D3, 0x13198A2E, 0x03707344, 0xA4093822, 0x299F31D0, 0x082EFA98, 0xEC4E6C89,
     0x452821E6, 0x38D01377, 0xBE5466CF, 0x34E90C6C, 0xC0AC29B7, 0xC97C50DD, 0x3F84D5B5, 0xB5470917]"

definition blake_quarter :: "i32 \<Rightarrow> i32 \<Rightarrow> i32 \<times> i32 \<times> i32 \<times> i32 \<Rightarrow> i32 \<times> i32 \<times> i32 \<times> i32" where
  "blake_quarter x y = (\<lambda>(a, b, c, d).
     let a = a + b + x;
         d = word_rotr 16 (d XOR a);
         c = c + d;
         b = word_rotr 12 (b XOR c);
         a = a + b + y;
         d = word_rotr 8 (d XOR a);
         c = c + d;
         b = word_rotr 7 (b XOR c)
     in (a, b, c, d))"

definition blake_step :: "i32 list \<Rightarrow> nat \<Rightarrow> nat \<Rightarrow> nat \<times> nat \<times> nat \<times> nat \<Rightarrow> i32 list \<Rightarrow> i32 list" where
  "blake_step m r j = (\<lambda>(a, b, c, d) v.
     let p = blake_perm ! (r mod 10) ! (2 * j);
         q = blake_perm ! (r mod 10) ! (2 * j + 1);
         (va, vb, vc, vd) = blake_quarter (m ! p XOR blake_c ! q) (m ! q XOR blake_c ! p) (v ! a, v ! b, v ! c, v ! d)
     in v[a := va, b := vb, c := vc, d := vd])"

definition blake_round :: "i32 list \<Rightarrow> nat \<Rightarrow> i32 list \<Rightarrow> i32 list" where
  "blake_round m r v = fold (\<lambda>j. blake_step m r j (blake_lanes ! j)) [0..<8] v"

text \<open>The chaining value from salt \<open>s\<close>, chaining value \<open>h\<close>, the two words \<open>t\<close> of the counter and a block.\<close>

definition blake_F :: "i32 list \<Rightarrow> i32 list \<Rightarrow> i32 list \<Rightarrow> byte list \<Rightarrow> i32 list" where
  "blake_F s h t block =
     (let m = map (\<lambda>i. U8TO32 (drop (4 * i) block)) [0..<16];
          c = blake_c;
          v = h @ map (\<lambda>i. s ! i XOR c ! i) [0..<4] @ [t ! 0 XOR c ! 4, t ! 0 XOR c ! 5, t ! 1 XOR c ! 6, t ! 1 XOR c ! 7];
          v = fold (blake_round m) [0..<14] v
      in map (\<lambda>i. h ! i XOR s ! (i mod 4) XOR v ! i XOR v ! (i + 8)) [0..<8])"

section \<open>Equivalence of the rounds\<close>

lemma cst_ref: "blake256_cst = blake_c"
  by (simp add: blake256_cst_def blake_c_def)

lemmas blake_step_cst = blake_step_def [folded cst_ref]
lemmas blake_F_cst = blake_F_def [folded cst_ref]

lemma ROT32_rotr: "0 < n \<Longrightarrow> n < 32 \<Longrightarrow> ROT32 x n = word_rotr n x"
  using rotr_by_shifts [of n x] by (simp add: ROT32_def or.commute)

lemma sigma_cyclic: "i < 14 \<Longrightarrow> blake256_sigma ! i = blake_perm ! (i mod 10)"
proof -
  have "\<forall>i\<in>set [0..<14]. blake256_sigma ! i = blake_perm ! (i mod 10)"
    unfolding blake_perm_def by code_simp
  then show "i < 14 \<Longrightarrow> blake256_sigma ! i = blake_perm ! (i mod 10)"
    by simp
qed

lemma quarter_commuted: "a + (x + b) = a + b + (x :: i32)"
  by simp

lemma G_step:
  assumes "i < 14" "distinct [a, b, c, d]" "a < length v" "b < length v" "c < length v" "d < length v"
  shows "blake256_G m i a b c d (2 * j) v = blake_step m i j (a, b, c, d) v"
proof -
  have r: "ROT32 x 16 = word_rotr 16 x" "ROT32 x 12 = word_rotr 12 x" "ROT32 x 8 = word_rotr 8 x" "ROT32 x 7 = word_rotr 7 x" for x
    by (simp_all add: ROT32_rotr)
  let ?p = "blake_perm ! (i mod 10) ! (2 * j)" and ?q = "blake_perm ! (i mod 10) ! (2 * j + 1)"
  show ?thesis
    unfolding blake256_G_def blake_step_cst blake_quarter_def prod.case sigma_cyclic [OF assms(1)] Let_def [of "blake_perm ! (i mod 10)"] quarter_commuted r
      Let_def [of ?p] Let_def [of ?q]
      eight_assignments [OF assms(2-), of "\<lambda>x y. x + y + (m ! ?p XOR blake256_cst ! ?q)" "\<lambda>x y. word_rotr 16 (x XOR y)" "(+)"
        "\<lambda>x y. word_rotr 12 (x XOR y)" "\<lambda>x y. x + y + (m ! ?q XOR blake256_cst ! ?p)" "\<lambda>x y. word_rotr 8 (x XOR y)" "(+)"
        "\<lambda>x y. word_rotr 7 (x XOR y)"]
    by (simp only: let_tuple)
qed

text \<open>Steps on different words commute, so that the order of the diagonal steps does not matter.\<close>

lemma length_blake_step [simp]: "length (blake_step m r j l v) = length v"
  by (simp add: blake_step_def Let_def split_beta)

lemma update_past:
  "a \<noteq> i \<Longrightarrow> b \<noteq> i \<Longrightarrow> c \<noteq> i \<Longrightarrow> d \<noteq> i
    \<Longrightarrow> v[a := w, b := x, c := y, d := z, i := k] = v[i := k, a := w, b := x, c := y, d := z]"
  by (simp only: list_update_swap [of d i] list_update_swap [of c i] list_update_swap [of b i] list_update_swap [of a i] simp_thms)

lemma blake_step_comm:
  assumes "distinct [a, b, c, d, a', b', c', d']"
  shows "blake_step m r j (a, b, c, d) (blake_step m r k (a', b', c', d') v)
    = blake_step m r k (a', b', c', d') (blake_step m r j (a, b, c, d) v)"
proof -
  obtain f g where f: "\<And>v. blake_step m r j (a, b, c, d) v = (case f (v ! a, v ! b, v ! c, v ! d) of (w, x, y, z) \<Rightarrow> v[a := w, b := x, c := y, d := z])"
      and g: "\<And>v. blake_step m r k (a', b', c', d') v = (case g (v ! a', v ! b', v ! c', v ! d') of (w, x, y, z) \<Rightarrow> v[a' := w, b' := x, c' := y, d' := z])"
    unfolding blake_step_def Let_def prod.case by blast
  obtain w x y z w' x' y' z' where v: "f (v ! a, v ! b, v ! c, v ! d) = (w, x, y, z)" "g (v ! a', v ! b', v ! c', v ! d') = (w', x', y', z')"
    by (metis prod.exhaust)
  have n: "a' \<noteq> i \<and> b' \<noteq> i \<and> c' \<noteq> i \<and> d' \<noteq> i" if "i \<in> {a, b, c, d}" for i
    using assms that by auto
  have past: "u[a' := w', b' := x', c' := y', d' := z', i := k] = u[i := k, a' := w', b' := x', c' := y', d' := z']"
    if "i \<in> {a, b, c, d}" for u i k
    using n [OF that] by (intro update_past) simp_all
  have "v[a' := w', b' := x', c' := y', d' := z', a := w, b := x, c := y, d := z]
      = v[a := w, b := x, c := y, d := z, a' := w', b' := x', c' := y', d' := z']"
    by (simp only: past [of a] past [of b] past [of c] past [of d] insert_iff simp_thms)
  moreover have "v[a' := w', b' := x', c' := y', d' := z'] ! i = v ! i" if "i \<in> {a, b, c, d}" for i
    using n [OF that] by simp
  moreover have "a \<noteq> i \<and> b \<noteq> i \<and> c \<noteq> i \<and> d \<noteq> i" if "i \<in> {a', b', c', d'}" for i
    using assms that by auto
  then have "v[a := w, b := x, c := y, d := z] ! i = v ! i" if "i \<in> {a', b', c', d'}" for i
    using that by simp
  ultimately show ?thesis
    by (simp add: f g v)
qed

lemma round_standard:
  assumes "i < 14" "length v = 16"
  shows "blake256_round m i v = blake_round m i v"
proof -
  have G: "blake256_G m i a b c d e u = blake_step m i j (a, b, c, d) u"
    if "e = 2 * j" "distinct [a, b, c, d]" "a < 16" "b < 16" "c < 16" "d < 16" "length u = 16" for a b c d e j u
    using G_step [OF assms(1) that(2)] that by simp
  let ?s = "blake_step m i"
  have "blake256_round m i v = ?s 5 (1, 6, 11, 12) (?s 4 (0, 5, 10, 15) (?s 6 (2, 7, 8, 13) (?s 7 (3, 4, 9, 14)
      (?s 3 (3, 7, 11, 15) (?s 2 (2, 6, 10, 14) (?s 1 (1, 5, 9, 13) (?s 0 (0, 4, 8, 12) v)))))))"
    unfolding blake256_round_def Let_def
    by (simp add: assms(2) G [of 0 0] G [of 2 1] G [of 4 2] G [of 6 3] G [of 8 4] G [of 10 5] G [of 12 6] G [of 14 7])
  also have "\<dots> = ?s 7 (3, 4, 9, 14) (?s 6 (2, 7, 8, 13) (?s 5 (1, 6, 11, 12) (?s 4 (0, 5, 10, 15)
      (?s 3 (3, 7, 11, 15) (?s 2 (2, 6, 10, 14) (?s 1 (1, 5, 9, 13) (?s 0 (0, 4, 8, 12) v)))))))"
    by (simp add: blake_step_comm [of 1 6 11 12 0 5 10 15] blake_step_comm [of 1 6 11 12 2 7 8 13]
        blake_step_comm [of 1 6 11 12 3 4 9 14] blake_step_comm [of 0 5 10 15 2 7 8 13]
        blake_step_comm [of 0 5 10 15 3 4 9 14] blake_step_comm [of 2 7 8 13 3 4 9 14] del: One_nat_def)
  also have "\<dots> = blake_round m i v"
    by (simp add: blake_round_def blake_lanes_def upt_rec numeral_eq_Suc)
  finally show ?thesis .
qed

section \<open>Equivalence of the compression\<close>

lemma length_fold_invariant: "(\<And>i x. length (f i x) = length x) \<Longrightarrow> length (fold f is v) = length v"
  by (induction "is" arbitrary: v) simp_all

lemma length_blake_round [simp]: "length (blake_round m r v) = length v"
  unfolding blake_round_def by (rule length_fold_invariant) simp

lemma fold_rounds:
  "length v = 16 \<Longrightarrow> \<forall>i\<in>set is. i < 14 \<Longrightarrow> fold (blake256_round m) is v = fold (blake_round m) is v"
  by (induction "is" arbitrary: v) (simp_all add: round_standard)

lemma list_8: "length h = 8 \<Longrightarrow> h = [h ! 0, h ! 1, h ! 2, h ! 3, h ! 4, h ! 5, h ! 6, h ! 7]"
  by (intro nth_equalityI) (auto simp: less_Suc_eq numeral_eq_Suc)

lemma finish_compress:
  fixes h s v :: "i32 list"
  assumes "length h = 8"
  shows "fold (\<lambda>i h. h[i := h ! i XOR s ! (i mod 4)]) [0..<8] (fold (\<lambda>i h. h[i mod 8 := h ! (i mod 8) XOR v ! i]) [0..<16] h)
    = map (\<lambda>i. h ! i XOR s ! (i mod 4) XOR v ! i XOR v ! (i + 8)) [0..<8]"
proof -
  obtain a b c d e f g k where h: "h = [a, b, c, d, e, f, g, k]"
    using list_8 [OF assms] by blast
  show ?thesis
    unfolding h upt_16 by (simp add: xor.left_commute xor.commute xor.assoc)
qed

lemma compress_ref:
  assumes "length (bl_h S) = 8" "length (bl_s S) = 4"
  shows "blake256_compress S block = S\<lparr>bl_h := blake_F (bl_s S) (bl_h S) (if bl_nullt S = 0 then bl_t S else [0, 0]) block\<rparr>"
proof -
  let ?t = "if bl_nullt S = 0 then bl_t S else [0, 0]"
  define v0 where "v0 = bl_h S @ map (\<lambda>i. bl_s S ! i XOR blake256_cst ! i) [0..<4] @ [?t ! 0 XOR blake256_cst ! 4,
      ?t ! 0 XOR blake256_cst ! 5, ?t ! 1 XOR blake256_cst ! 6, ?t ! 1 XOR blake256_cst ! 7]"
  have h: "map (\<lambda>i. bl_h S ! i) [0..<8] = bl_h S"
    using map_nth [of "bl_h S"] assms(1) by simp
  let ?c = "bl_h S @ [bl_s S ! 0 XOR 0x243F6A88, bl_s S ! 1 XOR 0x85A308D3, bl_s S ! 2 XOR 0x13198A2E,
      bl_s S ! 3 XOR 0x03707344, 0xA4093822, 0x299F31D0, 0x082EFA98, 0xEC4E6C89]"
  have v: "(if bl_nullt S = 0 then ?c[12 := ?c ! 12 XOR bl_t S ! 0, 13 := ?c ! 13 XOR bl_t S ! 0,
      14 := ?c ! 14 XOR bl_t S ! 1, 15 := ?c ! 15 XOR bl_t S ! 1] else ?c) = v0"
    unfolding v0_def upt_16 using assms(1)
    by (simp add: blake256_cst_def list_update_append nth_append xor.commute)
  have "length v0 = 16"
    using assms(1) by (simp add: v0_def)
  then have r: "fold (blake256_round m) [0..<14] v0 = fold (blake_round m) [0..<14] v0" for m
    by (rule fold_rounds) simp
  show ?thesis
    unfolding blake256_compress_def Let_def h v r finish_compress [OF assms(1)] blake_F_cst v0_def [symmetric]
    by (simp only: mult.commute [of 4])
qed

lemma length_blake_F [simp]: "length (blake_F s h t block) = 8"
  by (simp add: blake_F_def Let_def)

end
