(* ===== verification/Blake256Props.thy ===== *)
theory Blake256Props
  imports Blake256Ref
begin

text \<open>
  What the streaming interface of BLAKE-256 promises: the reference hash of a message, with its padding and its bit
  counters, the states that have absorbed a message, and the updates that keep this relation.
\<close>

unbundle bit_operations_syntax

section \<open>The counter\<close>

text \<open>A number of bits as the two words of \<^verbatim>\<open>t\<close>.\<close>

definition ctr32 :: "nat \<Rightarrow> i32 list" where
  "ctr32 n = [of_nat n, of_nat (n div 2 ^ 32)]"

lemma length_ctr32 [simp]: "length (ctr32 n) = 2"
  by (simp add: ctr32_def)

lemma of_nat_i32_eq_0: "(of_nat n :: i32) = 0 \<longleftrightarrow> n mod 2 ^ 32 = 0"
  by (simp add: word_of_nat_eq_0_iff dvd_eq_mod_eq_0)

lemma div_carry:
  fixes x :: nat
  assumes "0 < k" "k \<le> 512" "x mod 512 = 0"
  shows "(x + k) div 2 ^ 32 = x div 2 ^ 32 + (if (x + k) mod 2 ^ 32 = 0 then 1 else 0)"
proof -
  define q r where "q = x div 2 ^ 32" and "r = x mod 2 ^ 32"
  have x: "x = q * 2 ^ 32 + r" "r < 2 ^ 32"
    by (simp_all add: q_def r_def)
  have "r mod 512 = 0"
    using assms(3) mod_mod_cancel [of 512 "2 ^ 32" x] by (simp add: r_def)
  then obtain s where s: "r = 512 * s"
    by (metis mult.commute dvd_def mod_0_imp_dvd)
  then have "r + 512 \<le> 2 ^ 32"
    using x(2) by simp
  then consider "r + k < 2 ^ 32" | "r + k = 2 ^ 32"
    using assms(2) by linarith
  then show ?thesis
  proof cases
    case 1
    have "x + k = (r + k) + q * 2 ^ 32"
      using x(1) by linarith
    then have "(x + k) div 2 ^ 32 = q" "(x + k) mod 2 ^ 32 = r + k"
      using 1 div_mult_self1 [of "2 ^ 32" "r + k" q] mod_mult_self1 [of "r + k" q "2 ^ 32"] by (simp_all only:) simp_all
    then show ?thesis
      using assms(1) by (simp add: q_def)
  next
    case 2
    then have "x + k = (q + 1) * 2 ^ 32"
      unfolding x(1) by simp
    then show ?thesis
      by (simp add: q_def)
  qed
qed

text \<open>Uncounting \<open>512 - k\<close> bits and counting a block counts \<open>k\<close> bits.\<close>

lemma count_ctr:
  assumes "bl_t S = [of_nat x - of_nat (512 - k), of_nat (x div 2 ^ 32)]" "0 < k" "k \<le> 512" "x mod 512 = 0"
  shows "blake256_count S = S\<lparr>bl_t := ctr32 (x + k)\<rparr>"
proof -
  have "of_nat x - of_nat (512 - k) + 512 = (of_nat (x + k) :: i32)"
    using assms(3) by (simp add: of_nat_diff)
  moreover have "of_nat ((x + k) div 2 ^ 32) = (of_nat (x div 2 ^ 32) + (if (of_nat (x + k) :: i32) = 0 then 1 else 0) :: i32)"
    unfolding div_carry [OF assms(2-4)] of_nat_i32_eq_0 by simp
  ultimately show ?thesis
    unfolding blake256_count_def Let_def assms(1) ctr32_def
    by (simp del: of_nat_add power_numeral)
qed

lemma count_full:
  assumes "bl_t S = ctr32 (512 * n)"
  shows "blake256_count S = S\<lparr>bl_t := ctr32 (512 * Suc n)\<rparr>"
proof -
  have "ctr32 x = [of_nat x - of_nat (512 - 512), of_nat (x div 2 ^ 32)]" for x
    by (simp add: ctr32_def)
  then have "bl_t S = [of_nat (512 * n) - of_nat (512 - 512), of_nat (512 * n div 2 ^ 32)]"
    by (simp only: assms)
  from count_ctr [OF this] show ?thesis
    by (simp only: mult_Suc_right add.commute [of 512] mod_mult_self1_is_0 order_refl zero_less_numeral simp_thms)
qed

section \<open>The reference\<close>

text \<open>The chaining value after all whole blocks of \<open>M\<close>, the first of which has number \<open>n\<close>.\<close>

function blake_chain :: "i32 list \<Rightarrow> nat \<Rightarrow> byte list \<Rightarrow> i32 list" where
  "blake_chain h n M =
     (if 64 \<le> length M
      then blake_chain (blake_F [0, 0, 0, 0] h (ctr32 (512 * Suc n)) (take 64 M)) (Suc n) (drop 64 M) else h)"
  by auto

termination
  by (relation "measure (\<lambda>(_, _, M). length M)") auto

declare blake_chain.simps [simp del]

lemma blake_chain_short: "length M < 64 \<Longrightarrow> blake_chain h n M = h"
  by (simp add: blake_chain.simps)

lemma blake_chain_one: "length P = 64 \<Longrightarrow> blake_chain h n P = blake_F [0, 0, 0, 0] h (ctr32 (512 * Suc n)) P"
  by (simp add: blake_chain.simps [of h n] blake_chain_short del: mult_Suc_right)

lemma blake_chain_append:
  "length A = 64 * k \<Longrightarrow> blake_chain h n (A @ B) = blake_chain (blake_chain h n A) (n + k) B"
proof (induction k arbitrary: h n A)
  case 0
  then show ?case
    by (simp add: blake_chain_short)
next
  case (Suc k)
  then have "64 \<le> length A" "length (drop 64 A) = 64 * k"
    by simp_all
  then show ?case
    using Suc.IH [of "drop 64 A"] by (simp add: blake_chain.simps [of h n])
qed

lemma length_blake_chain: "length h = 8 \<Longrightarrow> length (blake_chain h n M) = 8"
  by (induction h n M rule: blake_chain.induct) (subst blake_chain.simps, simp)

text \<open>The length of the message in bits, most significant byte first.\<close>

definition blake_len :: "nat \<Rightarrow> byte list" where
  "blake_len L = map (\<lambda>i. of_nat (L div 2 ^ (8 * (7 - i)))) [0..<8]"

text \<open>
  The padding: a bit 1, bits 0, a bit 1 (256) or 0 (224) and the length; if only one byte fits before the length,
  it holds both bits.
\<close>

definition blake_pad :: "byte \<Rightarrow> byte \<Rightarrow> byte list \<Rightarrow> byte list" where
  "blake_pad pa pb M = (if length M mod 64 = 55 then [pa] else 0x80 # replicate ((118 - length M mod 64) mod 64) 0 @ [pb])
     @ blake_len (8 * length M)"

text \<open>The counter of block \<open>i\<close> in a message of \<open>L\<close> bits: the message bits so far, or 0 if the block has none.\<close>

definition blake_counter :: "nat \<Rightarrow> nat \<Rightarrow> nat" where
  "blake_counter L i = (if 512 * i < L then min L (512 * Suc i) else 0)"

function blake_iter :: "nat \<Rightarrow> nat \<Rightarrow> i32 list \<Rightarrow> byte list \<Rightarrow> i32 list" where
  "blake_iter L i h P =
     (if P = [] then h
      else blake_iter L (Suc i) (blake_F [0, 0, 0, 0] h (ctr32 (blake_counter L i)) (take 64 P)) (drop 64 P))"
  by auto

termination
  by (relation "measure (\<lambda>(_, _, _, P). length P)") auto

declare blake_iter.simps [simp del]

text \<open>The final chaining value, and its words as bytes.\<close>

definition blake_words :: "i32 list \<Rightarrow> byte \<Rightarrow> byte \<Rightarrow> byte list \<Rightarrow> i32 list" where
  "blake_words iv pa pb M = blake_iter (8 * length M) 0 iv (M @ blake_pad pa pb M)"

definition blake_digest :: "i32 list \<Rightarrow> byte \<Rightarrow> byte \<Rightarrow> byte list \<Rightarrow> byte list" where
  "blake_digest iv pa pb M = concat (map U32TO8 (blake_words iv pa pb M))"

lemma blake_iter_chain:
  assumes "length A = 64 * k" "512 * (i + k) \<le> L"
  shows "blake_iter L i h (A @ P) = blake_iter L (i + k) (blake_chain h i A) P"
  using assms
proof (induction k arbitrary: h i A)
  case 0
  then show ?case
    by (simp add: blake_chain_short)
next
  case (Suc k)
  then have A: "64 \<le> length A" "length (drop 64 A) = 64 * k" and c: "blake_counter L i = 512 * Suc i"
    by (simp_all add: blake_counter_def)
  then have "A \<noteq> []"
    by auto
  then show ?case
    using Suc.IH [OF A(2), of "Suc i"] Suc.prems(2) A(1) c by (simp add: blake_chain.simps [of h i] blake_iter.simps [of L i])
qed

lemma blake_iter_one: "length P = 64 \<Longrightarrow> blake_iter L i h P = blake_F [0, 0, 0, 0] h (ctr32 (blake_counter L i)) P"
  by (subst blake_iter.simps) (auto simp: blake_iter.simps [of L "Suc i"])

lemma length_blake_iter: "length h = 8 \<Longrightarrow> length (blake_iter L i h P) = 8"
  by (induction L i h P rule: blake_iter.induct) (subst blake_iter.simps, simp)

section \<open>Updates\<close>

definition blake256_wf :: "blake256_state \<Rightarrow> bool" where
  "blake256_wf S \<longleftrightarrow> length (bl_h S) = 8 \<and> length (bl_s S) = 4 \<and> length (bl_t S) = 2 \<and> length (bl_buf S) = 64
     \<and> bl_buflen S < 512"

text \<open>Bit lengths of whole bytes.\<close>

lemma unat_bits: "8 * k < 2 ^ 64 \<Longrightarrow> unat (of_nat (8 * k) :: i64) = 8 * k"
  by (simp add: unsigned_of_nat take_bit_nat_eq_self del: of_nat_mult)

lemma bits_bytes: "8 * k < 2 ^ 64 \<Longrightarrow> unat (drop_bit 3 (of_nat (8 * k) :: i64)) = k"
  by (simp only: unat_drop_bit_eq unat_bits) (simp add: drop_bit_eq_div)

lemma bits_rest: "8 * k < 2 ^ 64 \<Longrightarrow> unat (drop_bit 3 (of_nat (8 * k) :: i64) AND 0x3F) = k mod 64"
proof -
  assume k: "8 * k < 2 ^ 64"
  have "(0x3F :: i64) = mask 6"
    by (simp add: mask_eq_exp_minus_1)
  then show ?thesis
    by (simp only: take_bit_eq_mask [symmetric] unsigned_take_bit_eq bits_bytes [OF k]) (simp add: take_bit_eq_mod)
qed

lemma bits_le: "8 * k < 2 ^ 64 \<Longrightarrow> 512 \<le> (of_nat (8 * k) :: i64) \<longleftrightarrow> 64 \<le> k" "8 * k < 2 ^ 64 \<Longrightarrow> 0 < (of_nat (8 * k) :: i64) \<longleftrightarrow> 0 < k"
  by (simp_all add: word_le_nat_alt word_less_nat_alt unat_bits del: of_nat_mult)

lemma bits_diff: "j \<le> k \<Longrightarrow> (of_nat (8 * k) :: i64) - of_nat (8 * j) = of_nat (8 * (k - j))"
  by (simp add: of_nat_diff right_diff_distrib)

text \<open>The part of an update after the buffer has been filled.\<close>

definition blake256_rest :: "blake256_state \<Rightarrow> byte list \<Rightarrow> i64 \<Rightarrow> nat \<Rightarrow> blake256_state" where
  "blake256_rest S data datalen left =
     (let (S, data, datalen) = blake256_blocks S data datalen
      in if 0 < datalen
         then S\<lparr>bl_buf := buf_write (bl_buf S) left (take (unat (drop_bit 3 datalen)) data),
                bl_buflen := left * 8 + unat datalen\<rparr>
         else S\<lparr>bl_buflen := 0\<rparr>)"

definition blake256_filled :: "blake256_state \<Rightarrow> byte list \<Rightarrow> blake256_state" where
  "blake256_filled S data =
     (let left = bl_buflen S div 8; buf = buf_write (bl_buf S) left (take (64 - left) data)
      in blake256_compress (blake256_count (S\<lparr>bl_buf := buf\<rparr>)) buf)"

lemma update_split:
  fixes S :: blake256_state and datalen :: i64
  defines "left \<equiv> bl_buflen S div 8" and "n \<equiv> unat (drop_bit 3 datalen AND 0x3F)"
  shows "blake256_update S data datalen =
    (if left \<noteq> 0 \<and> 64 - left \<le> n then blake256_rest (blake256_filled S data) (drop (64 - left) data) (datalen - of_nat (8 * (64 - left))) 0
     else blake256_rest S data datalen left)"
proof -
  have "bl_buf (blake256_count T) = bl_buf T" for T
    by (simp add: blake256_count_def Let_def)
  then show ?thesis
    unfolding blake256_update_def blake256_rest_def blake256_filled_def left_def [symmetric] n_def [symmetric]
    by (cases "left \<noteq> 0 \<and> 64 - left \<le> n") (simp_all only: Let_def if_True if_False prod.case simp_thms, simp)
qed

lemma blake256_blocks_short: "k < 64 \<Longrightarrow> blake256_blocks S data (of_nat (8 * k)) = (S, data, of_nat (8 * k))"
  by (subst blake256_blocks.simps) (simp add: bits_le del: of_nat_mult)

lemma rest_short:
  assumes "k < 64"
  shows "blake256_rest S data (of_nat (8 * k)) left =
    (if k = 0 then S\<lparr>bl_buflen := 0\<rparr>
     else S\<lparr>bl_buf := buf_write (bl_buf S) left (take k data), bl_buflen := left * 8 + 8 * k\<rparr>)"
  unfolding blake256_rest_def blake256_blocks_short [OF assms] Let_def prod.case
  using assms by (simp add: bits_le bits_bytes unat_bits del: of_nat_mult)

text \<open>An update that leaves room in the buffer, and one that fills it.\<close>

lemma update_append:
  assumes "bl_buflen S = 8 * left" "0 < k" "left + k < 64"
  shows "blake256_update S data (of_nat (8 * k))
    = S\<lparr>bl_buf := buf_write (bl_buf S) left (take k data), bl_buflen := 8 * (left + k)\<rparr>"
proof -
  have "\<not> 64 - left \<le> k mod 64"
    using assms(3) by simp
  then show ?thesis
    unfolding update_split using assms by (simp add: bits_rest rest_short del: of_nat_mult)
qed

lemma update_fill:
  assumes "bl_buflen S = 8 * left" "0 < left" "left < 64"
  shows "blake256_update S data (of_nat (8 * (64 - left))) = (blake256_filled S data)\<lparr>bl_buflen := 0\<rparr>"
proof -
  have "bl_buflen S div 8 = left" "(64 - left) mod 64 = 64 - left"
    using assms by simp_all
  then show ?thesis
    unfolding update_split using assms rest_short [of 0]
    by (simp add: bits_rest del: of_nat_mult)
qed

section \<open>Absorbing a message\<close>

lemma blocks_chain:
  assumes "length (bl_h S) = 8" "bl_s S = [0, 0, 0, 0]" "bl_nullt S = 0" "bl_t S = ctr32 (512 * n)" "8 * length D < 2 ^ 64"
  shows "blake256_blocks S D (of_nat (8 * length D))
    = (S\<lparr>bl_h := blake_chain (bl_h S) n D, bl_t := ctr32 (512 * (n + length D div 64))\<rparr>,
       drop (64 * (length D div 64)) D, of_nat (8 * (length D mod 64)))"
  using assms
proof (induction "length D" arbitrary: S n D rule: less_induct)
  case less
  show ?case
  proof (cases "length D < 64")
    case True
    then show ?thesis
      using less.prems by (simp add: blake256_blocks_short blake_chain_short div_less del: of_nat_mult)
  next
    case False
    let ?S = "blake256_compress (blake256_count S) (take 64 D)"
    have S: "?S = S\<lparr>bl_h := blake_F [0, 0, 0, 0] (bl_h S) (ctr32 (512 * Suc n)) (take 64 D), bl_t := ctr32 (512 * Suc n)\<rparr>"
      using less.prems by (simp add: count_full compress_ref del: mult_Suc_right)
    have "(of_nat (8 * length D) :: i64) - 512 = of_nat (8 * length (drop 64 D))"
      using bits_diff [of 64 "length D"] False by simp
    then have step: "blake256_blocks S D (of_nat (8 * length D)) = blake256_blocks ?S (drop 64 D) (of_nat (8 * length (drop 64 D)))"
      using False less.prems(5) by (subst blake256_blocks.simps) (simp add: bits_le del: of_nat_mult)
    have d: "length D div 64 = Suc ((length D - 64) div 64)" "(length D - 64) mod 64 = length D mod 64"
      using False by (simp_all add: le_div_geq le_mod_geq)
    have e: "64 * Suc q = 64 * q + 64" for q :: nat
      by simp
    show ?thesis
      unfolding step
      using less.hyps [of "drop 64 D" ?S "Suc n"] less.prems False
      by (simp add: S d e blake_chain.simps [of "bl_h S" n D] del: of_nat_mult mult_Suc_right)
  qed
qed

definition blake_absorbed :: "i32 list \<Rightarrow> blake256_state \<Rightarrow> byte list \<Rightarrow> bool" where
  "blake_absorbed iv S M \<longleftrightarrow> blake256_wf S \<and> bl_s S = [0, 0, 0, 0] \<and> bl_nullt S = 0
     \<and> bl_t S = ctr32 (512 * (length M div 64)) \<and> bl_buflen S = 8 * (length M mod 64)
     \<and> take (length M mod 64) (bl_buf S) = drop (64 * (length M div 64)) M \<and> bl_h S = blake_chain iv 0 M"

lemma absorbed_length: "blake_absorbed iv S M \<Longrightarrow> length (blake_chain iv 0 M) = 8"
  unfolding blake_absorbed_def blake256_wf_def by metis

lemma split_message:
  fixes M :: "byte list"
  obtains A B where "M = A @ B" "length A = 64 * (length M div 64)" "length B = length M mod 64"
    "drop (64 * (length M div 64)) M = B"
proof -
  let ?k = "64 * (length M div 64)"
  have "?k \<le> length M" "length M - ?k = length M mod 64"
    by (rule times_div_less_eq_dividend, rule minus_mult_div_eq_mod)
  then have "length (take ?k M) = ?k" "length (drop ?k M) = length M mod 64"
    by (simp_all only: length_take length_drop min_absorb2)
  then show thesis
    using that [OF append_take_drop_id [symmetric]] by blast
qed

lemma block_div_mod: "x < 64 \<Longrightarrow> (64 * n + x) div 64 = n" "x < 64 \<Longrightarrow> (64 * n + x) mod 64 = (x :: nat)"
  by simp_all

lemma blake_chain_more:
  assumes "length M mod 64 + length D < 64"
  shows "blake_chain iv 0 (M @ D) = blake_chain iv 0 M"
proof -
  obtain B C n where M: "M = B @ C" "length B = 64 * n" "length C = length M mod 64"
    using split_message [of M] by metis
  have "length (C @ D) < 64" "length C < 64"
    using M(3) assms by simp_all
  then have "blake_chain iv 0 (B @ C @ D) = blake_chain iv 0 B" "blake_chain iv 0 (B @ C) = blake_chain iv 0 B"
    using blake_chain_append [OF M(2)] by (simp_all add: blake_chain_short)
  then show ?thesis
    by (simp only: M(1) append_assoc)
qed

lemma rest_absorbed:
  assumes "blake256_wf S" "bl_s S = [0, 0, 0, 0]" "bl_nullt S = 0" "bl_t S = ctr32 (512 * n)" "length A = 64 * n"
    "bl_h S = blake_chain iv 0 A" "8 * length D < 2 ^ 64"
  shows "blake_absorbed iv (blake256_rest S D (of_nat (8 * length D)) 0) (A @ D)"
proof -
  let ?q = "length D div 64" and ?r = "length D mod 64"
  have len: "length (bl_h S) = 8" "length (bl_buf S) = 64" "length (bl_t S) = 2"
    using assms(1) by (simp_all add: blake256_wf_def)
  obtain B C where D: "D = B @ C" "length B = 64 * ?q" "length C = ?r" "drop (64 * ?q) D = C"
    by (rule split_message [of D])
  have r: "?r < 64"
    by simp
  then have r8: "8 * ?r < 2 ^ 64"
    by simp
  have dm: "length (A @ D) div 64 = n + ?q" "length (A @ D) mod 64 = ?r" "drop (64 * (n + ?q)) (A @ D) = C"
    using assms(5) D(4) by (simp_all add: distrib_left)
  have h: "blake_chain iv 0 (A @ D) = blake_chain (bl_h S) n D"
    using blake_chain_append [OF assms(5), of iv 0 D] assms(6) by simp
  have l: "length (blake_chain (bl_h S) n D) = 8"
    by (rule length_blake_chain [OF len(1)])
  have C0: "?r = 0 \<longrightarrow> C = []"
    using D(3) by auto
  let ?T = "S\<lparr>bl_h := blake_chain (bl_h S) n D, bl_t := ctr32 (512 * (n + ?q))\<rparr>"
  have rest: "blake256_rest S D (of_nat (8 * length D)) 0 =
      (if ?r = 0 then ?T\<lparr>bl_buflen := 0\<rparr> else ?T\<lparr>bl_buf := buf_write (bl_buf S) 0 C, bl_buflen := 8 * ?r\<rparr>)"
    unfolding blake256_rest_def blocks_chain [OF len(1) assms(2-4,7)] Let_def prod.case
    using r8 D(3,4) by (simp add: bits_le bits_bytes unat_bits del: of_nat_mult)
  show ?thesis
    unfolding blake_absorbed_def dm rest blake256_wf_def
    using assms(2,3) len l h r C0 D(3) length_buf_write [of 0 C "bl_buf S"] take_buf_write [of 0 C "bl_buf S"] by simp
qed

text \<open>The updates that absorb their input: those that find an empty buffer, fit into it or fill it first.\<close>

definition blake_clean :: "nat \<Rightarrow> nat \<Rightarrow> bool" where
  "blake_clean r k \<longleftrightarrow> r = 0 \<or> 0 < k \<and> (r + k < 64 \<or> 64 - r \<le> k mod 64)"

lemma filled_absorbed:
  assumes "blake_absorbed iv S M" "length M mod 64 = r" "0 < r" "64 - r \<le> length D"
  defines "A \<equiv> M @ take (64 - r) D"
  shows "blake256_wf (blake256_filled S D)" "bl_s (blake256_filled S D) = [0, 0, 0, 0]" "bl_nullt (blake256_filled S D) = 0"
    "bl_t (blake256_filled S D) = ctr32 (512 * Suc (length M div 64))" "length A = 64 * Suc (length M div 64)"
    "bl_h (blake256_filled S D) = blake_chain iv 0 A"
proof -
  let ?n = "length M div 64"
  obtain B C where M: "M = B @ C" "length B = 64 * ?n" "length C = r" "drop (64 * ?n) M = C"
    using split_message [of M] assms(2) by metis
  have S: "length (bl_h S) = 8" "bl_s S = [0, 0, 0, 0]" "bl_nullt S = 0" "bl_t S = ctr32 (512 * ?n)" "bl_buflen S = 8 * r"
      "take r (bl_buf S) = C" "bl_h S = blake_chain iv 0 M" "length (bl_buf S) = 64"
    using assms(1) unfolding blake_absorbed_def blake256_wf_def assms(2) M(4) by blast+
  have r: "r < 64"
    using assms(2) by auto
  have buf: "buf_write (bl_buf S) r (take (64 - r) D) = C @ take (64 - r) D"
    using S(6,8) assms(4) r by (simp add: buf_write_full)
  have F: "blake256_filled S D = S\<lparr>bl_buf := C @ take (64 - r) D, bl_t := ctr32 (512 * Suc ?n),
      bl_h := blake_F [0, 0, 0, 0] (bl_h S) (ctr32 (512 * Suc ?n)) (C @ take (64 - r) D)\<rparr>"
    using S r by (simp add: blake256_filled_def Let_def buf count_full compress_ref del: mult_Suc_right)
  have block: "length (C @ take (64 - r) D) = 64"
    using M(3) assms(4) r by simp
  show "blake256_wf (blake256_filled S D)" "bl_s (blake256_filled S D) = [0, 0, 0, 0]" "bl_nullt (blake256_filled S D) = 0"
    "bl_t (blake256_filled S D) = ctr32 (512 * Suc (length M div 64))"
    unfolding F blake256_wf_def using S r block by (simp_all del: mult_Suc_right)
  have A: "A = B @ C @ take (64 - r) D"
    unfolding A_def by (subst M(1)) (rule append_assoc)
  show "length A = 64 * Suc ?n"
    unfolding A length_append [of B] block M(2) by simp
  have "blake_chain iv 0 A = blake_chain (blake_chain iv 0 B) ?n (C @ take (64 - r) D)"
    using blake_chain_append [OF M(2), of iv 0 "C @ take (64 - r) D"] unfolding A by simp
  also have "\<dots> = blake_F [0, 0, 0, 0] (blake_chain iv 0 B) (ctr32 (512 * Suc ?n)) (C @ take (64 - r) D)"
    by (rule blake_chain_one [OF block])
  also have "blake_chain iv 0 B = bl_h S"
    using blake_chain_append [OF M(2), of iv 0 C] M(3) r unfolding S(7) M(1) [symmetric] by (simp add: blake_chain_short)
  finally show "bl_h (blake256_filled S D) = blake_chain iv 0 A"
    unfolding F by simp
qed

lemma update_absorbed:
  assumes S: "blake_absorbed iv S M" and D: "8 * length D < 2 ^ 64" and c: "blake_clean (length M mod 64) (length D)"
  shows "blake_absorbed iv (blake256_update S D (of_nat (8 * length D))) (M @ D)"
proof -
  let ?n = "length M div 64" and ?r = "length M mod 64"
  have r: "?r < 64" "bl_buflen S = 8 * ?r" "bl_buflen S div 8 = ?r"
    using S by (simp_all add: blake_absorbed_def)
  consider "?r = 0" | "0 < ?r" "0 < length D" "?r + length D < 64" | "0 < ?r" "64 - ?r \<le> length D mod 64"
    using c by (auto simp: blake_clean_def)
  then show ?thesis
  proof cases
    case 1
    then have "blake256_update S D (of_nat (8 * length D)) = blake256_rest S D (of_nat (8 * length D)) 0"
      using r by (simp add: update_split del: of_nat_mult)
    moreover have "length M = 64 * ?n"
      using 1 mult_div_mod_eq [of 64 "length M"] by simp
    ultimately show ?thesis
      using rest_absorbed [of S ?n M iv D] S D by (simp add: blake_absorbed_def)
  next
    case 2
    obtain B C where M: "M = B @ C" "length B = 64 * ?n" "length C = ?r" "drop (64 * ?n) M = C"
      by (rule split_message [of M])
    have dm: "length (M @ D) div 64 = ?n" "length (M @ D) mod 64 = ?r + length D" "drop (64 * ?n) (M @ D) = C @ D"
    proof -
      have "length (M @ D) = 64 * ?n + (?r + length D)"
        using mult_div_mod_eq [of 64 "length M"] by simp
      then show "length (M @ D) div 64 = ?n" "length (M @ D) mod 64 = ?r + length D"
        using block_div_mod [OF 2(3)] by (simp_all only:)
      show "drop (64 * ?n) (M @ D) = C @ D"
        using M(4) times_div_less_eq_dividend [of 64 "length M"] by (simp only: drop_append) simp
    qed
    note h = blake_chain_more [OF 2(3), of iv]
    have "take ?r (bl_buf S) = C" "length (bl_buf S) = 64"
      using S M(4) by (simp_all add: blake_absorbed_def blake256_wf_def)
    then have "take (?r + length D) (buf_write (bl_buf S) ?r D) = C @ D" "length (buf_write (bl_buf S) ?r D) = 64"
      using take_buf_write [of ?r D "bl_buf S"] length_buf_write [of ?r D "bl_buf S"] 2(3) by simp_all
    then show ?thesis
      using S 2(3) absorbed_length [OF S] update_append [OF r(2) 2(2,3), of D] unfolding blake_absorbed_def dm h blake256_wf_def
      by (simp del: of_nat_mult)
  next
    case 3
    let ?k = "64 - ?r"
    have k: "?k \<le> length D"
      using 3(2) mod_less_eq_dividend [of "length D" 64] by linarith
    note f = filled_absorbed [OF S refl 3(1) k]
    have "blake256_update S D (of_nat (8 * length D)) = blake256_rest (blake256_filled S D) (drop ?k D) (of_nat (8 * length (drop ?k D))) 0"
      unfolding update_split r(3) bits_rest [OF D] bits_diff [OF k] length_drop using 3 by (simp only: simp_thms if_True) simp
    moreover have "blake_absorbed iv (blake256_rest (blake256_filled S D) (drop ?k D) (of_nat (8 * length (drop ?k D))) 0)
        ((M @ take ?k D) @ drop ?k D)"
      using D by (intro rest_absorbed [OF f]) simp
    ultimately show ?thesis
      by simp
  qed
qed

section \<open>Finalisation\<close>

lemma low_bits:
  fixes x k :: nat
  assumes "k < 512" "x mod 512 = 0"
  shows "(x + k) div 2 ^ 32 = x div 2 ^ 32" "(x + k) mod 2 ^ 32 = x mod 2 ^ 32 + k"
proof -
  define q r where "q = x div 2 ^ 32" and "r = x mod 2 ^ 32"
  have x: "x = r + q * 2 ^ 32" "r < 2 ^ 32"
    by (simp_all add: q_def r_def)
  have "r mod 512 = 0"
    using assms(2) mod_mod_cancel [of 512 "2 ^ 32" x] by (simp add: r_def)
  then obtain s where "r = 512 * s"
    by (metis mult.commute dvd_def mod_0_imp_dvd)
  then have "r + k < 2 ^ 32"
    using x(2) assms(1) by simp
  moreover have "x + k = (r + k) + q * 2 ^ 32"
    using x(1) by linarith
  ultimately have "(x + k) div 2 ^ 32 = q" "(x + k) mod 2 ^ 32 = r + k"
    using div_mult_self1 [of "2 ^ 32" "r + k" q] mod_mult_self1 [of "r + k" q "2 ^ 32"] by (simp_all only:) simp_all
  then show "(x + k) div 2 ^ 32 = x div 2 ^ 32" "(x + k) mod 2 ^ 32 = x mod 2 ^ 32 + k"
    by (simp_all only: q_def r_def)
qed

lemma byte_of_word: "k \<le> 24 \<Longrightarrow> ucast (drop_bit k (of_nat x :: i32)) = (of_nat (x div 2 ^ k) :: byte)"
  by (rule bit_word_eqI) (auto simp: bit_simps drop_bit_eq_div [symmetric])

lemma U32TO8_of_nat:
  "U32TO8 (of_nat x) = [of_nat (x div 2 ^ 24), of_nat (x div 2 ^ 16), of_nat (x div 2 ^ 8), of_nat x]"
  using byte_of_word [of 24 x] byte_of_word [of 16 x] byte_of_word [of 8 x] byte_of_word [of 0 x]
  by (simp add: U32TO8_def)

lemma blake_len_words: "U32TO8 (of_nat (L div 2 ^ 32)) @ U32TO8 (of_nat L) = blake_len L"
  unfolding U32TO8_of_nat blake_len_def upt_16 by (simp add: div_mult2_eq [symmetric])

lemma length_blake_len [simp]: "length (blake_len L) = 8"
  by (simp add: blake_len_def)

lemma msglen_eq:
  fixes x k :: nat
  assumes "k < 512" "x mod 512 = 0"
  defines "lo \<equiv> of_nat x + of_nat k :: i32"
  shows "U32TO8 (if lo < of_nat k then of_nat (x div 2 ^ 32) + 1 else of_nat (x div 2 ^ 32)) @ U32TO8 lo = blake_len (x + k)"
proof -
  have lo: "lo = of_nat (x + k)"
    by (simp add: lo_def)
  have "unat lo = x mod 2 ^ 32 + k"
    unfolding lo unsigned_of_nat take_bit_eq_mod low_bits(2) [OF assms(1,2), symmetric] by simp
  moreover have "unat (of_nat k :: i32) = k"
    using assms(1) by (simp add: unsigned_of_nat take_bit_nat_eq_self)
  ultimately have "\<not> lo < of_nat k"
    by (simp add: word_less_nat_alt)
  then show ?thesis
    unfolding lo blake_len_words [symmetric] low_bits(1) [OF assms(1,2)] by simp
qed

text \<open>The last update compresses the buffer with the length.\<close>

lemma last_update:
  assumes "bl_buflen T = 448" "bl_buf T = P @ Q" "length P = 56" "length Q = 8" "length W = 8"
    "length (bl_h T) = 8" "bl_s T = [0, 0, 0, 0]" "bl_nullt T = 0 \<longrightarrow> bl_t (blake256_count T) = t" "bl_nullt T \<noteq> 0 \<longrightarrow> t = [0, 0]"
  shows "bl_h (blake256_update T W 64) = blake_F [0, 0, 0, 0] (bl_h T) t (P @ W)"
proof -
  have "blake256_update T W (of_nat (8 * (64 - 56))) = (blake256_filled T W)\<lparr>bl_buflen := 0\<rparr>"
    using assms(1) by (intro update_fill) simp_all
  then have "blake256_update T W 64 = (blake256_filled T W)\<lparr>bl_buflen := 0\<rparr>"
    by simp
  moreover have "buf_write (bl_buf T) 56 W = P @ W"
    using assms(2-5) by (simp add: buf_write_def)
  moreover have "bl_h (blake256_count (T\<lparr>bl_buf := b\<rparr>)) = bl_h T" "bl_s (blake256_count (T\<lparr>bl_buf := b\<rparr>)) = bl_s T"
      "bl_nullt (blake256_count (T\<lparr>bl_buf := b\<rparr>)) = bl_nullt T" "bl_t (blake256_count (T\<lparr>bl_buf := b\<rparr>)) = bl_t (blake256_count T)" for b
    by (simp_all add: blake256_count_def Let_def)
  ultimately show ?thesis
    using assms(1,5-9) by (auto simp: blake256_filled_def Let_def compress_ref)
qed

text \<open>The state before the length is added: the chaining value, the first 56 bytes of the last block and its counter.\<close>

definition blake_ready :: "blake256_state \<Rightarrow> i32 list \<Rightarrow> byte list \<Rightarrow> i32 list \<Rightarrow> bool" where
  "blake_ready T h P t \<longleftrightarrow> bl_buflen T = 448 \<and> (\<exists>Q. bl_buf T = P @ Q \<and> length Q = 8) \<and> length P = 56 \<and> length h = 8
     \<and> bl_h T = h \<and> bl_s T = [0, 0, 0, 0] \<and> (bl_nullt T = 0 \<longrightarrow> bl_t (blake256_count (blake256_uncount 64 T)) = t)
     \<and> (bl_nullt T \<noteq> 0 \<longrightarrow> t = [0, 0])"

lemma uncount_simps [simp]:
  "bl_buflen (blake256_uncount n S) = bl_buflen S" "bl_buf (blake256_uncount n S) = bl_buf S" "bl_h (blake256_uncount n S) = bl_h S"
  "bl_s (blake256_uncount n S) = bl_s S" "bl_nullt (blake256_uncount n S) = bl_nullt S"
  "bl_t (blake256_uncount n S) = (bl_t S)[0 := bl_t S ! 0 - of_nat n]"
  by (simp_all add: blake256_uncount_def)

lemma ready_digest:
  assumes "blake_ready T h P t" "length W = 8"
  shows "bl_h (blake256_update (blake256_uncount 64 T) W 64) = blake_F [0, 0, 0, 0] h t (P @ W)"
proof -
  obtain Q where "bl_buf T = P @ Q" "length Q = 8"
    using assms(1) by (auto simp: blake_ready_def)
  then show ?thesis
    using last_update [of "blake256_uncount 64 T" P Q W t] assms by (simp add: blake_ready_def)
qed

lemma buf_write_append: "n = length A \<Longrightarrow> buf_write (A @ R) n Y = A @ Y @ drop (length Y) R"
  by (simp add: buf_write_def)

text \<open>A state that has compressed \<open>x\<close> bits and keeps the bytes \<open>C\<close>.\<close>

definition blake_tail :: "blake256_state \<Rightarrow> i32 list \<Rightarrow> nat \<Rightarrow> byte list \<Rightarrow> bool" where
  "blake_tail S h x C \<longleftrightarrow> (\<exists>R. bl_buf S = C @ R \<and> length R = 64 - length C) \<and> length C < 64 \<and> bl_buflen S = 8 * length C
     \<and> bl_h S = h \<and> length h = 8 \<and> bl_s S = [0, 0, 0, 0] \<and> bl_nullt S = 0
     \<and> bl_t S = [of_nat x, of_nat (x div 2 ^ 32)] \<and> x mod 512 = 0"

lemma count_t:
  assumes "bl_t T = [of_nat x - of_nat (512 - k), of_nat (x div 2 ^ 32)]" "0 < k" "k \<le> 512" "x mod 512 = 0"
  shows "bl_t (blake256_count T) = ctr32 (x + k)"
  using count_ctr [OF assms] by simp

text \<open>The three ways to pad.\<close>

lemma pad_one_byte:
  assumes "blake_tail S h x C" "length C = 55"
  shows "blake_ready (blake256_update (blake256_uncount 8 S) [pa] 8) h (C @ [pa]) (ctr32 (x + 440))"
proof -
  obtain R where R: "bl_buf S = C @ R" "length R = 9" and S: "bl_buflen S = 8 * 55" "bl_h S = h" "length h = 8" "bl_s S = [0, 0, 0, 0]"
      "bl_nullt S = 0" "bl_t S = [of_nat x, of_nat (x div 2 ^ 32)]" "x mod 512 = 0"
    using assms by (auto simp: blake_tail_def)
  let ?T = "(blake256_uncount 8 S)\<lparr>bl_buf := C @ [pa] @ drop 1 R, bl_buflen := 448\<rparr>"
  have "buf_write (bl_buf S) 55 [pa] = C @ [pa] @ drop 1 R"
    using R assms(2) by (simp add: buf_write_append)
  then have T: "blake256_update (blake256_uncount 8 S) [pa] 8 = ?T"
    using update_append [of "blake256_uncount 8 S" 55 1 "[pa]"] S(1) by simp
  have "bl_t (blake256_count (blake256_uncount 64 ?T)) = ctr32 (x + 440)"
    by (rule count_t) (simp_all add: S)
  then show ?thesis
    unfolding T blake_ready_def using R S assms(2) by simp
qed

lemma pad_fits:
  assumes "blake_tail S h x C" "length C < 55"
  defines "S0 \<equiv> if bl_buflen S = 0 then S\<lparr>bl_nullt := 1\<rparr> else S" and "k \<equiv> 440 - bl_buflen S"
  shows "blake_ready (blake256_uncount 8 (blake256_update (blake256_update (blake256_uncount k S0) blake256_padding (of_nat k)) [pb] 8))
    h (C @ take (55 - length C) blake256_padding @ [pb]) (if C = [] then [0, 0] else ctr32 (x + 8 * length C))"
proof -
  obtain R where R: "bl_buf S = C @ R" "length R = 64 - length C" and S: "bl_buflen S = 8 * length C" "bl_h S = h" "length h = 8"
      "bl_s S = [0, 0, 0, 0]" "bl_nullt S = 0" "bl_t S = [of_nat x, of_nat (x div 2 ^ 32)]" "x mod 512 = 0"
    using assms(1) by (auto simp: blake_tail_def)
  let ?p = "take (55 - length C) blake256_padding"
  have p: "length ?p = 55 - length C"
    by (simp add: blake256_padding_def)
  have S0: "bl_buf S0 = C @ R" "bl_buflen S0 = 8 * length C" "bl_h S0 = h" "bl_s S0 = [0, 0, 0, 0]"
      "bl_t S0 = [of_nat x, of_nat (x div 2 ^ 32)]" "bl_nullt S0 = (if C = [] then 1 else 0)"
    using R S by (simp_all add: S0_def)
  have k: "k = 8 * (55 - length C)" "8 * (55 - length C) = 440 - 8 * length C"
    using S(1) by (simp_all add: k_def)
  let ?T1 = "(blake256_uncount k S0)\<lparr>bl_buf := C @ ?p @ drop (55 - length C) R, bl_buflen := 440\<rparr>"
  have "buf_write (C @ R) (length C) ?p = C @ ?p @ drop (55 - length C) R"
    using p by (simp add: buf_write_append)
  then have T1: "blake256_update (blake256_uncount k S0) blake256_padding (of_nat k) = ?T1"
    using update_append [of "blake256_uncount k S0" "length C" "55 - length C" blake256_padding] assms(2) S0(1,2) k
    by (simp del: of_nat_mult)
  let ?T2 = "?T1\<lparr>bl_buf := C @ ?p @ [pb] @ drop (56 - length C) R, bl_buflen := 448\<rparr>"
  have "buf_write ((C @ ?p) @ drop (55 - length C) R) 55 [pb] = (C @ ?p) @ [pb] @ drop 1 (drop (55 - length C) R)"
    using p assms(2) by (intro buf_write_append [THEN trans]) simp_all
  moreover have "1 + (55 - length C) = 56 - length C"
    using assms(2) by simp
  ultimately have T2: "blake256_update ?T1 [pb] 8 = ?T2"
    using update_append [of ?T1 55 1 "[pb]"] by simp
  have t: "bl_t (blake256_count (blake256_uncount 64 (blake256_uncount 8 ?T2))) = ctr32 (x + 8 * length C)" if "C \<noteq> []"
  proof (rule count_t)
    have "of_nat (512 - 8 * length C) = (of_nat k + 72 :: i32)"
      using assms(2) k(2) by (simp add: k(1) of_nat_diff)
    then show "bl_t (blake256_uncount 64 (blake256_uncount 8 ?T2)) = [of_nat x - of_nat (512 - 8 * length C), of_nat (x div 2 ^ 32)]"
      using S0(5) by (simp add: algebra_simps)
  qed (use that S(7) assms(2) in auto)
  show ?thesis
    unfolding T1 T2 blake_ready_def using R(2) S(3) S0 p t assms(2) by auto
qed

lemma pad_two_blocks:
  assumes "blake_tail S h x C" "55 < length C"
  defines "k \<equiv> 512 - bl_buflen S"
  defines "S1 \<equiv> blake256_update (blake256_uncount k S) blake256_padding (of_nat k)"
  defines "S2 \<equiv> blake256_update (blake256_uncount 440 S1) (drop 1 blake256_padding) 440"
  shows "blake_ready (blake256_uncount 8 (blake256_update (S2\<lparr>bl_nullt := 1\<rparr>) [pb] 8))
    (blake_F [0, 0, 0, 0] h (ctr32 (x + 8 * length C)) (C @ take (64 - length C) blake256_padding)) (replicate 55 0 @ [pb]) [0, 0]"
proof -
  obtain R where R: "bl_buf S = C @ R" "length R = 64 - length C" and S: "bl_buflen S = 8 * length C" "bl_h S = h" "length h = 8"
      "bl_s S = [0, 0, 0, 0]" "bl_nullt S = 0" "bl_t S = [of_nat x, of_nat (x div 2 ^ 32)]" "x mod 512 = 0" and C: "length C < 64"
    using assms(1) by (auto simp: blake_tail_def)
  let ?p = "take (64 - length C) blake256_padding" and ?t = "ctr32 (x + 8 * length C)"
  have k: "k = 8 * (64 - length C)" "k = 512 - 8 * length C"
    using S(1) by (simp_all add: k_def)
  have p: "length ?p = 64 - length C"
    by (simp add: blake256_padding_def)
  have buf: "buf_write (C @ R) (length C) ?p = C @ ?p"
    using p R(2) by (simp add: buf_write_append)
  have count: "blake256_count ((blake256_uncount k S)\<lparr>bl_buf := C @ ?p\<rparr>) = (blake256_uncount k S)\<lparr>bl_buf := C @ ?p, bl_t := ?t\<rparr>"
    using C assms(2) S(6,7) k(2) by (intro count_ctr [THEN trans]) auto
  let ?h = "blake_F [0, 0, 0, 0] h ?t (C @ ?p)"
  have "blake256_filled (blake256_uncount k S) blake256_padding = (blake256_uncount k S)\<lparr>bl_buf := C @ ?p, bl_t := ?t, bl_h := ?h\<rparr>"
    using S R(1) buf count by (simp add: blake256_filled_def Let_def compress_ref)
  moreover have "C \<noteq> []"
    using assms(2) by auto
  ultimately have S1: "S1 = (blake256_uncount k S)\<lparr>bl_buf := C @ ?p, bl_t := ?t, bl_h := ?h, bl_buflen := 0\<rparr>"
    unfolding S1_def using update_fill [of "blake256_uncount k S" "length C" blake256_padding] S(1) C assms(2) k(1)
    by (simp del: of_nat_mult)
  define E where "E = drop 55 (C @ ?p)"
  have E: "length E = 9"
    using p C by (simp add: E_def)
  have "take 55 (drop 1 blake256_padding) = replicate 55 0"
    by (simp add: blake256_padding_def)
  moreover have "buf_write (C @ ?p) 0 (replicate 55 0) = replicate 55 0 @ E"
    by (simp add: buf_write_def E_def)
  ultimately have S2: "S2 = (blake256_uncount 440 S1)\<lparr>bl_buf := replicate 55 0 @ E, bl_buflen := 440\<rparr>"
    unfolding S2_def using update_append [of "blake256_uncount 440 S1" 0 55 "drop 1 blake256_padding"] by (simp add: S1)
  have "buf_write (replicate 55 0 @ E) 55 [pb] = replicate 55 0 @ [pb] @ drop 1 E"
    by (intro buf_write_append [THEN trans]) simp_all
  then have "blake256_update (S2\<lparr>bl_nullt := 1\<rparr>) [pb] 8
      = S2\<lparr>bl_nullt := 1, bl_buf := (replicate 55 0 @ [pb]) @ drop 1 E, bl_buflen := 448\<rparr>"
    using update_append [of "S2\<lparr>bl_nullt := 1\<rparr>" 55 1 "[pb]"] by (simp add: S2)
  moreover have "length (drop 1 E) = 8"
    using E by simp
  ultimately show ?thesis
    unfolding blake_ready_def by (simp add: S2 S1 S(4))
qed

lemma pad_bytes:
  assumes "r < 64" "r \<noteq> 55"
  shows "r < 55 \<Longrightarrow> 0x80 # replicate ((118 - r) mod 64) 0 = take (55 - r) blake256_padding"
    "55 < r \<Longrightarrow> 0x80 # replicate ((118 - r) mod 64) 0 = take (64 - r) blake256_padding @ replicate 55 0"
proof -
  have take: "take (Suc m) blake256_padding = 0x80 # replicate m 0" if "m \<le> 63" for m
    using that by (simp add: blake256_padding_def)
  show "0x80 # replicate ((118 - r) mod 64) 0 = take (55 - r) blake256_padding" if "r < 55"
  proof -
    have "118 - r = 64 + (54 - r)" "55 - r = Suc (54 - r)"
      using that by simp_all
    moreover have "(64 + (54 - r)) mod 64 = 54 - r"
      by simp
    ultimately show ?thesis
      by (simp only: take)
  qed
  show "0x80 # replicate ((118 - r) mod 64) 0 = take (64 - r) blake256_padding @ replicate 55 0" if "55 < r"
  proof -
    have "(118 - r) mod 64 = (63 - r) + 55" "64 - r = Suc (63 - r)"
      using that assms(1) by simp_all
    then show ?thesis
      by (simp add: take replicate_add [symmetric])
  qed
qed

text \<open>The state after the padding, in the form of \<open>blake256_final_h\<close>.\<close>

definition blake256_padded :: "blake256_state \<Rightarrow> byte \<Rightarrow> byte \<Rightarrow> blake256_state" where
  "blake256_padded S pa pb =
     (if bl_buflen S = 440
      then blake256_update (blake256_uncount 8 S) [pa] 8
      else let S = (if bl_buflen S < 440
                    then let S = (if bl_buflen S = 0 then S\<lparr>bl_nullt := 1\<rparr> else S);
                             n = 440 - bl_buflen S
                         in blake256_update (blake256_uncount n S) blake256_padding (of_nat n)
                    else let n = 512 - bl_buflen S;
                             S = blake256_update (blake256_uncount n S) blake256_padding (of_nat n);
                             S = blake256_update (blake256_uncount 440 S) (drop 1 blake256_padding) 440
                         in S\<lparr>bl_nullt := 1\<rparr>)
           in blake256_uncount 8 (blake256_update S [pb] 8))"

lemma final_padded:
  assumes "blake_tail S h x C" "length (bl_h T) = 8"
    "T = blake256_update (blake256_uncount 64 (blake256_padded S pa pb)) (blake_len (x + 8 * length C)) 64"
  shows "blake256_final_h S pa pb = (T, concat (map U32TO8 (bl_h T)))"
proof -
  have S: "bl_buflen S = 8 * length C" "bl_t S ! 0 = of_nat x" "bl_t S ! 1 = of_nat (x div 2 ^ 32)" "x mod 512 = 0" "8 * length C < 512"
    using assms(1) by (auto simp: blake_tail_def)
  have "map (\<lambda>i. U32TO8 (bl_h T ! i)) [0..<8] = map U32TO8 (map (\<lambda>i. bl_h T ! i) [0..<length (bl_h T)])"
    using assms(2) by simp
  then have out: "map (\<lambda>i. U32TO8 (bl_h T ! i)) [0..<8] = map U32TO8 (bl_h T)"
    by (simp only: map_nth)
  let ?lo = "bl_t S ! 0 + of_nat (bl_buflen S)"
  let ?W = "U32TO8 (if ?lo < of_nat (bl_buflen S) then bl_t S ! 1 + 1 else bl_t S ! 1) @ U32TO8 ?lo"
  let ?T = "blake256_update (blake256_uncount 64 (blake256_padded S pa pb)) ?W 64"
  have "blake256_final_h S pa pb = (?T, concat (map (\<lambda>i. U32TO8 (bl_h ?T ! i)) [0..<8]))"
    by (simp only: blake256_final_h_def blake256_padded_def Let_def)
  moreover have "?W = blake_len (x + 8 * length C)"
    unfolding S(1-3) by (rule msglen_eq [OF S(5,4)])
  ultimately show ?thesis
    by (simp only: assms(3) [symmetric] out)
qed

lemma padded_fits:
  assumes "bl_buflen S < 440"
  shows "blake256_padded S pa pb = blake256_uncount 8 (blake256_update (blake256_update (blake256_uncount (440 - bl_buflen S)
    (if bl_buflen S = 0 then S\<lparr>bl_nullt := 1\<rparr> else S)) blake256_padding (of_nat (440 - bl_buflen S))) [pb] 8)"
proof -
  have "bl_buflen (if bl_buflen S = 0 then S\<lparr>bl_nullt := 1\<rparr> else S) = bl_buflen S" "bl_buflen S \<noteq> 440"
    using assms by simp_all
  then show ?thesis
    using assms by (simp only: blake256_padded_def Let_def if_True if_False)
qed

text \<open>After the whole blocks, the reference processes one or two blocks more.\<close>

lemma padded_digest:
  assumes "blake_tail S h x C" "x = 512 * n"
  defines "L \<equiv> x + 8 * length C"
  shows "bl_h (blake256_update (blake256_uncount 64 (blake256_padded S pa pb)) (blake_len L) 64)
    = blake_iter L n h (C @ (if length C = 55 then [pa] else 0x80 # replicate ((118 - length C) mod 64) 0 @ [pb]) @ blake_len L)"
proof -
  have C: "length C < 64" "bl_buflen S = 8 * length C"
    using assms(1) by (simp_all add: blake_tail_def)
  have one: "blake_counter L n = (if C = [] then 0 else L)" and two: "blake_counter L (Suc n) = 0"
    using C(1) by (auto simp: blake_counter_def L_def assms(2))
  have zero: "ctr32 0 = [0, 0]"
    by (simp add: ctr32_def)
  consider "length C = 55" | "length C < 55" | "55 < length C"
    by linarith
  then show ?thesis
  proof cases
    case 1
    then have "C \<noteq> []" "L = x + 440"
      by (auto simp: L_def)
    with 1 one show ?thesis
      using ready_digest [OF pad_one_byte [OF assms(1) 1, of pa], of "blake_len L"] C(2)
        blake_iter_one [of "C @ [pa] @ blake_len L" L n h] by (simp add: blake256_padded_def)
  next
    case 2
    let ?p = "take (55 - length C) blake256_padding"
    have "length ?p = 55 - length C"
      by (simp add: blake256_padding_def)
    then have "blake_iter L n h (C @ ?p @ [pb] @ blake_len L)
        = blake_F [0, 0, 0, 0] h (ctr32 (blake_counter L n)) (C @ ?p @ [pb] @ blake_len L)"
      using 2 by (intro blake_iter_one) simp
    moreover have "ctr32 (blake_counter L n) = (if C = [] then [0, 0] else ctr32 L)"
      using one zero by simp
    moreover have "bl_buflen S < 440"
      using C(2) 2 by simp
    ultimately show ?thesis
      using ready_digest [OF pad_fits [OF assms(1) 2, of pb], of "blake_len L"] 2 pad_bytes(1) [OF C(1) _ 2]
      by (simp only: padded_fits L_def [symmetric] append_assoc append_Cons [symmetric] length_blake_len if_False) simp
  next
    case 3
    let ?p = "take (64 - length C) blake256_padding"
    have p: "length (C @ ?p) = 64"
      using C(1) by (simp add: blake256_padding_def)
    have "blake_iter L n h ((C @ ?p) @ replicate 55 0 @ [pb] @ blake_len L)
        = blake_iter L (Suc n) (blake_F [0, 0, 0, 0] h (ctr32 L) (C @ ?p)) (replicate 55 0 @ [pb] @ blake_len L)"
      using p 3 one by (subst blake_iter.simps) auto
    also have "\<dots> = blake_F [0, 0, 0, 0] (blake_F [0, 0, 0, 0] h (ctr32 L) (C @ ?p)) [0, 0] (replicate 55 0 @ [pb] @ blake_len L)"
      using blake_iter_one [of "replicate 55 0 @ [pb] @ blake_len L" L "Suc n"] two zero by simp
    also have "(C @ ?p) @ replicate 55 0 @ [pb] @ blake_len L
        = C @ (0x80 # replicate ((118 - length C) mod 64) 0) @ [pb] @ blake_len L"
      using pad_bytes(2) [OF C(1) _ 3] 3 by (simp only: append_assoc)
    finally have "blake_iter L n h (C @ (0x80 # replicate ((118 - length C) mod 64) 0 @ [pb]) @ blake_len L)
        = blake_F [0, 0, 0, 0] (blake_F [0, 0, 0, 0] h (ctr32 L) (C @ ?p)) [0, 0] (replicate 55 0 @ [pb] @ blake_len L)"
      by (simp only: append_assoc append_Cons)
    moreover have "bl_h (blake256_update (blake256_uncount 64 (blake256_padded S pa pb)) (blake_len L) 64)
        = blake_F [0, 0, 0, 0] (blake_F [0, 0, 0, 0] h (ctr32 L) (C @ ?p)) [0, 0] (replicate 55 0 @ [pb] @ blake_len L)"
      using ready_digest [OF pad_two_blocks [OF assms(1) 3, of pb], of "blake_len L"] C(2) 3
      by (simp add: blake256_padded_def Let_def L_def [symmetric])
    ultimately show ?thesis
      using 3 by simp
  qed
qed

lemma absorbed_tail:
  assumes "blake_absorbed iv S M"
  obtains B C n where "M = B @ C" "length B = 64 * n" "blake_tail S (blake_chain iv 0 B) (512 * n) C"
    "length C = length M mod 64"
proof -
  obtain B C n where M: "M = B @ C" "length B = 64 * n" "length C = length M mod 64" "drop (64 * n) M = C" "n = length M div 64"
    using split_message [of M] by metis
  have "blake_chain iv 0 M = blake_chain iv 0 B"
    using blake_chain_append [OF M(2), of iv 0 C] M(3) unfolding M(1) [symmetric] by (simp add: blake_chain_short)
  then have "blake_tail S (blake_chain iv 0 B) (512 * n) C"
    using assms append_take_drop_id [of "length M mod 64" "bl_buf S"] M(3-5)
    by (auto simp: blake_tail_def blake_absorbed_def blake256_wf_def ctr32_def intro!: exI [of _ "drop (length M mod 64) (bl_buf S)"])
  then show thesis
    using that M(1-3) by blast
qed

lemma final_digest:
  assumes "blake_absorbed iv S M"
  shows "snd (blake256_final_h S pa pb) = blake_digest iv pa pb M"
proof -
  obtain B C n where M: "M = B @ C" "length B = 64 * n" "blake_tail S (blake_chain iv 0 B) (512 * n) C" "length C = length M mod 64"
    by (rule absorbed_tail [OF assms])
  let ?h = "blake_chain iv 0 B" and ?L = "512 * n + 8 * length C"
  let ?pad = "(if length C = 55 then [pa] else 0x80 # replicate ((118 - length C) mod 64) 0 @ [pb]) @ blake_len ?L"
  have L: "8 * length M = ?L"
    using M(1,2) by simp
  have "blake_iter ?L 0 iv (B @ C @ ?pad) = blake_iter ?L n ?h (C @ ?pad)"
    using blake_iter_chain [OF M(2), of 0 ?L iv] by simp
  then have "blake_digest iv pa pb M = concat (map U32TO8 (blake_iter ?L n ?h (C @ ?pad)))"
    unfolding blake_digest_def blake_words_def blake_pad_def L M(4) [symmetric] by (simp add: M(1))
  moreover define T where "T = blake256_update (blake256_uncount 64 (blake256_padded S pa pb)) (blake_len ?L) 64"
  have T: "bl_h T = blake_iter ?L n ?h (C @ ?pad)"
    unfolding T_def by (rule padded_digest [OF M(3) refl])
  moreover have "length (bl_h T) = 8"
    unfolding T using M(3) by (intro length_blake_iter) (simp add: blake_tail_def)
  ultimately show ?thesis
    using final_padded [OF M(3) _ T_def] by simp
qed

end
