(* ===== verification/Blake256Hash.thy ===== *)
theory Blake256Hash
  imports Blake256Props
begin

text \<open>
  The hash functions, the streaming interface and HMAC.  The locale \<open>absorbing_hash\<close> states what the clients use of the
  streaming interface; it is interpreted for BLAKE-256 and BLAKE-224.
\<close>

unbundle bit_operations_syntax

section \<open>The interface of the streaming operations\<close>

text \<open>The pieces of a message that are all absorbed, after \<open>r\<close> bytes in the buffer.\<close>

fun blake_pieces :: "nat \<Rightarrow> byte list list \<Rightarrow> bool" where
  "blake_pieces r [] = True"
| "blake_pieces r (D # Ds) = (8 * length D < 2 ^ 64 \<and> blake_clean r (length D) \<and> blake_pieces ((r + length D) mod 64) Ds)"

definition blake_feed :: "('s \<Rightarrow> byte list \<Rightarrow> i64 \<Rightarrow> 's) \<Rightarrow> byte list list \<Rightarrow> 's \<Rightarrow> 's" where
  "blake_feed upd Ds S = fold (\<lambda>D S. upd S D (of_nat (8 * length D))) Ds S"

locale absorbing_hash =
  fixes absorbed :: "'s \<Rightarrow> byte list \<Rightarrow> bool" and usable :: "'s \<Rightarrow> bool" and init :: "'s \<Rightarrow> 's"
    and upd :: "'s \<Rightarrow> byte list \<Rightarrow> i64 \<Rightarrow> 's" and fin :: "'s \<Rightarrow> 's \<times> byte list" and H :: "byte list \<Rightarrow> byte list"
  assumes init_absorbed: "usable S \<Longrightarrow> absorbed (init S) []"
    and upd_absorbed: "absorbed S M \<Longrightarrow> 8 * length D < 2 ^ 64 \<Longrightarrow> blake_clean (length M mod 64) (length D)
      \<Longrightarrow> absorbed (upd S D (of_nat (8 * length D))) (M @ D)"
    and fin_digest: "absorbed S M \<Longrightarrow> snd (fin S) = H M"
begin

lemma feed_absorbed:
  "absorbed S M \<Longrightarrow> blake_pieces (length M mod 64) Ds \<Longrightarrow> absorbed (blake_feed upd Ds S) (M @ concat Ds)"
proof (induction Ds arbitrary: S M)
  case Nil
  then show ?case
    by (simp add: blake_feed_def)
next
  case (Cons D Ds)
  then have "absorbed (upd S D (of_nat (8 * length D))) (M @ D)"
    using upd_absorbed by simp
  from Cons.IH [OF this] Cons.prems(2) show ?case
    by (simp add: blake_feed_def mod_add_left_eq)
qed

lemma streamed: "usable S \<Longrightarrow> blake_pieces 0 Ds \<Longrightarrow> snd (fin (blake_feed upd Ds (init S))) = H (concat Ds)"
  using feed_absorbed [OF init_absorbed, of S Ds] fin_digest by simp

lemma one_shot: "usable S \<Longrightarrow> 8 * length M < 2 ^ 64 \<Longrightarrow> snd (fin (upd (init S) M (of_nat (8 * length M)))) = H M"
  using streamed [of S "[M]"] by (simp add: blake_feed_def blake_clean_def)

lemma after_block:
  assumes "usable S" "length K = 64" "8 * length M < 2 ^ 64"
  shows "snd (fin (upd (upd (init S) K 512) M (of_nat (8 * length M)))) = H (K @ M)"
  using streamed [of S "[K, M]"] assms by (simp add: blake_feed_def blake_clean_def)

end

lemma start_absorbed: "length iv = 8 \<Longrightarrow> length (bl_buf S) = 64 \<Longrightarrow> blake_absorbed iv (blake256_start iv S) []"
  by (simp add: blake_absorbed_def blake256_start_def blake256_wf_def ctr32_def blake_chain_short)

abbreviation blake256_digest :: "byte list \<Rightarrow> byte list" where
  "blake256_digest \<equiv> blake_digest blake256_iv 0x81 0x01"

text \<open>
  The digest of BLAKE-224 has 28 bytes, the first seven words of the final chaining value.  The code writes all eight words,
  \<open>blake224_full\<close>.
\<close>

definition blake224_digest :: "byte list \<Rightarrow> byte list" where
  "blake224_digest M = concat (map U32TO8 (take 7 (blake_words blake224_iv 0x80 0x00 M)))"

abbreviation blake224_full :: "byte list \<Rightarrow> byte list" where
  "blake224_full \<equiv> blake_digest blake224_iv 0x80 0x00"

lemma length_words_bytes: "length (concat (map U32TO8 ws)) = 4 * length ws"
  by (induction ws) (simp_all add: U32TO8_def)

lemma length_blake_words: "length iv = 8 \<Longrightarrow> length (blake_words iv pa pb M) = 8"
  by (simp add: blake_words_def length_blake_iter)

lemma length_digest: "length iv = 8 \<Longrightarrow> length (blake_digest iv pa pb M) = 32"
  by (simp add: blake_digest_def length_words_bytes length_blake_words)

lemma length_blake224_digest: "length (blake224_digest M) = 28"
  by (simp add: blake224_digest_def length_words_bytes length_blake_words blake224_iv_def)

lemma blake224_full_digest: "blake224_full M = blake224_digest M @ U32TO8 (blake_words blake224_iv 0x80 0x00 M ! 7)"
proof -
  let ?w = "blake_words blake224_iv 0x80 0x00 M"
  have "?w = take 7 ?w @ [?w ! 7]"
    using take_Suc_conv_app_nth [of 7 ?w] length_blake_words [of blake224_iv "0x80" "0x00" M] by (simp add: blake224_iv_def)
  then have "blake224_full M = concat (map U32TO8 (take 7 ?w @ [?w ! 7]))"
    by (simp add: blake_digest_def)
  then show ?thesis
    by (simp add: blake224_digest_def)
qed

lemma take_blake224_full: "take 28 (blake224_full M) = blake224_digest M"
  by (simp add: blake224_full_digest length_blake224_digest)

interpretation b256: absorbing_hash "blake_absorbed blake256_iv" "\<lambda>S. length (bl_buf S) = 64" blake256_init blake256_update
    blake256_final blake256_digest
  by unfold_locales
    (simp_all add: blake256_init_def start_absorbed blake256_iv_def update_absorbed blake256_final_def final_digest del: of_nat_mult)

interpretation b224: absorbing_hash "blake_absorbed blake224_iv" "\<lambda>S. length (bl_buf S) = 64" blake224_init blake224_update
    blake224_final blake224_full
  by unfold_locales
    (simp_all add: blake224_init_def start_absorbed blake224_iv_def update_absorbed blake224_update_def blake224_final_def final_digest
      del: of_nat_mult)

section \<open>The hash of a message\<close>

text \<open>
  C8. The one-shot functions compute BLAKE-256 and BLAKE-224: for every message of fewer than \<open>2\<^sup>6\<^sup>4\<close> bits, \<open>blake256_hash\<close>
  writes the 32 bytes of the digest of the reference, which pads the message, counts its bits in each block and
  iterates the compression of the specification.  \<open>blake224_hash\<close> writes the 28 bytes of the digest of BLAKE-224 and then four
  bytes that do not belong to it, the eighth word of the chaining value, 32 bytes in all.  The uninitialised state the
  functions start from does not matter.
\<close>

theorem blake256_hash_correct:
  assumes "length (bl_buf S) = 64" "8 * length M < 2 ^ 64"
  shows "blake256_hash S M (of_nat (length M)) = blake256_digest M
    \<and> blake224_hash S M (of_nat (length M)) = blake224_digest M @ U32TO8 (blake_words blake224_iv 0x80 0x00 M ! 7)
    \<and> length (blake224_digest M) = 28 \<and> length (blake224_hash S M (of_nat (length M))) = 32"
  using b256.one_shot [OF assms] b224.one_shot [OF assms] blake224_full_digest [of M] length_blake224_digest [of M]
  by (simp add: blake256_hash_def blake224_hash_def mult.commute U32TO8_def)

definition blake256_junk :: blake256_state where
  "blake256_junk = \<lparr>bl_h = replicate 8 7, bl_s = replicate 4 7, bl_t = replicate 2 7, bl_buflen = 7, bl_nullt = 7, bl_buf = replicate 64 7\<rparr>"

theorem blake256_hash_correct_witness:
  "blake256_hash blake256_junk [97, 98, 99] 3 = blake256_digest [97, 98, 99]
    \<and> take 28 (blake224_hash blake256_junk [97, 98, 99] 3) = blake224_digest [97, 98, 99]
    \<and> length (blake224_hash blake256_junk [97, 98, 99] 3) = 32"
  using blake256_hash_correct [of blake256_junk "[97, 98, 99]"] by (simp add: blake256_junk_def length_blake224_digest U32TO8_def)

text \<open>
  C22. Streaming: after the initialisation, updates with the pieces of a message and the finalisation return the digest of
  the whole message, provided each piece finds an empty buffer, fits into it, or fills it with its last incomplete block.
\<close>

theorem blake256_streaming:
  assumes "length (bl_buf S) = 64" "blake_pieces 0 Ds"
  shows "snd (blake256_final (blake_feed blake256_update Ds (blake256_init S))) = blake256_digest (concat Ds)"
  by (rule b256.streamed [OF assms])

theorem blake256_streaming_witness:
  "snd (blake256_final (blake_feed blake256_update [[97], [98, 99], replicate 125 100] (blake256_init blake256_junk)))
    = blake256_digest ([97, 98, 99] @ replicate 125 100)"
  using blake256_streaming [of blake256_junk "[[97], [98, 99], replicate 125 100]"]
  by (simp add: blake256_junk_def blake_clean_def)

section \<open>Lost bytes\<close>

lemma compress_buflen: "blake256_compress (S\<lparr>bl_buflen := k\<rparr>) b = (blake256_compress S b)\<lparr>bl_buflen := k\<rparr>"
    "blake256_count (S\<lparr>bl_buflen := k\<rparr>) = (blake256_count S)\<lparr>bl_buflen := k\<rparr>"
  by (simp_all add: blake256_compress_def blake256_count_def Let_def)

lemma blocks_buflen:
  "blake256_blocks (S\<lparr>bl_buflen := k\<rparr>) data dl = (case blake256_blocks S data dl of (T, x) \<Rightarrow> (T\<lparr>bl_buflen := k\<rparr>, x))"
proof (induction S data dl rule: blake256_blocks.induct)
  case (1 S data dl)
  then show ?case
    by (subst (1 2) blake256_blocks.simps) (simp add: compress_buflen)
qed

lemma blake256_blocks_rest:
  "blake256_blocks S data dl = (T, data', dl') \<Longrightarrow> unat dl' = unat dl mod 512 \<and> data' = drop (64 * (unat dl div 512)) data"
proof (induction S data dl rule: blake256_blocks.induct)
  case (1 S data dl)
  show ?case
  proof (cases "512 \<le> dl")
    case True
    then have u: "unat (dl - 512) = unat dl - 512" "512 \<le> unat dl"
      by (simp_all add: unat_sub word_le_nat_alt)
    have "blake256_blocks S data dl = blake256_blocks (blake256_compress (blake256_count S) (take 64 data)) (drop 64 data) (dl - 512)"
      using True by (subst blake256_blocks.simps) simp
    with 1 True u show ?thesis
      by (simp add: le_mod_geq le_div_geq add.commute)
  next
    case False
    then have "unat dl < 512"
      by (simp add: word_le_nat_alt)
    with 1(2) False show ?thesis
      by (subst (asm) blake256_blocks.simps) auto
  qed
qed

lemma bytes_of_bits: "unat (drop_bit 3 (dl :: i64) AND 0x3F) = unat dl div 8 mod 64"
proof -
  have "(0x3F :: i64) = mask 6"
    by (simp add: mask_eq_exp_minus_1)
  then show ?thesis
    by (simp only: take_bit_eq_mask [symmetric] unsigned_take_bit_eq unat_drop_bit_eq) (simp add: take_bit_eq_mod drop_bit_eq_div)
qed

lemma update_drops:
  assumes "bl_buflen S < 512" "unat dl mod 512 = 0"
  shows "blake256_update S data dl = blake256_update (S\<lparr>bl_buflen := 0\<rparr>) data dl"
proof -
  obtain k where "unat dl = 512 * k"
    using assms(2) by (metis dvd_def mod_0_imp_dvd)
  then have n: "unat (drop_bit 3 dl AND 0x3F) = 0"
    by (simp add: bytes_of_bits)
  obtain T data' dl' where b: "blake256_blocks S data dl = (T, data', dl')"
    by (metis prod.exhaust)
  then have "unat dl' = 0"
    using blake256_blocks_rest assms(2) by metis
  then have dl': "dl' = 0"
    by (simp add: unsigned_eq_0_iff)
  have "64 - bl_buflen S div 8 \<noteq> 0"
    using assms(1) by simp
  then show ?thesis
    unfolding update_split n by (simp add: blake256_rest_def b dl' blocks_buflen)
qed

text \<open>
  C20. An update can lose what the buffer holds: if the buffer holds the bytes \<open>A\<close> and the next piece \<open>D\<close> is a positive number of
  whole blocks, \<open>blake256_update\<close> compresses these blocks at once and clears the buffer, so that the digest is the one of \<open>D\<close>
  alone; an update with no data clears it too.
\<close>

theorem blake256_update_loses:
  assumes "length (bl_buf S) = 64" "0 < length A" "length A < 64" "length D mod 64 = 0" "8 * length D < 2 ^ 64"
  shows "snd (blake256_final (blake_feed blake256_update [A, D] (blake256_init S))) = blake256_digest D"
proof -
  let ?S = "blake256_init S"
  let ?T = "blake256_update ?S A (of_nat (8 * length A))"
  let ?R = "?T\<lparr>bl_buflen := 0\<rparr>"
  have T: "?T = ?S\<lparr>bl_buf := buf_write (bl_buf ?S) 0 A, bl_buflen := 8 * length A\<rparr>"
  proof -
    have "bl_buflen ?S = 8 * 0" "0 + length A < 64"
      using assms(3) by (simp_all add: blake256_init_def blake256_start_def)
    from update_append [OF this(1) assms(2) this(2), of A] show ?thesis
      by (simp only: take_all order_refl add_0_left)
  qed
  have "blake_absorbed blake256_iv ?S []"
    by (rule b256.init_absorbed [OF assms(1)])
  then have T0: "blake_absorbed blake256_iv ?R []"
    unfolding T using assms(3) by (simp add: blake_absorbed_def blake256_wf_def length_buf_write blake_chain_short blake256_iv_def)
  have "unat (of_nat (8 * length D) :: i64) mod 512 = 0"
    using assms(4) mult_mod_right [of 8 "length D" 64] unfolding unat_bits [OF assms(5)] by simp
  then have "blake256_update ?T D (of_nat (8 * length D)) = blake256_update ?R D (of_nat (8 * length D))"
    using assms(3) by (intro update_drops) (simp_all only: T blake256_state.simps, simp)
  moreover have "snd (blake256_final (blake256_update ?R D (of_nat (8 * length D)))) = blake256_digest ([] @ D)"
    using assms(5) by (intro b256.fin_digest b256.upd_absorbed [OF T0]) (simp_all add: blake_clean_def)
  ultimately show ?thesis
    by (simp add: blake_feed_def del: of_nat_mult)
qed

theorem blake256_update_loses_witness:
  "snd (blake256_final (blake_feed blake256_update [[97], replicate 64 98] (blake256_init blake256_junk)))
      = blake256_digest (replicate 64 98)
    \<and> snd (blake256_final (blake_feed blake256_update [[99], replicate 64 98] (blake256_init blake256_junk)))
      = blake256_digest (replicate 64 98)"
  using blake256_update_loses [of blake256_junk "[97]" "replicate 64 98"] blake256_update_loses [of blake256_junk "[99]" "replicate 64 98"]
  by (simp add: blake256_junk_def)

section \<open>HMAC\<close>

definition hmac_key_pad :: "byte \<Rightarrow> byte list \<Rightarrow> byte list" where
  "hmac_key_pad c K = map (\<lambda>b. b XOR c) (K @ replicate (64 - length K) 0)"

lemma hmac_pad_fold:
  "k \<le> 64 \<Longrightarrow> k \<le> length key \<Longrightarrow> hmac_pad c key k = map (\<lambda>b. b XOR c) (take k key) @ replicate (64 - k) c"
proof (induction k)
  case 0
  then show ?case
    by (simp add: hmac_pad_def)
next
  case (Suc k)
  then have "hmac_pad c key k = map (\<lambda>b. b XOR c) (take k key) @ c # replicate (63 - k) c"
    by (simp add: Suc_diff_le [symmetric] flip: replicate_Suc)
  then show ?case
    using Suc.prems by (simp add: hmac_pad_def take_Suc_conv_app_nth list_update_append nth_append xor.commute)
qed

lemma hmac_pad_eq:
  assumes "k \<le> 64" "k \<le> length key"
  shows "hmac_pad c key k = hmac_key_pad c (take k key)" "length (hmac_pad c key k) = 64"
  using assms by (simp_all add: hmac_pad_fold hmac_key_pad_def)

lemma unat_length: "8 * length xs < 2 ^ 64 \<Longrightarrow> unat (of_nat (length xs) :: i64) = length xs"
  by (simp add: unsigned_of_nat take_bit_nat_eq_self)

lemma long_key: "8 * length key < 2 ^ 64 \<Longrightarrow> 64 < (of_nat (length key) :: i64) \<longleftrightarrow> 64 < length key"
  by (simp add: word_less_nat_alt unat_length)

lemma bits_of_length: "of_nat n * 8 = (of_nat (8 * n) :: i64)"
  by simp

lemma hmac_key_pad_length [simp]: "length K \<le> 64 \<Longrightarrow> length (hmac_key_pad c K) = 64"
  by (simp add: hmac_key_pad_def)

text \<open>
  C21. HMAC-BLAKE-256 is the HMAC of RFC 2104 over BLAKE-256: \<open>H (K XOR opad | H (K XOR ipad | M))\<close>, where a key of more
  than 64 bytes is hashed first.
\<close>

theorem hmac_blake256_correct:
  assumes "length (bl_buf U) = 64" "length (bl_buf (hm_inner S)) = 64" "length (bl_buf (hm_outer S)) = 64"
    "8 * length key < 2 ^ 64" "8 * length M < 2 ^ 64"
  defines "K \<equiv> if 64 < length key then blake256_digest key else key"
  shows "hmac_blake256_hash U S key (of_nat (length key)) M (of_nat (length M))
    = blake256_digest (hmac_key_pad 0x5c K @ blake256_digest (hmac_key_pad 0x36 K @ M))"
proof -
  let ?k = "if 64 < length key then 32 else of_nat (length key) :: i64"
  have key: "(if 64 < (of_nat (length key) :: i64) then (blake256_hash U key (of_nat (length key)), 32) else (key, of_nat (length key))) = (K, ?k)"
    using b256.one_shot [OF assms(1,4)] unfolding long_key [OF assms(4)] by (simp add: K_def blake256_hash_def mult.commute)
  have K: "unat ?k = length K" "length K \<le> 64"
    using unat_length [OF assms(4)] by (simp_all add: K_def length_digest blake256_iv_def)
  have pad: "hmac_pad c K (unat ?k) = hmac_key_pad c K" for c
    using hmac_pad_eq(1) [of "length K" K c] K by simp
  have 32: "length (blake256_digest X) = 32" for X
    by (simp add: length_digest blake256_iv_def)
  have inner: "snd (blake256_final (blake256_update (blake256_update (blake256_init (hm_inner S)) (hmac_key_pad 0x36 K) 512) M
      (of_nat (length M) * 8))) = blake256_digest (hmac_key_pad 0x36 K @ M)"
    unfolding bits_of_length by (rule b256.after_block [OF assms(2) hmac_key_pad_length [OF K(2)] assms(5)])
  have outer: "snd (blake256_final (blake256_update (blake256_update (blake256_init (hm_outer S)) (hmac_key_pad 0x5c K) 512)
      (blake256_digest X) 256)) = blake256_digest (hmac_key_pad 0x5c K @ blake256_digest X)" for X
    using b256.after_block [OF assms(3) hmac_key_pad_length [OF K(2)], of "blake256_digest X" "0x5c"] by (simp add: 32)
  show ?thesis
    unfolding hmac_blake256_hash_def hmac_blake256_init_def key Let_def prod.case pad hmac_blake256_update_def hmac_blake256_final_def
    using inner outer by (simp add: split_beta)
qed

definition hmac_junk :: blake256_hmac_state where
  "hmac_junk = \<lparr>hm_inner = blake256_junk, hm_outer = blake256_junk\<rparr>"

theorem hmac_blake256_correct_witness:
  "hmac_blake256_hash blake256_junk hmac_junk [1, 2] 2 [3, 4, 5] 3
    = blake256_digest (hmac_key_pad 0x5c [1, 2] @ blake256_digest (hmac_key_pad 0x36 [1, 2] @ [3, 4, 5]))"
  using hmac_blake256_correct [of blake256_junk hmac_junk "[1, 2]" "[3, 4, 5]"] by (simp add: blake256_junk_def hmac_junk_def)

text \<open>
  C31. HMAC-BLAKE-224: the first 28 bytes of the result are \<open>H (K XOR opad | H (K XOR ipad | M))\<close> for the 28-byte hash BLAKE-224,
  as in RFC 2104, with two deviations from it: a key of more than 64 bytes is replaced by the first 28 bytes of its BLAKE-256
  and not by its BLAKE-224, and the result is not cut, so that four more bytes are written after the 28.
\<close>

theorem hmac_blake224_spec:
  assumes "length (bl_buf U) = 64" "length (bl_buf (hm_inner S)) = 64" "length (bl_buf (hm_outer S)) = 64"
    "8 * length key < 2 ^ 64" "8 * length M < 2 ^ 64"
  defines "K \<equiv> if 64 < length key then take 28 (blake256_digest key) else key"
  shows "hmac_blake224_hash U S key (of_nat (length key)) M (of_nat (length M))
    = blake224_digest (hmac_key_pad 0x5c K @ blake224_digest (hmac_key_pad 0x36 K @ M))
      @ U32TO8 (blake_words blake224_iv 0x80 0x00 (hmac_key_pad 0x5c K @ blake224_digest (hmac_key_pad 0x36 K @ M)) ! 7)
    \<and> length (hmac_blake224_hash U S key (of_nat (length key)) M (of_nat (length M))) = 32"
proof -
  let ?k = "if 64 < length key then 28 else of_nat (length key) :: i64" and ?key = "if 64 < length key then blake256_digest key else key"
  have key: "(if 64 < (of_nat (length key) :: i64) then (blake256_hash U key (of_nat (length key)), 28) else (key, of_nat (length key)))
      = (?key, ?k)"
    using b256.one_shot [OF assms(1,4)] unfolding long_key [OF assms(4)] by (simp add: blake256_hash_def mult.commute)
  have 32: "length (blake224_full X) = 32" "length (blake256_digest X) = 32" for X
    by (simp_all add: length_digest blake224_iv_def blake256_iv_def)
  have K: "length K \<le> 64" "unat ?k \<le> 64" "unat ?k \<le> length ?key" "take (unat ?k) ?key = K"
    using unat_length [OF assms(4)] 32 by (simp_all add: K_def)
  have pad: "hmac_pad c ?key (unat ?k) = hmac_key_pad c K" for c
    using hmac_pad_eq(1) [OF K(2,3)] K(4) by simp
  have inner: "snd (blake224_final (blake224_update (blake224_update (blake224_init (hm_inner S)) (hmac_key_pad 0x36 K) 512) M
      (of_nat (length M) * 8))) = blake224_full (hmac_key_pad 0x36 K @ M)"
    unfolding bits_of_length by (rule b224.after_block [OF assms(2) hmac_key_pad_length [OF K(1)] assms(5)])
  have outer: "snd (blake224_final (blake224_update (blake224_update (blake224_init (hm_outer S)) (hmac_key_pad 0x5c K) 512) X 224))
      = blake224_full (hmac_key_pad 0x5c K @ take 28 X)" if "length X = 32" for X
  proof -
    let ?T = "blake224_update (blake224_init (hm_outer S)) (hmac_key_pad 0x5c K) 512"
    have "blake_absorbed blake224_iv ?T ([] @ hmac_key_pad 0x5c K)"
      using b224.upd_absorbed [OF b224.init_absorbed [OF assms(3)], of "hmac_key_pad 0x5c K"] K(1) by (simp add: blake_clean_def)
    then have T: "bl_buflen ?T = 8 * 0"
      using K(1) by (simp add: blake_absorbed_def)
    have "blake224_update ?T X (of_nat (8 * 28)) = blake224_update ?T (take 28 X) (of_nat (8 * 28))"
      unfolding blake224_update_def using update_append [OF T [unfolded blake224_update_def], of 28] by (simp only:) simp
    then show ?thesis
      using b224.after_block [OF assms(3) hmac_key_pad_length [OF K(1)], of "take 28 X" "0x5c"] that by simp
  qed
  have "hmac_blake224_hash U S key (of_nat (length key)) M (of_nat (length M))
      = blake224_full (hmac_key_pad 0x5c K @ take 28 (blake224_full (hmac_key_pad 0x36 K @ M)))"
    unfolding hmac_blake224_hash_def hmac_blake224_init_def key Let_def prod.case pad hmac_blake224_update_def hmac_blake224_final_def
    using inner outer 32 by (simp add: split_beta)
  then show ?thesis
    using 32(1) by (simp only: take_blake224_full flip: blake224_full_digest)
qed

theorem hmac_blake224_spec_witness:
  "take 28 (hmac_blake224_hash blake256_junk hmac_junk (replicate 65 1) 65 [3, 4, 5] 3)
    = blake224_digest (hmac_key_pad 0x5c (take 28 (blake256_digest (replicate 65 1)))
        @ blake224_digest (hmac_key_pad 0x36 (take 28 (blake256_digest (replicate 65 1))) @ [3, 4, 5]))"
  using hmac_blake224_spec [of blake256_junk hmac_junk "replicate 65 1" "[3, 4, 5]"]
  by (simp add: blake256_junk_def hmac_junk_def length_blake224_digest)

section \<open>Well-formed states\<close>

lemma wf_compress: "blake256_wf S \<Longrightarrow> blake256_wf (blake256_compress S b)"
  by (simp add: blake256_wf_def compress_ref)

lemma wf_count: "blake256_wf S \<Longrightarrow> blake256_wf (blake256_count S)" "blake256_wf S \<Longrightarrow> blake256_wf (blake256_uncount n S)"
  by (simp_all add: blake256_wf_def blake256_count_def Let_def)

lemma wf_blocks: "blake256_wf S \<Longrightarrow> blake256_blocks S data dl = (T, x) \<Longrightarrow> blake256_wf T \<and> bl_buflen T = bl_buflen S"
proof (induction S data dl arbitrary: T x rule: blake256_blocks.induct)
  case (1 S data dl)
  have "bl_buflen (blake256_compress (blake256_count S) b) = bl_buflen S" for b
    by (simp add: blake256_compress_def blake256_count_def Let_def)
  with 1 show ?case
    by (subst (asm) (2) blake256_blocks.simps) (auto simp: wf_compress wf_count split: if_splits)
qed

lemma wf_rest:
  assumes "blake256_wf S" "unat dl \<le> 8 * length data" "left + unat dl div 8 mod 64 < 64"
  shows "blake256_wf (blake256_rest S data dl left)"
proof -
  obtain T data' dl' where b: "blake256_blocks S data dl = (T, data', dl')"
    by (metis prod.exhaust)
  have T: "blake256_wf T" and d: "unat dl' = unat dl mod 512" "data' = drop (64 * (unat dl div 512)) data"
    using wf_blocks [OF assms(1) b] blake256_blocks_rest [OF b] by simp_all
  have k: "unat dl' div 8 = unat dl div 8 mod 64"
    unfolding d(1) using mod_mult2_eq [of "unat dl" 8 64] by simp
  have "unat (drop_bit 3 dl') = unat dl' div 8"
    by (simp only: unat_drop_bit_eq) (simp add: drop_bit_eq_div)
  moreover have "left + unat dl' div 8 < 64"
    using assms(3) k by simp
  moreover from this have "left * 8 + unat dl' < 512"
    by linarith
  ultimately show ?thesis
    using T unfolding blake256_rest_def b by (simp add: blake256_wf_def length_buf_write min_def)
qed

lemma wf_update:
  assumes "blake256_wf S" "unat dl \<le> 8 * length data"
  shows "blake256_wf (blake256_update S data dl)"
proof -
  let ?l = "bl_buflen S div 8"
  have l: "?l < 64"
    using assms(1) by (simp add: blake256_wf_def less_mult_imp_div_less)
  show ?thesis
  proof (cases "?l \<noteq> 0 \<and> 64 - ?l \<le> unat dl div 8 mod 64")
    case True
    then have k: "64 - ?l \<le> unat dl div 8"
      using mod_less_eq_dividend [of "unat dl div 8" 64] by linarith
    then have le: "8 * (64 - ?l) \<le> unat dl"
      by linarith
    have "unat (of_nat (8 * (64 - ?l)) :: i64) = 8 * (64 - ?l)"
      by (rule unat_bits) simp
    then have u: "unat (dl - of_nat (8 * (64 - ?l))) = unat dl - 8 * (64 - ?l)"
      using le by (subst unat_sub) (simp_all only: word_le_nat_alt)
    have "length (buf_write (bl_buf S) ?l (take (64 - ?l) data)) = 64"
      using assms(1) l by (simp add: blake256_wf_def length_buf_write)
    then have "blake256_wf (blake256_filled S data)"
      using assms(1) by (auto simp: blake256_filled_def Let_def blake256_wf_def intro!: wf_compress [unfolded blake256_wf_def] wf_count [unfolded blake256_wf_def])
    moreover have "unat dl - 8 * (64 - ?l) \<le> 8 * length (drop (64 - ?l) data)"
      using assms(2) by (simp only: length_drop)
    ultimately have "blake256_wf (blake256_rest (blake256_filled S data) (drop (64 - ?l) data) (dl - of_nat (8 * (64 - ?l))) 0)"
      using wf_rest [of "blake256_filled S data" "dl - of_nat (8 * (64 - ?l))" "drop (64 - ?l) data" 0, unfolded u] by simp
    then show ?thesis
      unfolding update_split bytes_of_bits using True by (simp only: simp_thms if_True)
  next
    case False
    then have "?l + unat dl div 8 mod 64 < 64"
      using l by (cases "?l = 0") auto
    then show ?thesis
      unfolding update_split bytes_of_bits using wf_rest [OF assms] False by (simp only: if_False)
  qed
qed

lemma wf_nullt: "blake256_wf (S\<lparr>bl_nullt := k\<rparr>) = blake256_wf S"
  by (simp add: blake256_wf_def)

lemma wf_padding_update:
  "blake256_wf S \<Longrightarrow> n \<le> 512 \<Longrightarrow> blake256_wf (blake256_update S blake256_padding (of_nat n))"
  "blake256_wf S \<Longrightarrow> blake256_wf (blake256_update S (drop 1 blake256_padding) 440)"
  "blake256_wf S \<Longrightarrow> blake256_wf (blake256_update S [b] 8)"
  by (rule wf_update, assumption, simp add: blake256_padding_def unsigned_of_nat take_bit_nat_eq_self)+

lemma wf_final_h:
  assumes "blake256_wf S"
  shows "blake256_wf (fst (blake256_final_h S pa pb))" "length (snd (blake256_final_h S pa pb)) = 32"
proof -
  let ?S = "blake256_padded S pa pb"
  have S: "blake256_wf ?S"
  proof -
    consider "bl_buflen S = 440" | "bl_buflen S < 440" | "bl_buflen S \<noteq> 440" "\<not> bl_buflen S < 440"
      by blast
    then show ?thesis
    proof cases
      case 1
      then show ?thesis
        unfolding blake256_padded_def using wf_padding_update(3) [OF wf_count(2) [OF assms]] by simp
    next
      case 2
      have "blake256_wf (if bl_buflen S = 0 then S\<lparr>bl_nullt := 1\<rparr> else S)"
        using assms wf_nullt by simp
      then show ?thesis
        unfolding padded_fits [OF 2] by (intro wf_padding_update wf_count) simp_all
    next
      case 3
      let ?n = "512 - bl_buflen S"
      have "blake256_wf (blake256_update (blake256_uncount 440 (blake256_update (blake256_uncount ?n S) blake256_padding (of_nat ?n)))
          (drop 1 blake256_padding) 440)"
        using assms by (intro wf_padding_update wf_count) simp_all
      then show ?thesis
        using 3 wf_nullt by (simp only: blake256_padded_def Let_def if_False) (intro wf_padding_update wf_count, simp)
    qed
  qed
  have U: "length (U32TO8 v) = 4" for v
    by (simp add: U32TO8_def)
  have "blake256_wf (blake256_update (blake256_uncount 64 ?S) (U32TO8 v @ U32TO8 w) 64)" for v w
    using wf_count(2) [OF S] by (intro wf_update) (simp_all add: U)
  then show "blake256_wf (fst (blake256_final_h S pa pb))"
    by (simp only: blake256_final_h_def blake256_padded_def Let_def fst_conv)
  show "length (snd (blake256_final_h S pa pb)) = 32"
    by (simp add: blake256_final_h_def Let_def length_concat U o_def sum_list_triv)
qed

text \<open>
  C30. The operations keep the shape of the state: from any state of well-formed arrays, initialisation, compression, update with at
  least as many bytes as the bits it names, even if these are no whole bytes, and finalisation return arrays of the
  same lengths and a buffer with less than 512 bits; the digest has 32 bytes, for BLAKE-224 too.
\<close>

theorem blake256_wf_preserved:
  assumes "blake256_wf S" "unat dl \<le> 8 * length data"
  shows "blake256_wf (blake256_init S) \<and> blake256_wf (blake224_init S) \<and> blake256_wf (blake256_compress S block)
    \<and> blake256_wf (blake256_update S data dl) \<and> blake256_wf (fst (blake256_final S)) \<and> blake256_wf (fst (blake224_final S))
    \<and> length (snd (blake256_final S)) = 32 \<and> length (snd (blake224_final S)) = 32"
  using assms wf_update [OF assms] wf_compress [OF assms(1)] wf_final_h [OF assms(1)]
  by (simp add: blake256_init_def blake224_init_def blake256_start_def blake256_iv_def blake224_iv_def blake256_wf_def
      blake256_final_def blake224_final_def)

theorem blake256_wf_preserved_witness:
  "blake256_wf (blake256_update blake256_junk [1, 2, 3] 21) \<and> length (snd (blake256_final blake256_junk)) = 32"
  using blake256_wf_preserved [of blake256_junk 21 "[1, 2, 3]"] by (simp add: blake256_wf_def blake256_junk_def)

end
