(* ===== verification/Spec2Isabelle.thy ===== *)
theory Spec2Isabelle
  imports SignatureProps PointHash Reciprocal Blake2bProps Blake256Hash
begin

text \<open>
  \<^bold>\<open>Verification of the cryptographic C code of the miner\<close>

  \<^medskip>
  \<^bold>\<open>The program.\<close>  xmrig is a CPU and GPU miner.  Its own C code that carries logic which must be right for
  every input is cryptographic.  The largest part is the curve arithmetic under \<^verbatim>\<open>src/base/tools/cryptonote\<close> (\<^verbatim>\<open>crypto-ops.c\<close>,
  \<^verbatim>\<open>crypto-ops-data.c\<close>, \<^verbatim>\<open>crypto-ops.h\<close>), with which the miner signs blocks and derives keys in
  \<^verbatim>\<open>Signatures.cpp\<close>, hashing with Keccak (\<^verbatim>\<open>src/base/crypto/keccak.cpp\<close>).  It is a
  stack of layers, each using only the one below: limbs and bytes; the field of integers modulo
  \<open>2\<^sup>2\<^sup>5\<^sup>5 - 19\<close>; the scalars modulo the group order; points of the curve in five coordinate systems; points as
  byte strings; the multiplication of points by scalars.  The second part belongs to the proof-of-work function RandomX
  under \<^verbatim>\<open>src/crypto/randomx\<close>: the streaming hash BLAKE2b (\<^verbatim>\<open>blake2/blake2b.c\<close>), which seeds and closes each hash
  and fills the cache through the long output of Argon2, and the reciprocal (\<^verbatim>\<open>reciprocal.c\<close>) that its virtual
  machine multiplies by instead of dividing.  The third is BLAKE-256 (\<^verbatim>\<open>src/crypto/cn/c_blake256.c\<close>), one of the hashes that
  close the CryptoNight functions, with its HMAC.

  \<^medskip>
  \<^bold>\<open>The theories.\<close>
    \<^item> \<open>Prelude\<close>: the types \<open>byte\<close>, \<open>i32\<close>, \<open>i64\<close> of machine words, congruence \<open>eqm\<close>, signed and unsigned
      readings of word operations, the value \<open>base_val\<close> of a list of digits.
    \<^item> \<open>Limbs\<close>: lists of words as numbers in mixed radix; carries and multiply-accumulate steps with their
      effect on the value under a bound, and chains of floor carries.
    \<^item> \<open>Bytes\<close>: little-endian byte strings, \<open>load_3\<close>, \<open>load_4\<close>, and the packing of limbs into bytes.
    \<^item> \<open>FieldElem\<close>: \<open>fe\<close> and \<open>fe_0\<close> to \<open>fe_sq2\<close>.  A C \<open>int32_t\<close> or \<open>int64_t\<close> is a word of that width and every
      operation wraps; the theorems show that within the bounds written in the comments nothing does.
    \<^item> \<open>FieldBytes\<close>: \<open>fe_tobytes\<close>, \<open>fe_isnegative\<close>, \<open>fe_isnonzero\<close> and the field decoder that
      \<open>ge_frombytes_vartime\<close> contains.
    \<^item> \<open>FieldRep\<close>: \<open>fe_rep k f x\<close>, that the limbs \<open>f\<close> represent \<open>x\<close> within a bound; the locale \<open>square_multiply\<close>
      and the powers \<open>fe_invert\<close> and \<open>fe_divpowm1\<close>.
    \<^item> \<open>Scalar\<close>: all functions \<open>sc_\<dots>\<close>; the long straight-line reductions are lists of \<open>sc_step\<close> run by \<open>sc_exec\<close>.
    \<^item> \<open>Group\<close>: the records \<open>ge_p2\<close>, \<open>ge_p3\<close>, \<open>ge_p1p1\<close>, \<open>ge_precomp\<close>, \<open>ge_cached\<close> and the operations between them,
      related to the affine Edwards addition law \<open>ed_add\<close>.
    \<^item> \<open>PointBytes\<close>: \<open>ge_tobytes\<close>, \<open>ge_p3_tobytes\<close>, \<open>ge_frombytes_vartime\<close>.
    \<^item> \<open>Recode\<close>: the digits of \<open>ge_scalarmult\<close> and \<open>ge_scalarmult_base\<close>, and \<open>slide\<close>.
    \<^item> \<open>BaseTable\<close>: the tables \<open>ge_base\<close> and \<open>ge_Bi\<close>.
    \<^item> \<open>PrimeCert\<close>, \<open>PrimeChains\<close>, \<open>PrimeSmall\<close>, \<open>PrimeQ\<close>, \<open>PrimeP\<close>: \<open>2\<^sup>2\<^sup>5\<^sup>5 - 19\<close> is prime, by a chain of
      Pocklington certificates whose powers are checked step by step.
    \<^item> \<open>PrimeField\<close>: the type \<open>fp\<close> of residues, an instance of the class \<open>field\<close>; \<open>Edwards\<close>: the locale \<open>edwards\<close> of a field in
      which the addition law is complete, and the group laws inside it; \<open>IntAction\<close>: integer multiples in a commutative
      group; \<open>EdCurve\<close>: the curve of the program as an interpretation of \<open>edwards\<close>, and its points as the type
      \<open>ed_point\<close>, an instance of \<open>ab_group_add\<close>.
    \<^item> \<open>ScalarMult\<close>: selection without branches and all multiplications; \<open>MultLaws\<close>: the locale \<open>point_ops\<close> of the
      laws they rely on and their correctness inside it; \<open>CurveMult\<close>: the relations \<open>pt2\<close>, \<open>pt3\<close>, \<open>pt1\<close>, \<open>ptc\<close>, \<open>ptm\<close>
      between points and coordinates, for which the point operations satisfy these laws; \<open>PointCodec\<close>: the
      encoding \<open>ed_encode\<close> of a point, and that decoding inverts it; \<open>PointHash\<close>: \<open>ge_fromfe_frombytes_vartime\<close>, which maps
      every string to a point.
    \<^item> \<open>HexArith\<close>: arithmetic on hexadecimal digits by rewriting, with which the kernel checks products of 256-bit
      numbers quickly; \<open>TableCert\<close>, \<open>BaseCert\<close>: certificates for sums and doubles of affine points and for entries of
      the tables; \<open>BaseRows1\<close> to \<open>BaseRows4\<close>: one certificate for each of the 256 entries of \<open>ge_base\<close>; \<open>BaseOrder\<close>: the
      order of the base point, and the entries of \<open>ge_Bi\<close>; \<open>PrimeOrder\<close>: the group order is prime; \<open>BaseMult\<close>: the
      multiples of the base point \<open>ed_base\<close>, whose order is exactly the group order.
    \<^item> \<open>Keccak\<close>: \<open>keccakf\<close> and \<open>keccak\<close> of \<^verbatim>\<open>base/crypto/keccak.cpp\<close>, and the permutation and the sponge of the standard
      they refine.
    \<^item> \<open>Signatures\<close>: all functions of \<^verbatim>\<open>Signatures.cpp\<close> (signing, checking, key derivation, key pairs) over the layers
      above, with the locale \<open>digest_32\<close> of what they use of the hash function, interpreted on Keccak with 32 bytes;
      \<open>SignatureProps\<close>: their properties.
    \<^item> \<open>Reciprocal\<close>: \<open>randomx_reciprocal\<close>.
    \<^item> \<open>Blake2b\<close>: the state record and all operations of \<^verbatim>\<open>blake2b.c\<close>; \<open>Blake2bStream\<close>: the locale
      \<open>block_compression\<close> of what they use of the compression, and the refinement of a sequence of updates to a
      reference hash of the whole message; \<open>Blake2bRef\<close>: the compression of RFC 7693 and its equivalence to the code;
      \<open>Blake2bProps\<close>: the interpretation on the portable compression and the resulting properties.
    \<^item> \<open>Blake256\<close>: the state records and all functions of \<^verbatim>\<open>c_blake256.c\<close>; \<open>Blake256Ref\<close>: the compression of the
      specification and its equivalence to the code; \<open>Blake256Props\<close>: the reference hash with its padding and counters, and
      the states that have absorbed a message; \<open>Blake256Hash\<close>: the locale \<open>absorbing_hash\<close> of what the hash functions
      and HMAC use of the streaming interface, its interpretations on BLAKE-256 and BLAKE-224, and their properties.

  \<^medskip>
  \<^bold>\<open>Conventions.\<close>  An output parameter is the result of the function.  A function that returns \<open>-1\<close> for an
  error returns \<open>None\<close>; a function that may leave its output unwritten returns \<open>None\<close> in that case.  Arrays are
  lists of the C length, and the theorems name that length as a hypothesis.  Loops with a fixed number of rounds
  are folds over the index list; \<open>slide_carry\<close> and \<open>slide_window\<close> have termination proofs with the distance to
  the end of the array as measure, \<open>blake2b_blocks\<close>, \<open>blake2b_long_loop\<close>, and \<open>blake256_blocks\<close> with the data left, \<open>varint\<close> with the
  number left to write; the loop \<open>keccak_absorb\<close>, which does not end for a rate of 0, is a partial function into the option type,
  and \<open>absorb_ends\<close> shows that it ends for every positive rate.  No model uses fuel; the loop of \<open>generate_signature\<close> consumes a list of random blocks, and \<open>sign_returns\<close>
  says when it ends.  A right shift of a signed value is arithmetic, and a left shift of a negative
  value multiplies, as on all supported compilers.

  \<^medskip>
  \<^bold>\<open>What is shown.\<close>  The field operations are correct modulo \<open>2\<^sup>2\<^sup>5\<^sup>5 - 19\<close> and keep the limb bounds their callers
  need; encodings are canonical and decoding inverts them; the scalar functions compute modulo the group order for
  all inputs; the point operations refine the affine law; accepted points are on the curve; every multiplication
  returns the multiple its scalars name.  These statements are about the group of the curve itself: that it is a
  group, and that the field is one, is proved.  Every entry of
  the tables \<open>ge_base\<close> and \<open>ge_Bi\<close> is the multiple of the base point it should be, and the modulus of the scalars
  is the order of the base point.  \<open>keccakf\<close> with 24 rounds is the permutation Keccak-f[1600] of the standard, its tables
  being those of the generating rules, and \<open>keccak\<close> is the sponge for the digest lengths its buffer has room for; what happens
  for the other lengths is stated too.  On top of this, \<open>check_signature\<close> accepts exactly the Schnorr signatures,
  generated signatures are accepted, different secret keys have different public keys, and sender and recipient of a
  payment derive the same one-time key.  BLAKE2b returns the digest of RFC 7693 however
  the input is cut into pieces, keeps its state well-formed, refuses to be reused, and its long output is the one of
  Argon2; the reciprocal is the quotient its comment promises.  \<open>blake256_hash\<close> returns the digest of the
  specification, \<open>blake224_hash\<close> the one of BLAKE-224 and four bytes more, HMAC-BLAKE-256 is the HMAC of RFC 2104 over it, the streaming interface is exact for pieces that fit or
  fill its buffer, and drops buffered bytes when whole blocks follow.  Hashing to a point never fails an assertion and
  returns a point of the curve.

  \<^medskip>
  \<^bold>\<open>Not modelled.\<close>  The other hash functions under \<^verbatim>\<open>src/crypto\<close> (Groestl, JH and Skein of CryptoNight, the collection of
  GhostRider); the vectorised and assembly versions of the modelled functions; the miner, network and configuration classes, which are
  C++ around sockets and threads; the vendored libraries.
\<close>

section \<open>The field\<close>

lemma fe_rep_165: "fe_rep 101 f x \<Longrightarrow> fe_bounded 165 26 f"
  by (auto simp: fe_rep_def fe_bounded_def split: if_splits)

text \<open>
  C1. \<open>fe_mul\<close> multiplies in the field: for limbs within the bounds of its comment (1.65 times \<open>2\<^sup>2\<^sup>6\<close> and
  1.65 times \<open>2\<^sup>2\<^sup>5\<close>) no 64-bit sum overflows, the value of the result is congruent to the product modulo
  \<open>2\<^sup>2\<^sup>5\<^sup>5 - 19\<close>, and the limbs of the result are below 1.01 times \<open>2\<^sup>2\<^sup>5\<close> and
  1.01 times \<open>2\<^sup>2\<^sup>4\<close>.
\<close>

theorem fe_mul_correct:
  assumes "fe_bounded 165 26 f" "fe_bounded 165 26 g"
  shows "eqm p25519 (fe_val (fe_mul f g)) (fe_val f * fe_val g) \<and> fe_bounded 101 25 (fe_mul f g)"
  using fe_mul_val [OF assms] fe_mul_bounded [OF assms] by blast

theorem fe_mul_correct_witness:
  "eqm p25519 (fe_val (fe_mul fe_d fe_sqrtm1)) (fe_val fe_d * fe_val fe_sqrtm1) \<and> fe_bounded 101 25 (fe_mul fe_d fe_sqrtm1)"
  by (rule fe_mul_correct [OF fe_rep_165 [OF fe_d_rep] fe_rep_165 [OF fe_sqrtm1_rep]])

text \<open>
  C38. The squarings agree with the multiplication: \<open>fe_sq\<close> returns the very limbs that \<open>fe_mul\<close>
  returns for two equal arguments, and \<open>fe_sq2\<close> the double of the square modulo \<open>2\<^sup>2\<^sup>5\<^sup>5 - 19\<close>.
\<close>

theorem fe_sq_correct:
  assumes "fe_bounded 165 26 f"
  shows "fe_sq f = fe_mul f f \<and> eqm p25519 (fe_val (fe_sq2 f)) (2 * fe_val f ^ 2)"
  using fe_sq_eq_mul [OF assms] fe_sq2_val [OF assms] by blast

theorem fe_sq_correct_witness:
  "fe_sq fe_d = fe_mul fe_d fe_d \<and> eqm p25519 (fe_val (fe_sq2 fe_d)) (2 * fe_val fe_d ^ 2)"
  by (rule fe_sq_correct [OF fe_rep_165 [OF fe_d_rep]])

text \<open>
  \<open>fe_add\<close>, \<open>fe_sub\<close> and \<open>fe_neg\<close> are exact and add the bounds of their arguments, as long as the
  sum of the bounds stays below \<open>2\<^sup>3\<^sup>1\<close>.
\<close>

lemma fe_add_sub_neg_correct:
  assumes "fe_bounded a e f" "fe_bounded b e g" "(a + b) * 2 ^ e < 100 * 2 ^ 31"
  shows "fe_val (fe_add f g) = fe_val f + fe_val g \<and> fe_bounded (a + b) e (fe_add f g)
    \<and> fe_val (fe_sub f g) = fe_val f - fe_val g \<and> fe_bounded (a + b) e (fe_sub f g)
    \<and> fe_val (fe_neg (fe_add f g)) = - (fe_val f + fe_val g) \<and> fe_bounded (a + b) e (fe_neg (fe_add f g))"
  using fe_add_val [OF assms] fe_add_bounded [OF assms] fe_sub_val [OF assms] fe_sub_bounded [OF assms]
    fe_neg_val [OF fe_add_bounded [OF assms] assms(3)] fe_neg_bounded [OF fe_add_bounded [OF assms] assms(3)]
  by simp

text \<open>
  C39. \<open>fe_tobytes\<close> writes the canonical encoding: the 32 bytes of the value reduced to \<open>{0..<2\<^sup>2\<^sup>5\<^sup>5 - 19}\<close>.
  \<open>fe_isnegative\<close> is its lowest bit and \<open>fe_isnonzero\<close> tells whether it is zero.  The limbs may reach 1.65 times \<open>2\<^sup>2\<^sup>6\<close> and
  \<open>2\<^sup>2\<^sup>5\<close>, where the comment above the function asks for 1.1 and the self-check of \<open>ge_fromfe_frombytes_vartime\<close> exceeds that.  The decoder
  calls a string non-canonical exactly if its low 255 bits hold a number that is not below \<open>2\<^sup>2\<^sup>5\<^sup>5 - 19\<close>; otherwise decoding
  and encoding again gives the string with its top bit cleared.
\<close>

theorem fe_tobytes_canonical:
  assumes "fe_bounded 165 26 h" "length s = 32"
  shows "fe_tobytes h = le_bytes 32 (fe_val h mod p25519)
    \<and> fe_isnegative h = (if odd (fe_val h mod p25519) then 1 else 0)
    \<and> fe_isnonzero h = (if eqm p25519 (fe_val h) 0 then 0 else 1)
    \<and> (fe_noncanonical (fe_loads_255 s) \<longleftrightarrow> p25519 \<le> le_val s mod 2 ^ 255)
    \<and> (\<not> fe_noncanonical (fe_loads_255 s) \<longrightarrow>
        fe_tobytes (fe_frombytes (fe_loads_255 s)) = le_bytes 32 (le_val s mod 2 ^ 255))"
  using fe_tobytes_eq [OF assms(1)] fe_isnegative_eq [OF assms(1)] fe_isnonzero_eq [OF assms(1)]
    fe_noncanonical_eq [OF assms(2)] fe_roundtrip_encode [OF assms(2)] by blast

theorem fe_tobytes_canonical_witness:
  "fe_tobytes fe_sqrtm1 = le_bytes 32 (fe_val fe_sqrtm1 mod p25519)
    \<and> fe_tobytes (fe_frombytes (fe_loads_255 (5 # replicate 31 0))) = le_bytes 32 5"
  using fe_tobytes_canonical [OF fe_rep_165 [OF fe_sqrtm1_rep], of "5 # replicate 31 0"]
  by (simp add: le_val_replicate_0 p25519_def)

text \<open>
  Every field element survives encoding: the decoder accepts what \<open>fe_tobytes\<close> writes and returns
  an element with the same value modulo \<open>2\<^sup>2\<^sup>5\<^sup>5 - 19\<close>, whatever limbs represented it.
\<close>

lemma fe_encode_decode:
  assumes "fe_bounded 165 26 h"
  shows "\<not> fe_noncanonical (fe_loads_255 (fe_tobytes h))
    \<and> eqm p25519 (fe_val (fe_frombytes (fe_loads_255 (fe_tobytes h)))) (fe_val h)"
  using fe_roundtrip_decode [OF assms] by blast

text \<open>
  C40. \<open>fe_invert\<close> inverts in the field, by its fixed chain of squarings and multiplications: the product of an
  element that is not 0 and the result is 1, and the result for 0 is 0.
\<close>

theorem fe_invert_inverse:
  assumes "fe_rep 330 z x"
  shows "\<exists>w. fe_rep 101 (fe_invert z) w \<and> (if eqm p25519 x 0 then eqm p25519 w 0 else eqm p25519 (x * w) 1)"
proof (intro exI conjI)
  show "fe_rep 101 (fe_invert z) (x ^ (2 ^ 255 - 21))"
    by (rule fe_rep_invert [OF assms])
  show "if eqm p25519 x 0 then eqm p25519 (x ^ (2 ^ 255 - 21)) 0 else eqm p25519 (x * x ^ (2 ^ 255 - 21)) 1"
  proof (cases "eqm p25519 x 0")
    case True
    have "0 ^ (2 ^ 255 - 21) = (0 :: int)"
      by (simp only: power_0_left) simp
    then have "eqm p25519 (x ^ (2 ^ 255 - 21)) 0"
      using eqm_power [OF True, of "2 ^ 255 - 21"] by (simp only:)
    with True show ?thesis
      by (simp only: if_True)
  next
    case False
    then have "coprime x p25519"
      using prime_coprime [OF prime_p, of x] by (simp add: eqm_dvd)
    from eqm_inverse [OF this] False show ?thesis
      by (simp only: if_False)
  qed
qed

theorem fe_invert_inverse_witness: "\<exists>w. fe_rep 101 (fe_invert fe_d) w \<and> eqm p25519 (ed_d * w) 1"
proof -
  have "\<not> eqm p25519 ed_d 0"
    by code_simp
  then show ?thesis
    using fe_invert_inverse [OF fe_rep_330(1) [OF fe_d_rep]] by simp
qed

text \<open>
  \<open>fe_divpowm1\<close> finds square roots: it returns \<open>u * v\<^sup>3 * (u * v\<^sup>7) ^ ((p - 5) / 8)\<close>, and if \<open>u / v\<close> is a
  square the square of this number times \<open>v\<close> is \<open>u\<close> or \<open>- u\<close>.
\<close>

lemma fe_divpowm1_root:
  assumes "fe_rep 330 u a" "fe_rep 330 v b" "eqm p25519 (x * x * b) a"
  defines "r \<equiv> (a * b ^ 7) ^ nat ((p25519 - 5) div 8) * b ^ 3 * a"
  shows "fe_rep 101 (fe_divpowm1 u v) r \<and> (eqm p25519 (r\<^sup>2 * b) a \<or> eqm p25519 (r\<^sup>2 * b) (- a))"
proof -
  have e: "nat ((p25519 - 5) div 8) = 2 ^ 252 - 3"
    by (simp add: p25519_def)
  have "eqm p25519 (r\<^sup>2 * b) a \<or> eqm p25519 (r\<^sup>2 * b) (- a)"
    using candidate_root_eqm [OF assms(3)] unfolding r_def e .
  then show ?thesis
    using fe_rep_divpowm1 [OF assms(1,2)] unfolding r_def e by blast
qed

section \<open>Scalars\<close>

text \<open>
  C2. \<open>sc_muladd\<close>, \<open>sc_mulsub\<close>, \<open>sc_mul\<close>, \<open>sc_add\<close> and \<open>sc_sub\<close> compute \<open>c + a * b\<close>, \<open>c - a * b\<close>, \<open>a * b\<close>, \<open>a + b\<close> and \<open>a - b\<close> modulo
  the group order, for all 32-byte scalars, reduced or not, and write the canonical 32 bytes.
\<close>

theorem sc_muladd_correct:
  assumes "length a = 32" "length b = 32" "length c = 32"
  shows "sc_muladd a b c = le_bytes 32 ((le_val c + le_val a * le_val b) mod l25519)
    \<and> sc_mulsub a b c = le_bytes 32 ((le_val c - le_val a * le_val b) mod l25519)
    \<and> sc_mul a b = le_bytes 32 (le_val a * le_val b mod l25519)
    \<and> sc_add a b = le_bytes 32 ((le_val a + le_val b) mod l25519)
    \<and> sc_sub a b = le_bytes 32 ((le_val a - le_val b) mod l25519)"
  using sc_muladd_eq [OF assms] sc_mulsub_eq [OF assms] sc_mul_eq [OF assms(1,2)] sc_add_eq [OF assms(1,2)] sc_sub_eq [OF assms(1,2)]
  by blast

theorem sc_muladd_correct_witness:
  "sc_muladd (replicate 32 255) (replicate 32 255) (replicate 32 255) =
      le_bytes 32 ((le_val (replicate 32 255) + le_val (replicate 32 255) * le_val (replicate 32 255)) mod l25519)
    \<and> sc_mulsub (replicate 32 255) (replicate 32 255) (replicate 32 255) =
      le_bytes 32 ((le_val (replicate 32 255) - le_val (replicate 32 255) * le_val (replicate 32 255)) mod l25519)"
  using sc_muladd_correct [of "replicate 32 255" "replicate 32 255" "replicate 32 255"] by simp

text \<open>
  C36. \<open>sc_reduce\<close> and \<open>sc_reduce32\<close> reduce every 64-byte and every 32-byte number modulo the group order to a scalar
  that \<open>sc_check\<close> accepts; \<open>sc_reduce32\<close> leaves a reduced scalar as it is.
\<close>

theorem sc_reduce_correct:
  assumes "length s = 64" "length t = 32"
  shows "sc_reduce s = le_bytes 32 (le_val s mod l25519) \<and> sc_check (sc_reduce s) = 0
    \<and> sc_reduce32 t = le_bytes 32 (le_val t mod l25519) \<and> sc_check (sc_reduce32 t) = 0
    \<and> (le_val t < l25519 \<longrightarrow> sc_reduce32 t = t)"
  using sc_reduce_eq [OF assms(1)] sc_check_eq [of "sc_reduce s"] sc_reduce32_eq [OF assms(2)]
    sc_check_eq [of "sc_reduce32 t"] le_bytes_le_val [of t] assms(2) by (simp add: le_bytes_mod_l)

theorem sc_reduce_correct_witness:
  "sc_check (sc_reduce (replicate 64 255)) = 0 \<and> sc_reduce32 (3 # replicate 31 0) = 3 # replicate 31 0"
proof -
  have "length (3 # replicate 31 0) = 32" "le_val (3 # replicate 31 0) < l25519"
    by (simp_all add: le_val_replicate_0 l25519_def)
  then show ?thesis
    using sc_reduce_correct [of "replicate 64 255" "3 # replicate 31 0"] length_replicate [of 64 255] by blast
qed

text \<open>
  C37. \<open>sc_check\<close> returns 0 exactly for the scalars below the group order and -1 for all others, and
  \<open>sc_isnonzero\<close> returns 0 exactly for the zero scalar: the two tests that guard signatures.
\<close>

theorem sc_check_correct:
  assumes "length s = 32"
  shows "sc_check s = (if le_val s < l25519 then 0 else - 1) \<and> sc_isnonzero s = (if le_val s = 0 then 0 else 1)"
  using sc_check_eq [OF assms] sc_isnonzero_eq [OF assms] by blast

theorem sc_check_correct_witness: "sc_check (1 # replicate 31 0) = 0 \<and> sc_isnonzero (1 # replicate 31 0) = 1"
  using sc_check_correct [of "1 # replicate 31 0"] by (simp add: le_val_replicate_0 l25519_def)

section \<open>Points\<close>

text \<open>A point of order 4 in the coordinates of the program, for the examples.\<close>

definition order4 :: ed_point where
  "order4 = Abs_ed_point (fp_i, 0)"

definition point4 :: ge_p3 where
  "point4 = \<lparr>p3X = fe_sqrtm1, p3Y = fe_0, p3Z = fe_1, p3T = fe_0\<rparr>"

lemma coords_order4: "coords order4 sqrtm1 0"
proof -
  have "edw.curve (fp_i, 0)"
    using fp_i_sq by (simp add: edw.curve_def)
  then show ?thesis
    by (simp add: coords_def order4_def Abs_ed_point_inverse)
qed

lemma pt3_point4: "pt3 order4 point4"
  unfolding pt3_def
  by (intro exI [of _ sqrtm1] exI [of _ 0] exI [of _ 1] conjI coords_order4)
    (simp_all add: p3_rep_def point4_def fe_sqrtm1_rep fe_rep_0 fe_rep_1)

text \<open>
  C17. The point operations implement the group: the result represents the sum or the difference of the represented points
  after either conversion, with limbs within the bounds the next operation needs, and there are no exceptional
  points.  \<open>ge_madd\<close> and \<open>ge_msub\<close> do this for a table entry, whose \<open>z\<close> is 1; doubling, which never uses the constant of
  the curve, agrees with adding a point to itself; \<open>ge_mul8\<close> returns the multiple 8.
\<close>

theorem ge_ops_refine:
  assumes "pt3 g p" "ptc h q" "ptm m t" "pt2 k u"
  shows "pt3 (g + h) (ge_p1p1_to_p3 (ge_add p q)) \<and> pt2 (g + h) (ge_p1p1_to_p2 (ge_add p q))
    \<and> pt3 (g - h) (ge_p1p1_to_p3 (ge_sub p q)) \<and> pt2 (g - h) (ge_p1p1_to_p2 (ge_sub p q))
    \<and> pt3 (g + m) (ge_p1p1_to_p3 (ge_madd p t)) \<and> pt3 (g - m) (ge_p1p1_to_p3 (ge_msub p t))
    \<and> pt3 (g + g) (ge_p1p1_to_p3 (ge_p3_dbl p)) \<and> pt2 (k + k) (ge_p1p1_to_p2 (ge_p2_dbl u))
    \<and> pt2 (imult 8 k) (ge_p1p1_to_p2 (ge_mul8 u))"
  using curve.p3_dbl [OF assms(1)]
  by (intro conjI curve.to_p3 curve.to_p2 curve.add curve.sub curve.madd curve.msub curve.dbl curve.mul8 assms)
    (simp add: imult_numeral_add)

theorem ge_ops_refine_witness:
  "pt3 (order4 + order4) (ge_p1p1_to_p3 (ge_add point4 (ge_p3_to_cached point4)))"
  using ge_ops_refine [OF pt3_point4 curve.to_cached [OF pt3_point4] curve.precomp_0 curve.p2_0] by blast

text \<open>
  What \<open>ge_frombytes_vartime\<close> accepts is on the curve: the point has the \<open>y\<close> of the string, which
  is below \<open>2\<^sup>2\<^sup>5\<^sup>5 - 19\<close>, an \<open>x\<close> with the parity of the top bit, and satisfies the curve equation.
\<close>

lemma ge_frombytes_on_curve:
  assumes "length s = 32" "ge_frombytes_vartime s = Some P"
  shows "\<exists>x. p3_rep P x (le_val s mod 2 ^ 255) 1 \<and> on_curve x (le_val s mod 2 ^ 255)
    \<and> le_val s mod 2 ^ 255 < p25519 \<and> x mod p25519 mod 2 = le_val s div 2 ^ 255"
  using ge_frombytes_sound [OF assms] by simp

text \<open>The encoding of the neutral element.\<close>

definition one_bytes :: "byte list" where
  "one_bytes = 1 # replicate 31 0"

lemma one_bytes: "length one_bytes = 32" "le_val one_bytes = 1"
  by (simp_all add: one_bytes_def le_val_replicate_0)

lemma frombytes_one: "\<exists>P. ge_frombytes_vartime one_bytes = Some P"
  using ge_frombytes_x0 [OF one_bytes(1)] by (simp add: one_bytes(2) p25519_def)

text \<open>
  C3. \<open>ge_frombytes_vartime\<close> accepts exactly the encodings of the points of the curve, each of which it
  decodes to its point, and rejects every other string: a \<open>y\<close> that is not reduced, a \<open>y\<close> without an \<open>x\<close>, and
  the sign bit of a zero \<open>x\<close>.  Whatever it returns represents a point of the curve, whose encoding is the string.
\<close>

theorem ge_frombytes_accepts:
  assumes "length s = 32"
  shows "((\<exists>P. ge_frombytes_vartime s = Some P \<and> pt3 g P) \<longleftrightarrow> s = ed_encode g)
    \<and> (\<forall>P. ge_frombytes_vartime s = Some P \<longrightarrow> (\<exists>h. pt3 h P \<and> s = ed_encode h))
    \<and> (ge_frombytes_vartime s = None \<longleftrightarrow> (\<forall>h. s \<noteq> ed_encode h))"
proof (intro conjI allI impI)
  show "(\<exists>P. ge_frombytes_vartime s = Some P \<and> pt3 g P) \<longleftrightarrow> s = ed_encode g"
    using ge_frombytes_roundtrip [OF assms] ge_p3_tobytes_encode decode_complete by metis
  show "\<exists>h. pt3 h P \<and> s = ed_encode h" if "ge_frombytes_vartime s = Some P" for P
    using decode_sound [OF assms that] by blast
  show "ge_frombytes_vartime s = None \<longleftrightarrow> (\<forall>h. s \<noteq> ed_encode h)"
    using decode_sound [OF assms] decode_complete by (metis option.distinct(1) option.exhaust)
qed

theorem ge_frombytes_accepts_witness: "\<exists>P. ge_frombytes_vartime (ed_encode order4) = Some P \<and> pt3 order4 P"
  using ge_frombytes_accepts [of "ed_encode order4" order4] by simp

text \<open>
  C7. Decoding a point and encoding it again gives the string back, and encoding any representation of a
  point and decoding it gives a representation of the same point.
\<close>

theorem point_decode_encode:
  assumes "length s = 32"
  shows "(ge_frombytes_vartime s = Some P \<longrightarrow> ge_p3_tobytes P = s)
    \<and> (pt3 g Q \<longrightarrow> (\<exists>P. ge_frombytes_vartime (ge_p3_tobytes Q) = Some P \<and> pt3 g P))"
  using ge_frombytes_roundtrip [OF assms] decode_complete [of g] ge_p3_tobytes_encode [of g Q] by auto

theorem point_decode_encode_witness:
  "(\<exists>P. ge_frombytes_vartime one_bytes = Some P \<and> ge_p3_tobytes P = one_bytes)
    \<and> (\<exists>P. ge_frombytes_vartime (ge_p3_tobytes point4) = Some P \<and> pt3 order4 P)"
  using frombytes_one point_decode_encode [OF one_bytes(1)] pt3_point4 by metis

text \<open>
  \<open>ge_tobytes\<close> and \<open>ge_p3_tobytes\<close> write the encoding of the point, whatever coordinates represent it, and
  different points have different encodings.
\<close>

lemma ge_tobytes_unique:
  assumes "pt2 g p" "pt3 h q"
  shows "ge_tobytes p = ed_encode g \<and> ge_p3_tobytes q = ed_encode h \<and> (ge_tobytes p = ge_p3_tobytes q \<longleftrightarrow> g = h)"
  using ge_tobytes_encode [OF assms(1)] ge_p3_tobytes_encode [OF assms(2)] ed_encode_inject by simp

section \<open>Digits and selection\<close>

text \<open>
  The signed radix-16 digits of \<open>ge_scalarmult\<close> and \<open>ge_scalarmult_base\<close>: 64 digits between -8 and 8
  whose value is the scalar, for every scalar below \<open>2\<^sup>2\<^sup>5\<^sup>5\<close>.
\<close>

lemma radix16_digits:
  assumes "length a = 32" "uint (a ! 31) \<le> 127"
  shows "length (sm_digits 0 a) = 64 \<and> base_val 16 (sm_digits 0 a) = le_val a
    \<and> (\<forall>i<64. - 8 \<le> sm_digits 0 a ! i \<and> sm_digits 0 a ! i \<le> 8)
    \<and> length (sb_digits a) = 64 \<and> base_val 16 (sb_digits a) = le_val a
    \<and> (\<forall>i<64. - 8 \<le> sb_digits a ! i \<and> sb_digits a ! i \<le> 8)"
  using curve.sm_digits_ok [OF assms] sb_digits_range [OF assms] sb_digits_val [OF assms(1)] by simp

text \<open>
  C34. \<open>slide\<close> rewrites a scalar below \<open>2\<^sup>2\<^sup>5\<^sup>5\<close> in place: the 256 digits have the value of the scalar and
  each is 0 or odd and between -15 and 15, so that half of it indexes a table of 8 odd multiples.
\<close>

theorem slide_digits:
  assumes "length a = 32" "le_val a < 2 ^ 255"
  shows "length (slide a) = 256 \<and> base_val 2 (slide a) = le_val a
    \<and> (\<forall>i<256. slide a ! i = 0 \<or> odd (slide a ! i) \<and> - 15 \<le> slide a ! i \<and> slide a ! i \<le> 15)"
  using slide_correct [OF assms] by blast

theorem slide_digits_witness: "base_val 2 (slide (replicate 32 85)) = le_val (replicate 32 85)"
proof -
  have "le_val (replicate 32 85) < 2 ^ 255"
    by code_simp
  then show ?thesis
    using slide_digits [of "replicate 32 85"] by simp
qed

text \<open>
  The selection without branches: for a digit between -8 and 8, \<open>select\<close> and its copy in
  \<open>ge_scalarmult\<close> return the entry of the table at the absolute value of the digit, negated for a
  negative digit, and the neutral element for 0.
\<close>

lemma select_entry:
  assumes "- 8 \<le> e" "e \<le> 8" "length row = 8" "\<forall>q\<in>set row. precomp_wf q" "length Ai = 8" "\<forall>q\<in>set Ai. cached_wf q"
  shows "select_row row (word_of_int e) =
      (let t = if e = 0 then ge_precomp_0 else row ! nat (\<bar>e\<bar> - 1) in if e < 0 then precomp_neg t else t)
    \<and> select_cached Ai (word_of_int e) =
      (let t = if e = 0 then ge_cached_0 else Ai ! nat (\<bar>e\<bar> - 1) in if e < 0 then cached_neg t else t)"
  using select_row_eq [OF assms(1-4)] select_cached_eq [OF assms(1,2,5,6)] by blast

section \<open>Scalar multiplication\<close>

lemma scalar_examples:
  "length (replicate 32 (85::byte)) = 32" "le_val (replicate 32 85) < 2 ^ 255" "uint (replicate 32 (85::byte) ! 31) \<le> 127"
  "le_val (replicate 32 85) \<noteq> 0"
  by (simp, code_simp, simp, code_simp)

text \<open>
  C4. \<open>ge_scalarmult\<close> and \<open>ge_scalarmult_p3\<close> multiply a point by a scalar: if \<open>A\<close> represents the point \<open>g\<close> of the
  curve, the results represent \<open>a * g\<close>, for every scalar below \<open>2\<^sup>2\<^sup>5\<^sup>5\<close>.
\<close>

theorem scalarmult_multiple:
  assumes "pt3 g A" "length a = 32" "uint (a ! 31) \<le> 127"
  shows "pt2 (imult (le_val a) g) (ge_scalarmult a A) \<and> pt3 (imult (le_val a) g) (ge_scalarmult_p3 a A)"
  using curve.scalarmult [OF assms] curve.scalarmult_p3 [OF assms] by blast

theorem scalarmult_multiple_witness:
  "pt2 (imult (le_val (replicate 32 85)) order4) (ge_scalarmult (replicate 32 85) point4)"
  using scalarmult_multiple [OF pt3_point4 scalar_examples(1,3)] by blast

text \<open>
  C15. The tables of \<^verbatim>\<open>crypto-ops-data.c\<close>: row \<open>i\<close> of \<open>ge_base\<close> holds the multiples \<open>1, \<dots>, 8\<close> of
  \<open>256\<^sup>i * B\<close>, and \<open>ge_Bi\<close> the multiples \<open>1, 3, \<dots>, 15\<close> of \<open>B\<close>, for the base point \<open>B\<close>; the order of \<open>B\<close> divides
  the modulus of the scalars.
\<close>

theorem base_tables_correct:
  "(\<forall>i<32. \<forall>j<8. ptm (imult (int (Suc j) * 256 ^ i) ed_base) (ge_base ! i ! j))
    \<and> (\<forall>j<8. ptm (imult (2 * int j + 1) ed_base) (ge_Bi ! j))
    \<and> imult l25519 ed_base = 0"
  using ge_base_entries ge_Bi_entries [unfolded curve.odd_base_def] base_order_l
  by (simp add: imult_mult del: of_nat_Suc)

theorem base_tables_correct_witness: "ptm (imult (int (Suc 7) * 256 ^ 31) ed_base) (ge_base ! 31 ! 7)"
proof -
  have "(31::nat) < 32" "(7::nat) < 8"
    by simp_all
  with base_tables_correct show ?thesis
    by blast
qed

text \<open>
  C14. \<open>ge_scalarmult_base\<close> returns \<open>a * B\<close> for the base point \<open>B\<close>, for every scalar below \<open>2\<^sup>2\<^sup>5\<^sup>5\<close>.
\<close>

theorem scalarmult_base_multiple:
  assumes "length a = 32" "uint (a ! 31) \<le> 127"
  shows "pt3 (imult (le_val a) ed_base) (ge_scalarmult_base a)"
  by (rule scalarmult_base_ed_base [OF assms])

theorem scalarmult_base_multiple_witness:
  "pt3 (imult (le_val (replicate 32 85)) ed_base) (ge_scalarmult_base (replicate 32 85))"
  by (rule scalarmult_base_multiple [OF scalar_examples(1,3)])

text \<open>
  \<open>ge_dsm_precomp\<close> fills its table with the multiples 1, 3, 5, ..., 15 of its argument.
\<close>

lemma dsm_precomp_odd:
  assumes "pt3 g A" "i < 8"
  shows "ptc (imult (2 * int i + 1) g) (ge_dsm_precomp A ! i)"
  using curve.dsm_table [OF assms(1)] assms(2) unfolding curve.odd_table_def by blast

definition odd_cached :: "ed_point \<Rightarrow> ge_cached list \<Rightarrow> bool" where
  "odd_cached g Ai \<longleftrightarrow> (\<forall>i<8. ptc (imult (2 * int i + 1) g) (Ai ! i))"

lemma odd_tables: "curve.odd_table = odd_cached"
  by (simp add: fun_eq_iff odd_cached_def curve.odd_table_def)

lemma odd_examples: "odd_cached order4 (ge_dsm_precomp point4)"
  using curve.dsm_table [OF pt3_point4] by (simp add: odd_tables)

text \<open>
  C16. \<open>ge_double_scalarmult_base_vartime\<close> returns \<open>a * A + b * B\<close> for the base point \<open>B\<close> and scalars below
  \<open>2\<^sup>2\<^sup>5\<^sup>5\<close>; its variant for extended coordinates returns the same point unless both scalars are 0.
\<close>

theorem double_base_multiple:
  assumes "pt3 g A" "length a = 32" "le_val a < 2 ^ 255" "length b = 32" "le_val b < 2 ^ 255"
  shows "pt2 (imult (le_val a) g + imult (le_val b) ed_base) (ge_double_scalarmult_base_vartime a A b)
    \<and> (le_val a \<noteq> 0 \<or> le_val b \<noteq> 0 \<longrightarrow>
        (\<exists>r. ge_double_scalarmult_base_vartime_p3 a A b = Some r \<and> pt3 (imult (le_val a) g + imult (le_val b) ed_base) r))"
  using double_base_ed_base [OF assms] double_base_p3_ed_base [OF assms] by blast

theorem double_base_multiple_witness:
  "pt2 (imult (le_val (replicate 32 85)) order4 + imult (le_val (replicate 32 85)) ed_base)
    (ge_double_scalarmult_base_vartime (replicate 32 85) point4 (replicate 32 85))"
  using double_base_multiple [OF pt3_point4 scalar_examples(1,2) scalar_examples(1,2)] by blast

text \<open>
  C18. The variants \<open>ge_double_scalarmult_base_vartime_p3\<close> and \<open>ge_double_scalarmult_precomp_vartime2_p3\<close> leave
  their result unwritten exactly if both scalars are 0: their loops write it in round 0 only, and no
  round is entered.
\<close>

theorem double_p3_unwritten:
  assumes "length a = 32" "le_val a < 2 ^ 255" "length b = 32" "le_val b < 2 ^ 255"
  shows "(ge_double_scalarmult_base_vartime_p3 a A b = None \<longleftrightarrow> le_val a = 0 \<and> le_val b = 0)
    \<and> (ge_double_scalarmult_precomp_vartime2_p3 a Ai b Ci = None \<longleftrightarrow> le_val a = 0 \<and> le_val b = 0)"
  unfolding ge_double_scalarmult_base_vartime_p3_def double_scalarmult_base_vartime_p3_def
    ge_double_scalarmult_precomp_vartime2_p3_def Let_def p3_unwritten [OF assms] by simp

theorem double_p3_unwritten_witness:
  "ge_double_scalarmult_base_vartime_p3 (replicate 32 0) point4 (replicate 32 0) = None"
  using double_p3_unwritten [of "replicate 32 0" "replicate 32 0" point4] by (simp add: le_val_replicate_0)

text \<open>
  \<open>ge_double_scalarmult_precomp_vartime2\<close>, its variant for extended coordinates and
  \<open>ge_double_scalarmult_precomp_vartime\<close> return \<open>a * A + b * B\<close> from tables of odd multiples.
\<close>

lemma double_precomp_multiple:
  assumes "pt3 g A" "odd_cached h Bi"
    "length a = 32" "le_val a < 2 ^ 255" "length b = 32" "le_val b < 2 ^ 255" "le_val a \<noteq> 0 \<or> le_val b \<noteq> 0"
  shows "pt2 (imult (le_val a) g + imult (le_val b) h) (ge_double_scalarmult_precomp_vartime a A b Bi)
    \<and> pt2 (imult (le_val a) g + imult (le_val b) h) (ge_double_scalarmult_precomp_vartime2 a (ge_dsm_precomp A) b Bi)
    \<and> (\<exists>r. ge_double_scalarmult_precomp_vartime2_p3 a (ge_dsm_precomp A) b Bi = Some r
        \<and> pt3 (imult (le_val a) g + imult (le_val b) h) r)"
  using curve.double_precomp [OF curve.dsm_table [OF assms(1)] assms(2) [folded odd_tables] assms(3-6)]
    curve.double_precomp_p3 [OF curve.dsm_table [OF assms(1)] assms(2) [folded odd_tables] assms(3-7)]
  by (simp add: ge_double_scalarmult_precomp_vartime_def Let_def)

text \<open>
  C27. \<open>ge_triple_scalarmult_base_vartime\<close> and \<open>ge_triple_scalarmult_precomp_vartime\<close> return
  \<open>a * A + b * B + c * C\<close>, the first with the base point as \<open>A\<close>, the second from a third table.
\<close>

theorem triple_multiple:
  assumes "odd_cached g Ai" "odd_cached h Bi" "odd_cached k Ci"
    "length a = 32" "le_val a < 2 ^ 255" "length b = 32" "le_val b < 2 ^ 255" "length c = 32" "le_val c < 2 ^ 255"
  shows "pt2 (imult (le_val a) ed_base + imult (le_val b) h + imult (le_val c) k)
        (ge_triple_scalarmult_base_vartime a b Bi c Ci)
    \<and> pt2 (imult (le_val a) g + imult (le_val b) h + imult (le_val c) k)
        (ge_triple_scalarmult_precomp_vartime a Ai b Bi c Ci)"
  using triple_base_ed_base [OF assms(2-9) [folded odd_tables]]
    curve.triple_precomp [OF assms [folded odd_tables]] by blast

theorem triple_multiple_witness:
  "pt2 (imult (le_val (replicate 32 85)) ed_base + imult (le_val (replicate 32 85)) order4
      + imult (le_val (replicate 32 85)) order4)
    (ge_triple_scalarmult_base_vartime (replicate 32 85) (replicate 32 85)
      (ge_dsm_precomp point4) (replicate 32 85) (ge_dsm_precomp point4))"
  using triple_multiple [OF odd_examples odd_examples odd_examples scalar_examples(1,2) scalar_examples(1,2)
      scalar_examples(1,2)] by blast
end
